(* ===== verification/Prelude.thy ===== *)
theory Prelude
  imports "HOL-Library.Word" "HOL-Library.AList" Complex_Main
begin

text \<open>
  Shared vocabulary of the development.

  \<^item> Rust's machine integers are words of their width, so that \<open>+\<close>, \<open>-\<close> and \<open>*\<close> wrap around as
    in a release build (the workspace sets no \<open>overflow-checks\<close>); \<open>checked_add\<close> and its
    companions are the explicit checked operations of the standard library.
  \<^item> A fallible computation returns a \<open>result\<close>: \<open>Ok\<close>, \<open>Err\<close>, or \<open>Panic\<close> for a failed
    \<open>assert!\<close>, \<open>unwrap\<close>, \<open>expect\<close> or \<open>panic!\<close>.
  \<^item> A method with a \<open>&mut self\<close> (or interior mutability) is a function from the state to
    a result and the new state; \<open>sbind\<close> is the \<open>?\<close> operator on such methods.
  \<^item> A \<open>HashMap\<close> is an association list with distinct keys, the list being its iteration
    order, and a \<open>HashSet\<close> is a list of distinct elements; statements quantify over the
    lists, hence over every iteration order.
\<close>

section \<open>Machine integers\<close>

type_synonym u32 = "32 word"
type_synonym u64 = "64 word"
type_synonym u128 = "128 word"
type_synonym usize = "64 word"

definition checked_add :: "'a::len word \<Rightarrow> 'a word \<Rightarrow> 'a word option" where
  "checked_add x y = (if unat x + unat y < 2 ^ LENGTH('a) then Some (x + y) else None)"

definition checked_sub :: "'a::len word \<Rightarrow> 'a word \<Rightarrow> 'a word option" where
  "checked_sub x y = (if y \<le> x then Some (x - y) else None)"

definition checked_mul :: "'a::len word \<Rightarrow> 'a word \<Rightarrow> 'a word option" where
  "checked_mul x y = (if unat x * unat y < 2 ^ LENGTH('a) then Some (x * y) else None)"

definition saturating_sub :: "'a::len word \<Rightarrow> 'a word \<Rightarrow> 'a word" where
  "saturating_sub x y = (if y \<le> x then x - y else 0)"

section \<open>Results and state-passing computations\<close>

datatype ('e, 'a) result = Ok 'a | Err 'e | Panic string

fun map_err :: "('e \<Rightarrow> 'f) \<Rightarrow> ('e, 'a) result \<Rightarrow> ('f, 'a) result" where
  "map_err f (Ok a) = Ok a"
| "map_err f (Err e) = Err (f e)"
| "map_err f (Panic p) = Panic p"

fun rbind :: "('e, 'a) result \<Rightarrow> ('a \<Rightarrow> ('e, 'b) result) \<Rightarrow> ('e, 'b) result" where
  "rbind (Ok a) f = f a"
| "rbind (Err e) f = Err e"
| "rbind (Panic p) f = Panic p"

fun is_ok :: "('e, 'a) result \<Rightarrow> bool" where
  "is_ok (Ok a) = True"
| "is_ok r = False"

fun is_panic :: "('e, 'a) result \<Rightarrow> bool" where
  "is_panic (Panic p) = True"
| "is_panic r = False"

type_synonym ('s, 'e, 'a) action = "'s \<Rightarrow> ('e, 'a) result \<times> 's"

definition sret :: "'a \<Rightarrow> ('s, 'e, 'a) action" where
  "sret a = (\<lambda>s. (Ok a, s))"

definition sbind :: "('s, 'e, 'a) action \<Rightarrow> ('a \<Rightarrow> ('s, 'e, 'b) action) \<Rightarrow> ('s, 'e, 'b) action" where
  "sbind m f = (\<lambda>s. case m s of
       (Ok a, s') \<Rightarrow> f a s'
     | (Err e, s') \<Rightarrow> (Err e, s')
     | (Panic p, s') \<Rightarrow> (Panic p, s'))"

definition smap_err :: "('e \<Rightarrow> 'f) \<Rightarrow> ('s, 'e, 'a) action \<Rightarrow> ('s, 'f, 'a) action" where
  "smap_err f m = (\<lambda>s. (map_err f (fst (m s)), snd (m s)))"

fun sfor :: "'x list \<Rightarrow> ('x \<Rightarrow> ('s, 'e, unit) action) \<Rightarrow> ('s, 'e, unit) action" where
  "sfor [] body = sret ()"
| "sfor (x # xs) body = sbind (body x) (\<lambda>_. sfor xs body)"

definition slift :: "('e, 'a) result \<Rightarrow> ('s, 'e, 'a) action" where
  "slift r = (\<lambda>s. (r, s))"

definition keeps :: "('s \<Rightarrow> bool) \<Rightarrow> ('s, 'e, 'a) action \<Rightarrow> bool" where
  "keeps P m \<longleftrightarrow> (\<forall>s. P s \<longrightarrow> P (snd (m s)))"

section \<open>Hash maps and hash sets\<close>

type_synonym ('k, 'v) HashMap = "('k \<times> 'v) list"
type_synonym 'a HashSet = "'a list"

definition hm_wf :: "('k, 'v) HashMap \<Rightarrow> bool" where
  "hm_wf m \<longleftrightarrow> distinct (map fst m)"

definition hm_insert :: "'k \<Rightarrow> 'v \<Rightarrow> ('k, 'v) HashMap \<Rightarrow> ('k, 'v) HashMap" where
  "hm_insert k v m = AList.update k v m"

definition hm_remove :: "'k \<Rightarrow> ('k, 'v) HashMap \<Rightarrow> ('k, 'v) HashMap" where
  "hm_remove k m = AList.delete k m"

definition hm_extend :: "('k, 'v) HashMap \<Rightarrow> ('k, 'v) HashMap \<Rightarrow> ('k, 'v) HashMap" where
  "hm_extend m other = AList.merge m other"

definition hm_contains :: "('k, 'v) HashMap \<Rightarrow> 'k \<Rightarrow> bool" where
  "hm_contains m k \<longleftrightarrow> map_of m k \<noteq> None"

definition hm_keys :: "('k, 'v) HashMap \<Rightarrow> 'k list" where
  "hm_keys m = map fst m"

definition hm_values :: "('k, 'v) HashMap \<Rightarrow> 'v list" where
  "hm_values m = map snd m"

definition hm_len :: "('k, 'v) HashMap \<Rightarrow> usize" where
  "hm_len m = of_nat (length m)"

definition vec_len :: "'a list \<Rightarrow> usize" where
  "vec_len xs = of_nat (length xs)"

definition hs_insert :: "'a \<Rightarrow> 'a HashSet \<Rightarrow> 'a HashSet" where
  "hs_insert x A = (if x \<in> set A then A else A @ [x])"

definition hs_extend :: "'a HashSet \<Rightarrow> 'a list \<Rightarrow> 'a HashSet" where
  "hs_extend A xs = fold hs_insert xs A"

definition hs_from :: "'a list \<Rightarrow> 'a HashSet" where
  "hs_from xs = hs_extend [] xs"

definition hs_difference :: "'a HashSet \<Rightarrow> 'a HashSet \<Rightarrow> 'a HashSet" where
  "hs_difference A B = filter (\<lambda>x. x \<notin> set B) A"

definition hs_remove :: "'a \<Rightarrow> 'a HashSet \<Rightarrow> 'a HashSet" where
  "hs_remove x A = filter (\<lambda>y. y \<noteq> x) A"

definition hs_len :: "'a HashSet \<Rightarrow> usize" where
  "hs_len A = of_nat (length A)"

named_theorems hm_simps "lookups and well-formedness of hash maps and hash sets"
named_theorems action_defs "unfolding of state-passing computations"
named_theorems keeps_intros "introduction rules for predicates kept by computations"

section \<open>Lemmas\<close>

lemma map_err_eq_iff [simp]:
  "map_err f r = Ok a \<longleftrightarrow> r = Ok a"
  "Ok a = map_err f r \<longleftrightarrow> r = Ok a"
  "map_err f r = Panic p \<longleftrightarrow> r = Panic p"
  by (cases r; auto)+

lemma map_err_Err_iff [simp]: "map_err f r = Err e \<longleftrightarrow> (\<exists>e'. r = Err e' \<and> e = f e')"
  by (cases r) auto

lemma rbind_Ok_iff: "rbind r f = Ok b \<longleftrightarrow> (\<exists>a. r = Ok a \<and> f a = Ok b)"
  by (cases r) auto

lemma is_ok_iff: "is_ok r \<longleftrightarrow> (\<exists>a. r = Ok a)"
  by (cases r) auto

lemma sret_apply [simp]: "sret a s = (Ok a, s)"
  by (simp add: sret_def)

lemma sbind_apply [action_defs]:
  "sbind m f s = (case m s of
       (Ok a, s') \<Rightarrow> f a s'
     | (Err e, s') \<Rightarrow> (Err e, s')
     | (Panic p, s') \<Rightarrow> (Panic p, s'))"
  by (simp add: sbind_def)

lemma sbind_run:
  "m s = (Ok a, s') \<Longrightarrow> sbind m f s = f a s'"
  "m s = (Err e, s') \<Longrightarrow> sbind m f s = (Err e, s')"
  "m s = (Panic p, s') \<Longrightarrow> sbind m f s = (Panic p, s')"
  by (simp_all add: sbind_def)

lemma sbind_OkE:
  assumes "sbind m f s = (Ok b, s')"
  obtains a t where "m s = (Ok a, t)" and "f a t = (Ok b, s')"
  using assms by (auto simp: sbind_def split: prod.splits result.splits)

lemma slift_apply [simp]: "slift r s = (r, s)"
  by (simp add: slift_def)

lemma keepsD: "keeps P m \<Longrightarrow> P s \<Longrightarrow> P (snd (m s))"
  by (simp add: keeps_def)

lemma keepsI: "(\<And>s. P s \<Longrightarrow> P (snd (m s))) \<Longrightarrow> keeps P m"
  by (simp add: keeps_def)

lemma keeps_run: "keeps P m \<Longrightarrow> P s \<Longrightarrow> m s = (r, s') \<Longrightarrow> P s'"
  by (drule (1) keepsD) simp

lemma keeps_sret [keeps_intros]: "keeps P (sret a)"
  by (simp add: keeps_def)

lemma keeps_slift [keeps_intros]: "keeps P (slift r)"
  by (simp add: keeps_def)

lemma keeps_sbind [keeps_intros]:
  assumes "keeps P m" and "\<And>a. keeps P (f a)"
  shows "keeps P (sbind m f)"
proof (rule keepsI)
  fix s
  assume "P s"
  then show "P (snd (sbind m f s))"
    using keepsD [OF assms(1), of s] keepsD [OF assms(2)]
    by (cases "m s"; cases "fst (m s)") (simp_all add: sbind_def)
qed

lemma smap_err_snd [simp]: "snd (smap_err f m s) = snd (m s)"
  by (simp add: smap_err_def)

lemma keeps_smap_err [keeps_intros]: "keeps P m \<Longrightarrow> keeps P (smap_err f m)"
  by (simp add: keeps_def)

lemma keeps_sfor [keeps_intros]:
  assumes "\<And>x. x \<in> set xs \<Longrightarrow> keeps P (body x)"
  shows "keeps P (sfor xs body)"
  using assms by (induction xs) (auto intro: keeps_intros)

lemma sfor_establishes:
  assumes "\<And>x s s'. body x s = (Ok (), s') \<Longrightarrow> Q x s'" and "\<And>x y. keeps (Q y) (body x)"
  shows "sfor xs body s = (Ok (), s') \<Longrightarrow> x \<in> set xs \<Longrightarrow> Q x s'"
proof (induction xs arbitrary: s)
  case (Cons y xs)
  from Cons.prems(1) obtain t where y: "body y s = (Ok (), t)" and rest: "sfor xs body t = (Ok (), s')"
    by (auto elim: sbind_OkE)
  have "Q x s'" if "x = y"
    using keeps_run [OF keeps_sfor [OF assms(2)] assms(1) [OF y] rest] that by simp
  then show ?case
    using Cons.IH [OF rest] Cons.prems(2) by auto
qed simp

lemma sfor_Ok:
  assumes "\<And>x s. x \<in> set xs \<Longrightarrow> P s \<Longrightarrow> fst (body x s) = Ok () \<and> P (snd (body x s))" and "P s"
  shows "fst (sfor xs body s) = Ok () \<and> P (snd (sfor xs body s))"
  using assms
proof (induction xs arbitrary: s)
  case (Cons x xs)
  obtain t where "body x s = (Ok (), t)" and "P t"
    using Cons.prems(1) [of x s] Cons.prems(2) by (metis list.set_intros(1) prod.collapse)
  then show ?case
    using Cons.IH [of t] Cons.prems(1) by (simp add: sbind_def)
qed simp

lemma sfor_run:
  assumes "\<And>x s. x \<in> set xs \<Longrightarrow> P s \<Longrightarrow> fst (body x s) = Ok () \<and> P (snd (body x s))" and "P s"
  obtains t where "sfor xs body s = (Ok (), t)" and "P t"
  using sfor_Ok [of xs P body s, OF assms] by (cases "sfor xs body s") auto

lemma keeps_if [keeps_intros]: "keeps P m \<Longrightarrow> keeps P m' \<Longrightarrow> keeps P (if b then m else m')"
  by simp

subsection \<open>Hash maps\<close>

lemma map_of_hm_insert [simp, hm_simps]: "map_of (hm_insert k v m) = (map_of m)(k \<mapsto> v)"
  by (simp add: hm_insert_def update_conv')

lemma map_of_hm_remove [simp, hm_simps]: "map_of (hm_remove k m) = (map_of m)(k := None)"
  by (simp add: hm_remove_def delete_conv')

lemma map_of_hm_extend [simp, hm_simps]: "map_of (hm_extend m other) = map_of m ++ map_of other"
  by (simp add: hm_extend_def merge_conv')

lemma hm_wf_Nil [simp, intro]: "hm_wf []"
  by (simp add: hm_wf_def)

lemma hm_wf_insert [simp, intro]: "hm_wf m \<Longrightarrow> hm_wf (hm_insert k v m)"
  by (simp add: hm_wf_def hm_insert_def distinct_update)

lemma hm_wf_remove [simp, intro]: "hm_wf m \<Longrightarrow> hm_wf (hm_remove k m)"
  by (simp add: hm_wf_def hm_remove_def distinct_delete)

lemma hm_wf_extend [simp, intro]: "hm_wf m \<Longrightarrow> hm_wf (hm_extend m other)"
  by (simp add: hm_wf_def hm_extend_def distinct_merge)

lemma hm_wf_filter [simp, intro]: "hm_wf m \<Longrightarrow> hm_wf (filter P m)"
  by (simp add: hm_wf_def distinct_map_filter)

lemma hm_extend_empty [simp]: "hm_extend m [] = m"
  by (simp add: hm_extend_def)

lemma map_of_filter_hm:
  assumes "hm_wf m"
  shows "map_of (filter P m) k =
    (case map_of m k of None \<Rightarrow> None | Some v \<Rightarrow> if P (k, v) then Some v else None)"
  using assms
proof (induction m)
  case (Cons p m)
  have "map_of m (fst p) = None"
    using Cons.prems by (simp add: hm_wf_def map_of_eq_None_iff)
  then show ?case
    using Cons by (cases p) (auto simp: hm_wf_def split: option.splits)
qed simp

lemma set_hm_keys [simp]: "set (hm_keys m) = dom (map_of m)"
  by (simp add: hm_keys_def dom_map_of_conv_image_fst)

lemma hm_contains_iff [simp]: "hm_contains m k \<longleftrightarrow> k \<in> dom (map_of m)"
  by (auto simp: hm_contains_def)

lemma hm_wf_card: "hm_wf m \<Longrightarrow> card (dom (map_of m)) = length m"
  by (metis distinct_card dom_map_of_conv_image_fst hm_wf_def length_map list.set_map)

lemma hm_wf_keys: "hm_wf m \<Longrightarrow> distinct (hm_keys m)"
  by (simp add: hm_wf_def hm_keys_def)

subsection \<open>Hash sets\<close>

lemma set_hs_insert [simp, hm_simps]: "set (hs_insert x A) = insert x (set A)"
  by (auto simp: hs_insert_def)

lemma distinct_hs_insert [simp, intro]: "distinct A \<Longrightarrow> distinct (hs_insert x A)"
  by (auto simp: hs_insert_def)

lemma set_hs_extend [simp, hm_simps]: "set (hs_extend A xs) = set A \<union> set xs"
  by (induction xs arbitrary: A) (auto simp: hs_extend_def)

lemma distinct_hs_extend [simp, intro]: "distinct A \<Longrightarrow> distinct (hs_extend A xs)"
  by (induction xs arbitrary: A) (auto simp: hs_extend_def)

lemma set_hs_from [simp, hm_simps]: "set (hs_from xs) = set xs"
  by (simp add: hs_from_def)

lemma distinct_hs_from [simp, intro]: "distinct (hs_from xs)"
  by (simp add: hs_from_def)

lemma set_hs_difference [simp, hm_simps]: "set (hs_difference A B) = set A - set B"
  by (auto simp: hs_difference_def)

lemma distinct_hs_difference [simp, intro]: "distinct A \<Longrightarrow> distinct (hs_difference A B)"
  by (simp add: hs_difference_def)

lemma set_hs_remove [simp, hm_simps]: "set (hs_remove x A) = set A - {x}"
  by (auto simp: hs_remove_def)

lemma distinct_hs_remove [simp, intro]: "distinct A \<Longrightarrow> distinct (hs_remove x A)"
  by (simp add: hs_remove_def)

lemma length_hs_extend_difference:
  assumes "distinct A" and "distinct B"
  shows "length (hs_extend A (hs_difference B A)) = length A + length (hs_difference B A)"
proof -
  have "length (hs_extend A (hs_difference B A)) = card (set A \<union> (set B - set A))"
    using assms by (metis distinct_card distinct_hs_extend set_hs_difference set_hs_extend)
  also have "\<dots> = card (set A) + card (set B - set A)"
    by (rule card_Un_disjoint) auto
  finally show ?thesis
    using assms by (metis distinct_card distinct_hs_difference set_hs_difference)
qed

subsection \<open>Words as natural numbers\<close>

lemma unat_less_2p: "unat w < 2 ^ LENGTH('a)"
  for w :: "'a::len word"
  by (rule unsigned_less)

lemma unat_u64_less: "unat w < 2 ^ 64"
  for w :: u64
  using unat_less_2p [of w] by simp

lemma unat_u128_less: "unat w < 2 ^ 128"
  for w :: u128
  using unat_less_2p [of w] by simp

lemma unat_of_nat_small: "n < 2 ^ LENGTH('a) \<Longrightarrow> unat (of_nat n :: 'a::len word) = n"
  by (simp add: unat_of_nat)

lemma unat_plus_exact:
  "unat x + unat y < 2 ^ LENGTH('a) \<Longrightarrow> unat (x + y) = unat x + unat y"
  for x y :: "'a::len word"
  by (rule unat_add_lem [THEN iffD1])

lemma unat_mult_exact:
  "unat x * unat y < 2 ^ LENGTH('a) \<Longrightarrow> unat (x * y) = unat x * unat y"
  for x y :: "'a::len word"
  by (rule unat_mult_lem [THEN iffD1])

subsection \<open>Checked arithmetic\<close>

lemma checked_add_Some:
  "checked_add x y = Some z \<longleftrightarrow> unat x + unat y < 2 ^ LENGTH('a) \<and> unat z = unat x + unat y"
  for x y z :: "'a::len word"
  by (auto simp: checked_add_def word_unat_eq_iff dest: unat_add_lem [THEN iffD1])

lemma checked_mul_Some:
  "checked_mul x y = Some z \<longleftrightarrow> unat x * unat y < 2 ^ LENGTH('a) \<and> unat z = unat x * unat y"
  for x y z :: "'a::len word"
  by (auto simp: checked_mul_def word_unat_eq_iff dest: unat_mult_lem [THEN iffD1])

lemma checked_sub_Some:
  "checked_sub x y = Some z \<longleftrightarrow> unat y \<le> unat x \<and> unat z = unat x - unat y"
  for x y z :: "'a::len word"
  by (auto simp: checked_sub_def word_le_nat_alt unat_sub word_unat_eq_iff)

end
