(* ===== verification/Starknet_Types.thy ===== *)
theory Starknet_Types
  imports Prelude
begin

text \<open>
  The data the components exchange: the newtypes of \<open>starknet_api\<close> (field elements are
  natural numbers, a newtype around one is that number), contract classes
  (\<open>execution/contract_class.rs\<close>), the resource counters of the Cairo VM, the errors of the
  state layer (\<open>state/errors.rs\<close>), and the numeric helpers of \<open>utils.rs\<close>.

  Code outside the repository is not defined here. \<open>Externals\<close> is a record of the
  third-party functions the sources call; every definition that needs one of them takes
  such a record as its argument \<open>E\<close>, and the laws a statement relies on are the named
  predicates \<open>resource_laws\<close>, \<open>builtin_laws\<close>, \<open>ratio_laws\<close> and \<open>address_laws\<close>.
\<close>

section \<open>Field elements and identifiers\<close>

type_synonym StarkFelt = nat
type_synonym ContractAddress = nat
type_synonym ClassHash = nat
type_synonym CompiledClassHash = nat
type_synonym Nonce = nat
type_synonym StorageKey = nat
type_synonym EntryPointSelector = nat
type_synonym EthAddress = nat
type_synonym StorageEntry = "ContractAddress \<times> StorageKey"
type_synonym Fee = u128

definition PRIME :: nat where
  "PRIME = 2 ^ 251 + 17 * 2 ^ 192 + 1"

section \<open>Resource counters of the Cairo VM\<close>

record ExecutionResources =
  er_n_steps :: usize
  er_n_memory_holes :: usize
  er_builtin_instance_counter :: "(string, usize) HashMap"

definition er_default :: ExecutionResources where
  "er_default = \<lparr>er_n_steps = 0, er_n_memory_holes = 0, er_builtin_instance_counter = []\<rparr>"

record Ratio =
  rt_numer :: u128
  rt_denom :: u128

type_synonym ResourceCost = Ratio

section \<open>Third-party functions\<close>

datatype Builtin =
    OUTPUT | HASH | RANGE_CHECK | SIGNATURE | BITWISE | EC_OP | KECCAK | POSEIDON | SEGMENT_ARENA

record Externals =
  builtin_name :: "Builtin \<Rightarrow> string"
  er_add :: "ExecutionResources \<Rightarrow> ExecutionResources \<Rightarrow> ExecutionResources"
  er_sub :: "ExecutionResources \<Rightarrow> ExecutionResources \<Rightarrow> ExecutionResources"
  er_mul :: "ExecutionResources \<Rightarrow> usize \<Rightarrow> ExecutionResources"
  er_filter_unused_builtins :: "ExecutionResources \<Rightarrow> ExecutionResources"
  ratio_mul :: "Ratio \<Rightarrow> Ratio \<Rightarrow> Ratio"
  ratio_mul_int :: "Ratio \<Rightarrow> u128 \<Rightarrow> Ratio"
  ratio_add_int :: "Ratio \<Rightarrow> u128 \<Rightarrow> Ratio"
  ratio_inv :: "Ratio \<Rightarrow> Ratio"
  ratio_ceil :: "Ratio \<Rightarrow> Ratio"
  ratio_to_integer :: "Ratio \<Rightarrow> u128"
  keccak256 :: "8 word list \<Rightarrow> 8 word list"
  pedersen_hash :: "StarkFelt \<Rightarrow> StarkFelt \<Rightarrow> StarkFelt"
  l2_address_upper_bound :: nat
  patricia_key_upper_bound :: nat
  calculate_contract_address ::
    "StarkFelt \<Rightarrow> ClassHash \<Rightarrow> StarkFelt list \<Rightarrow> ContractAddress \<Rightarrow> ContractAddress option"

definition builtin_count :: "ExecutionResources \<Rightarrow> string \<Rightarrow> usize" where
  "builtin_count r name = (case map_of (er_builtin_instance_counter r) name of Some n \<Rightarrow> n | None \<Rightarrow> 0)"

definition resource_laws :: "'a Externals_scheme \<Rightarrow> bool" where
  "resource_laws E \<longleftrightarrow>
     (\<forall>a b. er_n_steps (er_add E a b) = er_n_steps a + er_n_steps b
          \<and> er_n_memory_holes (er_add E a b) = er_n_memory_holes a + er_n_memory_holes b
          \<and> (\<forall>name. builtin_count (er_add E a b) name = builtin_count a name + builtin_count b name))
   \<and> (\<forall>a n. er_n_steps (er_mul E a n) = er_n_steps a * n
          \<and> er_n_memory_holes (er_mul E a n) = er_n_memory_holes a * n
          \<and> (\<forall>name. builtin_count (er_mul E a n) name = builtin_count a name * n))
   \<and> (\<forall>a. er_n_steps (er_filter_unused_builtins E a) = er_n_steps a
          \<and> er_n_memory_holes (er_filter_unused_builtins E a) = er_n_memory_holes a
          \<and> (\<forall>name. builtin_count (er_filter_unused_builtins E a) name = builtin_count a name))"

definition builtin_laws :: "'a Externals_scheme \<Rightarrow> bool" where
  "builtin_laws E \<longleftrightarrow> inj (builtin_name E) \<and> (\<forall>b. builtin_name E b \<noteq> ''n_steps'')"

definition ratio_val :: "Ratio \<Rightarrow> rat" where
  "ratio_val r = of_nat (unat (rt_numer r)) / of_nat (unat (rt_denom r))"

definition ratio_wf :: "Ratio \<Rightarrow> bool" where
  "ratio_wf r \<longleftrightarrow> rt_denom r \<noteq> 0"

definition ratio_laws :: "'a Externals_scheme \<Rightarrow> bool" where
  "ratio_laws E \<longleftrightarrow>
     (\<forall>r n. ratio_wf r \<and> unat (rt_numer r) * unat n < 2 ^ 128 \<longrightarrow>
        ratio_wf (ratio_mul_int E r n) \<and> ratio_val (ratio_mul_int E r n) = ratio_val r * of_nat (unat n)
      \<and> unat (rt_numer (ratio_mul_int E r n)) \<le> unat (rt_numer r) * unat n
      \<and> unat (rt_denom (ratio_mul_int E r n)) \<le> unat (rt_denom r))
   \<and> (\<forall>r n. ratio_wf r \<and> unat (rt_numer r) + unat (rt_denom r) * unat n < 2 ^ 128 \<longrightarrow>
        ratio_wf (ratio_add_int E r n) \<and> ratio_val (ratio_add_int E r n) = ratio_val r + of_nat (unat n))
   \<and> (\<forall>r. ratio_wf r \<and> rt_numer r \<noteq> 0 \<longrightarrow>
        ratio_wf (ratio_inv E r) \<and> ratio_val (ratio_inv E r) = inverse (ratio_val r)
      \<and> rt_numer (ratio_inv E r) = rt_denom r)
   \<and> (\<forall>r. ratio_wf r \<and> unat (rt_numer r) + unat (rt_denom r) \<le> 2 ^ 128 \<longrightarrow>
        int (unat (ratio_to_integer E (ratio_ceil E r))) = ceiling (ratio_val r))
   \<and> (\<forall>r. ratio_wf r \<longrightarrow> int (unat (ratio_to_integer E r)) = floor (ratio_val r))"

definition address_laws :: "'a Externals_scheme \<Rightarrow> bool" where
  "address_laws E \<longleftrightarrow> 0 < l2_address_upper_bound E
     \<and> l2_address_upper_bound E < patricia_key_upper_bound E \<and> patricia_key_upper_bound E < PRIME"

section \<open>Contract classes\<close>

datatype NestedIntList = Leaf usize | Node "NestedIntList list"

datatype EntryPointType = Constructor | External | L1Handler

record Program =
  program_id :: nat
  program_data_len :: usize
  program_builtins_len :: usize

record EntryPointV0 =
  ep0_selector :: EntryPointSelector
  ep0_offset :: usize

record EntryPointV1 =
  ep1_selector :: EntryPointSelector
  ep1_offset :: usize
  ep1_builtins :: "string list"

record ContractClassV0 =
  v0_program :: Program
  v0_entry_points_by_type :: "(EntryPointType, EntryPointV0 list) HashMap"

record ContractClassV1 =
  v1_program :: Program
  v1_entry_points_by_type :: "(EntryPointType, EntryPointV1 list) HashMap"
  v1_bytecode_segment_lengths :: NestedIntList

datatype ContractClass = V0 ContractClassV0 | V1 ContractClassV1

type_synonym ContractClassMapping = "(ClassHash, ContractClass) HashMap"

section \<open>Errors of the state layer\<close>

datatype StateError =
    OldBlockHashNotProvided
  | OutOfRangeContractAddress
  | ProgramError string
  | UnavailableContractAddress ContractAddress
  | UndeclaredClassHash ClassHash
  | StarknetApiError string
  | StateReadError string

section \<open>Helpers of utils.rs\<close>

definition subtract_mappings :: "('k, 'v) HashMap \<Rightarrow> ('k, 'v) HashMap \<Rightarrow> ('k, 'v) HashMap" where
  "subtract_mappings source subtract = filter (\<lambda>(k, v). map_of subtract k \<noteq> Some v) source"

definition strict_subtract_mappings ::
    "('k, 'v) HashMap \<Rightarrow> ('k, 'v) HashMap \<Rightarrow> ('e, ('k, 'v) HashMap) result" where
  "strict_subtract_mappings source subtract =
     (if \<forall>k \<in> set (hm_keys source). map_of subtract k \<noteq> None
      then Ok (filter (\<lambda>(k, v). map_of subtract k \<noteq> Some v) source)
      else Panic ''The source mapping keys are not a subset of the subtract mapping keys'')"

definition const_max :: "u128 \<Rightarrow> u128 \<Rightarrow> u128" where
  "const_max a b = [a, b] ! (if a < b then 1 else 0)"

datatype NumericConversionError = U128ToUsizeError u128

definition usize_from_u128 :: "u128 \<Rightarrow> (NumericConversionError, usize) result" where
  "usize_from_u128 val = (if unat val < 2 ^ 64 then Ok (ucast val) else Err (U128ToUsizeError val))"

definition u128_from_usize :: "usize \<Rightarrow> u128" where
  "u128_from_usize val = ucast val"

definition u128_div_ceil :: "u128 \<Rightarrow> u128 \<Rightarrow> u128" where
  "u128_div_ceil a b = (let result = a div b in if result * b < a then result + 1 else result)"

section \<open>Lemmas\<close>

lemma map_of_subtract_mappings:
  assumes "hm_wf source"
  shows "map_of (subtract_mappings source subtract) k =
    (case map_of source k of
       None \<Rightarrow> None
     | Some v \<Rightarrow> if map_of subtract k = Some v then None else Some v)"
  using assms by (simp add: subtract_mappings_def map_of_filter_hm split: option.splits)

lemma strict_subtract_mappings_Ok:
  assumes "dom (map_of source) \<subseteq> dom (map_of subtract)"
  shows "strict_subtract_mappings source subtract = Ok (subtract_mappings source subtract)"
  using assms by (auto simp: strict_subtract_mappings_def subtract_mappings_def)

lemma strict_subtract_mappings_Panic:
  assumes "\<not> dom (map_of source) \<subseteq> dom (map_of subtract)"
  shows "is_panic (strict_subtract_mappings source subtract)"
  using assms by (auto simp: strict_subtract_mappings_def)

lemma hm_wf_subtract_mappings [simp, intro]:
  "hm_wf source \<Longrightarrow> hm_wf (subtract_mappings source subtract)"
  by (simp add: subtract_mappings_def)

lemma const_max_eq: "const_max a b = max a b"
  by (auto simp: const_max_def max_def)

lemma unat_u128_from_usize [simp]: "unat (u128_from_usize x) = unat x"
  using unat_u64_less [of x]
  by (simp add: u128_from_usize_def unsigned_ucast_eq take_bit_nat_eq_self)

lemma usize_from_u128_from_usize [simp]: "usize_from_u128 (u128_from_usize x) = Ok x"
  using unat_u64_less [of x] unat_u128_from_usize [of x]
  by (simp add: usize_from_u128_def u128_from_usize_def ucast_up_ucast_id is_up)

lemma u128_div_ceil_bounds:
  assumes "b \<noteq> 0"
  shows "unat a \<le> unat (u128_div_ceil a b) * unat b"
    and "unat (u128_div_ceil a b) * unat b < unat a + unat b"
proof -
  have pos: "0 < unat b"
    using assms by (simp add: unat_gt_0)
  define q where "q = unat a div unat b"
  have q: "unat (a div b) = q"
    by (simp add: q_def unat_div)
  have split: "unat a = q * unat b + unat a mod unat b"
    by (simp add: q_def)
  have rem: "unat a mod unat b < unat b"
    using pos by simp
  have prod: "unat (a div b * b) = q * unat b"
    using split unat_u128_less [of a] by (subst unat_mult_exact) (simp_all add: q)
  have succ: "unat (a div b + 1) = q + 1" if "q * unat b < unat a"
  proof -
    have "q \<le> q * unat b"
      using pos by simp
    then have "q < unat a"
      using that by (rule le_less_trans)
    then show ?thesis
      using unat_u128_less [of a] by (subst unat_plus_exact) (simp_all add: q)
  qed
  show "unat a \<le> unat (u128_div_ceil a b) * unat b"
    and "unat (u128_div_ceil a b) * unat b < unat a + unat b"
    using split rem succ
    by (auto simp: u128_div_ceil_def word_less_nat_alt prod q Let_def)
qed

lemma unat_u128_div_ceil:
  assumes "b \<noteq> 0"
  shows "unat (u128_div_ceil a b) = (unat a + unat b - 1) div unat b"
  using u128_div_ceil_bounds [OF assms, of a] assms
  by (intro div_nat_eqI [symmetric]) (auto simp: algebra_simps unat_gt_0)

end
