(* ===== verification/Call_Info.thy ===== *)
theory Call_Info
  imports Starknet_Types
begin

text \<open>
  The effects of executing an entry point (\<open>execution/call_info.rs\<close>, and the call itself
  from \<open>execution/entry_point.rs\<close>): the tree of calls, its stack-based iterator, the summary
  the bouncer works with, and the completion of a fee-transfer call
  (\<open>concurrency/fee_utils.rs\<close>).

  The iterator is shown to visit the tree in pre-order, and \<open>summarize\<close> to collect exactly
  what the calls of the tree did.
\<close>

section \<open>Calls and their effects\<close>

type_synonym Calldata = "StarkFelt list"
type_synonym Retdata = "StarkFelt list"

datatype CallType = Call | Delegate

record CallEntryPoint =
  cep_class_hash :: "ClassHash option"
  cep_code_address :: "ContractAddress option"
  cep_entry_point_type :: EntryPointType
  cep_entry_point_selector :: EntryPointSelector
  cep_calldata :: Calldata
  cep_storage_address :: ContractAddress
  cep_caller_address :: ContractAddress
  cep_call_type :: CallType
  cep_initial_gas :: u64

record EventContent =
  ev_keys :: "StarkFelt list"
  ev_data :: "StarkFelt list"

record OrderedEvent =
  oe_order :: usize
  oe_event :: EventContent

record MessageToL1 =
  msg_to_address :: EthAddress
  msg_payload :: "StarkFelt list"

record OrderedL2ToL1Message =
  om_order :: usize
  om_message :: MessageToL1

record CallExecution =
  ce_retdata :: Retdata
  ce_events :: "OrderedEvent list"
  ce_l2_to_l1_messages :: "OrderedL2ToL1Message list"
  ce_failed :: bool
  ce_gas_consumed :: u64

datatype CallInfo = CallInfo
  (ci_call: CallEntryPoint)
  (ci_execution: CallExecution)
  (ci_resources: ExecutionResources)
  (ci_inner_calls: "CallInfo list")
  (ci_storage_read_values: "StarkFelt list")
  (ci_accessed_storage_keys: "StorageKey HashSet")

definition CallEntryPoint_default :: CallEntryPoint where
  "CallEntryPoint_default =
     \<lparr>cep_class_hash = None, cep_code_address = None, cep_entry_point_type = External,
      cep_entry_point_selector = 0, cep_calldata = [], cep_storage_address = 0,
      cep_caller_address = 0, cep_call_type = Call, cep_initial_gas = 0\<rparr>"

definition CallExecution_default :: CallExecution where
  "CallExecution_default =
     \<lparr>ce_retdata = [], ce_events = [], ce_l2_to_l1_messages = [], ce_failed = False, ce_gas_consumed = 0\<rparr>"

definition get_payload_lengths :: "OrderedL2ToL1Message list \<Rightarrow> usize list" where
  "get_payload_lengths messages = map (\<lambda>m. vec_len (msg_payload (om_message m))) messages"

section \<open>The iterator over a call tree\<close>

definition CallInfoIter_next :: "CallInfo list \<Rightarrow> (CallInfo \<times> CallInfo list) option" where
  "CallInfoIter_next call_infos =
     (if call_infos = [] then None
      else
        (let call_info = last call_infos
         in Some (call_info, butlast call_infos @ rev (ci_inner_calls call_info))))"

fun ci_nodes :: "CallInfo \<Rightarrow> nat" where
  "ci_nodes (CallInfo call execution resources inner reads keys) = Suc (sum_list (map ci_nodes inner))"

lemma CallInfoIter_next_decreases:
  assumes "CallInfoIter_next call_infos = Some (c, rest)"
  shows "sum_list (map ci_nodes rest) < sum_list (map ci_nodes call_infos)"
proof -
  have ne: "call_infos \<noteq> []" and c: "c = last call_infos"
    and rest: "rest = butlast call_infos @ rev (ci_inner_calls c)"
    using assms by (auto simp: CallInfoIter_next_def Let_def split: if_splits)
  have "sum_list (map ci_nodes call_infos) = sum_list (map ci_nodes (butlast call_infos @ [c]))"
    using ne c by simp
  then show ?thesis
    by (cases c) (simp add: rest rev_map [symmetric] sum_list.rev)
qed

function CallInfoIter_collect :: "CallInfo list \<Rightarrow> CallInfo list" where
  "CallInfoIter_collect call_infos =
     (case CallInfoIter_next call_infos of
        None \<Rightarrow> []
      | Some (call_info, rest) \<Rightarrow> call_info # CallInfoIter_collect rest)"
  by pat_completeness auto
termination
  by (relation "measure (\<lambda>call_infos. sum_list (map ci_nodes call_infos))")
    (auto dest: CallInfoIter_next_decreases)

declare CallInfoIter_collect.simps [simp del]

definition CallInfo_iter :: "CallInfo \<Rightarrow> CallInfo list" where
  "CallInfo_iter call_info = CallInfoIter_collect [call_info]"

fun preorder :: "CallInfo \<Rightarrow> CallInfo list" where
  "preorder (CallInfo call execution resources inner reads keys) =
     CallInfo call execution resources inner reads keys # concat (map preorder inner)"

section \<open>Summaries\<close>

definition get_l2_to_l1_payload_lengths :: "CallInfo \<Rightarrow> usize list" where
  "get_l2_to_l1_payload_lengths call_info =
     fold (\<lambda>c acc. acc @ get_payload_lengths (ce_l2_to_l1_messages (ci_execution c))) (CallInfo_iter call_info) []"

record ExecutionSummary =
  es_executed_class_hashes :: "ClassHash HashSet"
  es_visited_storage_entries :: "StorageEntry HashSet"
  es_l2_to_l1_payload_lengths :: "usize list"
  es_n_events :: usize

definition ExecutionSummary_default :: ExecutionSummary where
  "ExecutionSummary_default =
     \<lparr>es_executed_class_hashes = [], es_visited_storage_entries = [], es_l2_to_l1_payload_lengths = [], es_n_events = 0\<rparr>"

definition ExecutionSummary_add :: "ExecutionSummary \<Rightarrow> ExecutionSummary \<Rightarrow> ExecutionSummary" where
  "ExecutionSummary_add a b =
     \<lparr>es_executed_class_hashes = hs_extend (es_executed_class_hashes a) (es_executed_class_hashes b),
      es_visited_storage_entries = hs_extend (es_visited_storage_entries a) (es_visited_storage_entries b),
      es_l2_to_l1_payload_lengths = es_l2_to_l1_payload_lengths a @ es_l2_to_l1_payload_lengths b,
      es_n_events = es_n_events a + es_n_events b\<rparr>"

definition ExecutionSummary_sum :: "ExecutionSummary list \<Rightarrow> ExecutionSummary" where
  "ExecutionSummary_sum iter = foldl ExecutionSummary_add ExecutionSummary_default iter"

definition summarize_call :: "CallInfo \<Rightarrow> ExecutionSummary \<Rightarrow> (unit, ExecutionSummary) result" where
  "summarize_call call_info acc =
     (case cep_class_hash (ci_call call_info) of
        None \<Rightarrow> Panic ''Class hash must be set after execution.''
      | Some class_hash \<Rightarrow> Ok
          \<lparr>es_executed_class_hashes = hs_insert class_hash (es_executed_class_hashes acc),
           es_visited_storage_entries = hs_extend (es_visited_storage_entries acc)
             (map (\<lambda>storage_key. (cep_storage_address (ci_call call_info), storage_key))
                (ci_accessed_storage_keys call_info)),
           es_l2_to_l1_payload_lengths =
             es_l2_to_l1_payload_lengths acc @ get_payload_lengths (ce_l2_to_l1_messages (ci_execution call_info)),
           es_n_events = es_n_events acc + vec_len (ce_events (ci_execution call_info))\<rparr>)"

fun summarize_calls :: "CallInfo list \<Rightarrow> ExecutionSummary \<Rightarrow> (unit, ExecutionSummary) result" where
  "summarize_calls [] acc = Ok acc"
| "summarize_calls (call_info # rest) acc = rbind (summarize_call call_info acc) (summarize_calls rest)"

definition CallInfo_summarize :: "CallInfo \<Rightarrow> (unit, ExecutionSummary) result" where
  "CallInfo_summarize call_info = summarize_calls (CallInfo_iter call_info) ExecutionSummary_default"

section \<open>Completing a fee transfer\<close>

definition STORAGE_READ_SEQUENCER_BALANCE_INDICES :: "nat \<times> nat" where
  "STORAGE_READ_SEQUENCER_BALANCE_INDICES = (2, 3)"

definition fill_sequencer_balance_reads ::
    "CallInfo \<Rightarrow> StarkFelt \<Rightarrow> StarkFelt \<Rightarrow> (unit, CallInfo) result" where
  "fill_sequencer_balance_reads call_info sequencer_balance_low sequencer_balance_high =
     (let storage_read_values = ci_storage_read_values call_info;
          low_index = fst STORAGE_READ_SEQUENCER_BALANCE_INDICES;
          high_index = snd STORAGE_READ_SEQUENCER_BALANCE_INDICES
      in if length storage_read_values \<noteq> 4 then Panic ''Storage read values should have 4 elements''
         else if \<exists>index \<in> set [low_index, high_index]. storage_read_values ! index \<noteq> 0
         then Panic ''Sequencer balance should be zero''
         else Ok (case call_info of CallInfo call execution resources inner reads keys \<Rightarrow>
           CallInfo call execution resources inner
             (storage_read_values[low_index := sequencer_balance_low, high_index := sequencer_balance_high]) keys))"

section \<open>The iterator visits the tree in pre-order\<close>

lemma CallInfoIter_collect_Nil [simp]: "CallInfoIter_collect [] = []"
  by (subst CallInfoIter_collect.simps) (simp add: CallInfoIter_next_def)

lemma CallInfoIter_collect_snoc:
  "CallInfoIter_collect (rest @ [c]) = c # CallInfoIter_collect (rest @ rev (ci_inner_calls c))"
  by (subst CallInfoIter_collect.simps) (simp add: CallInfoIter_next_def Let_def)

lemma CallInfoIter_collect_preorder:
  "CallInfoIter_collect call_infos = concat (map preorder (rev call_infos))"
proof (induction call_infos rule: measure_induct_rule [where f = "\<lambda>cs. sum_list (map ci_nodes cs)"])
  case (less call_infos)
  show ?case
  proof (cases call_infos rule: rev_cases)
    case (snoc rest c)
    have next_call: "CallInfoIter_next call_infos = Some (c, rest @ rev (ci_inner_calls c))"
      by (simp add: snoc CallInfoIter_next_def Let_def)
    have "CallInfoIter_collect (rest @ rev (ci_inner_calls c)) =
        concat (map preorder (ci_inner_calls c)) @ concat (map preorder (rev rest))"
      using less.IH [OF CallInfoIter_next_decreases [OF next_call]] by simp
    then show ?thesis
      by (cases c) (simp add: snoc CallInfoIter_collect_snoc)
  qed simp
qed

lemma CallInfo_iter_preorder: "CallInfo_iter c = preorder c"
  by (simp add: CallInfo_iter_def CallInfoIter_collect_preorder)

lemma preorder_root [simp]: "c \<in> set (preorder c)"
  by (cases c) simp

lemma fold_append_concat: "fold (\<lambda>c acc. acc @ f c) xs acc = acc @ concat (map f xs)"
  by (induction xs arbitrary: acc) simp_all

lemma get_l2_to_l1_payload_lengths_preorder:
  "get_l2_to_l1_payload_lengths c =
     concat (map (\<lambda>d. get_payload_lengths (ce_l2_to_l1_messages (ci_execution d))) (preorder c))"
  by (simp add: get_l2_to_l1_payload_lengths_def CallInfo_iter_preorder fold_append_concat)

section \<open>What a summary contains\<close>

definition payload_lengths :: "CallInfo \<Rightarrow> usize list" where
  "payload_lengths c = map (\<lambda>m. vec_len (msg_payload (om_message m))) (ce_l2_to_l1_messages (ci_execution c))"

definition executed :: "CallInfo \<Rightarrow> bool" where
  "executed c \<longleftrightarrow> cep_class_hash (ci_call c) \<noteq> None"

lemma summarize_calls_Ok:
  assumes "\<forall>c \<in> set cs. executed c"
  shows "\<exists>summary. summarize_calls cs acc = Ok summary
    \<and> set (es_executed_class_hashes summary) =
        set (es_executed_class_hashes acc) \<union> {h. \<exists>c \<in> set cs. cep_class_hash (ci_call c) = Some h}
    \<and> set (es_visited_storage_entries summary) =
        set (es_visited_storage_entries acc)
          \<union> (\<Union>c \<in> set cs. Pair (cep_storage_address (ci_call c)) ` set (ci_accessed_storage_keys c))
    \<and> es_l2_to_l1_payload_lengths summary =
        es_l2_to_l1_payload_lengths acc @ concat (map (\<lambda>c. get_payload_lengths (ce_l2_to_l1_messages (ci_execution c))) cs)
    \<and> es_n_events summary = es_n_events acc + sum_list (map (\<lambda>c. vec_len (ce_events (ci_execution c))) cs)"
  using assms
proof (induction cs arbitrary: acc)
  case (Cons c cs)
  obtain h where h: "cep_class_hash (ci_call c) = Some h"
    using Cons.prems by (auto simp: executed_def)
  define acc' where "acc' = \<lparr>es_executed_class_hashes = hs_insert h (es_executed_class_hashes acc),
           es_visited_storage_entries = hs_extend (es_visited_storage_entries acc)
             (map (\<lambda>storage_key. (cep_storage_address (ci_call c), storage_key)) (ci_accessed_storage_keys c)),
           es_l2_to_l1_payload_lengths =
             es_l2_to_l1_payload_lengths acc @ get_payload_lengths (ce_l2_to_l1_messages (ci_execution c)),
           es_n_events = es_n_events acc + vec_len (ce_events (ci_execution c))\<rparr>"
  have "summarize_call c acc = Ok acc'"
    by (simp add: summarize_call_def h acc'_def)
  moreover obtain summary where "summarize_calls cs acc' = Ok summary"
    and "set (es_executed_class_hashes summary) =
        set (es_executed_class_hashes acc') \<union> {h. \<exists>c \<in> set cs. cep_class_hash (ci_call c) = Some h}"
    and "set (es_visited_storage_entries summary) =
        set (es_visited_storage_entries acc')
          \<union> (\<Union>c \<in> set cs. Pair (cep_storage_address (ci_call c)) ` set (ci_accessed_storage_keys c))"
    and "es_l2_to_l1_payload_lengths summary =
        es_l2_to_l1_payload_lengths acc' @ concat (map (\<lambda>c. get_payload_lengths (ce_l2_to_l1_messages (ci_execution c))) cs)"
    and "es_n_events summary = es_n_events acc' + sum_list (map (\<lambda>c. vec_len (ce_events (ci_execution c))) cs)"
    using Cons.IH [of acc'] Cons.prems by auto
  ultimately show ?case
    by (intro exI [of _ summary] conjI) (auto simp: acc'_def h)
qed simp

lemma summarize_calls_Panic:
  assumes "\<exists>c \<in> set cs. \<not> executed c"
  shows "is_panic (summarize_calls cs acc)"
  using assms by (induction cs arbitrary: acc) (auto simp: summarize_call_def executed_def split: option.splits)

text \<open>C31: The iterator visits the calls of a tree in pre-order: a call before its inner calls,
  and those from the first to the last. The summary of the tree is what its calls did. When every
  call has been executed, \<open>summarize\<close> returns the class hashes of all of them, every storage entry
  any of them accessed, the payload lengths of all messages in pre-order of the calls, and the
  number of events; when some call has no class hash it panics.\<close>

theorem summarize_is_the_call_tree:
  "CallInfo_iter c = preorder c
   \<and> get_l2_to_l1_payload_lengths c = concat (map payload_lengths (preorder c))
   \<and> (if \<forall>d \<in> set (preorder c). executed d
      then \<exists>summary. CallInfo_summarize c = Ok summary
        \<and> set (es_executed_class_hashes summary) = {h. \<exists>d \<in> set (preorder c). cep_class_hash (ci_call d) = Some h}
        \<and> set (es_visited_storage_entries summary) =
            (\<Union>d \<in> set (preorder c). Pair (cep_storage_address (ci_call d)) ` set (ci_accessed_storage_keys d))
        \<and> es_l2_to_l1_payload_lengths summary = concat (map payload_lengths (preorder c))
        \<and> es_n_events summary = sum_list (map (\<lambda>d. vec_len (ce_events (ci_execution d))) (preorder c))
      else is_panic (CallInfo_summarize c))"
proof (intro conjI)
  have lengths: "(\<lambda>d. get_payload_lengths (ce_l2_to_l1_messages (ci_execution d))) = payload_lengths"
    by (simp add: fun_eq_iff payload_lengths_def get_payload_lengths_def)
  show "CallInfo_iter c = preorder c"
    by (rule CallInfo_iter_preorder)
  show "get_l2_to_l1_payload_lengths c = concat (map payload_lengths (preorder c))"
    by (simp add: get_l2_to_l1_payload_lengths_preorder lengths)
  show "if \<forall>d \<in> set (preorder c). executed d
      then \<exists>summary. CallInfo_summarize c = Ok summary
        \<and> set (es_executed_class_hashes summary) = {h. \<exists>d \<in> set (preorder c). cep_class_hash (ci_call d) = Some h}
        \<and> set (es_visited_storage_entries summary) =
            (\<Union>d \<in> set (preorder c). Pair (cep_storage_address (ci_call d)) ` set (ci_accessed_storage_keys d))
        \<and> es_l2_to_l1_payload_lengths summary = concat (map payload_lengths (preorder c))
        \<and> es_n_events summary = sum_list (map (\<lambda>d. vec_len (ce_events (ci_execution d))) (preorder c))
      else is_panic (CallInfo_summarize c)"
    using summarize_calls_Ok [of "preorder c" ExecutionSummary_default] summarize_calls_Panic [of "preorder c"]
    by (auto simp: CallInfo_summarize_def CallInfo_iter_preorder lengths ExecutionSummary_default_def)
qed

text \<open>A call of class \<open>h\<close> that sends one message whose payload has \<open>h\<close> felts.\<close>

definition call_example :: "ClassHash \<Rightarrow> CallInfo list \<Rightarrow> CallInfo" where
  "call_example h inner =
     CallInfo (CallEntryPoint_default\<lparr>cep_class_hash := Some h, cep_storage_address := 7\<rparr>)
       (CallExecution_default\<lparr>ce_l2_to_l1_messages :=
          [\<lparr>om_order = 0, om_message = \<lparr>msg_to_address = 1, msg_payload = replicate h 0\<rparr>\<rparr>]\<rparr>)
       er_default inner [] [h]"

theorem summarize_is_the_call_tree_witness:
  "\<exists>summary. CallInfo_summarize (call_example 5 [call_example 6 [call_example 3 []], call_example 2 []]) = Ok summary
     \<and> set (es_executed_class_hashes summary) = {5, 6, 3, 2}
     \<and> set (es_visited_storage_entries summary) = {(7, 5), (7, 6), (7, 3), (7, 2)}
     \<and> es_l2_to_l1_payload_lengths summary = [5, 6, 3, 2]"
proof -
  let ?c = "call_example 5 [call_example 6 [call_example 3 []], call_example 2 []]"
  have calls: "preorder ?c = [?c, call_example 6 [call_example 3 []], call_example 3 [], call_example 2 []]"
    by (simp add: call_example_def)
  have hash: "cep_class_hash (ci_call (call_example h inner)) = Some h"
    and keys: "ci_accessed_storage_keys (call_example h inner) = [h]"
    and address: "cep_storage_address (ci_call (call_example h inner)) = 7"
    and lengths: "payload_lengths (call_example h inner) = [of_nat h]" for h inner
    by (simp_all add: call_example_def payload_lengths_def vec_len_def)
  have "{h. \<exists>d \<in> set (preorder ?c). cep_class_hash (ci_call d) = Some h} = {5, 6, 3, 2}"
    and "(\<Union>d \<in> set (preorder ?c). Pair (cep_storage_address (ci_call d)) ` set (ci_accessed_storage_keys d))
      = {(7, 5), (7, 6), (7, 3), (7, 2)}"
    and "concat (map payload_lengths (preorder ?c)) = [5, 6, 3, 2]"
    by (auto simp: calls hash keys address lengths)
  then show ?thesis
    using summarize_is_the_call_tree [of ?c] by (auto simp: calls executed_def hash)
qed

lemma fill_sequencer_balance_reads_Ok:
  assumes "ci_storage_read_values c = [low, high, 0, 0]"
  shows "\<exists>c'. fill_sequencer_balance_reads c l h = Ok c' \<and> ci_storage_read_values c' = [low, high, l, h]
    \<and> ci_call c' = ci_call c \<and> ci_execution c' = ci_execution c \<and> ci_inner_calls c' = ci_inner_calls c"
  using assms by (cases c) (simp add: fill_sequencer_balance_reads_def STORAGE_READ_SEQUENCER_BALANCE_INDICES_def
      numeral_2_eq_2 numeral_3_eq_3)

end
