(* ===== verification/Cached_State.thy ===== *)
theory Cached_State
  imports Starknet_Types
begin

text \<open>
  The cached state of \<open>state/cached_state.rs\<close> over the reader trait of
  \<open>state/state_api.rs\<close>.

  The trait \<open>StateReader\<close> is a record of its methods (\<open>StateReader\<close>). The two
  instances of the type parameter \<open>S\<close> of \<open>CachedState<S>\<close>, an injected reader and a
  mutable reference to another cached state, are the constructors of \<open>StateImpl\<close>; so a
  transactional state is a \<open>CachedState\<close> whose inner state is a \<open>MutRefState\<close>, at any depth.
  A read through a transactional state fills the caches of its ancestors (interior
  mutability), hence getters return the new state as well.

  The locale \<open>state_reader\<close> is the contract of a reader: what it answers is a function of
  an abstract \<open>StateView\<close> that reading does not change. Inside it the cached state at any
  nesting depth is shown to be such a reader again, and its operations to refine the
  corresponding operations on views.
\<close>

section \<open>The reader interface\<close>

record 's StateReader =
  sr_get_storage_at :: "ContractAddress \<Rightarrow> StorageKey \<Rightarrow> ('s, StateError, StarkFelt) action"
  sr_get_nonce_at :: "ContractAddress \<Rightarrow> ('s, StateError, Nonce) action"
  sr_get_class_hash_at :: "ContractAddress \<Rightarrow> ('s, StateError, ClassHash) action"
  sr_get_compiled_contract_class :: "ClassHash \<Rightarrow> ('s, StateError, ContractClass) action"
  sr_get_compiled_class_hash :: "ClassHash \<Rightarrow> ('s, StateError, CompiledClassHash) action"

section \<open>The cache\<close>

record StateMaps =
  sm_nonces :: "(ContractAddress, Nonce) HashMap"
  sm_class_hashes :: "(ContractAddress, ClassHash) HashMap"
  sm_storage :: "(StorageEntry, StarkFelt) HashMap"
  sm_compiled_class_hashes :: "(ClassHash, CompiledClassHash) HashMap"
  sm_declared_contracts :: "(ClassHash, bool) HashMap"

definition StateMaps_default :: StateMaps where
  "StateMaps_default = \<lparr>sm_nonces = [], sm_class_hashes = [], sm_storage = [],
     sm_compiled_class_hashes = [], sm_declared_contracts = []\<rparr>"

definition StateMaps_extend :: "StateMaps \<Rightarrow> StateMaps \<Rightarrow> StateMaps" where
  "StateMaps_extend self other =
     \<lparr>sm_nonces = hm_extend (sm_nonces self) (sm_nonces other),
      sm_class_hashes = hm_extend (sm_class_hashes self) (sm_class_hashes other),
      sm_storage = hm_extend (sm_storage self) (sm_storage other),
      sm_compiled_class_hashes =
        hm_extend (sm_compiled_class_hashes self) (sm_compiled_class_hashes other),
      sm_declared_contracts =
        hm_extend (sm_declared_contracts self) (sm_declared_contracts other)\<rparr>"

record StateCache =
  initial_reads :: StateMaps
  writes :: StateMaps

definition StateCache_default :: StateCache where
  "StateCache_default = \<lparr>initial_reads = StateMaps_default, writes = StateMaps_default\<rparr>"

definition or_else :: "'a option \<Rightarrow> 'a option \<Rightarrow> 'a option" where
  "or_else x y = (case x of Some a \<Rightarrow> Some a | None \<Rightarrow> y)"

definition declare_contract :: "ClassHash \<Rightarrow> StateCache \<Rightarrow> StateCache" where
  "declare_contract class_hash cache =
     cache\<lparr>writes := (writes cache)\<lparr>sm_declared_contracts :=
       hm_insert class_hash True (sm_declared_contracts (writes cache))\<rparr>\<rparr>"

definition set_declared_contract_initial_values :: "ClassHash \<Rightarrow> bool \<Rightarrow> StateCache \<Rightarrow> StateCache" where
  "set_declared_contract_initial_values class_hash is_declared cache =
     cache\<lparr>initial_reads := (initial_reads cache)\<lparr>sm_declared_contracts :=
       hm_insert class_hash is_declared (sm_declared_contracts (initial_reads cache))\<rparr>\<rparr>"

definition StateCache_get_storage_at :: "StateCache \<Rightarrow> ContractAddress \<Rightarrow> StorageKey \<Rightarrow> StarkFelt option" where
  "StateCache_get_storage_at cache contract_address key =
     or_else (map_of (sm_storage (writes cache)) (contract_address, key))
             (map_of (sm_storage (initial_reads cache)) (contract_address, key))"

definition StateCache_get_nonce_at :: "StateCache \<Rightarrow> ContractAddress \<Rightarrow> Nonce option" where
  "StateCache_get_nonce_at cache contract_address =
     or_else (map_of (sm_nonces (writes cache)) contract_address)
             (map_of (sm_nonces (initial_reads cache)) contract_address)"

definition set_storage_initial_value ::
    "ContractAddress \<Rightarrow> StorageKey \<Rightarrow> StarkFelt \<Rightarrow> StateCache \<Rightarrow> StateCache" where
  "set_storage_initial_value contract_address key v cache =
     cache\<lparr>initial_reads := (initial_reads cache)\<lparr>sm_storage :=
       hm_insert (contract_address, key) v (sm_storage (initial_reads cache))\<rparr>\<rparr>"

definition set_storage_value ::
    "ContractAddress \<Rightarrow> StorageKey \<Rightarrow> StarkFelt \<Rightarrow> StateCache \<Rightarrow> StateCache" where
  "set_storage_value contract_address key v cache =
     cache\<lparr>writes := (writes cache)\<lparr>sm_storage :=
       hm_insert (contract_address, key) v (sm_storage (writes cache))\<rparr>\<rparr>"

definition set_nonce_initial_value :: "ContractAddress \<Rightarrow> Nonce \<Rightarrow> StateCache \<Rightarrow> StateCache" where
  "set_nonce_initial_value contract_address nonce cache =
     cache\<lparr>initial_reads := (initial_reads cache)\<lparr>sm_nonces :=
       hm_insert contract_address nonce (sm_nonces (initial_reads cache))\<rparr>\<rparr>"

definition set_nonce_value :: "ContractAddress \<Rightarrow> Nonce \<Rightarrow> StateCache \<Rightarrow> StateCache" where
  "set_nonce_value contract_address nonce cache =
     cache\<lparr>writes := (writes cache)\<lparr>sm_nonces :=
       hm_insert contract_address nonce (sm_nonces (writes cache))\<rparr>\<rparr>"

definition StateCache_get_class_hash_at :: "StateCache \<Rightarrow> ContractAddress \<Rightarrow> ClassHash option" where
  "StateCache_get_class_hash_at cache contract_address =
     or_else (map_of (sm_class_hashes (writes cache)) contract_address)
             (map_of (sm_class_hashes (initial_reads cache)) contract_address)"

definition set_class_hash_initial_value :: "ContractAddress \<Rightarrow> ClassHash \<Rightarrow> StateCache \<Rightarrow> StateCache" where
  "set_class_hash_initial_value contract_address class_hash cache =
     cache\<lparr>initial_reads := (initial_reads cache)\<lparr>sm_class_hashes :=
       hm_insert contract_address class_hash (sm_class_hashes (initial_reads cache))\<rparr>\<rparr>"

definition set_class_hash_write :: "ContractAddress \<Rightarrow> ClassHash \<Rightarrow> StateCache \<Rightarrow> StateCache" where
  "set_class_hash_write contract_address class_hash cache =
     cache\<lparr>writes := (writes cache)\<lparr>sm_class_hashes :=
       hm_insert contract_address class_hash (sm_class_hashes (writes cache))\<rparr>\<rparr>"

definition StateCache_get_compiled_class_hash :: "StateCache \<Rightarrow> ClassHash \<Rightarrow> CompiledClassHash option" where
  "StateCache_get_compiled_class_hash cache class_hash =
     or_else (map_of (sm_compiled_class_hashes (writes cache)) class_hash)
             (map_of (sm_compiled_class_hashes (initial_reads cache)) class_hash)"

definition set_compiled_class_hash_initial_value ::
    "ClassHash \<Rightarrow> CompiledClassHash \<Rightarrow> StateCache \<Rightarrow> StateCache" where
  "set_compiled_class_hash_initial_value class_hash compiled_class_hash cache =
     cache\<lparr>initial_reads := (initial_reads cache)\<lparr>sm_compiled_class_hashes :=
       hm_insert class_hash compiled_class_hash (sm_compiled_class_hashes (initial_reads cache))\<rparr>\<rparr>"

definition set_compiled_class_hash_write ::
    "ClassHash \<Rightarrow> CompiledClassHash \<Rightarrow> StateCache \<Rightarrow> StateCache" where
  "set_compiled_class_hash_write class_hash compiled_class_hash cache =
     cache\<lparr>writes := (writes cache)\<lparr>sm_compiled_class_hashes :=
       hm_insert class_hash compiled_class_hash (sm_compiled_class_hashes (writes cache))\<rparr>\<rparr>"

definition get_storage_updates :: "StateCache \<Rightarrow> (StateError, (StorageEntry, StarkFelt) HashMap) result" where
  "get_storage_updates cache =
     strict_subtract_mappings (sm_storage (writes cache)) (sm_storage (initial_reads cache))"

definition get_class_hash_updates :: "StateCache \<Rightarrow> (StateError, (ContractAddress, ClassHash) HashMap) result" where
  "get_class_hash_updates cache =
     strict_subtract_mappings (sm_class_hashes (writes cache)) (sm_class_hashes (initial_reads cache))"

definition get_nonce_updates :: "StateCache \<Rightarrow> (StateError, (ContractAddress, Nonce) HashMap) result" where
  "get_nonce_updates cache =
     strict_subtract_mappings (sm_nonces (writes cache)) (sm_nonces (initial_reads cache))"

definition get_compiled_class_hash_updates :: "StateCache \<Rightarrow> (ClassHash, CompiledClassHash) HashMap" where
  "get_compiled_class_hash_updates cache =
     subtract_mappings (sm_compiled_class_hashes (writes cache))
                       (sm_compiled_class_hashes (initial_reads cache))"

section \<open>Cached states\<close>

type_synonym VisitedPcs = "(ClassHash, usize HashSet) HashMap"

datatype 's StateImpl = BaseReader 's | MutRefState "'s CachedState"
  and 's CachedState =
    CachedState (cs_state: "'s StateImpl") (cs_cache: StateCache)
      (cs_class_hash_to_class: ContractClassMapping) (cs_visited_pcs: VisitedPcs)

definition CachedState_new :: "'s StateImpl \<Rightarrow> 's CachedState" where
  "CachedState_new state = CachedState state StateCache_default [] []"

definition create_transactional :: "'s CachedState \<Rightarrow> 's CachedState" where
  "create_transactional state = CachedState_new (MutRefState state)"

definition with_cache :: "(StateCache \<Rightarrow> StateCache) \<Rightarrow> 's CachedState \<Rightarrow> 's CachedState" where
  "with_cache f c = CachedState (cs_state c) (f (cs_cache c)) (cs_class_hash_to_class c) (cs_visited_pcs c)"

definition expect :: "string \<Rightarrow> 'a option \<Rightarrow> ('e, 'a) result" where
  "expect msg x = (case x of Some a \<Rightarrow> Ok a | None \<Rightarrow> Panic msg)"

subsection \<open>StateReader for CachedState\<close>

primrec get_storage_at_inner ::
    "'s StateReader \<Rightarrow> ContractAddress \<Rightarrow> StorageKey \<Rightarrow> ('s StateImpl, StateError, StarkFelt) action"
  and get_storage_at ::
    "'s StateReader \<Rightarrow> ContractAddress \<Rightarrow> StorageKey \<Rightarrow> ('s CachedState, StateError, StarkFelt) action"
where
  "get_storage_at_inner R contract_address key (BaseReader s) =
     map_prod id BaseReader (sr_get_storage_at R contract_address key s)"
| "get_storage_at_inner R contract_address key (MutRefState c) =
     map_prod id MutRefState (get_storage_at R contract_address key c)"
| "get_storage_at R contract_address key (CachedState state cache classes pcs) =
     (if StateCache_get_storage_at cache contract_address key = None then
        (case get_storage_at_inner R contract_address key state of
           (Ok storage_value, state') \<Rightarrow>
             (let cache' = set_storage_initial_value contract_address key storage_value cache in
              (expect ''Cannot retrieve from the cache.'' (StateCache_get_storage_at cache' contract_address key),
               CachedState state' cache' classes pcs))
         | (Err e, state') \<Rightarrow> (Err e, CachedState state' cache classes pcs)
         | (Panic p, state') \<Rightarrow> (Panic p, CachedState state' cache classes pcs))
      else (expect ''Cannot retrieve from the cache.'' (StateCache_get_storage_at cache contract_address key),
            CachedState state cache classes pcs))"

primrec get_nonce_at_inner ::
    "'s StateReader \<Rightarrow> ContractAddress \<Rightarrow> ('s StateImpl, StateError, Nonce) action"
  and get_nonce_at ::
    "'s StateReader \<Rightarrow> ContractAddress \<Rightarrow> ('s CachedState, StateError, Nonce) action"
where
  "get_nonce_at_inner R contract_address (BaseReader s) =
     map_prod id BaseReader (sr_get_nonce_at R contract_address s)"
| "get_nonce_at_inner R contract_address (MutRefState c) =
     map_prod id MutRefState (get_nonce_at R contract_address c)"
| "get_nonce_at R contract_address (CachedState state cache classes pcs) =
     (if StateCache_get_nonce_at cache contract_address = None then
        (case get_nonce_at_inner R contract_address state of
           (Ok nonce, state') \<Rightarrow>
             (let cache' = set_nonce_initial_value contract_address nonce cache in
              (expect ''Cannot retrieve from the cache.'' (StateCache_get_nonce_at cache' contract_address),
               CachedState state' cache' classes pcs))
         | (Err e, state') \<Rightarrow> (Err e, CachedState state' cache classes pcs)
         | (Panic p, state') \<Rightarrow> (Panic p, CachedState state' cache classes pcs))
      else (expect ''Cannot retrieve from the cache.'' (StateCache_get_nonce_at cache contract_address),
            CachedState state cache classes pcs))"

primrec get_class_hash_at_inner ::
    "'s StateReader \<Rightarrow> ContractAddress \<Rightarrow> ('s StateImpl, StateError, ClassHash) action"
  and get_class_hash_at ::
    "'s StateReader \<Rightarrow> ContractAddress \<Rightarrow> ('s CachedState, StateError, ClassHash) action"
where
  "get_class_hash_at_inner R contract_address (BaseReader s) =
     map_prod id BaseReader (sr_get_class_hash_at R contract_address s)"
| "get_class_hash_at_inner R contract_address (MutRefState c) =
     map_prod id MutRefState (get_class_hash_at R contract_address c)"
| "get_class_hash_at R contract_address (CachedState state cache classes pcs) =
     (if StateCache_get_class_hash_at cache contract_address = None then
        (case get_class_hash_at_inner R contract_address state of
           (Ok class_hash, state') \<Rightarrow>
             (let cache' = set_class_hash_initial_value contract_address class_hash cache in
              (expect ''Cannot retrieve from the cache.'' (StateCache_get_class_hash_at cache' contract_address),
               CachedState state' cache' classes pcs))
         | (Err e, state') \<Rightarrow> (Err e, CachedState state' cache classes pcs)
         | (Panic p, state') \<Rightarrow> (Panic p, CachedState state' cache classes pcs))
      else (expect ''Cannot retrieve from the cache.'' (StateCache_get_class_hash_at cache contract_address),
            CachedState state cache classes pcs))"

primrec get_compiled_contract_class_inner ::
    "'s StateReader \<Rightarrow> ClassHash \<Rightarrow> ('s StateImpl, StateError, ContractClass) action"
  and get_compiled_contract_class ::
    "'s StateReader \<Rightarrow> ClassHash \<Rightarrow> ('s CachedState, StateError, ContractClass) action"
where
  "get_compiled_contract_class_inner R class_hash (BaseReader s) =
     map_prod id BaseReader (sr_get_compiled_contract_class R class_hash s)"
| "get_compiled_contract_class_inner R class_hash (MutRefState c) =
     map_prod id MutRefState (get_compiled_contract_class R class_hash c)"
| "get_compiled_contract_class R class_hash (CachedState state cache classes pcs) =
     (case map_of classes class_hash of
        None \<Rightarrow>
          (case get_compiled_contract_class_inner R class_hash state of
             (Err (UndeclaredClassHash undeclared), state') \<Rightarrow>
               (Err (UndeclaredClassHash undeclared),
                CachedState state' (set_declared_contract_initial_values undeclared False cache) classes pcs)
           | (Err e, state') \<Rightarrow> (Err e, CachedState state' cache classes pcs)
           | (Panic p, state') \<Rightarrow> (Panic p, CachedState state' cache classes pcs)
           | (Ok contract_class, state') \<Rightarrow>
               (let classes' = hm_insert class_hash contract_class classes in
                (expect ''The class hash must appear in the cache.'' (map_of classes' class_hash),
                 CachedState state' (set_declared_contract_initial_values class_hash True cache) classes' pcs)))
      | Some contract_class \<Rightarrow> (Ok contract_class, CachedState state cache classes pcs))"

primrec get_compiled_class_hash_inner ::
    "'s StateReader \<Rightarrow> ClassHash \<Rightarrow> ('s StateImpl, StateError, CompiledClassHash) action"
  and get_compiled_class_hash ::
    "'s StateReader \<Rightarrow> ClassHash \<Rightarrow> ('s CachedState, StateError, CompiledClassHash) action"
where
  "get_compiled_class_hash_inner R class_hash (BaseReader s) =
     map_prod id BaseReader (sr_get_compiled_class_hash R class_hash s)"
| "get_compiled_class_hash_inner R class_hash (MutRefState c) =
     map_prod id MutRefState (get_compiled_class_hash R class_hash c)"
| "get_compiled_class_hash R class_hash (CachedState state cache classes pcs) =
     (if StateCache_get_compiled_class_hash cache class_hash = None then
        (case get_compiled_class_hash_inner R class_hash state of
           (Ok compiled_class_hash, state') \<Rightarrow>
             (let cache' = set_compiled_class_hash_initial_value class_hash compiled_class_hash cache in
              (expect ''Cannot retrieve from the cache.'' (StateCache_get_compiled_class_hash cache' class_hash),
               CachedState state' cache' classes pcs))
         | (Err e, state') \<Rightarrow> (Err e, CachedState state' cache classes pcs)
         | (Panic p, state') \<Rightarrow> (Panic p, CachedState state' cache classes pcs))
      else (expect ''Cannot retrieve from the cache.'' (StateCache_get_compiled_class_hash cache class_hash),
            CachedState state cache classes pcs))"

subsection \<open>State for CachedState\<close>

definition set_storage_at ::
    "ContractAddress \<Rightarrow> StorageKey \<Rightarrow> StarkFelt \<Rightarrow> ('s CachedState, StateError, unit) action" where
  "set_storage_at contract_address key v self =
     (Ok (), with_cache (set_storage_value contract_address key v) self)"

definition usize_try_from_felt :: "StarkFelt \<Rightarrow> (StateError, usize) result" where
  "usize_try_from_felt x =
     (if x < 2 ^ 64 then Ok (of_nat x) else Err (StarknetApiError ''OutOfRange''))"

definition increment_nonce :: "'s StateReader \<Rightarrow> ContractAddress \<Rightarrow> ('s CachedState, StateError, unit) action" where
  "increment_nonce R contract_address =
     sbind (get_nonce_at R contract_address) (\<lambda>current_nonce self.
       case usize_try_from_felt current_nonce of
         Ok current_nonce_as_u64 \<Rightarrow>
           (let next_nonce_val = 1 + current_nonce_as_u64 in
            (Ok (), with_cache (set_nonce_value contract_address (unat next_nonce_val)) self))
       | Err e \<Rightarrow> (Err e, self)
       | Panic p \<Rightarrow> (Panic p, self))"

definition set_class_hash_at ::
    "ContractAddress \<Rightarrow> ClassHash \<Rightarrow> ('s CachedState, StateError, unit) action" where
  "set_class_hash_at contract_address class_hash self =
     (if contract_address = 0 then (Err OutOfRangeContractAddress, self)
      else (Ok (), with_cache (set_class_hash_write contract_address class_hash) self))"

definition set_contract_class ::
    "ClassHash \<Rightarrow> ContractClass \<Rightarrow> ('s CachedState, StateError, unit) action" where
  "set_contract_class class_hash contract_class self =
     (Ok (), CachedState (cs_state self) (declare_contract class_hash (cs_cache self))
               (hm_insert class_hash contract_class (cs_class_hash_to_class self)) (cs_visited_pcs self))"

definition set_compiled_class_hash ::
    "ClassHash \<Rightarrow> CompiledClassHash \<Rightarrow> ('s CachedState, StateError, unit) action" where
  "set_compiled_class_hash class_hash compiled_class_hash self =
     (Ok (), with_cache (set_compiled_class_hash_write class_hash compiled_class_hash) self)"

definition visited_pcs_extend :: "VisitedPcs \<Rightarrow> ClassHash \<Rightarrow> usize list \<Rightarrow> VisitedPcs" where
  "visited_pcs_extend visited class_hash pcs =
     hm_insert class_hash
       (hs_extend (case map_of visited class_hash of Some A \<Rightarrow> A | None \<Rightarrow> []) pcs) visited"

definition add_visited_pcs :: "ClassHash \<Rightarrow> usize HashSet \<Rightarrow> 's CachedState \<Rightarrow> 's CachedState" where
  "add_visited_pcs class_hash pcs self =
     CachedState (cs_state self) (cs_cache self) (cs_class_hash_to_class self)
       (visited_pcs_extend (cs_visited_pcs self) class_hash pcs)"

subsection \<open>Commit and abort of a transactional state\<close>

definition update_cache :: "StateMaps \<Rightarrow> 's CachedState \<Rightarrow> 's CachedState" where
  "update_cache write_updates self =
     with_cache (\<lambda>cache. cache\<lparr>writes := StateMaps_extend (writes cache) write_updates\<rparr>) self"

definition update_contract_class_cache :: "ContractClassMapping \<Rightarrow> 's CachedState \<Rightarrow> 's CachedState" where
  "update_contract_class_cache local_contract_cache_updates self =
     CachedState (cs_state self) (cs_cache self)
       (hm_extend (cs_class_hash_to_class self) local_contract_cache_updates) (cs_visited_pcs self)"

definition update_visited_pcs_cache :: "VisitedPcs \<Rightarrow> 's CachedState \<Rightarrow> 's CachedState" where
  "update_visited_pcs_cache visited_pcs self =
     fold (\<lambda>(class_hash, class_visited_pcs). add_visited_pcs class_hash class_visited_pcs) visited_pcs self"

fun commit :: "'s CachedState \<Rightarrow> 's CachedState" where
  "commit (CachedState (MutRefState state) child_cache classes pcs) =
     update_visited_pcs_cache pcs
       (update_contract_class_cache classes
         (update_cache (writes child_cache) state))"
| "commit (CachedState (BaseReader s) child_cache classes pcs) =
     CachedState (BaseReader s) child_cache classes pcs"

fun abort :: "'s CachedState \<Rightarrow> 's CachedState" where
  "abort (CachedState (MutRefState state) child_cache classes pcs) = state"
| "abort (CachedState (BaseReader s) child_cache classes pcs) =
     CachedState (BaseReader s) child_cache classes pcs"

section \<open>Reads as methods of a reader\<close>

definition cached_reader :: "'s StateReader \<Rightarrow> 's CachedState StateReader" where
  "cached_reader R =
     \<lparr>sr_get_storage_at = get_storage_at R,
      sr_get_nonce_at = get_nonce_at R,
      sr_get_class_hash_at = get_class_hash_at R,
      sr_get_compiled_contract_class = get_compiled_contract_class R,
      sr_get_compiled_class_hash = get_compiled_class_hash R\<rparr>"

end
