(* ===== verification/State_View.thy ===== *)
theory State_View
  imports Cached_State
begin

text \<open>
  The meaning of a state, and the refinement of the cached state to it. A \<open>StateView\<close>
  answers every query a reader can be asked. The view of a cached state is the view of its
  inner state overlaid with its cache (\<open>cached_view\<close>), and its invariant says that the
  values recorded as initial reads are those of the inner state (\<open>cached_inv\<close>).
\<close>

section \<open>Views\<close>

record StateView =
  sv_storage :: "ContractAddress \<Rightarrow> StorageKey \<Rightarrow> (StateError, StarkFelt) result"
  sv_nonce :: "ContractAddress \<Rightarrow> (StateError, Nonce) result"
  sv_class_hash :: "ContractAddress \<Rightarrow> (StateError, ClassHash) result"
  sv_class :: "ClassHash \<Rightarrow> (StateError, ContractClass) result"
  sv_compiled_class_hash :: "ClassHash \<Rightarrow> (StateError, CompiledClassHash) result"

definition overlay :: "'v option \<Rightarrow> ('e, 'v) result \<Rightarrow> ('e, 'v) result" where
  "overlay x r = (case x of Some v \<Rightarrow> Ok v | None \<Rightarrow> r)"

definition cache_view :: "StateCache \<Rightarrow> ContractClassMapping \<Rightarrow> StateView \<Rightarrow> StateView" where
  "cache_view cache classes V =
     \<lparr>sv_storage = (\<lambda>a k. overlay (StateCache_get_storage_at cache a k) (sv_storage V a k)),
      sv_nonce = (\<lambda>a. overlay (StateCache_get_nonce_at cache a) (sv_nonce V a)),
      sv_class_hash = (\<lambda>a. overlay (StateCache_get_class_hash_at cache a) (sv_class_hash V a)),
      sv_class = (\<lambda>h. overlay (map_of classes h) (sv_class V h)),
      sv_compiled_class_hash =
        (\<lambda>h. overlay (StateCache_get_compiled_class_hash cache h) (sv_compiled_class_hash V h))\<rparr>"

primrec inner_view :: "('s \<Rightarrow> StateView) \<Rightarrow> 's StateImpl \<Rightarrow> StateView"
  and cached_view :: "('s \<Rightarrow> StateView) \<Rightarrow> 's CachedState \<Rightarrow> StateView"
where
  "inner_view view (BaseReader s) = view s"
| "inner_view view (MutRefState c) = cached_view view c"
| "cached_view view (CachedState state cache classes pcs) =
     cache_view cache classes (inner_view view state)"

definition maps_wf :: "StateMaps \<Rightarrow> bool" where
  "maps_wf m \<longleftrightarrow> hm_wf (sm_nonces m) \<and> hm_wf (sm_class_hashes m) \<and> hm_wf (sm_storage m)
     \<and> hm_wf (sm_compiled_class_hashes m) \<and> hm_wf (sm_declared_contracts m)"

definition reads_agree :: "StateMaps \<Rightarrow> StateView \<Rightarrow> bool" where
  "reads_agree m V \<longleftrightarrow>
     (\<forall>a k v. map_of (sm_storage m) (a, k) = Some v \<longrightarrow> sv_storage V a k = Ok v)
   \<and> (\<forall>a v. map_of (sm_nonces m) a = Some v \<longrightarrow> sv_nonce V a = Ok v)
   \<and> (\<forall>a v. map_of (sm_class_hashes m) a = Some v \<longrightarrow> sv_class_hash V a = Ok v)
   \<and> (\<forall>h v. map_of (sm_compiled_class_hashes m) h = Some v \<longrightarrow> sv_compiled_class_hash V h = Ok v)"

definition cache_inv :: "StateCache \<Rightarrow> ContractClassMapping \<Rightarrow> StateView \<Rightarrow> bool" where
  "cache_inv cache classes V \<longleftrightarrow> reads_agree (initial_reads cache) V
     \<and> maps_wf (initial_reads cache) \<and> maps_wf (writes cache) \<and> hm_wf classes"

primrec inner_inv :: "('s \<Rightarrow> StateView) \<Rightarrow> ('s \<Rightarrow> bool) \<Rightarrow> 's StateImpl \<Rightarrow> bool"
  and cached_inv :: "('s \<Rightarrow> StateView) \<Rightarrow> ('s \<Rightarrow> bool) \<Rightarrow> 's CachedState \<Rightarrow> bool"
where
  "inner_inv view ok (BaseReader s) = ok s"
| "inner_inv view ok (MutRefState c) = cached_inv view ok c"
| "cached_inv view ok (CachedState state cache classes pcs) =
     (inner_inv view ok state \<and> cache_inv cache classes (inner_view view state))"

subsection \<open>Operations on views\<close>

definition view_set_storage :: "ContractAddress \<Rightarrow> StorageKey \<Rightarrow> StarkFelt \<Rightarrow> StateView \<Rightarrow> StateView" where
  "view_set_storage a k v V = V\<lparr>sv_storage := (sv_storage V)(a := (sv_storage V a)(k := Ok v))\<rparr>"

definition view_set_nonce :: "ContractAddress \<Rightarrow> Nonce \<Rightarrow> StateView \<Rightarrow> StateView" where
  "view_set_nonce a n V = V\<lparr>sv_nonce := (sv_nonce V)(a := Ok n)\<rparr>"

definition view_set_class_hash :: "ContractAddress \<Rightarrow> ClassHash \<Rightarrow> StateView \<Rightarrow> StateView" where
  "view_set_class_hash a h V = V\<lparr>sv_class_hash := (sv_class_hash V)(a := Ok h)\<rparr>"

definition view_set_class :: "ClassHash \<Rightarrow> ContractClass \<Rightarrow> StateView \<Rightarrow> StateView" where
  "view_set_class h cl V = V\<lparr>sv_class := (sv_class V)(h := Ok cl)\<rparr>"

definition view_set_compiled_class_hash :: "ClassHash \<Rightarrow> CompiledClassHash \<Rightarrow> StateView \<Rightarrow> StateView" where
  "view_set_compiled_class_hash h ch V =
     V\<lparr>sv_compiled_class_hash := (sv_compiled_class_hash V)(h := Ok ch)\<rparr>"

subsection \<open>Sequences of state operations\<close>

datatype StateOp =
    GetStorageAt ContractAddress StorageKey
  | GetNonceAt ContractAddress
  | GetClassHashAt ContractAddress
  | GetCompiledContractClass ClassHash
  | GetCompiledClassHash ClassHash
  | SetStorageAt ContractAddress StorageKey StarkFelt
  | IncrementNonce ContractAddress
  | SetClassHashAt ContractAddress ClassHash
  | SetContractClass ClassHash ContractClass
  | SetCompiledClassHash ClassHash CompiledClassHash
  | AddVisitedPcs ClassHash "usize list"

definition discard :: "('s, 'e, 'a) action \<Rightarrow> ('s, 'e, unit) action" where
  "discard m = sbind m (\<lambda>_. sret ())"

fun run_op :: "'s StateReader \<Rightarrow> StateOp \<Rightarrow> ('s CachedState, StateError, unit) action" where
  "run_op R (GetStorageAt a k) = discard (get_storage_at R a k)"
| "run_op R (GetNonceAt a) = discard (get_nonce_at R a)"
| "run_op R (GetClassHashAt a) = discard (get_class_hash_at R a)"
| "run_op R (GetCompiledContractClass h) = discard (get_compiled_contract_class R h)"
| "run_op R (GetCompiledClassHash h) = discard (get_compiled_class_hash R h)"
| "run_op R (SetStorageAt a k v) = set_storage_at a k v"
| "run_op R (IncrementNonce a) = increment_nonce R a"
| "run_op R (SetClassHashAt a h) = set_class_hash_at a h"
| "run_op R (SetContractClass h cl) = set_contract_class h cl"
| "run_op R (SetCompiledClassHash h ch) = set_compiled_class_hash h ch"
| "run_op R (AddVisitedPcs h pcs) = (\<lambda>self. (Ok (), add_visited_pcs h pcs self))"

definition run_ops :: "'s StateReader \<Rightarrow> StateOp list \<Rightarrow> ('s CachedState, StateError, unit) action" where
  "run_ops R ops = sfor ops (run_op R)"

definition read_result :: "('e, 'a) result \<Rightarrow> ('e, unit) result" where
  "read_result r = rbind r (\<lambda>_. Ok ())"

definition view_increment_nonce :: "ContractAddress \<Rightarrow> StateView \<Rightarrow> (StateError, unit) result \<times> StateView" where
  "view_increment_nonce a V =
     (case rbind (sv_nonce V a) usize_try_from_felt of
        Ok n \<Rightarrow> (Ok (), view_set_nonce a (unat (1 + n)) V)
      | Err e \<Rightarrow> (Err e, V)
      | Panic p \<Rightarrow> (Panic p, V))"

fun view_op :: "StateOp \<Rightarrow> (StateView, StateError, unit) action" where
  "view_op (GetStorageAt a k) V = (read_result (sv_storage V a k), V)"
| "view_op (GetNonceAt a) V = (read_result (sv_nonce V a), V)"
| "view_op (GetClassHashAt a) V = (read_result (sv_class_hash V a), V)"
| "view_op (GetCompiledContractClass h) V = (read_result (sv_class V h), V)"
| "view_op (GetCompiledClassHash h) V = (read_result (sv_compiled_class_hash V h), V)"
| "view_op (SetStorageAt a k v) V = (Ok (), view_set_storage a k v V)"
| "view_op (IncrementNonce a) V = view_increment_nonce a V"
| "view_op (SetClassHashAt a h) V =
     (if a = 0 then (Err OutOfRangeContractAddress, V) else (Ok (), view_set_class_hash a h V))"
| "view_op (SetContractClass h cl) V = (Ok (), view_set_class h cl V)"
| "view_op (SetCompiledClassHash h ch) V = (Ok (), view_set_compiled_class_hash h ch V)"
| "view_op (AddVisitedPcs h pcs) V = (Ok (), V)"

definition view_ops :: "StateOp list \<Rightarrow> (StateView, StateError, unit) action" where
  "view_ops ops = sfor ops view_op"

subsection \<open>Writes of a stack of states\<close>

primrec inner_writes :: "'s StateImpl \<Rightarrow> (StateMaps \<times> VisitedPcs) list"
  and writes_stack :: "'s CachedState \<Rightarrow> (StateMaps \<times> VisitedPcs) list"
where
  "inner_writes (BaseReader s) = []"
| "inner_writes (MutRefState c) = writes_stack c"
| "writes_stack (CachedState state cache classes pcs) = (writes cache, pcs) # inner_writes state"

fun is_transactional :: "'s CachedState \<Rightarrow> bool" where
  "is_transactional (CachedState (MutRefState c) cache classes pcs) = True"
| "is_transactional (CachedState (BaseReader s) cache classes pcs) = False"

text \<open>What no read and no failed transaction may change: the invariant, the view of the
  state and the view of its inner state.\<close>

definition same_view ::
    "('s \<Rightarrow> StateView) \<Rightarrow> ('s \<Rightarrow> bool) \<Rightarrow> 's CachedState \<Rightarrow> 's CachedState \<Rightarrow> bool" where
  "same_view view ok c d \<longleftrightarrow> cached_inv view ok d \<and> cached_view view d = cached_view view c
     \<and> inner_view view (cs_state d) = inner_view view (cs_state c)
     \<and> writes_stack d = writes_stack c"

section \<open>The contract of a reader\<close>

locale state_reader =
  fixes R :: "'s StateReader"
    and view :: "'s \<Rightarrow> StateView"
    and ok :: "'s \<Rightarrow> bool"
  assumes storage_law: "ok s \<Longrightarrow>
      fst (sr_get_storage_at R a k s) = sv_storage (view s) a k
    \<and> ok (snd (sr_get_storage_at R a k s)) \<and> view (snd (sr_get_storage_at R a k s)) = view s"
    and nonce_law: "ok s \<Longrightarrow>
      fst (sr_get_nonce_at R a s) = sv_nonce (view s) a
    \<and> ok (snd (sr_get_nonce_at R a s)) \<and> view (snd (sr_get_nonce_at R a s)) = view s"
    and class_hash_law: "ok s \<Longrightarrow>
      fst (sr_get_class_hash_at R a s) = sv_class_hash (view s) a
    \<and> ok (snd (sr_get_class_hash_at R a s)) \<and> view (snd (sr_get_class_hash_at R a s)) = view s"
    and class_law: "ok s \<Longrightarrow>
      fst (sr_get_compiled_contract_class R h s) = sv_class (view s) h
    \<and> ok (snd (sr_get_compiled_contract_class R h s))
    \<and> view (snd (sr_get_compiled_contract_class R h s)) = view s"
    and compiled_class_hash_law: "ok s \<Longrightarrow>
      fst (sr_get_compiled_class_hash R h s) = sv_compiled_class_hash (view s) h
    \<and> ok (snd (sr_get_compiled_class_hash R h s))
    \<and> view (snd (sr_get_compiled_class_hash R h s)) = view s"

section \<open>Lemmas on caches and views\<close>

lemma or_else_simps [simp]:
  "or_else (Some a) y = Some a"
  "or_else None y = y"
  "or_else x y = None \<longleftrightarrow> x = None \<and> y = None"
  by (simp_all add: or_else_def split: option.splits)

lemma overlay_simps [simp]:
  "overlay (Some v) r = Ok v"
  "overlay None r = r"
  by (simp_all add: overlay_def)

lemma expect_simps [simp]: "expect m (Some a) = Ok a" "expect m None = Panic m"
  by (simp_all add: expect_def)

named_theorems cache_defs "definitions of the cache operations"

lemmas cache_ops_defs [cache_defs] =
  declare_contract_def set_declared_contract_initial_values_def
  StateCache_get_storage_at_def StateCache_get_nonce_at_def StateCache_get_class_hash_at_def
  StateCache_get_compiled_class_hash_def
  set_storage_initial_value_def set_nonce_initial_value_def set_class_hash_initial_value_def
  set_compiled_class_hash_initial_value_def
  set_storage_value_def set_nonce_value_def set_class_hash_write_def set_compiled_class_hash_write_def

lemma maps_wf_updates [simp, intro]:
  assumes "maps_wf m"
  shows "maps_wf (m\<lparr>sm_nonces := hm_insert a n (sm_nonces m)\<rparr>)"
    and "maps_wf (m\<lparr>sm_class_hashes := hm_insert a h (sm_class_hashes m)\<rparr>)"
    and "maps_wf (m\<lparr>sm_storage := hm_insert e v (sm_storage m)\<rparr>)"
    and "maps_wf (m\<lparr>sm_compiled_class_hashes := hm_insert h ch (sm_compiled_class_hashes m)\<rparr>)"
    and "maps_wf (m\<lparr>sm_declared_contracts := hm_insert h b (sm_declared_contracts m)\<rparr>)"
  using assms by (simp_all add: maps_wf_def)

lemma maps_wf_default [simp]: "maps_wf StateMaps_default"
  by (simp add: maps_wf_def StateMaps_default_def)

lemma maps_wf_extend [simp, intro]: "maps_wf m \<Longrightarrow> maps_wf (StateMaps_extend m m')"
  by (simp add: maps_wf_def StateMaps_extend_def)

lemma reads_agree_updates [simp]:
  assumes "reads_agree m V"
  shows "sv_nonce V a = Ok n \<Longrightarrow> reads_agree (m\<lparr>sm_nonces := hm_insert a n (sm_nonces m)\<rparr>) V"
    and "sv_class_hash V a = Ok h \<Longrightarrow>
          reads_agree (m\<lparr>sm_class_hashes := hm_insert a h (sm_class_hashes m)\<rparr>) V"
    and "sv_storage V a k = Ok v \<Longrightarrow>
          reads_agree (m\<lparr>sm_storage := hm_insert (a, k) v (sm_storage m)\<rparr>) V"
    and "sv_compiled_class_hash V h = Ok ch \<Longrightarrow>
          reads_agree (m\<lparr>sm_compiled_class_hashes := hm_insert h ch (sm_compiled_class_hashes m)\<rparr>) V"
    and "reads_agree (m\<lparr>sm_declared_contracts := ds\<rparr>) V"
  using assms by (auto simp: reads_agree_def)

lemma reads_agree_default [simp]: "reads_agree StateMaps_default V"
  by (simp add: reads_agree_def StateMaps_default_def)

lemma cache_inv_default [simp]: "cache_inv StateCache_default [] V"
  by (simp add: cache_inv_def StateCache_default_def)

lemma cache_view_default [simp]: "cache_view StateCache_default [] V = V"
  by (simp add: cache_view_def StateCache_default_def StateMaps_default_def cache_defs)

text \<open>Recording an initial read that agrees with the inner view changes neither the view of
  the cached state nor its invariant.\<close>

lemma cache_view_initial_value:
  assumes "cache_inv cache classes V"
  shows "sv_storage V a k = Ok v \<Longrightarrow>
      cache_view (set_storage_initial_value a k v cache) classes V = cache_view cache classes V
    \<and> cache_inv (set_storage_initial_value a k v cache) classes V"
    and "sv_nonce V a = Ok n \<Longrightarrow>
      cache_view (set_nonce_initial_value a n cache) classes V = cache_view cache classes V
    \<and> cache_inv (set_nonce_initial_value a n cache) classes V"
    and "sv_class_hash V a = Ok h \<Longrightarrow>
      cache_view (set_class_hash_initial_value a h cache) classes V = cache_view cache classes V
    \<and> cache_inv (set_class_hash_initial_value a h cache) classes V"
    and "sv_compiled_class_hash V h = Ok ch \<Longrightarrow>
      cache_view (set_compiled_class_hash_initial_value h ch cache) classes V = cache_view cache classes V
    \<and> cache_inv (set_compiled_class_hash_initial_value h ch cache) classes V"
    and "cache_view (set_declared_contract_initial_values h b cache) classes V = cache_view cache classes V
    \<and> cache_inv (set_declared_contract_initial_values h b cache) classes V"
  using assms
  by (auto simp: cache_inv_def cache_view_def cache_defs reads_agree_def overlay_def or_else_def
      fun_eq_iff split: option.splits)

lemma cache_view_simps [simp]:
  "sv_storage (cache_view cache classes V) a k =
     overlay (StateCache_get_storage_at cache a k) (sv_storage V a k)"
  "sv_nonce (cache_view cache classes V) a = overlay (StateCache_get_nonce_at cache a) (sv_nonce V a)"
  "sv_class_hash (cache_view cache classes V) a =
     overlay (StateCache_get_class_hash_at cache a) (sv_class_hash V a)"
  "sv_class (cache_view cache classes V) h = overlay (map_of classes h) (sv_class V h)"
  "sv_compiled_class_hash (cache_view cache classes V) h =
     overlay (StateCache_get_compiled_class_hash cache h) (sv_compiled_class_hash V h)"
  by (simp_all add: cache_view_def)

lemma cache_get_initial_value [simp]:
  "StateCache_get_storage_at cache a k = None \<Longrightarrow>
     StateCache_get_storage_at (set_storage_initial_value a k v cache) a k = Some v"
  "StateCache_get_nonce_at cache a = None \<Longrightarrow>
     StateCache_get_nonce_at (set_nonce_initial_value a n cache) a = Some n"
  "StateCache_get_class_hash_at cache a = None \<Longrightarrow>
     StateCache_get_class_hash_at (set_class_hash_initial_value a h cache) a = Some h"
  "StateCache_get_compiled_class_hash cache h = None \<Longrightarrow>
     StateCache_get_compiled_class_hash (set_compiled_class_hash_initial_value h ch cache) h = Some ch"
  by (simp_all add: cache_defs)

lemma cache_view_class_read:
  assumes "cache_inv cache classes V" and "map_of classes h = None" and "sv_class V h = Ok cl"
  shows "cache_view (set_declared_contract_initial_values h True cache) (hm_insert h cl classes) V =
      cache_view cache classes V
    \<and> cache_inv (set_declared_contract_initial_values h True cache) (hm_insert h cl classes) V"
  using assms by (auto simp: cache_inv_def cache_view_def cache_defs fun_eq_iff)

text \<open>The common shape of a read through the cache.\<close>

lemma read_through_refines:
  fixes view :: "'s \<Rightarrow> StateView" and get :: "StateCache \<Rightarrow> 'v option"
  assumes eq: "m (CachedState st cache classes pcs) =
      (if get cache = None then
         (case inner st of
            (Ok v, st') \<Rightarrow> (let cache' = put v cache in (expect msg (get cache'), CachedState st' cache' classes pcs))
          | (Err e, st') \<Rightarrow> (Err e, CachedState st' cache classes pcs)
          | (Panic p, st') \<Rightarrow> (Panic p, CachedState st' cache classes pcs))
       else (expect msg (get cache), CachedState st cache classes pcs))"
    and inner: "fst (inner st) = r \<and> inner_inv view ok (snd (inner st))
      \<and> inner_view view (snd (inner st)) = inner_view view st"
    and inv: "cached_inv view ok (CachedState st cache classes pcs)"
    and put_get: "\<And>v. get cache = None \<Longrightarrow> get (put v cache) = Some v"
    and stable: "\<And>v. r = Ok v \<Longrightarrow>
        cache_view (put v cache) classes (inner_view view st) = cache_view cache classes (inner_view view st)
      \<and> cache_inv (put v cache) classes (inner_view view st)"
  shows "fst (m (CachedState st cache classes pcs)) = overlay (get cache) r
    \<and> cached_inv view ok (snd (m (CachedState st cache classes pcs)))
    \<and> cached_view view (snd (m (CachedState st cache classes pcs))) = cached_view view (CachedState st cache classes pcs)
    \<and> inner_view view (cs_state (snd (m (CachedState st cache classes pcs)))) = inner_view view st"
proof (cases "get cache")
  case None
  obtain r' st' where run: "inner st = (r', st')"
    by fastforce
  then show ?thesis
    using None inner inv put_get stable unfolding eq by (cases r') (auto simp: Let_def)
next
  case (Some v)
  then show ?thesis
    using inv unfolding eq by simp
qed

lemma cache_view_writes [simp]:
  "cache_view (set_storage_value a k v cache) classes V = view_set_storage a k v (cache_view cache classes V)"
  "cache_view (set_nonce_value a n cache) classes V = view_set_nonce a n (cache_view cache classes V)"
  "cache_view (set_class_hash_write a h cache) classes V = view_set_class_hash a h (cache_view cache classes V)"
  "cache_view (set_compiled_class_hash_write h ch cache) classes V =
     view_set_compiled_class_hash h ch (cache_view cache classes V)"
  "cache_view (declare_contract h cache) (hm_insert h cl classes) V =
     view_set_class h cl (cache_view cache classes V)"
  by (auto simp: cache_view_def cache_defs view_set_storage_def view_set_nonce_def view_set_class_hash_def
      view_set_compiled_class_hash_def view_set_class_def fun_eq_iff)

lemma cache_inv_writes [simp]:
  assumes "cache_inv cache classes V"
  shows "cache_inv (set_storage_value a k v cache) classes V"
    and "cache_inv (set_nonce_value a n cache) classes V"
    and "cache_inv (set_class_hash_write a h cache) classes V"
    and "cache_inv (set_compiled_class_hash_write h ch cache) classes V"
    and "cache_inv (declare_contract h cache) (hm_insert h cl classes) V"
  using assms by (auto simp: cache_inv_def cache_defs)

lemma writes_initial_value [simp]:
  "writes (set_storage_initial_value a k v cache) = writes cache"
  "writes (set_nonce_initial_value a n cache) = writes cache"
  "writes (set_class_hash_initial_value a h cache) = writes cache"
  "writes (set_compiled_class_hash_initial_value h ch cache) = writes cache"
  "writes (set_declared_contract_initial_values h b cache) = writes cache"
  by (simp_all add: cache_defs)

text \<open>Reads write nowhere: neither in the state they are made on nor in its ancestors.\<close>

lemma get_storage_at_writes:
  "inner_writes (snd (get_storage_at_inner R a k st)) = inner_writes st"
  "writes_stack (snd (get_storage_at R a k c)) = writes_stack c"
  by (induction st and c rule: StateImpl.induct CachedState.induct)
    (auto simp: Let_def split: prod.splits result.splits)

lemma get_nonce_at_writes:
  "inner_writes (snd (get_nonce_at_inner R a st)) = inner_writes st"
  "writes_stack (snd (get_nonce_at R a c)) = writes_stack c"
  by (induction st and c rule: StateImpl.induct CachedState.induct)
    (auto simp: Let_def split: prod.splits result.splits)

lemma get_class_hash_at_writes:
  "inner_writes (snd (get_class_hash_at_inner R a st)) = inner_writes st"
  "writes_stack (snd (get_class_hash_at R a c)) = writes_stack c"
  by (induction st and c rule: StateImpl.induct CachedState.induct)
    (auto simp: Let_def split: prod.splits result.splits)

lemma get_compiled_class_hash_writes:
  "inner_writes (snd (get_compiled_class_hash_inner R h st)) = inner_writes st"
  "writes_stack (snd (get_compiled_class_hash R h c)) = writes_stack c"
  by (induction st and c rule: StateImpl.induct CachedState.induct)
    (auto simp: Let_def split: prod.splits result.splits)

lemma get_compiled_contract_class_writes:
  "inner_writes (snd (get_compiled_contract_class_inner R h st)) = inner_writes st"
  "writes_stack (snd (get_compiled_contract_class R h c)) = writes_stack c"
  by (induction st and c rule: StateImpl.induct CachedState.induct)
    (auto simp: Let_def split: prod.splits result.splits option.splits StateError.splits)

lemmas reads_write_nothing [simp] =
  get_storage_at_writes get_nonce_at_writes get_class_hash_at_writes
  get_compiled_class_hash_writes get_compiled_contract_class_writes

lemma writes_stack_eq: "writes_stack c = (writes (cs_cache c), cs_visited_pcs c) # inner_writes (cs_state c)"
  by (cases c) simp

lemma inner_writes_eq_tl: "inner_writes (cs_state c) = tl (writes_stack c)"
  by (simp add: writes_stack_eq)

lemma with_cache_simps [simp]:
  "cs_state (with_cache f c) = cs_state c"
  "cs_cache (with_cache f c) = f (cs_cache c)"
  "cs_class_hash_to_class (with_cache f c) = cs_class_hash_to_class c"
  "cs_visited_pcs (with_cache f c) = cs_visited_pcs c"
  by (simp_all add: with_cache_def)

lemma discard_snd [simp]: "snd (discard m c) = snd (m c)"
  by (simp add: discard_def sbind_def split: prod.splits result.splits)

lemma discard_fst [simp]: "fst (discard m c) = read_result (fst (m c))"
  by (simp add: discard_def sbind_def read_result_def split: prod.splits result.splits)

lemma increment_nonce_snd:
  "snd (increment_nonce R a c) = snd (get_nonce_at R a c)
   \<or> (\<exists>n. snd (increment_nonce R a c) = with_cache (set_nonce_value a n) (snd (get_nonce_at R a c)))"
  by (auto simp: increment_nonce_def sbind_def Let_def split: prod.splits result.splits)

lemma reads_inner_writes [simp]:
  "inner_writes (cs_state (snd (get_storage_at R a k c))) = inner_writes (cs_state c)"
  "inner_writes (cs_state (snd (get_nonce_at R a c))) = inner_writes (cs_state c)"
  "inner_writes (cs_state (snd (get_class_hash_at R a c))) = inner_writes (cs_state c)"
  "inner_writes (cs_state (snd (get_compiled_contract_class R h c))) = inner_writes (cs_state c)"
  "inner_writes (cs_state (snd (get_compiled_class_hash R h c))) = inner_writes (cs_state c)"
  by (simp_all only: inner_writes_eq_tl reads_write_nothing)

lemma increment_nonce_inner_writes [simp]:
  "inner_writes (cs_state (snd (increment_nonce R a c))) = inner_writes (cs_state c)"
  using increment_nonce_snd [of R a c] by auto

lemma run_op_inner_writes: "inner_writes (cs_state (snd (run_op R op c))) = inner_writes (cs_state c)"
  by (cases op) (simp_all add: set_storage_at_def set_class_hash_at_def set_contract_class_def
      set_compiled_class_hash_def add_visited_pcs_def)

lemma run_ops_inner_writes: "inner_writes (cs_state (snd (run_ops R ops c))) = inner_writes (cs_state c)"
proof -
  have "keeps (\<lambda>d. inner_writes (cs_state d) = inner_writes (cs_state c)) (run_ops R ops)"
    unfolding run_ops_def by (intro keeps_intros keepsI) (simp add: run_op_inner_writes)
  then show ?thesis
    by (rule keepsD) simp
qed

text \<open>A state is transactional when it has an ancestor to commit to.\<close>

lemma is_transactional_iff: "is_transactional c \<longleftrightarrow> inner_writes (cs_state c) \<noteq> []"
  by (cases c rule: is_transactional.cases) (simp_all add: writes_stack_eq)

lemma run_ops_transactional: "is_transactional c \<Longrightarrow> is_transactional (snd (run_ops R ops c))"
  by (simp add: is_transactional_iff run_ops_inner_writes)

text \<open>Committing and aborting, over the view of the inner state.\<close>

lemma cached_view_eq: "cached_view view c =
    cache_view (cs_cache c) (cs_class_hash_to_class c) (inner_view view (cs_state c))"
  by (cases c) simp

lemma cached_inv_eq: "cached_inv view ok c \<longleftrightarrow> inner_inv view ok (cs_state c)
    \<and> cache_inv (cs_cache c) (cs_class_hash_to_class c) (inner_view view (cs_state c))"
  by (cases c) simp

lemma update_visited_pcs_cache_simps [simp]:
  "cs_state (update_visited_pcs_cache pcs c) = cs_state c"
  "cs_cache (update_visited_pcs_cache pcs c) = cs_cache c"
  "cs_class_hash_to_class (update_visited_pcs_cache pcs c) = cs_class_hash_to_class c"
  by (induction pcs arbitrary: c) (auto simp: update_visited_pcs_cache_def add_visited_pcs_def)

lemma commit_simps:
  "cs_state (commit (CachedState (MutRefState p) cache classes pcs)) = cs_state p"
  "cs_cache (commit (CachedState (MutRefState p) cache classes pcs)) =
     (cs_cache p)\<lparr>writes := StateMaps_extend (writes (cs_cache p)) (writes cache)\<rparr>"
  "cs_class_hash_to_class (commit (CachedState (MutRefState p) cache classes pcs)) =
     hm_extend (cs_class_hash_to_class p) classes"
  by (simp_all add: update_contract_class_cache_def update_cache_def)

lemma overlay_extend:
  assumes "\<And>v. i' = Some v \<Longrightarrow> overlay (or_else w i) r = Ok v"
  shows "overlay (or_else (case w' of None \<Rightarrow> w | Some x \<Rightarrow> Some x) i) r =
    overlay (or_else w' i') (overlay (or_else w i) r)"
  using assms by (cases w'; cases i') auto

lemma extend_view:
  assumes "cache_inv cache classes (cache_view pcache pclasses V)"
  shows "cache_view (pcache\<lparr>writes := StateMaps_extend (writes pcache) (writes cache)\<rparr>)
      (hm_extend pclasses classes) V = cache_view cache classes (cache_view pcache pclasses V)"
proof (rule StateView.equality)
  have agree: "reads_agree (initial_reads cache) (cache_view pcache pclasses V)"
    using assms by (simp add: cache_inv_def)
  note overlay_extend [simp] map_add_def [simp] StateMaps_extend_def [simp] fun_eq_iff [simp]
  show "sv_storage (cache_view (pcache\<lparr>writes := StateMaps_extend (writes pcache) (writes cache)\<rparr>)
      (hm_extend pclasses classes) V) = sv_storage (cache_view cache classes (cache_view pcache pclasses V))"
    using agree by (simp add: reads_agree_def StateCache_get_storage_at_def)
  show "sv_nonce (cache_view (pcache\<lparr>writes := StateMaps_extend (writes pcache) (writes cache)\<rparr>)
      (hm_extend pclasses classes) V) = sv_nonce (cache_view cache classes (cache_view pcache pclasses V))"
    using agree by (simp add: reads_agree_def StateCache_get_nonce_at_def)
  show "sv_class_hash (cache_view (pcache\<lparr>writes := StateMaps_extend (writes pcache) (writes cache)\<rparr>)
      (hm_extend pclasses classes) V) = sv_class_hash (cache_view cache classes (cache_view pcache pclasses V))"
    using agree by (simp add: reads_agree_def StateCache_get_class_hash_at_def)
  show "sv_class (cache_view (pcache\<lparr>writes := StateMaps_extend (writes pcache) (writes cache)\<rparr>)
      (hm_extend pclasses classes) V) = sv_class (cache_view cache classes (cache_view pcache pclasses V))"
    by (simp split: option.splits)
  show "sv_compiled_class_hash (cache_view (pcache\<lparr>writes := StateMaps_extend (writes pcache) (writes cache)\<rparr>)
      (hm_extend pclasses classes) V) =
      sv_compiled_class_hash (cache_view cache classes (cache_view pcache pclasses V))"
    using agree by (simp add: reads_agree_def StateCache_get_compiled_class_hash_def)
qed simp

lemma commit_view:
  assumes "is_transactional c" and "cached_inv view ok c"
  shows "cached_view view (commit c) = cached_view view c" and "cached_inv view ok (commit c)"
proof -
  obtain p cache classes pcs where c: "c = CachedState (MutRefState p) cache classes pcs"
    using assms(1) by (cases c rule: is_transactional.cases) auto
  have p: "cached_inv view ok p" and inv: "cache_inv cache classes (cached_view view p)"
    using assms(2) by (simp_all add: c)
  show "cached_view view (commit c) = cached_view view c"
    using extend_view inv by (simp add: c cached_view_eq commit_simps del: commit.simps)
  show "cached_inv view ok (commit c)"
    using p by (simp add: c cached_inv_eq commit_simps cache_inv_def del: commit.simps)
qed

lemma abort_view:
  assumes "is_transactional c"
  shows "cached_view view (abort c) = inner_view view (cs_state c)"
    and "cached_inv view ok c \<Longrightarrow> cached_inv view ok (abort c)"
    and "writes_stack (abort c) = inner_writes (cs_state c)"
  using assms by (cases c rule: is_transactional.cases; simp)+

lemma create_transactional_simps [simp]:
  "cached_view view (create_transactional p) = cached_view view p"
  "cached_inv view ok (create_transactional p) \<longleftrightarrow> cached_inv view ok p"
  "inner_view view (cs_state (create_transactional p)) = cached_view view p"
  "inner_writes (cs_state (create_transactional p)) = writes_stack p"
  "is_transactional (create_transactional p)"
  by (simp_all add: create_transactional_def CachedState_new_def)

section \<open>Cached states refine views\<close>

context state_reader
begin

lemma get_storage_at_refines:
  "inner_inv view ok st \<Longrightarrow>
     fst (get_storage_at_inner R a k st) = sv_storage (inner_view view st) a k
   \<and> inner_inv view ok (snd (get_storage_at_inner R a k st))
   \<and> inner_view view (snd (get_storage_at_inner R a k st)) = inner_view view st"
  "cached_inv view ok c \<Longrightarrow>
     fst (get_storage_at R a k c) = sv_storage (cached_view view c) a k
   \<and> cached_inv view ok (snd (get_storage_at R a k c))
   \<and> cached_view view (snd (get_storage_at R a k c)) = cached_view view c
   \<and> inner_view view (cs_state (snd (get_storage_at R a k c))) = inner_view view (cs_state c)"
proof (induction st and c rule: StateImpl.induct CachedState.induct)
  case (BaseReader s)
  then show ?case
    using storage_law [of s a k] by simp
next
  case (CachedState st cache classes pcs)
  then have inv: "cache_inv cache classes (inner_view view st)"
    by simp
  have "fst (get_storage_at R a k (CachedState st cache classes pcs)) =
      overlay (StateCache_get_storage_at cache a k) (sv_storage (inner_view view st) a k)
    \<and> cached_inv view ok (snd (get_storage_at R a k (CachedState st cache classes pcs)))
    \<and> cached_view view (snd (get_storage_at R a k (CachedState st cache classes pcs))) =
        cached_view view (CachedState st cache classes pcs)
    \<and> inner_view view (cs_state (snd (get_storage_at R a k (CachedState st cache classes pcs)))) = inner_view view st"
    by (rule read_through_refines [where m = "get_storage_at R a k" and inner = "get_storage_at_inner R a k"
        and get = "\<lambda>c. StateCache_get_storage_at c a k" and put = "set_storage_initial_value a k"], rule get_storage_at.simps)
      (use CachedState cache_view_initial_value(1) [OF inv] in auto)
  then show ?case
    by simp
qed simp

lemma get_nonce_at_refines:
  "inner_inv view ok st \<Longrightarrow>
     fst (get_nonce_at_inner R a st) = sv_nonce (inner_view view st) a
   \<and> inner_inv view ok (snd (get_nonce_at_inner R a st))
   \<and> inner_view view (snd (get_nonce_at_inner R a st)) = inner_view view st"
  "cached_inv view ok c \<Longrightarrow>
     fst (get_nonce_at R a c) = sv_nonce (cached_view view c) a
   \<and> cached_inv view ok (snd (get_nonce_at R a c))
   \<and> cached_view view (snd (get_nonce_at R a c)) = cached_view view c
   \<and> inner_view view (cs_state (snd (get_nonce_at R a c))) = inner_view view (cs_state c)"
proof (induction st and c rule: StateImpl.induct CachedState.induct)
  case (BaseReader s)
  then show ?case
    using nonce_law [of s a] by simp
next
  case (CachedState st cache classes pcs)
  then have inv: "cache_inv cache classes (inner_view view st)"
    by simp
  have "fst (get_nonce_at R a (CachedState st cache classes pcs)) =
      overlay (StateCache_get_nonce_at cache a) (sv_nonce (inner_view view st) a)
    \<and> cached_inv view ok (snd (get_nonce_at R a (CachedState st cache classes pcs)))
    \<and> cached_view view (snd (get_nonce_at R a (CachedState st cache classes pcs))) =
        cached_view view (CachedState st cache classes pcs)
    \<and> inner_view view (cs_state (snd (get_nonce_at R a (CachedState st cache classes pcs)))) = inner_view view st"
    by (rule read_through_refines [where m = "get_nonce_at R a" and inner = "get_nonce_at_inner R a"
        and get = "\<lambda>c. StateCache_get_nonce_at c a" and put = "set_nonce_initial_value a"], rule get_nonce_at.simps)
      (use CachedState cache_view_initial_value(2) [OF inv] in auto)
  then show ?case
    by simp
qed simp

lemma get_class_hash_at_refines:
  "inner_inv view ok st \<Longrightarrow>
     fst (get_class_hash_at_inner R a st) = sv_class_hash (inner_view view st) a
   \<and> inner_inv view ok (snd (get_class_hash_at_inner R a st))
   \<and> inner_view view (snd (get_class_hash_at_inner R a st)) = inner_view view st"
  "cached_inv view ok c \<Longrightarrow>
     fst (get_class_hash_at R a c) = sv_class_hash (cached_view view c) a
   \<and> cached_inv view ok (snd (get_class_hash_at R a c))
   \<and> cached_view view (snd (get_class_hash_at R a c)) = cached_view view c
   \<and> inner_view view (cs_state (snd (get_class_hash_at R a c))) = inner_view view (cs_state c)"
proof (induction st and c rule: StateImpl.induct CachedState.induct)
  case (BaseReader s)
  then show ?case
    using class_hash_law [of s a] by simp
next
  case (CachedState st cache classes pcs)
  then have inv: "cache_inv cache classes (inner_view view st)"
    by simp
  have "fst (get_class_hash_at R a (CachedState st cache classes pcs)) =
      overlay (StateCache_get_class_hash_at cache a) (sv_class_hash (inner_view view st) a)
    \<and> cached_inv view ok (snd (get_class_hash_at R a (CachedState st cache classes pcs)))
    \<and> cached_view view (snd (get_class_hash_at R a (CachedState st cache classes pcs))) =
        cached_view view (CachedState st cache classes pcs)
    \<and> inner_view view (cs_state (snd (get_class_hash_at R a (CachedState st cache classes pcs)))) = inner_view view st"
    by (rule read_through_refines [where m = "get_class_hash_at R a" and inner = "get_class_hash_at_inner R a"
        and get = "\<lambda>c. StateCache_get_class_hash_at c a" and put = "set_class_hash_initial_value a"], rule get_class_hash_at.simps)
      (use CachedState cache_view_initial_value(3) [OF inv] in auto)
  then show ?case
    by simp
qed simp

lemma get_compiled_class_hash_refines:
  "inner_inv view ok st \<Longrightarrow>
     fst (get_compiled_class_hash_inner R h st) = sv_compiled_class_hash (inner_view view st) h
   \<and> inner_inv view ok (snd (get_compiled_class_hash_inner R h st))
   \<and> inner_view view (snd (get_compiled_class_hash_inner R h st)) = inner_view view st"
  "cached_inv view ok c \<Longrightarrow>
     fst (get_compiled_class_hash R h c) = sv_compiled_class_hash (cached_view view c) h
   \<and> cached_inv view ok (snd (get_compiled_class_hash R h c))
   \<and> cached_view view (snd (get_compiled_class_hash R h c)) = cached_view view c
   \<and> inner_view view (cs_state (snd (get_compiled_class_hash R h c))) = inner_view view (cs_state c)"
proof (induction st and c rule: StateImpl.induct CachedState.induct)
  case (BaseReader s)
  then show ?case
    using compiled_class_hash_law [of s h] by simp
next
  case (CachedState st cache classes pcs)
  then have inv: "cache_inv cache classes (inner_view view st)"
    by simp
  have "fst (get_compiled_class_hash R h (CachedState st cache classes pcs)) =
      overlay (StateCache_get_compiled_class_hash cache h) (sv_compiled_class_hash (inner_view view st) h)
    \<and> cached_inv view ok (snd (get_compiled_class_hash R h (CachedState st cache classes pcs)))
    \<and> cached_view view (snd (get_compiled_class_hash R h (CachedState st cache classes pcs))) =
        cached_view view (CachedState st cache classes pcs)
    \<and> inner_view view (cs_state (snd (get_compiled_class_hash R h (CachedState st cache classes pcs)))) = inner_view view st"
    by (rule read_through_refines [where m = "get_compiled_class_hash R h" and inner = "get_compiled_class_hash_inner R h"
        and get = "\<lambda>c. StateCache_get_compiled_class_hash c h" and put = "set_compiled_class_hash_initial_value h"], rule get_compiled_class_hash.simps)
      (use CachedState cache_view_initial_value(4) [OF inv] in auto)
  then show ?case
    by simp
qed simp

lemma get_compiled_contract_class_refines:
  "inner_inv view ok st \<Longrightarrow>
     fst (get_compiled_contract_class_inner R h st) = sv_class (inner_view view st) h
   \<and> inner_inv view ok (snd (get_compiled_contract_class_inner R h st))
   \<and> inner_view view (snd (get_compiled_contract_class_inner R h st)) = inner_view view st"
  "cached_inv view ok c \<Longrightarrow>
     fst (get_compiled_contract_class R h c) = sv_class (cached_view view c) h
   \<and> cached_inv view ok (snd (get_compiled_contract_class R h c))
   \<and> cached_view view (snd (get_compiled_contract_class R h c)) = cached_view view c
   \<and> inner_view view (cs_state (snd (get_compiled_contract_class R h c))) = inner_view view (cs_state c)"
proof (induction st and c rule: StateImpl.induct CachedState.induct)
  case (BaseReader s)
  then show ?case
    using class_law [of s h] by simp
next
  case (CachedState st cache classes pcs)
  then obtain st' where run: "get_compiled_contract_class_inner R h st = (sv_class (inner_view view st) h, st')"
    by (metis cached_inv.simps prod.collapse)
  have inv: "cache_inv cache classes (inner_view view st)"
    using CachedState.prems by simp
  show ?case
    using CachedState run cache_view_initial_value(5) [OF inv] cache_view_class_read [OF inv, of h]
    by (cases "sv_class (inner_view view st) h") (auto simp: Let_def split: option.splits StateError.splits)
qed simp

lemma set_op_refines:
  assumes "cached_inv view ok c"
  shows "cached_view view (with_cache (set_storage_value a k v) c) = view_set_storage a k v (cached_view view c)
    \<and> cached_inv view ok (with_cache (set_storage_value a k v) c)"
    and "cached_view view (with_cache (set_nonce_value a n) c) = view_set_nonce a n (cached_view view c)
    \<and> cached_inv view ok (with_cache (set_nonce_value a n) c)"
    and "cached_view view (with_cache (set_class_hash_write a h) c) = view_set_class_hash a h (cached_view view c)
    \<and> cached_inv view ok (with_cache (set_class_hash_write a h) c)"
    and "cached_view view (with_cache (set_compiled_class_hash_write h ch) c) =
          view_set_compiled_class_hash h ch (cached_view view c)
    \<and> cached_inv view ok (with_cache (set_compiled_class_hash_write h ch) c)"
  using assms by (simp_all add: cached_view_eq cached_inv_eq)

lemma increment_nonce_refines:
  assumes "cached_inv view ok c"
  shows "fst (increment_nonce R a c) = fst (view_increment_nonce a (cached_view view c))
    \<and> cached_view view (snd (increment_nonce R a c)) = snd (view_increment_nonce a (cached_view view c))
    \<and> cached_inv view ok (snd (increment_nonce R a c))
    \<and> inner_view view (cs_state (snd (increment_nonce R a c))) = inner_view view (cs_state c)"
proof -
  obtain c' where run: "get_nonce_at R a c = (sv_nonce (cached_view view c) a, c')"
    and c': "cached_inv view ok c'" "cached_view view c' = cached_view view c"
      "inner_view view (cs_state c') = inner_view view (cs_state c)"
    using get_nonce_at_refines(2) [OF assms, of a] by (metis prod.collapse)
  show ?thesis
    using c' set_op_refines(2) [OF c'(1)]
    by (auto simp: increment_nonce_def view_increment_nonce_def sbind_def run Let_def split: result.splits)
qed

lemma set_contract_class_refines:
  assumes "cached_inv view ok c"
  shows "cached_view view (snd (set_contract_class h cl c)) = view_set_class h cl (cached_view view c)
    \<and> cached_inv view ok (snd (set_contract_class h cl c))"
    and "cached_view view (add_visited_pcs h pcs c) = cached_view view c
    \<and> cached_inv view ok (add_visited_pcs h pcs c)"
  using assms by (simp_all add: set_contract_class_def add_visited_pcs_def cached_view_eq [of view c] cached_inv_eq [of view ok c])

lemma run_op_refines:
  assumes "cached_inv view ok c"
  shows "fst (run_op R op c) = fst (view_op op (cached_view view c))
    \<and> cached_view view (snd (run_op R op c)) = snd (view_op op (cached_view view c))
    \<and> cached_inv view ok (snd (run_op R op c))
    \<and> inner_view view (cs_state (snd (run_op R op c))) = inner_view view (cs_state c)"
proof (cases op)
  case (SetContractClass h cl)
  then show ?thesis
    using set_contract_class_refines(1) [OF assms, of h cl] by (simp add: set_contract_class_def)
next
  case (AddVisitedPcs h pcs)
  then show ?thesis
    using set_contract_class_refines(2) [OF assms, of h pcs] by (simp add: add_visited_pcs_def)
qed (simp_all add: assms increment_nonce_refines get_storage_at_refines(2) get_nonce_at_refines(2)
      get_class_hash_at_refines(2) get_compiled_class_hash_refines(2) get_compiled_contract_class_refines(2)
      set_op_refines set_storage_at_def set_class_hash_at_def set_compiled_class_hash_def)

lemma run_ops_refines:
  assumes "cached_inv view ok c"
  shows "fst (run_ops R ops c) = fst (view_ops ops (cached_view view c))
    \<and> cached_view view (snd (run_ops R ops c)) = snd (view_ops ops (cached_view view c))
    \<and> cached_inv view ok (snd (run_ops R ops c))
    \<and> inner_view view (cs_state (snd (run_ops R ops c))) = inner_view view (cs_state c)"
  using assms
proof (induction ops arbitrary: c)
  case (Cons op ops)
  obtain r c' where run: "run_op R op c = (r, c')"
    by fastforce
  moreover obtain r' V' where vrun: "view_op op (cached_view view c) = (r', V')"
    by fastforce
  ultimately show ?case
    using run_op_refines [OF Cons.prems, of op] Cons.IH [of c']
    by (cases r) (auto simp: run_ops_def view_ops_def sbind_def)
qed (simp add: run_ops_def view_ops_def)

lemma same_view_reads [keeps_intros]:
  "keeps (same_view view ok c) (get_storage_at R a k)"
  "keeps (same_view view ok c) (get_nonce_at R a)"
  "keeps (same_view view ok c) (get_class_hash_at R a)"
  "keeps (same_view view ok c) (get_compiled_contract_class R h)"
  "keeps (same_view view ok c) (get_compiled_class_hash R h)"
  by (auto simp: keeps_def same_view_def get_storage_at_refines(2) get_nonce_at_refines(2)
      get_class_hash_at_refines(2) get_compiled_contract_class_refines(2) get_compiled_class_hash_refines(2))

lemma reads_refine:
  assumes "cached_inv view ok c"
  shows "(fst (get_storage_at R a k c) = sv_storage (cached_view view c) a k
      \<and> same_view view ok c (snd (get_storage_at R a k c)))
    \<and> (fst (get_nonce_at R a c) = sv_nonce (cached_view view c) a
      \<and> same_view view ok c (snd (get_nonce_at R a c)))
    \<and> (fst (get_class_hash_at R a c) = sv_class_hash (cached_view view c) a
      \<and> same_view view ok c (snd (get_class_hash_at R a c)))
    \<and> (fst (get_compiled_contract_class R h c) = sv_class (cached_view view c) h
      \<and> same_view view ok c (snd (get_compiled_contract_class R h c)))
    \<and> (fst (get_compiled_class_hash R h c) = sv_compiled_class_hash (cached_view view c) h
      \<and> same_view view ok c (snd (get_compiled_class_hash R h c)))"
  using assms by (simp add: same_view_def get_storage_at_refines(2) get_nonce_at_refines(2)
      get_class_hash_at_refines(2) get_compiled_contract_class_refines(2) get_compiled_class_hash_refines(2))

text \<open>Running operations in a transactional state and then committing it, or aborting it.\<close>

lemma transaction_commits:
  assumes "cached_inv view ok p"
  shows "fst (run_ops R ops (create_transactional p)) = fst (run_ops R ops p)
    \<and> cached_view view (commit (snd (run_ops R ops (create_transactional p)))) =
        cached_view view (snd (run_ops R ops p))
    \<and> cached_inv view ok (commit (snd (run_ops R ops (create_transactional p))))"
proof -
  have t: "cached_inv view ok (create_transactional p)"
    using assms by simp
  have "is_transactional (snd (run_ops R ops (create_transactional p)))"
    by (rule run_ops_transactional) simp
  then show ?thesis
    using run_ops_refines [OF t, of ops] run_ops_refines [OF assms, of ops]
      commit_view [of "snd (run_ops R ops (create_transactional p))" view ok] by simp
qed

lemma transaction_aborts:
  assumes "cached_inv view ok p"
  shows "cached_inv view ok (abort (snd (run_ops R ops (create_transactional p))))
    \<and> cached_view view (abort (snd (run_ops R ops (create_transactional p)))) = cached_view view p
    \<and> writes_stack (abort (snd (run_ops R ops (create_transactional p)))) = writes_stack p"
proof -
  have t: "cached_inv view ok (create_transactional p)"
    using assms by simp
  have "is_transactional (snd (run_ops R ops (create_transactional p)))"
    by (rule run_ops_transactional) simp
  then show ?thesis
    using run_ops_refines [OF t, of ops] run_ops_inner_writes [of R ops "create_transactional p"]
    by (simp add: abort_view)
qed

end

end
