(* ===== verification/Dict_State_Reader.thy ===== *)
theory Dict_State_Reader
  imports State_View
begin

text \<open>
  The dictionary reader of \<open>test_utils/dict_state_reader.rs\<close>, an interpretation of the
  contract \<open>state_reader\<close>, and the properties of cached and transactional states that
  follow from that contract for every reader. The concrete instances of the properties are
  taken over the dictionary reader.
\<close>

section \<open>The dictionary reader\<close>

record DictStateReader =
  dict_storage_view :: "(StorageEntry, StarkFelt) HashMap"
  dict_address_to_nonce :: "(ContractAddress, Nonce) HashMap"
  dict_address_to_class_hash :: "(ContractAddress, ClassHash) HashMap"
  dict_class_hash_to_class :: "(ClassHash, ContractClass) HashMap"
  dict_class_hash_to_compiled_class_hash :: "(ClassHash, CompiledClassHash) HashMap"

definition unwrap_or_default :: "nat option \<Rightarrow> nat" where
  "unwrap_or_default x = (case x of Some v \<Rightarrow> v | None \<Rightarrow> 0)"

definition dict_get_storage_at ::
    "ContractAddress \<Rightarrow> StorageKey \<Rightarrow> (DictStateReader, StateError, StarkFelt) action" where
  "dict_get_storage_at contract_address key self =
     (Ok (unwrap_or_default (map_of (dict_storage_view self) (contract_address, key))), self)"

definition dict_get_nonce_at :: "ContractAddress \<Rightarrow> (DictStateReader, StateError, Nonce) action" where
  "dict_get_nonce_at contract_address self =
     (Ok (unwrap_or_default (map_of (dict_address_to_nonce self) contract_address)), self)"

definition dict_get_class_hash_at :: "ContractAddress \<Rightarrow> (DictStateReader, StateError, ClassHash) action" where
  "dict_get_class_hash_at contract_address self =
     (Ok (unwrap_or_default (map_of (dict_address_to_class_hash self) contract_address)), self)"

definition dict_get_compiled_contract_class ::
    "ClassHash \<Rightarrow> (DictStateReader, StateError, ContractClass) action" where
  "dict_get_compiled_contract_class class_hash self =
     (case map_of (dict_class_hash_to_class self) class_hash of
        Some contract_class \<Rightarrow> (Ok contract_class, self)
      | None \<Rightarrow> (Err (UndeclaredClassHash class_hash), self))"

definition dict_get_compiled_class_hash ::
    "ClassHash \<Rightarrow> (DictStateReader, StateError, CompiledClassHash) action" where
  "dict_get_compiled_class_hash class_hash self =
     (Ok (unwrap_or_default (map_of (dict_class_hash_to_compiled_class_hash self) class_hash)), self)"

definition dict_reader :: "DictStateReader StateReader" where
  "dict_reader =
     \<lparr>sr_get_storage_at = dict_get_storage_at,
      sr_get_nonce_at = dict_get_nonce_at,
      sr_get_class_hash_at = dict_get_class_hash_at,
      sr_get_compiled_contract_class = dict_get_compiled_contract_class,
      sr_get_compiled_class_hash = dict_get_compiled_class_hash\<rparr>"

definition dict_view :: "DictStateReader \<Rightarrow> StateView" where
  "dict_view s =
     \<lparr>sv_storage = (\<lambda>a k. Ok (unwrap_or_default (map_of (dict_storage_view s) (a, k)))),
      sv_nonce = (\<lambda>a. Ok (unwrap_or_default (map_of (dict_address_to_nonce s) a))),
      sv_class_hash = (\<lambda>a. Ok (unwrap_or_default (map_of (dict_address_to_class_hash s) a))),
      sv_class = (\<lambda>h. case map_of (dict_class_hash_to_class s) h of
                       Some cl \<Rightarrow> Ok cl | None \<Rightarrow> Err (UndeclaredClassHash h)),
      sv_compiled_class_hash =
        (\<lambda>h. Ok (unwrap_or_default (map_of (dict_class_hash_to_compiled_class_hash s) h)))\<rparr>"

abbreviation dict_ok :: "DictStateReader \<Rightarrow> bool" where
  "dict_ok \<equiv> (\<lambda>s. True)"

definition dict_example :: DictStateReader where
  "dict_example =
     \<lparr>dict_storage_view = [((7, 10), 5)], dict_address_to_nonce = [(7, 3)],
      dict_address_to_class_hash = [(7, 77)], dict_class_hash_to_class = [],
      dict_class_hash_to_compiled_class_hash = []\<rparr>"

definition cached_example :: "DictStateReader CachedState" where
  "cached_example = CachedState_new (BaseReader dict_example)"

section \<open>Interpretations of the reader contract\<close>

interpretation dict: state_reader dict_reader dict_view dict_ok
  by unfold_locales
    (simp_all add: dict_reader_def dict_view_def dict_get_storage_at_def dict_get_nonce_at_def
      dict_get_class_hash_at_def dict_get_compiled_contract_class_def dict_get_compiled_class_hash_def
      split: option.splits)

lemma CachedState_new_inv [simp]: "cached_inv view ok (CachedState_new st) \<longleftrightarrow> inner_inv view ok st"
  by (simp add: CachedState_new_def)

lemma CachedState_new_view [simp]: "cached_view view (CachedState_new st) = inner_view view st"
  by (simp add: CachedState_new_def)

lemma cached_example_inv [simp]: "cached_inv dict_view dict_ok cached_example"
  by (simp add: cached_example_def)

text \<open>A cached state over any reader is a reader itself.\<close>

lemma cached_reader_is_state_reader:
  assumes "state_reader R view ok"
  shows "state_reader (cached_reader R) (cached_view view) (cached_inv view ok)"
proof -
  note refines = state_reader.get_storage_at_refines(2) [OF assms] state_reader.get_nonce_at_refines(2) [OF assms]
    state_reader.get_class_hash_at_refines(2) [OF assms]
    state_reader.get_compiled_contract_class_refines(2) [OF assms]
    state_reader.get_compiled_class_hash_refines(2) [OF assms]
  show ?thesis
    by unfold_locales (simp_all add: cached_reader_def refines)
qed

interpretation dict_cached:
  state_reader "cached_reader dict_reader" "cached_view dict_view" "cached_inv dict_view dict_ok"
  by (rule cached_reader_is_state_reader) (rule dict.state_reader_axioms)

section \<open>Properties\<close>

text \<open>C21: Reads are correct at every nesting depth. Each of the five getters of a cached
  state returns exactly what the view of the state (its writes over its recorded reads over
  the view of its inner state) holds, and changes neither that view, nor the view of the
  inner state, nor any recorded write of the state or of its ancestors.\<close>

theorem reads_return_the_view:
  assumes "state_reader R view ok" and "cached_inv view ok c"
  shows "(fst (get_storage_at R a k c) = sv_storage (cached_view view c) a k
      \<and> same_view view ok c (snd (get_storage_at R a k c)))
    \<and> (fst (get_nonce_at R a c) = sv_nonce (cached_view view c) a
      \<and> same_view view ok c (snd (get_nonce_at R a c)))
    \<and> (fst (get_class_hash_at R a c) = sv_class_hash (cached_view view c) a
      \<and> same_view view ok c (snd (get_class_hash_at R a c)))
    \<and> (fst (get_compiled_contract_class R h c) = sv_class (cached_view view c) h
      \<and> same_view view ok c (snd (get_compiled_contract_class R h c)))
    \<and> (fst (get_compiled_class_hash R h c) = sv_compiled_class_hash (cached_view view c) h
      \<and> same_view view ok c (snd (get_compiled_class_hash R h c)))"
  using assms by (rule state_reader.reads_refine)

theorem reads_return_the_view_witness:
  "cached_inv dict_view dict_ok (create_transactional cached_example)
   \<and> fst (get_storage_at dict_reader 7 10 (create_transactional cached_example)) = Ok 5
   \<and> same_view dict_view dict_ok (create_transactional cached_example)
        (snd (get_storage_at dict_reader 7 10 (create_transactional cached_example)))"
  using reads_return_the_view [OF dict.state_reader_axioms, of "create_transactional cached_example" 7 10 0]
  by (simp add: cached_example_def) (simp add: dict_view_def dict_example_def unwrap_or_default_def)

text \<open>C1: A transaction that commits is atomic and faithful. Whatever state operations are
  run in a transactional state, running them there gives the same result as running them
  directly on the parent, and after \<open>commit\<close> the parent answers every query as if the
  operations had been run on it directly.\<close>

theorem commit_is_direct_execution:
  assumes "state_reader R view ok" and "cached_inv view ok p"
  shows "fst (run_ops R ops (create_transactional p)) = fst (run_ops R ops p)
    \<and> cached_view view (commit (snd (run_ops R ops (create_transactional p)))) =
        cached_view view (snd (run_ops R ops p))
    \<and> cached_inv view ok (commit (snd (run_ops R ops (create_transactional p))))"
  using assms by (rule state_reader.transaction_commits)

theorem commit_is_direct_execution_witness:
  "cached_view dict_view (commit (snd (run_ops dict_reader [IncrementNonce 7, SetStorageAt 7 10 6]
      (create_transactional cached_example)))) =
    cached_view dict_view (snd (run_ops dict_reader [IncrementNonce 7, SetStorageAt 7 10 6] cached_example))"
  using commit_is_direct_execution [OF dict.state_reader_axioms cached_example_inv,
      of "[IncrementNonce 7, SetStorageAt 7 10 6]"] by simp

text \<open>C12: A transaction that aborts leaves no trace. Whatever operations were run in a
  transactional state, including ones that failed half way, after \<open>abort\<close> the parent
  answers every query as before, and neither its writes and visited program counters nor
  those of its ancestors have changed (only read caches may have been filled).\<close>

theorem abort_restores_the_parent:
  assumes "state_reader R view ok" and "cached_inv view ok p"
  shows "cached_inv view ok (abort (snd (run_ops R ops (create_transactional p))))
    \<and> cached_view view (abort (snd (run_ops R ops (create_transactional p)))) = cached_view view p
    \<and> writes_stack (abort (snd (run_ops R ops (create_transactional p)))) = writes_stack p"
  using assms by (rule state_reader.transaction_aborts)

theorem abort_restores_the_parent_witness:
  "cached_view dict_view (abort (snd (run_ops dict_reader [IncrementNonce 7, SetClassHashAt 0 9]
      (create_transactional cached_example)))) = cached_view dict_view cached_example"
  using abort_restores_the_parent [OF dict.state_reader_axioms cached_example_inv,
      of "[IncrementNonce 7, SetClassHashAt 0 9]"] by simp

text \<open>
  The documentation of the \<open>State\<close> trait calls \<open>set_class_hash_at\<close> a write-once action, for an address
  that is not yet assigned. The code refuses the address 0 and overwrites any other.
\<close>

lemma set_class_hash_at_overwrites:
  assumes "state_reader R view ok" and "cached_inv view ok c" and "a \<noteq> 0"
  shows "fst (set_class_hash_at a h c) = Ok ()"
    and "sv_class_hash (cached_view view (snd (set_class_hash_at a h c))) a = Ok h"
  using state_reader.run_op_refines [OF assms(1,2), of "SetClassHashAt a h"] assms(3) by (simp_all add: view_set_class_hash_def)

fun within_contract :: "StateOp \<Rightarrow> StateView \<Rightarrow> bool" where
  "within_contract (SetClassHashAt a h) V = (a = 0 \<or> sv_class_hash V a = Ok 0)"
| "within_contract op V = True"

text \<open>C22: Within their contract, the writers of the \<open>State\<close> trait implement their abstract
  operations on views, on every branch: a storage, class or compiled-class-hash write changes
  exactly the written cell; a class hash written to an unassigned address changes exactly that
  address, and deploying at address 0 is refused without a change; a nonce is incremented by one
  as a 64-bit integer, a nonce of 64 bits or more being refused.\<close>

theorem writes_implement_view_operations:
  assumes "state_reader R view ok" and "cached_inv view ok c" and "within_contract op (cached_view view c)"
  shows "fst (run_op R op c) = fst (view_op op (cached_view view c))
    \<and> cached_view view (snd (run_op R op c)) = snd (view_op op (cached_view view c))
    \<and> cached_inv view ok (snd (run_op R op c))"
  using state_reader.run_op_refines [OF assms(1,2), of op] by simp

theorem writes_implement_view_operations_witness:
  "fst (run_op dict_reader (SetClassHashAt 0 9) cached_example) = Err OutOfRangeContractAddress
   \<and> sv_class_hash (cached_view dict_view (snd (run_op dict_reader (SetClassHashAt 8 9) cached_example))) 8 = Ok 9
   \<and> sv_nonce (cached_view dict_view (snd (run_op dict_reader (IncrementNonce 7) cached_example))) 7 = Ok 4"
  using writes_implement_view_operations [OF dict.state_reader_axioms cached_example_inv, of "SetClassHashAt 0 9"]
    writes_implement_view_operations [OF dict.state_reader_axioms cached_example_inv, of "SetClassHashAt 8 9"]
    writes_implement_view_operations [OF dict.state_reader_axioms cached_example_inv, of "IncrementNonce 7"]
  by (simp add: view_increment_nonce_def view_set_nonce_def cached_example_def usize_try_from_felt_def
      dict_view_def dict_example_def unwrap_or_default_def view_set_class_hash_def)

end
