(* ===== verification/Abi.thy ===== *)
theory Abi
  imports Dict_State_Reader
begin

text \<open>
  The ABI helpers: constants (\<open>abi/constants.rs\<close>), selectors and storage addresses
  (\<open>abi/abi_utils.rs\<close>), the Sierra integer types read from storage
  (\<open>abi/sierra_types.rs\<close>) and the fee-token balance of \<open>state/state_api.rs\<close>. The hash
  functions are those of the record \<open>Externals\<close>.
\<close>

unbundle bit_operations_syntax

section \<open>Constants\<close>

definition CONSTRUCTOR_ENTRY_POINT_NAME :: string where
  "CONSTRUCTOR_ENTRY_POINT_NAME = ''constructor''"
definition DEFAULT_ENTRY_POINT_NAME :: string where
  "DEFAULT_ENTRY_POINT_NAME = ''__default__''"
definition DEFAULT_ENTRY_POINT_SELECTOR :: nat where
  "DEFAULT_ENTRY_POINT_SELECTOR = 0"
definition DEFAULT_L1_ENTRY_POINT_NAME :: string where
  "DEFAULT_L1_ENTRY_POINT_NAME = ''__l1_default__''"
definition L1_TO_L2_MSG_HEADER_SIZE :: usize where "L1_TO_L2_MSG_HEADER_SIZE = 5"
definition L2_TO_L1_MSG_HEADER_SIZE :: usize where "L2_TO_L1_MSG_HEADER_SIZE = 3"
definition CLASS_UPDATE_SIZE :: usize where "CLASS_UPDATE_SIZE = 1"
definition N_STEPS_PER_SEGMENT_ARENA_BUILTIN :: usize where "N_STEPS_PER_SEGMENT_ARENA_BUILTIN = 10"
definition N_DEFAULT_TOPICS :: usize where "N_DEFAULT_TOPICS = 1"
definition LOG_MSG_TO_L1_N_TOPICS :: usize where "LOG_MSG_TO_L1_N_TOPICS = 2"
definition CONSUMED_MSG_TO_L2_N_TOPICS :: usize where "CONSUMED_MSG_TO_L2_N_TOPICS = 3"
definition LOG_MSG_TO_L1_ENCODED_DATA_SIZE :: usize where
  "LOG_MSG_TO_L1_ENCODED_DATA_SIZE = (L2_TO_L1_MSG_HEADER_SIZE + 1) - LOG_MSG_TO_L1_N_TOPICS"
definition CONSUMED_MSG_TO_L2_ENCODED_DATA_SIZE :: usize where
  "CONSUMED_MSG_TO_L2_ENCODED_DATA_SIZE = (L1_TO_L2_MSG_HEADER_SIZE + 1) - CONSUMED_MSG_TO_L2_N_TOPICS"
definition L1_GAS_USAGE :: string where "L1_GAS_USAGE = ''gas_weight''"
definition BLOB_GAS_USAGE :: string where "BLOB_GAS_USAGE = ''l1_blob_gas_usage''"
definition N_STEPS_RESOURCE :: string where "N_STEPS_RESOURCE = ''n_steps''"
definition CAIRO0_ENTRY_POINT_STRUCT_SIZE :: usize where "CAIRO0_ENTRY_POINT_STRUCT_SIZE = 2"
definition N_STEPS_PER_PEDERSEN :: usize where "N_STEPS_PER_PEDERSEN = 8"
definition BLOCK_HASH_CONTRACT_ADDRESS :: ContractAddress where "BLOCK_HASH_CONTRACT_ADDRESS = 1"
definition STORED_BLOCK_HASH_BUFFER :: u64 where "STORED_BLOCK_HASH_BUFFER = 10"

section \<open>Selectors and storage addresses\<close>

definition string_bytes :: "string \<Rightarrow> 8 word list" where
  "string_bytes s = map (\<lambda>c. of_nat (of_char c)) s"

definition felt_from_bytes_be :: "8 word list \<Rightarrow> StarkFelt" where
  "felt_from_bytes_be bs = foldl (\<lambda>acc b. acc * 256 + unat b) 0 bs mod PRIME"

definition starknet_keccak :: "'a Externals_scheme \<Rightarrow> 8 word list \<Rightarrow> StarkFelt" where
  "starknet_keccak E data =
     (case keccak256 E data of
        [] \<Rightarrow> felt_from_bytes_be []
      | b # bs \<Rightarrow> felt_from_bytes_be ((b AND 3) # bs))"

definition selector_from_name :: "'a Externals_scheme \<Rightarrow> string \<Rightarrow> EntryPointSelector" where
  "selector_from_name E entry_point_name =
     (if entry_point_name \<in> {DEFAULT_ENTRY_POINT_NAME, DEFAULT_L1_ENTRY_POINT_NAME}
      then DEFAULT_ENTRY_POINT_SELECTOR
      else starknet_keccak E (string_bytes entry_point_name))"

definition get_storage_var_address :: "'a Externals_scheme \<Rightarrow> string \<Rightarrow> StarkFelt list \<Rightarrow> StorageKey" where
  "get_storage_var_address E storage_var_name args =
     (let storage_var_name_hash = starknet_keccak E (string_bytes storage_var_name);
          storage_key_hash = foldl (\<lambda>res arg. pedersen_hash E res arg) storage_var_name_hash args
      in storage_key_hash mod l2_address_upper_bound E)"

definition get_fee_token_var_address :: "'a Externals_scheme \<Rightarrow> ContractAddress \<Rightarrow> StorageKey" where
  "get_fee_token_var_address E contract_address =
     get_storage_var_address E ''ERC20_balances'' [contract_address]"

section \<open>Sierra types\<close>

datatype SierraTypeError =
    ValueTooLargeForType StarkFelt
  | SierraMemoryError string
  | SierraMathError string
  | SierraStateError StateError
  | SierraStarknetApiError string

definition felt_to_u128 :: "StarkFelt \<Rightarrow> (SierraTypeError, u128) result" where
  "felt_to_u128 felt = (if felt < 2 ^ 128 then Ok (of_nat felt) else Err (ValueTooLargeForType felt))"

definition next_storage_key :: "'a Externals_scheme \<Rightarrow> StorageKey \<Rightarrow> (string, StorageKey) result" where
  "next_storage_key E key =
     (let next_key = (key + 1) mod PRIME in
      if next_key < patricia_key_upper_bound E then Ok next_key else Err ''OutOfRange'')"

definition SierraU128_from_storage ::
    "'s StateReader \<Rightarrow> ContractAddress \<Rightarrow> StorageKey \<Rightarrow> ('s CachedState, SierraTypeError, u128) action" where
  "SierraU128_from_storage R contract_address key =
     sbind (smap_err SierraStateError (get_storage_at R contract_address key))
       (\<lambda>val_as_felt. slift (felt_to_u128 val_as_felt))"

record SierraU256 =
  low_val :: u128
  high_val :: u128

definition to_biguint :: "SierraU256 \<Rightarrow> nat" where
  "to_biguint self = push_bit 128 (unat (high_val self)) + unat (low_val self)"

definition SierraU256_from_storage ::
    "'a Externals_scheme \<Rightarrow> 's StateReader \<Rightarrow> ContractAddress \<Rightarrow> StorageKey \<Rightarrow>
     ('s CachedState, SierraTypeError, SierraU256) action" where
  "SierraU256_from_storage E R contract_address key =
     sbind (SierraU128_from_storage R contract_address key) (\<lambda>low.
       sbind (slift (map_err SierraStarknetApiError (next_storage_key E key))) (\<lambda>high_key.
         sbind (SierraU128_from_storage R contract_address high_key) (\<lambda>high.
           sret \<lparr>low_val = low, high_val = high\<rparr>)))"

definition get_fee_token_balance ::
    "'a Externals_scheme \<Rightarrow> 's StateReader \<Rightarrow> ContractAddress \<Rightarrow> ContractAddress \<Rightarrow>
     ('s CachedState, StateError, StarkFelt \<times> StarkFelt) action" where
  "get_fee_token_balance E R contract_address fee_token_address =
     (let low_key = get_fee_token_var_address E contract_address in
      sbind (slift (map_err StarknetApiError (next_storage_key E low_key))) (\<lambda>high_key.
        sbind (get_storage_at R fee_token_address low_key) (\<lambda>low.
          sbind (get_storage_at R fee_token_address high_key) (\<lambda>high.
            sret (low, high)))))"

section \<open>Lemmas\<close>

lemma get_storage_var_address_in_range:
  assumes "address_laws E"
  shows "get_storage_var_address E name args < patricia_key_upper_bound E"
  using assms less_trans [OF mod_less_divisor]
  by (auto simp: get_storage_var_address_def address_laws_def Let_def)

lemma next_storage_key_var_address:
  assumes "address_laws E"
  shows "next_storage_key E (get_storage_var_address E name args) =
    Ok (get_storage_var_address E name args + 1)"
proof -
  have "get_storage_var_address E name args < l2_address_upper_bound E"
    using assms by (simp add: get_storage_var_address_def address_laws_def Let_def)
  then show ?thesis
    using assms by (simp add: next_storage_key_def address_laws_def)
qed

lemma next_storage_key_fee_token [simp]:
  "address_laws E \<Longrightarrow>
    next_storage_key E (get_fee_token_var_address E a) = Ok (get_fee_token_var_address E a + 1)"
  unfolding get_fee_token_var_address_def by (rule next_storage_key_var_address)

context state_reader
begin

lemma get_fee_token_balance_same_view [keeps_intros]:
  "keeps (same_view view ok c) (get_fee_token_balance E R a t)"
  unfolding get_fee_token_balance_def Let_def by (intro keeps_intros)

lemma get_fee_token_balance_value:
  assumes "address_laws E" and "cached_inv view ok c"
    and "sv_storage (cached_view view c) t (get_fee_token_var_address E a) = Ok low"
    and "sv_storage (cached_view view c) t (get_fee_token_var_address E a + 1) = Ok high"
  shows "fst (get_fee_token_balance E R a t c) = Ok (low, high)"
proof -
  obtain c1 where c1: "get_storage_at R t (get_fee_token_var_address E a) c = (Ok low, c1)"
      "cached_inv view ok c1" "cached_view view c1 = cached_view view c"
    using get_storage_at_refines(2) [OF assms(2), of t "get_fee_token_var_address E a"] assms(3)
    by (metis prod.collapse)
  obtain c2 where c2: "get_storage_at R t (get_fee_token_var_address E a + 1) c1 = (Ok high, c2)"
    using get_storage_at_refines(2) [OF c1(2), of t "get_fee_token_var_address E a + 1"] assms(4) c1(3)
    by (metis prod.collapse)
  show ?thesis
    using assms(1) c1 c2 by (simp add: get_fee_token_balance_def sbind_def Let_def)
qed

end

end
