(* ===== verification/Reference_Externals.thy ===== *)
theory Reference_Externals
  imports Starknet_Types
begin

text \<open>
  One concrete record of third-party functions, on which the laws the statements rely on
  hold: counters are added name by name, rationals are computed exactly on numerator and
  denominator. It serves the concrete instances of properties that have such a law as a
  hypothesis; no definition of the model depends on it.
\<close>

definition counter_value :: "(string, usize) HashMap \<Rightarrow> string \<Rightarrow> usize" where
  "counter_value m name = (case map_of m name of Some n \<Rightarrow> n | None \<Rightarrow> 0)"

definition merge_counters :: "(string, usize) HashMap \<Rightarrow> (string, usize) HashMap \<Rightarrow> (string, usize) HashMap" where
  "merge_counters a b = map (\<lambda>name. (name, counter_value a name + counter_value b name)) (remdups (hm_keys a @ hm_keys b))"

definition reference_builtin_name :: "Builtin \<Rightarrow> string" where
  "reference_builtin_name b =
     (case b of OUTPUT \<Rightarrow> ''output'' | HASH \<Rightarrow> ''pedersen'' | RANGE_CHECK \<Rightarrow> ''range_check''
      | SIGNATURE \<Rightarrow> ''ecdsa'' | BITWISE \<Rightarrow> ''bitwise'' | EC_OP \<Rightarrow> ''ec_op'' | KECCAK \<Rightarrow> ''keccak''
      | POSEIDON \<Rightarrow> ''poseidon'' | SEGMENT_ARENA \<Rightarrow> ''segment_arena'')"

definition reference_externals :: Externals where
  "reference_externals =
     \<lparr>builtin_name = reference_builtin_name,
      er_add = (\<lambda>a b. \<lparr>er_n_steps = er_n_steps a + er_n_steps b,
        er_n_memory_holes = er_n_memory_holes a + er_n_memory_holes b,
        er_builtin_instance_counter =
          merge_counters (er_builtin_instance_counter a) (er_builtin_instance_counter b)\<rparr>),
      er_sub = (\<lambda>a b. a),
      er_mul = (\<lambda>a n. \<lparr>er_n_steps = er_n_steps a * n, er_n_memory_holes = er_n_memory_holes a * n,
        er_builtin_instance_counter = map (\<lambda>(k, v). (k, v * n)) (er_builtin_instance_counter a)\<rparr>),
      er_filter_unused_builtins = (\<lambda>a. a),
      ratio_mul = (\<lambda>a b. \<lparr>rt_numer = rt_numer a * rt_numer b, rt_denom = rt_denom a * rt_denom b\<rparr>),
      ratio_mul_int = (\<lambda>r n. \<lparr>rt_numer = rt_numer r * n, rt_denom = rt_denom r\<rparr>),
      ratio_add_int = (\<lambda>r n. \<lparr>rt_numer = rt_numer r + rt_denom r * n, rt_denom = rt_denom r\<rparr>),
      ratio_inv = (\<lambda>r. \<lparr>rt_numer = rt_denom r, rt_denom = rt_numer r\<rparr>),
      ratio_ceil = (\<lambda>r. \<lparr>rt_numer = (rt_numer r + rt_denom r - 1) div rt_denom r, rt_denom = 1\<rparr>),
      ratio_to_integer = (\<lambda>r. rt_numer r div rt_denom r),
      keccak256 = (\<lambda>bytes. bytes),
      pedersen_hash = (\<lambda>a b. a + b),
      l2_address_upper_bound = 2 ^ 250,
      patricia_key_upper_bound = 2 ^ 251,
      calculate_contract_address = (\<lambda>salt class_hash calldata deployer. Some (salt + class_hash))\<rparr>"

lemma counter_value_merge: "counter_value (merge_counters a b) name = counter_value a name + counter_value b name"
  by (auto simp: merge_counters_def counter_value_def map_of_map_restrict restrict_map_def domIff split: option.splits)

lemma counter_value_scale: "counter_value (map (\<lambda>(k, v). (k, v * n)) m) name = counter_value m name * n"
  by (induction m) (auto simp: counter_value_def)

lemma reference_resource_laws: "resource_laws reference_externals"
  unfolding resource_laws_def
  by (simp add: reference_externals_def builtin_count_def flip: counter_value_def)
    (simp add: counter_value_merge counter_value_scale)

lemma reference_builtin_laws: "builtin_laws reference_externals"
proof -
  have "inj reference_builtin_name"
  proof (rule injI)
    fix a b
    assume "reference_builtin_name a = reference_builtin_name b"
    then show "a = b"
      by (cases a; cases b; simp add: reference_builtin_name_def)
  qed
  moreover have "reference_builtin_name b \<noteq> ''n_steps''" for b
    by (cases b) (simp_all add: reference_builtin_name_def)
  ultimately show ?thesis
    by (simp add: builtin_laws_def reference_externals_def)
qed

lemma reference_address_laws: "address_laws reference_externals"
  by (simp add: address_laws_def reference_externals_def PRIME_def)

subsection \<open>Rationals\<close>

lemma floor_ratio: "rt_denom r \<noteq> 0 \<Longrightarrow> floor (ratio_val r) = int (unat (rt_numer r) div unat (rt_denom r))"
  unfolding ratio_val_def by (rule floor_divide_of_nat_eq)

lemma ceiling_ratio:
  assumes "rt_denom r \<noteq> 0"
  shows "ceiling (ratio_val r) = int ((unat (rt_numer r) + unat (rt_denom r) - 1) div unat (rt_denom r))"
proof -
  let ?a = "unat (rt_numer r)" and ?b = "unat (rt_denom r)"
  have pos: "0 < ?b"
    using assms by (simp add: unat_gt_0)
  show ?thesis
  proof (rule ceiling_unique)
    let ?q = "(?a + ?b - 1) div ?b"
    have "?q * ?b \<le> ?a + ?b - 1" and "?a + ?b - 1 < ?q * ?b + ?b"
      using div_times_less_eq_dividend [of "?a + ?b - 1" ?b] dividend_less_div_times [OF pos, of "?a + ?b - 1"]
      by linarith+
    then have "?q * ?b < ?a + ?b" and "?a \<le> ?q * ?b"
      using pos by linarith+
    then have "rat_of_nat (?q * ?b) < rat_of_nat (?a + ?b)" and "rat_of_nat ?a \<le> rat_of_nat (?q * ?b)"
      by (simp_all only: of_nat_less_iff of_nat_le_iff)
    then show "rat_of_int (int ?q) - 1 < ratio_val r" and "ratio_val r \<le> rat_of_int (int ?q)"
      using pos by (simp_all add: ratio_val_def field_simps)
  qed
qed

lemma reference_ratio_laws: "ratio_laws reference_externals"
  unfolding ratio_laws_def
proof (intro conjI allI impI)
  fix r :: Ratio and n :: u128
  assume *: "ratio_wf r \<and> unat (rt_numer r) * unat n < 2 ^ 128"
  then have "unat (rt_numer r * n) = unat (rt_numer r) * unat n"
    by (intro unat_mult_exact) simp
  then show "ratio_wf (ratio_mul_int reference_externals r n)"
    and "ratio_val (ratio_mul_int reference_externals r n) = ratio_val r * of_nat (unat n)"
    and "unat (rt_numer (ratio_mul_int reference_externals r n)) \<le> unat (rt_numer r) * unat n"
    and "unat (rt_denom (ratio_mul_int reference_externals r n)) \<le> unat (rt_denom r)"
    using * by (simp_all add: reference_externals_def ratio_wf_def ratio_val_def)
next
  fix r :: Ratio and n :: u128
  assume *: "ratio_wf r \<and> unat (rt_numer r) + unat (rt_denom r) * unat n < 2 ^ 128"
  then have "unat (rt_denom r * n) = unat (rt_denom r) * unat n"
    by (intro unat_mult_exact) simp
  then have "unat (rt_numer r + rt_denom r * n) = unat (rt_numer r) + unat (rt_denom r) * unat n"
    using * by (subst unat_plus_exact) simp_all
  moreover have "rat_of_nat (unat (rt_denom r)) \<noteq> 0"
    using * unfolding ratio_wf_def of_nat_eq_0_iff by (simp add: unat_eq_0)
  ultimately show "ratio_wf (ratio_add_int reference_externals r n)"
    and "ratio_val (ratio_add_int reference_externals r n) = ratio_val r + of_nat (unat n)"
    using * by (simp_all add: reference_externals_def ratio_wf_def ratio_val_def field_simps)
next
  fix r
  assume "ratio_wf r \<and> rt_numer r \<noteq> 0"
  then show "ratio_wf (ratio_inv reference_externals r)"
    and "ratio_val (ratio_inv reference_externals r) = inverse (ratio_val r)"
    and "rt_numer (ratio_inv reference_externals r) = rt_denom r"
    by (simp_all add: reference_externals_def ratio_wf_def ratio_val_def)
next
  fix r
  assume *: "ratio_wf r \<and> unat (rt_numer r) + unat (rt_denom r) \<le> 2 ^ 128"
  then have denom: "rt_denom r \<noteq> 0" "0 < unat (rt_denom r)"
    by (simp_all add: ratio_wf_def unat_gt_0)
  have "unat (rt_denom r - 1) = unat (rt_denom r) - 1"
    using denom by (simp add: unat_minus_one)
  moreover have "rt_numer r + rt_denom r - 1 = rt_numer r + (rt_denom r - 1)"
    by simp
  moreover have "unat (rt_numer r) + (unat (rt_denom r) - 1) < 2 ^ 128"
    using * denom(2) by linarith
  ultimately have "unat (rt_numer r + rt_denom r - 1) = unat (rt_numer r) + (unat (rt_denom r) - 1)"
    by (simp only:) (subst unat_plus_exact, simp_all)
  then have "unat (rt_numer r + rt_denom r - 1) = unat (rt_numer r) + unat (rt_denom r) - 1"
    using denom(2) by linarith
  then show "int (unat (ratio_to_integer reference_externals (ratio_ceil reference_externals r))) = ceiling (ratio_val r)"
    by (simp add: ceiling_ratio [OF denom(1)] reference_externals_def unat_div)
next
  fix r
  assume "ratio_wf r"
  then show "int (unat (ratio_to_integer reference_externals r)) = floor (ratio_val r)"
    by (simp add: floor_ratio ratio_wf_def reference_externals_def unat_div)
qed

end
