(* ===== verification/Versioned_Constants.thy ===== *)
theory Versioned_Constants
  imports Abi Reference_Externals
begin

text \<open>
  The constants that depend on the protocol version (\<open>versioned_constants.rs\<close>): limits, the
  resources the Starknet OS spends on transactions and syscalls, gas costs, and the
  computation of the gas costs from the JSON file, where a cost may be a linear combination
  of other costs.

  The JSON values are those of \<open>serde_json\<close>; a number carries the result of \<open>as_u64\<close>. The
  recursion over the dependencies of a cost need not end when they are circular, so it is
  written with fuel; the theory \<open>Gas_Cost_Equations\<close> shows that fuel above the depth of the
  dependencies is enough.
\<close>

section \<open>The constants\<close>

datatype TransactionType = TxDeclare | TxDeployAccount | TxInvokeFunction | TxL1Handler

datatype ParseError = UnknownTransactionType string

definition TransactionType_from_str :: "string \<Rightarrow> (ParseError, TransactionType) result" where
  "TransactionType_from_str tx_type =
     (if tx_type \<in> {''Declare'', ''DECLARE''} then Ok TxDeclare
      else if tx_type \<in> {''DeployAccount'', ''DEPLOY_ACCOUNT''} then Ok TxDeployAccount
      else if tx_type \<in> {''InvokeFunction'', ''INVOKE_FUNCTION''} then Ok TxInvokeFunction
      else if tx_type \<in> {''L1Handler'', ''L1_HANDLER''} then Ok TxL1Handler
      else Err (UnknownTransactionType tx_type))"

definition TransactionType_iter :: "TransactionType list" where
  "TransactionType_iter = [TxDeclare, TxDeployAccount, TxInvokeFunction, TxL1Handler]"

datatype SyscallSelector =
    CallContract
  | DelegateCall
  | DelegateL1Handler
  | Deploy
  | EmitEvent
  | GetBlockHash
  | GetBlockNumber
  | GetBlockTimestamp
  | GetCallerAddress
  | GetContractAddress
  | GetExecutionInfo
  | GetSequencerAddress
  | GetTxInfo
  | GetTxSignature
  | Keccak
  | LibraryCall
  | LibraryCallL1Handler
  | ReplaceClass
  | Secp256k1Add
  | Secp256k1GetPointFromX
  | Secp256k1GetXy
  | Secp256k1Mul
  | Secp256k1New
  | Secp256r1Add
  | Secp256r1GetPointFromX
  | Secp256r1GetXy
  | Secp256r1Mul
  | Secp256r1New
  | SendMessageToL1
  | StorageRead
  | StorageWrite

definition SyscallSelector_iter :: "SyscallSelector list" where
  "SyscallSelector_iter =
     [CallContract,
      DelegateCall,
      DelegateL1Handler,
      Deploy,
      EmitEvent,
      GetBlockHash,
      GetBlockNumber,
      GetBlockTimestamp,
      GetCallerAddress,
      GetContractAddress,
      GetExecutionInfo,
      GetSequencerAddress,
      GetTxInfo,
      GetTxSignature,
      Keccak,
      LibraryCall,
      LibraryCallL1Handler,
      ReplaceClass,
      Secp256k1Add,
      Secp256k1GetPointFromX,
      Secp256k1GetXy,
      Secp256k1Mul,
      Secp256k1New,
      Secp256r1Add,
      Secp256r1GetPointFromX,
      Secp256r1GetXy,
      Secp256r1Mul,
      Secp256r1New,
      SendMessageToL1,
      StorageRead,
      StorageWrite]"

type_synonym SyscallCounter = "(SyscallSelector, usize) HashMap"

record L2ResourceGasCosts =
  gas_per_data_felt :: ResourceCost
  event_key_factor :: ResourceCost
  gas_per_code_byte :: ResourceCost

record EventLimits =
  max_data_length :: usize
  max_keys_length :: usize
  max_n_emitted_events :: usize

definition EventLimits_max :: EventLimits where
  "EventLimits_max = \<lparr>max_data_length = - 1, max_keys_length = - 1, max_n_emitted_events = - 1\<rparr>"

record ResourcesParams =
  rp_constant :: ExecutionResources
  rp_calldata_factor :: ExecutionResources

record ResourcesByVersion =
  rv_resources :: ResourcesParams
  rv_deprecated_resources :: ResourcesParams

record OsResources =
  execute_syscalls :: "(SyscallSelector, ExecutionResources) HashMap"
  execute_txs_inner :: "(TransactionType, ResourcesByVersion) HashMap"
  compute_os_kzg_commitment_info :: ExecutionResources

record GasCosts =
  step_gas_cost :: u64
  range_check_gas_cost :: u64
  memory_hole_gas_cost :: u64
  initial_gas_cost :: u64
  entry_point_initial_budget :: u64
  syscall_base_gas_cost :: u64
  entry_point_gas_cost :: u64
  fee_transfer_gas_cost :: u64
  transaction_gas_cost :: u64
  call_contract_gas_cost :: u64
  deploy_gas_cost :: u64
  get_block_hash_gas_cost :: u64
  get_execution_info_gas_cost :: u64
  library_call_gas_cost :: u64
  replace_class_gas_cost :: u64
  storage_read_gas_cost :: u64
  storage_write_gas_cost :: u64
  emit_event_gas_cost :: u64
  send_message_to_l1_gas_cost :: u64
  secp256k1_add_gas_cost :: u64
  secp256k1_get_point_from_x_gas_cost :: u64
  secp256k1_get_xy_gas_cost :: u64
  secp256k1_mul_gas_cost :: u64
  secp256k1_new_gas_cost :: u64
  secp256r1_add_gas_cost :: u64
  secp256r1_get_point_from_x_gas_cost :: u64
  secp256r1_get_xy_gas_cost :: u64
  secp256r1_mul_gas_cost :: u64
  secp256r1_new_gas_cost :: u64
  keccak_gas_cost :: u64
  keccak_round_cost_gas_cost :: u64


record ValidateRoundingConsts =
  validate_block_number_rounding :: u64
  validate_timestamp_rounding :: u64

definition ValidateRoundingConsts_default :: ValidateRoundingConsts where
  "ValidateRoundingConsts_default = \<lparr>validate_block_number_rounding = 1, validate_timestamp_rounding = 1\<rparr>"

record OsConstants =
  gas_costs :: GasCosts
  validate_rounding_consts :: ValidateRoundingConsts

record VersionedConstants =
  tx_event_limits :: EventLimits
  invoke_tx_max_n_steps :: u32
  l2_resource_gas_costs :: L2ResourceGasCosts
  max_recursion_depth :: usize
  validate_max_n_steps :: u32
  os_constants :: OsConstants
  os_resources :: OsResources
  vm_resource_fee_cost :: "(string, ResourceCost) HashMap"

definition tx_initial_gas :: "VersionedConstants \<Rightarrow> u64" where
  "tx_initial_gas vc =
     initial_gas_cost (gas_costs (os_constants vc)) - transaction_gas_cost (gas_costs (os_constants vc))"

definition get_validate_block_number_rounding :: "VersionedConstants \<Rightarrow> u64" where
  "get_validate_block_number_rounding vc = validate_block_number_rounding (validate_rounding_consts (os_constants vc))"

definition get_validate_timestamp_rounding :: "VersionedConstants \<Rightarrow> u64" where
  "get_validate_timestamp_rounding vc = validate_timestamp_rounding (validate_rounding_consts (os_constants vc))"

definition latest_constants_with_overrides :: "VersionedConstants \<Rightarrow> u32 \<Rightarrow> usize \<Rightarrow> VersionedConstants" where
  "latest_constants_with_overrides latest validate_max max_depth =
     latest\<lparr>validate_max_n_steps := validate_max, max_recursion_depth := max_depth\<rparr>"

section \<open>Resources of the Starknet OS\<close>

definition poseidon_hash_many_cost :: "'a Externals_scheme \<Rightarrow> usize \<Rightarrow> ExecutionResources" where
  "poseidon_hash_many_cost E data_length =
     \<lparr>er_n_steps = (data_length div 10) * 55 + ((data_length mod 10) div 2) * 18 + (data_length mod 2) * 3 + 21,
      er_n_memory_holes = 0,
      er_builtin_instance_counter = [(builtin_name E POSEIDON, data_length div 2 + 1)]\<rparr>"

definition resources_params_for_tx_type :: "OsResources \<Rightarrow> TransactionType \<Rightarrow> ('e, ResourcesParams) result" where
  "resources_params_for_tx_type os tx_type =
     (case map_of (execute_txs_inner os) tx_type of
        None \<Rightarrow> Panic ''should contain transaction type''
      | Some resources \<Rightarrow> Ok (rv_deprecated_resources resources))"

definition resources_for_tx_type ::
    "'a Externals_scheme \<Rightarrow> OsResources \<Rightarrow> TransactionType \<Rightarrow> usize \<Rightarrow> ('e, ExecutionResources) result" where
  "resources_for_tx_type E os tx_type calldata_length =
     rbind (resources_params_for_tx_type os tx_type) (\<lambda>resources_vector.
       Ok (er_add E (rp_constant resources_vector) (er_mul E (rp_calldata_factor resources_vector) calldata_length)))"

definition os_kzg_da_resources :: "'a Externals_scheme \<Rightarrow> OsResources \<Rightarrow> usize \<Rightarrow> ExecutionResources" where
  "os_kzg_da_resources E os data_segment_length =
     er_add E (er_mul E (compute_os_kzg_commitment_info os) data_segment_length)
       (poseidon_hash_many_cost E data_segment_length)"

definition get_additional_os_tx_resources ::
    "'a Externals_scheme \<Rightarrow> OsResources \<Rightarrow> TransactionType \<Rightarrow> usize \<Rightarrow> usize \<Rightarrow> bool \<Rightarrow> ('e, ExecutionResources) result" where
  "get_additional_os_tx_resources E os tx_type calldata_length data_segment_length use_kzg_da =
     rbind (resources_for_tx_type E os tx_type calldata_length) (\<lambda>resources.
       Ok (if use_kzg_da then er_add E resources (os_kzg_da_resources E os data_segment_length) else resources))"

fun add_syscall_resources ::
    "'a Externals_scheme \<Rightarrow> OsResources \<Rightarrow> (SyscallSelector \<times> usize) list \<Rightarrow> ExecutionResources \<Rightarrow> ('e, ExecutionResources) result" where
  "add_syscall_resources E os [] acc = Ok acc"
| "add_syscall_resources E os ((syscall_selector, n) # rest) acc =
     (case map_of (execute_syscalls os) syscall_selector of
        None \<Rightarrow> Panic ''OS resources of syscall are unknown.''
      | Some syscall_resources \<Rightarrow>
          add_syscall_resources E os rest (er_add E acc (er_mul E syscall_resources n)))"

definition get_additional_os_syscall_resources ::
    "'a Externals_scheme \<Rightarrow> OsResources \<Rightarrow> SyscallCounter \<Rightarrow> ('e, ExecutionResources) result" where
  "get_additional_os_syscall_resources E os syscall_counter = add_syscall_resources E os syscall_counter er_default"

datatype OsResourcesError =
    MissingTransactionType TransactionType
  | MissingSyscallHandler SyscallSelector
  | UnknownOsResource string

definition known_builtin_names :: "'a Externals_scheme \<Rightarrow> string list" where
  "known_builtin_names E =
     map (builtin_name E) [OUTPUT, HASH, RANGE_CHECK, SIGNATURE, BITWISE, EC_OP, KECCAK, POSEIDON, SEGMENT_ARENA]"

definition OsResources_validate :: "'a Externals_scheme \<Rightarrow> OsResources \<Rightarrow> (OsResourcesError, unit) result" where
  "OsResources_validate E os =
     (case find (\<lambda>tx_type. \<not> hm_contains (execute_txs_inner os) tx_type) TransactionType_iter of
        Some tx_type \<Rightarrow> Err (MissingTransactionType tx_type)
      | None \<Rightarrow>
     (case find (\<lambda>syscall. \<not> hm_contains (execute_syscalls os) syscall) SyscallSelector_iter of
        Some syscall \<Rightarrow> Err (MissingSyscallHandler syscall)
      | None \<Rightarrow>
        (let execution_resources =
               concat (map (\<lambda>r. [rp_constant (rv_deprecated_resources r), rp_calldata_factor (rv_deprecated_resources r)])
                 (hm_values (execute_txs_inner os)))
               @ hm_values (execute_syscalls os) @ [compute_os_kzg_commitment_info os];
             builtin_names = concat (map (\<lambda>r. hm_keys (er_builtin_instance_counter r)) execution_resources)
         in case find (\<lambda>name. name \<notin> set (known_builtin_names E)) builtin_names of
              Some name \<Rightarrow> Err (UnknownOsResource name)
            | None \<Rightarrow> Ok ())))"

section \<open>Gas costs from JSON\<close>

datatype Value =
    Null
  | Bool bool
  | Number (as_u64: "u64 option")
  | String string
  | Array "Value list"
  | Object "(string \<times> Value) list"

datatype OsConstantsSerdeError =
    KeyNotFound string string
  | OutOfRange string
  | OutOfRangeFactor string
  | ParseError
  | UnhandledValueType

fun value_as_u64 :: "Value \<Rightarrow> u64 option" where
  "value_as_u64 (Number n) = n"
| "value_as_u64 v = None"

definition ADDITIONAL_FIELDS :: "string list" where
  "ADDITIONAL_FIELDS =
     [''block_hash_contract_address'',
      ''constructor_entry_point_selector'',
      ''default_entry_point_selector'',
      ''entry_point_type_constructor'',
      ''entry_point_type_external'',
      ''entry_point_type_l1_handler'',
      ''error_block_number_out_of_range'',
      ''error_invalid_input_len'',
      ''error_invalid_argument'',
      ''error_out_of_gas'',
      ''execute_entry_point_selector'',
      ''l1_gas'',
      ''l1_gas_index'',
      ''l1_handler_version'',
      ''l2_gas'',
      ''l2_gas_index'',
      ''nop_entry_point_offset'',
      ''sierra_array_len_bound'',
      ''stored_block_hash_buffer'',
      ''transfer_entry_point_selector'',
      ''validate_declare_entry_point_selector'',
      ''validate_deploy_entry_point_selector'',
      ''validate_entry_point_selector'',
      ''validate_rounding_consts'',
      ''validated'']"

type_synonym raw_dict = "(string, Value) HashMap"
type_synonym gas_cost_map = "(string, u64) HashMap"

text \<open>\<open>None\<close> is the value of a run that needs more fuel. First the loop over the terms of a combination, given the recursive call for an inner key.\<close>

fun add_factors ::
    "(string \<Rightarrow> Value \<Rightarrow> gas_cost_map \<Rightarrow> (OsConstantsSerdeError, gas_cost_map) result option) \<Rightarrow> raw_dict \<Rightarrow> string
      \<Rightarrow> (string \<times> Value) list \<Rightarrow> u64 \<Rightarrow> gas_cost_map \<Rightarrow> (OsConstantsSerdeError, u64 \<times> gas_cost_map) result option" where
  "add_factors recursive_add raw key [] val costs = Some (Ok (val, costs))"
| "add_factors recursive_add raw key ((inner_key, factor) # rest) val costs =
     (case map_of raw inner_key of
        None \<Rightarrow> Some (Err (KeyNotFound key inner_key))
      | Some inner_value \<Rightarrow>
          (case recursive_add inner_key inner_value costs of
             None \<Rightarrow> None
           | Some (Err e) \<Rightarrow> Some (Err e)
           | Some (Panic p) \<Rightarrow> Some (Panic p)
           | Some (Ok costs') \<Rightarrow>
               (case map_of costs' inner_key of
                  None \<Rightarrow> Some (Err (KeyNotFound key inner_key))
                | Some inner_key_value \<Rightarrow>
                    (case value_as_u64 factor of
                       None \<Rightarrow> Some (Err (OutOfRangeFactor key))
                     | Some f \<Rightarrow> add_factors recursive_add raw key rest (val + inner_key_value * f) costs'))))"

primrec recursive_add_to_gas_costs ::
    "nat \<Rightarrow> raw_dict \<Rightarrow> string \<Rightarrow> Value \<Rightarrow> gas_cost_map \<Rightarrow> (OsConstantsSerdeError, gas_cost_map) result option" where
  "recursive_add_to_gas_costs 0 raw key v costs = None"
| "recursive_add_to_gas_costs (Suc fuel) raw key v costs =
     (if hm_contains costs key then Some (Ok costs)
      else (case v of
        Number n \<Rightarrow>
          (case n of
             None \<Rightarrow> Some (Err (OutOfRange key))
           | Some val \<Rightarrow> Some (Ok (hm_insert key val costs)))
      | Object obj \<Rightarrow>
          map_option (\<lambda>r. rbind r (\<lambda>(val, costs'). Ok (hm_insert key val costs')))
            (add_factors (recursive_add_to_gas_costs fuel raw) raw key obj 0 costs)
      | String _ \<Rightarrow> Some (Panic ''String values should have been previously filtered out'')
      | _ \<Rightarrow> Some (Err UnhandledValueType)))"

fun parse_entries :: "nat \<Rightarrow> raw_dict \<Rightarrow> (string \<times> Value) list \<Rightarrow> gas_cost_map
      \<Rightarrow> (OsConstantsSerdeError, gas_cost_map) result option" where
  "parse_entries fuel raw [] costs = Some (Ok costs)"
| "parse_entries fuel raw ((key, v) # rest) costs =
     (if key \<in> set ADDITIONAL_FIELDS then parse_entries fuel raw rest costs
      else (case recursive_add_to_gas_costs fuel raw key v costs of
              Some (Ok costs') \<Rightarrow> parse_entries fuel raw rest costs'
            | r \<Rightarrow> r))"

definition parse_gas_costs :: "nat \<Rightarrow> raw_dict \<Rightarrow> (OsConstantsSerdeError, gas_cost_map) result option" where
  "parse_gas_costs fuel raw = parse_entries fuel raw raw []"

definition gas_cost :: "(string, u64) HashMap \<Rightarrow> string \<Rightarrow> u64" where
  "gas_cost m key = (case map_of m key of Some n \<Rightarrow> n | None \<Rightarrow> 0)"

definition GAS_COST_KEYS :: "string list" where
  "GAS_COST_KEYS =
     [''step_gas_cost'',
      ''range_check_gas_cost'',
      ''memory_hole_gas_cost'',
      ''initial_gas_cost'',
      ''entry_point_initial_budget'',
      ''syscall_base_gas_cost'',
      ''entry_point_gas_cost'',
      ''fee_transfer_gas_cost'',
      ''transaction_gas_cost'',
      ''call_contract_gas_cost'',
      ''deploy_gas_cost'',
      ''get_block_hash_gas_cost'',
      ''get_execution_info_gas_cost'',
      ''library_call_gas_cost'',
      ''replace_class_gas_cost'',
      ''storage_read_gas_cost'',
      ''storage_write_gas_cost'',
      ''emit_event_gas_cost'',
      ''send_message_to_l1_gas_cost'',
      ''secp256k1_add_gas_cost'',
      ''secp256k1_get_point_from_x_gas_cost'',
      ''secp256k1_get_xy_gas_cost'',
      ''secp256k1_mul_gas_cost'',
      ''secp256k1_new_gas_cost'',
      ''secp256r1_add_gas_cost'',
      ''secp256r1_get_point_from_x_gas_cost'',
      ''secp256r1_get_xy_gas_cost'',
      ''secp256r1_mul_gas_cost'',
      ''secp256r1_new_gas_cost'',
      ''keccak_gas_cost'',
      ''keccak_round_cost_gas_cost'']"

definition GasCosts_try_from :: "(string, u64) HashMap \<Rightarrow> (OsConstantsSerdeError, GasCosts) result" where
  "GasCosts_try_from m =
     (if \<forall>key \<in> set GAS_COST_KEYS. hm_contains m key then Ok
        \<lparr>step_gas_cost = gas_cost m ''step_gas_cost'',
         range_check_gas_cost = gas_cost m ''range_check_gas_cost'',
         memory_hole_gas_cost = gas_cost m ''memory_hole_gas_cost'',
         initial_gas_cost = gas_cost m ''initial_gas_cost'',
         entry_point_initial_budget = gas_cost m ''entry_point_initial_budget'',
         syscall_base_gas_cost = gas_cost m ''syscall_base_gas_cost'',
         entry_point_gas_cost = gas_cost m ''entry_point_gas_cost'',
         fee_transfer_gas_cost = gas_cost m ''fee_transfer_gas_cost'',
         transaction_gas_cost = gas_cost m ''transaction_gas_cost'',
         call_contract_gas_cost = gas_cost m ''call_contract_gas_cost'',
         deploy_gas_cost = gas_cost m ''deploy_gas_cost'',
         get_block_hash_gas_cost = gas_cost m ''get_block_hash_gas_cost'',
         get_execution_info_gas_cost = gas_cost m ''get_execution_info_gas_cost'',
         library_call_gas_cost = gas_cost m ''library_call_gas_cost'',
         replace_class_gas_cost = gas_cost m ''replace_class_gas_cost'',
         storage_read_gas_cost = gas_cost m ''storage_read_gas_cost'',
         storage_write_gas_cost = gas_cost m ''storage_write_gas_cost'',
         emit_event_gas_cost = gas_cost m ''emit_event_gas_cost'',
         send_message_to_l1_gas_cost = gas_cost m ''send_message_to_l1_gas_cost'',
         secp256k1_add_gas_cost = gas_cost m ''secp256k1_add_gas_cost'',
         secp256k1_get_point_from_x_gas_cost = gas_cost m ''secp256k1_get_point_from_x_gas_cost'',
         secp256k1_get_xy_gas_cost = gas_cost m ''secp256k1_get_xy_gas_cost'',
         secp256k1_mul_gas_cost = gas_cost m ''secp256k1_mul_gas_cost'',
         secp256k1_new_gas_cost = gas_cost m ''secp256k1_new_gas_cost'',
         secp256r1_add_gas_cost = gas_cost m ''secp256r1_add_gas_cost'',
         secp256r1_get_point_from_x_gas_cost = gas_cost m ''secp256r1_get_point_from_x_gas_cost'',
         secp256r1_get_xy_gas_cost = gas_cost m ''secp256r1_get_xy_gas_cost'',
         secp256r1_mul_gas_cost = gas_cost m ''secp256r1_mul_gas_cost'',
         secp256r1_new_gas_cost = gas_cost m ''secp256r1_new_gas_cost'',
         keccak_gas_cost = gas_cost m ''keccak_gas_cost'',
         keccak_round_cost_gas_cost = gas_cost m ''keccak_round_cost_gas_cost''\<rparr>
      else Err ParseError)"


definition OsConstants_try_from ::
    "nat \<Rightarrow> raw_dict \<Rightarrow> ValidateRoundingConsts \<Rightarrow> (OsConstantsSerdeError, OsConstants) result option" where
  "OsConstants_try_from fuel raw rounding =
     map_option (\<lambda>r. rbind r (\<lambda>costs. rbind (GasCosts_try_from costs)
       (\<lambda>gc. Ok \<lparr>gas_costs = gc, validate_rounding_consts = rounding\<rparr>))) (parse_gas_costs fuel raw)"

end
