(* ===== verification/Execution_Errors.thy ===== *)
theory Execution_Errors
  imports Call_Info Versioned_Constants
begin

text \<open>
  The error types of the execution and transaction layers: \<open>execution/errors.rs\<close>, the error
  enums of \<open>execution/syscalls/hint_processor.rs\<close> and
  \<open>execution/deprecated_syscalls/hint_processor.rs\<close>, \<open>fee/fee_checks.rs\<close> and
  \<open>transaction/errors.rs\<close>. A constructor keeps the name of its variant, with a prefix where
  two enums share a name.

  Errors of the Cairo VM are seen only through the variants the sources inspect: a run fails
  with a \<open>VmException\<close> (\<open>EpVmException\<close>) or another \<open>CairoRunError\<close>; a VM error is a hint that
  failed with an internal VM error (\<open>VmHintInternal\<close>) or with a message (\<open>VmHint\<close>), an \<open>Other\<close>
  wrapping an error of one of the two syscall handlers or something else, or a message.
\<close>

section \<open>Execution\<close>

type_synonym MathError = string
type_synonym MemoryError = string
type_synonym RunnerError = string

record Relocatable =
  segment_index :: int
  rel_offset :: usize

datatype ExecutionMode = Execute | Validate

datatype PreExecutionError =
    DuplicatedEntryPointSelector EntryPointSelector EntryPointType
  | EntryPointNotFound EntryPointSelector
  | FraudAttempt
  | InvalidBuiltin string
  | InvalidConstructorEntryPointName
  | PreMathError MathError
  | PreMemoryError MemoryError
  | NoEntryPointOfTypeFound EntryPointType
  | PreProgramError string
  | PreRunnerError RunnerError
  | PreStateError StateError
  | UninitializedStorageAddress ContractAddress

datatype EmitEventError =
    ExceedsMaxKeysLength usize usize
  | ExceedsMaxDataLength usize usize
  | ExceedsMaxNumberOfEmittedEvents usize usize

datatype (plugins only: code)
  EntryPointExecutionError =
    EpVmException usize "string option" VirtualMachineError
  | EpCairoRunError string
  | ExecutionFailed "StarkFelt list"
  | InternalError string
  | InvalidExecutionInput string string
  | EpPostExecutionError PostExecutionError
  | EpPreExecutionError PreExecutionError
  | RecursionDepthExceeded
  | EpStateError StateError
  | EpTraceError string
  and ConstructorEntryPointExecutionError =
    ConstructorExecutionError EntryPointExecutionError ClassHash ContractAddress "EntryPointSelector option"
  and PostExecutionError =
    PostMathError MathError
  | PostMemoryError MemoryError
  | RetdataSizeTooBig
  | SecurityValidationError string
  | PostVirtualMachineError VirtualMachineError
  | MalformedReturnData string
  and VirtualMachineError =
    VmHintInternal VirtualMachineError
  | VmHint string
  | VmOtherSyscall SyscallExecutionError
  | VmOtherDeprecatedSyscall DeprecatedSyscallExecutionError
  | VmOther string
  | VmErrorMessage string
  and SyscallExecutionError =
    BadSyscallPointer Relocatable Relocatable
  | SysEmitEventError EmitEventError
  | ForbiddenClassReplacement ClassHash
  | InvalidAddressDomain StarkFelt
  | SysConstructorError ConstructorEntryPointExecutionError
  | SysEntryPointError EntryPointExecutionError
  | CallContractExecutionError ClassHash ContractAddress EntryPointSelector SyscallExecutionError
  | LibraryCallExecutionError ClassHash ContractAddress EntryPointSelector SyscallExecutionError
  | InvalidSyscallInput StarkFelt string
  | InvalidSyscallSelector StarkFelt
  | InvalidSyscallInExecutionMode string ExecutionMode
  | SysMathError MathError
  | SysMemoryError MemoryError
  | SysSierraTypeError SierraTypeError
  | SysStarknetApiError string
  | SysStateError StateError
  | SysVirtualMachineError VirtualMachineError
  | SyscallError "StarkFelt list"
  and DeprecatedSyscallExecutionError =
    DepBadSyscallPointer Relocatable Relocatable
  | DepEntryPointError EntryPointExecutionError
  | DepConstructorError ConstructorEntryPointExecutionError
  | DepCallContractExecutionError ClassHash ContractAddress EntryPointSelector DeprecatedSyscallExecutionError
  | DepEmitEventError EmitEventError
  | DepLibraryCallExecutionError ClassHash ContractAddress EntryPointSelector DeprecatedSyscallExecutionError
  | DepInvalidSyscallInput StarkFelt string
  | InvalidDeprecatedSyscallSelector StarkFelt
  | DepMathError MathError
  | DepMemoryError MemoryError
  | DepStarknetApiError string
  | DepStateError StateError
  | DepVirtualMachineError VirtualMachineError
  | DepInvalidSyscallInExecutionMode string ExecutionMode

section \<open>Transactions\<close>

type_synonym TransactionVersion = StarkFelt
type_synonym TransactionHash = StarkFelt

datatype TransactionFeeError =
    CairoResourcesNotContainedInFeeCosts
  | ExecuteFeeTransferError EntryPointExecutionError
  | FeeTransferError Fee Fee
  | InsufficientL1Fee Fee Fee
  | L1GasBoundsExceedBalance u64 u128 StarkFelt StarkFelt
  | MaxFeeExceedsBalance Fee StarkFelt StarkFelt
  | MaxFeeTooLow Fee Fee
  | MaxL1GasPriceTooLow u128 u128
  | MaxL1GasAmountTooLow u64 u64
  | MissingL1GasBounds
  | FeeStateError StateError

datatype FeeCheckError =
    MaxL1GasAmountExceeded u128 u128
  | MaxFeeExceeded Fee Fee
  | InsufficientFeeTokenBalance Fee StarkFelt StarkFelt

datatype TransactionPreValidationError =
    InvalidNonce ContractAddress Nonce Nonce
  | PreValStateError StateError
  | PreValFeeError TransactionFeeError

datatype TransactionExecutionError =
    ContractClassVersionMismatch TransactionVersion u64
  | ContractConstructorExecutionFailed ConstructorEntryPointExecutionError
  | DeclareTransactionError ClassHash
  | TxExecutionError EntryPointExecutionError ClassHash ContractAddress EntryPointSelector
  | TxFeeCheckError FeeCheckError
  | InvalidValidateReturnData Retdata
  | InvalidVersion TransactionVersion "TransactionVersion list"
  | TxStarknetApiError string
  | TxStateError StateError
  | TxFeeError TransactionFeeError
  | TxPreValidationError TransactionPreValidationError
  | TxTryFromIntError
  | TransactionTooLarge
  | ValidateTransactionError EntryPointExecutionError ClassHash ContractAddress EntryPointSelector
  | InvalidSegmentStructure usize usize

end
