(* ===== verification/Context.thy ===== *)
theory Context
  imports Execution_Errors
begin

text \<open>
  Blocks, chains and the account information of a transaction: \<open>blockifier/block.rs\<close>,
  \<open>context.rs\<close> and the first half of \<open>transaction/objects.rs\<close>. A \<open>NonZeroU128\<close> gas price is a
  \<open>u128\<close>; that it is not zero is the predicate \<open>gas_prices_wf\<close>.
\<close>

section \<open>Transaction information\<close>

datatype FeeType = Strk | Eth

datatype Resource = L1Gas | L2Gas

record ResourceBounds =
  max_amount :: u64
  max_price_per_unit :: u128

type_synonym ResourceBoundsMapping = "(Resource, ResourceBounds) HashMap"

datatype DataAvailabilityMode = L1Da | L2Da

record CommonAccountFields =
  caf_transaction_hash :: TransactionHash
  caf_version :: TransactionVersion
  caf_signature :: "StarkFelt list"
  caf_nonce :: Nonce
  caf_sender_address :: ContractAddress
  caf_only_query :: bool

record CurrentTransactionInfo =
  cti_common_fields :: CommonAccountFields
  cti_resource_bounds :: ResourceBoundsMapping
  cti_tip :: u64
  cti_nonce_data_availability_mode :: DataAvailabilityMode
  cti_fee_data_availability_mode :: DataAvailabilityMode
  cti_paymaster_data :: "StarkFelt list"
  cti_account_deployment_data :: "StarkFelt list"

record DeprecatedTransactionInfo =
  dti_common_fields :: CommonAccountFields
  dti_max_fee :: Fee

datatype TransactionInfo = Current CurrentTransactionInfo | Deprecated DeprecatedTransactionInfo

definition CommonAccountFields_default :: CommonAccountFields where
  "CommonAccountFields_default =
     \<lparr>caf_transaction_hash = 0, caf_version = 0, caf_signature = [], caf_nonce = 0,
      caf_sender_address = 0, caf_only_query = False\<rparr>"

fun common_fields :: "TransactionInfo \<Rightarrow> CommonAccountFields" where
  "common_fields (Current context) = cti_common_fields context"
| "common_fields (Deprecated context) = dti_common_fields context"

definition ti_transaction_hash :: "TransactionInfo \<Rightarrow> TransactionHash" where
  "ti_transaction_hash info = caf_transaction_hash (common_fields info)"

definition ti_version :: "TransactionInfo \<Rightarrow> TransactionVersion" where
  "ti_version info = caf_version (common_fields info)"

definition ti_nonce :: "TransactionInfo \<Rightarrow> Nonce" where
  "ti_nonce info = caf_nonce (common_fields info)"

definition ti_sender_address :: "TransactionInfo \<Rightarrow> ContractAddress" where
  "ti_sender_address info = caf_sender_address (common_fields info)"

definition ti_only_query :: "TransactionInfo \<Rightarrow> bool" where
  "ti_only_query info = caf_only_query (common_fields info)"

definition ti_signature :: "TransactionInfo \<Rightarrow> StarkFelt list" where
  "ti_signature info = caf_signature (common_fields info)"

definition is_v0 :: "TransactionInfo \<Rightarrow> bool" where
  "is_v0 info \<longleftrightarrow> ti_version info = 0"

definition QUERY_VERSION_BASE_BIT :: nat where
  "QUERY_VERSION_BASE_BIT = 128"

definition signed_version :: "TransactionInfo \<Rightarrow> TransactionVersion" where
  "signed_version info =
     (if \<not> ti_only_query info then ti_version info
      else (2 ^ QUERY_VERSION_BASE_BIT + ti_version info) mod PRIME)"

definition l1_resource_bounds :: "CurrentTransactionInfo \<Rightarrow> (TransactionFeeError, ResourceBounds) result" where
  "l1_resource_bounds info =
     (case map_of (cti_resource_bounds info) L1Gas of
        Some bounds \<Rightarrow> Ok bounds
      | None \<Rightarrow> Err MissingL1GasBounds)"

fun enforce_fee :: "TransactionInfo \<Rightarrow> (TransactionFeeError, bool) result" where
  "enforce_fee (Current context) =
     rbind (l1_resource_bounds context) (\<lambda>l1_bounds.
       Ok (ucast (max_amount l1_bounds) * max_price_per_unit l1_bounds > 0))"
| "enforce_fee (Deprecated context) = Ok (dti_max_fee context \<noteq> 0)"

text \<open>The provided function of the trait \<open>HasRelatedFeeType\<close>, given the two required ones.\<close>

definition fee_type :: "bool \<Rightarrow> TransactionVersion \<Rightarrow> FeeType" where
  "fee_type is_l1_handler version = (if is_l1_handler \<or> version < 3 then Eth else Strk)"

definition ti_fee_type :: "TransactionInfo \<Rightarrow> FeeType" where
  "ti_fee_type info = fee_type False (ti_version info)"

section \<open>Blocks and chains\<close>

record GasPrices =
  eth_l1_gas_price :: u128
  strk_l1_gas_price :: u128
  eth_l1_data_gas_price :: u128
  strk_l1_data_gas_price :: u128

definition gas_prices_wf :: "GasPrices \<Rightarrow> bool" where
  "gas_prices_wf p \<longleftrightarrow> eth_l1_gas_price p \<noteq> 0 \<and> strk_l1_gas_price p \<noteq> 0
     \<and> eth_l1_data_gas_price p \<noteq> 0 \<and> strk_l1_data_gas_price p \<noteq> 0"

definition get_gas_price_by_fee_type :: "GasPrices \<Rightarrow> FeeType \<Rightarrow> u128" where
  "get_gas_price_by_fee_type p t = (case t of Strk \<Rightarrow> strk_l1_gas_price p | Eth \<Rightarrow> eth_l1_gas_price p)"

definition get_data_gas_price_by_fee_type :: "GasPrices \<Rightarrow> FeeType \<Rightarrow> u128" where
  "get_data_gas_price_by_fee_type p t =
     (case t of Strk \<Rightarrow> strk_l1_data_gas_price p | Eth \<Rightarrow> eth_l1_data_gas_price p)"

record BlockInfo =
  block_number :: u64
  block_timestamp :: u64
  sequencer_address :: ContractAddress
  gas_prices :: GasPrices
  use_kzg_da :: bool

record FeeTokenAddresses =
  strk_fee_token_address :: ContractAddress
  eth_fee_token_address :: ContractAddress

definition get_by_fee_type :: "FeeTokenAddresses \<Rightarrow> FeeType \<Rightarrow> ContractAddress" where
  "get_by_fee_type addresses t =
     (case t of Strk \<Rightarrow> strk_fee_token_address addresses | Eth \<Rightarrow> eth_fee_token_address addresses)"

record ChainInfo =
  chain_id :: string
  fee_token_addresses :: FeeTokenAddresses

definition ChainInfo_default :: ChainInfo where
  "ChainInfo_default =
     \<lparr>chain_id = ''0x0'', fee_token_addresses = \<lparr>strk_fee_token_address = 0, eth_fee_token_address = 0\<rparr>\<rparr>"

definition chain_fee_token_address :: "ChainInfo \<Rightarrow> FeeType \<Rightarrow> ContractAddress" where
  "chain_fee_token_address info t = get_by_fee_type (fee_token_addresses info) t"

record BlockContext =
  block_info :: BlockInfo
  chain_info :: ChainInfo
  versioned_constants :: VersionedConstants
  concurrency_mode :: bool

definition BlockContext_new_unchecked ::
    "BlockInfo \<Rightarrow> ChainInfo \<Rightarrow> VersionedConstants \<Rightarrow> BlockContext" where
  "BlockContext_new_unchecked info chain constants =
     \<lparr>block_info = info, chain_info = chain, versioned_constants = constants, concurrency_mode = False\<rparr>"

record TransactionContext =
  block_context :: BlockContext
  tx_info :: TransactionInfo

definition to_tx_context :: "BlockContext \<Rightarrow> TransactionInfo \<Rightarrow> TransactionContext" where
  "to_tx_context context created_tx_info = \<lparr>block_context = context, tx_info = created_tx_info\<rparr>"

definition fee_token_address :: "TransactionContext \<Rightarrow> ContractAddress" where
  "fee_token_address context =
     chain_fee_token_address (chain_info (block_context context)) (ti_fee_type (tx_info context))"

record BlockNumberHashPair =
  bnh_number :: u64
  bnh_hash :: StarkFelt

definition pre_process_block ::
    "BlockNumberHashPair option \<Rightarrow> BlockInfo \<Rightarrow> ChainInfo \<Rightarrow> VersionedConstants \<Rightarrow> bool
      \<Rightarrow> ('s CachedState, StateError, BlockContext) action" where
  "pre_process_block old_block_number_and_hash info chain constants concurrency =
     (let should_block_hash_be_provided = block_number info \<ge> STORED_BLOCK_HASH_BUFFER;
          result = sret \<lparr>block_info = info, chain_info = chain, versioned_constants = constants,
                         concurrency_mode = concurrency\<rparr>
      in case old_block_number_and_hash of
           Some pair \<Rightarrow>
             sbind (set_storage_at BLOCK_HASH_CONTRACT_ADDRESS (unat (bnh_number pair)) (bnh_hash pair))
               (\<lambda>_. result)
         | None \<Rightarrow>
             (if should_block_hash_be_provided then slift (Err OldBlockHashNotProvided) else result))"

section \<open>Lemmas\<close>

lemma gas_price_nonzero:
  assumes "gas_prices_wf p"
  shows "get_gas_price_by_fee_type p t \<noteq> 0" and "get_data_gas_price_by_fee_type p t \<noteq> 0"
  using assms
  by (cases t; simp add: gas_prices_wf_def get_gas_price_by_fee_type_def get_data_gas_price_by_fee_type_def)+

text \<open>
  A query version never collides with a supported transaction version: the query bit lifts it
  above every version below it.
\<close>

lemma signed_version_query:
  assumes "ti_version info < 2 ^ 128" and "ti_only_query info"
  shows "signed_version info = 2 ^ 128 + ti_version info"
proof -
  have "2 ^ 128 + ti_version info < PRIME"
    using assms(1) by (simp add: PRIME_def)
  then show ?thesis
    using assms(2) by (simp add: signed_version_def QUERY_VERSION_BASE_BIT_def)
qed

end
