(* ===== verification/Gas_Cost_Equations.thy ===== *)
theory Gas_Cost_Equations
  imports Versioned_Constants
begin

text \<open>
  What the constants of \<open>versioned_constants.rs\<close> satisfy once they are loaded: the gas costs
  computed from the JSON file solve its equations, and OS resources that pass \<open>validate\<close>
  never make a resource computation panic.
\<close>

section \<open>Well-formed dependencies\<close>

text \<open>The conditions under which the costs are defined: no circular dependency (\<open>rank\<close> is the
  depth of a cost), every cost a number or a combination of costs with factors in range.\<close>

fun cost_ok :: "raw_dict \<Rightarrow> (string \<Rightarrow> nat) \<Rightarrow> string \<Rightarrow> Value \<Rightarrow> bool" where
  "cost_ok raw rank key (Number n) = (n \<noteq> None)"
| "cost_ok raw rank key (Object obj) =
     (\<forall>(inner_key, factor) \<in> set obj. inner_key \<notin> set ADDITIONAL_FIELDS \<and> hm_contains raw inner_key
        \<and> rank inner_key < rank key \<and> value_as_u64 factor \<noteq> None)"
| "cost_ok raw rank key v = False"

definition costs_ok :: "raw_dict \<Rightarrow> (string \<Rightarrow> nat) \<Rightarrow> bool" where
  "costs_ok raw rank \<longleftrightarrow> hm_wf raw \<and> (\<forall>(key, v) \<in> set raw. key \<notin> set ADDITIONAL_FIELDS \<longrightarrow> cost_ok raw rank key v)"

definition combination :: "gas_cost_map \<Rightarrow> (string \<times> Value) list \<Rightarrow> u64" where
  "combination costs obj =
     sum_list (map (\<lambda>(inner_key, factor). the (map_of costs inner_key) * the (value_as_u64 factor)) obj)"

text \<open>The equation a cost has to satisfy.\<close>

fun solves :: "gas_cost_map \<Rightarrow> u64 \<Rightarrow> Value \<Rightarrow> bool" where
  "solves costs val (Number n) = (n = Some val)"
| "solves costs val (Object obj) =
     (val = combination costs obj \<and> (\<forall>(inner_key, factor) \<in> set obj. hm_contains costs inner_key))"
| "solves costs val v = False"

definition sound_costs :: "raw_dict \<Rightarrow> gas_cost_map \<Rightarrow> bool" where
  "sound_costs raw costs \<longleftrightarrow>
     (\<forall>key val. map_of costs key = Some val \<longrightarrow>
        key \<notin> set ADDITIONAL_FIELDS \<and> (\<exists>v. map_of raw key = Some v \<and> solves costs val v))"

lemma combination_mono:
  assumes "map_of costs \<subseteq>\<^sub>m map_of costs'" and "\<forall>(inner_key, factor) \<in> set obj. hm_contains costs inner_key"
  shows "combination costs' obj = combination costs obj"
proof -
  have "the (map_of costs' k) = the (map_of costs k)" if "k \<in> dom (map_of costs)" for k
    using assms(1) that by (metis map_le_def)
  then show ?thesis
    unfolding combination_def using assms(2)
    by (intro arg_cong [where f = sum_list] map_cong) fastforce+
qed

lemma solves_mono:
  assumes "map_of costs \<subseteq>\<^sub>m map_of costs'" and "solves costs val v"
  shows "solves costs' val v"
proof (cases v)
  case (Object obj)
  then show ?thesis
    using assms combination_mono [OF assms(1), of obj] map_le_implies_dom_le [OF assms(1)]
    by (fastforce simp: hm_contains_iff)
qed (use assms in simp_all)

lemma sound_costs_insert:
  assumes "sound_costs raw costs" and "map_of raw key = Some v" and "key \<notin> set ADDITIONAL_FIELDS"
    and "\<not> hm_contains costs key" and "solves costs val v"
  shows "sound_costs raw (hm_insert key val costs)"
proof -
  have "map_of costs \<subseteq>\<^sub>m map_of (hm_insert key val costs)"
    using assms(4) by (auto simp: map_le_def)
  note mono = solves_mono [OF this]
  show ?thesis
    using assms mono unfolding sound_costs_def by (simp split: if_splits) blast
qed

text \<open>What one call of the recursion does when there is fuel above the rank of its key.\<close>

definition extends :: "raw_dict \<Rightarrow> (string \<Rightarrow> nat) \<Rightarrow> nat \<Rightarrow> gas_cost_map \<Rightarrow> gas_cost_map \<Rightarrow> bool" where
  "extends raw rank bound costs costs' \<longleftrightarrow>
     map_of costs \<subseteq>\<^sub>m map_of costs' \<and> sound_costs raw costs'
   \<and> (\<forall>k. hm_contains costs' k \<longrightarrow> hm_contains costs k \<or> rank k < bound)"

lemma extends_refl: "sound_costs raw costs \<Longrightarrow> extends raw rank bound costs costs"
  by (simp add: extends_def)

lemma extends_trans:
  "extends raw rank bound a b \<Longrightarrow> extends raw rank bound b c \<Longrightarrow> extends raw rank bound a c"
  unfolding extends_def using map_le_trans by blast

lemma extends_weaken: "extends raw rank bound a b \<Longrightarrow> bound \<le> bound' \<Longrightarrow> extends raw rank bound' a b"
  unfolding extends_def by force

definition adds :: "raw_dict \<Rightarrow> (string \<Rightarrow> nat) \<Rightarrow> nat
    \<Rightarrow> (string \<Rightarrow> Value \<Rightarrow> gas_cost_map \<Rightarrow> (OsConstantsSerdeError, gas_cost_map) result option) \<Rightarrow> bool" where
  "adds raw rank fuel f \<longleftrightarrow>
     (\<forall>key v costs. rank key < fuel \<and> map_of raw key = Some v \<and> key \<notin> set ADDITIONAL_FIELDS \<and> sound_costs raw costs \<longrightarrow>
       (\<exists>costs'. f key v costs = Some (Ok costs') \<and> extends raw rank (Suc (rank key)) costs costs' \<and> hm_contains costs' key))"

lemma add_factors_ok:
  assumes "adds raw rank fuel f" and "rank key \<le> fuel" and "cost_ok raw rank key (Object obj)" and "sound_costs raw costs"
  shows "\<exists>costs'. add_factors f raw key obj val costs = Some (Ok (val + combination costs' obj, costs'))
    \<and> extends raw rank (rank key) costs costs' \<and> (\<forall>(inner_key, factor) \<in> set obj. hm_contains costs' inner_key)"
  using assms(3,4)
proof (induction obj arbitrary: val costs)
  case Nil
  then show ?case
    by (simp add: combination_def extends_refl)
next
  case (Cons entry rest)
  obtain inner_key factor where entry: "entry = (inner_key, factor)"
    by (cases entry)
  obtain inner_value n where raw: "map_of raw inner_key = Some inner_value" "inner_key \<notin> set ADDITIONAL_FIELDS"
    "rank inner_key < rank key" "value_as_u64 factor = Some n" "cost_ok raw rank key (Object rest)"
    using Cons.prems(1) by (auto simp: entry)
  then obtain costs1 where one: "f inner_key inner_value costs = Some (Ok costs1)"
    "extends raw rank (Suc (rank inner_key)) costs costs1" "hm_contains costs1 inner_key"
    using assms(1,2) Cons.prems(2) unfolding adds_def by (meson less_le_trans)
  then obtain x where x: "map_of costs1 inner_key = Some x"
    by auto
  obtain costs2 where two:
    "add_factors f raw key rest (val + x * n) costs1 = Some (Ok (val + x * n + combination costs2 rest, costs2))"
    "extends raw rank (rank key) costs1 costs2" "\<forall>(inner_key, factor) \<in> set rest. hm_contains costs2 inner_key"
    using Cons.IH [OF raw(5), of costs1 "val + x * n"] one(2) by (auto simp: extends_def)
  have "map_of costs2 inner_key = Some x"
    using two(2) x unfolding extends_def map_le_def by (metis domI)
  moreover have "extends raw rank (rank key) costs costs2"
    using extends_trans [OF extends_weaken [OF one(2)] two(2)] raw(3) by simp
  ultimately show ?case
    using raw one two x by (intro exI [of _ costs2]) (auto simp: entry combination_def add.assoc)
qed

lemma recursive_add_ok:
  assumes "costs_ok raw rank"
  shows "adds raw rank fuel (recursive_add_to_gas_costs fuel raw)"
proof (induction fuel)
  case (Suc fuel)
  show ?case
    unfolding adds_def
  proof (intro allI impI, elim conjE)
    fix key v costs
    assume rank: "rank key < Suc fuel" and v: "map_of raw key = Some v" and key: "key \<notin> set ADDITIONAL_FIELDS"
      and sound: "sound_costs raw costs"
    have ok: "cost_ok raw rank key v"
      using assms v key unfolding costs_ok_def by (auto dest: map_of_SomeD)
    let ?goal = "\<exists>costs'. recursive_add_to_gas_costs (Suc fuel) raw key v costs = Some (Ok costs')
        \<and> extends raw rank (Suc (rank key)) costs costs' \<and> hm_contains costs' key"
    have new: "extends raw rank (Suc (rank key)) costs (hm_insert key val costs')"
      if "extends raw rank (rank key) costs costs'" "solves costs' val v" "\<not> hm_contains costs key" for val costs'
    proof -
      have "\<not> hm_contains costs' key"
        using that(1,3) by (auto simp: extends_def)
      moreover have "map_of costs' \<subseteq>\<^sub>m map_of (hm_insert key val costs')"
        using calculation by (auto simp: map_le_def)
      ultimately show ?thesis
        using that sound_costs_insert [OF _ v key] map_le_trans unfolding extends_def by fastforce
    qed
    show ?goal
    proof (cases "hm_contains costs key")
      case True
      then show ?thesis
        using extends_refl [OF sound] by simp
    next
      case absent: False
      show ?thesis
      proof (cases v)
        case (Number n)
        then obtain val where "n = Some val"
          using ok by auto
        then show ?thesis
          using Number absent new [OF extends_refl [OF sound]] by simp
      next
        case (Object obj)
        obtain costs' where add: "add_factors (recursive_add_to_gas_costs fuel raw) raw key obj 0 costs
            = Some (Ok (combination costs' obj, costs'))"
          "extends raw rank (rank key) costs costs'" "\<forall>(inner_key, factor) \<in> set obj. hm_contains costs' inner_key"
          using add_factors_ok [OF Suc.IH, of key obj costs 0] rank ok sound by (auto simp: Object)
        then show ?thesis
          using new [OF add(2)] absent by (simp add: Object)
      qed (use ok in simp_all)
    qed
  qed
qed (simp add: adds_def)

lemma parse_entries_ok:
  assumes "costs_ok raw rank" and "\<forall>key. hm_contains raw key \<longrightarrow> rank key < fuel"
    and "set entries \<subseteq> set raw" and "sound_costs raw costs"
  shows "\<exists>costs'. parse_entries fuel raw entries costs = Some (Ok costs') \<and> map_of costs \<subseteq>\<^sub>m map_of costs'
    \<and> sound_costs raw costs' \<and> (\<forall>(key, v) \<in> set entries. key \<notin> set ADDITIONAL_FIELDS \<longrightarrow> hm_contains costs' key)"
  using assms(3,4)
proof (induction entries arbitrary: costs)
  case (Cons entry rest)
  obtain key v where entry: "entry = (key, v)"
    by (cases entry)
  show ?case
  proof (cases "key \<in> set ADDITIONAL_FIELDS")
    case True
    then show ?thesis
      using Cons by (auto simp: entry)
  next
    case False
    have "map_of raw key = Some v"
      using assms(1) Cons.prems(1) by (simp add: entry costs_ok_def hm_wf_def)
    moreover have "rank key < fuel"
      using assms(2) calculation by auto
    ultimately obtain costs1 where one: "recursive_add_to_gas_costs fuel raw key v costs = Some (Ok costs1)"
      "extends raw rank (Suc (rank key)) costs costs1" "hm_contains costs1 key"
      using recursive_add_ok [OF assms(1), of fuel] False Cons.prems(2) unfolding adds_def by blast
    obtain costs2 where two: "parse_entries fuel raw rest costs1 = Some (Ok costs2)"
      "map_of costs1 \<subseteq>\<^sub>m map_of costs2" "sound_costs raw costs2"
      "\<forall>(key, v) \<in> set rest. key \<notin> set ADDITIONAL_FIELDS \<longrightarrow> hm_contains costs2 key"
      using Cons.IH [of costs1] Cons.prems(1) one(2) by (auto simp: extends_def)
    have "map_of costs \<subseteq>\<^sub>m map_of costs2"
      using one(2) two(2) map_le_trans unfolding extends_def by blast
    moreover have "hm_contains costs2 key"
      using one(3) map_le_implies_dom_le [OF two(2)] by auto
    ultimately show ?thesis
      using False one(1) two by (simp add: entry)
  qed
qed simp

section \<open>Properties\<close>

text \<open>C32: When the dependencies between the costs are acyclic, every referenced cost exists and
  every number is in range, the computation of the gas costs ends (fuel above the depth of the
  dependencies is enough), and its result solves the equations of the file: a number is its
  value, and an object \<open>{k\<^sub>1: f\<^sub>1, \<dots>}\<close> is \<open>k\<^sub>1 * f\<^sub>1 + \<dots>\<close> (modulo \<open>2 ^ 64\<close>), for exactly the keys
  that are not additional fields.\<close>

theorem parse_gas_costs_solves_the_equations:
  assumes "costs_ok raw rank" and "\<forall>key. hm_contains raw key \<longrightarrow> rank key < fuel"
  shows "\<exists>costs. parse_gas_costs fuel raw = Some (Ok costs)
    \<and> (\<forall>key. hm_contains costs key \<longleftrightarrow> hm_contains raw key \<and> key \<notin> set ADDITIONAL_FIELDS)
    \<and> (\<forall>key val v. map_of costs key = Some val \<and> map_of raw key = Some v \<longrightarrow> solves costs val v)"
proof -
  obtain costs where costs: "parse_entries fuel raw raw [] = Some (Ok costs)" "sound_costs raw costs"
    "\<forall>(key, v) \<in> set raw. key \<notin> set ADDITIONAL_FIELDS \<longrightarrow> hm_contains costs key"
    using parse_entries_ok [OF assms, of raw "[]"] by (auto simp: sound_costs_def)
  have "hm_contains costs key \<longleftrightarrow> hm_contains raw key \<and> key \<notin> set ADDITIONAL_FIELDS" for key
    using costs(2,3) unfolding sound_costs_def hm_contains_iff by (blast dest: map_of_SomeD)
  moreover have "solves costs val v" if "map_of costs key = Some val" "map_of raw key = Some v" for key val v
    using costs(2) that unfolding sound_costs_def by fastforce
  ultimately show ?thesis
    using costs(1) by (auto simp: parse_gas_costs_def)
qed

definition raw_example :: raw_dict where
  "raw_example =
     [(''entry_point_gas_cost'', Object [(''step_gas_cost'', Number (Some 500)), (''range_check_gas_cost'', Number (Some 2))]),
      (''step_gas_cost'', Number (Some 100)),
      (''range_check_gas_cost'', Number (Some 70)),
      (''l1_gas'', String ''L1_GAS'')]"

definition rank_example :: "string \<Rightarrow> nat" where
  "rank_example key = (if key = ''entry_point_gas_cost'' then 1 else 0)"

theorem parse_gas_costs_solves_the_equations_witness:
  "\<exists>costs. parse_gas_costs 2 raw_example = Some (Ok costs)
    \<and> (\<forall>key. hm_contains costs key \<longleftrightarrow> hm_contains raw_example key \<and> key \<notin> set ADDITIONAL_FIELDS)
    \<and> (\<forall>key val v. map_of costs key = Some val \<and> map_of raw_example key = Some v \<longrightarrow> solves costs val v)"
  by (rule parse_gas_costs_solves_the_equations [of _ rank_example])
    (simp_all add: costs_ok_def raw_example_def rank_example_def ADDITIONAL_FIELDS_def hm_wf_def split: if_splits)

lemma SyscallSelector_iter_complete: "selector \<in> set SyscallSelector_iter"
  by (cases selector) (simp_all add: SyscallSelector_iter_def)

lemma TransactionType_iter_complete: "tx_type \<in> set TransactionType_iter"
  by (cases tx_type) (simp_all add: TransactionType_iter_def)

lemma OsResources_validate_complete:
  assumes "OsResources_validate E os = Ok ()"
  shows "\<exists>r. map_of (execute_txs_inner os) tx_type = Some r"
    and "\<exists>r. map_of (execute_syscalls os) selector = Some r"
  using assms TransactionType_iter_complete [of tx_type] SyscallSelector_iter_complete [of selector]
  by (auto simp: OsResources_validate_def find_None_iff split: option.splits)

lemma add_syscall_resources_ok:
  assumes "resource_laws E" and "\<forall>selector. \<exists>r. map_of (execute_syscalls os) selector = Some r"
  shows "\<exists>r. add_syscall_resources E os counter acc = Ok r
    \<and> er_n_steps r = er_n_steps acc
        + sum_list (map (\<lambda>(selector, n). er_n_steps (the (map_of (execute_syscalls os) selector)) * n) counter)"
proof (induction counter arbitrary: acc)
  case (Cons entry counter)
  obtain selector n where entry: "entry = (selector, n)"
    by (cases entry)
  obtain res where "map_of (execute_syscalls os) selector = Some res"
    using assms(2) by blast
  then show ?case
    using Cons.IH [of "er_add E acc (er_mul E res n)"] assms(1)
    by (auto simp: entry resource_laws_def add.assoc)
qed simp

text \<open>C33: OS resources that pass the validation of the JSON file never make a resource
  computation panic: the resources of every transaction type and of every syscall counter
  are defined, and the steps of a counter are the sum of its counts times the steps of each
  syscall.\<close>

theorem validated_os_resources_never_panic:
  assumes "OsResources_validate E os = Ok ()" and "resource_laws E"
  shows "(\<exists>r. resources_for_tx_type E os tx_type calldata_length = (Ok r :: (unit, ExecutionResources) result))
    \<and> (\<exists>r. get_additional_os_syscall_resources E os counter = (Ok r :: (unit, ExecutionResources) result)
      \<and> er_n_steps r = sum_list (map (\<lambda>(selector, n). er_n_steps (the (map_of (execute_syscalls os) selector)) * n) counter))"
proof -
  obtain res where "map_of (execute_txs_inner os) tx_type = Some res"
    using OsResources_validate_complete(1) [OF assms(1)] by blast
  moreover have "\<forall>selector. \<exists>r. map_of (execute_syscalls os) selector = Some r"
    using OsResources_validate_complete(2) [OF assms(1)] by blast
  ultimately show ?thesis
    using add_syscall_resources_ok [OF assms(2), of os counter er_default]
    by (simp add: resources_for_tx_type_def resources_params_for_tx_type_def get_additional_os_syscall_resources_def
        er_default_def)
qed

definition os_example :: OsResources where
  "os_example =
     \<lparr>execute_syscalls = map (\<lambda>selector. (selector, er_default\<lparr>er_n_steps := 10\<rparr>)) SyscallSelector_iter,
      execute_txs_inner = map (\<lambda>tx_type. (tx_type,
        \<lparr>rv_resources = \<lparr>rp_constant = er_default, rp_calldata_factor = er_default\<rparr>,
         rv_deprecated_resources = \<lparr>rp_constant = er_default\<lparr>er_n_steps := 100\<rparr>, rp_calldata_factor = er_default\<lparr>er_n_steps := 3\<rparr>\<rparr>\<rparr>))
        TransactionType_iter,
      compute_os_kzg_commitment_info = er_default\<lparr>er_n_steps := 7\<rparr>\<rparr>"

lemma os_example_valid: "OsResources_validate reference_externals os_example = Ok ()"
proof -
  have "find (\<lambda>tx_type. \<not> hm_contains (execute_txs_inner os_example) tx_type) TransactionType_iter = None"
    by (simp add: find_None_iff os_example_def map_of_map_restrict restrict_map_def domIff)
  moreover have "find (\<lambda>syscall. \<not> hm_contains (execute_syscalls os_example) syscall) SyscallSelector_iter = None"
    by (simp add: find_None_iff os_example_def map_of_map_restrict restrict_map_def domIff)
  moreover have "map (\<lambda>r. hm_keys (er_builtin_instance_counter r)) (hm_values (execute_syscalls os_example))
      = map (\<lambda>_. []) SyscallSelector_iter"
    by (simp add: os_example_def hm_values_def hm_keys_def er_default_def)
  moreover have "compute_os_kzg_commitment_info os_example = er_default\<lparr>er_n_steps := 7\<rparr>"
    by (simp add: os_example_def)
  ultimately show ?thesis
    by (simp add: OsResources_validate_def Let_def)
      (simp add: os_example_def hm_values_def hm_keys_def er_default_def TransactionType_iter_def find_None_iff split: option.splits)
qed

theorem validated_os_resources_never_panic_witness:
  "(\<exists>r. resources_for_tx_type reference_externals os_example TxInvokeFunction 2 = (Ok r :: (unit, ExecutionResources) result))
   \<and> (\<exists>r. get_additional_os_syscall_resources reference_externals os_example [(StorageRead, 2), (EmitEvent, 3)]
         = (Ok r :: (unit, ExecutionResources) result)
      \<and> er_n_steps r = 50)"
  using validated_os_resources_never_panic [OF os_example_valid reference_resource_laws,
      of TxInvokeFunction 2 "[(StorageRead, 2), (EmitEvent, 3)]"]
  by (simp add: os_example_def SyscallSelector_iter_def)

end
