(* ===== verification/Example_Context.thy ===== *)
theory Example_Context
  imports Context Gas_Cost_Equations
begin

text \<open>
  A concrete block and transaction context, on which the properties with hypotheses are
  instantiated. The limits and resource costs are those of \<open>resources/versioned_constants.json\<close>
  where that file gives them as plain numbers; no definition of the model depends on it.
\<close>

definition ratio :: "u128 \<Rightarrow> u128 \<Rightarrow> Ratio" where
  "ratio a b = \<lparr>rt_numer = a, rt_denom = b\<rparr>"

definition gas_costs_example :: GasCosts where
  "gas_costs_example =
     \<lparr>step_gas_cost = 100, range_check_gas_cost = 70, memory_hole_gas_cost = 10, initial_gas_cost = 10000000000,
      entry_point_initial_budget = 10000, syscall_base_gas_cost = 10000, entry_point_gas_cost = 60000,
      fee_transfer_gas_cost = 180000, transaction_gas_cost = 240000, call_contract_gas_cost = 87650,
      deploy_gas_cost = 142810, get_block_hash_gas_cost = 20650, get_execution_info_gas_cost = 20350,
      library_call_gas_cost = 85160, replace_class_gas_cost = 20730, storage_read_gas_cost = 17100,
      storage_write_gas_cost = 16500, emit_event_gas_cost = 20000, send_message_to_l1_gas_cost = 24690,
      secp256k1_add_gas_cost = 50820, secp256k1_get_point_from_x_gas_cost = 69260,
      secp256k1_get_xy_gas_cost = 31360, secp256k1_mul_gas_cost = 8100000, secp256k1_new_gas_cost = 79000,
      secp256r1_add_gas_cost = 67500, secp256r1_get_point_from_x_gas_cost = 69260,
      secp256r1_get_xy_gas_cost = 31360, secp256r1_mul_gas_cost = 8100000, secp256r1_new_gas_cost = 79000,
      keccak_gas_cost = 10000, keccak_round_cost_gas_cost = 180000\<rparr>"

definition vc_example :: VersionedConstants where
  "vc_example =
     \<lparr>tx_event_limits = \<lparr>max_data_length = 300, max_keys_length = 50, max_n_emitted_events = 1000\<rparr>,
      invoke_tx_max_n_steps = 4000000,
      l2_resource_gas_costs = \<lparr>gas_per_data_felt = ratio 128 1000, event_key_factor = ratio 2 1,
        gas_per_code_byte = ratio 875 1000\<rparr>,
      max_recursion_depth = 50,
      validate_max_n_steps = 1000000,
      os_constants = \<lparr>gas_costs = gas_costs_example,
        validate_rounding_consts = \<lparr>validate_block_number_rounding = 100, validate_timestamp_rounding = 3600\<rparr>\<rparr>,
      os_resources = os_example,
      vm_resource_fee_cost = [(''n_steps'', ratio 25 10000), (''range_check'', ratio 4 100), (''pedersen'', ratio 8 100),
        (''poseidon'', ratio 8 100), (''output'', ratio 0 1), (''ecdsa'', ratio 512 100), (''bitwise'', ratio 16 100),
        (''ec_op'', ratio 256 100), (''keccak'', ratio 512 100)]\<rparr>"

definition block_info_example :: BlockInfo where
  "block_info_example =
     \<lparr>block_number = 2345, block_timestamp = 1713000000, sequencer_address = 4096,
      gas_prices = \<lparr>eth_l1_gas_price = 100, strk_l1_gas_price = 200, eth_l1_data_gas_price = 3, strk_l1_data_gas_price = 5\<rparr>,
      use_kzg_da = True\<rparr>"

definition block_context_example :: BlockContext where
  "block_context_example =
     \<lparr>block_info = block_info_example,
      chain_info = \<lparr>chain_id = ''SN_GOERLI'',
        fee_token_addresses = \<lparr>strk_fee_token_address = 4098, eth_fee_token_address = 4097\<rparr>\<rparr>,
      versioned_constants = vc_example, concurrency_mode = False\<rparr>"

definition tx_info_example :: TransactionInfo where
  "tx_info_example =
     Current \<lparr>cti_common_fields =
        \<lparr>caf_transaction_hash = 17, caf_version = 3, caf_signature = [], caf_nonce = 4, caf_sender_address = 7,
         caf_only_query = False\<rparr>,
      cti_resource_bounds = [(L1Gas, \<lparr>max_amount = 10000, max_price_per_unit = 300\<rparr>)],
      cti_tip = 0, cti_nonce_data_availability_mode = L1Da, cti_fee_data_availability_mode = L1Da,
      cti_paymaster_data = [], cti_account_deployment_data = []\<rparr>"

definition tx_context_example :: TransactionContext where
  "tx_context_example = \<lparr>block_context = block_context_example, tx_info = tx_info_example\<rparr>"

lemmas example_defs =
  ratio_def gas_costs_example_def vc_example_def block_info_example_def block_context_example_def
  tx_info_example_def tx_context_example_def

end
