(* ===== verification/State_Changes.thy ===== *)
theory State_Changes
  imports Abi
begin

text \<open>
  What a cached state reports about its writes (\<open>state/cached_state.rs\<close>): the actual state
  changes, the state diff of a block, and the bookkeeping of changed keys used to measure
  the contribution of a transaction to the diff of its block.
\<close>

section \<open>Initial values of write-only cells\<close>

definition cache_initial_storage ::
    "'s StateReader \<Rightarrow> StorageEntry \<Rightarrow> ('s CachedState, StateError, unit) action" where
  "cache_initial_storage R entry self =
     (if hm_contains (sm_storage (initial_reads (cs_cache self))) entry then (Ok (), self)
      else case get_storage_at_inner R (fst entry) (snd entry) (cs_state self) of
        (r, state') \<Rightarrow>
          (let self' = CachedState state' (cs_cache self) (cs_class_hash_to_class self) (cs_visited_pcs self) in
           case r of
             Ok v \<Rightarrow> (Ok (), with_cache (set_storage_initial_value (fst entry) (snd entry) v) self')
           | Err e \<Rightarrow> (Err e, self')
           | Panic p \<Rightarrow> (Panic p, self')))"

definition cache_initial_class_hash ::
    "'s StateReader \<Rightarrow> ContractAddress \<Rightarrow> ('s CachedState, StateError, unit) action" where
  "cache_initial_class_hash R contract_address self =
     (if hm_contains (sm_class_hashes (initial_reads (cs_cache self))) contract_address then (Ok (), self)
      else case get_class_hash_at_inner R contract_address (cs_state self) of
        (r, state') \<Rightarrow>
          (let self' = CachedState state' (cs_cache self) (cs_class_hash_to_class self) (cs_visited_pcs self) in
           case r of
             Ok v \<Rightarrow> (Ok (), with_cache (set_class_hash_initial_value contract_address v) self')
           | Err e \<Rightarrow> (Err e, self')
           | Panic p \<Rightarrow> (Panic p, self')))"

definition cache_initial_nonce ::
    "'s StateReader \<Rightarrow> ContractAddress \<Rightarrow> ('s CachedState, StateError, unit) action" where
  "cache_initial_nonce R contract_address self =
     (if hm_contains (sm_nonces (initial_reads (cs_cache self))) contract_address then (Ok (), self)
      else case get_nonce_at_inner R contract_address (cs_state self) of
        (r, state') \<Rightarrow>
          (let self' = CachedState state' (cs_cache self) (cs_class_hash_to_class self) (cs_visited_pcs self) in
           case r of
             Ok v \<Rightarrow> (Ok (), with_cache (set_nonce_initial_value contract_address v) self')
           | Err e \<Rightarrow> (Err e, self')
           | Panic p \<Rightarrow> (Panic p, self')))"

definition update_initial_values_of_write_only_access ::
    "'s StateReader \<Rightarrow> ('s CachedState, StateError, unit) action" where
  "update_initial_values_of_write_only_access R self =
     sbind (sfor (hm_keys (sm_storage (writes (cs_cache self)))) (cache_initial_storage R)) (\<lambda>_.
       sbind (sfor (hm_keys (sm_class_hashes (writes (cs_cache self)))) (cache_initial_class_hash R)) (\<lambda>_.
         sfor (hm_keys (sm_nonces (writes (cs_cache self)))) (cache_initial_nonce R))) self"

section \<open>State changes\<close>

record StateChanges =
  storage_updates :: "(StorageEntry, StarkFelt) HashMap"
  nonce_updates :: "(ContractAddress, Nonce) HashMap"
  class_hash_updates :: "(ContractAddress, ClassHash) HashMap"
  compiled_class_hash_updates :: "(ClassHash, CompiledClassHash) HashMap"

definition StateChanges_default :: StateChanges where
  "StateChanges_default = \<lparr>storage_updates = [], nonce_updates = [], class_hash_updates = [],
     compiled_class_hash_updates = []\<rparr>"

definition cache_state_changes :: "StateCache \<Rightarrow> (StateError, StateChanges) result" where
  "cache_state_changes cache =
     rbind (get_storage_updates cache) (\<lambda>storage.
       rbind (get_nonce_updates cache) (\<lambda>nonces.
         rbind (get_class_hash_updates cache) (\<lambda>class_hashes.
           Ok \<lparr>storage_updates = storage, nonce_updates = nonces, class_hash_updates = class_hashes,
               compiled_class_hash_updates = get_compiled_class_hash_updates cache\<rparr>)))"

definition get_actual_state_changes :: "'s StateReader \<Rightarrow> ('s CachedState, StateError, StateChanges) action" where
  "get_actual_state_changes R =
     sbind (update_initial_values_of_write_only_access R)
       (\<lambda>_ self. (cache_state_changes (cs_cache self), self))"

record StateChangesCount =
  n_storage_updates :: usize
  n_class_hash_updates :: usize
  n_compiled_class_hash_updates :: usize
  n_modified_contracts :: usize

definition StateChanges_extend :: "StateChanges \<Rightarrow> StateChanges \<Rightarrow> StateChanges" where
  "StateChanges_extend merged state_change =
     \<lparr>storage_updates = hm_extend (storage_updates merged) (storage_updates state_change),
      nonce_updates = hm_extend (nonce_updates merged) (nonce_updates state_change),
      class_hash_updates = hm_extend (class_hash_updates merged) (class_hash_updates state_change),
      compiled_class_hash_updates =
        hm_extend (compiled_class_hash_updates merged) (compiled_class_hash_updates state_change)\<rparr>"

definition StateChanges_merge :: "StateChanges list \<Rightarrow> StateChanges" where
  "StateChanges_merge state_changes = foldl StateChanges_extend StateChanges_default state_changes"

definition get_modified_contracts :: "StateChanges \<Rightarrow> ContractAddress HashSet" where
  "get_modified_contracts self =
     hs_extend
       (hs_extend (hs_from (map fst (hm_keys (storage_updates self)))) (hm_keys (nonce_updates self)))
       (hm_keys (class_hash_updates self))"

definition count_for_fee_charge ::
    "'a Externals_scheme \<Rightarrow> StateChanges \<Rightarrow> ContractAddress option \<Rightarrow> ContractAddress \<Rightarrow> StateChangesCount" where
  "count_for_fee_charge E self sender_address fee_token_address =
     (let modified_contracts = get_modified_contracts self;
          n_storage = (case sender_address of
              Some sender_addr \<Rightarrow>
                if hm_contains (storage_updates self)
                     (fee_token_address, get_fee_token_var_address E sender_addr)
                then hm_len (storage_updates self)
                else hm_len (storage_updates self) + 1
            | None \<Rightarrow> hm_len (storage_updates self));
          modified_contracts' = hs_remove fee_token_address modified_contracts
      in \<lparr>n_storage_updates = n_storage,
          n_class_hash_updates = hm_len (class_hash_updates self),
          n_compiled_class_hash_updates = hm_len (compiled_class_hash_updates self),
          n_modified_contracts = hs_len modified_contracts'\<rparr>)"

section \<open>Keys of state changes\<close>

record StateChangesKeys =
  nonce_keys :: "ContractAddress HashSet"
  class_hash_keys :: "ContractAddress HashSet"
  storage_keys :: "StorageEntry HashSet"
  compiled_class_hash_keys :: "ClassHash HashSet"
  modified_contracts :: "ContractAddress HashSet"

definition StateChangesKeys_default :: StateChangesKeys where
  "StateChangesKeys_default = \<lparr>nonce_keys = [], class_hash_keys = [], storage_keys = [],
     compiled_class_hash_keys = [], modified_contracts = []\<rparr>"

definition StateChangesKeys_difference :: "StateChangesKeys \<Rightarrow> StateChangesKeys \<Rightarrow> StateChangesKeys" where
  "StateChangesKeys_difference self other =
     \<lparr>nonce_keys = hs_difference (nonce_keys self) (nonce_keys other),
      class_hash_keys = hs_difference (class_hash_keys self) (class_hash_keys other),
      storage_keys = hs_difference (storage_keys self) (storage_keys other),
      compiled_class_hash_keys =
        hs_difference (compiled_class_hash_keys self) (compiled_class_hash_keys other),
      modified_contracts = hs_difference (modified_contracts self) (modified_contracts other)\<rparr>"

definition StateChangesKeys_extend :: "StateChangesKeys \<Rightarrow> StateChangesKeys \<Rightarrow> StateChangesKeys" where
  "StateChangesKeys_extend self other =
     \<lparr>nonce_keys = hs_extend (nonce_keys self) (nonce_keys other),
      class_hash_keys = hs_extend (class_hash_keys self) (class_hash_keys other),
      storage_keys = hs_extend (storage_keys self) (storage_keys other),
      compiled_class_hash_keys =
        hs_extend (compiled_class_hash_keys self) (compiled_class_hash_keys other),
      modified_contracts = hs_extend (modified_contracts self) (modified_contracts other)\<rparr>"

definition StateChangesKeys_count :: "StateChangesKeys \<Rightarrow> StateChangesCount" where
  "StateChangesKeys_count self =
     \<lparr>n_storage_updates = hs_len (storage_keys self),
      n_class_hash_updates = hs_len (class_hash_keys self),
      n_compiled_class_hash_updates = hs_len (compiled_class_hash_keys self),
      n_modified_contracts = hs_len (modified_contracts self)\<rparr>"

definition into_keys :: "StateChanges \<Rightarrow> StateChangesKeys" where
  "into_keys self =
     \<lparr>nonce_keys = hm_keys (nonce_updates self),
      class_hash_keys = hm_keys (class_hash_updates self),
      storage_keys = hm_keys (storage_updates self),
      compiled_class_hash_keys = hm_keys (compiled_class_hash_updates self),
      modified_contracts = get_modified_contracts self\<rparr>"

section \<open>The state diff of a block\<close>

type_synonym StorageDiff = "(ContractAddress, (StorageKey, StarkFelt) HashMap) HashMap"

definition storage_diff_insert :: "StorageEntry \<times> StarkFelt \<Rightarrow> StorageDiff \<Rightarrow> StorageDiff" where
  "storage_diff_insert e diff =
     (case e of ((address, key), v) \<Rightarrow>
        hm_insert address
          (case map_of diff address of Some m \<Rightarrow> hm_insert key v m | None \<Rightarrow> [(key, v)]) diff)"

definition storage_diff_from :: "(StorageEntry, StarkFelt) HashMap \<Rightarrow> StorageDiff" where
  "storage_diff_from storage_view = fold storage_diff_insert storage_view []"

record CommitmentStateDiff =
  address_to_class_hash :: "(ContractAddress, ClassHash) HashMap"
  address_to_nonce :: "(ContractAddress, Nonce) HashMap"
  diff_storage_updates :: StorageDiff
  class_hash_to_compiled_class_hash :: "(ClassHash, CompiledClassHash) HashMap"

definition cache_state_diff :: "StateCache \<Rightarrow> (StateError, CommitmentStateDiff) result" where
  "cache_state_diff cache =
     rbind (get_class_hash_updates cache) (\<lambda>class_hashes.
       rbind (get_storage_updates cache) (\<lambda>storage_diffs.
         rbind (get_nonce_updates cache) (\<lambda>nonces.
           Ok \<lparr>address_to_class_hash = class_hashes,
               address_to_nonce = nonces,
               diff_storage_updates = storage_diff_from storage_diffs,
               class_hash_to_compiled_class_hash = sm_compiled_class_hashes (writes cache)\<rparr>)))"

definition to_state_diff :: "'s StateReader \<Rightarrow> ('s CachedState, StateError, CommitmentStateDiff) action" where
  "to_state_diff R self =
     (case update_initial_values_of_write_only_access R self of
        (Ok _, self') \<Rightarrow> (cache_state_diff (cs_cache self'), self')
      | (_, self') \<Rightarrow> (Panic ''Cannot convert stateDiff to CommitmentStateDiff.'', self'))"

section \<open>Specification of a difference\<close>

definition changed :: "('e, 'v) result \<Rightarrow> ('e, 'v) result \<Rightarrow> 'v option" where
  "changed new old = (if new = old then None else case new of Ok v \<Rightarrow> Some v | _ \<Rightarrow> None)"

definition readable :: "'s CachedState \<Rightarrow> StateView \<Rightarrow> bool" where
  "readable c V \<longleftrightarrow>
     (\<forall>a k. (a, k) \<in> dom (map_of (sm_storage (writes (cs_cache c)))) \<longrightarrow> is_ok (sv_storage V a k))
   \<and> (\<forall>a. a \<in> dom (map_of (sm_class_hashes (writes (cs_cache c)))) \<longrightarrow> is_ok (sv_class_hash V a))
   \<and> (\<forall>a. a \<in> dom (map_of (sm_nonces (writes (cs_cache c)))) \<longrightarrow> is_ok (sv_nonce V a))"

definition reads_grow ::
    "('s \<Rightarrow> StateView) \<Rightarrow> ('s \<Rightarrow> bool) \<Rightarrow> 's CachedState \<Rightarrow> 's CachedState \<Rightarrow> bool" where
  "reads_grow view ok c d \<longleftrightarrow> same_view view ok c d
     \<and> sm_compiled_class_hashes (initial_reads (cs_cache d)) = sm_compiled_class_hashes (initial_reads (cs_cache c))"

definition diff_lookup :: "StorageDiff \<Rightarrow> ContractAddress \<Rightarrow> StorageKey \<Rightarrow> StarkFelt option" where
  "diff_lookup diff a k = (case map_of diff a of Some m \<Rightarrow> map_of m k | None \<Rightarrow> None)"

definition changes_wf :: "StateChanges \<Rightarrow> bool" where
  "changes_wf ch \<longleftrightarrow> hm_wf (storage_updates ch) \<and> hm_wf (nonce_updates ch)
     \<and> hm_wf (class_hash_updates ch) \<and> hm_wf (compiled_class_hash_updates ch)"

definition keys_wf :: "StateChangesKeys \<Rightarrow> bool" where
  "keys_wf K \<longleftrightarrow> distinct (nonce_keys K) \<and> distinct (class_hash_keys K) \<and> distinct (storage_keys K)
     \<and> distinct (compiled_class_hash_keys K) \<and> distinct (modified_contracts K)"

definition changed_example :: "DictStateReader CachedState" where
  "changed_example =
     snd (run_ops dict_reader [SetStorageAt 7 10 6, SetStorageAt 7 11 0, IncrementNonce 7, SetCompiledClassHash 40 41] cached_example)"

section \<open>Lemmas\<close>

lemma changed_subtract:
  assumes "hm_wf w" and "dom (map_of w) \<subseteq> dom (map_of i)"
    and "\<And>v. map_of i e = Some v \<Longrightarrow> old = Ok v"
  shows "map_of (subtract_mappings w i) e = changed (overlay (or_else (map_of w e) (map_of i e)) old) old"
proof (cases "map_of w e")
  case None
  then show ?thesis
    using assms(1,3) by (cases "map_of i e") (auto simp: map_of_subtract_mappings changed_def)
next
  case (Some v)
  then obtain u where "map_of i e = Some u"
    using assms(2) by blast
  then show ?thesis
    using Some assms(1,3) by (simp add: map_of_subtract_mappings changed_def)
qed

lemma writes_of_stack: "writes_stack d = writes_stack c \<Longrightarrow> writes (cs_cache d) = writes (cs_cache c)"
  by (simp add: writes_stack_eq)

lemma initial_reads_grow:
  "keeps (\<lambda>d. x \<in> dom (map_of (sm_storage (initial_reads (cs_cache d))))) (cache_initial_storage R e)"
  "keeps (\<lambda>d. x \<in> dom (map_of (sm_storage (initial_reads (cs_cache d))))) (cache_initial_class_hash R a)"
  "keeps (\<lambda>d. x \<in> dom (map_of (sm_storage (initial_reads (cs_cache d))))) (cache_initial_nonce R a)"
  "keeps (\<lambda>d. y \<in> dom (map_of (sm_class_hashes (initial_reads (cs_cache d))))) (cache_initial_class_hash R a)"
  "keeps (\<lambda>d. y \<in> dom (map_of (sm_class_hashes (initial_reads (cs_cache d))))) (cache_initial_nonce R a)"
  "keeps (\<lambda>d. y \<in> dom (map_of (sm_nonces (initial_reads (cs_cache d))))) (cache_initial_nonce R a)"
  by (auto simp: keeps_def cache_initial_storage_def cache_initial_class_hash_def cache_initial_nonce_def
      cache_defs Let_def split: prod.splits result.splits)

lemma initial_reads_cover:
  "cache_initial_storage R e c = (Ok (), d) \<Longrightarrow> e \<in> dom (map_of (sm_storage (initial_reads (cs_cache d))))"
  "cache_initial_class_hash R a c = (Ok (), d) \<Longrightarrow>
     a \<in> dom (map_of (sm_class_hashes (initial_reads (cs_cache d))))"
  "cache_initial_nonce R a c = (Ok (), d) \<Longrightarrow> a \<in> dom (map_of (sm_nonces (initial_reads (cs_cache d))))"
  by (auto simp: cache_initial_storage_def cache_initial_class_hash_def cache_initial_nonce_def
      cache_defs Let_def split: prod.splits result.splits if_splits)

lemma update_initial_values_cover:
  assumes "update_initial_values_of_write_only_access R c = (Ok (), d)"
  shows "dom (map_of (sm_storage (writes (cs_cache c)))) \<subseteq> dom (map_of (sm_storage (initial_reads (cs_cache d))))"
    and "dom (map_of (sm_class_hashes (writes (cs_cache c))))
           \<subseteq> dom (map_of (sm_class_hashes (initial_reads (cs_cache d))))"
    and "dom (map_of (sm_nonces (writes (cs_cache c)))) \<subseteq> dom (map_of (sm_nonces (initial_reads (cs_cache d))))"
proof -
  let ?w = "writes (cs_cache c)"
  obtain c1 c2 where 1: "sfor (hm_keys (sm_storage ?w)) (cache_initial_storage R) c = (Ok (), c1)"
    and 2: "sfor (hm_keys (sm_class_hashes ?w)) (cache_initial_class_hash R) c1 = (Ok (), c2)"
    and 3: "sfor (hm_keys (sm_nonces ?w)) (cache_initial_nonce R) c2 = (Ok (), d)"
    using assms unfolding update_initial_values_of_write_only_access_def by (auto elim!: sbind_OkE)
  have "x \<in> dom (map_of (sm_storage (initial_reads (cs_cache c1))))" if "x \<in> dom (map_of (sm_storage ?w))" for x
    by (rule sfor_establishes [OF initial_reads_cover(1) initial_reads_grow(1) 1]) (simp_all add: that)
  then show "dom (map_of (sm_storage ?w)) \<subseteq> dom (map_of (sm_storage (initial_reads (cs_cache d))))"
    using keeps_run [OF keeps_sfor [OF initial_reads_grow(2)] _ 2]
      keeps_run [OF keeps_sfor [OF initial_reads_grow(3)] _ 3] by blast
  have "x \<in> dom (map_of (sm_class_hashes (initial_reads (cs_cache c2))))"
    if "x \<in> dom (map_of (sm_class_hashes ?w))" for x
    by (rule sfor_establishes [OF initial_reads_cover(2) initial_reads_grow(4) 2]) (simp_all add: that)
  then show "dom (map_of (sm_class_hashes ?w)) \<subseteq> dom (map_of (sm_class_hashes (initial_reads (cs_cache d))))"
    using keeps_run [OF keeps_sfor [OF initial_reads_grow(5)] _ 3] by blast
  have "x \<in> dom (map_of (sm_nonces (initial_reads (cs_cache d))))" if "x \<in> dom (map_of (sm_nonces ?w))" for x
    by (rule sfor_establishes [OF initial_reads_cover(3) initial_reads_grow(6) 3]) (simp_all add: that)
  then show "dom (map_of (sm_nonces ?w)) \<subseteq> dom (map_of (sm_nonces (initial_reads (cs_cache d))))"
    by blast
qed

lemma reads_grow_refill:
  assumes "reads_grow view ok c d" and "inner_inv view ok st'"
    and "inner_view view st' = inner_view view (cs_state d)"
    and "inner_writes st' = inner_writes (cs_state d)"
    and "cache_view cache' (cs_class_hash_to_class d) (inner_view view (cs_state d)) =
      cache_view (cs_cache d) (cs_class_hash_to_class d) (inner_view view (cs_state d))
    \<and> cache_inv cache' (cs_class_hash_to_class d) (inner_view view (cs_state d))"
    and "writes cache' = writes (cs_cache d)"
    and "sm_compiled_class_hashes (initial_reads cache') = sm_compiled_class_hashes (initial_reads (cs_cache d))"
  shows "reads_grow view ok c (CachedState st' cache' (cs_class_hash_to_class d) (cs_visited_pcs d))"
  using assms by (cases d) (auto simp: reads_grow_def same_view_def)

lemma compiled_class_hash_reads_initial_value [simp]:
  "sm_compiled_class_hashes (initial_reads (set_storage_initial_value a k v cache)) =
     sm_compiled_class_hashes (initial_reads cache)"
  "sm_compiled_class_hashes (initial_reads (set_class_hash_initial_value a h cache)) =
     sm_compiled_class_hashes (initial_reads cache)"
  "sm_compiled_class_hashes (initial_reads (set_nonce_initial_value a n cache)) =
     sm_compiled_class_hashes (initial_reads cache)"
  by (simp_all add: cache_defs)

subsection \<open>Grouping storage by contract\<close>

lemma diff_lookup_insert:
  "diff_lookup (storage_diff_insert ((a, k), v) diff) b j =
    (if b = a \<and> j = k then Some v else diff_lookup diff b j)"
  by (simp add: diff_lookup_def storage_diff_insert_def split: option.splits)

lemma diff_lookup_fold:
  "hm_wf m \<Longrightarrow> diff_lookup (fold storage_diff_insert m diff) a k =
    (case map_of m (a, k) of Some v \<Rightarrow> Some v | None \<Rightarrow> diff_lookup diff a k)"
proof (induction m arbitrary: diff)
  case (Cons e m)
  obtain b j v where e: "e = ((b, j), v)"
    by (metis prod.exhaust)
  have "hm_wf m" and "map_of m (b, j) = None"
    using Cons.prems by (simp_all add: e hm_wf_def map_of_eq_None_iff)
  then show ?case
    using Cons.IH by (auto simp: e diff_lookup_insert split: option.splits)
qed simp

lemma diff_lookup_from: "hm_wf m \<Longrightarrow> diff_lookup (storage_diff_from m) a k = map_of m (a, k)"
  by (simp add: storage_diff_from_def diff_lookup_fold) (simp add: diff_lookup_def split: option.splits)

subsection \<open>Keys of state changes\<close>

lemma set_modified_contracts:
  "set (get_modified_contracts ch) =
     fst ` dom (map_of (storage_updates ch)) \<union> dom (map_of (nonce_updates ch)) \<union> dom (map_of (class_hash_updates ch))"
  by (auto simp: get_modified_contracts_def)

lemma distinct_modified_contracts [simp]: "distinct (get_modified_contracts ch)"
  by (simp add: get_modified_contracts_def)

context state_reader
begin

lemma initial_reads_same_view [keeps_intros]:
  "keeps (reads_grow view ok c) (cache_initial_storage R e)"
  "keeps (reads_grow view ok c) (cache_initial_class_hash R a)"
  "keeps (reads_grow view ok c) (cache_initial_nonce R a)"
proof (rule_tac [!] keepsI)
  fix d
  assume d: "reads_grow view ok c d"
  then have inv: "cached_inv view ok d"
    by (simp add: reads_grow_def same_view_def)
  then have parts: "inner_inv view ok (cs_state d)"
      "cache_inv (cs_cache d) (cs_class_hash_to_class d) (inner_view view (cs_state d))"
    by (simp_all add: cached_inv_eq)
  show "reads_grow view ok c (snd (cache_initial_storage R e d))"
  proof -
    obtain r st' where run: "get_storage_at_inner R (fst e) (snd e) (cs_state d) = (r, st')"
      by fastforce
    have st': "inner_inv view ok st'" "inner_view view st' = inner_view view (cs_state d)"
        "inner_writes st' = inner_writes (cs_state d)" "r = sv_storage (inner_view view (cs_state d)) (fst e) (snd e)"
      using get_storage_at_refines(1) [OF parts(1), of "fst e" "snd e"] get_storage_at_writes(1) [of R "fst e" "snd e" "cs_state d"] run
      by simp_all
    have unread: "reads_grow view ok c (CachedState st' (cs_cache d) (cs_class_hash_to_class d) (cs_visited_pcs d))"
      by (rule reads_grow_refill [OF d st'(1-3)]) (simp_all add: parts(2))
    have "reads_grow view ok c (CachedState st' (set_storage_initial_value (fst e) (snd e) v (cs_cache d)) (cs_class_hash_to_class d) (cs_visited_pcs d))"
      if "r = Ok v" for v
      by (rule reads_grow_refill [OF d st'(1-3)])
        (use cache_view_initial_value(1) [OF parts(2)] st'(4) that in simp_all)
    then show ?thesis
      using unread run d by (cases r) (simp_all add: cache_initial_storage_def with_cache_def)
  qed
  show "reads_grow view ok c (snd (cache_initial_class_hash R a d))"
  proof -
    obtain r st' where run: "get_class_hash_at_inner R a (cs_state d) = (r, st')"
      by fastforce
    have st': "inner_inv view ok st'" "inner_view view st' = inner_view view (cs_state d)"
        "inner_writes st' = inner_writes (cs_state d)" "r = sv_class_hash (inner_view view (cs_state d)) a"
      using get_class_hash_at_refines(1) [OF parts(1), of a] get_class_hash_at_writes(1) [of R a "cs_state d"] run
      by simp_all
    have unread: "reads_grow view ok c (CachedState st' (cs_cache d) (cs_class_hash_to_class d) (cs_visited_pcs d))"
      by (rule reads_grow_refill [OF d st'(1-3)]) (simp_all add: parts(2))
    have "reads_grow view ok c (CachedState st' (set_class_hash_initial_value a v (cs_cache d)) (cs_class_hash_to_class d) (cs_visited_pcs d))"
      if "r = Ok v" for v
      by (rule reads_grow_refill [OF d st'(1-3)])
        (use cache_view_initial_value(3) [OF parts(2)] st'(4) that in simp_all)
    then show ?thesis
      using unread run d by (cases r) (simp_all add: cache_initial_class_hash_def with_cache_def)
  qed
  show "reads_grow view ok c (snd (cache_initial_nonce R a d))"
  proof -
    obtain r st' where run: "get_nonce_at_inner R a (cs_state d) = (r, st')"
      by fastforce
    have st': "inner_inv view ok st'" "inner_view view st' = inner_view view (cs_state d)"
        "inner_writes st' = inner_writes (cs_state d)" "r = sv_nonce (inner_view view (cs_state d)) a"
      using get_nonce_at_refines(1) [OF parts(1), of a] get_nonce_at_writes(1) [of R a "cs_state d"] run
      by simp_all
    have unread: "reads_grow view ok c (CachedState st' (cs_cache d) (cs_class_hash_to_class d) (cs_visited_pcs d))"
      by (rule reads_grow_refill [OF d st'(1-3)]) (simp_all add: parts(2))
    have "reads_grow view ok c (CachedState st' (set_nonce_initial_value a v (cs_cache d)) (cs_class_hash_to_class d) (cs_visited_pcs d))"
      if "r = Ok v" for v
      by (rule reads_grow_refill [OF d st'(1-3)])
        (use cache_view_initial_value(2) [OF parts(2)] st'(4) that in simp_all)
    then show ?thesis
      using unread run d by (cases r) (simp_all add: cache_initial_nonce_def with_cache_def)
  qed
qed

lemma update_initial_values_same_view:
  assumes "cached_inv view ok c"
  shows "reads_grow view ok c (snd (update_initial_values_of_write_only_access R c))"
  unfolding update_initial_values_of_write_only_access_def
  by (rule keepsD, intro keeps_intros) (simp add: reads_grow_def same_view_def assms)

lemma initial_reads_Ok:
  assumes "reads_grow view ok c d"
  shows "is_ok (sv_storage (inner_view view (cs_state c)) (fst e) (snd e)) \<Longrightarrow>
      fst (cache_initial_storage R e d) = Ok ()"
    and "is_ok (sv_class_hash (inner_view view (cs_state c)) a) \<Longrightarrow> fst (cache_initial_class_hash R a d) = Ok ()"
    and "is_ok (sv_nonce (inner_view view (cs_state c)) a) \<Longrightarrow> fst (cache_initial_nonce R a d) = Ok ()"
proof -
  have parts: "inner_inv view ok (cs_state d)" "inner_view view (cs_state d) = inner_view view (cs_state c)"
    using assms by (simp_all add: reads_grow_def same_view_def cached_inv_eq)
  show "is_ok (sv_storage (inner_view view (cs_state c)) (fst e) (snd e)) \<Longrightarrow>
      fst (cache_initial_storage R e d) = Ok ()"
    using get_storage_at_refines(1) [OF parts(1), of "fst e" "snd e"] parts(2)
    by (auto simp: cache_initial_storage_def is_ok_iff Let_def split: prod.splits result.splits)
  show "is_ok (sv_class_hash (inner_view view (cs_state c)) a) \<Longrightarrow> fst (cache_initial_class_hash R a d) = Ok ()"
    using get_class_hash_at_refines(1) [OF parts(1), of a] parts(2)
    by (auto simp: cache_initial_class_hash_def is_ok_iff Let_def split: prod.splits result.splits)
  show "is_ok (sv_nonce (inner_view view (cs_state c)) a) \<Longrightarrow> fst (cache_initial_nonce R a d) = Ok ()"
    using get_nonce_at_refines(1) [OF parts(1), of a] parts(2)
    by (auto simp: cache_initial_nonce_def is_ok_iff Let_def split: prod.splits result.splits)
qed

lemma update_initial_values_Ok:
  assumes "cached_inv view ok c" and "readable c (inner_view view (cs_state c))"
  obtains d where "update_initial_values_of_write_only_access R c = (Ok (), d)" and "reads_grow view ok c d"
proof -
  let ?w = "writes (cs_cache c)"
  have c: "reads_grow view ok c c"
    using assms(1) by (simp add: reads_grow_def same_view_def)
  have step1: "fst (cache_initial_storage R e d) = Ok () \<and> reads_grow view ok c (snd (cache_initial_storage R e d))"
    if "e \<in> set (hm_keys (sm_storage ?w))" "reads_grow view ok c d" for e d
  proof -
    have "is_ok (sv_storage (inner_view view (cs_state c)) (fst e) (snd e))"
      using that(1) assms(2) by (simp add: readable_def)
    then show ?thesis
      using initial_reads_Ok(1) [OF that(2)] keepsD [OF initial_reads_same_view(1) that(2)] by blast
  qed
  have step2: "fst (cache_initial_class_hash R a d) = Ok () \<and> reads_grow view ok c (snd (cache_initial_class_hash R a d))"
    if "a \<in> set (hm_keys (sm_class_hashes ?w))" "reads_grow view ok c d" for a d
  proof -
    have "is_ok (sv_class_hash (inner_view view (cs_state c)) a)"
      using that(1) assms(2) by (simp add: readable_def)
    then show ?thesis
      using initial_reads_Ok(2) [OF that(2)] keepsD [OF initial_reads_same_view(2) that(2)] by blast
  qed
  have step3: "fst (cache_initial_nonce R a d) = Ok () \<and> reads_grow view ok c (snd (cache_initial_nonce R a d))"
    if "a \<in> set (hm_keys (sm_nonces ?w))" "reads_grow view ok c d" for a d
  proof -
    have "is_ok (sv_nonce (inner_view view (cs_state c)) a)"
      using that(1) assms(2) by (simp add: readable_def)
    then show ?thesis
      using initial_reads_Ok(3) [OF that(2)] keepsD [OF initial_reads_same_view(3) that(2)] by blast
  qed
  obtain c1 where 1: "sfor (hm_keys (sm_storage ?w)) (cache_initial_storage R) c = (Ok (), c1)"
      "reads_grow view ok c c1"
    by (rule sfor_run [OF step1 c])
  obtain c2 where 2: "sfor (hm_keys (sm_class_hashes ?w)) (cache_initial_class_hash R) c1 = (Ok (), c2)"
      "reads_grow view ok c c2"
    by (rule sfor_run [OF step2 1(2)])
  obtain d where 3: "sfor (hm_keys (sm_nonces ?w)) (cache_initial_nonce R) c2 = (Ok (), d)"
      "reads_grow view ok c d"
    by (rule sfor_run [OF step3 2(2)])
  show thesis
    using that [OF _ 3(2)] 1(1) 2(1) 3(1)
    by (simp add: update_initial_values_of_write_only_access_def sbind_def)
qed

text \<open>After the initial values are cached, the strict subtractions of the three maps are the
  differences of the two views.\<close>

lemma updates_are_differences:
  assumes "cached_inv view ok c" and "update_initial_values_of_write_only_access R c = (Ok (), d)"
  shows "\<exists>m. get_storage_updates (cs_cache d) = Ok m \<and> hm_wf m \<and> (\<forall>a k. map_of m (a, k) =
      changed (sv_storage (cached_view view c) a k) (sv_storage (inner_view view (cs_state c)) a k))"
    and "\<exists>m. get_class_hash_updates (cs_cache d) = Ok m \<and> hm_wf m \<and> (\<forall>a. map_of m a =
      changed (sv_class_hash (cached_view view c) a) (sv_class_hash (inner_view view (cs_state c)) a))"
    and "\<exists>m. get_nonce_updates (cs_cache d) = Ok m \<and> hm_wf m \<and> (\<forall>a. map_of m a =
      changed (sv_nonce (cached_view view c) a) (sv_nonce (inner_view view (cs_state c)) a))"
proof -
  have d: "cached_inv view ok d" "cached_view view d = cached_view view c"
      "inner_view view (cs_state d) = inner_view view (cs_state c)"
      "writes (cs_cache d) = writes (cs_cache c)"
    using update_initial_values_same_view [OF assms(1)] writes_of_stack [of d c] unfolding assms(2)
    by (auto simp: reads_grow_def same_view_def)
  have inv: "cache_inv (cs_cache d) (cs_class_hash_to_class d) (inner_view view (cs_state c))"
    using d(1,3) by (simp add: cached_inv_eq)
  have view_d: "cached_view view c = cache_view (cs_cache d) (cs_class_hash_to_class d) (inner_view view (cs_state c))"
    using d(2,3) by (metis cached_view_eq)
  note cover = update_initial_values_cover [OF assms(2), folded d(4)]
  show "\<exists>m. get_storage_updates (cs_cache d) = Ok m \<and> hm_wf m \<and> (\<forall>a k. map_of m (a, k) =
      changed (sv_storage (cached_view view c) a k) (sv_storage (inner_view view (cs_state c)) a k))"
    using inv cover(1)
    by (auto intro!: changed_subtract simp: get_storage_updates_def strict_subtract_mappings_Ok view_d cache_inv_def maps_wf_def
        reads_agree_def StateCache_get_storage_at_def)
  show "\<exists>m. get_class_hash_updates (cs_cache d) = Ok m \<and> hm_wf m \<and> (\<forall>a. map_of m a =
      changed (sv_class_hash (cached_view view c) a) (sv_class_hash (inner_view view (cs_state c)) a))"
    using inv cover(2)
    by (auto intro!: changed_subtract simp: get_class_hash_updates_def strict_subtract_mappings_Ok view_d cache_inv_def maps_wf_def
        reads_agree_def StateCache_get_class_hash_at_def)
  show "\<exists>m. get_nonce_updates (cs_cache d) = Ok m \<and> hm_wf m \<and> (\<forall>a. map_of m a =
      changed (sv_nonce (cached_view view c) a) (sv_nonce (inner_view view (cs_state c)) a))"
    using inv cover(3)
    by (auto intro!: changed_subtract simp: get_nonce_updates_def strict_subtract_mappings_Ok view_d cache_inv_def maps_wf_def
        reads_agree_def StateCache_get_nonce_at_def)
qed

lemma compiled_class_hash_change:
  assumes "cached_inv view ok c"
    and "changed (sv_compiled_class_hash (cached_view view c) h) (sv_compiled_class_hash (inner_view view (cs_state c)) h) = Some v"
  shows "map_of (sm_compiled_class_hashes (writes (cs_cache c))) h = Some v
    \<and> map_of (sm_compiled_class_hashes (initial_reads (cs_cache c))) h \<noteq> Some v"
  using assms
  by (cases "map_of (sm_compiled_class_hashes (writes (cs_cache c))) h";
      cases "map_of (sm_compiled_class_hashes (initial_reads (cs_cache c))) h")
    (auto simp: changed_def cached_view_eq cache_view_def StateCache_get_compiled_class_hash_def cached_inv_eq cache_inv_def
      reads_agree_def split: if_splits)

lemma actual_state_changes:
  assumes "cached_inv view ok c" and "readable c (inner_view view (cs_state c))"
  shows "\<exists>ch d. get_actual_state_changes R c = (Ok ch, d) \<and> same_view view ok c d
    \<and> (\<forall>a k. map_of (storage_updates ch) (a, k) =
         changed (sv_storage (cached_view view c) a k) (sv_storage (inner_view view (cs_state c)) a k))
    \<and> (\<forall>a. map_of (nonce_updates ch) a =
         changed (sv_nonce (cached_view view c) a) (sv_nonce (inner_view view (cs_state c)) a))
    \<and> (\<forall>a. map_of (class_hash_updates ch) a =
         changed (sv_class_hash (cached_view view c) a) (sv_class_hash (inner_view view (cs_state c)) a))
    \<and> (\<forall>h. map_of (compiled_class_hash_updates ch) h =
         (case map_of (sm_compiled_class_hashes (writes (cs_cache c))) h of
            None \<Rightarrow> None
          | Some v \<Rightarrow> if map_of (sm_compiled_class_hashes (initial_reads (cs_cache c))) h = Some v then None else Some v))
    \<and> (\<forall>h v. changed (sv_compiled_class_hash (cached_view view c) h)
           (sv_compiled_class_hash (inner_view view (cs_state c)) h) = Some v
         \<longrightarrow> map_of (compiled_class_hash_updates ch) h = Some v)"
proof -
  obtain d where d: "update_initial_values_of_write_only_access R c = (Ok (), d)" "reads_grow view ok c d"
    by (rule update_initial_values_Ok [OF assms])
  have same: "same_view view ok c d"
    using d(2) by (simp add: reads_grow_def)
  then have written: "writes (cs_cache d) = writes (cs_cache c)"
    using writes_of_stack unfolding same_view_def by blast
  have "sm_compiled_class_hashes (initial_reads (cs_cache d)) = sm_compiled_class_hashes (initial_reads (cs_cache c))"
    using d(2) by (simp add: reads_grow_def)
  then have compiled: "map_of (get_compiled_class_hash_updates (cs_cache d)) h =
      (case map_of (sm_compiled_class_hashes (writes (cs_cache c))) h of
         None \<Rightarrow> None
       | Some v \<Rightarrow> if map_of (sm_compiled_class_hashes (initial_reads (cs_cache c))) h = Some v then None else Some v)" for h
    using assms(1) map_of_subtract_mappings [of "sm_compiled_class_hashes (writes (cs_cache c))"]
    by (simp add: get_compiled_class_hash_updates_def written cached_inv_eq cache_inv_def maps_wf_def)
  have "map_of (get_compiled_class_hash_updates (cs_cache d)) h = Some v"
    if "changed (sv_compiled_class_hash (cached_view view c) h) (sv_compiled_class_hash (inner_view view (cs_state c)) h) = Some v"
    for h v
    using compiled_class_hash_change [OF assms(1) that] unfolding compiled by simp
  then show ?thesis
    using updates_are_differences [OF assms(1) d(1)] d(1) same compiled
    by (auto simp: get_actual_state_changes_def sbind_def cache_state_changes_def)
qed

lemma state_diff:
  assumes "cached_inv view ok c" and "readable c (inner_view view (cs_state c))"
  shows "\<exists>diff d. to_state_diff R c = (Ok diff, d) \<and> same_view view ok c d
    \<and> (\<forall>a k. diff_lookup (diff_storage_updates diff) a k =
         changed (sv_storage (cached_view view c) a k) (sv_storage (inner_view view (cs_state c)) a k))
    \<and> (\<forall>a. map_of (address_to_nonce diff) a =
         changed (sv_nonce (cached_view view c) a) (sv_nonce (inner_view view (cs_state c)) a))
    \<and> (\<forall>a. map_of (address_to_class_hash diff) a =
         changed (sv_class_hash (cached_view view c) a) (sv_class_hash (inner_view view (cs_state c)) a))
    \<and> class_hash_to_compiled_class_hash diff = sm_compiled_class_hashes (writes (cs_cache c))"
proof -
  obtain d where d: "update_initial_values_of_write_only_access R c = (Ok (), d)" "reads_grow view ok c d"
    by (rule update_initial_values_Ok [OF assms])
  have same: "same_view view ok c d"
    using d(2) by (simp add: reads_grow_def)
  then have "writes (cs_cache d) = writes (cs_cache c)"
    using writes_of_stack unfolding same_view_def by blast
  then show ?thesis
    using updates_are_differences [OF assms(1) d(1)] d(1) same
    by (auto simp: to_state_diff_def cache_state_diff_def diff_lookup_from)
qed

end

section \<open>A concrete state\<close>

lemma changed_example_inv: "cached_inv dict_view dict_ok changed_example"
  using dict.run_ops_refines [OF cached_example_inv] by (simp add: changed_example_def)

lemma changed_example_readable: "readable changed_example (inner_view dict_view (cs_state changed_example))"
  using dict.run_ops_refines [OF cached_example_inv]
  by (simp add: changed_example_def readable_def cached_example_def CachedState_new_def dict_view_def)

lemma changed_example_view:
  "changed (sv_storage (cached_view dict_view changed_example) 7 10)
     (sv_storage (inner_view dict_view (cs_state changed_example)) 7 10) = Some 6"
  "changed (sv_storage (cached_view dict_view changed_example) 7 11)
     (sv_storage (inner_view dict_view (cs_state changed_example)) 7 11) = None"
  "changed (sv_nonce (cached_view dict_view changed_example) 7)
     (sv_nonce (inner_view dict_view (cs_state changed_example)) 7) = Some 4"
  "changed (sv_compiled_class_hash (cached_view dict_view changed_example) 40)
     (sv_compiled_class_hash (inner_view dict_view (cs_state changed_example)) 40) = Some 41"
  using dict.run_ops_refines [OF cached_example_inv]
  by (simp_all add: changed_example_def cached_example_def CachedState_new_def dict_view_def dict_example_def
      view_ops_def sbind_def view_set_storage_def view_increment_nonce_def view_set_nonce_def view_set_compiled_class_hash_def
      usize_try_from_felt_def unwrap_or_default_def changed_def)

section \<open>Properties\<close>

text \<open>C13: \<open>get_actual_state_changes\<close> reports the difference between what the state answers and
  what its inner state answers. A storage cell, nonce or class hash appears in the changes, with
  its new value, if and only if its value differs, so a write that restores the old value is not
  reported. The subtraction of compiled class hashes is not strict: a written one is reported
  unless the state has read the same value from its inner state before, so every changed one is
  reported, and one rewritten with its old value without having been read is reported as well. No
  strict subtraction panics, and what the state answers does not change.\<close>

theorem actual_state_changes_are_the_view_difference:
  assumes "state_reader R view ok" and "cached_inv view ok c"
    and "readable c (inner_view view (cs_state c))"
  shows "\<exists>ch d. get_actual_state_changes R c = (Ok ch, d) \<and> same_view view ok c d
    \<and> (\<forall>a k. map_of (storage_updates ch) (a, k) =
         changed (sv_storage (cached_view view c) a k) (sv_storage (inner_view view (cs_state c)) a k))
    \<and> (\<forall>a. map_of (nonce_updates ch) a =
         changed (sv_nonce (cached_view view c) a) (sv_nonce (inner_view view (cs_state c)) a))
    \<and> (\<forall>a. map_of (class_hash_updates ch) a =
         changed (sv_class_hash (cached_view view c) a) (sv_class_hash (inner_view view (cs_state c)) a))
    \<and> (\<forall>h. map_of (compiled_class_hash_updates ch) h =
         (case map_of (sm_compiled_class_hashes (writes (cs_cache c))) h of
            None \<Rightarrow> None
          | Some v \<Rightarrow> if map_of (sm_compiled_class_hashes (initial_reads (cs_cache c))) h = Some v then None else Some v))
    \<and> (\<forall>h v. changed (sv_compiled_class_hash (cached_view view c) h)
           (sv_compiled_class_hash (inner_view view (cs_state c)) h) = Some v
         \<longrightarrow> map_of (compiled_class_hash_updates ch) h = Some v)"
  using assms by (rule state_reader.actual_state_changes)

theorem actual_state_changes_are_the_view_difference_witness:
  "\<exists>ch d. get_actual_state_changes dict_reader changed_example = (Ok ch, d)
     \<and> map_of (storage_updates ch) (7, 10) = Some 6
     \<and> map_of (storage_updates ch) (7, 11) = None
     \<and> map_of (compiled_class_hash_updates ch) 40 = Some 41"
  using actual_state_changes_are_the_view_difference
    [OF dict.state_reader_axioms changed_example_inv changed_example_readable]
  by (auto simp: changed_example_view)

text \<open>C23: The state diff of a block is correct: grouped by contract, its storage section,
  and its nonces and class hashes, hold exactly the cells whose value differs from the inner
  state, with their new values; its declared classes are the written compiled class
  hashes.\<close>

theorem state_diff_is_the_view_difference:
  assumes "state_reader R view ok" and "cached_inv view ok c"
    and "readable c (inner_view view (cs_state c))"
  shows "\<exists>diff d. to_state_diff R c = (Ok diff, d) \<and> same_view view ok c d
    \<and> (\<forall>a k. diff_lookup (diff_storage_updates diff) a k =
         changed (sv_storage (cached_view view c) a k) (sv_storage (inner_view view (cs_state c)) a k))
    \<and> (\<forall>a. map_of (address_to_nonce diff) a =
         changed (sv_nonce (cached_view view c) a) (sv_nonce (inner_view view (cs_state c)) a))
    \<and> (\<forall>a. map_of (address_to_class_hash diff) a =
         changed (sv_class_hash (cached_view view c) a) (sv_class_hash (inner_view view (cs_state c)) a))
    \<and> class_hash_to_compiled_class_hash diff = sm_compiled_class_hashes (writes (cs_cache c))"
  using assms by (rule state_reader.state_diff)

theorem state_diff_is_the_view_difference_witness:
  "\<exists>diff d. to_state_diff dict_reader changed_example = (Ok diff, d)
     \<and> diff_lookup (diff_storage_updates diff) 7 10 = Some 6
     \<and> map_of (address_to_nonce diff) 7 = Some 4"
  using state_diff_is_the_view_difference
    [OF dict.state_reader_axioms changed_example_inv changed_example_readable]
  by (auto simp: changed_example_view)

text \<open>The residual accounting of changed keys is exact. For the keys \<open>T\<close> of a
  transaction and the keys \<open>B\<close> accumulated by its block, extending \<open>B\<close> by the difference
  \<open>T - B\<close> covers both, and the counts of the extension are the counts of \<open>B\<close> plus the counts
  of the difference, so no key is charged twice and none is missed.\<close>

theorem residual_keys_count:
  assumes "keys_wf B" and "keys_wf T"
  shows "keys_wf (StateChangesKeys_extend B (StateChangesKeys_difference T B))
    \<and> set (storage_keys (StateChangesKeys_extend B (StateChangesKeys_difference T B))) =
        set (storage_keys B) \<union> set (storage_keys T)
    \<and> StateChangesKeys_count (StateChangesKeys_extend B (StateChangesKeys_difference T B)) =
        (let b = StateChangesKeys_count B; d = StateChangesKeys_count (StateChangesKeys_difference T B) in
         \<lparr>n_storage_updates = n_storage_updates b + n_storage_updates d,
          n_class_hash_updates = n_class_hash_updates b + n_class_hash_updates d,
          n_compiled_class_hash_updates = n_compiled_class_hash_updates b + n_compiled_class_hash_updates d,
          n_modified_contracts = n_modified_contracts b + n_modified_contracts d\<rparr>)"
  using assms
  by (auto simp: keys_wf_def StateChangesKeys_extend_def StateChangesKeys_difference_def
      StateChangesKeys_count_def hs_len_def length_hs_extend_difference Let_def)

theorem residual_keys_count_witness:
  "StateChangesKeys_count (StateChangesKeys_extend
      \<lparr>nonce_keys = [1], class_hash_keys = [], storage_keys = [(1, 10)],
       compiled_class_hash_keys = [], modified_contracts = [1]\<rparr>
      (StateChangesKeys_difference
        \<lparr>nonce_keys = [1, 2], class_hash_keys = [], storage_keys = [(1, 10), (2, 4)],
         compiled_class_hash_keys = [], modified_contracts = [1, 2]\<rparr>
        \<lparr>nonce_keys = [1], class_hash_keys = [], storage_keys = [(1, 10)],
         compiled_class_hash_keys = [], modified_contracts = [1]\<rparr>)) =
    \<lparr>n_storage_updates = 2, n_class_hash_updates = 0, n_compiled_class_hash_updates = 0,
     n_modified_contracts = 2\<rparr>"
  using residual_keys_count
    [of "\<lparr>nonce_keys = [1], class_hash_keys = [], storage_keys = [(1, 10)],
         compiled_class_hash_keys = [], modified_contracts = [1]\<rparr>"
        "\<lparr>nonce_keys = [1, 2], class_hash_keys = [], storage_keys = [(1, 10), (2, 4)],
         compiled_class_hash_keys = [], modified_contracts = [1, 2]\<rparr>"]
  by (simp add: keys_wf_def StateChangesKeys_count_def StateChangesKeys_difference_def hs_len_def hs_difference_def)

end
