(* ===== verification/Gas_Usage.thy ===== *)
theory Gas_Usage
  imports Example_Context State_Changes
begin

text \<open>
  What a transaction consumes and what that costs in L1 gas: \<open>fee/eth_gas_constants.rs\<close>,
  \<open>fee/gas_usage.rs\<close>, the resource structures of \<open>transaction/objects.rs\<close>,
  \<open>MessageL1CostInfo\<close> of \<open>execution/call_info.rs\<close>, and \<open>fee/fee_utils.rs\<close>. The warnings
  \<open>saturated_cost\<close> logs are not part of the model.
\<close>

section \<open>Constants\<close>

definition GAS_PER_MEMORY_ZERO_BYTE :: usize where "GAS_PER_MEMORY_ZERO_BYTE = 4"
definition GAS_PER_MEMORY_BYTE :: usize where "GAS_PER_MEMORY_BYTE = 16"
definition WORD_WIDTH :: usize where "WORD_WIDTH = 32"
definition GAS_PER_MEMORY_WORD :: usize where
  "GAS_PER_MEMORY_WORD = GAS_PER_MEMORY_BYTE * WORD_WIDTH"
definition FIELD_ELEMENTS_PER_BLOB :: usize where "FIELD_ELEMENTS_PER_BLOB = push_bit 12 1"
definition DATA_GAS_PER_BLOB :: usize where "DATA_GAS_PER_BLOB = push_bit 17 1"
definition DATA_GAS_PER_FIELD_ELEMENT :: usize where
  "DATA_GAS_PER_FIELD_ELEMENT = DATA_GAS_PER_BLOB div FIELD_ELEMENTS_PER_BLOB"
definition GAS_PER_ZERO_TO_NONZERO_STORAGE_SET :: usize where
  "GAS_PER_ZERO_TO_NONZERO_STORAGE_SET = 20000"
definition GAS_PER_COLD_STORAGE_ACCESS :: usize where "GAS_PER_COLD_STORAGE_ACCESS = 2100"
definition GAS_PER_NONZERO_TO_INT_STORAGE_SET :: usize where
  "GAS_PER_NONZERO_TO_INT_STORAGE_SET = 2900"
definition GAS_PER_COUNTER_DECREASE :: usize where
  "GAS_PER_COUNTER_DECREASE = GAS_PER_COLD_STORAGE_ACCESS + GAS_PER_NONZERO_TO_INT_STORAGE_SET"
definition GAS_PER_LOG :: usize where "GAS_PER_LOG = 375"
definition GAS_PER_LOG_TOPIC :: usize where "GAS_PER_LOG_TOPIC = 375"
definition GAS_PER_LOG_DATA_BYTE :: usize where "GAS_PER_LOG_DATA_BYTE = 8"
definition GAS_PER_LOG_DATA_WORD :: usize where
  "GAS_PER_LOG_DATA_WORD = GAS_PER_LOG_DATA_BYTE * WORD_WIDTH"
definition SHARP_ADDITIONAL_GAS_PER_MEMORY_WORD :: usize where
  "SHARP_ADDITIONAL_GAS_PER_MEMORY_WORD = 100"
definition SHARP_GAS_PER_MEMORY_WORD :: usize where
  "SHARP_GAS_PER_MEMORY_WORD = GAS_PER_MEMORY_WORD + SHARP_ADDITIONAL_GAS_PER_MEMORY_WORD"
definition DISCOUNT_PER_DA_WORD :: usize where
  "DISCOUNT_PER_DA_WORD = (SHARP_GAS_PER_MEMORY_WORD * 10) div 100"
definition SHARP_GAS_PER_DA_WORD :: usize where
  "SHARP_GAS_PER_DA_WORD = SHARP_GAS_PER_MEMORY_WORD - DISCOUNT_PER_DA_WORD"

definition get_calldata_word_cost :: "usize \<Rightarrow> usize" where
  "get_calldata_word_cost n_nonzero_bytes =
     n_nonzero_bytes * GAS_PER_MEMORY_BYTE + (WORD_WIDTH - n_nonzero_bytes) * GAS_PER_MEMORY_ZERO_BYTE"

section \<open>Gas vectors\<close>

record GasVector =
  l1_gas :: u128
  l1_data_gas :: u128

definition GasVector_default :: GasVector where
  "GasVector_default = \<lparr>l1_gas = 0, l1_data_gas = 0\<rparr>"

definition GasVector_add :: "GasVector \<Rightarrow> GasVector \<Rightarrow> GasVector" where
  "GasVector_add a b = \<lparr>l1_gas = l1_gas a + l1_gas b, l1_data_gas = l1_data_gas a + l1_data_gas b\<rparr>"

definition GasVector_sum :: "GasVector list \<Rightarrow> GasVector" where
  "GasVector_sum vs = foldl GasVector_add GasVector_default vs"

definition from_l1_gas :: "u128 \<Rightarrow> GasVector" where
  "from_l1_gas gas = \<lparr>l1_gas = gas, l1_data_gas = 0\<rparr>"

definition from_l1_data_gas :: "u128 \<Rightarrow> GasVector" where
  "from_l1_data_gas data_gas = \<lparr>l1_gas = 0, l1_data_gas = data_gas\<rparr>"

definition USIZE_MAX :: usize where
  "USIZE_MAX = - 1"

definition U128_MAX :: u128 where
  "U128_MAX = - 1"

definition saturated_cost :: "GasVector \<Rightarrow> u128 \<Rightarrow> u128 \<Rightarrow> Fee" where
  "saturated_cost self gas_price blob_gas_price =
     (let l1_gas_cost = (case checked_mul (l1_gas self) gas_price of Some c \<Rightarrow> c | None \<Rightarrow> U128_MAX);
          l1_data_gas_cost = (case checked_mul (l1_data_gas self) blob_gas_price of Some c \<Rightarrow> c | None \<Rightarrow> U128_MAX)
      in case checked_add l1_gas_cost l1_data_gas_cost of Some c \<Rightarrow> c | None \<Rightarrow> U128_MAX)"

section \<open>State changes and messages\<close>

definition get_onchain_data_segment_length :: "StateChangesCount \<Rightarrow> usize" where
  "get_onchain_data_segment_length state_changes_count =
     n_modified_contracts state_changes_count * 2
     + n_class_hash_updates state_changes_count * CLASS_UPDATE_SIZE
     + n_storage_updates state_changes_count * 2
     + n_compiled_class_hash_updates state_changes_count * 2"

definition get_da_gas_cost :: "StateChangesCount \<Rightarrow> bool \<Rightarrow> GasVector" where
  "get_da_gas_cost state_changes_count use_kzg =
     (let onchain_data_segment_length = get_onchain_data_segment_length state_changes_count in
      if use_kzg then
        \<lparr>l1_gas = 0, l1_data_gas = u128_from_usize (onchain_data_segment_length * DATA_GAS_PER_FIELD_ELEMENT)\<rparr>
      else
        (let naive_cost = onchain_data_segment_length * SHARP_GAS_PER_DA_WORD;
             modified_contract_cost = get_calldata_word_cost (1 + 2 + 3);
             modified_contract_discount = GAS_PER_MEMORY_WORD - modified_contract_cost;
             fee_balance_value_cost = get_calldata_word_cost 12;
             discount = n_modified_contracts state_changes_count * modified_contract_discount
                        + (GAS_PER_MEMORY_WORD - fee_balance_value_cost);
             gas = (if naive_cost < discount then 0 else naive_cost - discount)
         in \<lparr>l1_gas = u128_from_usize gas, l1_data_gas = 0\<rparr>))"

definition get_message_segment_length :: "usize list \<Rightarrow> usize option \<Rightarrow> usize" where
  "get_message_segment_length l2_to_l1_payload_lengths l1_handler_payload_size =
     sum_list (map (\<lambda>payload_length. L2_TO_L1_MSG_HEADER_SIZE + payload_length) l2_to_l1_payload_lengths)
     + (case l1_handler_payload_size of
          Some payload_size \<Rightarrow> L1_TO_L2_MSG_HEADER_SIZE + payload_size
        | None \<Rightarrow> 0)"

definition get_event_emission_cost :: "usize \<Rightarrow> usize \<Rightarrow> GasVector" where
  "get_event_emission_cost n_topics data_length =
     from_l1_gas (u128_from_usize
       (GAS_PER_LOG + (n_topics + N_DEFAULT_TOPICS) * GAS_PER_LOG_TOPIC + data_length * GAS_PER_LOG_DATA_WORD))"

definition get_consumed_message_to_l2_emissions_cost :: "usize option \<Rightarrow> GasVector" where
  "get_consumed_message_to_l2_emissions_cost l1_handler_payload_size =
     (case l1_handler_payload_size of
        None \<Rightarrow> GasVector_default
      | Some payload_size \<Rightarrow>
          get_event_emission_cost CONSUMED_MSG_TO_L2_N_TOPICS (CONSUMED_MSG_TO_L2_ENCODED_DATA_SIZE + payload_size))"

definition get_log_message_to_l1_emissions_cost :: "usize list \<Rightarrow> GasVector" where
  "get_log_message_to_l1_emissions_cost l2_to_l1_payload_lengths =
     GasVector_sum (map (\<lambda>length. get_event_emission_cost LOG_MSG_TO_L1_N_TOPICS (LOG_MSG_TO_L1_ENCODED_DATA_SIZE + length))
       l2_to_l1_payload_lengths)"

record MessageL1CostInfo =
  mi_l2_to_l1_payload_lengths :: "usize list"
  mi_message_segment_length :: usize

definition MessageL1CostInfo_calculate :: "CallInfo list \<Rightarrow> usize option \<Rightarrow> MessageL1CostInfo" where
  "MessageL1CostInfo_calculate call_infos l1_handler_payload_size =
     (let lengths = fold (\<lambda>call_info acc. acc @ get_l2_to_l1_payload_lengths call_info) call_infos []
      in \<lparr>mi_l2_to_l1_payload_lengths = lengths,
          mi_message_segment_length = get_message_segment_length lengths l1_handler_payload_size\<rparr>)"

section \<open>Starknet resources\<close>

record StarknetResources =
  sn_calldata_length :: usize
  sn_state_changes_for_fee :: StateChangesCount
  sn_message_cost_info :: MessageL1CostInfo
  sn_l1_handler_payload_size :: "usize option"
  sn_n_events :: usize
  sn_signature_length :: usize
  sn_code_size :: usize
  sn_total_event_keys :: u128
  sn_total_event_data_size :: u128

definition count_event :: "OrderedEvent \<Rightarrow> u128 \<times> u128 \<Rightarrow> u128 \<times> u128" where
  "count_event e acc =
     (case acc of (total_event_keys, total_event_data_size) \<Rightarrow>
        (total_event_keys + u128_from_usize (vec_len (ev_keys (oe_event e))),
         total_event_data_size + u128_from_usize (vec_len (ev_data (oe_event e)))))"

definition calculate_events_resources :: "CallInfo list \<Rightarrow> usize \<times> u128 \<times> u128" where
  "calculate_events_resources call_infos =
     fold (\<lambda>call_info. fold (\<lambda>inner_call (n_events, totals).
         (n_events + vec_len (ce_events (ci_execution inner_call)),
          fold count_event (ce_events (ci_execution inner_call)) totals)) (CallInfo_iter call_info))
       call_infos (0, 0, 0)"

definition StarknetResources_new ::
    "usize \<Rightarrow> usize \<Rightarrow> usize \<Rightarrow> StateChangesCount \<Rightarrow> usize option \<Rightarrow> CallInfo list \<Rightarrow> StarknetResources" where
  "StarknetResources_new calldata_length signature_length code_size state_changes_count l1_handler_payload_size call_infos =
     (case calculate_events_resources call_infos of (n_events, total_event_keys, total_event_data_size) \<Rightarrow>
        \<lparr>sn_calldata_length = calldata_length,
         sn_state_changes_for_fee = state_changes_count,
         sn_message_cost_info = MessageL1CostInfo_calculate call_infos l1_handler_payload_size,
         sn_l1_handler_payload_size = l1_handler_payload_size,
         sn_n_events = n_events,
         sn_signature_length = signature_length,
         sn_code_size = code_size,
         sn_total_event_keys = total_event_keys,
         sn_total_event_data_size = total_event_data_size\<rparr>)"

definition get_calldata_and_signature_cost ::
    "'a Externals_scheme \<Rightarrow> StarknetResources \<Rightarrow> VersionedConstants \<Rightarrow> GasVector" where
  "get_calldata_and_signature_cost E self vc =
     (let total_data_size = u128_from_usize (sn_calldata_length self + sn_signature_length self)
      in from_l1_gas (ratio_to_integer E (ratio_mul_int E (gas_per_data_felt (l2_resource_gas_costs vc)) total_data_size)))"

definition get_messages_gas_usage :: "StarknetResources \<Rightarrow> GasVector" where
  "get_messages_gas_usage self =
     (let n_l2_to_l1_messages = vec_len (mi_l2_to_l1_payload_lengths (sn_message_cost_info self));
          n_l1_to_l2_messages = (if sn_l1_handler_payload_size self \<noteq> None then 1 else 0)
      in GasVector_add
          (GasVector_add
            (from_l1_gas (u128_from_usize
              (mi_message_segment_length (sn_message_cost_info self) * GAS_PER_MEMORY_WORD
               + n_l2_to_l1_messages * GAS_PER_ZERO_TO_NONZERO_STORAGE_SET
               + n_l1_to_l2_messages * GAS_PER_COUNTER_DECREASE)))
            (get_consumed_message_to_l2_emissions_cost (sn_l1_handler_payload_size self)))
          (get_log_message_to_l1_emissions_cost (mi_l2_to_l1_payload_lengths (sn_message_cost_info self))))"

definition get_messages_cost :: "StarknetResources \<Rightarrow> GasVector" where
  "get_messages_cost self =
     GasVector_add (get_messages_gas_usage self)
       (from_l1_gas (u128_from_usize
         (mi_message_segment_length (sn_message_cost_info self) * SHARP_GAS_PER_MEMORY_WORD)))"

definition calculate_message_l1_resources :: "StarknetResources \<Rightarrow> ('e, usize \<times> usize) result" where
  "calculate_message_l1_resources self =
     (case usize_from_u128 (l1_gas (get_messages_gas_usage self)) of
        Ok gas_weight \<Rightarrow> Ok (mi_message_segment_length (sn_message_cost_info self), gas_weight)
      | _ \<Rightarrow> Panic ''This conversion should not fail as the value is a converted usize.'')"

definition get_code_cost :: "'a Externals_scheme \<Rightarrow> StarknetResources \<Rightarrow> VersionedConstants \<Rightarrow> GasVector" where
  "get_code_cost E self vc =
     from_l1_gas (ratio_to_integer E
       (ratio_mul_int E (gas_per_code_byte (l2_resource_gas_costs vc)) (u128_from_usize (sn_code_size self))))"

definition get_state_changes_cost :: "StarknetResources \<Rightarrow> bool \<Rightarrow> GasVector" where
  "get_state_changes_cost self use_kzg = get_da_gas_cost (sn_state_changes_for_fee self) use_kzg"

definition get_events_cost :: "'a Externals_scheme \<Rightarrow> StarknetResources \<Rightarrow> VersionedConstants \<Rightarrow> GasVector" where
  "get_events_cost E self vc =
     from_l1_gas (ratio_to_integer E
       (ratio_mul E (gas_per_data_felt (l2_resource_gas_costs vc))
         (ratio_add_int E (ratio_mul_int E (event_key_factor (l2_resource_gas_costs vc)) (sn_total_event_keys self))
           (sn_total_event_data_size self))))"

definition StarknetResources_to_gas_vector ::
    "'a Externals_scheme \<Rightarrow> StarknetResources \<Rightarrow> VersionedConstants \<Rightarrow> bool \<Rightarrow> GasVector" where
  "StarknetResources_to_gas_vector E self vc use_kzg =
     GasVector_add (GasVector_add (GasVector_add (GasVector_add
       (get_calldata_and_signature_cost E self vc)
       (get_code_cost E self vc))
       (get_state_changes_cost self use_kzg))
       (get_messages_cost self))
       (get_events_cost E self vc)"

definition vc_get_additional_os_tx_resources ::
    "'a Externals_scheme \<Rightarrow> VersionedConstants \<Rightarrow> TransactionType \<Rightarrow> StarknetResources \<Rightarrow> bool \<Rightarrow> ('e, ExecutionResources) result" where
  "vc_get_additional_os_tx_resources E vc tx_type starknet_resources use_kzg =
     get_additional_os_tx_resources E (os_resources vc) tx_type (sn_calldata_length starknet_resources)
       (get_onchain_data_segment_length (sn_state_changes_for_fee starknet_resources)) use_kzg"

section \<open>VM resources\<close>

definition total_n_steps :: "'a Externals_scheme \<Rightarrow> ExecutionResources \<Rightarrow> usize" where
  "total_n_steps E self =
     er_n_steps self + er_n_memory_holes self
     + N_STEPS_PER_SEGMENT_ARENA_BUILTIN * builtin_count self (builtin_name E SEGMENT_ARENA)"

definition prover_builtins :: "'a Externals_scheme \<Rightarrow> ExecutionResources \<Rightarrow> (string, usize) HashMap" where
  "prover_builtins E self = hm_remove (builtin_name E SEGMENT_ARENA) (er_builtin_instance_counter self)"

definition ExecutionResources_to_resources_mapping ::
    "'a Externals_scheme \<Rightarrow> ExecutionResources \<Rightarrow> (string, usize) HashMap" where
  "ExecutionResources_to_resources_mapping E self =
     hm_extend [(N_STEPS_RESOURCE, total_n_steps E self)] (prover_builtins E self)"

definition vm_resource_usage_for_fee ::
    "'a Externals_scheme \<Rightarrow> ExecutionResources \<Rightarrow> usize \<Rightarrow> (string, usize) HashMap" where
  "vm_resource_usage_for_fee E vm_resource_usage n_reverted_steps =
     hm_insert N_STEPS_RESOURCE (total_n_steps E vm_resource_usage + n_reverted_steps)
       (prover_builtins E vm_resource_usage)"

definition calculate_l1_gas_by_vm_usage ::
    "'a Externals_scheme \<Rightarrow> VersionedConstants \<Rightarrow> ExecutionResources \<Rightarrow> usize
      \<Rightarrow> (TransactionFeeError, GasVector) result" where
  "calculate_l1_gas_by_vm_usage E vc vm_resource_usage n_reverted_steps =
     (let vm_resource_fee_costs = vm_resource_fee_cost vc;
          usage_for_fee = vm_resource_usage_for_fee E vm_resource_usage n_reverted_steps
      in if \<not> (\<forall>name \<in> set (hm_keys usage_for_fee). hm_contains vm_resource_fee_costs name)
         then Panic ''vm_resource_fee_costs should contain the used resources''
         else Ok (from_l1_gas
           (fold (\<lambda>(key, resource_val) acc.
               max acc (ratio_to_integer E (ratio_ceil E (ratio_mul_int E resource_val
                 (u128_from_usize (case map_of usage_for_fee key of Some n \<Rightarrow> n | None \<Rightarrow> 0))))))
             vm_resource_fee_costs 0)))"

section \<open>Transaction resources\<close>

record TransactionResources =
  tr_starknet_resources :: StarknetResources
  tr_vm_resources :: ExecutionResources
  tr_n_reverted_steps :: usize

definition TransactionResources_to_gas_vector ::
    "'a Externals_scheme \<Rightarrow> TransactionResources \<Rightarrow> VersionedConstants \<Rightarrow> bool \<Rightarrow> (TransactionFeeError, GasVector) result" where
  "TransactionResources_to_gas_vector E self vc use_kzg =
     rbind (calculate_l1_gas_by_vm_usage E vc (tr_vm_resources self) (tr_n_reverted_steps self)) (\<lambda>vm_gas.
       Ok (GasVector_add (StarknetResources_to_gas_vector E (tr_starknet_resources self) vc use_kzg) vm_gas))"

definition to_resources_mapping ::
    "'a Externals_scheme \<Rightarrow> TransactionResources \<Rightarrow> VersionedConstants \<Rightarrow> bool \<Rightarrow> bool
      \<Rightarrow> ('e, (string, usize) HashMap) result" where
  "to_resources_mapping E self vc use_kzg with_reverted_steps =
     (let gas = StarknetResources_to_gas_vector E (tr_starknet_resources self) vc use_kzg;
          resources = ExecutionResources_to_resources_mapping E (tr_vm_resources self)
      in case (usize_from_u128 (l1_gas gas), usize_from_u128 (l1_data_gas gas)) of
           (Ok gas_usage, Ok data_gas_usage) \<Rightarrow>
             (let resources' = hm_extend resources [(L1_GAS_USAGE, gas_usage), (BLOB_GAS_USAGE, data_gas_usage)];
                  reverted_steps_to_add = (if with_reverted_steps then tr_n_reverted_steps self else 0)
              in case map_of resources' N_STEPS_RESOURCE of
                   Some n_steps \<Rightarrow> Ok (hm_insert N_STEPS_RESOURCE (n_steps + reverted_steps_to_add) resources')
                 | None \<Rightarrow> Ok resources')
         | _ \<Rightarrow> Panic ''This conversion should not fail as the value is a converted usize.'')"

definition total_charged_steps :: "TransactionResources \<Rightarrow> usize" where
  "total_charged_steps self = tr_n_reverted_steps self + er_n_steps (tr_vm_resources self)"

section \<open>Fees\<close>

definition get_fee_by_gas_vector :: "BlockInfo \<Rightarrow> GasVector \<Rightarrow> FeeType \<Rightarrow> Fee" where
  "get_fee_by_gas_vector info gas_vector t =
     saturated_cost gas_vector (get_gas_price_by_fee_type (gas_prices info) t)
       (get_data_gas_price_by_fee_type (gas_prices info) t)"

definition calculate_tx_fee ::
    "'a Externals_scheme \<Rightarrow> TransactionResources \<Rightarrow> BlockContext \<Rightarrow> FeeType \<Rightarrow> (TransactionFeeError, Fee) result" where
  "calculate_tx_fee E tx_resources context t =
     rbind (TransactionResources_to_gas_vector E tx_resources (versioned_constants context) (use_kzg_da (block_info context)))
       (\<lambda>gas_vector. Ok (get_fee_by_gas_vector (block_info context) gas_vector t))"

definition get_balance_and_if_covers_fee ::
    "'a Externals_scheme \<Rightarrow> 's StateReader \<Rightarrow> TransactionContext \<Rightarrow> Fee
      \<Rightarrow> ('s CachedState, TransactionFeeError, StarkFelt \<times> StarkFelt \<times> bool) action" where
  "get_balance_and_if_covers_fee E R tx_context fee =
     sbind (smap_err FeeStateError
         (get_fee_token_balance E R (ti_sender_address (tx_info tx_context)) (fee_token_address tx_context)))
       (\<lambda>(balance_low, balance_high).
          sret (balance_low, balance_high, balance_high > 0 \<or> balance_low \<ge> unat fee))"

definition committed_fee :: "TransactionInfo \<Rightarrow> (TransactionFeeError, Fee) result" where
  "committed_fee info =
     (case info of
        Current context \<Rightarrow>
          rbind (l1_resource_bounds context) (\<lambda>l1_bounds.
            Ok (ucast (max_amount l1_bounds) * max_price_per_unit l1_bounds))
      | Deprecated context \<Rightarrow> Ok (dti_max_fee context))"

definition verify_can_pay_committed_bounds ::
    "'a Externals_scheme \<Rightarrow> 's StateReader \<Rightarrow> TransactionContext \<Rightarrow> ('s CachedState, TransactionFeeError, unit) action" where
  "verify_can_pay_committed_bounds E R tx_context =
     sbind (slift (committed_fee (tx_info tx_context))) (\<lambda>fee.
       sbind (get_balance_and_if_covers_fee E R tx_context fee) (\<lambda>(balance_low, balance_high, can_pay).
         if can_pay then sret ()
         else (case tx_info tx_context of
             Current context \<Rightarrow>
               sbind (slift (l1_resource_bounds context)) (\<lambda>l1_bounds.
                 slift (Err (L1GasBoundsExceedBalance (max_amount l1_bounds) (max_price_per_unit l1_bounds)
                   balance_low balance_high)))
           | Deprecated context \<Rightarrow> slift (Err (MaxFeeExceedsBalance (dti_max_fee context) balance_low balance_high)))))"

definition get_sequencer_balance_keys ::
    "'a Externals_scheme \<Rightarrow> BlockContext \<Rightarrow> ('e, StorageKey \<times> StorageKey) result" where
  "get_sequencer_balance_keys E context =
     (let sequencer_balance_key_low = get_fee_token_var_address E (sequencer_address (block_info context))
      in case next_storage_key E sequencer_balance_key_low of
           Ok sequencer_balance_key_high \<Rightarrow> Ok (sequencer_balance_key_low, sequencer_balance_key_high)
         | _ \<Rightarrow> Panic ''Cannot get sequencer balance high key.'')"

definition compute_discounted_gas_from_gas_vector :: "GasVector \<Rightarrow> TransactionContext \<Rightarrow> u128" where
  "compute_discounted_gas_from_gas_vector gas_usage_vector tx_context =
     (let prices = gas_prices (block_info (block_context tx_context));
          t = ti_fee_type (tx_info tx_context);
          gas_price = get_gas_price_by_fee_type prices t;
          data_gas_price = get_data_gas_price_by_fee_type prices t
      in l1_gas gas_usage_vector + u128_div_ceil (l1_data_gas gas_usage_vector * data_gas_price) gas_price)"

section \<open>Lemmas\<close>

lemma unat_U128_MAX [simp]: "unat U128_MAX = 2 ^ 128 - 1"
  by (simp add: U128_MAX_def unsigned_minus_1_eq_mask mask_eq_exp_minus_1)

lemma saturating_mul:
  "unat (case checked_mul x y of Some c \<Rightarrow> c | None \<Rightarrow> U128_MAX) = min (2 ^ 128 - 1) (unat x * unat y)"
  for x y :: u128
proof (cases "unat x * unat y < 2 ^ 128")
  case True
  then have "unat (x * y) = unat x * unat y"
    by (intro unat_mult_exact) simp
  then show ?thesis
    using True by (simp add: checked_mul_def)
qed (simp add: checked_mul_def)

lemma saturating_add:
  "unat (case checked_add x y of Some c \<Rightarrow> c | None \<Rightarrow> U128_MAX) = min (2 ^ 128 - 1) (unat x + unat y)"
  for x y :: u128
proof (cases "unat x + unat y < 2 ^ 128")
  case True
  then have "unat (x + y) = unat x + unat y"
    by (intro unat_plus_exact) simp
  then show ?thesis
    using True by (simp add: checked_add_def)
qed (simp add: checked_add_def)

lemma saturated_cost_nat:
  "unat (saturated_cost v p b) =
     min (2 ^ 128 - 1) (unat (l1_gas v) * unat p + unat (l1_data_gas v) * unat b)"
  unfolding saturated_cost_def Let_def saturating_add saturating_mul by linarith

lemma u128_max_nat: "unat (max x y) = max (unat x) (unat y)"
  for x y :: u128
  by (simp add: max_def word_le_nat_alt)

subsection \<open>The heaviest resource\<close>

definition cost_small :: "ResourceCost \<Rightarrow> bool" where
  "cost_small c \<longleftrightarrow> ratio_wf c \<and> unat (rt_numer c) \<le> 2 ^ 63 \<and> unat (rt_denom c) \<le> 2 ^ 127"

lemma ratio_mul_int_law:
  assumes "ratio_laws E" and "ratio_wf r" and "unat (rt_numer r) * unat n < 2 ^ 128"
  shows "ratio_wf (ratio_mul_int E r n)"
    and "ratio_val (ratio_mul_int E r n) = ratio_val r * of_nat (unat n)"
    and "unat (rt_numer (ratio_mul_int E r n)) \<le> unat (rt_numer r) * unat n"
    and "unat (rt_denom (ratio_mul_int E r n)) \<le> unat (rt_denom r)"
  using assms unfolding ratio_laws_def by blast+

lemma ratio_ceil_law:
  assumes "ratio_laws E" and "ratio_wf r" and "unat (rt_numer r) + unat (rt_denom r) \<le> 2 ^ 128"
  shows "int (unat (ratio_to_integer E (ratio_ceil E r))) = ceiling (ratio_val r)"
  using assms unfolding ratio_laws_def by blast

lemma ceil_of_usage:
  assumes laws: "ratio_laws E" and small: "cost_small c"
  shows "int (unat (ratio_to_integer E (ratio_ceil E (ratio_mul_int E c (u128_from_usize n))))) =
    ceiling (ratio_val c * of_nat (unat n))"
proof -
  let ?r = "ratio_mul_int E c (u128_from_usize n)"
  have prod: "unat (rt_numer c) * unat n \<le> 2 ^ 63 * (2 ^ 64 - 1)"
    using small unat_u64_less [of n] by (intro mult_le_mono) (auto simp: cost_small_def)
  then have "unat (rt_numer c) * unat (u128_from_usize n) < 2 ^ 128"
    by simp
  note r = ratio_mul_int_law [OF laws _ this]
  have wf: "ratio_wf c"
    using small by (simp add: cost_small_def)
  have "unat (rt_numer ?r) + unat (rt_denom ?r) \<le> 2 ^ 63 * (2 ^ 64 - 1) + 2 ^ 127"
    using r(3,4) [OF wf] prod small unfolding cost_small_def unat_u128_from_usize by linarith
  then have "unat (rt_numer ?r) + unat (rt_denom ?r) \<le> 2 ^ 128"
    by simp
  then have "int (unat (ratio_to_integer E (ratio_ceil E ?r))) = ceiling (ratio_val ?r)"
    by (rule ratio_ceil_law [OF laws r(1) [OF wf]])
  then show ?thesis
    unfolding r(2) [OF wf] unat_u128_from_usize .
qed

lemma fold_max_bounds:
  fixes f :: "'k \<Rightarrow> u128"
  shows "acc \<le> fold (\<lambda>x acc. max acc (f x)) xs acc"
    and "x \<in> set xs \<Longrightarrow> f x \<le> fold (\<lambda>x acc. max acc (f x)) xs acc"
    and "fold (\<lambda>x acc. max acc (f x)) xs acc = acc \<or> (\<exists>x \<in> set xs. fold (\<lambda>x acc. max acc (f x)) xs acc = f x)"
proof (induction xs arbitrary: acc)
  case (Cons y ys)
  {
    case 1
    show ?case
      using Cons.IH(1) [of "max acc (f y)"] by (simp add: max.boundedE)
  next
    case 2
    then show ?case
      using Cons.IH(1) [of "max acc (f y)"] Cons.IH(2) [of "max acc (f y)"] by auto
  next
    case 3
    show ?case
      using Cons.IH(3) [of "max acc (f y)"] by (auto simp: max_def split: if_splits)
  }
qed simp_all


text \<open>
  C34: The fee of a transaction is the exact cost of its gas vector at the block's prices,
  capped at the largest 128-bit value: the multiplications and the addition never wrap
  around. An error or a panic of the gas computation is passed on.
\<close>

theorem tx_fee_is_the_capped_cost:
  "calculate_tx_fee E tx_resources context t =
     rbind (TransactionResources_to_gas_vector E tx_resources (versioned_constants context) (use_kzg_da (block_info context)))
       (\<lambda>gas. Ok (of_nat (min (2 ^ 128 - 1)
          (unat (l1_gas gas) * unat (get_gas_price_by_fee_type (gas_prices (block_info context)) t)
           + unat (l1_data_gas gas) * unat (get_data_gas_price_by_fee_type (gas_prices (block_info context)) t)))))"
proof -
  have "w = of_nat n" if "unat w = n" for w :: u128 and n
    using that by auto
  note this [OF saturated_cost_nat]
  then show ?thesis
    unfolding calculate_tx_fee_def get_fee_by_gas_vector_def by presburger
qed

text \<open>
  What is charged of each resource: the steps, with the memory holes, ten for each instance of the
  segment arena builtin and the reverted steps; the instances of every other builtin.
\<close>

definition charged_usage :: "'a Externals_scheme \<Rightarrow> ExecutionResources \<Rightarrow> usize \<Rightarrow> string \<Rightarrow> usize option" where
  "charged_usage E usage n_reverted_steps name =
     (if name = ''n_steps''
      then Some (er_n_steps usage + er_n_memory_holes usage + 10 * builtin_count usage (builtin_name E SEGMENT_ARENA)
        + n_reverted_steps)
      else if name = builtin_name E SEGMENT_ARENA then None
      else map_of (er_builtin_instance_counter usage) name)"

definition charged_amount :: "'a Externals_scheme \<Rightarrow> ExecutionResources \<Rightarrow> usize \<Rightarrow> string \<Rightarrow> nat" where
  "charged_amount E usage n_reverted_steps name =
     (case charged_usage E usage n_reverted_steps name of Some n \<Rightarrow> unat n | None \<Rightarrow> 0)"

lemma map_of_usage_for_fee: "map_of (vm_resource_usage_for_fee E usage n_reverted_steps) = charged_usage E usage n_reverted_steps"
  by (simp add: fun_eq_iff vm_resource_usage_for_fee_def total_n_steps_def prover_builtins_def charged_usage_def
      N_STEPS_RESOURCE_def N_STEPS_PER_SEGMENT_ARENA_BUILTIN_def)

lemma usage_for_fee_amount:
  "unat (counter_value (vm_resource_usage_for_fee E usage n_reverted_steps) name) = charged_amount E usage n_reverted_steps name"
  by (simp add: counter_value_def map_of_usage_for_fee charged_amount_def split: option.splits)

text \<open>
  C35: The VM resources of a transaction are charged by the heaviest of them. The computation
  panics exactly when a used resource has no cost. Otherwise it succeeds, its result is an upper
  bound of the rounded-up cost of every resource, and it is reached by one of them (or is zero).
\<close>

theorem vm_usage_is_charged_by_the_heaviest_resource:
  assumes "ratio_laws E" and "\<forall>c \<in> set (hm_values (vm_resource_fee_cost vc)). cost_small c"
  shows "if dom (charged_usage E usage n_reverted_steps) \<subseteq> dom (map_of (vm_resource_fee_cost vc))
    then \<exists>gas. calculate_l1_gas_by_vm_usage E vc usage n_reverted_steps = Ok \<lparr>l1_gas = gas, l1_data_gas = 0\<rparr>
      \<and> (\<forall>(name, c) \<in> set (vm_resource_fee_cost vc).
           ceiling (ratio_val c * of_nat (charged_amount E usage n_reverted_steps name)) \<le> int (unat gas))
      \<and> (gas = 0 \<or> (\<exists>(name, c) \<in> set (vm_resource_fee_cost vc).
           int (unat gas) = ceiling (ratio_val c * of_nat (charged_amount E usage n_reverted_steps name))))
    else is_panic (calculate_l1_gas_by_vm_usage E vc usage n_reverted_steps)"
proof (cases "dom (charged_usage E usage n_reverted_steps) \<subseteq> dom (map_of (vm_resource_fee_cost vc))")
  case True
  let ?used = "vm_resource_usage_for_fee E usage n_reverted_steps"
  define f where "f = (\<lambda>p. ratio_to_integer E (ratio_ceil E (ratio_mul_int E (snd p)
    (u128_from_usize (counter_value ?used (fst p))))))"
  define gas where "gas = fold (\<lambda>p acc. max acc (f p)) (vm_resource_fee_cost vc) 0"
  have f: "int (unat (f (name, c))) = ceiling (ratio_val c * of_nat (charged_amount E usage n_reverted_steps name))"
    if "(name, c) \<in> set (vm_resource_fee_cost vc)" for name c
    unfolding f_def fst_conv snd_conv usage_for_fee_amount [symmetric]
    using assms(2) that by (intro ceil_of_usage [OF assms(1)]) (force simp: hm_values_def)
  have "\<forall>name \<in> set (hm_keys ?used). hm_contains (vm_resource_fee_cost vc) name"
    using True by (auto simp flip: map_of_usage_for_fee)
  then have "calculate_l1_gas_by_vm_usage E vc usage n_reverted_steps = Ok \<lparr>l1_gas = gas, l1_data_gas = 0\<rparr>"
    by (simp add: calculate_l1_gas_by_vm_usage_def gas_def f_def counter_value_def from_l1_gas_def Let_def case_prod_beta')
  moreover have "\<forall>(name, c) \<in> set (vm_resource_fee_cost vc).
      ceiling (ratio_val c * of_nat (charged_amount E usage n_reverted_steps name)) \<le> int (unat gas)"
    using fold_max_bounds(2) [of _ "vm_resource_fee_cost vc" f 0] unfolding gas_def
    by (auto simp only: f [symmetric] word_le_nat_alt of_nat_le_iff)
  moreover have "gas = 0 \<or> (\<exists>(name, c) \<in> set (vm_resource_fee_cost vc).
      int (unat gas) = ceiling (ratio_val c * of_nat (charged_amount E usage n_reverted_steps name)))"
    using fold_max_bounds(3) [of f "vm_resource_fee_cost vc" 0] f unfolding gas_def [symmetric] by fastforce
  ultimately show ?thesis
    using True by auto
next
  case False
  then have "\<not> (\<forall>name \<in> set (hm_keys (vm_resource_usage_for_fee E usage n_reverted_steps)).
      hm_contains (vm_resource_fee_cost vc) name)"
    by (auto simp flip: map_of_usage_for_fee)
  then show ?thesis
    using False by (simp add: calculate_l1_gas_by_vm_usage_def Let_def)
qed

definition vm_usage_example :: ExecutionResources where
  "vm_usage_example =
     \<lparr>er_n_steps = 1000, er_n_memory_holes = 3, er_builtin_instance_counter = [(''range_check'', 100), (''segment_arena'', 2)]\<rparr>"

theorem vm_usage_is_charged_by_the_heaviest_resource_witness:
  "(\<exists>gas. calculate_l1_gas_by_vm_usage reference_externals vc_example vm_usage_example 7 = Ok \<lparr>l1_gas = gas, l1_data_gas = 0\<rparr>
      \<and> 4 \<le> unat gas)
   \<and> is_panic (calculate_l1_gas_by_vm_usage reference_externals (vc_example\<lparr>vm_resource_fee_cost := []\<rparr>) vm_usage_example 7)"
proof -
  have small: "\<forall>c \<in> set (hm_values (vm_resource_fee_cost vc_example)). cost_small c"
    by (simp add: example_defs cost_small_def ratio_wf_def hm_values_def)
  have used: "charged_usage reference_externals vm_usage_example 7 = map_of [(''n_steps'', 1030), (''range_check'', 100)]"
    by (simp add: fun_eq_iff charged_usage_def vm_usage_example_def reference_externals_def reference_builtin_name_def
        builtin_count_def)
  then have dom: "dom (charged_usage reference_externals vm_usage_example 7) \<subseteq> dom (map_of (vm_resource_fee_cost vc_example))"
    by (simp add: example_defs)
  obtain gas where gas: "calculate_l1_gas_by_vm_usage reference_externals vc_example vm_usage_example 7 = Ok \<lparr>l1_gas = gas, l1_data_gas = 0\<rparr>"
    and all: "\<forall>(name, c) \<in> set (vm_resource_fee_cost vc_example).
      ceiling (ratio_val c * of_nat (charged_amount reference_externals vm_usage_example 7 name)) \<le> int (unat gas)"
    using vm_usage_is_charged_by_the_heaviest_resource [OF reference_ratio_laws small, of vm_usage_example 7] dom by auto
  have "(''range_check'', ratio 4 100) \<in> set (vm_resource_fee_cost vc_example)"
    by (simp add: vc_example_def)
  then have "ceiling (ratio_val (ratio 4 100) * of_nat (charged_amount reference_externals vm_usage_example 7 ''range_check''))
      \<le> int (unat gas)"
    using all by blast
  moreover have "ratio_val (ratio 4 100) * of_nat (charged_amount reference_externals vm_usage_example 7 ''range_check'') = 4"
    by (simp add: charged_amount_def used ratio_val_def ratio_def)
  ultimately have "4 \<le> unat gas"
    by (simp only: ceiling_numeral)
  moreover have "is_panic (calculate_l1_gas_by_vm_usage reference_externals (vc_example\<lparr>vm_resource_fee_cost := []\<rparr>) vm_usage_example 7)"
    using vm_usage_is_charged_by_the_heaviest_resource [OF reference_ratio_laws, of "vc_example\<lparr>vm_resource_fee_cost := []\<rparr>"
        vm_usage_example 7] by (simp add: used hm_values_def)
  ultimately show ?thesis
    using gas by blast
qed

end
