(* ===== verification/Contract_Class.thy ===== *)
theory Contract_Class
  imports Gas_Usage
begin

text \<open>
  Operations on contract classes (\<open>execution/contract_class.rs\<close>): entry points, the size and
  hashing cost of a class, and the code segments a run visited. A \<open>Vec\<close> used as a stack keeps
  its order, its top is the last element. Parsing of class files is third-party code; the
  program a class file contains is an argument of \<open>ContractClassV1_try_from\<close>.
\<close>

section \<open>Entry points\<close>

definition entry_points_of ::
    "(EntryPointType, 'ep list) HashMap \<Rightarrow> EntryPointType \<Rightarrow> ('e, 'ep list) result" where
  "entry_points_of entry_points_by_type typ =
     (case map_of entry_points_by_type typ of
        Some entry_points \<Rightarrow> Ok entry_points
      | None \<Rightarrow> Panic ''no entry found for key'')"

definition V0_constructor_selector :: "ContractClassV0 \<Rightarrow> ('e, EntryPointSelector option) result" where
  "V0_constructor_selector self =
     rbind (entry_points_of (v0_entry_points_by_type self) Constructor) (\<lambda>entry_points.
       Ok (case entry_points of [] \<Rightarrow> None | ep # _ \<Rightarrow> Some (ep0_selector ep)))"

definition V1_constructor_selector :: "ContractClassV1 \<Rightarrow> ('e, EntryPointSelector option) result" where
  "V1_constructor_selector self =
     rbind (entry_points_of (v1_entry_points_by_type self) Constructor) (\<lambda>entry_points.
       Ok (case entry_points of [] \<Rightarrow> None | ep # _ \<Rightarrow> Some (ep1_selector ep)))"

fun constructor_selector :: "ContractClass \<Rightarrow> ('e, EntryPointSelector option) result" where
  "constructor_selector (V0 class) = V0_constructor_selector class"
| "constructor_selector (V1 class) = V1_constructor_selector class"

definition get_entry_point ::
    "'a Externals_scheme \<Rightarrow> ContractClassV1 \<Rightarrow> CallEntryPoint \<Rightarrow> (PreExecutionError, EntryPointV1) result" where
  "get_entry_point E self call =
     (if cep_entry_point_type call = Constructor
         \<and> cep_entry_point_selector call \<noteq> selector_from_name E CONSTRUCTOR_ENTRY_POINT_NAME
      then Err InvalidConstructorEntryPointName
      else
        rbind (entry_points_of (v1_entry_points_by_type self) (cep_entry_point_type call)) (\<lambda>entry_points_of_same_type.
          case filter (\<lambda>ep. ep1_selector ep = cep_entry_point_selector call) entry_points_of_same_type of
            [] \<Rightarrow> Err (EntryPointNotFound (cep_entry_point_selector call))
          | [entry_point] \<Rightarrow> Ok entry_point
          | _ \<Rightarrow> Err (DuplicatedEntryPointSelector (cep_entry_point_selector call) (cep_entry_point_type call))))"

section \<open>Sizes and hashing cost\<close>

definition n_entry_points :: "ContractClassV0 \<Rightarrow> usize" where
  "n_entry_points self = sum_list (map vec_len (hm_values (v0_entry_points_by_type self)))"

fun bytecode_length :: "ContractClass \<Rightarrow> usize" where
  "bytecode_length (V0 class) = program_data_len (v0_program class)"
| "bytecode_length (V1 class) = program_data_len (v1_program class)"

definition V0_estimate_casm_hash_computation_resources ::
    "'a Externals_scheme \<Rightarrow> ContractClassV0 \<Rightarrow> ExecutionResources" where
  "V0_estimate_casm_hash_computation_resources E self =
     (let hashed_data_size = (CAIRO0_ENTRY_POINT_STRUCT_SIZE * n_entry_points self)
            + program_builtins_len (v0_program self) + program_data_len (v0_program self) + 1
      in \<lparr>er_n_steps = N_STEPS_PER_PEDERSEN * hashed_data_size, er_n_memory_holes = 0,
          er_builtin_instance_counter = [(builtin_name E HASH, hashed_data_size)]\<rparr>)"

fun add_segment_costs ::
    "'a Externals_scheme \<Rightarrow> NestedIntList list \<Rightarrow> ExecutionResources \<Rightarrow> ('e, ExecutionResources) result" where
  "add_segment_costs E [] acc = Ok acc"
| "add_segment_costs E (Leaf len # segments) acc =
     add_segment_costs E segments
       (er_add E (er_add E acc (poseidon_hash_many_cost E len))
         \<lparr>er_n_steps = 24, er_n_memory_holes = 1, er_builtin_instance_counter = [(builtin_name E POSEIDON, 1)]\<rparr>)"
| "add_segment_costs E (Node inner # segments) acc =
     Panic ''Estimating hash cost is only supported for segmentation depth at most 1.''"

fun segments_casm_hash_computation_resources ::
    "'a Externals_scheme \<Rightarrow> NestedIntList \<Rightarrow> ('e, ExecutionResources) result" where
  "segments_casm_hash_computation_resources E (Leaf len) =
     Ok (er_add E
       \<lparr>er_n_steps = 474, er_n_memory_holes = 0, er_builtin_instance_counter = [(builtin_name E POSEIDON, 10)]\<rparr>
       (poseidon_hash_many_cost E len))"
| "segments_casm_hash_computation_resources E (Node segments) =
     add_segment_costs E segments
       \<lparr>er_n_steps = 491, er_n_memory_holes = 0, er_builtin_instance_counter = [(builtin_name E POSEIDON, 11)]\<rparr>"

fun estimate_casm_hash_computation_resources ::
    "'a Externals_scheme \<Rightarrow> ContractClass \<Rightarrow> ('e, ExecutionResources) result" where
  "estimate_casm_hash_computation_resources E (V0 class) = Ok (V0_estimate_casm_hash_computation_resources E class)"
| "estimate_casm_hash_computation_resources E (V1 class) =
     segments_casm_hash_computation_resources E (v1_bytecode_segment_lengths class)"

section \<open>Visited segments\<close>

definition vec_last :: "'a list \<Rightarrow> 'a option" where
  "vec_last xs = (if xs = [] then None else Some (last xs))"

definition segment_contains :: "usize \<Rightarrow> usize \<Rightarrow> usize \<Rightarrow> bool" where
  "segment_contains segment_start segment_end pc \<longleftrightarrow> segment_start \<le> pc \<and> pc < segment_end"

definition last_in_segment :: "usize \<Rightarrow> usize \<Rightarrow> usize list \<Rightarrow> bool" where
  "last_in_segment segment_start segment_end visited_pcs =
     (case vec_last visited_pcs of Some pc \<Rightarrow> segment_contains segment_start segment_end pc | None \<Rightarrow> False)"

function pop_segment :: "usize \<Rightarrow> usize \<Rightarrow> usize list \<Rightarrow> usize list" where
  "pop_segment segment_start segment_end visited_pcs =
     (if last_in_segment segment_start segment_end visited_pcs
      then pop_segment segment_start segment_end (butlast visited_pcs) else visited_pcs)"
  by auto

termination pop_segment
  by (relation "measure (\<lambda>(_, _, pcs). length pcs)")
    (auto simp: last_in_segment_def vec_last_def split: if_splits)

text \<open>
  The recursion over the nested segment lengths. The state is the stack of visited program
  counters (given in reversed order and consumed) and the offset of the next segment.
\<close>

fun get_visited_segments ::
    "NestedIntList \<Rightarrow> (usize list \<times> usize, TransactionExecutionError, usize list) action"
  and get_visited_segments_of ::
    "NestedIntList list \<Rightarrow> usize list \<Rightarrow> (usize list \<times> usize, TransactionExecutionError, usize list) action"
where
  "get_visited_segments (Leaf len) (visited_pcs, bytecode_offset) =
     (let segment_start = bytecode_offset;
          segment_end = bytecode_offset + len;
          res = (if last_in_segment segment_start segment_end visited_pcs then [segment_start] else [])
      in (Ok res, (pop_segment segment_start segment_end visited_pcs, bytecode_offset + len)))"
| "get_visited_segments (Node segments) s = get_visited_segments_of segments [] s"
| "get_visited_segments_of [] res s = (Ok res, s)"
| "get_visited_segments_of (segment # segments) res (visited_pcs, bytecode_offset) =
     (let segment_start = bytecode_offset;
          next_visited_pc = vec_last visited_pcs
      in case get_visited_segments segment (visited_pcs, bytecode_offset) of
           (Ok visited_inner_segments, s') \<Rightarrow>
             (case next_visited_pc of
                Some pc \<Rightarrow>
                  (if pc \<noteq> segment_start \<and> visited_inner_segments \<noteq> []
                   then (Err (InvalidSegmentStructure pc segment_start), s')
                   else get_visited_segments_of segments (res @ visited_inner_segments) s')
              | None \<Rightarrow> get_visited_segments_of segments (res @ visited_inner_segments) s')
         | (Err e, s') \<Rightarrow> (Err e, s')
         | (Panic p, s') \<Rightarrow> (Panic p, s'))"

definition V1_get_visited_segments ::
    "ContractClassV1 \<Rightarrow> usize HashSet \<Rightarrow> (TransactionExecutionError, usize list) result" where
  "V1_get_visited_segments self visited_pcs =
     fst (get_visited_segments (v1_bytecode_segment_lengths self) (rev (sort visited_pcs), 0))"

fun class_get_visited_segments ::
    "ContractClass \<Rightarrow> usize HashSet \<Rightarrow> (TransactionExecutionError, usize list) result" where
  "class_get_visited_segments (V0 class) visited_pcs =
     Panic ''get_visited_segments is not supported for v0 contracts.''"
| "class_get_visited_segments (V1 class) visited_pcs = V1_get_visited_segments class visited_pcs"

section \<open>Class files\<close>

record CasmContractEntryPoint =
  casm_selector :: nat
  casm_offset :: usize
  casm_builtins :: "string list"

record CasmContractClass =
  casm_constructor :: "CasmContractEntryPoint list"
  casm_external :: "CasmContractEntryPoint list"
  casm_l1_handler :: "CasmContractEntryPoint list"
  casm_bytecode_segment_lengths :: "NestedIntList option"

definition convert_entry_points_v1 :: "CasmContractEntryPoint list \<Rightarrow> EntryPointV1 list" where
  "convert_entry_points_v1 entry_points =
     map (\<lambda>ep. \<lparr>ep1_selector = casm_selector ep mod PRIME, ep1_offset = casm_offset ep,
                ep1_builtins = map (\<lambda>builtin. builtin @ ''_builtin'') (casm_builtins ep)\<rparr>) entry_points"

definition ContractClassV1_try_from ::
    "(string, Program) result \<Rightarrow> CasmContractClass \<Rightarrow> (string, ContractClassV1) result" where
  "ContractClassV1_try_from new_program class =
     rbind new_program (\<lambda>program.
       Ok \<lparr>v1_program = program,
           v1_entry_points_by_type =
             [(Constructor, convert_entry_points_v1 (casm_constructor class)),
              (External, convert_entry_points_v1 (casm_external class)),
              (L1Handler, convert_entry_points_v1 (casm_l1_handler class))],
           v1_bytecode_segment_lengths =
             (case casm_bytecode_segment_lengths class of
                Some lengths \<Rightarrow> lengths
              | None \<Rightarrow> Leaf (program_data_len program))\<rparr>)"

section \<open>Declared classes\<close>

datatype ContractClassError = ContractClassVersionSierraProgramLengthMismatch nat usize

record ClassInfo =
  info_contract_class :: ContractClass
  info_sierra_program_length :: usize
  info_abi_length :: usize

definition code_size :: "ClassInfo \<Rightarrow> usize" where
  "code_size self =
     (bytecode_length (info_contract_class self) + info_sierra_program_length self) * WORD_WIDTH
     + info_abi_length self"

definition ClassInfo_new :: "ContractClass \<Rightarrow> usize \<Rightarrow> usize \<Rightarrow> (ContractClassError, ClassInfo) result" where
  "ClassInfo_new contract_class sierra_program_length abi_length =
     (let (contract_class_version, condition) =
            (case contract_class of
               V0 _ \<Rightarrow> (0, sierra_program_length = 0)
             | V1 _ \<Rightarrow> (1, sierra_program_length > 0))
      in if condition
         then Ok \<lparr>info_contract_class = contract_class, info_sierra_program_length = sierra_program_length,
                  info_abi_length = abi_length\<rparr>
         else Err (ContractClassVersionSierraProgramLengthMismatch contract_class_version sierra_program_length))"

end
