(* ===== verification/Visited_Segments.thy ===== *)
theory Visited_Segments
  imports Contract_Class
begin

text \<open>
  What \<open>get_visited_segments\<close> computes. The segments of a class are the leaves of its nested
  segment lengths, laid out one after the other; the specification is over natural numbers and
  the set of visited program counters, the code works on wrapping words and a stack.
\<close>

fun nested_len :: "NestedIntList \<Rightarrow> nat" where
  "nested_len (Leaf len) = unat len"
| "nested_len (Node segments) = sum_list (map nested_len segments)"

fun leaf_segments :: "NestedIntList \<Rightarrow> nat \<Rightarrow> (nat \<times> nat) list"
  and leaf_segments_of :: "NestedIntList list \<Rightarrow> nat \<Rightarrow> (nat \<times> nat) list"
where
  "leaf_segments (Leaf len) off = [(off, off + unat len)]"
| "leaf_segments (Node segments) off = leaf_segments_of segments off"
| "leaf_segments_of [] off = []"
| "leaf_segments_of (segment # segments) off =
     leaf_segments segment off @ leaf_segments_of segments (off + nested_len segment)"

definition touches :: "nat set \<Rightarrow> nat \<Rightarrow> nat \<Rightarrow> bool" where
  "touches V a b \<longleftrightarrow> (\<exists>pc \<in> V. a \<le> pc \<and> pc < b)"

text \<open>Every touched child of a node has its start visited.\<close>

fun starts_visited :: "nat set \<Rightarrow> NestedIntList \<Rightarrow> nat \<Rightarrow> bool"
  and starts_visited_of :: "nat set \<Rightarrow> NestedIntList list \<Rightarrow> nat \<Rightarrow> bool"
where
  "starts_visited V (Leaf len) off = True"
| "starts_visited V (Node segments) off = starts_visited_of V segments off"
| "starts_visited_of V [] off = True"
| "starts_visited_of V (segment # segments) off =
     (starts_visited V segment off \<and> (touches V off (off + nested_len segment) \<longrightarrow> off \<in> V)
      \<and> starts_visited_of V segments (off + nested_len segment))"

definition visited_starts :: "nat set \<Rightarrow> (nat \<times> nat) list \<Rightarrow> usize list" where
  "visited_starts V segments = map (\<lambda>p. of_nat (fst p)) (filter (\<lambda>p. touches V (fst p) (snd p)) segments)"

lemma visited_starts_append [simp]: "visited_starts V (xs @ ys) = visited_starts V xs @ visited_starts V ys"
  by (simp add: visited_starts_def)

lemma touches_split: "a \<le> b \<Longrightarrow> b \<le> c \<Longrightarrow> touches V a c \<longleftrightarrow> touches V a b \<or> touches V b c"
  unfolding touches_def by (meson le_less_trans less_le_trans le_trans not_le)

lemma visited_starts_nonempty:
  "visited_starts V (leaf_segments N off) \<noteq> [] \<longleftrightarrow> touches V off (off + nested_len N)"
  "visited_starts V (leaf_segments_of Ns off) \<noteq> [] \<longleftrightarrow> touches V off (off + sum_list (map nested_len Ns))"
proof (induction N off and Ns off rule: leaf_segments_leaf_segments_of.induct)
  case (4 segment segments off)
  then show ?case
    using touches_split [of off "off + nested_len segment" "off + nested_len segment + sum_list (map nested_len segments)" V]
    by (simp add: add.assoc)
qed (auto simp: visited_starts_def touches_def)

subsection \<open>The stack of program counters\<close>

definition from_pc :: "usize \<Rightarrow> usize list \<Rightarrow> usize list" where
  "from_pc off pcs = rev (filter (\<lambda>pc. off \<le> pc) pcs)"

lemma vec_last_rev: "vec_last (rev xs) = (case xs of [] \<Rightarrow> None | x # _ \<Rightarrow> Some x)"
  by (cases xs) (auto simp: vec_last_def)

lemma from_pc_Cons:
  assumes "sorted pcs" and "filter (\<lambda>pc. a \<le> pc) pcs = x # xs"
  shows "x \<in> set pcs" and "a \<le> x" and "pc \<in> set pcs \<Longrightarrow> a \<le> pc \<Longrightarrow> x \<le> pc"
proof -
  have set: "set (x # xs) = {pc \<in> set pcs. a \<le> pc}"
    unfolding assms(2) [symmetric] by simp
  then show "x \<in> set pcs" and "a \<le> x"
    by auto
  have "sorted (x # xs)"
    using assms sorted_filter [of id pcs "\<lambda>pc. a \<le> pc"] by simp
  then show "x \<le> pc" if "pc \<in> set pcs" "a \<le> pc"
    using that set by auto
qed

lemma last_in_segment_from_pc:
  assumes "sorted pcs"
  shows "last_in_segment a b (from_pc a pcs) \<longleftrightarrow> (\<exists>pc \<in> set pcs. a \<le> pc \<and> pc < b)"
proof (cases "filter (\<lambda>pc. a \<le> pc) pcs")
  case Nil
  then show ?thesis
    by (auto simp: last_in_segment_def from_pc_def vec_last_def filter_empty_conv)
next
  case (Cons x xs)
  then show ?thesis
    using from_pc_Cons [OF assms Cons] by (auto simp: last_in_segment_def from_pc_def vec_last_def segment_contains_def dest: le_less_trans)
qed

lemma pop_segment_rev: "pop_segment a b (rev ys) = rev (dropWhile (segment_contains a b) ys)"
proof (induction ys)
  case Nil
  then show ?case
    by (simp add: last_in_segment_def vec_last_def)
next
  case (Cons y ys)
  then show ?case
    by (subst pop_segment.simps) (simp add: last_in_segment_def vec_last_def)
qed

declare pop_segment.simps [simp del]

lemma pop_segment_from_pc:
  assumes "sorted pcs" and "a \<le> b"
  shows "pop_segment a b (from_pc a pcs) = from_pc b pcs"
proof -
  have "dropWhile (segment_contains a b) (filter (\<lambda>pc. a \<le> pc) pcs) = filter (\<lambda>pc. b \<le> pc) pcs"
    using assms(1)
  proof (induction pcs)
    case (Cons y ys)
    consider "y < a" | "a \<le> y" "y < b" | "b \<le> y"
      by fastforce
    then show ?case
    proof cases
      case 3
      then have "filter (\<lambda>pc. a \<le> pc) ys = ys" and "filter (\<lambda>pc. b \<le> pc) ys = ys"
        using Cons.prems assms(2) by (auto simp: filter_id_conv)
      then show ?thesis
        using 3 assms(2) by (auto simp: segment_contains_def)
    qed (use Cons assms(2) in \<open>auto simp: segment_contains_def\<close>)
  qed simp
  then show ?thesis
    by (simp add: from_pc_def pop_segment_rev)
qed

subsection \<open>The recursion\<close>

lemma leaf_step:
  assumes "sorted pcs" and "unat off + unat len < 2 ^ 64"
  shows "get_visited_segments (Leaf len) (from_pc off pcs, off) =
    (Ok (visited_starts (unat ` set pcs) (leaf_segments (Leaf len) (unat off))), (from_pc (off + len) pcs, off + len))"
proof -
  have exact: "unat (off + len) = unat off + unat len"
    using assms(2) by (intro unat_plus_exact) simp
  then have "off \<le> off + len"
    by (simp add: word_le_nat_alt)
  moreover have "(\<exists>pc \<in> set pcs. off \<le> pc \<and> pc < off + len) \<longleftrightarrow> touches (unat ` set pcs) (unat off) (unat off + unat len)"
    by (auto simp: touches_def word_le_nat_alt word_less_nat_alt exact)
  ultimately show ?thesis
    using assms(1)
    by (simp add: Let_def last_in_segment_from_pc pop_segment_from_pc visited_starts_def)
qed

lemma next_visited_pc:
  assumes "sorted pcs" and "touches (unat ` set pcs) (unat off) b"
  obtains pc where "vec_last (from_pc off pcs) = Some pc" and "pc \<in> set pcs"
    and "pc = off \<longleftrightarrow> unat off \<in> unat ` set pcs"
proof (cases "filter (\<lambda>pc. off \<le> pc) pcs")
  case Nil
  then show ?thesis
    using assms(2) by (auto simp: touches_def filter_empty_conv word_le_nat_alt)
next
  case (Cons x xs)
  note x = from_pc_Cons [OF assms(1) Cons]
  have "x = off" if "off \<in> set pcs"
    using x(2) x(3) [OF that] by simp
  then show ?thesis
    using Cons x(1) by (intro that [of x]) (auto simp: from_pc_def vec_last_def simp flip: word_unat_eq_iff)
qed

definition visit_outcome ::
    "usize list \<Rightarrow> bool \<Rightarrow> usize list \<Rightarrow> nat \<Rightarrow> (TransactionExecutionError, usize list) result \<times> usize list \<times> usize \<Rightarrow> bool" where
  "visit_outcome pcs structured starts off out \<longleftrightarrow>
     (case out of
        (Ok res, s') \<Rightarrow> structured \<and> res = starts \<and> s' = (from_pc (of_nat off) pcs, of_nat off)
      | (Err e, s') \<Rightarrow> \<not> structured \<and> (\<exists>pc a. e = InvalidSegmentStructure pc a \<and> pc \<in> set pcs \<and> a \<notin> set pcs)
      | (Panic p, s') \<Rightarrow> False)"

lemma get_visited_segments_spec:
  fixes pcs :: "usize list"
  assumes "sorted pcs"
  defines "V \<equiv> unat ` set pcs"
  shows "off + nested_len N < 2 ^ 64 \<Longrightarrow>
      visit_outcome pcs (starts_visited V N off) (visited_starts V (leaf_segments N off)) (off + nested_len N)
        (get_visited_segments N (from_pc (of_nat off) pcs, of_nat off))"
    and "off + sum_list (map nested_len Ns) < 2 ^ 64 \<Longrightarrow>
      visit_outcome pcs (starts_visited_of V Ns off) (acc @ visited_starts V (leaf_segments_of Ns off))
        (off + sum_list (map nested_len Ns))
        (get_visited_segments_of Ns acc (from_pc (of_nat off) pcs, of_nat off))"
proof (induction N off and Ns off arbitrary: and acc rule: leaf_segments_leaf_segments_of.induct)
  case (1 len off)
  then show ?case
    using leaf_step [OF assms(1), of "of_nat off" len]
    by (simp add: unat_of_nat_small visit_outcome_def V_def)
next
  case (4 segment segments off)
  let ?o = "of_nat off :: usize" and ?off' = "off + nested_len segment"
  have small: "off + nested_len segment < 2 ^ 64"
    and tail: "visit_outcome pcs (starts_visited_of V segments ?off') (acc' @ visited_starts V (leaf_segments_of segments ?off'))
        (?off' + sum_list (map nested_len segments))
        (get_visited_segments_of segments acc' (from_pc (of_nat ?off') pcs, of_nat ?off'))" for acc'
    using "4.prems" "4.IH"(2) by (simp_all add: add.assoc)
  have o: "unat ?o = off"
    using small by (simp add: unat_of_nat_small)
  obtain r s' where seg: "get_visited_segments segment (from_pc ?o pcs, ?o) = (r, s')"
    by (cases "get_visited_segments segment (from_pc ?o pcs, ?o)") blast
  note inner = "4.IH"(1) [OF small, unfolded seg visit_outcome_def]
  show ?case
  proof (cases r)
    case (Ok res)
    then have res: "res = visited_starts V (leaf_segments segment off)" and ok: "starts_visited V segment off"
      and s': "s' = (from_pc (of_nat ?off') pcs, of_nat ?off')"
      using inner by auto
    show ?thesis
    proof (cases "touches V off ?off'")
      case True
      then have "res \<noteq> []"
        using visited_starts_nonempty(1) [of V segment off] res by simp
      moreover obtain pc where pc: "vec_last (from_pc ?o pcs) = Some pc" "pc \<in> set pcs" "pc = ?o \<longleftrightarrow> off \<in> V"
        using next_visited_pc [OF assms(1), of ?o ?off'] True o unfolding V_def by metis
      moreover have "?o \<in> set pcs \<longleftrightarrow> off \<in> V"
        using o unfolding V_def by (metis (no_types, lifting) image_iff word_unat_eq_iff)
      ultimately show ?thesis
      proof (cases "off \<in> V")
        case True
        then show ?thesis
          using tail [of "acc @ res"] pc ok by (simp add: Let_def seg Ok s' res add.assoc)
      next
        case False
        then show ?thesis
          using \<open>res \<noteq> []\<close> pc True \<open>?o \<in> set pcs \<longleftrightarrow> off \<in> V\<close>
          by (simp add: Let_def seg Ok visit_outcome_def)
      qed
    next
      case False
      then have "res = []"
        using visited_starts_nonempty(1) [of V segment off] res by simp
      then show ?thesis
        using tail [of acc] False ok res
        by (auto simp: Let_def seg Ok s' add.assoc split: option.splits)
    qed
  qed (use inner in \<open>auto simp: Let_def seg visit_outcome_def\<close>)
next
  case (2 segments off)
  then show ?case
    using "2.IH" [of "[]"] by simp
qed (simp add: visit_outcome_def visited_starts_def)

text \<open>
  C16: The visited segments of a Cairo 1 class. For a class whose segment lengths sum to less
  than \<open>2 ^ 64\<close>, \<open>get_visited_segments\<close> never panics. It succeeds exactly when every touched
  child segment of a node has its first program counter visited, and then returns, in order,
  the starts of the segments that contain a visited program counter; otherwise the error names
  a visited program counter and a segment start that was not visited.
\<close>

theorem visited_segments_are_the_touched_ones:
  fixes cls :: ContractClassV1 and visited_pcs :: "usize HashSet"
  defines "V \<equiv> unat ` set visited_pcs" and "N \<equiv> v1_bytecode_segment_lengths cls"
  assumes "nested_len N < 2 ^ 64"
  shows "case V1_get_visited_segments cls visited_pcs of
      Ok res \<Rightarrow> starts_visited V N 0 \<and> res = visited_starts V (leaf_segments N 0)
    | Err e \<Rightarrow> \<not> starts_visited V N 0
        \<and> (\<exists>pc a. e = InvalidSegmentStructure pc a \<and> pc \<in> set visited_pcs \<and> a \<notin> set visited_pcs)
    | Panic p \<Rightarrow> False"
proof -
  have "from_pc 0 (sort visited_pcs) = rev (sort visited_pcs)"
    by (simp add: from_pc_def)
  then show ?thesis
    using get_visited_segments_spec(1) [of "sort visited_pcs" 0 N] assms(3)
    by (cases "get_visited_segments N (rev (sort visited_pcs), 0)")
      (auto simp: V1_get_visited_segments_def visit_outcome_def V_def N_def split: result.splits)
qed

definition segmented_class_example :: ContractClassV1 where
  "segmented_class_example =
     \<lparr>v1_program = \<lparr>program_id = 5, program_data_len = 30, program_builtins_len = 0\<rparr>,
      v1_entry_points_by_type = [(Constructor, []), (External, []), (L1Handler, [])],
      v1_bytecode_segment_lengths = Node [Leaf 10, Leaf 12, Leaf 8]\<rparr>"

theorem visited_segments_are_the_touched_ones_witness:
  "V1_get_visited_segments segmented_class_example [13, 0, 10] = Ok [0, 10]
   \<and> (\<exists>pc a. V1_get_visited_segments segmented_class_example [13, 0] = Err (InvalidSegmentStructure pc a))"
proof -
  have len: "nested_len (v1_bytecode_segment_lengths segmented_class_example) < 2 ^ 64"
    by (simp add: segmented_class_example_def)
  have "starts_visited (unat ` set [13, 0, 10 :: usize]) (v1_bytecode_segment_lengths segmented_class_example) 0"
    and "\<not> starts_visited (unat ` set [13, 0 :: usize]) (v1_bytecode_segment_lengths segmented_class_example) 0"
    by (simp_all add: segmented_class_example_def touches_def)
  moreover have "visited_starts (unat ` set [13, 0, 10 :: usize])
      (leaf_segments (v1_bytecode_segment_lengths segmented_class_example) 0) = [0, 10]"
    by (simp add: segmented_class_example_def visited_starts_def touches_def)
  ultimately show ?thesis
    using visited_segments_are_the_touched_ones [OF len, of "[13, 0, 10]"]
      visited_segments_are_the_touched_ones [OF len, of "[13, 0]"]
    by (auto split: result.splits)
qed

end
