(* ===== verification/Bouncer.thy ===== *)
theory Bouncer
  imports Visited_Segments
begin

text \<open>
  The bouncer (\<open>bouncer.rs\<close>) decides whether a transaction still fits into the block. It keeps
  the accumulated weights and the sets needed to count only what a transaction adds: executed
  classes, visited storage entries and changed state keys. Additions of weights are the derived
  \<open>Add\<close>, field by field and wrapping.
\<close>

section \<open>Weights\<close>

record BuiltinCount =
  bc_bitwise :: usize
  bc_ecdsa :: usize
  bc_ec_op :: usize
  bc_keccak :: usize
  bc_pedersen :: usize
  bc_poseidon :: usize
  bc_range_check :: usize

record BouncerWeights =
  bw_builtin_count :: BuiltinCount
  bw_gas :: usize
  bw_message_segment_length :: usize
  bw_n_events :: usize
  bw_n_steps :: usize
  bw_state_diff_size :: usize

definition BuiltinCount_default :: BuiltinCount where
  "BuiltinCount_default =
     \<lparr>bc_bitwise = 0, bc_ecdsa = 0, bc_ec_op = 0, bc_keccak = 0, bc_pedersen = 0, bc_poseidon = 0, bc_range_check = 0\<rparr>"

definition BouncerWeights_default :: BouncerWeights where
  "BouncerWeights_default =
     \<lparr>bw_builtin_count = BuiltinCount_default, bw_gas = 0, bw_message_segment_length = 0, bw_n_events = 0,
      bw_n_steps = 0, bw_state_diff_size = 0\<rparr>"

definition BuiltinCount_add :: "BuiltinCount \<Rightarrow> BuiltinCount \<Rightarrow> BuiltinCount" where
  "BuiltinCount_add a b =
     \<lparr>bc_bitwise = bc_bitwise a + bc_bitwise b, bc_ecdsa = bc_ecdsa a + bc_ecdsa b, bc_ec_op = bc_ec_op a + bc_ec_op b,
      bc_keccak = bc_keccak a + bc_keccak b, bc_pedersen = bc_pedersen a + bc_pedersen b,
      bc_poseidon = bc_poseidon a + bc_poseidon b, bc_range_check = bc_range_check a + bc_range_check b\<rparr>"

definition BouncerWeights_add :: "BouncerWeights \<Rightarrow> BouncerWeights \<Rightarrow> BouncerWeights" where
  "BouncerWeights_add a b =
     \<lparr>bw_builtin_count = BuiltinCount_add (bw_builtin_count a) (bw_builtin_count b),
      bw_gas = bw_gas a + bw_gas b,
      bw_message_segment_length = bw_message_segment_length a + bw_message_segment_length b,
      bw_n_events = bw_n_events a + bw_n_events b,
      bw_n_steps = bw_n_steps a + bw_n_steps b,
      bw_state_diff_size = bw_state_diff_size a + bw_state_diff_size b\<rparr>"

definition BuiltinCount_checked_sub :: "BuiltinCount \<Rightarrow> BuiltinCount \<Rightarrow> BuiltinCount option" where
  "BuiltinCount_checked_sub self other =
     Option.bind (checked_sub (bc_bitwise self) (bc_bitwise other)) (\<lambda>bitwise.
     Option.bind (checked_sub (bc_ecdsa self) (bc_ecdsa other)) (\<lambda>ecdsa.
     Option.bind (checked_sub (bc_ec_op self) (bc_ec_op other)) (\<lambda>ec_op.
     Option.bind (checked_sub (bc_keccak self) (bc_keccak other)) (\<lambda>keccak.
     Option.bind (checked_sub (bc_pedersen self) (bc_pedersen other)) (\<lambda>pedersen.
     Option.bind (checked_sub (bc_poseidon self) (bc_poseidon other)) (\<lambda>poseidon.
     Option.bind (checked_sub (bc_range_check self) (bc_range_check other)) (\<lambda>range_check.
       Some \<lparr>bc_bitwise = bitwise, bc_ecdsa = ecdsa, bc_ec_op = ec_op, bc_keccak = keccak,
             bc_pedersen = pedersen, bc_poseidon = poseidon, bc_range_check = range_check\<rparr>)))))))"

definition BouncerWeights_checked_sub :: "BouncerWeights \<Rightarrow> BouncerWeights \<Rightarrow> BouncerWeights option" where
  "BouncerWeights_checked_sub self other =
     Option.bind (BuiltinCount_checked_sub (bw_builtin_count self) (bw_builtin_count other)) (\<lambda>builtins.
     Option.bind (checked_sub (bw_gas self) (bw_gas other)) (\<lambda>gas.
     Option.bind (checked_sub (bw_message_segment_length self) (bw_message_segment_length other)) (\<lambda>message_segment_length.
     Option.bind (checked_sub (bw_n_events self) (bw_n_events other)) (\<lambda>n_events.
     Option.bind (checked_sub (bw_n_steps self) (bw_n_steps other)) (\<lambda>n_steps.
     Option.bind (checked_sub (bw_state_diff_size self) (bw_state_diff_size other)) (\<lambda>state_diff_size.
       Some \<lparr>bw_builtin_count = builtins, bw_gas = gas, bw_message_segment_length = message_segment_length,
             bw_n_events = n_events, bw_n_steps = n_steps, bw_state_diff_size = state_diff_size\<rparr>))))))"

definition has_room :: "BouncerWeights \<Rightarrow> BouncerWeights \<Rightarrow> bool" where
  "has_room self other \<longleftrightarrow> BouncerWeights_checked_sub self other \<noteq> None"

definition BuiltinCount_max :: "bool \<Rightarrow> BuiltinCount" where
  "BuiltinCount_max with_keccak =
     \<lparr>bc_bitwise = USIZE_MAX, bc_ecdsa = USIZE_MAX, bc_ec_op = USIZE_MAX,
      bc_keccak = (if with_keccak then USIZE_MAX else 0), bc_pedersen = USIZE_MAX, bc_poseidon = USIZE_MAX,
      bc_range_check = USIZE_MAX\<rparr>"

definition BouncerWeights_max :: "bool \<Rightarrow> BouncerWeights" where
  "BouncerWeights_max with_keccak =
     \<lparr>bw_builtin_count = BuiltinCount_max with_keccak, bw_gas = USIZE_MAX, bw_message_segment_length = USIZE_MAX,
      bw_n_events = USIZE_MAX, bw_n_steps = USIZE_MAX, bw_state_diff_size = USIZE_MAX\<rparr>"

record BouncerConfig =
  block_max_capacity :: BouncerWeights
  block_max_capacity_with_keccak :: BouncerWeights

definition BouncerConfig_max :: BouncerConfig where
  "BouncerConfig_max =
     \<lparr>block_max_capacity = BouncerWeights_max False, block_max_capacity_with_keccak = BouncerWeights_max True\<rparr>"

definition counted_builtins :: "Builtin list" where
  "counted_builtins = [BITWISE, SIGNATURE, EC_OP, KECCAK, HASH, POSEIDON, RANGE_CHECK]"

definition BuiltinCount_from :: "'a Externals_scheme \<Rightarrow> (string, usize) HashMap \<Rightarrow> ('e, BuiltinCount) result" where
  "BuiltinCount_from E data =
     (let count = (\<lambda>b. case map_of data (builtin_name E b) of Some n \<Rightarrow> n | None \<Rightarrow> 0);
          builtin_count = \<lparr>bc_bitwise = count BITWISE, bc_ecdsa = count SIGNATURE, bc_ec_op = count EC_OP,
            bc_keccak = count KECCAK, bc_pedersen = count HASH, bc_poseidon = count POSEIDON,
            bc_range_check = count RANGE_CHECK\<rparr>;
          remaining = fold (\<lambda>b m. hm_remove (builtin_name E b) m) counted_builtins data
      in if remaining = [] then Ok builtin_count
         else Panic ''The following keys do not exist in BuiltinCount'')"

section \<open>The bouncer\<close>

datatype TransactionExecutorError =
    BlockFull
  | ExecutorStateError StateError
  | ExecutorTransactionError TransactionExecutionError

record Bouncer =
  b_executed_class_hashes :: "ClassHash HashSet"
  b_visited_storage_entries :: "StorageEntry HashSet"
  b_state_changes_keys :: StateChangesKeys
  b_bouncer_config :: BouncerConfig
  b_accumulated_weights :: BouncerWeights

definition Bouncer_new :: "BouncerConfig \<Rightarrow> Bouncer" where
  "Bouncer_new config =
     \<lparr>b_executed_class_hashes = [], b_visited_storage_entries = [], b_state_changes_keys = StateChangesKeys_default,
      b_bouncer_config = config, b_accumulated_weights = BouncerWeights_default\<rparr>"

definition Bouncer_update :: "BouncerWeights \<Rightarrow> ExecutionSummary \<Rightarrow> StateChangesKeys \<Rightarrow> Bouncer \<Rightarrow> Bouncer" where
  "Bouncer_update tx_weights tx_execution_summary state_changes_keys self =
     self\<lparr>b_accumulated_weights := BouncerWeights_add (b_accumulated_weights self) tx_weights,
          b_visited_storage_entries :=
            hs_extend (b_visited_storage_entries self) (es_visited_storage_entries tx_execution_summary),
          b_executed_class_hashes :=
            hs_extend (b_executed_class_hashes self) (es_executed_class_hashes tx_execution_summary),
          b_state_changes_keys := StateChangesKeys_extend (b_state_changes_keys self) state_changes_keys\<rparr>"

fun add_casm_hash_resources ::
    "'a Externals_scheme \<Rightarrow> 's StateReader \<Rightarrow> ClassHash list \<Rightarrow> ExecutionResources
      \<Rightarrow> ('s CachedState, TransactionExecutorError, ExecutionResources) action" where
  "add_casm_hash_resources E R [] acc = sret acc"
| "add_casm_hash_resources E R (class_hash # rest) acc =
     sbind (smap_err ExecutorStateError (get_compiled_contract_class R class_hash)) (\<lambda>contract_class.
       sbind (slift (estimate_casm_hash_computation_resources E contract_class)) (\<lambda>resources.
         add_casm_hash_resources E R rest (er_add E acc resources)))"

definition get_casm_hash_calculation_resources ::
    "'a Externals_scheme \<Rightarrow> 's StateReader \<Rightarrow> ClassHash HashSet \<Rightarrow> ClassHash HashSet
      \<Rightarrow> ('s CachedState, TransactionExecutorError, ExecutionResources) action" where
  "get_casm_hash_calculation_resources E R block_executed_class_hashes tx_executed_class_hashes =
     add_casm_hash_resources E R (hs_difference tx_executed_class_hashes block_executed_class_hashes) er_default"

definition TREE_HEIGHT_UPPER_BOUND :: usize where
  "TREE_HEIGHT_UPPER_BOUND = 24"

definition get_particia_update_resources ::
    "'a Externals_scheme \<Rightarrow> StorageEntry HashSet \<Rightarrow> StorageEntry HashSet \<Rightarrow> ExecutionResources" where
  "get_particia_update_resources E block_visited_storage_entries tx_visited_storage_entries =
     (let n_newly_visited_leaves = hs_len (hs_difference tx_visited_storage_entries block_visited_storage_entries);
          n_updates = n_newly_visited_leaves * TREE_HEIGHT_UPPER_BOUND
      in \<lparr>er_n_steps = 32 * n_updates, er_n_memory_holes = 0,
          er_builtin_instance_counter = [(builtin_name E HASH, 2 * n_updates)]\<rparr>)"

definition get_state_changes_keys ::
    "'s StateReader \<Rightarrow> Bouncer \<Rightarrow> ('s CachedState, TransactionExecutorError, StateChangesKeys) action" where
  "get_state_changes_keys R self =
     sbind (smap_err ExecutorStateError (get_actual_state_changes R)) (\<lambda>changes.
       sret (StateChangesKeys_difference (into_keys changes) (b_state_changes_keys self)))"

definition get_tx_weights ::
    "'a Externals_scheme \<Rightarrow> 's StateReader \<Rightarrow> Bouncer \<Rightarrow> ExecutionSummary \<Rightarrow> TransactionResources \<Rightarrow> StateChangesKeys
      \<Rightarrow> ('s CachedState, TransactionExecutorError, BouncerWeights) action" where
  "get_tx_weights E R self tx_execution_summary tx_resources state_changes_keys =
     sbind (slift (calculate_message_l1_resources (tr_starknet_resources tx_resources))) (\<lambda>(message_segment_length, gas_usage).
     sbind (get_casm_hash_calculation_resources E R (b_executed_class_hashes self)
         (es_executed_class_hashes tx_execution_summary)) (\<lambda>casm_resources.
       let additional_os_resources = er_add E casm_resources
             (get_particia_update_resources E (b_visited_storage_entries self) (es_visited_storage_entries tx_execution_summary));
           vm_resources = er_add E additional_os_resources (tr_vm_resources tx_resources)
       in sbind (slift (BuiltinCount_from E (prover_builtins E vm_resources))) (\<lambda>builtin_count.
            sret \<lparr>bw_builtin_count = builtin_count,
                  bw_gas = gas_usage,
                  bw_message_segment_length = message_segment_length,
                  bw_n_events = sn_n_events (tr_starknet_resources tx_resources),
                  bw_n_steps = total_n_steps E vm_resources,
                  bw_state_diff_size = get_onchain_data_segment_length (StateChangesKeys_count state_changes_keys)\<rparr>)))"

definition chosen_capacity :: "BouncerConfig \<Rightarrow> BouncerWeights \<Rightarrow> BouncerWeights \<Rightarrow> BouncerWeights" where
  "chosen_capacity config accumulated tx_weights =
     (if bc_keccak (bw_builtin_count accumulated) > 0 \<or> bc_keccak (bw_builtin_count tx_weights) > 0
      then block_max_capacity_with_keccak config else block_max_capacity config)"

definition try_update ::
    "'a Externals_scheme \<Rightarrow> 's StateReader \<Rightarrow> ExecutionSummary \<Rightarrow> TransactionResources
      \<Rightarrow> (Bouncer \<times> 's CachedState, TransactionExecutorError, unit) action" where
  "try_update E R tx_execution_summary tx_resources =
     (\<lambda>(self, state).
        case sbind (get_state_changes_keys R self) (\<lambda>keys.
               sbind (get_tx_weights E R self tx_execution_summary tx_resources keys) (\<lambda>weights. sret (keys, weights))) state of
          (Ok (state_changes_keys, tx_weights), state') \<Rightarrow>
            (let max_capacity = chosen_capacity (b_bouncer_config self) (b_accumulated_weights self) tx_weights in
             if \<not> has_room max_capacity tx_weights
             then (Err (ExecutorTransactionError TransactionTooLarge), (self, state'))
             else if \<not> has_room max_capacity (BouncerWeights_add (b_accumulated_weights self) tx_weights)
             then (Err BlockFull, (self, state'))
             else (Ok (), (Bouncer_update tx_weights tx_execution_summary state_changes_keys self, state')))
        | (Err e, state') \<Rightarrow> (Err e, (self, state'))
        | (Panic p, state') \<Rightarrow> (Panic p, (self, state')))"

section \<open>Blocks accepted by the bouncer\<close>

definition tx_weights_of ::
    "'a Externals_scheme \<Rightarrow> 's StateReader \<Rightarrow> ExecutionSummary \<Rightarrow> TransactionResources \<Rightarrow> Bouncer \<Rightarrow> 's CachedState
      \<Rightarrow> (TransactionExecutorError, BouncerWeights) result" where
  "tx_weights_of E R tx_execution_summary tx_resources b state =
     fst (sbind (get_state_changes_keys R b) (get_tx_weights E R b tx_execution_summary tx_resources) state)"

text \<open>
  The bouncers reachable from a new one, with the weights of the accepted transactions. Each
  transaction brings its own state; its maps have distinct keys, as every \<open>HashMap\<close> does.
\<close>

inductive block_of ::
    "'a Externals_scheme \<Rightarrow> 's StateReader \<Rightarrow> BouncerConfig \<Rightarrow> BouncerWeights list \<Rightarrow> Bouncer \<Rightarrow> bool"
  for E R config
where
  empty_block: "block_of E R config [] (Bouncer_new config)"
| accepted_tx: "block_of E R config ws b \<Longrightarrow> maps_wf (writes (cs_cache state))
    \<Longrightarrow> try_update E R summary resources (b, state) = (Ok (), (b', state'))
    \<Longrightarrow> tx_weights_of E R summary resources b state = Ok w
    \<Longrightarrow> block_of E R config (ws @ [w]) b'"
| rejected_tx: "block_of E R config ws b \<Longrightarrow> try_update E R summary resources (b, state) = (r, (b', state'))
    \<Longrightarrow> r \<noteq> Ok () \<Longrightarrow> block_of E R config ws b'"

text \<open>
  The bouncers reachable from a new one, with the actual changes of the accepted transactions.
\<close>

inductive changed_block ::
    "'a Externals_scheme \<Rightarrow> 's StateReader \<Rightarrow> BouncerConfig \<Rightarrow> StateChanges list \<Rightarrow> Bouncer \<Rightarrow> bool"
  for E R config
where
  no_changes: "changed_block E R config [] (Bouncer_new config)"
| accepted_changes: "changed_block E R config chs b \<Longrightarrow> maps_wf (writes (cs_cache state))
    \<Longrightarrow> get_actual_state_changes R state = (Ok ch, state1)
    \<Longrightarrow> try_update E R summary resources (b, state) = (Ok (), (b', state'))
    \<Longrightarrow> changed_block E R config (chs @ [ch]) b'"
| rejected_changes: "changed_block E R config chs b \<Longrightarrow> try_update E R summary resources (b, state) = (r, (b', state'))
    \<Longrightarrow> r \<noteq> Ok () \<Longrightarrow> changed_block E R config chs b'"

definition changed_contracts :: "StateChanges \<Rightarrow> ContractAddress set" where
  "changed_contracts ch =
     fst ` dom (map_of (storage_updates ch)) \<union> dom (map_of (nonce_updates ch)) \<union> dom (map_of (class_hash_updates ch))"

text \<open>The keys of a set of changes, and the length of the segment that publishes them.\<close>

definition keys_of_changes :: "StateChanges list \<Rightarrow> StateChangesKeys \<Rightarrow> bool" where
  "keys_of_changes chs K \<longleftrightarrow> keys_wf K
     \<and> set (storage_keys K) = (\<Union>ch \<in> set chs. dom (map_of (storage_updates ch)))
     \<and> set (nonce_keys K) = (\<Union>ch \<in> set chs. dom (map_of (nonce_updates ch)))
     \<and> set (class_hash_keys K) = (\<Union>ch \<in> set chs. dom (map_of (class_hash_updates ch)))
     \<and> set (compiled_class_hash_keys K) = (\<Union>ch \<in> set chs. dom (map_of (compiled_class_hash_updates ch)))
     \<and> set (modified_contracts K) = (\<Union>ch \<in> set chs. changed_contracts ch)"

definition published_words :: "StateChanges list \<Rightarrow> nat" where
  "published_words chs =
     2 * card (\<Union>ch \<in> set chs. changed_contracts ch)
     + card (\<Union>ch \<in> set chs. dom (map_of (class_hash_updates ch)))
     + 2 * card (\<Union>ch \<in> set chs. dom (map_of (storage_updates ch)))
     + 2 * card (\<Union>ch \<in> set chs. dom (map_of (compiled_class_hash_updates ch)))"

definition weight_fields :: "BouncerWeights \<Rightarrow> usize list" where
  "weight_fields w =
     [bc_bitwise (bw_builtin_count w), bc_ecdsa (bw_builtin_count w), bc_ec_op (bw_builtin_count w),
      bc_keccak (bw_builtin_count w), bc_pedersen (bw_builtin_count w), bc_poseidon (bw_builtin_count w),
      bc_range_check (bw_builtin_count w), bw_gas w, bw_message_segment_length w, bw_n_events w, bw_n_steps w,
      bw_state_diff_size w]"

definition total_weights :: "BouncerWeights list \<Rightarrow> nat list" where
  "total_weights ws = foldl (\<lambda>acc w. map2 (+) acc (map unat (weight_fields w))) (replicate 12 0) ws"

definition weights_small :: "BouncerWeights \<Rightarrow> bool" where
  "weights_small w \<longleftrightarrow> (\<forall>x \<in> set (weight_fields w). unat x < 2 ^ 63)"

definition block_capacity :: "BouncerConfig \<Rightarrow> BouncerWeights \<Rightarrow> BouncerWeights" where
  "block_capacity config accumulated =
     (if bc_keccak (bw_builtin_count accumulated) > 0
      then block_max_capacity_with_keccak config else block_max_capacity config)"

lemma has_room_iff: "has_room cap w \<longleftrightarrow> list_all2 (\<le>) (weight_fields w) (weight_fields cap)"
  by (auto simp: has_room_def BouncerWeights_checked_sub_def BuiltinCount_checked_sub_def checked_sub_def weight_fields_def
      Option.bind_eq_None_conv)

lemma small_of_room: "has_room cap w \<Longrightarrow> weights_small cap \<Longrightarrow> weights_small w"
  by (auto simp: has_room_iff weights_small_def weight_fields_def word_le_nat_alt)

lemma weights_add_exact:
  assumes "weights_small a" and "weights_small b"
  shows "map unat (weight_fields (BouncerWeights_add a b)) = map2 (+) (map unat (weight_fields a)) (map unat (weight_fields b))"
proof -
  have "unat (x + y) = unat x + unat y" if "unat x < 2 ^ 63" "unat y < 2 ^ 63" for x y :: usize
    using that by (intro unat_plus_exact) simp
  then show ?thesis
    using assms by (simp add: weights_small_def weight_fields_def BouncerWeights_add_def BuiltinCount_add_def)
qed

lemma try_update_Ok:
  assumes "try_update E R summary resources (b, state) = (Ok (), (b', state'))"
    and "tx_weights_of E R summary resources b state = Ok w"
  obtains keys s1 where "get_state_changes_keys R b state = (Ok keys, s1)"
    and "get_tx_weights E R b summary resources keys s1 = (Ok w, state')"
    and "has_room (chosen_capacity (b_bouncer_config b) (b_accumulated_weights b) w) w"
    and "has_room (chosen_capacity (b_bouncer_config b) (b_accumulated_weights b) w)
      (BouncerWeights_add (b_accumulated_weights b) w)"
    and "b' = Bouncer_update w summary keys b"
  using assms
  by (auto simp: try_update_def tx_weights_of_def sbind_def Let_def split: prod.splits result.splits if_splits)

lemma try_update_not_Ok:
  "try_update E R summary resources (b, state) = (r, (b', state')) \<Longrightarrow> r \<noteq> Ok () \<Longrightarrow> b' = b"
  by (auto simp: try_update_def Let_def split: prod.splits result.splits if_splits)

lemma Bouncer_update_simps [simp]:
  "b_bouncer_config (Bouncer_update w summary keys b) = b_bouncer_config b"
  "b_accumulated_weights (Bouncer_update w summary keys b) = BouncerWeights_add (b_accumulated_weights b) w"
  "b_state_changes_keys (Bouncer_update w summary keys b) = StateChangesKeys_extend (b_state_changes_keys b) keys"
  by (simp_all add: Bouncer_update_def)

lemma Bouncer_new_simps [simp]:
  "b_bouncer_config (Bouncer_new config) = config"
  "b_accumulated_weights (Bouncer_new config) = BouncerWeights_default"
  "b_state_changes_keys (Bouncer_new config) = StateChangesKeys_default"
  by (simp_all add: Bouncer_new_def)

lemma block_of_config: "block_of E R config ws b \<Longrightarrow> b_bouncer_config b = config"
proof (induction rule: block_of.induct)
  case empty_block
  then show ?case
    by (simp add: Bouncer_new_def)
next
  case (accepted_tx ws b state summary resources b' state' w)
  then show ?case
    by (auto elim!: try_update_Ok)
next
  case (rejected_tx ws b summary resources state r b' state')
  then show ?case
    using try_update_not_Ok by metis
qed

subsection \<open>Capacity\<close>

lemma chosen_capacity_small:
  "weights_small (block_max_capacity config) \<Longrightarrow> weights_small (block_max_capacity_with_keccak config) \<Longrightarrow>
    weights_small (chosen_capacity config a w)"
  by (simp add: chosen_capacity_def)

lemma chosen_capacity_block:
  assumes "weights_small a" and "weights_small w"
  shows "chosen_capacity config a w = block_capacity config (BouncerWeights_add a w)"
proof -
  let ?k = "\<lambda>w. bc_keccak (bw_builtin_count w)"
  have "unat (?k a + ?k w) = unat (?k a) + unat (?k w)"
    using assms by (intro unat_plus_exact) (simp add: weights_small_def weight_fields_def)
  then have "0 < ?k a + ?k w \<longleftrightarrow> 0 < ?k a \<or> 0 < ?k w"
    by (simp add: word_less_nat_alt)
  then show ?thesis
    by (simp add: chosen_capacity_def block_capacity_def BouncerWeights_add_def BuiltinCount_add_def)
qed

text \<open>
  C5: The bouncer never lets a block exceed its capacity. With capacities below \<open>2 ^ 63\<close> in
  every component, for every sequence of accepted and rejected transactions, the accumulated
  weights are the exact componentwise sums of the weights of the accepted transactions (no
  addition wraps around), and they fit the capacity that applies to the block: the one with
  keccak as soon as some accepted transaction used keccak, the other one before.
\<close>

theorem block_stays_within_capacity:
  assumes "block_of E R config ws b"
    and "weights_small (block_max_capacity config)" and "weights_small (block_max_capacity_with_keccak config)"
  shows "map unat (weight_fields (b_accumulated_weights b)) = total_weights ws
    \<and> has_room (block_capacity config (b_accumulated_weights b)) (b_accumulated_weights b)"
  using assms(1)
proof (induction rule: block_of.induct)
  case empty_block
  have "list_all2 (\<le>) (replicate 12 0) (weight_fields cap)" for cap
    by (simp add: weight_fields_def numeral_eq_Suc)
  then show ?case
    by (simp add: Bouncer_new_def has_room_iff total_weights_def)
      (simp add: weight_fields_def BouncerWeights_default_def BuiltinCount_default_def numeral_eq_Suc)
next
  case (accepted_tx ws b state summary resources b' state' w)
  let ?a = "b_accumulated_weights b"
  have config: "b_bouncer_config b = config"
    using block_of_config [OF accepted_tx.hyps(1)] .
  obtain keys where room: "has_room (chosen_capacity config ?a w) w"
      "has_room (chosen_capacity config ?a w) (BouncerWeights_add ?a w)"
    and b': "b' = Bouncer_update w summary keys b"
    using try_update_Ok [OF accepted_tx.hyps(3,4)] config by metis
  have small: "weights_small ?a" "weights_small w"
    using accepted_tx.IH small_of_room [OF room(1)] chosen_capacity_small [OF assms(2,3)] assms(2,3)
    by (auto simp: block_capacity_def intro: small_of_room split: if_splits)
  then show ?case
    using room(2) accepted_tx.IH
    by (simp add: b' chosen_capacity_block weights_add_exact total_weights_def)
next
  case (rejected_tx ws b summary resources state r b' state')
  then show ?case
    using try_update_not_Ok by metis
qed

subsection \<open>State changes are counted once\<close>

lemma writes_kept [keeps_intros]:
  "keeps (\<lambda>d. writes (cs_cache d) = w) (cache_initial_storage R e)"
  "keeps (\<lambda>d. writes (cs_cache d) = w) (cache_initial_class_hash R a)"
  "keeps (\<lambda>d. writes (cs_cache d) = w) (cache_initial_nonce R a)"
  by (auto simp: keeps_def cache_initial_storage_def cache_initial_class_hash_def cache_initial_nonce_def
      cache_defs Let_def split: prod.splits result.splits)

lemma update_initial_values_writes:
  "writes (cs_cache (snd (update_initial_values_of_write_only_access R c))) = writes (cs_cache c)"
  unfolding update_initial_values_of_write_only_access_def
  by (rule keepsD [where P = "\<lambda>d. writes (cs_cache d) = writes (cs_cache c)"], intro keeps_intros) simp

lemma strict_subtract_mappings_wf:
  "strict_subtract_mappings m m' = Ok n \<Longrightarrow> hm_wf m \<Longrightarrow> hm_wf n"
  by (auto simp: strict_subtract_mappings_def split: if_splits)

lemma actual_state_changes_wf:
  assumes "get_actual_state_changes R c = (Ok ch, d)" and "maps_wf (writes (cs_cache c))"
  shows "changes_wf ch"
proof -
  obtain c1 where "update_initial_values_of_write_only_access R c = (Ok (), c1)" and ch: "cache_state_changes (cs_cache c1) = Ok ch"
    using assms(1) by (auto simp: get_actual_state_changes_def elim!: sbind_OkE)
  then have "maps_wf (writes (cs_cache c1))"
    using update_initial_values_writes [of R c] assms(2) by simp
  moreover obtain storage nonces class_hashes
    where "get_storage_updates (cs_cache c1) = Ok storage" and "get_nonce_updates (cs_cache c1) = Ok nonces"
      and "get_class_hash_updates (cs_cache c1) = Ok class_hashes"
      and "ch = \<lparr>storage_updates = storage, nonce_updates = nonces, class_hash_updates = class_hashes,
        compiled_class_hash_updates = get_compiled_class_hash_updates (cs_cache c1)\<rparr>"
    using ch unfolding cache_state_changes_def rbind_Ok_iff by (auto dest: sym)
  ultimately show ?thesis
    unfolding get_storage_updates_def get_nonce_updates_def get_class_hash_updates_def changes_wf_def maps_wf_def
    by (simp add: strict_subtract_mappings_wf get_compiled_class_hash_updates_def)
qed

lemma into_keys_wf: "changes_wf ch \<Longrightarrow> keys_wf (into_keys ch)"
  by (simp add: changes_wf_def keys_wf_def into_keys_def hm_wf_keys)

lemma try_update_changes:
  assumes "get_actual_state_changes R state = (Ok ch, state1)"
    and "try_update E R summary resources (b, state) = (Ok (), (b', state'))"
  obtains keys w where "keys = StateChangesKeys_difference (into_keys ch) (b_state_changes_keys b)"
    and "get_tx_weights E R b summary resources keys state1 = (Ok w, state')" and "b' = Bouncer_update w summary keys b"
proof -
  have "get_state_changes_keys R b state = (Ok (StateChangesKeys_difference (into_keys ch) (b_state_changes_keys b)), state1)"
    using assms(1) by (simp add: get_state_changes_keys_def smap_err_def sbind_def)
  then show thesis
    using assms(2) that by (auto simp: try_update_def sbind_def Let_def split: prod.splits result.splits if_splits)
qed

lemma residual_segment_length:
  assumes "keys_wf B" and "keys_wf T"
  defines "D \<equiv> StateChangesKeys_difference T B"
  shows "keys_wf (StateChangesKeys_extend B D)"
    and "get_onchain_data_segment_length (StateChangesKeys_count (StateChangesKeys_extend B D)) =
      get_onchain_data_segment_length (StateChangesKeys_count B) + get_onchain_data_segment_length (StateChangesKeys_count D)"
  using assms
  by (simp_all add: keys_wf_def StateChangesKeys_extend_def StateChangesKeys_difference_def StateChangesKeys_count_def
      hs_len_def length_hs_extend_difference get_onchain_data_segment_length_def algebra_simps)

lemma segment_length_of_keys:
  assumes "keys_of_changes chs K"
  shows "get_onchain_data_segment_length (StateChangesKeys_count K) = of_nat (published_words chs)"
proof -
  have wf: "keys_wf K"
    using assms by (simp add: keys_of_changes_def)
  have "length (storage_keys K) = card (set (storage_keys K))" "length (class_hash_keys K) = card (set (class_hash_keys K))"
    "length (compiled_class_hash_keys K) = card (set (compiled_class_hash_keys K))"
    "length (modified_contracts K) = card (set (modified_contracts K))"
    using wf by (simp_all add: keys_wf_def distinct_card)
  then show ?thesis
    using assms
    by (simp add: keys_of_changes_def get_onchain_data_segment_length_def StateChangesKeys_count_def hs_len_def
        CLASS_UPDATE_SIZE_def published_words_def)
qed

lemma into_keys_sets:
  "set (storage_keys (into_keys ch)) = dom (map_of (storage_updates ch))"
  "set (nonce_keys (into_keys ch)) = dom (map_of (nonce_updates ch))"
  "set (class_hash_keys (into_keys ch)) = dom (map_of (class_hash_updates ch))"
  "set (compiled_class_hash_keys (into_keys ch)) = dom (map_of (compiled_class_hash_updates ch))"
  "set (modified_contracts (into_keys ch)) = changed_contracts ch"
  by (simp_all add: into_keys_def get_modified_contracts_def changed_contracts_def)

lemma keys_of_changes_extend:
  assumes "keys_of_changes chs K" and "keys_wf (into_keys ch)"
  shows "keys_of_changes (chs @ [ch]) (StateChangesKeys_extend K (StateChangesKeys_difference (into_keys ch) K))"
  using assms residual_segment_length(1) [of K "into_keys ch"]
  by (auto simp: keys_of_changes_def into_keys_sets StateChangesKeys_extend_def StateChangesKeys_difference_def)

text \<open>
  C36: The state diff of a block is counted once. For every sequence of accepted and rejected
  transactions, the keys the bouncer has recorded are exactly the storage cells, nonces, class
  hashes, compiled class hashes and contracts that the accepted transactions actually changed, and
  its accumulated state diff size is the length of the data that publishes them: two words for every
  changed contract, one for every class hash, two for every storage cell and every compiled class
  hash, each counted once however many transactions changed it.
\<close>

theorem block_state_diff_is_counted_once:
  assumes "changed_block E R config chs b"
  shows "keys_of_changes chs (b_state_changes_keys b)
    \<and> bw_state_diff_size (b_accumulated_weights b) = of_nat (published_words chs)"
proof -
  have "keys_of_changes chs (b_state_changes_keys b) \<and> bw_state_diff_size (b_accumulated_weights b) =
      get_onchain_data_segment_length (StateChangesKeys_count (b_state_changes_keys b))"
    using assms
  proof (induction rule: changed_block.induct)
    case no_changes
    then show ?case
      by (simp add: Bouncer_new_def StateChangesKeys_default_def keys_of_changes_def keys_wf_def StateChangesKeys_count_def
          hs_len_def BouncerWeights_default_def get_onchain_data_segment_length_def)
  next
    case (accepted_changes chs b state ch state1 summary resources b' state')
    obtain keys w where keys: "keys = StateChangesKeys_difference (into_keys ch) (b_state_changes_keys b)"
      and w: "get_tx_weights E R b summary resources keys state1 = (Ok w, state')"
      and b': "b' = Bouncer_update w summary keys b"
      using accepted_changes.hyps(4) by (rule try_update_changes [OF accepted_changes.hyps(3)])
    have "bw_state_diff_size w = get_onchain_data_segment_length (StateChangesKeys_count keys)"
      using w by (auto simp: get_tx_weights_def Let_def elim!: sbind_OkE)
    moreover have wf: "keys_wf (into_keys ch)"
      by (rule into_keys_wf [OF actual_state_changes_wf [OF accepted_changes.hyps(3,2)]])
    ultimately show ?case
      using keys_of_changes_extend [OF _ wf] residual_segment_length(2) [OF _ wf, of "b_state_changes_keys b"] accepted_changes.IH
      by (simp add: b' keys BouncerWeights_add_def Bouncer_update_def keys_of_changes_def)
  next
    case (rejected_changes chs b summary resources state r b' state')
    then show ?case
      using try_update_not_Ok by metis
  qed
  then show ?thesis
    using segment_length_of_keys by simp
qed

subsection \<open>A block\<close>

definition weights_example :: "usize \<Rightarrow> BouncerWeights" where
  "weights_example n =
     \<lparr>bw_builtin_count = \<lparr>bc_bitwise = n, bc_ecdsa = n, bc_ec_op = n, bc_keccak = 0, bc_pedersen = n, bc_poseidon = n, bc_range_check = n\<rparr>,
      bw_gas = n, bw_message_segment_length = n, bw_n_events = n, bw_n_steps = n, bw_state_diff_size = n\<rparr>"

definition bouncer_config_example :: BouncerConfig where
  "bouncer_config_example =
     \<lparr>block_max_capacity = weights_example 1000000, block_max_capacity_with_keccak = weights_example 1000000\<rparr>"

definition tx_resources_example :: TransactionResources where
  "tx_resources_example =
     \<lparr>tr_starknet_resources = StarknetResources_new 4 2 0
        \<lparr>n_storage_updates = 1, n_class_hash_updates = 0, n_compiled_class_hash_updates = 0, n_modified_contracts = 1\<rparr> None [],
      tr_vm_resources = \<lparr>er_n_steps = 1000, er_n_memory_holes = 3, er_builtin_instance_counter = [(''range_check'', 100)]\<rparr>,
      tr_n_reverted_steps = 0\<rparr>"

definition summary_example :: ExecutionSummary where
  "summary_example = ExecutionSummary_default\<lparr>es_visited_storage_entries := [(7, 10)]\<rparr>"

definition written_example :: "DictStateReader CachedState" where
  "written_example = snd (set_storage_at 7 10 6 cached_example)"

definition bouncer_example :: Bouncer where
  "bouncer_example =
     fst (snd (try_update reference_externals dict_reader summary_example tx_resources_example
       (Bouncer_new bouncer_config_example, written_example)))"

definition changes_example :: StateChanges where
  "changes_example =
     \<lparr>storage_updates = [((7, 10), 6)], nonce_updates = [], class_hash_updates = [], compiled_class_hash_updates = []\<rparr>"

definition keys_example :: StateChangesKeys where
  "keys_example =
     \<lparr>nonce_keys = [], class_hash_keys = [], storage_keys = [(7, 10)], compiled_class_hash_keys = [], modified_contracts = [7]\<rparr>"

lemma written_example_changes: "\<exists>s. get_actual_state_changes dict_reader written_example = (Ok changes_example, s)"
  by (simp add: get_actual_state_changes_def update_initial_values_of_write_only_access_def changes_example_def
      written_example_def cached_example_def CachedState_new_def set_storage_at_def with_cache_def set_storage_value_def
      StateCache_default_def StateMaps_default_def hm_insert_def sbind_def smap_err_def hm_keys_def cache_initial_storage_def
      dict_reader_def dict_get_storage_at_def dict_example_def cache_state_changes_def get_storage_updates_def
      get_nonce_updates_def get_class_hash_updates_def get_compiled_class_hash_updates_def strict_subtract_mappings_def
      subtract_mappings_def set_storage_initial_value_def unwrap_or_default_def hm_contains_def)

lemma written_example_keys:
  assumes "get_actual_state_changes dict_reader written_example = (Ok changes_example, s)"
  shows "get_state_changes_keys dict_reader (Bouncer_new bouncer_config_example) written_example = (Ok keys_example, s)"
  using assms
  by (simp add: get_state_changes_keys_def smap_err_def sbind_def changes_example_def StateChangesKeys_difference_def
      Bouncer_new_def StateChangesKeys_default_def into_keys_def hs_difference_def get_modified_contracts_def hs_extend_def
      hs_from_def hs_insert_def hm_keys_def keys_example_def)

definition tx_weights_example :: BouncerWeights where
  "tx_weights_example =
     \<lparr>bw_builtin_count = BuiltinCount_default\<lparr>bc_pedersen := 48, bc_range_check := 100\<rparr>,
      bw_gas = 0, bw_message_segment_length = 0, bw_n_events = 0, bw_n_steps = 1771, bw_state_diff_size = 4\<rparr>"

lemma tx_resources_example_messages:
  "calculate_message_l1_resources (tr_starknet_resources tx_resources_example) = Ok (0, 0)"
  by (simp add: calculate_message_l1_resources_def tx_resources_example_def StarknetResources_new_def
      calculate_events_resources_def MessageL1CostInfo_calculate_def get_message_segment_length_def get_messages_gas_usage_def
      get_consumed_message_to_l2_emissions_cost_def get_log_message_to_l1_emissions_cost_def GasVector_sum_def
      GasVector_add_def GasVector_default_def from_l1_gas_def vec_len_def u128_from_usize_def usize_from_u128_def)

lemma patricia_example:
  "get_particia_update_resources reference_externals [] [(7, 10)] =
    \<lparr>er_n_steps = 768, er_n_memory_holes = 0, er_builtin_instance_counter = [(''pedersen'', 48)]\<rparr>"
  by (simp add: get_particia_update_resources_def TREE_HEIGHT_UPPER_BOUND_def hs_len_def hs_difference_def
      reference_externals_def reference_builtin_name_def)

lemma vm_resources_sum_example:
  "er_add reference_externals (er_add reference_externals er_default
      \<lparr>er_n_steps = 768, er_n_memory_holes = 0, er_builtin_instance_counter = [(''pedersen'', 48)]\<rparr>)
     (tr_vm_resources tx_resources_example) =
    \<lparr>er_n_steps = 1768, er_n_memory_holes = 3, er_builtin_instance_counter = [(''pedersen'', 48), (''range_check'', 100)]\<rparr>"
  by (simp add: reference_externals_def merge_counters_def counter_value_def hm_keys_def er_default_def tx_resources_example_def)

lemma builtin_count_example:
  "BuiltinCount_from reference_externals [(''pedersen'', 48), (''range_check'', 100)] =
    Ok (BuiltinCount_default\<lparr>bc_pedersen := 48, bc_range_check := 100\<rparr>)"
  by (simp add: BuiltinCount_from_def reference_externals_def reference_builtin_name_def counted_builtins_def hm_remove_def
      BuiltinCount_default_def)

lemma tx_resources_example_weights:
  "get_tx_weights reference_externals R (Bouncer_new config) summary_example tx_resources_example keys_example s =
    (Ok tx_weights_example, s)"
proof -
  have "prover_builtins reference_externals
      \<lparr>er_n_steps = 1768, er_n_memory_holes = 3, er_builtin_instance_counter = [(''pedersen'', 48), (''range_check'', 100)]\<rparr>
      = [(''pedersen'', 48), (''range_check'', 100)]"
    and "total_n_steps reference_externals
      \<lparr>er_n_steps = 1768, er_n_memory_holes = 3, er_builtin_instance_counter = [(''pedersen'', 48), (''range_check'', 100)]\<rparr>
      = 1771"
    by (simp_all add: prover_builtins_def total_n_steps_def reference_externals_def reference_builtin_name_def hm_remove_def
        builtin_count_def)
  then show ?thesis
    by (simp add: get_tx_weights_def sbind_def tx_resources_example_messages get_casm_hash_calculation_resources_def
        summary_example_def ExecutionSummary_default_def Bouncer_new_def hs_difference_def [of "[]"] patricia_example
        vm_resources_sum_example builtin_count_example)
      (simp add: tx_weights_example_def tx_resources_example_def StarknetResources_new_def calculate_events_resources_def
        get_onchain_data_segment_length_def StateChangesKeys_count_def keys_example_def hs_len_def CLASS_UPDATE_SIZE_def)
qed

lemma written_example_wf: "maps_wf (writes (cs_cache written_example))"
  by (simp add: written_example_def set_storage_at_def with_cache_def set_storage_value_def cached_example_def
      CachedState_new_def StateCache_default_def StateMaps_default_def maps_wf_def)

lemma try_update_example:
  assumes "get_actual_state_changes dict_reader written_example = (Ok changes_example, s)"
  shows "try_update reference_externals dict_reader summary_example tx_resources_example
    (Bouncer_new bouncer_config_example, written_example) = (Ok (), (bouncer_example, s))"
proof -
  have "has_room (weights_example 1000000) tx_weights_example"
    and "chosen_capacity bouncer_config_example BouncerWeights_default tx_weights_example = weights_example 1000000"
    and "BouncerWeights_add BouncerWeights_default tx_weights_example = tx_weights_example"
    by (simp_all add: has_room_iff weight_fields_def weights_example_def tx_weights_example_def BuiltinCount_default_def
        chosen_capacity_def bouncer_config_example_def BouncerWeights_default_def BouncerWeights_add_def BuiltinCount_add_def)
  then show ?thesis
    unfolding bouncer_example_def
    by (simp add: try_update_def sbind_def written_example_keys [OF assms] tx_resources_example_weights)
qed

lemma block_example: "block_of reference_externals dict_reader bouncer_config_example [tx_weights_example] bouncer_example"
proof -
  obtain s where changes: "get_actual_state_changes dict_reader written_example = (Ok changes_example, s)"
    using written_example_changes by blast
  have weights: "tx_weights_of reference_externals dict_reader summary_example tx_resources_example
      (Bouncer_new bouncer_config_example) written_example = Ok tx_weights_example"
    by (simp add: tx_weights_of_def sbind_def written_example_keys [OF changes] tx_resources_example_weights)
  show ?thesis
    using accepted_tx [OF empty_block _ _ weights] written_example_wf try_update_example [OF changes] by simp
qed

lemma changed_block_example:
  "changed_block reference_externals dict_reader bouncer_config_example [changes_example] bouncer_example"
proof -
  obtain s where changes: "get_actual_state_changes dict_reader written_example = (Ok changes_example, s)"
    using written_example_changes by blast
  show ?thesis
    using accepted_changes [OF no_changes written_example_wf changes try_update_example [OF changes]] by simp
qed

theorem block_stays_within_capacity_witness:
  "map unat (weight_fields (b_accumulated_weights bouncer_example)) = total_weights [tx_weights_example]
   \<and> has_room (weights_example 1000000) (b_accumulated_weights bouncer_example)"
proof -
  have "weights_small (block_max_capacity bouncer_config_example)"
    and "weights_small (block_max_capacity_with_keccak bouncer_config_example)"
    by (simp_all add: bouncer_config_example_def weights_example_def weights_small_def weight_fields_def)
  then show ?thesis
    using block_stays_within_capacity [OF block_example]
    by (simp add: block_capacity_def bouncer_config_example_def split: if_splits)
qed

theorem block_state_diff_is_counted_once_witness:
  "set (storage_keys (b_state_changes_keys bouncer_example)) = {(7, 10)}
   \<and> set (modified_contracts (b_state_changes_keys bouncer_example)) = {7}
   \<and> bw_state_diff_size (b_accumulated_weights bouncer_example) = 4"
  using block_state_diff_is_counted_once [OF changed_block_example]
  by (simp add: keys_of_changes_def published_words_def changed_contracts_def changes_example_def)

end
