(* ===== verification/Fee_Checks.thy ===== *)
theory Fee_Checks
  imports Bouncer
begin

text \<open>
  The receipt of a transaction (\<open>fee/actual_cost.rs\<close>) and the checks of its cost against the
  bounds and the balance of the sender (\<open>fee/fee_checks.rs\<close>).
\<close>

section \<open>Receipts\<close>

record TransactionReceipt =
  receipt_fee :: Fee
  receipt_gas :: GasVector
  receipt_da_gas :: GasVector
  receipt_resources :: TransactionResources

record TransactionReceiptParameters =
  rcp_tx_context :: TransactionContext
  rcp_calldata_length :: usize
  rcp_signature_length :: usize
  rcp_code_size :: usize
  rcp_state_changes :: StateChanges
  rcp_sender_address :: "ContractAddress option"
  rcp_l1_handler_payload_size :: "usize option"
  rcp_call_infos :: "CallInfo list"
  rcp_execution_resources :: ExecutionResources
  rcp_tx_type :: TransactionType
  rcp_reverted_steps :: usize

definition TransactionReceipt_from_params ::
    "'a Externals_scheme \<Rightarrow> TransactionReceiptParameters \<Rightarrow> (TransactionExecutionError, TransactionReceipt) result" where
  "TransactionReceipt_from_params E params =
     (let tx_context = rcp_tx_context params;
          context = block_context tx_context;
          use_kzg = use_kzg_da (block_info context);
          starknet_resources = StarknetResources_new (rcp_calldata_length params) (rcp_signature_length params)
            (rcp_code_size params)
            (count_for_fee_charge E (rcp_state_changes params) (rcp_sender_address params) (fee_token_address tx_context))
            (rcp_l1_handler_payload_size params) (rcp_call_infos params)
      in rbind (vc_get_additional_os_tx_resources E (versioned_constants context) (rcp_tx_type params) starknet_resources use_kzg)
        (\<lambda>additional_resources.
         let cairo_resources = er_filter_unused_builtins E (er_add E (rcp_execution_resources params) additional_resources);
             tx_resources = \<lparr>tr_starknet_resources = starknet_resources, tr_vm_resources = cairo_resources,
               tr_n_reverted_steps = rcp_reverted_steps params\<rparr>
         in rbind (map_err TxFeeError (enforce_fee (tx_info tx_context))) (\<lambda>enforced.
            rbind (if enforced \<or> rcp_tx_type params = TxL1Handler
                   then map_err TxFeeError (calculate_tx_fee E tx_resources context (ti_fee_type (tx_info tx_context)))
                   else Ok 0) (\<lambda>fee.
            rbind (map_err TxFeeError (TransactionResources_to_gas_vector E tx_resources (versioned_constants context) use_kzg))
              (\<lambda>gas.
               Ok \<lparr>receipt_fee = fee, receipt_gas = gas,
                   receipt_da_gas = get_state_changes_cost starknet_resources use_kzg,
                   receipt_resources = tx_resources\<rparr>)))))"

definition TransactionReceipt_from_l1_handler ::
    "'a Externals_scheme \<Rightarrow> TransactionContext \<Rightarrow> usize \<Rightarrow> CallInfo list \<Rightarrow> StateChanges \<Rightarrow> ExecutionResources
      \<Rightarrow> (TransactionExecutionError, TransactionReceipt) result" where
  "TransactionReceipt_from_l1_handler E tx_context l1_handler_payload_size call_infos state_changes execution_resources =
     TransactionReceipt_from_params E
       \<lparr>rcp_tx_context = tx_context,
        rcp_calldata_length = l1_handler_payload_size,
        rcp_signature_length = 0,
        rcp_code_size = 0,
        rcp_state_changes = state_changes,
        rcp_sender_address = None,
        rcp_l1_handler_payload_size = Some l1_handler_payload_size,
        rcp_call_infos = call_infos,
        rcp_execution_resources = execution_resources,
        rcp_tx_type = TxL1Handler,
        rcp_reverted_steps = 0\<rparr>"

section \<open>Fee checks\<close>

record FeeCheckReport =
  recommended_fee :: Fee
  report_error :: "FeeCheckError option"

definition success_report :: "Fee \<Rightarrow> FeeCheckReport" where
  "success_report actual_fee = \<lparr>recommended_fee = actual_fee, report_error = None\<rparr>"

definition from_fee_check_error ::
    "Fee \<Rightarrow> FeeCheckError \<Rightarrow> TransactionContext \<Rightarrow> (TransactionExecutionError, FeeCheckReport) result" where
  "from_fee_check_error actual_fee error tx_context =
     rbind
       (case error of
          InsufficientFeeTokenBalance _ _ _ \<Rightarrow> Ok actual_fee
        | _ \<Rightarrow>
            (case tx_info tx_context of
               Current info \<Rightarrow>
                 rbind (map_err TxFeeError (l1_resource_bounds info)) (\<lambda>bounds.
                   Ok (get_fee_by_gas_vector (block_info (block_context tx_context))
                        (from_l1_gas (ucast (max_amount bounds))) Strk))
             | Deprecated context \<Rightarrow> Ok (dti_max_fee context)))
       (\<lambda>fee. Ok \<lparr>recommended_fee = fee, report_error = Some error\<rparr>)"

definition check_actual_cost_within_bounds ::
    "TransactionContext \<Rightarrow> TransactionReceipt \<Rightarrow> (TransactionExecutionError, unit) result" where
  "check_actual_cost_within_bounds tx_context tx_receipt =
     (case tx_info tx_context of
        Current context \<Rightarrow>
          rbind (map_err TxFeeError (l1_resource_bounds context)) (\<lambda>bounds.
            let max_l1_gas = ucast (max_amount bounds);
                total_discounted_gas_used = compute_discounted_gas_from_gas_vector (receipt_gas tx_receipt) tx_context
            in if total_discounted_gas_used > max_l1_gas
               then Err (TxFeeCheckError (MaxL1GasAmountExceeded max_l1_gas total_discounted_gas_used))
               else Ok ())
      | Deprecated context \<Rightarrow>
          (if receipt_fee tx_receipt > dti_max_fee context
           then Err (TxFeeCheckError (MaxFeeExceeded (dti_max_fee context) (receipt_fee tx_receipt)))
           else Ok ()))"

definition check_can_pay_fee ::
    "'a Externals_scheme \<Rightarrow> 's StateReader \<Rightarrow> TransactionContext \<Rightarrow> TransactionReceipt
      \<Rightarrow> ('s CachedState, TransactionExecutionError, unit) action" where
  "check_can_pay_fee E R tx_context tx_receipt =
     sbind (smap_err TxFeeError (get_balance_and_if_covers_fee E R tx_context (receipt_fee tx_receipt)))
       (\<lambda>(balance_low, balance_high, can_pay).
          if can_pay then sret ()
          else slift (Err (TxFeeCheckError
            (InsufficientFeeTokenBalance (receipt_fee tx_receipt) balance_low balance_high))))"

definition PostValidationReport_verify ::
    "TransactionContext \<Rightarrow> TransactionReceipt \<Rightarrow> (TransactionExecutionError, unit) result" where
  "PostValidationReport_verify tx_context tx_receipt =
     rbind (map_err TxFeeError (enforce_fee (tx_info tx_context))) (\<lambda>enforced.
       if \<not> enforced then Ok ()
       else check_actual_cost_within_bounds tx_context tx_receipt)"

fun first_fee_check_error ::
    "TransactionContext \<Rightarrow> Fee \<Rightarrow> (TransactionExecutionError, unit) result list \<Rightarrow> (TransactionExecutionError, FeeCheckReport) result" where
  "first_fee_check_error tx_context fee [] = Ok (success_report fee)"
| "first_fee_check_error tx_context fee (Ok _ # rest) = first_fee_check_error tx_context fee rest"
| "first_fee_check_error tx_context fee (Err (TxFeeCheckError fee_check_error) # rest) =
     from_fee_check_error fee fee_check_error tx_context"
| "first_fee_check_error tx_context fee (Err other_error # rest) = Err other_error"
| "first_fee_check_error tx_context fee (Panic p # rest) = Panic p"

definition PostExecutionReport_new ::
    "'a Externals_scheme \<Rightarrow> 's StateReader \<Rightarrow> TransactionContext \<Rightarrow> TransactionReceipt \<Rightarrow> bool
      \<Rightarrow> ('s CachedState, TransactionExecutionError, FeeCheckReport) action" where
  "PostExecutionReport_new E R tx_context tx_receipt charge_fee =
     (let fee = receipt_fee tx_receipt in
      if \<not> charge_fee then sret (success_report fee)
      else sbind (slift (map_err TxFeeError (enforce_fee (tx_info tx_context)))) (\<lambda>enforced.
        if \<not> enforced then sret (success_report fee)
        else (\<lambda>state.
          let cost_with_bounds_result = check_actual_cost_within_bounds tx_context tx_receipt;
              (can_pay_fee_result, state') = check_can_pay_fee E R tx_context tx_receipt state
          in (first_fee_check_error tx_context fee [cost_with_bounds_result, can_pay_fee_result], state'))))"

section \<open>The fee of a receipt\<close>

text \<open>No wrap-around in the computation of the discounted gas.\<close>

definition discount_exact :: "GasVector \<Rightarrow> TransactionContext \<Rightarrow> bool" where
  "discount_exact gas tx_context \<longleftrightarrow>
     (let prices = gas_prices (block_info (block_context tx_context));
          t = ti_fee_type (tx_info tx_context);
          data_cost = unat (l1_data_gas gas) * unat (get_data_gas_price_by_fee_type prices t)
      in data_cost < 2 ^ 128
       \<and> unat (l1_gas gas) + unat (u128_div_ceil (of_nat data_cost) (get_gas_price_by_fee_type prices t)) < 2 ^ 128)"

lemma max_amount_u128 [simp]: "unat (ucast x :: u128) = unat x" for x :: u64
  using unat_u64_less [of x] by (simp add: unsigned_ucast_eq take_bit_nat_eq_self)

lemma receipt_fee_of_gas:
  assumes "TransactionReceipt_from_params E params = Ok receipt"
    and "enforce_fee (tx_info (rcp_tx_context params)) = Ok True"
  shows "receipt_fee receipt = get_fee_by_gas_vector (block_info (block_context (rcp_tx_context params)))
    (receipt_gas receipt) (ti_fee_type (tx_info (rcp_tx_context params)))"
  using assms
  by (auto simp: TransactionReceipt_from_params_def Let_def rbind_Ok_iff calculate_tx_fee_def)

subsection \<open>A transaction\<close>

definition receipt_params_example :: TransactionReceiptParameters where
  "receipt_params_example =
     \<lparr>rcp_tx_context = tx_context_example, rcp_calldata_length = 4, rcp_signature_length = 2, rcp_code_size = 0,
      rcp_state_changes = StateChanges_default, rcp_sender_address = Some 7, rcp_l1_handler_payload_size = None,
      rcp_call_infos = [], rcp_execution_resources = er_default\<lparr>er_n_steps := 100000\<rparr>,
      rcp_tx_type = TxInvokeFunction, rcp_reverted_steps = 0\<rparr>"

definition count_example :: StateChangesCount where
  "count_example =
     \<lparr>n_storage_updates = 1, n_class_hash_updates = 0, n_compiled_class_hash_updates = 0, n_modified_contracts = 0\<rparr>"

definition starknet_resources_example :: StarknetResources where
  "starknet_resources_example =
     \<lparr>sn_calldata_length = 4, sn_state_changes_for_fee = count_example,
      sn_message_cost_info = \<lparr>mi_l2_to_l1_payload_lengths = [], mi_message_segment_length = 0\<rparr>,
      sn_l1_handler_payload_size = None, sn_n_events = 0, sn_signature_length = 2, sn_code_size = 0,
      sn_total_event_keys = 0, sn_total_event_data_size = 0\<rparr>"

definition vm_resources_example :: ExecutionResources where
  "vm_resources_example =
     \<lparr>er_n_steps = 100165, er_n_memory_holes = 0, er_builtin_instance_counter = [(''poseidon'', 2)]\<rparr>"

lemma no_changes_count:
  "count_for_fee_charge reference_externals StateChanges_default (Some 7) a = count_example"
  by (simp add: count_for_fee_charge_def StateChanges_default_def get_modified_contracts_def count_example_def hm_len_def hs_len_def
      hm_keys_def hs_from_def hs_extend_def hs_remove_def)

lemma starknet_resources_of_example:
  "StarknetResources_new 4 2 0 count_example None [] = starknet_resources_example"
  by (simp add: StarknetResources_new_def calculate_events_resources_def MessageL1CostInfo_calculate_def
      get_message_segment_length_def starknet_resources_example_def)

lemma os_resources_of_example:
  "vc_get_additional_os_tx_resources reference_externals vc_example TxInvokeFunction starknet_resources_example True =
    Ok \<lparr>er_n_steps = 165, er_n_memory_holes = 0, er_builtin_instance_counter = [(''poseidon'', 2)]\<rparr>"
  by (simp add: vc_get_additional_os_tx_resources_def starknet_resources_example_def count_example_def
      get_onchain_data_segment_length_def get_additional_os_tx_resources_def resources_for_tx_type_def
      resources_params_for_tx_type_def os_kzg_da_resources_def poseidon_hash_many_cost_def vc_example_def os_example_def
      TransactionType_iter_def er_default_def reference_externals_def reference_builtin_name_def merge_counters_def
      counter_value_def hm_keys_def)

lemma vm_resources_of_example:
  "er_filter_unused_builtins reference_externals (er_add reference_externals (er_default\<lparr>er_n_steps := 100000\<rparr>)
      \<lparr>er_n_steps = 165, er_n_memory_holes = 0, er_builtin_instance_counter = [(''poseidon'', 2)]\<rparr>) = vm_resources_example"
  by (simp add: reference_externals_def merge_counters_def counter_value_def hm_keys_def er_default_def vm_resources_example_def)

lemma starknet_gas_of_example:
  "StarknetResources_to_gas_vector reference_externals starknet_resources_example vc_example True = \<lparr>l1_gas = 0, l1_data_gas = 64\<rparr>"
  by (simp add: StarknetResources_to_gas_vector_def get_calldata_and_signature_cost_def get_code_cost_def
      get_state_changes_cost_def get_da_gas_cost_def get_messages_cost_def get_events_cost_def get_messages_gas_usage_def
      get_consumed_message_to_l2_emissions_cost_def get_log_message_to_l1_emissions_cost_def GasVector_sum_def
      GasVector_add_def GasVector_default_def from_l1_gas_def starknet_resources_example_def count_example_def
      get_onchain_data_segment_length_def DATA_GAS_PER_FIELD_ELEMENT_def DATA_GAS_PER_BLOB_def FIELD_ELEMENTS_PER_BLOB_def
      u128_from_usize_def vec_len_def vc_example_def ratio_def reference_externals_def)

lemma vm_gas_of_example:
  "calculate_l1_gas_by_vm_usage reference_externals vc_example vm_resources_example 0 = Ok \<lparr>l1_gas = 251, l1_data_gas = 0\<rparr>"
  by (simp add: calculate_l1_gas_by_vm_usage_def vm_resource_usage_for_fee_def prover_builtins_def total_n_steps_def
      builtin_count_def vm_resources_example_def vc_example_def ratio_def reference_externals_def reference_builtin_name_def
      hm_remove_def hm_insert_def N_STEPS_RESOURCE_def from_l1_gas_def u128_from_usize_def max_def hm_keys_def)
    (simp add: word_le_nat_alt)

definition receipt_example :: TransactionReceipt where
  "receipt_example =
     \<lparr>receipt_fee = 50520, receipt_gas = \<lparr>l1_gas = 251, l1_data_gas = 64\<rparr>, receipt_da_gas = \<lparr>l1_gas = 0, l1_data_gas = 64\<rparr>,
      receipt_resources = \<lparr>tr_starknet_resources = starknet_resources_example, tr_vm_resources = vm_resources_example,
        tr_n_reverted_steps = 0\<rparr>\<rparr>"

lemma fee_type_example: "ti_fee_type tx_info_example = Strk" "enforce_fee tx_info_example = Ok True"
  by (simp_all add: ti_fee_type_def fee_type_def ti_version_def tx_info_example_def l1_resource_bounds_def)

lemma sender_example: "ti_sender_address tx_info_example = 7"
  by (simp add: ti_sender_address_def tx_info_example_def)

lemma receipt_of_example: "TransactionReceipt_from_params reference_externals receipt_params_example = Ok receipt_example"
proof -
  have gas: "TransactionResources_to_gas_vector reference_externals (receipt_resources receipt_example) vc_example True =
      Ok \<lparr>l1_gas = 251, l1_data_gas = 64\<rparr>"
    by (simp add: TransactionResources_to_gas_vector_def receipt_example_def vm_gas_of_example starknet_gas_of_example GasVector_add_def)
  have fee: "get_fee_by_gas_vector block_info_example \<lparr>l1_gas = 251, l1_data_gas = 64\<rparr> Strk = 50520"
    by (simp add: get_fee_by_gas_vector_def saturated_cost_def checked_mul_def checked_add_def block_info_example_def
        get_gas_price_by_fee_type_def get_data_gas_price_by_fee_type_def)
  have da: "get_state_changes_cost starknet_resources_example True = \<lparr>l1_gas = 0, l1_data_gas = 64\<rparr>"
    by (simp add: get_state_changes_cost_def get_da_gas_cost_def starknet_resources_example_def count_example_def
        get_onchain_data_segment_length_def DATA_GAS_PER_FIELD_ELEMENT_def DATA_GAS_PER_BLOB_def FIELD_ELEMENTS_PER_BLOB_def
        u128_from_usize_def)
  have "versioned_constants block_context_example = vc_example" "block_info block_context_example = block_info_example"
    "use_kzg_da block_info_example" "tx_info tx_context_example = tx_info_example"
    "block_context tx_context_example = block_context_example"
    by (simp_all add: block_context_example_def block_info_example_def tx_context_example_def)
  then show ?thesis
    using gas
    by (simp add: TransactionReceipt_from_params_def receipt_params_example_def no_changes_count starknet_resources_of_example
        os_resources_of_example vm_resources_of_example fee_type_example calculate_tx_fee_def fee da receipt_example_def)
qed

end
