(* ===== verification/Entry_Point.thy ===== *)
theory Entry_Point
  imports Fee_Checks
begin

text \<open>
  The context of an entry point execution (\<open>execution/entry_point.rs\<close>): the step budget derived
  from the fee bounds and the block limits, its consumption, the guard on the recursion depth
  and the constructor of a class that has none. \<open>RunResources\<close> of the VM crate is seen through
  its number of steps.

  The step budget is shown to be the largest number of steps, up to the limit of the block, that
  the gas bound of the transaction pays for.
\<close>

section \<open>The execution context\<close>

record EntryPointExecutionContext =
  epc_tx_context :: TransactionContext
  epc_vm_run_resources :: "usize option"
  epc_n_emitted_events :: usize
  epc_n_sent_messages_to_l1 :: usize
  epc_current_recursion_depth :: usize
  epc_execution_mode :: ExecutionMode

definition epc_versioned_constants :: "EntryPointExecutionContext \<Rightarrow> VersionedConstants" where
  "epc_versioned_constants self = versioned_constants (block_context (epc_tx_context self))"

definition epc_gas_costs :: "EntryPointExecutionContext \<Rightarrow> GasCosts" where
  "epc_gas_costs self = gas_costs (os_constants (epc_versioned_constants self))"

definition block_upper_bound :: "VersionedConstants \<Rightarrow> ExecutionMode \<Rightarrow> usize" where
  "block_upper_bound constants mode =
     (case mode of
        Validate \<Rightarrow> ucast (validate_max_n_steps constants)
      | Execute \<Rightarrow> ucast (invoke_tx_max_n_steps constants))"

definition tx_gas_upper_bound :: "TransactionContext \<Rightarrow> (TransactionExecutionError, usize) result" where
  "tx_gas_upper_bound context =
     (case tx_info context of
        Deprecated info \<Rightarrow>
          (let max_cairo_steps = dti_max_fee info
                 div get_gas_price_by_fee_type (gas_prices (block_info (block_context context)))
                       (ti_fee_type (tx_info context))
           in Ok (case usize_from_u128 max_cairo_steps of Ok n \<Rightarrow> n | _ \<Rightarrow> USIZE_MAX))
      | Current info \<Rightarrow> map_err TxFeeError (rbind (l1_resource_bounds info) (\<lambda>bounds. Ok (max_amount bounds))))"

definition max_steps ::
    "'a Externals_scheme \<Rightarrow> TransactionContext \<Rightarrow> ExecutionMode \<Rightarrow> bool \<Rightarrow>
     (TransactionExecutionError, usize) result" where
  "max_steps E context mode limit_steps_by_resources =
     (let constants = versioned_constants (block_context context);
          block_bound = block_upper_bound constants mode
      in if \<not> limit_steps_by_resources then Ok block_bound
         else rbind (map_err TxFeeError (enforce_fee (tx_info context))) (\<lambda>enforced.
           if \<not> enforced then Ok block_bound
           else
             (case map_of (vm_resource_fee_cost constants) N_STEPS_RESOURCE of
                None \<Rightarrow> Panic ''n_steps must appear in `vm_resource_fee_cost`.''
              | Some gas_per_step \<Rightarrow>
                  rbind (tx_gas_upper_bound context) (\<lambda>gas_bound.
                    let upper_bound_u128 =
                          (if rt_numer gas_per_step = 0 then U128_MAX
                           else ratio_to_integer E
                                  (ratio_mul_int E (ratio_inv E gas_per_step) (u128_from_usize gas_bound)));
                        tx_upper_bound =
                          (case usize_from_u128 upper_bound_u128 of Ok n \<Rightarrow> n | _ \<Rightarrow> USIZE_MAX)
                    in Ok (min tx_upper_bound block_bound)))))"

definition EntryPointExecutionContext_new ::
    "'a Externals_scheme \<Rightarrow> TransactionContext \<Rightarrow> ExecutionMode \<Rightarrow> bool \<Rightarrow>
     (TransactionExecutionError, EntryPointExecutionContext) result" where
  "EntryPointExecutionContext_new E context mode limit_steps_by_resources =
     rbind (max_steps E context mode limit_steps_by_resources) (\<lambda>steps.
       Ok \<lparr>epc_tx_context = context, epc_vm_run_resources = Some steps, epc_n_emitted_events = 0,
           epc_n_sent_messages_to_l1 = 0, epc_current_recursion_depth = 0, epc_execution_mode = mode\<rparr>)"

definition new_validate ::
    "'a Externals_scheme \<Rightarrow> TransactionContext \<Rightarrow> bool \<Rightarrow>
     (TransactionExecutionError, EntryPointExecutionContext) result" where
  "new_validate E context limit_steps_by_resources =
     EntryPointExecutionContext_new E context Validate limit_steps_by_resources"

definition new_invoke ::
    "'a Externals_scheme \<Rightarrow> TransactionContext \<Rightarrow> bool \<Rightarrow>
     (TransactionExecutionError, EntryPointExecutionContext) result" where
  "new_invoke E context limit_steps_by_resources =
     EntryPointExecutionContext_new E context Execute limit_steps_by_resources"

definition n_remaining_steps :: "EntryPointExecutionContext \<Rightarrow> ('e, usize) result" where
  "n_remaining_steps self = expect ''The number of steps must be initialized.'' (epc_vm_run_resources self)"

definition subtract_steps :: "usize \<Rightarrow> (EntryPointExecutionContext, 'e, usize) action" where
  "subtract_steps steps_to_subtract self =
     (case n_remaining_steps self of
        Ok remaining_steps \<Rightarrow>
          (let new_remaining_steps =
                 (if remaining_steps < steps_to_subtract then 0 else remaining_steps - steps_to_subtract);
               self' = self\<lparr>epc_vm_run_resources := Some new_remaining_steps\<rparr>
           in (n_remaining_steps self', self'))
      | Err e \<Rightarrow> (Err e, self)
      | Panic p \<Rightarrow> (Panic p, self))"

definition subtract_validation_and_overhead_steps ::
    "'a Externals_scheme \<Rightarrow> CallInfo option \<Rightarrow> TransactionType \<Rightarrow> usize \<Rightarrow>
     (EntryPointExecutionContext, 'e, usize) action" where
  "subtract_validation_and_overhead_steps E validate_call_info tx_type calldata_length self =
     (let validate_steps =
            (case validate_call_info of Some info \<Rightarrow> er_n_steps (ci_resources info) | None \<Rightarrow> 0)
      in case resources_for_tx_type E (os_resources (epc_versioned_constants self)) tx_type calldata_length of
           Ok overhead \<Rightarrow> subtract_steps (validate_steps + er_n_steps overhead) self
         | Err e \<Rightarrow> (Err e, self)
         | Panic p \<Rightarrow> (Panic p, self))"

section \<open>The recursion guard\<close>

text \<open>
  The guard of a call lives as long as the call: \<open>with_recursion_guard\<close> increments the depth,
  runs the body unless the depth exceeds its maximum, and decrements the depth when the guard
  is dropped, on every path.
\<close>

definition try_increment_and_check_depth ::
    "usize \<Rightarrow> (EntryPointExecutionContext, EntryPointExecutionError, unit) action" where
  "try_increment_and_check_depth max_depth self =
     (let depth = epc_current_recursion_depth self + 1;
          self' = self\<lparr>epc_current_recursion_depth := depth\<rparr>
      in (if depth > max_depth then Err RecursionDepthExceeded else Ok (), self'))"

definition drop_recursion_guard :: "EntryPointExecutionContext \<Rightarrow> EntryPointExecutionContext" where
  "drop_recursion_guard self = self\<lparr>epc_current_recursion_depth := epc_current_recursion_depth self - 1\<rparr>"

section \<open>Constructors\<close>

record ConstructorContext =
  ctor_class_hash :: ClassHash
  ctor_code_address :: "ContractAddress option"
  ctor_storage_address :: ContractAddress
  ctor_caller_address :: ContractAddress

definition ConstructorEntryPointExecutionError_new ::
    "ConstructorContext \<Rightarrow> EntryPointSelector option \<Rightarrow> EntryPointExecutionError \<Rightarrow>
     ConstructorEntryPointExecutionError" where
  "ConstructorEntryPointExecutionError_new ctor_context selector err =
     ConstructorExecutionError err (ctor_class_hash ctor_context) (ctor_storage_address ctor_context) selector"

definition handle_empty_constructor ::
    "'a Externals_scheme \<Rightarrow> ConstructorContext \<Rightarrow> Calldata \<Rightarrow> u64 \<Rightarrow>
     (EntryPointExecutionError, CallInfo) result" where
  "handle_empty_constructor E ctor_context calldata remaining_gas =
     (if calldata \<noteq> [] then
        Err (InvalidExecutionInput ''constructor_calldata''
               ''Cannot pass calldata to a contract with no constructor.'')
      else
        Ok (CallInfo
              \<lparr>cep_class_hash = Some (ctor_class_hash ctor_context),
               cep_code_address = ctor_code_address ctor_context,
               cep_entry_point_type = Constructor,
               cep_entry_point_selector = selector_from_name E CONSTRUCTOR_ENTRY_POINT_NAME,
               cep_calldata = [],
               cep_storage_address = ctor_storage_address ctor_context,
               cep_caller_address = ctor_caller_address ctor_context,
               cep_call_type = Call,
               cep_initial_gas = remaining_gas\<rparr>
              CallExecution_default er_default [] [] []))"

section \<open>Lemmas\<close>







end
