(* ===== verification/Error_Traces.thy ===== *)
theory Error_Traces
  imports Entry_Point
begin

text \<open>
  The text of a failed transaction (\<open>execution/errors.rs\<close>, from \<open>ErrorStack\<close> on): the frames of a
  nested error are collected into a stack of lines, outermost first, and the joined lines are cut
  in the middle when they are too long. A string is the list of the bytes of its UTF-8 encoding;
  slicing it inside a character panics.

  The texts of the innermost errors, which the \<open>thiserror\<close> macros and the Cairo VM generate, and
  those of field elements are the fields of \<open>ErrorTexts\<close>.

  Formatting a \<open>TransactionExecutionError\<close> is recursive through its trace, and the recursion need
  not end, so \<open>TransactionExecutionError_fmt\<close> has fuel for the nesting of the calls of \<open>to_string\<close>.
\<close>

section \<open>Text\<close>

record ErrorTexts =
  felt_text :: "StarkFelt \<Rightarrow> string"
  class_hash_text :: "ClassHash \<Rightarrow> string"
  entry_point_error_text :: "EntryPointExecutionError \<Rightarrow> string"
  vm_error_text :: "VirtualMachineError \<Rightarrow> string"
  syscall_error_text :: "SyscallExecutionError \<Rightarrow> string"
  deprecated_syscall_error_text :: "DeprecatedSyscallExecutionError \<Rightarrow> string"
  transaction_error_text :: "TransactionExecutionError \<Rightarrow> string"

fun decimal :: "nat \<Rightarrow> string" where
  "decimal n = (if n < 10 then [char_of (48 + n)] else decimal (n div 10) @ [char_of (48 + n mod 10)])"

declare decimal.simps [simp del]

definition newline :: string where
  "newline = [CHR 0x0A]"

fun join_lines :: "string list \<Rightarrow> string" where
  "join_lines [] = []"
| "join_lines [line] = line"
| "join_lines (line # lines) = line @ newline @ join_lines lines"

definition is_char_boundary :: "string \<Rightarrow> nat \<Rightarrow> bool" where
  "is_char_boundary s i \<longleftrightarrow> i = 0 \<or> i = length s
     \<or> (i < length s \<and> \<not> (0x80 \<le> (of_char (s ! i) :: nat) \<and> (of_char (s ! i) :: nat) < 0xC0))"

definition slice_to :: "string \<Rightarrow> nat \<Rightarrow> ('e, string) result" where
  "slice_to s i = (if is_char_boundary s i then Ok (take i s) else Panic ''byte index is not a char boundary'')"

definition slice_from :: "string \<Rightarrow> nat \<Rightarrow> ('e, string) result" where
  "slice_from s i = (if is_char_boundary s i then Ok (drop i s) else Panic ''byte index is not a char boundary'')"

section \<open>Error stacks\<close>

definition TRACE_LENGTH_CAP :: nat where
  "TRACE_LENGTH_CAP = 15000"

definition TRACE_EXTRA_CHARS_SLACK :: nat where
  "TRACE_EXTRA_CHARS_SLACK = 100"

definition finalize_error_stack :: "string list \<Rightarrow> ('e, string) result" where
  "finalize_error_stack error_stack =
     (let error_stack_str = join_lines error_stack in
      if length error_stack_str > TRACE_LENGTH_CAP + TRACE_EXTRA_CHARS_SLACK then
        rbind (slice_to error_stack_str (TRACE_LENGTH_CAP div 2)) (\<lambda>beginning.
          rbind (slice_from error_stack_str (length error_stack_str - TRACE_LENGTH_CAP div 2)) (\<lambda>ending.
            Ok (beginning @ newline @ newline @ ''...'' @ newline @ newline @ ending)))
      else Ok error_stack_str)"

definition frame_preamble ::
    "'t ErrorTexts_scheme \<Rightarrow> usize \<Rightarrow> string \<Rightarrow> ContractAddress \<Rightarrow> ClassHash \<Rightarrow> EntryPointSelector option \<Rightarrow> string" where
  "frame_preamble T depth preamble_text storage_address class_hash selector =
     decimal (unat depth) @ '': '' @ preamble_text @ '' (contract address: '' @ felt_text T storage_address
     @ '', class hash: '' @ class_hash_text T class_hash @ '', selector: ''
     @ (case selector of Some s \<Rightarrow> felt_text T s | None \<Rightarrow> ''UNKNOWN'') @ ''):''"

definition call_contract_preamble ::
    "'t ErrorTexts_scheme \<Rightarrow> usize \<Rightarrow> ContractAddress \<Rightarrow> ClassHash \<Rightarrow> EntryPointSelector \<Rightarrow> string" where
  "call_contract_preamble T depth storage_address class_hash selector =
     frame_preamble T depth ''Error in the called contract'' storage_address class_hash (Some selector)"

definition library_call_preamble ::
    "'t ErrorTexts_scheme \<Rightarrow> usize \<Rightarrow> ContractAddress \<Rightarrow> ClassHash \<Rightarrow> EntryPointSelector \<Rightarrow> string" where
  "library_call_preamble T depth storage_address class_hash selector =
     frame_preamble T depth ''Error in a library call'' storage_address class_hash (Some selector)"

primrec extract_entry_point_execution_error_into_stack_trace ::
    "'t ErrorTexts_scheme \<Rightarrow> string list \<Rightarrow> usize \<Rightarrow> EntryPointExecutionError \<Rightarrow> string list"
  and extract_virtual_machine_error_into_stack_trace ::
    "'t ErrorTexts_scheme \<Rightarrow> string list \<Rightarrow> usize \<Rightarrow> VirtualMachineError \<Rightarrow> string list"
  and extract_syscall_execution_error_into_stack_trace ::
    "'t ErrorTexts_scheme \<Rightarrow> string list \<Rightarrow> usize \<Rightarrow> SyscallExecutionError \<Rightarrow> string list"
  and extract_deprecated_syscall_execution_error_into_stack_trace ::
    "'t ErrorTexts_scheme \<Rightarrow> string list \<Rightarrow> usize \<Rightarrow> DeprecatedSyscallExecutionError \<Rightarrow> string list"
where
  "extract_entry_point_execution_error_into_stack_trace T error_stack depth (EpVmException pc traceback inner_exc) =
     extract_virtual_machine_error_into_stack_trace T
       (error_stack @ [''Error at pc=0:'' @ decimal (unat pc) @ '':'']
        @ (case traceback of Some text \<Rightarrow> [text] | None \<Rightarrow> []))
       depth inner_exc"
| "extract_entry_point_execution_error_into_stack_trace T error_stack depth (EpCairoRunError text) =
     error_stack @ [text]"
| "extract_entry_point_execution_error_into_stack_trace T error_stack depth (ExecutionFailed error_data) =
     error_stack @ [entry_point_error_text T (ExecutionFailed error_data) @ newline]"
| "extract_entry_point_execution_error_into_stack_trace T error_stack depth (InternalError text) =
     error_stack @ [entry_point_error_text T (InternalError text) @ newline]"
| "extract_entry_point_execution_error_into_stack_trace T error_stack depth (InvalidExecutionInput input_descriptor info) =
     error_stack @ [entry_point_error_text T (InvalidExecutionInput input_descriptor info) @ newline]"
| "extract_entry_point_execution_error_into_stack_trace T error_stack depth (EpPostExecutionError error) =
     error_stack @ [entry_point_error_text T (EpPostExecutionError error) @ newline]"
| "extract_entry_point_execution_error_into_stack_trace T error_stack depth (EpPreExecutionError pre_error) =
     error_stack @ [entry_point_error_text T (EpPreExecutionError pre_error) @ newline]"
| "extract_entry_point_execution_error_into_stack_trace T error_stack depth RecursionDepthExceeded =
     error_stack @ [entry_point_error_text T RecursionDepthExceeded @ newline]"
| "extract_entry_point_execution_error_into_stack_trace T error_stack depth (EpStateError state_error) =
     error_stack @ [entry_point_error_text T (EpStateError state_error) @ newline]"
| "extract_entry_point_execution_error_into_stack_trace T error_stack depth (EpTraceError text) =
     error_stack @ [entry_point_error_text T (EpTraceError text) @ newline]"
| "extract_virtual_machine_error_into_stack_trace T error_stack depth (VmHintInternal internal_vm_error) =
     extract_virtual_machine_error_into_stack_trace T error_stack depth internal_vm_error"
| "extract_virtual_machine_error_into_stack_trace T error_stack depth (VmHint text) =
     error_stack @ [text]"
| "extract_virtual_machine_error_into_stack_trace T error_stack depth (VmOtherSyscall error) =
     extract_syscall_execution_error_into_stack_trace T error_stack depth error"
| "extract_virtual_machine_error_into_stack_trace T error_stack depth (VmOtherDeprecatedSyscall error) =
     extract_deprecated_syscall_execution_error_into_stack_trace T error_stack depth error"
| "extract_virtual_machine_error_into_stack_trace T error_stack depth (VmOther text) =
     error_stack"
| "extract_virtual_machine_error_into_stack_trace T error_stack depth (VmErrorMessage text) =
     error_stack @ [vm_error_text T (VmErrorMessage text) @ newline]"
| "extract_syscall_execution_error_into_stack_trace T error_stack depth (CallContractExecutionError class_hash storage_address selector error) =
     extract_syscall_execution_error_into_stack_trace T
       (error_stack @ [call_contract_preamble T depth storage_address class_hash selector]) (depth + 1) error"
| "extract_syscall_execution_error_into_stack_trace T error_stack depth (LibraryCallExecutionError class_hash storage_address selector error) =
     extract_syscall_execution_error_into_stack_trace T
       (error_stack @ [library_call_preamble T depth storage_address class_hash selector]) (depth + 1) error"
| "extract_syscall_execution_error_into_stack_trace T error_stack depth (SysEntryPointError error) =
     extract_entry_point_execution_error_into_stack_trace T error_stack depth error"
| "extract_syscall_execution_error_into_stack_trace T error_stack depth (BadSyscallPointer expected_ptr actual_ptr) =
     error_stack @ [syscall_error_text T (BadSyscallPointer expected_ptr actual_ptr)]"
| "extract_syscall_execution_error_into_stack_trace T error_stack depth (SysEmitEventError emit_error) =
     error_stack @ [syscall_error_text T (SysEmitEventError emit_error)]"
| "extract_syscall_execution_error_into_stack_trace T error_stack depth (ForbiddenClassReplacement hash) =
     error_stack @ [syscall_error_text T (ForbiddenClassReplacement hash)]"
| "extract_syscall_execution_error_into_stack_trace T error_stack depth (InvalidAddressDomain domain) =
     error_stack @ [syscall_error_text T (InvalidAddressDomain domain)]"
| "extract_syscall_execution_error_into_stack_trace T error_stack depth (SysConstructorError ctor_error) =
     error_stack @ [syscall_error_text T (SysConstructorError ctor_error)]"
| "extract_syscall_execution_error_into_stack_trace T error_stack depth (InvalidSyscallInput input info) =
     error_stack @ [syscall_error_text T (InvalidSyscallInput input info)]"
| "extract_syscall_execution_error_into_stack_trace T error_stack depth (InvalidSyscallSelector felt) =
     error_stack @ [syscall_error_text T (InvalidSyscallSelector felt)]"
| "extract_syscall_execution_error_into_stack_trace T error_stack depth (InvalidSyscallInExecutionMode name mode) =
     error_stack @ [syscall_error_text T (InvalidSyscallInExecutionMode name mode)]"
| "extract_syscall_execution_error_into_stack_trace T error_stack depth (SysMathError text) =
     error_stack @ [syscall_error_text T (SysMathError text)]"
| "extract_syscall_execution_error_into_stack_trace T error_stack depth (SysMemoryError text) =
     error_stack @ [syscall_error_text T (SysMemoryError text)]"
| "extract_syscall_execution_error_into_stack_trace T error_stack depth (SysSierraTypeError type_error) =
     error_stack @ [syscall_error_text T (SysSierraTypeError type_error)]"
| "extract_syscall_execution_error_into_stack_trace T error_stack depth (SysStarknetApiError text) =
     error_stack @ [syscall_error_text T (SysStarknetApiError text)]"
| "extract_syscall_execution_error_into_stack_trace T error_stack depth (SysStateError state_error) =
     error_stack @ [syscall_error_text T (SysStateError state_error)]"
| "extract_syscall_execution_error_into_stack_trace T error_stack depth (SysVirtualMachineError vm_error) =
     error_stack @ [syscall_error_text T (SysVirtualMachineError vm_error)]"
| "extract_syscall_execution_error_into_stack_trace T error_stack depth (SyscallError error_data) =
     error_stack @ [syscall_error_text T (SyscallError error_data)]"
| "extract_deprecated_syscall_execution_error_into_stack_trace T error_stack depth (DepCallContractExecutionError class_hash storage_address selector error) =
     extract_deprecated_syscall_execution_error_into_stack_trace T
       (error_stack @ [call_contract_preamble T depth storage_address class_hash selector]) (depth + 1) error"
| "extract_deprecated_syscall_execution_error_into_stack_trace T error_stack depth (DepLibraryCallExecutionError class_hash storage_address selector error) =
     extract_deprecated_syscall_execution_error_into_stack_trace T
       (error_stack @ [library_call_preamble T depth storage_address class_hash selector]) (depth + 1) error"
| "extract_deprecated_syscall_execution_error_into_stack_trace T error_stack depth (DepEntryPointError error) =
     extract_entry_point_execution_error_into_stack_trace T error_stack depth error"
| "extract_deprecated_syscall_execution_error_into_stack_trace T error_stack depth (DepBadSyscallPointer expected_ptr actual_ptr) =
     error_stack @ [deprecated_syscall_error_text T (DepBadSyscallPointer expected_ptr actual_ptr)]"
| "extract_deprecated_syscall_execution_error_into_stack_trace T error_stack depth (DepConstructorError ctor_error) =
     error_stack @ [deprecated_syscall_error_text T (DepConstructorError ctor_error)]"
| "extract_deprecated_syscall_execution_error_into_stack_trace T error_stack depth (DepEmitEventError emit_error) =
     error_stack @ [deprecated_syscall_error_text T (DepEmitEventError emit_error)]"
| "extract_deprecated_syscall_execution_error_into_stack_trace T error_stack depth (DepInvalidSyscallInput input info) =
     error_stack @ [deprecated_syscall_error_text T (DepInvalidSyscallInput input info)]"
| "extract_deprecated_syscall_execution_error_into_stack_trace T error_stack depth (InvalidDeprecatedSyscallSelector felt) =
     error_stack @ [deprecated_syscall_error_text T (InvalidDeprecatedSyscallSelector felt)]"
| "extract_deprecated_syscall_execution_error_into_stack_trace T error_stack depth (DepMathError text) =
     error_stack @ [deprecated_syscall_error_text T (DepMathError text)]"
| "extract_deprecated_syscall_execution_error_into_stack_trace T error_stack depth (DepMemoryError text) =
     error_stack @ [deprecated_syscall_error_text T (DepMemoryError text)]"
| "extract_deprecated_syscall_execution_error_into_stack_trace T error_stack depth (DepStarknetApiError text) =
     error_stack @ [deprecated_syscall_error_text T (DepStarknetApiError text)]"
| "extract_deprecated_syscall_execution_error_into_stack_trace T error_stack depth (DepStateError state_error) =
     error_stack @ [deprecated_syscall_error_text T (DepStateError state_error)]"
| "extract_deprecated_syscall_execution_error_into_stack_trace T error_stack depth (DepVirtualMachineError vm_error) =
     error_stack @ [deprecated_syscall_error_text T (DepVirtualMachineError vm_error)]"
| "extract_deprecated_syscall_execution_error_into_stack_trace T error_stack depth (DepInvalidSyscallInExecutionMode name mode) =
     error_stack @ [deprecated_syscall_error_text T (DepInvalidSyscallInExecutionMode name mode)]"

definition gen_error_trace_from_entry_point_error ::
    "'t ErrorTexts_scheme \<Rightarrow> EntryPointExecutionError \<Rightarrow> ContractAddress \<Rightarrow> ClassHash \<Rightarrow> EntryPointSelector option \<Rightarrow> string list" where
  "gen_error_trace_from_entry_point_error T error storage_address class_hash entry_point_selector =
     (let depth = 0;
          error_stack = [frame_preamble T depth ''Error in the called contract'' storage_address class_hash entry_point_selector]
      in extract_entry_point_execution_error_into_stack_trace T error_stack (depth + 1) error)"

section \<open>Formatting\<close>

definition gen_transaction_execution_error_trace ::
    "'t ErrorTexts_scheme \<Rightarrow> (TransactionExecutionError \<Rightarrow> ('e, string) result option) \<Rightarrow> TransactionExecutionError
      \<Rightarrow> ('e, string) result option" where
  "gen_transaction_execution_error_trace T to_string error =
     (let traced = (\<lambda>err storage_address class_hash selector.
            Some (finalize_error_stack (gen_error_trace_from_entry_point_error T err storage_address class_hash (Some selector))))
      in case error of
           TxExecutionError err class_hash storage_address selector \<Rightarrow> traced err storage_address class_hash selector
         | ValidateTransactionError err class_hash storage_address selector \<Rightarrow> traced err storage_address class_hash selector
         | ContractConstructorExecutionFailed (ConstructorExecutionError err class_hash storage_address (Some selector)) \<Rightarrow>
             traced err storage_address class_hash selector
         | _ \<Rightarrow> map_option (\<lambda>text. rbind text (\<lambda>line. finalize_error_stack [line])) (to_string error))"

definition prefixed :: "string \<Rightarrow> ('e, string) result option \<Rightarrow> ('e, string) result option" where
  "prefixed title = map_option (\<lambda>text. rbind text (\<lambda>trace. Ok (title @ newline @ trace)))"

primrec TransactionExecutionError_fmt ::
    "nat \<Rightarrow> 't ErrorTexts_scheme \<Rightarrow> TransactionExecutionError \<Rightarrow> ('e, string) result option" where
  "TransactionExecutionError_fmt 0 T error = None"
| "TransactionExecutionError_fmt (Suc fuel) T error =
     (let trace = gen_transaction_execution_error_trace T (TransactionExecutionError_fmt fuel T) error
      in case error of
           ContractConstructorExecutionFailed _ \<Rightarrow> prefixed ''Contract constructor execution has failed:'' trace
         | TxExecutionError _ _ _ _ \<Rightarrow> prefixed ''Transaction execution has failed:'' trace
         | ValidateTransactionError _ _ _ _ \<Rightarrow> prefixed ''Transaction validation has failed:'' trace
         | _ \<Rightarrow> Some (Ok (transaction_error_text T error)))"

text \<open>
  \<open>to_string\<close> with the fuel of one nested call, which is enough whenever it returns; a recursion
  without end exhausts the stack.
\<close>

definition TransactionExecutionError_to_string ::
    "'t ErrorTexts_scheme \<Rightarrow> TransactionExecutionError \<Rightarrow> ('e, string) result" where
  "TransactionExecutionError_to_string T error =
     (case TransactionExecutionError_fmt 2 T error of
        Some text \<Rightarrow> text
      | None \<Rightarrow> Panic ''stack overflow'')"

section \<open>Traces are bounded\<close>

definition ascii :: "string \<Rightarrow> bool" where
  "ascii s \<longleftrightarrow> (\<forall>c \<in> set s. (of_char c :: nat) < 0x80)"

lemma ascii_join_lines: "(\<And>line. line \<in> set stack \<Longrightarrow> ascii line) \<Longrightarrow> ascii (join_lines stack)"
  by (induction stack rule: join_lines.induct) (auto simp: ascii_def newline_def)

lemma ascii_char_boundary: "ascii s \<Longrightarrow> i \<le> length s \<Longrightarrow> is_char_boundary s i"
  using nth_mem [of i s] by (fastforce simp: ascii_def is_char_boundary_def)

lemma finalize_error_stack_cases:
  assumes "finalize_error_stack stack = Ok shown"
  obtains (short) "shown = join_lines stack" "length shown \<le> TRACE_LENGTH_CAP + TRACE_EXTRA_CHARS_SLACK"
  | (trimmed) "TRACE_LENGTH_CAP + TRACE_EXTRA_CHARS_SLACK < length (join_lines stack)"
    "shown = take (TRACE_LENGTH_CAP div 2) (join_lines stack) @ newline @ newline @ ''...'' @ newline @ newline
       @ drop (length (join_lines stack) - TRACE_LENGTH_CAP div 2) (join_lines stack)"
  using assms
  by (auto simp: finalize_error_stack_def slice_to_def slice_from_def Let_def rbind_Ok_iff split: if_splits)

text \<open>
  C40: The trace of a failed transaction is bounded and keeps its two ends. What
  \<open>finalize_error_stack\<close> returns has at most \<open>TRACE_LENGTH_CAP\<close> plus the slack bytes; it is the
  joined stack, or, when that is longer, begins with its first and ends with its last
  \<open>TRACE_LENGTH_CAP / 2\<close> bytes. On a stack of ASCII lines it returns; only a line with other
  characters can make the slicing panic.
\<close>

theorem error_trace_is_bounded:
  "(\<forall>shown. finalize_error_stack stack = (Ok shown :: ('e, string) result) \<longrightarrow>
      length shown \<le> TRACE_LENGTH_CAP + TRACE_EXTRA_CHARS_SLACK
      \<and> (shown = join_lines stack
         \<or> take (TRACE_LENGTH_CAP div 2) shown = take (TRACE_LENGTH_CAP div 2) (join_lines stack)
           \<and> drop (length shown - TRACE_LENGTH_CAP div 2) shown =
             drop (length (join_lines stack) - TRACE_LENGTH_CAP div 2) (join_lines stack)))
   \<and> ((\<forall>line \<in> set stack. ascii line) \<longrightarrow> (\<exists>shown. finalize_error_stack stack = (Ok shown :: ('e, string) result)))"
proof (intro conjI allI impI)
  fix shown
  assume "finalize_error_stack stack = (Ok shown :: ('e, string) result)"
  then show "length shown \<le> TRACE_LENGTH_CAP + TRACE_EXTRA_CHARS_SLACK"
    and "shown = join_lines stack
         \<or> take (TRACE_LENGTH_CAP div 2) shown = take (TRACE_LENGTH_CAP div 2) (join_lines stack)
           \<and> drop (length shown - TRACE_LENGTH_CAP div 2) shown =
             drop (length (join_lines stack) - TRACE_LENGTH_CAP div 2) (join_lines stack)"
    by (cases rule: finalize_error_stack_cases;
        simp add: TRACE_LENGTH_CAP_def TRACE_EXTRA_CHARS_SLACK_def newline_def)+
next
  assume "\<forall>line \<in> set stack. ascii line"
  then have "ascii (join_lines stack)"
    by (intro ascii_join_lines) simp
  then show "\<exists>shown. finalize_error_stack stack = (Ok shown :: ('e, string) result)"
    by (simp add: finalize_error_stack_def Let_def slice_to_def slice_from_def ascii_char_boundary
        TRACE_LENGTH_CAP_def TRACE_EXTRA_CHARS_SLACK_def)
qed

theorem error_trace_is_bounded_witness:
  "\<exists>shown. finalize_error_stack [replicate 16000 (CHR ''a'')] = (Ok shown :: (unit, string) result) \<and> length shown \<le> 15100"
proof -
  have "\<exists>shown. finalize_error_stack [replicate 16000 (CHR ''a'')] = (Ok shown :: (unit, string) result)"
    using error_trace_is_bounded [where 'e = unit and stack = "[replicate 16000 (CHR ''a'')]"] by (simp add: ascii_def)
  then show ?thesis
    using error_trace_is_bounded [where 'e = unit and stack = "[replicate 16000 (CHR ''a'')]"]
    by (auto simp: TRACE_LENGTH_CAP_def TRACE_EXTRA_CHARS_SLACK_def)
qed

section \<open>Formatting that does not end\<close>

definition fails_without_selector :: "TransactionExecutionError \<Rightarrow> bool" where
  "fails_without_selector error \<longleftrightarrow>
     (\<exists>err class_hash address. error =
        ContractConstructorExecutionFailed (ConstructorExecutionError err class_hash address None))"

lemma fmt_without_selector:
  "fails_without_selector error \<Longrightarrow> TransactionExecutionError_fmt fuel T error = None"
  by (induction fuel) (auto simp: fails_without_selector_def gen_transaction_execution_error_trace_def prefixed_def)

lemma fmt_returns:
  assumes "\<not> fails_without_selector error"
  shows "\<exists>shown. \<forall>fuel. TransactionExecutionError_fmt (Suc fuel) T error = Some shown"
proof (cases error)
  case (ContractConstructorExecutionFailed ctor_error)
  then show ?thesis
    using assms
    by (cases ctor_error; cases "case ctor_error of ConstructorExecutionError _ _ _ s \<Rightarrow> s")
      (auto simp: fails_without_selector_def gen_transaction_execution_error_trace_def prefixed_def)
qed (simp_all add: gen_transaction_execution_error_trace_def prefixed_def)

text \<open>
  C17: When formatting an error ends. The text of a \<open>TransactionExecutionError\<close> is produced,
  with any fuel above zero the same, for every error except a constructor failure that carries no
  selector; for that one the \<open>Display\<close> implementation calls itself for ever.
\<close>

theorem error_formatting_ends_iff_it_has_a_selector:
  "(\<exists>fuel. TransactionExecutionError_fmt fuel T error \<noteq> (None :: ('e, string) result option))
     = (\<not> fails_without_selector error)
   \<and> (\<forall>fuel. fails_without_selector error
       \<or> TransactionExecutionError_fmt (Suc fuel) T error =
          Some (TransactionExecutionError_to_string T error :: ('e, string) result))"
proof (cases "fails_without_selector error")
  case True
  then show ?thesis
    by (simp add: fmt_without_selector)
next
  case False
  then obtain shown :: "('e, string) result" where shown: "TransactionExecutionError_fmt (Suc fuel) T error = Some shown" for fuel
    using fmt_returns by blast
  then have "TransactionExecutionError_to_string T error = shown"
    unfolding TransactionExecutionError_to_string_def numeral_2_eq_2 by simp
  moreover have "\<exists>fuel. TransactionExecutionError_fmt fuel T error \<noteq> (None :: ('e, string) result option)"
    using shown [of 0] by (metis option.distinct(1))
  ultimately show ?thesis
    using False shown by (simp del: TransactionExecutionError_fmt.simps)
qed


end
