(* ===== verification/Vm_Memory.thy ===== *)
theory Vm_Memory
  imports Entry_Point
begin

text \<open>
  The Cairo VM, seen from this repository, and the helpers that read and write its memory
  (\<open>execution/execution_utils.rs\<close>, \<open>abi/sierra_types.rs\<close>, \<open>execution/common_hints.rs\<close>).

  The VM is third-party code: \<open>VmApi\<close> is a record of the functions of its crates (and of the
  elliptic curve and keccak crates) that the sources call, over an abstract type \<open>'m\<close> of the
  states of a virtual machine with its runner. Every definition that needs one takes such a
  record as its argument \<open>V\<close>. A run of a program is the tree of its interactions with the hint
  processor, \<open>VmRun\<close>: it asks whether the step budget is consumed, consumes a step, hands over
  a hint, or ends. As documented, a hint that fails ends the run with an error made from it. The
  tree is well founded because a run is limited by its step budget, with which it is created.
\<close>

section \<open>Data of the VM crates\<close>

datatype MaybeRelocatable = MInt StarkFelt | MRel Relocatable

datatype CairoArg = Single MaybeRelocatable | Array "MaybeRelocatable list"

datatype Register = AP | FP

record CellRef =
  cell_register :: Register
  cell_offset :: int

datatype DerefOrImmediate = DerefOperand CellRef | ImmediateOperand StarkFelt

datatype Operation = OpAdd | OpMul

datatype ResOperand =
    ResDeref CellRef
  | ResDoubleDeref CellRef int
  | ResImmediate StarkFelt
  | ResBinOp Operation CellRef DerefOrImmediate

datatype StarknetHint = SystemCall ResOperand | TestHint nat

datatype Hint = CoreHint nat | Starknet StarknetHint

record HintProcessorData =
  hint_code :: string
  hint_references :: nat

datatype HintData = HintOf Hint | DeprecatedHintOf HintProcessorData | OtherHintData

datatype HintError =
    HintInternal VirtualMachineError
  | WrongHintData
  | UnknownHint string
  | MissingConstant string
  | AssertionFailed string
  | HintOther string

datatype CairoRunError = VmException usize "string option" VirtualMachineError | OtherRunError string

datatype 'm VmRun =
    RunDone "(CairoRunError, unit) result" 'm
  | RunConsumed "bool \<Rightarrow> 'm VmRun"
  | RunConsumeStep "'m VmRun"
  | RunHint HintData "(string, StarkFelt) HashMap" 'm "HintError \<Rightarrow> 'm \<Rightarrow> CairoRunError" "'m \<Rightarrow> 'm VmRun"

record EcPoint =
  ec_x :: nat
  ec_y :: nat
  ec_infinity :: bool

record SecpCurve =
  curve_modulus :: nat
  curve_identity :: EcPoint
  curve_add :: "EcPoint \<Rightarrow> EcPoint \<Rightarrow> EcPoint"
  curve_mul :: "EcPoint \<Rightarrow> nat \<Rightarrow> EcPoint"
  curve_get_ys_from_x :: "nat \<Rightarrow> (nat \<times> nat) option"
  curve_is_on_curve :: "EcPoint \<Rightarrow> bool"
  curve_is_in_correct_subgroup :: "EcPoint \<Rightarrow> bool"

record 'm VmApi =
  rel_add :: "Relocatable \<Rightarrow> usize \<Rightarrow> (MathError, Relocatable) result"
  rel_sub :: "Relocatable \<Rightarrow> usize \<Rightarrow> (MathError, Relocatable) result"
  rel_diff :: "Relocatable \<Rightarrow> Relocatable \<Rightarrow> (MathError, usize) result"
  rel_add_i32 :: "Relocatable \<Rightarrow> int \<Rightarrow> (MathError, Relocatable) result"
  rel_add_felt :: "Relocatable \<Rightarrow> StarkFelt \<Rightarrow> (MathError, Relocatable) result"
  rel_try_from :: "MaybeRelocatable \<Rightarrow> (MemoryError, Relocatable) result"
  maybe_sub :: "MaybeRelocatable \<Rightarrow> MaybeRelocatable \<Rightarrow> (MathError, MaybeRelocatable) result"
  vm_get_integer :: "'m \<Rightarrow> Relocatable \<Rightarrow> (MemoryError, StarkFelt) result"
  vm_get_relocatable :: "'m \<Rightarrow> Relocatable \<Rightarrow> (MemoryError, Relocatable) result"
  vm_get_integer_range :: "'m \<Rightarrow> Relocatable \<Rightarrow> usize \<Rightarrow> (MemoryError, StarkFelt list) result"
  vm_insert_value :: "Relocatable \<Rightarrow> MaybeRelocatable \<Rightarrow> ('m, MemoryError, unit) action"
  vm_add_memory_segment :: "'m \<Rightarrow> Relocatable \<times> 'm"
  vm_load_data :: "Relocatable \<Rightarrow> MaybeRelocatable list \<Rightarrow> ('m, MemoryError, Relocatable) action"
  vm_get_segment_used_size :: "'m \<Rightarrow> usize \<Rightarrow> usize option"
  vm_mark_address_range_as_accessed :: "Relocatable \<Rightarrow> usize \<Rightarrow> ('m, VirtualMachineError, unit) action"
  vm_get_pc :: "'m \<Rightarrow> Relocatable"
  vm_get_ap :: "'m \<Rightarrow> Relocatable"
  vm_get_fp :: "'m \<Rightarrow> Relocatable"
  vm_get_return_values :: "'m \<Rightarrow> usize \<Rightarrow> (MemoryError, MaybeRelocatable list) result"
  vm_builtin_runners :: "'m \<Rightarrow> (string \<times> MaybeRelocatable list) list"
  vm_relocate_trace :: "usize list \<Rightarrow> ('m, string, unit) action"
  vm_get_relocated_trace :: "'m \<Rightarrow> (string, usize list) result"
  vm_execute_core_hint_base :: "nat \<Rightarrow> ('m, HintError, unit) action"
  vm_get_ptr_from_var_name :: "string \<Rightarrow> nat \<Rightarrow> 'm \<Rightarrow> (HintError, Relocatable) result"
  vm_get_integer_from_var_name :: "string \<Rightarrow> nat \<Rightarrow> 'm \<Rightarrow> (HintError, StarkFelt) result"
  vm_insert_value_from_var_name :: "string \<Rightarrow> StarkFelt \<Rightarrow> nat \<Rightarrow> ('m, HintError, unit) action"
  vm_builtin_execute_hint ::
    "(string \<times> (nat \<Rightarrow> (string, StarkFelt) HashMap \<Rightarrow> ('m, HintError, unit) action)) list \<Rightarrow>
     HintProcessorData \<Rightarrow> (string, StarkFelt) HashMap \<Rightarrow> ('m, HintError, unit) action"
  runner_new :: "Program \<Rightarrow> bool \<Rightarrow> (RunnerError, 'm) result"
  runner_initialize_function_runner_cairo_1 :: "string list \<Rightarrow> ('m, RunnerError, unit) action"
  runner_initialize_builtins :: "('m, RunnerError, unit) action"
  runner_initialize_segments :: "'m \<Rightarrow> 'm"
  runner_run_from_entrypoint ::
    "usize option \<Rightarrow> usize \<Rightarrow> CairoArg list \<Rightarrow> bool \<Rightarrow> usize option \<Rightarrow> 'm \<Rightarrow> 'm VmRun"
  runner_program_base :: "'m \<Rightarrow> Relocatable option"
  runner_program_data_len :: "'m \<Rightarrow> usize"
  runner_get_initial_fp :: "'m \<Rightarrow> Relocatable option"
  runner_get_execution_resources :: "'m \<Rightarrow> (RunnerError, ExecutionResources) result"
  runner_get_builtins_final_stack :: "Relocatable \<Rightarrow> ('m, RunnerError, Relocatable) action"
  run_resources_consumed :: "usize option \<Rightarrow> bool"
  run_resources_consume_step :: "usize option \<Rightarrow> usize option"
  keccak_f1600 :: "u64 list \<Rightarrow> u64 list"
  da_mode_to_felt :: "DataAvailabilityMode \<Rightarrow> StarkFelt"
  eth_address_try_from :: "StarkFelt \<Rightarrow> (string, EthAddress) result"
  secp256k1 :: SecpCurve
  secp256r1 :: SecpCurve

text \<open>
  The run of a program against a hint processor with state \<open>'h\<close>, whose methods are the hint
  function, the test for a consumed budget and the consumption of a step.
\<close>

primrec run_vm ::
    "(HintData \<Rightarrow> (string, StarkFelt) HashMap \<Rightarrow> ('m \<times> 'h, HintError, unit) action) \<Rightarrow>
     ('h \<Rightarrow> bool) \<Rightarrow> ('h \<Rightarrow> 'h) \<Rightarrow> 'm VmRun \<Rightarrow> ('h, CairoRunError, 'm) action" where
  "run_vm execute_hint consumed consume_step (RunDone r vm) = (\<lambda>h. (rbind r (\<lambda>_. Ok vm), h))"
| "run_vm execute_hint consumed consume_step (RunConsumed k) =
     (\<lambda>h. run_vm execute_hint consumed consume_step (k (consumed h)) h)"
| "run_vm execute_hint consumed consume_step (RunConsumeStep rest) =
     (\<lambda>h. run_vm execute_hint consumed consume_step rest (consume_step h))"
| "run_vm execute_hint consumed consume_step (RunHint data constants vm on_error k) =
     (\<lambda>h. case execute_hint data constants (vm, h) of
        (Ok _, (vm', h')) \<Rightarrow> run_vm execute_hint consumed consume_step (k vm') h'
      | (Err e, (vm', h')) \<Rightarrow> (Err (on_error e vm'), h')
      | (Panic p, (vm', h')) \<Rightarrow> (Panic p, h'))"

fun from_cairo_run_error :: "CairoRunError \<Rightarrow> EntryPointExecutionError" where
  "from_cairo_run_error (VmException pc traceback vm_error) = EpVmException pc traceback vm_error"
| "from_cairo_run_error (OtherRunError message) = EpCairoRunError message"

section \<open>Reading memory\<close>

text \<open>
  A function that reads at a pointer and advances it (\<open>ptr: &mut Relocatable\<close>) is an action on
  the pointer.
\<close>

definition advance :: "'m VmApi \<Rightarrow> (Relocatable, MathError, unit) action" where
  "advance V ptr = (case rel_add V ptr 1 of
     Ok ptr' \<Rightarrow> (Ok (), ptr') | Err e \<Rightarrow> (Err e, ptr) | Panic p \<Rightarrow> (Panic p, ptr))"

definition felt_from_ptr :: "'m VmApi \<Rightarrow> 'm \<Rightarrow> (Relocatable, VirtualMachineError, StarkFelt) action" where
  "felt_from_ptr V vm =
     sbind (\<lambda>ptr. (map_err VmErrorMessage (vm_get_integer V vm ptr), ptr)) (\<lambda>felt.
       sbind (smap_err VmErrorMessage (advance V)) (\<lambda>_. sret felt))"

definition stark_felt_from_ptr :: "'m VmApi \<Rightarrow> 'm \<Rightarrow> (Relocatable, VirtualMachineError, StarkFelt) action" where
  "stark_felt_from_ptr V vm = felt_from_ptr V vm"

definition felt_range_from_ptr ::
    "'m VmApi \<Rightarrow> 'm \<Rightarrow> Relocatable \<Rightarrow> usize \<Rightarrow> (VirtualMachineError, StarkFelt list) result" where
  "felt_range_from_ptr V vm ptr n = map_err VmErrorMessage (vm_get_integer_range V vm ptr n)"

definition relocatable_from_ptr :: "'m VmApi \<Rightarrow> 'm \<Rightarrow> (Relocatable, string + string, Relocatable) action" where
  "relocatable_from_ptr V vm =
     sbind (\<lambda>ptr. (map_err Inl (vm_get_relocatable V vm ptr), ptr)) (\<lambda>r.
       sbind (smap_err Inr (advance V)) (\<lambda>_. sret r))"

definition SierraU128_from_memory :: "'m VmApi \<Rightarrow> 'm \<Rightarrow> (Relocatable, SierraTypeError, u128) action" where
  "SierraU128_from_memory V vm =
     sbind (\<lambda>ptr. (map_err SierraMemoryError (vm_get_integer V vm ptr), ptr)) (\<lambda>val_as_felt.
       sbind (smap_err SierraMathError (advance V)) (\<lambda>_. slift (felt_to_u128 val_as_felt)))"

definition SierraU256_from_memory :: "'m VmApi \<Rightarrow> 'm \<Rightarrow> (Relocatable, SierraTypeError, SierraU256) action" where
  "SierraU256_from_memory V vm =
     sbind (SierraU128_from_memory V vm) (\<lambda>low. sbind (SierraU128_from_memory V vm) (\<lambda>high.
       sret \<lparr>low_val = low, high_val = high\<rparr>))"

fun read_execution_retdata ::
    "'m VmApi \<Rightarrow> 'm \<Rightarrow> MaybeRelocatable \<Rightarrow> MaybeRelocatable \<Rightarrow> (PostExecutionError, Retdata) result" where
  "read_execution_retdata V vm (MRel r) retdata_ptr =
     Err (PostVirtualMachineError (VmErrorMessage ''Expected integer at address range.''))"
| "read_execution_retdata V vm (MInt retdata_size) retdata_ptr =
     (if retdata_size < 2 ^ 64 then
        rbind (map_err PostMemoryError (rel_try_from V retdata_ptr)) (\<lambda>ptr.
          map_err PostVirtualMachineError (felt_range_from_ptr V vm ptr (of_nat retdata_size)))
      else Err RetdataSizeTooBig)"

section \<open>Writing memory\<close>

text \<open>A function that writes at a pointer and advances it is an action on the VM and the pointer.\<close>

definition write_maybe_relocatable ::
    "'m VmApi \<Rightarrow> MaybeRelocatable \<Rightarrow> ('m \<times> Relocatable, MemoryError, unit) action" where
  "write_maybe_relocatable V v =
     (\<lambda>(vm, ptr).
        case vm_insert_value V ptr v vm of
          (Ok _, vm') \<Rightarrow> (case advance V ptr of (r, ptr') \<Rightarrow> (r, (vm', ptr')))
        | (Err e, vm') \<Rightarrow> (Err e, (vm', ptr))
        | (Panic p, vm') \<Rightarrow> (Panic p, (vm', ptr)))"

definition write_felt :: "'m VmApi \<Rightarrow> StarkFelt \<Rightarrow> ('m \<times> Relocatable, MemoryError, unit) action" where
  "write_felt V felt = write_maybe_relocatable V (MInt felt)"

definition write_stark_felt :: "'m VmApi \<Rightarrow> StarkFelt \<Rightarrow> ('m \<times> Relocatable, MemoryError, unit) action" where
  "write_stark_felt V felt = write_felt V felt"

definition write_u256 :: "'m VmApi \<Rightarrow> nat \<Rightarrow> ('m \<times> Relocatable, MemoryError, unit) action" where
  "write_u256 V v =
     sbind (write_felt V ((v AND mask 128) mod PRIME)) (\<lambda>_. write_felt V (drop_bit 128 v mod PRIME))"

section \<open>Read-only segments\<close>

record ReadOnlySegment =
  seg_start_ptr :: Relocatable
  seg_length :: usize

type_synonym ReadOnlySegments = "ReadOnlySegment list"

definition ReadOnlySegments_allocate ::
    "'m VmApi \<Rightarrow> MaybeRelocatable list \<Rightarrow> ('m \<times> ReadOnlySegments, MemoryError, Relocatable) action" where
  "ReadOnlySegments_allocate V data =
     (\<lambda>(vm, segments).
        case vm_add_memory_segment V vm of
          (start_ptr, vm1) \<Rightarrow>
            (let segments' = segments @ [\<lparr>seg_start_ptr = start_ptr, seg_length = vec_len data\<rparr>]
             in case vm_load_data V start_ptr data vm1 of
                  (r, vm2) \<Rightarrow> (rbind r (\<lambda>_. Ok start_ptr), (vm2, segments'))))"

definition usize_from_segment_index :: "int \<Rightarrow> ('e, usize) result" where
  "usize_from_segment_index i =
     (if 0 \<le> i then Ok (of_int i) else Panic ''The size of isize and usize should be the same.'')"

definition validate_segment ::
    "'m VmApi \<Rightarrow> 'm \<Rightarrow> ReadOnlySegment \<Rightarrow> (PostExecutionError, unit) result" where
  "validate_segment V vm segment =
     rbind (usize_from_segment_index (segment_index (seg_start_ptr segment))) (\<lambda>index.
       rbind (expect ''Segments must contain the allocated read-only segment.''
                (vm_get_segment_used_size V vm index)) (\<lambda>used_size.
         if seg_length segment \<noteq> used_size then Err (SecurityValidationError ''Read-only segments'') else Ok ()))"

fun ReadOnlySegments_validate ::
    "'m VmApi \<Rightarrow> 'm \<Rightarrow> ReadOnlySegments \<Rightarrow> (PostExecutionError, unit) result" where
  "ReadOnlySegments_validate V vm [] = Ok ()"
| "ReadOnlySegments_validate V vm (segment # segments) =
     rbind (validate_segment V vm segment) (\<lambda>_. ReadOnlySegments_validate V vm segments)"

definition ReadOnlySegments_mark_as_accessed ::
    "'m VmApi \<Rightarrow> ReadOnlySegments \<Rightarrow> ('m, PostExecutionError, unit) action" where
  "ReadOnlySegments_mark_as_accessed V segments =
     sfor segments (\<lambda>segment.
       smap_err PostVirtualMachineError
         (vm_mark_address_range_as_accessed V (seg_start_ptr segment) (seg_length segment)))"

section \<open>Common hints\<close>

definition ADDR_BOUND :: string where
  "ADDR_BOUND = ''starkware.starknet.common.storage.ADDR_BOUND''"

definition normalize_address_set_is_small ::
    "'m VmApi \<Rightarrow> nat \<Rightarrow> (string, StarkFelt) HashMap \<Rightarrow> ('m, HintError, unit) action" where
  "normalize_address_set_is_small V ids constants =
     (\<lambda>vm. case map_of constants ADDR_BOUND of
        None \<Rightarrow> (Err (MissingConstant ''ADDR_BOUND''), vm)
      | Some addr_bound \<Rightarrow>
          (case vm_get_integer_from_var_name V ''addr'' ids vm of
             Ok addr \<Rightarrow>
               (if \<not> (addr_bound > 2 ^ 250 \<and> addr_bound \<le> 2 ^ 251
                       \<and> PRIME > 2 * 2 ^ 250 \<and> PRIME < 2 * addr_bound)
                then (Err (AssertionFailed
                             ''normalize_address() cannot be used with the current constants.''), vm)
                else vm_insert_value_from_var_name V ''is_small'' (if addr < addr_bound then 1 else 0) ids vm)
           | Err e \<Rightarrow> (Err e, vm)
           | Panic p \<Rightarrow> (Panic p, vm)))"

definition normalize_address_set_is_250 ::
    "'m VmApi \<Rightarrow> nat \<Rightarrow> (string, StarkFelt) HashMap \<Rightarrow> ('m, HintError, unit) action" where
  "normalize_address_set_is_250 V ids constants =
     (\<lambda>vm. case vm_get_integer_from_var_name V ''addr'' ids vm of
        Ok addr \<Rightarrow>
          vm_insert_value_from_var_name V ''is_250'' (if addr < 2 ^ 250 then 1 else 0) ids vm
      | Err e \<Rightarrow> (Err e, vm)
      | Panic p \<Rightarrow> (Panic p, vm))"

definition NORMALIZE_ADDRESS_SET_IS_250_HINT :: string where
  "NORMALIZE_ADDRESS_SET_IS_250_HINT = ''ids.is_250 = 1 if ids.addr < 2**250 else 0''"

definition NORMALIZE_ADDRESS_SET_IS_SMALL_HINT :: string where
  "NORMALIZE_ADDRESS_SET_IS_SMALL_HINT =
     ''# Verify the assumptions on the relationship between 2**250, ADDR_BOUND and PRIME.''
     @ [CHR 0x0A] @ ''ADDR_BOUND = ids.ADDR_BOUND % PRIME''
     @ [CHR 0x0A] @ ''assert (2**250 < ADDR_BOUND <= 2**251) and (2 * 2**250 < PRIME) and (''
     @ [CHR 0x0A] @ ''        ADDR_BOUND * 2 > PRIME), '' @ [CHR 0x5C]
     @ [CHR 0x0A] @ ''    '' @ [CHR 0x27]
     @ ''normalize_address() cannot be used with the current constants.'' @ [CHR 0x27]
     @ [CHR 0x0A] @ ''ids.is_small = 1 if ids.addr < ADDR_BOUND else 0''"

definition extended_builtin_hint_processor ::
    "'m VmApi \<Rightarrow> (string \<times> (nat \<Rightarrow> (string, StarkFelt) HashMap \<Rightarrow> ('m, HintError, unit) action)) list" where
  "extended_builtin_hint_processor V =
     [(NORMALIZE_ADDRESS_SET_IS_SMALL_HINT, normalize_address_set_is_small V),
      (NORMALIZE_ADDRESS_SET_IS_250_HINT, normalize_address_set_is_250 V)]"

definition max_fee_for_execution_info :: "TransactionInfo \<Rightarrow> StarkFelt" where
  "max_fee_for_execution_info info =
     (case info of Current _ \<Rightarrow> 0 | Deprecated context \<Rightarrow> unat (dti_max_fee context))"

end
