(* ===== verification/Syscall_Base.thy ===== *)
theory Syscall_Base
  imports Vm_Memory
begin

text \<open>
  What the two syscall handlers share: the fields that
  \<open>execution/syscalls/hint_processor.rs\<close> and \<open>execution/deprecated_syscalls/hint_processor.rs\<close>
  both have, the decoding of selectors (\<open>execution/deprecated_syscalls/mod.rs\<close>), the limits on
  events (\<open>execution/syscalls/mod.rs\<close>), and deployments (\<open>execution/entry_point.rs\<close>,
  \<open>execution/execution_utils.rs\<close>).

  The recursion from a syscall to the execution of another entry point is an argument: an
  \<open>Executor\<close> stands for \<open>CallEntryPoint::execute\<close>, an action on the three objects that method
  borrows mutably. The recursion is closed in the theory of the entry point execution.
\<close>

section \<open>Fields and borrows\<close>

type_synonym 's ExecState = "'s CachedState \<times> ExecutionResources \<times> EntryPointExecutionContext"

type_synonym 's Executor = "CallEntryPoint \<Rightarrow> ('s ExecState, EntryPointExecutionError, CallInfo) action"

record 's HintProcessorBase =
  hp_state :: "'s CachedState"
  hp_resources :: ExecutionResources
  hp_context :: EntryPointExecutionContext
  hp_inner_calls :: "CallInfo list"
  hp_events :: "OrderedEvent list"
  hp_l2_to_l1_messages :: "OrderedL2ToL1Message list"
  hp_syscall_counter :: SyscallCounter
  hp_read_only_segments :: ReadOnlySegments
  hp_syscall_ptr :: Relocatable
  hp_read_values :: "StarkFelt list"
  hp_accessed_keys :: "StorageKey HashSet"

text \<open>
  An action on one borrowed object is an action on the VM and the handler: \<open>on_state\<close> on the
  state, \<open>on_execution\<close> on the three objects an execution borrows, \<open>reading\<close> and \<open>writing\<close> on the
  syscall pointer, \<open>allocate\<close> on the read-only segments. The state of a syscall of a Sierra contract
  also has its remaining gas; \<open>keep_gas\<close> is for a syscall that does not touch it. The
  combinators \<open>with_handler\<close>, \<open>with_vm\<close>, \<open>with_gas\<close> and \<open>with_call_state\<close> read the state.
\<close>

definition on_state ::
    "('s CachedState, 'e, 'a) action \<Rightarrow> ('m \<times> ('s, 'x) HintProcessorBase_scheme, 'e, 'a) action" where
  "on_state act = (\<lambda>(vm, h). case act (hp_state h) of (r, state) \<Rightarrow> (r, (vm, h\<lparr>hp_state := state\<rparr>)))"

definition on_execution ::
    "('s ExecState, 'e, 'a) action \<Rightarrow> ('m \<times> ('s, 'x) HintProcessorBase_scheme, 'e, 'a) action" where
  "on_execution act =
     (\<lambda>(vm, h). case act (hp_state h, hp_resources h, hp_context h) of
        (r, (state, resources, context)) \<Rightarrow>
          (r, (vm, h\<lparr>hp_state := state, hp_resources := resources, hp_context := context\<rparr>)))"

definition reading ::
    "('m \<Rightarrow> (Relocatable, 'e, 'a) action) \<Rightarrow> ('m \<times> ('s, 'x) HintProcessorBase_scheme, 'e, 'a) action" where
  "reading read =
     (\<lambda>(vm, h). case read vm (hp_syscall_ptr h) of (r, ptr) \<Rightarrow> (r, (vm, h\<lparr>hp_syscall_ptr := ptr\<rparr>)))"

definition writing ::
    "('m \<times> Relocatable, 'e, unit) action \<Rightarrow> ('m \<times> ('s, 'x) HintProcessorBase_scheme, 'e, unit) action" where
  "writing write =
     (\<lambda>(vm, h). case write (vm, hp_syscall_ptr h) of
        (r, (vm', ptr)) \<Rightarrow> (r, (vm', h\<lparr>hp_syscall_ptr := ptr\<rparr>)))"

definition allocate ::
    "'m VmApi \<Rightarrow> MaybeRelocatable list \<Rightarrow>
     ('m \<times> ('s, 'x) HintProcessorBase_scheme, MemoryError, Relocatable) action" where
  "allocate V data =
     (\<lambda>(vm, h). case ReadOnlySegments_allocate V data (vm, hp_read_only_segments h) of
        (r, (vm', segments)) \<Rightarrow> (r, (vm', h\<lparr>hp_read_only_segments := segments\<rparr>)))"

definition modify_handler :: "('h \<Rightarrow> 'h) \<Rightarrow> ('m \<times> 'h, 'e, unit) action" where
  "modify_handler f = (\<lambda>(vm, h). (Ok (), (vm, f h)))"

definition with_handler :: "('h \<Rightarrow> ('m \<times> 'h, 'e, 'a) action) \<Rightarrow> ('m \<times> 'h, 'e, 'a) action" where
  "with_handler f = (\<lambda>s. f (snd s) s)"

definition with_vm :: "('m \<Rightarrow> ('m \<times> 'h, 'e, 'a) action) \<Rightarrow> ('m \<times> 'h, 'e, 'a) action" where
  "with_vm f = (\<lambda>s. f (fst s) s)"

definition on_vm :: "('m, 'e, 'a) action \<Rightarrow> ('m \<times> 'h, 'e, 'a) action" where
  "on_vm act = (\<lambda>(vm, h). case act vm of (r, vm') \<Rightarrow> (r, (vm', h)))"

definition keep_gas :: "('t, 'e, 'a) action \<Rightarrow> ('t \<times> u64, 'e, 'a) action" where
  "keep_gas act = (\<lambda>(s, gas). case act s of (r, s') \<Rightarrow> (r, (s', gas)))"

definition with_gas :: "(u64 \<Rightarrow> ('t \<times> u64, 'e, 'a) action) \<Rightarrow> ('t \<times> u64, 'e, 'a) action" where
  "with_gas f = (\<lambda>s. f (snd s) s)"

definition with_call_state ::
    "('m \<Rightarrow> 'h \<Rightarrow> u64 \<Rightarrow> (('m \<times> 'h) \<times> u64, 'e, 'a) action) \<Rightarrow> (('m \<times> 'h) \<times> u64, 'e, 'a) action" where
  "with_call_state f = (\<lambda>s. f (fst (fst s)) (snd (fst s)) (snd s) s)"

definition set_gas :: "u64 \<Rightarrow> ('t \<times> u64, 'e, unit) action" where
  "set_gas gas = (\<lambda>(s, _). (Ok (), (s, gas)))"

definition execution_mode :: "('s, 'x) HintProcessorBase_scheme \<Rightarrow> ExecutionMode" where
  "execution_mode h = epc_execution_mode (hp_context h)"

definition is_validate_mode :: "('s, 'x) HintProcessorBase_scheme \<Rightarrow> bool" where
  "is_validate_mode h \<longleftrightarrow> execution_mode h = Validate"

definition hp_versioned_constants :: "('s, 'x) HintProcessorBase_scheme \<Rightarrow> VersionedConstants" where
  "hp_versioned_constants h = epc_versioned_constants (hp_context h)"

definition hp_block_info :: "('s, 'x) HintProcessorBase_scheme \<Rightarrow> BlockInfo" where
  "hp_block_info h = block_info (block_context (epc_tx_context (hp_context h)))"

definition hp_tx_info :: "('s, 'x) HintProcessorBase_scheme \<Rightarrow> TransactionInfo" where
  "hp_tx_info h = tx_info (epc_tx_context (hp_context h))"

definition hp_gas_costs :: "('s, 'x) HintProcessorBase_scheme \<Rightarrow> GasCosts" where
  "hp_gas_costs h = epc_gas_costs (hp_context h)"

section \<open>Conversions\<close>

definition patricia_key_try_from :: "'a Externals_scheme \<Rightarrow> StarkFelt \<Rightarrow> (string, nat) result" where
  "patricia_key_try_from E felt = (if felt < patricia_key_upper_bound E then Ok felt else Err ''OutOfRange'')"

definition usize_from_felt :: "StarkFelt \<Rightarrow> (string, usize) result" where
  "usize_from_felt felt = (if felt < 2 ^ 64 then Ok (of_nat felt) else Err ''OutOfRange'')"

definition to_u64 :: "StarkFelt \<Rightarrow> u64 option" where
  "to_u64 felt = (if felt < 2 ^ 64 then Some (of_nat felt) else None)"

definition contract_address_from ::
    "'a Externals_scheme \<Rightarrow> StarkFelt \<Rightarrow> ClassHash \<Rightarrow> Calldata \<Rightarrow> ContractAddress \<Rightarrow>
     (string, ContractAddress) result" where
  "contract_address_from E salt class_hash calldata deployer =
     (case calculate_contract_address E salt class_hash calldata deployer of
        Some address \<Rightarrow> Ok address
      | None \<Rightarrow> Err ''OutOfRange'')"

definition felts_to_memory :: "StarkFelt list \<Rightarrow> MaybeRelocatable list" where
  "felts_to_memory felts = map MInt felts"

section \<open>Selectors\<close>

definition felt_bytes_be :: "StarkFelt \<Rightarrow> 8 word list" where
  "felt_bytes_be felt = map (\<lambda>i. of_nat (felt div 256 ^ (31 - i))) [0..<32]"

fun SyscallSelector_name :: "SyscallSelector \<Rightarrow> string" where
  "SyscallSelector_name CallContract = ''CallContract''"
| "SyscallSelector_name DelegateCall = ''DelegateCall''"
| "SyscallSelector_name DelegateL1Handler = ''DelegateL1Handler''"
| "SyscallSelector_name Deploy = ''Deploy''"
| "SyscallSelector_name EmitEvent = ''EmitEvent''"
| "SyscallSelector_name GetBlockHash = ''GetBlockHash''"
| "SyscallSelector_name GetBlockNumber = ''GetBlockNumber''"
| "SyscallSelector_name GetBlockTimestamp = ''GetBlockTimestamp''"
| "SyscallSelector_name GetCallerAddress = ''GetCallerAddress''"
| "SyscallSelector_name GetContractAddress = ''GetContractAddress''"
| "SyscallSelector_name GetExecutionInfo = ''GetExecutionInfo''"
| "SyscallSelector_name GetSequencerAddress = ''GetSequencerAddress''"
| "SyscallSelector_name GetTxInfo = ''GetTxInfo''"
| "SyscallSelector_name GetTxSignature = ''GetTxSignature''"
| "SyscallSelector_name Keccak = ''Keccak''"
| "SyscallSelector_name LibraryCall = ''LibraryCall''"
| "SyscallSelector_name LibraryCallL1Handler = ''LibraryCallL1Handler''"
| "SyscallSelector_name ReplaceClass = ''ReplaceClass''"
| "SyscallSelector_name Secp256k1Add = ''Secp256k1Add''"
| "SyscallSelector_name Secp256k1GetPointFromX = ''Secp256k1GetPointFromX''"
| "SyscallSelector_name Secp256k1GetXy = ''Secp256k1GetXy''"
| "SyscallSelector_name Secp256k1Mul = ''Secp256k1Mul''"
| "SyscallSelector_name Secp256k1New = ''Secp256k1New''"
| "SyscallSelector_name Secp256r1Add = ''Secp256r1Add''"
| "SyscallSelector_name Secp256r1GetPointFromX = ''Secp256r1GetPointFromX''"
| "SyscallSelector_name Secp256r1GetXy = ''Secp256r1GetXy''"
| "SyscallSelector_name Secp256r1Mul = ''Secp256r1Mul''"
| "SyscallSelector_name Secp256r1New = ''Secp256r1New''"
| "SyscallSelector_name SendMessageToL1 = ''SendMessageToL1''"
| "SyscallSelector_name StorageRead = ''StorageRead''"
| "SyscallSelector_name StorageWrite = ''StorageWrite''"

definition SyscallSelector_try_from ::
    "StarkFelt \<Rightarrow> (DeprecatedSyscallExecutionError, SyscallSelector) result" where
  "SyscallSelector_try_from raw_selector =
     (let selector_bytes = dropWhile (\<lambda>byte. byte = 0) (felt_bytes_be raw_selector)
      in case find (\<lambda>selector. string_bytes (SyscallSelector_name selector) = selector_bytes)
                SyscallSelector_iter of
           Some selector \<Rightarrow> Ok selector
         | None \<Rightarrow> Err (InvalidDeprecatedSyscallSelector raw_selector))"

definition increment_syscall_count_by ::
    "SyscallSelector \<Rightarrow> usize \<Rightarrow> ('m \<times> ('s, 'x) HintProcessorBase_scheme, 'e, unit) action" where
  "increment_syscall_count_by selector n =
     modify_handler (\<lambda>h. h\<lparr>hp_syscall_counter :=
       hm_insert selector
         ((case map_of (hp_syscall_counter h) selector of Some count \<Rightarrow> count | None \<Rightarrow> 0) + n)
         (hp_syscall_counter h)\<rparr>)"

definition increment_syscall_count ::
    "SyscallSelector \<Rightarrow> ('m \<times> ('s, 'x) HintProcessorBase_scheme, 'e, unit) action" where
  "increment_syscall_count selector = increment_syscall_count_by selector 1"

section \<open>Events and messages\<close>

definition exceeds_event_size_limit ::
    "VersionedConstants \<Rightarrow> usize \<Rightarrow> EventContent \<Rightarrow> (EmitEventError, unit) result" where
  "exceeds_event_size_limit constants n_emitted_events event =
     (let limits = tx_event_limits constants;
          keys_length = vec_len (ev_keys event);
          data_length = vec_len (ev_data event)
      in if n_emitted_events > max_n_emitted_events limits then
           Err (ExceedsMaxNumberOfEmittedEvents n_emitted_events (max_n_emitted_events limits))
         else if keys_length > max_keys_length limits then
           Err (ExceedsMaxKeysLength keys_length (max_keys_length limits))
         else if data_length > max_data_length limits then
           Err (ExceedsMaxDataLength data_length (max_data_length limits))
         else Ok ())"

text \<open>The common bodies of the two \<open>emit_event\<close>, \<open>send_message_to_l1\<close>, \<open>storage_read\<close> and \<open>storage_write\<close>.\<close>

definition push_event ::
    "EventContent \<Rightarrow> ('m \<times> ('s, 'x) HintProcessorBase_scheme, EmitEventError, unit) action" where
  "push_event content =
     with_handler (\<lambda>h.
       sbind (slift (exceeds_event_size_limit (hp_versioned_constants h)
                (epc_n_emitted_events (hp_context h) + 1) content)) (\<lambda>_.
         modify_handler (\<lambda>h. h\<lparr>
           hp_events := hp_events h @ [\<lparr>oe_order = epc_n_emitted_events (hp_context h), oe_event = content\<rparr>],
           hp_context := (hp_context h)\<lparr>epc_n_emitted_events := epc_n_emitted_events (hp_context h) + 1\<rparr>\<rparr>)))"

definition push_message ::
    "MessageToL1 \<Rightarrow> ('m \<times> ('s, 'x) HintProcessorBase_scheme, 'e, unit) action" where
  "push_message message =
     modify_handler (\<lambda>h. h\<lparr>
       hp_l2_to_l1_messages := hp_l2_to_l1_messages h
         @ [\<lparr>om_order = epc_n_sent_messages_to_l1 (hp_context h), om_message = message\<rparr>],
       hp_context := (hp_context h)\<lparr>epc_n_sent_messages_to_l1 := epc_n_sent_messages_to_l1 (hp_context h) + 1\<rparr>\<rparr>)"

definition read_contract_storage ::
    "'s StateReader \<Rightarrow> ContractAddress \<Rightarrow> StorageKey \<Rightarrow>
     ('m \<times> ('s, 'x) HintProcessorBase_scheme, StateError, StarkFelt) action" where
  "read_contract_storage R storage_address key =
     sbind (modify_handler (\<lambda>h. h\<lparr>hp_accessed_keys := hs_insert key (hp_accessed_keys h)\<rparr>)) (\<lambda>_.
       sbind (on_state (get_storage_at R storage_address key)) (\<lambda>v.
         sbind (modify_handler (\<lambda>h. h\<lparr>hp_read_values := hp_read_values h @ [v]\<rparr>)) (\<lambda>_. sret v)))"

definition write_contract_storage ::
    "ContractAddress \<Rightarrow> StorageKey \<Rightarrow> StarkFelt \<Rightarrow>
     ('m \<times> ('s, 'x) HintProcessorBase_scheme, StateError, unit) action" where
  "write_contract_storage storage_address key v =
     sbind (modify_handler (\<lambda>h. h\<lparr>hp_accessed_keys := hs_insert key (hp_accessed_keys h)\<rparr>)) (\<lambda>_.
       on_state (set_storage_at storage_address key v))"

definition push_inner_call :: "CallInfo \<Rightarrow> ('m \<times> ('s, 'x) HintProcessorBase_scheme, 'e, unit) action" where
  "push_inner_call call_info = modify_handler (\<lambda>h. h\<lparr>hp_inner_calls := hp_inner_calls h @ [call_info]\<rparr>)"

definition update_remaining_gas :: "u64 \<Rightarrow> CallInfo \<Rightarrow> u64" where
  "update_remaining_gas remaining_gas call_info = remaining_gas - ce_gas_consumed (ci_execution call_info)"

section \<open>Constructors and deployments\<close>

definition with_exec_context ::
    "(EntryPointExecutionContext \<Rightarrow> ('s ExecState, 'e, 'a) action) \<Rightarrow> ('s ExecState, 'e, 'a) action" where
  "with_exec_context f = (\<lambda>s. f (snd (snd s)) s)"

definition on_cached_state ::
    "('s CachedState, 'e, 'a) action \<Rightarrow> ('s ExecState, 'e, 'a) action" where
  "on_cached_state act = (\<lambda>(state, rest). case act state of (r, state') \<Rightarrow> (r, (state', rest)))"

definition execute_constructor_entry_point ::
    "'a Externals_scheme \<Rightarrow> 's StateReader \<Rightarrow> 's Executor \<Rightarrow> ConstructorContext \<Rightarrow> Calldata \<Rightarrow> u64 \<Rightarrow>
     ('s ExecState, ConstructorEntryPointExecutionError, CallInfo) action" where
  "execute_constructor_entry_point E R exec ctor_context calldata remaining_gas =
     sbind (smap_err (\<lambda>e. ConstructorEntryPointExecutionError_new ctor_context None (EpStateError e))
              (on_cached_state (get_compiled_contract_class R (ctor_class_hash ctor_context)))) (\<lambda>contract_class.
       sbind (slift (constructor_selector contract_class)) (\<lambda>found.
         case found of
           None \<Rightarrow>
             slift (map_err (ConstructorEntryPointExecutionError_new ctor_context None)
               (handle_empty_constructor E ctor_context calldata remaining_gas))
         | Some selector \<Rightarrow>
             smap_err (ConstructorEntryPointExecutionError_new ctor_context (Some selector))
               (exec \<lparr>cep_class_hash = None,
                      cep_code_address = ctor_code_address ctor_context,
                      cep_entry_point_type = Constructor,
                      cep_entry_point_selector = selector,
                      cep_calldata = calldata,
                      cep_storage_address = ctor_storage_address ctor_context,
                      cep_caller_address = ctor_caller_address ctor_context,
                      cep_call_type = Call,
                      cep_initial_gas = remaining_gas\<rparr>)))"

definition execute_deployment ::
    "'a Externals_scheme \<Rightarrow> 's StateReader \<Rightarrow> 's Executor \<Rightarrow> ConstructorContext \<Rightarrow> Calldata \<Rightarrow> u64 \<Rightarrow>
     ('s ExecState, ConstructorEntryPointExecutionError, CallInfo) action" where
  "execute_deployment E R exec ctor_context constructor_calldata remaining_gas =
     (let state_error = (\<lambda>e. ConstructorEntryPointExecutionError_new ctor_context None (EpStateError e));
          deployed_contract_address = ctor_storage_address ctor_context
      in sbind (smap_err state_error (on_cached_state (get_class_hash_at R deployed_contract_address)))
           (\<lambda>current_class_hash.
             if current_class_hash \<noteq> 0 then
               slift (Err (state_error (UnavailableContractAddress deployed_contract_address)))
             else
               sbind (smap_err state_error (on_cached_state
                        (set_class_hash_at deployed_contract_address (ctor_class_hash ctor_context)))) (\<lambda>_.
                 execute_constructor_entry_point E R exec ctor_context constructor_calldata remaining_gas)))"

end
