(* ===== verification/Secp.thy ===== *)
theory Secp
  imports Syscall_Base
begin

text \<open>
  The elliptic curve syscalls' data (\<open>execution/syscalls/secp.rs\<close>): a table of points addressed
  by their position, the five operations on it, and their requests and responses. The curve
  arithmetic is the record \<open>SecpCurve\<close>.

  An operation only ever appends to the table, so that an identifier, once given out, keeps
  naming the same point.
\<close>

section \<open>The table of points\<close>

type_synonym SecpHintProcessor = "EcPoint list"

definition INVALID_ARGUMENT :: StarkFelt where
  "INVALID_ARGUMENT = 0x496e76616c696420617267756d656e74"

definition allocate_point :: "EcPoint \<Rightarrow> SecpHintProcessor \<Rightarrow> usize \<times> SecpHintProcessor" where
  "allocate_point ec_point points = (vec_len points, points @ [ec_point])"

definition get_point_by_id ::
    "SecpHintProcessor \<Rightarrow> StarkFelt \<Rightarrow> (SyscallExecutionError, EcPoint) result" where
  "get_point_by_id points ec_point_id =
     (if ec_point_id < 2 ^ 64 \<and> ec_point_id < length points then Ok (points ! ec_point_id)
      else Err (InvalidSyscallInput ec_point_id ''Invalid Secp point ID''))"

record SecpAddRequest =
  lhs_id :: StarkFelt
  rhs_id :: StarkFelt

record SecpMulRequest =
  mul_ec_point_id :: StarkFelt
  multiplier :: nat

record SecpGetPointFromXRequest =
  req_x :: nat
  y_parity :: bool

record EcPointCoordinates =
  coord_x :: nat
  coord_y :: nat

definition secp_add ::
    "SecpCurve \<Rightarrow> SecpAddRequest \<Rightarrow> (SecpHintProcessor, SyscallExecutionError, usize) action" where
  "secp_add curve request =
     (\<lambda>points. case rbind (get_point_by_id points (lhs_id request)) (\<lambda>lhs.
                    rbind (get_point_by_id points (rhs_id request)) (\<lambda>rhs. Ok (curve_add curve lhs rhs))) of
        Ok result \<Rightarrow> map_prod Ok id (allocate_point result points)
      | Err e \<Rightarrow> (Err e, points)
      | Panic p \<Rightarrow> (Panic p, points))"

definition secp_mul ::
    "SecpCurve \<Rightarrow> SecpMulRequest \<Rightarrow> (SecpHintProcessor, SyscallExecutionError, usize) action" where
  "secp_mul curve request =
     (\<lambda>points. case get_point_by_id points (mul_ec_point_id request) of
        Ok ec_point \<Rightarrow> map_prod Ok id (allocate_point (curve_mul curve ec_point (multiplier request)) points)
      | Err e \<Rightarrow> (Err e, points)
      | Panic p \<Rightarrow> (Panic p, points))"

definition affine_point :: "nat \<Rightarrow> nat \<Rightarrow> EcPoint" where
  "affine_point x y = \<lparr>ec_x = x, ec_y = y, ec_infinity = False\<rparr>"

definition secp_get_point_from_x ::
    "SecpCurve \<Rightarrow> SecpGetPointFromXRequest \<Rightarrow>
     (SecpHintProcessor, SyscallExecutionError, usize option) action" where
  "secp_get_point_from_x curve request =
     (\<lambda>points.
        if req_x request \<ge> curve_modulus curve then (Err (SyscallError [INVALID_ARGUMENT]), points)
        else
          (case curve_get_ys_from_x curve (req_x request) of
             None \<Rightarrow> (Ok None, points)
           | Some (y_smaller, y_greater) \<Rightarrow>
               (let y = (if odd y_smaller = y_parity request then y_smaller else y_greater);
                    ec_point = affine_point (req_x request) y
                in if curve_is_in_correct_subgroup curve ec_point
                   then map_prod (\<lambda>id. Ok (Some id)) id (allocate_point ec_point points)
                   else (Ok None, points))))"

definition secp_get_xy ::
    "StarkFelt \<Rightarrow> (SecpHintProcessor, SyscallExecutionError, EcPointCoordinates) action" where
  "secp_get_xy ec_point_id =
     (\<lambda>points. (rbind (get_point_by_id points ec_point_id) (\<lambda>ec_point.
        Ok \<lparr>coord_x = ec_x ec_point, coord_y = ec_y ec_point\<rparr>), points))"

definition secp_new ::
    "SecpCurve \<Rightarrow> EcPointCoordinates \<Rightarrow>
     (SecpHintProcessor, SyscallExecutionError, usize option) action" where
  "secp_new curve request =
     (\<lambda>points.
        let x = coord_x request; y = coord_y request in
        if x \<ge> curve_modulus curve \<or> y \<ge> curve_modulus curve
        then (Err (SyscallError [INVALID_ARGUMENT]), points)
        else
          (let ec_point = (if x = 0 \<and> y = 0 then curve_identity curve else affine_point x y)
           in if curve_is_on_curve curve ec_point \<and> curve_is_in_correct_subgroup curve ec_point
              then map_prod (\<lambda>id. Ok (Some id)) id (allocate_point ec_point points)
              else (Ok None, points)))"

section \<open>Requests and responses\<close>

definition felt_to_bool :: "StarkFelt \<Rightarrow> string \<Rightarrow> (SyscallExecutionError, bool) result" where
  "felt_to_bool felt error_info =
     (if felt = 0 then Ok False else if felt = 1 then Ok True
      else Err (InvalidSyscallInput felt error_info))"

abbreviation read_felt :: "'m VmApi \<Rightarrow> 'm \<Rightarrow> (Relocatable, SyscallExecutionError, StarkFelt) action" where
  "read_felt V vm \<equiv> smap_err SysVirtualMachineError (stark_felt_from_ptr V vm)"

abbreviation read_u256 :: "'m VmApi \<Rightarrow> 'm \<Rightarrow> (Relocatable, SyscallExecutionError, SierraU256) action" where
  "read_u256 V vm \<equiv> smap_err SysSierraTypeError (SierraU256_from_memory V vm)"

abbreviation write_mem ::
    "'m VmApi \<Rightarrow> MaybeRelocatable \<Rightarrow> ('m \<times> Relocatable, SyscallExecutionError, unit) action" where
  "write_mem V v \<equiv> smap_err SysMemoryError (write_maybe_relocatable V v)"

definition SecpAddRequest_read ::
    "'m VmApi \<Rightarrow> 'm \<Rightarrow> (Relocatable, SyscallExecutionError, SecpAddRequest) action" where
  "SecpAddRequest_read V vm =
     sbind (read_felt V vm) (\<lambda>lhs. sbind (read_felt V vm) (\<lambda>rhs. sret \<lparr>lhs_id = lhs, rhs_id = rhs\<rparr>))"

definition SecpGetPointFromXRequest_read ::
    "'m VmApi \<Rightarrow> 'm \<Rightarrow> (Relocatable, SyscallExecutionError, SecpGetPointFromXRequest) action" where
  "SecpGetPointFromXRequest_read V vm =
     sbind (read_u256 V vm) (\<lambda>x. sbind (read_felt V vm) (\<lambda>felt.
       sbind (slift (felt_to_bool felt ''Invalid y parity'')) (\<lambda>parity.
         sret \<lparr>req_x = to_biguint x, y_parity = parity\<rparr>)))"

definition SecpGetXyRequest_read ::
    "'m VmApi \<Rightarrow> 'm \<Rightarrow> (Relocatable, SyscallExecutionError, StarkFelt) action" where
  "SecpGetXyRequest_read V vm = read_felt V vm"

definition SecpMulRequest_read ::
    "'m VmApi \<Rightarrow> 'm \<Rightarrow> (Relocatable, SyscallExecutionError, SecpMulRequest) action" where
  "SecpMulRequest_read V vm =
     sbind (read_felt V vm) (\<lambda>id. sbind (read_u256 V vm) (\<lambda>m.
       sret \<lparr>mul_ec_point_id = id, multiplier = to_biguint m\<rparr>))"

definition SecpNewRequest_read ::
    "'m VmApi \<Rightarrow> 'm \<Rightarrow> (Relocatable, SyscallExecutionError, EcPointCoordinates) action" where
  "SecpNewRequest_read V vm =
     sbind (read_u256 V vm) (\<lambda>x. sbind (read_u256 V vm) (\<lambda>y.
       sret \<lparr>coord_x = to_biguint x, coord_y = to_biguint y\<rparr>))"

definition SecpOptionalEcPointResponse_write ::
    "'m VmApi \<Rightarrow> usize option \<Rightarrow> ('m \<times> Relocatable, SyscallExecutionError, unit) action" where
  "SecpOptionalEcPointResponse_write V optional_ec_point_id =
     (case optional_ec_point_id of
        Some point_id \<Rightarrow> sbind (write_mem V (MInt 0)) (\<lambda>_. write_mem V (MInt (unat point_id)))
      | None \<Rightarrow> sbind (write_mem V (MInt 1)) (\<lambda>_. write_mem V (MInt 0)))"

definition SecpOpRespone_write ::
    "'m VmApi \<Rightarrow> usize \<Rightarrow> ('m \<times> Relocatable, SyscallExecutionError, unit) action" where
  "SecpOpRespone_write V ec_point_id = write_mem V (MInt (unat ec_point_id))"

definition SecpGetXyResponse_write ::
    "'m VmApi \<Rightarrow> EcPointCoordinates \<Rightarrow> ('m \<times> Relocatable, SyscallExecutionError, unit) action" where
  "SecpGetXyResponse_write V coordinates =
     smap_err SysMemoryError
       (sbind (write_u256 V (coord_x coordinates)) (\<lambda>_. write_u256 V (coord_y coordinates)))"

end
