(* ===== verification/Syscalls.thy ===== *)
theory Syscalls
  imports Secp
begin

text \<open>
  The syscall handler of Sierra contracts: \<open>execution/syscalls/mod.rs\<close> (requests, responses and
  the syscalls themselves) and \<open>execution/syscalls/hint_processor.rs\<close> (gas accounting, dispatch
  and the segments it allocates in VM memory).
\<close>

section \<open>The handler\<close>

record 's SyscallHintProcessor = "'s HintProcessorBase" +
  sh_call :: CallEntryPoint
  sh_secp256k1_hint_processor :: SecpHintProcessor
  sh_secp256r1_hint_processor :: SecpHintProcessor
  sh_execution_info_ptr :: "Relocatable option"

definition SyscallHintProcessor_new ::
    "'s ExecState \<Rightarrow> Relocatable \<Rightarrow> CallEntryPoint \<Rightarrow> ReadOnlySegments \<Rightarrow> 's SyscallHintProcessor" where
  "SyscallHintProcessor_new borrowed initial_syscall_ptr call segments =
     (case borrowed of (state, resources, context) \<Rightarrow>
        \<lparr>hp_state = state, hp_resources = resources, hp_context = context, hp_inner_calls = [],
         hp_events = [], hp_l2_to_l1_messages = [], hp_syscall_counter = [],
         hp_read_only_segments = segments, hp_syscall_ptr = initial_syscall_ptr,
         hp_read_values = [], hp_accessed_keys = [], sh_call = call,
         sh_secp256k1_hint_processor = [], sh_secp256r1_hint_processor = [],
         sh_execution_info_ptr = None\<rparr>)"

abbreviation sh_storage_address :: "'s SyscallHintProcessor \<Rightarrow> ContractAddress" where
  "sh_storage_address h \<equiv> cep_storage_address (sh_call h)"

abbreviation sh_caller_address :: "'s SyscallHintProcessor \<Rightarrow> ContractAddress" where
  "sh_caller_address h \<equiv> cep_caller_address (sh_call h)"

type_synonym ('m, 's, 'a) syscall =
  "('m \<times> 's SyscallHintProcessor, SyscallExecutionError, 'a) action"

type_synonym ('m, 's, 'a) gas_syscall =
  "(('m \<times> 's SyscallHintProcessor) \<times> u64, SyscallExecutionError, 'a) action"

definition OUT_OF_GAS_ERROR :: StarkFelt where
  "OUT_OF_GAS_ERROR = 0x4f7574206f6620676173"
definition BLOCK_NUMBER_OUT_OF_RANGE_ERROR :: StarkFelt where
  "BLOCK_NUMBER_OUT_OF_RANGE_ERROR = 0x426c6f636b206e756d626572206f7574206f662072616e6765"
definition INVALID_INPUT_LENGTH_ERROR :: StarkFelt where
  "INVALID_INPUT_LENGTH_ERROR = 0x496e76616c696420696e707574206c656e677468"
definition L1_GAS :: StarkFelt where "L1_GAS = 0x4c315f474153"
definition L2_GAS :: StarkFelt where "L2_GAS = 0x4c325f474153"

section \<open>Reading requests and writing responses\<close>

definition read_felt_array :: "'m VmApi \<Rightarrow> 'm \<Rightarrow> (Relocatable, SyscallExecutionError, StarkFelt list) action" where
  "read_felt_array V vm =
     sbind (smap_err (case_sum SysMemoryError SysMathError) (relocatable_from_ptr V vm)) (\<lambda>array_data_start_ptr.
       sbind (smap_err (case_sum SysMemoryError SysMathError) (relocatable_from_ptr V vm)) (\<lambda>array_data_end_ptr.
         sbind (slift (map_err SysMathError (rel_diff V array_data_end_ptr array_data_start_ptr))) (\<lambda>array_size.
           slift (map_err SysVirtualMachineError (felt_range_from_ptr V vm array_data_start_ptr array_size)))))"

definition read_calldata :: "'m VmApi \<Rightarrow> 'm \<Rightarrow> (Relocatable, SyscallExecutionError, Calldata) action" where
  "read_calldata V vm = read_felt_array V vm"

definition read_call_params ::
    "'m VmApi \<Rightarrow> 'm \<Rightarrow> (Relocatable, SyscallExecutionError, EntryPointSelector \<times> Calldata) action" where
  "read_call_params V vm =
     sbind (read_felt V vm) (\<lambda>function_selector.
       sbind (read_calldata V vm) (\<lambda>calldata. sret (function_selector, calldata)))"

definition read_patricia_key ::
    "'a Externals_scheme \<Rightarrow> 'm VmApi \<Rightarrow> 'm \<Rightarrow> (Relocatable, SyscallExecutionError, nat) action" where
  "read_patricia_key E V vm =
     sbind (read_felt V vm) (\<lambda>felt. slift (map_err SysStarknetApiError (patricia_key_try_from E felt)))"

definition write_segment ::
    "'m VmApi \<Rightarrow> ReadOnlySegment \<Rightarrow> ('m \<times> Relocatable, SyscallExecutionError, unit) action" where
  "write_segment V segment =
     sbind (write_mem V (MRel (seg_start_ptr segment))) (\<lambda>_.
       sbind (slift (map_err SysMathError (rel_add V (seg_start_ptr segment) (seg_length segment)))) (\<lambda>segment_end_ptr.
         write_mem V (MRel segment_end_ptr)))"

record CallContractRequest =
  ccr_contract_address :: ContractAddress
  ccr_function_selector :: EntryPointSelector
  ccr_calldata :: Calldata

record LibraryCallRequest =
  lcr_class_hash :: ClassHash
  lcr_function_selector :: EntryPointSelector
  lcr_calldata :: Calldata

record DeployRequest =
  dr_class_hash :: ClassHash
  dr_contract_address_salt :: StarkFelt
  dr_constructor_calldata :: Calldata
  dr_deploy_from_zero :: bool

record DeployResponse =
  dresp_contract_address :: ContractAddress
  dresp_constructor_retdata :: ReadOnlySegment

record StorageReadRequest =
  srr_address_domain :: StarkFelt
  srr_address :: StorageKey

record StorageWriteRequest =
  swr_address_domain :: StarkFelt
  swr_address :: StorageKey
  swr_value :: StarkFelt

record KeccakRequest =
  input_start :: Relocatable
  input_end :: Relocatable

record KeccakResponse =
  result_low :: StarkFelt
  result_high :: StarkFelt

definition SyscallRequestWrapper_read ::
    "'m VmApi \<Rightarrow> ('m \<Rightarrow> (Relocatable, SyscallExecutionError, 'r) action) \<Rightarrow>
     'm \<Rightarrow> (Relocatable, SyscallExecutionError, u64 \<times> 'r) action" where
  "SyscallRequestWrapper_read V read vm =
     sbind (read_felt V vm) (\<lambda>felt.
       case to_u64 felt of
         None \<Rightarrow> slift (Err (InvalidSyscallInput felt ''Unexpected gas.''))
       | Some gas_counter \<Rightarrow> sbind (read vm) (\<lambda>request. sret (gas_counter, request)))"

definition EmptyRequest_read :: "'m \<Rightarrow> (Relocatable, SyscallExecutionError, unit) action" where
  "EmptyRequest_read vm = sret ()"

definition CallContractRequest_read ::
    "'a Externals_scheme \<Rightarrow> 'm VmApi \<Rightarrow> 'm \<Rightarrow> (Relocatable, SyscallExecutionError, CallContractRequest) action" where
  "CallContractRequest_read E V vm =
     sbind (read_patricia_key E V vm) (\<lambda>contract_address.
       sbind (read_call_params V vm) (\<lambda>(function_selector, calldata).
         sret \<lparr>ccr_contract_address = contract_address, ccr_function_selector = function_selector,
               ccr_calldata = calldata\<rparr>))"

definition DeployRequest_read ::
    "'m VmApi \<Rightarrow> 'm \<Rightarrow> (Relocatable, SyscallExecutionError, DeployRequest) action" where
  "DeployRequest_read V vm =
     sbind (read_felt V vm) (\<lambda>class_hash.
       sbind (read_felt V vm) (\<lambda>contract_address_salt.
         sbind (read_calldata V vm) (\<lambda>constructor_calldata.
           sbind (read_felt V vm) (\<lambda>deploy_from_zero.
             sbind (slift (felt_to_bool deploy_from_zero
                      ''The deploy_from_zero field in the deploy system call must be 0 or 1.'')) (\<lambda>from_zero.
               sret \<lparr>dr_class_hash = class_hash, dr_contract_address_salt = contract_address_salt,
                     dr_constructor_calldata = constructor_calldata, dr_deploy_from_zero = from_zero\<rparr>)))))"

definition EmitEventRequest_read ::
    "'m VmApi \<Rightarrow> 'm \<Rightarrow> (Relocatable, SyscallExecutionError, EventContent) action" where
  "EmitEventRequest_read V vm =
     sbind (read_felt_array V vm) (\<lambda>keys. sbind (read_felt_array V vm) (\<lambda>data.
       sret \<lparr>ev_keys = keys, ev_data = data\<rparr>))"

definition GetBlockHashRequest_read ::
    "'m VmApi \<Rightarrow> 'm \<Rightarrow> (Relocatable, SyscallExecutionError, u64) action" where
  "GetBlockHashRequest_read V vm =
     sbind (read_felt V vm) (\<lambda>felt.
       case to_u64 felt of
         None \<Rightarrow> slift (Err (InvalidSyscallInput felt ''Block number must fit within 64 bits.''))
       | Some n \<Rightarrow> sret n)"

definition LibraryCallRequest_read ::
    "'m VmApi \<Rightarrow> 'm \<Rightarrow> (Relocatable, SyscallExecutionError, LibraryCallRequest) action" where
  "LibraryCallRequest_read V vm =
     sbind (read_felt V vm) (\<lambda>class_hash.
       sbind (read_call_params V vm) (\<lambda>(function_selector, calldata).
         sret \<lparr>lcr_class_hash = class_hash, lcr_function_selector = function_selector, lcr_calldata = calldata\<rparr>))"

definition ReplaceClassRequest_read ::
    "'m VmApi \<Rightarrow> 'm \<Rightarrow> (Relocatable, SyscallExecutionError, ClassHash) action" where
  "ReplaceClassRequest_read V vm = read_felt V vm"

definition SendMessageToL1Request_read ::
    "'m VmApi \<Rightarrow> 'm \<Rightarrow> (Relocatable, SyscallExecutionError, MessageToL1) action" where
  "SendMessageToL1Request_read V vm =
     sbind (read_felt V vm) (\<lambda>felt.
       sbind (slift (map_err SysStarknetApiError (eth_address_try_from V felt))) (\<lambda>to_address.
         sbind (read_felt_array V vm) (\<lambda>payload.
           sret \<lparr>msg_to_address = to_address, msg_payload = payload\<rparr>)))"

definition read_address_domain :: "'m VmApi \<Rightarrow> 'm \<Rightarrow> (Relocatable, SyscallExecutionError, StarkFelt) action" where
  "read_address_domain V vm =
     sbind (read_felt V vm) (\<lambda>address_domain.
       if address_domain \<noteq> 0 then slift (Err (InvalidAddressDomain address_domain)) else sret address_domain)"

definition StorageReadRequest_read ::
    "'a Externals_scheme \<Rightarrow> 'm VmApi \<Rightarrow> 'm \<Rightarrow> (Relocatable, SyscallExecutionError, StorageReadRequest) action" where
  "StorageReadRequest_read E V vm =
     sbind (read_address_domain V vm) (\<lambda>address_domain.
       sbind (read_patricia_key E V vm) (\<lambda>address.
         sret \<lparr>srr_address_domain = address_domain, srr_address = address\<rparr>))"

definition StorageWriteRequest_read ::
    "'a Externals_scheme \<Rightarrow> 'm VmApi \<Rightarrow> 'm \<Rightarrow> (Relocatable, SyscallExecutionError, StorageWriteRequest) action" where
  "StorageWriteRequest_read E V vm =
     sbind (read_address_domain V vm) (\<lambda>address_domain.
       sbind (read_patricia_key E V vm) (\<lambda>address.
         sbind (read_felt V vm) (\<lambda>v.
           sret \<lparr>swr_address_domain = address_domain, swr_address = address, swr_value = v\<rparr>)))"

definition KeccakRequest_read ::
    "'m VmApi \<Rightarrow> 'm \<Rightarrow> (Relocatable, SyscallExecutionError, KeccakRequest) action" where
  "KeccakRequest_read V vm =
     sbind (smap_err (case_sum SysMemoryError SysMathError) (relocatable_from_ptr V vm)) (\<lambda>start.
       sbind (smap_err (case_sum SysMemoryError SysMathError) (relocatable_from_ptr V vm)) (\<lambda>stop.
         sret \<lparr>input_start = start, input_end = stop\<rparr>))"

datatype 'r SyscallResponseWrapper = SyscallSuccess u64 'r | SyscallFailure u64 "StarkFelt list"

definition vm_load_new_segment ::
    "'m VmApi \<Rightarrow> MaybeRelocatable list \<Rightarrow> ('m \<times> Relocatable, MemoryError, Relocatable \<times> Relocatable) action" where
  "vm_load_new_segment V data =
     (\<lambda>(vm, ptr). case vm_add_memory_segment V vm of (start, vm1) \<Rightarrow>
        (case vm_load_data V start data vm1 of (r, vm2) \<Rightarrow> (rbind r (\<lambda>stop. Ok (start, stop)), (vm2, ptr))))"

fun SyscallResponseWrapper_write ::
    "'m VmApi \<Rightarrow> ('r \<Rightarrow> ('m \<times> Relocatable, SyscallExecutionError, unit) action) \<Rightarrow>
     'r SyscallResponseWrapper \<Rightarrow> ('m \<times> Relocatable, SyscallExecutionError, unit) action" where
  "SyscallResponseWrapper_write V write (SyscallSuccess gas_counter response) =
     sbind (write_mem V (MInt (unat gas_counter))) (\<lambda>_.
       sbind (write_mem V (MInt 0)) (\<lambda>_. write response))"
| "SyscallResponseWrapper_write V write (SyscallFailure gas_counter error_data) =
     sbind (write_mem V (MInt (unat gas_counter))) (\<lambda>_.
       sbind (write_mem V (MInt 1)) (\<lambda>_.
         sbind (smap_err SysMemoryError (vm_load_new_segment V (felts_to_memory error_data)))
           (\<lambda>(revert_reason_start, revert_reason_end).
             sbind (write_mem V (MRel revert_reason_start)) (\<lambda>_. write_mem V (MRel revert_reason_end)))))"

definition EmptyResponse_write :: "unit \<Rightarrow> ('m \<times> Relocatable, SyscallExecutionError, unit) action" where
  "EmptyResponse_write response = sret ()"

definition felt_response_write ::
    "'m VmApi \<Rightarrow> StarkFelt \<Rightarrow> ('m \<times> Relocatable, SyscallExecutionError, unit) action" where
  "felt_response_write V v = write_mem V (MInt v)"

definition GetExecutionInfoResponse_write ::
    "'m VmApi \<Rightarrow> Relocatable \<Rightarrow> ('m \<times> Relocatable, SyscallExecutionError, unit) action" where
  "GetExecutionInfoResponse_write V execution_info_ptr = write_mem V (MRel execution_info_ptr)"

definition DeployResponse_write ::
    "'m VmApi \<Rightarrow> DeployResponse \<Rightarrow> ('m \<times> Relocatable, SyscallExecutionError, unit) action" where
  "DeployResponse_write V response =
     sbind (write_mem V (MInt (dresp_contract_address response))) (\<lambda>_.
       write_segment V (dresp_constructor_retdata response))"

definition KeccakResponse_write ::
    "'m VmApi \<Rightarrow> KeccakResponse \<Rightarrow> ('m \<times> Relocatable, SyscallExecutionError, unit) action" where
  "KeccakResponse_write V response =
     sbind (write_mem V (MInt (result_low response))) (\<lambda>_. write_mem V (MInt (result_high response)))"

section \<open>Segments of the handler\<close>

definition allocate_data_segment ::
    "'m VmApi \<Rightarrow> StarkFelt list \<Rightarrow> ('m, 's, Relocatable \<times> Relocatable) syscall" where
  "allocate_data_segment V data =
     sbind (smap_err SysMemoryError (allocate V (felts_to_memory data))) (\<lambda>data_segment_start_ptr.
       sbind (slift (map_err SysMathError (rel_add V data_segment_start_ptr (vec_len data)))) (\<lambda>data_segment_end_ptr.
         sret (data_segment_start_ptr, data_segment_end_ptr)))"

definition create_retdata_segment ::
    "'m VmApi \<Rightarrow> StarkFelt list \<Rightarrow> ('m, 's, ReadOnlySegment) syscall" where
  "create_retdata_segment V raw_retdata =
     sbind (allocate_data_segment V raw_retdata) (\<lambda>(retdata_segment_start_ptr, _).
       sret \<lparr>seg_start_ptr = retdata_segment_start_ptr, seg_length = vec_len raw_retdata\<rparr>)"

definition flat_resource_bounds :: "ResourceBoundsMapping \<Rightarrow> StarkFelt list" where
  "flat_resource_bounds bounds =
     concat (map (\<lambda>resource.
       case map_of bounds resource of
         None \<Rightarrow> []
       | Some b \<Rightarrow> [case resource of L1Gas \<Rightarrow> L1_GAS | L2Gas \<Rightarrow> L2_GAS, unat (max_amount b), unat (max_price_per_unit b)])
       [L1Gas, L2Gas])"

definition allocate_tx_resource_bounds_segment ::
    "'m VmApi \<Rightarrow> CurrentTransactionInfo \<Rightarrow> ('m, 's, Relocatable \<times> Relocatable) syscall" where
  "allocate_tx_resource_bounds_segment V info =
     allocate_data_segment V (flat_resource_bounds (cti_resource_bounds info))"

definition round_down :: "u64 \<Rightarrow> u64 \<Rightarrow> u64" where
  "round_down n rounding = (n div rounding) * rounding"

definition block_data :: "'s SyscallHintProcessor \<Rightarrow> StarkFelt list" where
  "block_data h =
     (let info = hp_block_info h; constants = hp_versioned_constants h in
      if is_validate_mode h then
        [unat (round_down (block_number info) (get_validate_block_number_rounding constants)),
         unat (round_down (block_timestamp info) (get_validate_timestamp_rounding constants)), 0]
      else [unat (block_number info), unat (block_timestamp info), sequencer_address info])"

definition allocate_block_info_segment :: "'m VmApi \<Rightarrow> ('m, 's, Relocatable) syscall" where
  "allocate_block_info_segment V =
     with_handler (\<lambda>h. sbind (allocate_data_segment V (block_data h)) (\<lambda>(start, _). sret start))"

definition allocate_tx_info_segment :: "'m VmApi \<Rightarrow> ('m, 's, Relocatable) syscall" where
  "allocate_tx_info_segment V =
     with_handler (\<lambda>h.
       let info = hp_tx_info h in
       sbind (allocate_data_segment V (ti_signature info)) (\<lambda>(signature_start, signature_end).
         let tx_data =
           [MInt (signed_version info), MInt (ti_sender_address info),
            MInt (max_fee_for_execution_info info), MRel signature_start, MRel signature_end,
            MInt (ti_transaction_hash info),
            MInt (felt_from_bytes_be (string_bytes (chain_id (chain_info (block_context (epc_tx_context (hp_context h))))))),
            MInt (ti_nonce info)]
         in case info of
              Current context \<Rightarrow>
                sbind (allocate_tx_resource_bounds_segment V context) (\<lambda>(bounds_start, bounds_end).
                  sbind (allocate_data_segment V (cti_paymaster_data context)) (\<lambda>(paymaster_start, paymaster_end).
                    sbind (allocate_data_segment V (cti_account_deployment_data context)) (\<lambda>(deployment_start, deployment_end).
                      smap_err SysMemoryError (allocate V (tx_data @
                        [MRel bounds_start, MRel bounds_end, MInt (unat (cti_tip context)),
                         MRel paymaster_start, MRel paymaster_end,
                         MInt (da_mode_to_felt V (cti_nonce_data_availability_mode context)),
                         MInt (da_mode_to_felt V (cti_fee_data_availability_mode context)),
                         MRel deployment_start, MRel deployment_end])))))
            | Deprecated _ \<Rightarrow>
                smap_err SysMemoryError (allocate V (tx_data @ replicate 9 (MInt 0)))))"

definition allocate_execution_info_segment :: "'m VmApi \<Rightarrow> ('m, 's, Relocatable) syscall" where
  "allocate_execution_info_segment V =
     sbind (allocate_block_info_segment V) (\<lambda>block_info_ptr.
       sbind (allocate_tx_info_segment V) (\<lambda>tx_info_ptr.
         with_handler (\<lambda>h.
           smap_err SysMemoryError (allocate V
             [MRel block_info_ptr, MRel tx_info_ptr, MInt (sh_caller_address h), MInt (sh_storage_address h),
              MInt (cep_entry_point_selector (sh_call h))]))))"

definition get_or_allocate_execution_info_segment :: "'m VmApi \<Rightarrow> ('m, 's, Relocatable) syscall" where
  "get_or_allocate_execution_info_segment V =
     with_handler (\<lambda>h.
       case sh_execution_info_ptr h of
         Some execution_info_ptr \<Rightarrow> sret execution_info_ptr
       | None \<Rightarrow>
           sbind (allocate_execution_info_segment V) (\<lambda>execution_info_ptr.
             sbind (modify_handler (\<lambda>h. h\<lparr>sh_execution_info_ptr := Some execution_info_ptr\<rparr>)) (\<lambda>_.
               sret execution_info_ptr)))"

section \<open>The syscalls\<close>

definition execute_inner_call ::
    "'m VmApi \<Rightarrow> 's Executor \<Rightarrow> CallEntryPoint \<Rightarrow> ('m, 's, ReadOnlySegment) gas_syscall" where
  "execute_inner_call V exec call =
     sbind (keep_gas (smap_err SysEntryPointError (on_execution (exec call)))) (\<lambda>call_info.
       let raw_retdata = ce_retdata (ci_execution call_info) in
       if ce_failed (ci_execution call_info) then slift (Err (SyscallError raw_retdata))
       else
         sbind (keep_gas (create_retdata_segment V raw_retdata)) (\<lambda>retdata_segment.
           sbind (with_gas (\<lambda>gas. set_gas (update_remaining_gas gas call_info))) (\<lambda>_.
             sbind (keep_gas (push_inner_call call_info)) (\<lambda>_. sret retdata_segment))))"

definition call_contract ::
    "'m VmApi \<Rightarrow> 's StateReader \<Rightarrow> 's Executor \<Rightarrow> CallContractRequest \<Rightarrow> ('m, 's, ReadOnlySegment) gas_syscall" where
  "call_contract V R exec request =
     (let storage_address = ccr_contract_address request; selector = ccr_function_selector request in
      sbind (keep_gas (smap_err SysStateError (on_state (get_class_hash_at R storage_address)))) (\<lambda>class_hash.
        with_call_state (\<lambda>vm h remaining_gas.
          if is_validate_mode h \<and> sh_storage_address h \<noteq> storage_address then
             slift (Err (InvalidSyscallInExecutionMode ''call_contract'' (execution_mode h)))
           else
             smap_err (CallContractExecutionError class_hash storage_address selector)
               (execute_inner_call V exec
                  \<lparr>cep_class_hash = None, cep_code_address = Some storage_address,
                   cep_entry_point_type = External, cep_entry_point_selector = selector,
                   cep_calldata = ccr_calldata request, cep_storage_address = storage_address,
                   cep_caller_address = sh_storage_address h, cep_call_type = Call,
                   cep_initial_gas = remaining_gas\<rparr>))))"

definition execute_library_call ::
    "'m VmApi \<Rightarrow> 's Executor \<Rightarrow> ClassHash \<Rightarrow> bool \<Rightarrow> EntryPointSelector \<Rightarrow> Calldata \<Rightarrow>
     ('m, 's, ReadOnlySegment) gas_syscall" where
  "execute_library_call V exec class_hash call_to_external entry_point_selector calldata =
     with_call_state (\<lambda>vm h remaining_gas.
        smap_err (LibraryCallExecutionError class_hash (sh_storage_address h) entry_point_selector)
          (execute_inner_call V exec
             \<lparr>cep_class_hash = Some class_hash, cep_code_address = None,
              cep_entry_point_type = (if call_to_external then External else L1Handler),
              cep_entry_point_selector = entry_point_selector, cep_calldata = calldata,
              cep_storage_address = sh_storage_address h, cep_caller_address = sh_caller_address h,
              cep_call_type = Delegate, cep_initial_gas = remaining_gas\<rparr>))"

definition library_call ::
    "'m VmApi \<Rightarrow> 's Executor \<Rightarrow> LibraryCallRequest \<Rightarrow> ('m, 's, ReadOnlySegment) gas_syscall" where
  "library_call V exec request =
     execute_library_call V exec (lcr_class_hash request) True (lcr_function_selector request) (lcr_calldata request)"

definition library_call_l1_handler ::
    "'m VmApi \<Rightarrow> 's Executor \<Rightarrow> LibraryCallRequest \<Rightarrow> ('m, 's, ReadOnlySegment) gas_syscall" where
  "library_call_l1_handler V exec request =
     execute_library_call V exec (lcr_class_hash request) False (lcr_function_selector request) (lcr_calldata request)"

definition deploy ::
    "'a Externals_scheme \<Rightarrow> 'm VmApi \<Rightarrow> 's StateReader \<Rightarrow> 's Executor \<Rightarrow> DeployRequest \<Rightarrow>
     ('m, 's, DeployResponse) gas_syscall" where
  "deploy E V R exec request =
     with_call_state (\<lambda>vm h remaining_gas.
        let deployer_address = sh_storage_address h;
            deployer_address_for_calculation = (if dr_deploy_from_zero request then 0 else deployer_address)
        in sbind (slift (map_err SysStarknetApiError
                    (contract_address_from E (dr_contract_address_salt request) (dr_class_hash request)
                       (dr_constructor_calldata request) deployer_address_for_calculation)))
             (\<lambda>deployed_contract_address.
               sbind (keep_gas (smap_err SysConstructorError (on_execution
                        (execute_deployment E R exec
                           \<lparr>ctor_class_hash = dr_class_hash request,
                            ctor_code_address = Some deployed_contract_address,
                            ctor_storage_address = deployed_contract_address,
                            ctor_caller_address = deployer_address\<rparr>
                           (dr_constructor_calldata request) remaining_gas)))) (\<lambda>call_info.
                 sbind (keep_gas (create_retdata_segment V (ce_retdata (ci_execution call_info)))) (\<lambda>constructor_retdata.
                   sbind (with_gas (\<lambda>gas. set_gas (update_remaining_gas gas call_info))) (\<lambda>_.
                     sbind (keep_gas (push_inner_call call_info)) (\<lambda>_.
                       sret \<lparr>dresp_contract_address = deployed_contract_address,
                             dresp_constructor_retdata = constructor_retdata\<rparr>))))))"

definition emit_event :: "EventContent \<Rightarrow> ('m, 's, unit) syscall" where
  "emit_event content = smap_err SysEmitEventError (push_event content)"

definition get_block_hash ::
    "'a Externals_scheme \<Rightarrow> 's StateReader \<Rightarrow> u64 \<Rightarrow> ('m, 's, StarkFelt) syscall" where
  "get_block_hash E R requested_block_number =
     with_handler (\<lambda>h.
       let current_block_number = block_number (hp_block_info h) in
       if is_validate_mode h then
         slift (Err (InvalidSyscallInExecutionMode ''get_block_hash'' (execution_mode h)))
       else if current_block_number < STORED_BLOCK_HASH_BUFFER
               \<or> requested_block_number > current_block_number - STORED_BLOCK_HASH_BUFFER then
         slift (Err (SyscallError [BLOCK_NUMBER_OUT_OF_RANGE_ERROR]))
       else
         sbind (slift (map_err SysStarknetApiError (patricia_key_try_from E (unat requested_block_number)))) (\<lambda>key.
           sbind (slift (map_err SysStarknetApiError (patricia_key_try_from E BLOCK_HASH_CONTRACT_ADDRESS)))
             (\<lambda>block_hash_contract_address.
               smap_err SysStateError (on_state (get_storage_at R block_hash_contract_address key)))))"

definition get_execution_info :: "'m VmApi \<Rightarrow> unit \<Rightarrow> ('m, 's, Relocatable) syscall" where
  "get_execution_info V request = get_or_allocate_execution_info_segment V"

definition replace_class :: "'s StateReader \<Rightarrow> ClassHash \<Rightarrow> ('m, 's, unit) syscall" where
  "replace_class R class_hash =
     sbind (smap_err SysStateError (on_state (get_compiled_contract_class R class_hash))) (\<lambda>contract_class.
       case contract_class of
         V0 _ \<Rightarrow> slift (Err (ForbiddenClassReplacement class_hash))
       | V1 _ \<Rightarrow>
           with_handler (\<lambda>h. smap_err SysStateError (on_state (set_class_hash_at (sh_storage_address h) class_hash))))"

definition send_message_to_l1 :: "MessageToL1 \<Rightarrow> ('m, 's, unit) syscall" where
  "send_message_to_l1 message = push_message message"

definition storage_read :: "'s StateReader \<Rightarrow> StorageReadRequest \<Rightarrow> ('m, 's, StarkFelt) syscall" where
  "storage_read R request =
     with_handler (\<lambda>h. smap_err SysStateError (read_contract_storage R (sh_storage_address h) (srr_address request)))"

definition storage_write :: "StorageWriteRequest \<Rightarrow> ('m, 's, unit) syscall" where
  "storage_write request =
     with_handler (\<lambda>h. smap_err SysStateError
       (write_contract_storage (sh_storage_address h) (swr_address request) (swr_value request)))"

definition KECCAK_FULL_RATE_IN_WORDS :: usize where
  "KECCAK_FULL_RATE_IN_WORDS = 17"

fun absorb_chunk :: "u64 list \<Rightarrow> nat \<Rightarrow> StarkFelt list \<Rightarrow> (SyscallExecutionError, u64 list) result" where
  "absorb_chunk state i [] = Ok state"
| "absorb_chunk state i (felt # chunk) =
     (case to_u64 felt of
        None \<Rightarrow> Err (InvalidSyscallInput felt ''Invalid input for the keccak syscall.'')
      | Some v \<Rightarrow> absorb_chunk (state[i := state ! i XOR v]) (Suc i) chunk)"

function absorb :: "'m VmApi \<Rightarrow> u64 list \<Rightarrow> StarkFelt list \<Rightarrow> (SyscallExecutionError, u64 list) result" where
  "absorb V state data =
     (if data = [] then Ok state
      else rbind (absorb_chunk state 0 (take 17 data)) (\<lambda>state'. absorb V (keccak_f1600 V state') (drop 17 data)))"
  by pat_completeness auto
termination
  by (relation "measure (\<lambda>(_, _, data). length data)") auto

declare absorb.simps [simp del]

definition keccak :: "'m VmApi \<Rightarrow> KeccakRequest \<Rightarrow> ('m, 's, KeccakResponse) gas_syscall" where
  "keccak V request =
     sbind (slift (map_err SysMathError (rel_diff V (input_end request) (input_start request)))) (\<lambda>input_length.
       let n_rounds = input_length div KECCAK_FULL_RATE_IN_WORDS in
       if input_length mod KECCAK_FULL_RATE_IN_WORDS \<noteq> 0 then
         slift (Err (SyscallError [INVALID_INPUT_LENGTH_ERROR]))
       else
         with_call_state (\<lambda>vm h remaining_gas.
            let gas_cost = n_rounds * keccak_round_cost_gas_cost (hp_gas_costs h) in
            if gas_cost > remaining_gas then slift (Err (SyscallError [OUT_OF_GAS_ERROR]))
            else
              sbind (set_gas (remaining_gas - gas_cost)) (\<lambda>_.
                sbind (keep_gas (increment_syscall_count_by Keccak n_rounds)) (\<lambda>_.
                  sbind (slift (map_err (\<lambda>e. SysMemoryError e)
                           (vm_get_integer_range V vm (input_start request) input_length))) (\<lambda>data.
                    sbind (slift (absorb V (replicate 25 0) data)) (\<lambda>state.
                      sret \<lparr>result_low = (unat (state ! 1) * 2 ^ 64 + unat (state ! 0)) mod PRIME,
                            result_high = (unat (state ! 3) * 2 ^ 64 + unat (state ! 2)) mod PRIME\<rparr>))))))"

definition on_secp256k1 ::
    "(SecpHintProcessor, SyscallExecutionError, 'a) action \<Rightarrow> ('m, 's, 'a) syscall" where
  "on_secp256k1 act =
     (\<lambda>(vm, h). case act (sh_secp256k1_hint_processor h) of
        (r, points) \<Rightarrow> (r, (vm, h\<lparr>sh_secp256k1_hint_processor := points\<rparr>)))"

definition on_secp256r1 ::
    "(SecpHintProcessor, SyscallExecutionError, 'a) action \<Rightarrow> ('m, 's, 'a) syscall" where
  "on_secp256r1 act =
     (\<lambda>(vm, h). case act (sh_secp256r1_hint_processor h) of
        (r, points) \<Rightarrow> (r, (vm, h\<lparr>sh_secp256r1_hint_processor := points\<rparr>)))"

definition secp256k1_add :: "'m VmApi \<Rightarrow> SecpAddRequest \<Rightarrow> ('m, 's, usize) syscall" where
  "secp256k1_add V request = on_secp256k1 (secp_add (secp256k1 V) request)"
definition secp256r1_add :: "'m VmApi \<Rightarrow> SecpAddRequest \<Rightarrow> ('m, 's, usize) syscall" where
  "secp256r1_add V request = on_secp256r1 (secp_add (secp256r1 V) request)"
definition secp256k1_get_point_from_x ::
    "'m VmApi \<Rightarrow> SecpGetPointFromXRequest \<Rightarrow> ('m, 's, usize option) syscall" where
  "secp256k1_get_point_from_x V request = on_secp256k1 (secp_get_point_from_x (secp256k1 V) request)"
definition secp256r1_get_point_from_x ::
    "'m VmApi \<Rightarrow> SecpGetPointFromXRequest \<Rightarrow> ('m, 's, usize option) syscall" where
  "secp256r1_get_point_from_x V request = on_secp256r1 (secp_get_point_from_x (secp256r1 V) request)"
definition secp256k1_get_xy :: "StarkFelt \<Rightarrow> ('m, 's, EcPointCoordinates) syscall" where
  "secp256k1_get_xy request = on_secp256k1 (secp_get_xy request)"
definition secp256r1_get_xy :: "StarkFelt \<Rightarrow> ('m, 's, EcPointCoordinates) syscall" where
  "secp256r1_get_xy request = on_secp256r1 (secp_get_xy request)"
definition secp256k1_mul :: "'m VmApi \<Rightarrow> SecpMulRequest \<Rightarrow> ('m, 's, usize) syscall" where
  "secp256k1_mul V request = on_secp256k1 (secp_mul (secp256k1 V) request)"
definition secp256r1_mul :: "'m VmApi \<Rightarrow> SecpMulRequest \<Rightarrow> ('m, 's, usize) syscall" where
  "secp256r1_mul V request = on_secp256r1 (secp_mul (secp256r1 V) request)"
definition secp256k1_new :: "'m VmApi \<Rightarrow> EcPointCoordinates \<Rightarrow> ('m, 's, usize option) syscall" where
  "secp256k1_new V request = on_secp256k1 (secp_new (secp256k1 V) request)"
definition secp256r1_new :: "'m VmApi \<Rightarrow> EcPointCoordinates \<Rightarrow> ('m, 's, usize option) syscall" where
  "secp256r1_new V request = on_secp256r1 (secp_new (secp256r1 V) request)"

section \<open>Gas accounting and dispatch\<close>

definition hint_error_from :: "SyscallExecutionError \<Rightarrow> HintError" where
  "hint_error_from e = HintInternal (VmOtherSyscall e)"

definition respond ::
    "'m VmApi \<Rightarrow> ('r \<Rightarrow> ('m \<times> Relocatable, SyscallExecutionError, unit) action) \<Rightarrow>
     (SyscallExecutionError, 'r) result \<times> (('m \<times> 's SyscallHintProcessor) \<times> u64) \<Rightarrow>
     (SyscallExecutionError, unit) result \<times> ('m \<times> 's SyscallHintProcessor)" where
  "respond V write outcome =
     (case outcome of
        (Ok response, (s, remaining_gas)) \<Rightarrow>
          writing (SyscallResponseWrapper_write V write (SyscallSuccess remaining_gas response)) s
      | (Err (SyscallError error_data), (s, remaining_gas)) \<Rightarrow>
          writing (SyscallResponseWrapper_write V write (SyscallFailure remaining_gas error_data)) s
      | (Err e, (s, remaining_gas)) \<Rightarrow> (Err e, s)
      | (Panic p, (s, remaining_gas)) \<Rightarrow> (Panic p, s))"

definition execute_syscall ::
    "'m VmApi \<Rightarrow> ('m \<Rightarrow> (Relocatable, SyscallExecutionError, 'q) action) \<Rightarrow>
     ('q \<Rightarrow> ('m, 's, 'r) gas_syscall) \<Rightarrow>
     ('r \<Rightarrow> ('m \<times> Relocatable, SyscallExecutionError, unit) action) \<Rightarrow>
     (GasCosts \<Rightarrow> u64) \<Rightarrow> ('m \<times> 's SyscallHintProcessor, HintError, unit) action" where
  "execute_syscall V read execute_callback write syscall_gas_cost =
     with_handler (\<lambda>h.
       let required_gas = syscall_gas_cost (hp_gas_costs h) - syscall_base_gas_cost (hp_gas_costs h) in
       smap_err hint_error_from
         (sbind (reading (SyscallRequestWrapper_read V read)) (\<lambda>(gas_counter, request).
            if gas_counter < required_gas then
              writing (SyscallResponseWrapper_write V write (SyscallFailure gas_counter [OUT_OF_GAS_ERROR]))
            else
              (\<lambda>s. respond V write (execute_callback request (s, gas_counter - required_gas))))))"

definition unwrap :: "('e, 'a) result \<Rightarrow> ('f, 'a) result" where
  "unwrap r =
     (case r of Ok a \<Rightarrow> Ok a | Err _ \<Rightarrow> Panic ''called `Result::unwrap()` on an `Err` value'' | Panic p \<Rightarrow> Panic p)"

fun res_operand_cell :: "ResOperand \<Rightarrow> ('e, CellRef \<times> StarkFelt) result" where
  "res_operand_cell (ResDeref cell) = Ok (cell, 0)"
| "res_operand_cell (ResBinOp OpAdd a (ImmediateOperand b)) = Ok (a, b)"
| "res_operand_cell _ = Panic ''Illegal argument for a buffer.''"

definition get_ptr_from_res_operand_unchecked :: "'m VmApi \<Rightarrow> 'm \<Rightarrow> ResOperand \<Rightarrow> ('e, Relocatable) result" where
  "get_ptr_from_res_operand_unchecked V vm res =
     rbind (res_operand_cell res) (\<lambda>(cell, base_offset).
       let base = (case cell_register cell of AP \<Rightarrow> vm_get_ap V vm | FP \<Rightarrow> vm_get_fp V vm) in
       rbind (unwrap (rel_add_i32 V base (cell_offset cell))) (\<lambda>cell_reloc.
         rbind (unwrap (vm_get_relocatable V vm cell_reloc)) (\<lambda>ptr.
           unwrap (rel_add_felt V ptr base_offset))))"

definition verify_syscall_ptr :: "Relocatable \<Rightarrow> ('m, 's, unit) syscall" where
  "verify_syscall_ptr actual_ptr =
     with_handler (\<lambda>h.
       if actual_ptr \<noteq> hp_syscall_ptr h then slift (Err (BadSyscallPointer (hp_syscall_ptr h) actual_ptr))
       else sret ())"

definition dispatch_syscall ::
    "'a Externals_scheme \<Rightarrow> 'm VmApi \<Rightarrow> 's StateReader \<Rightarrow> 's Executor \<Rightarrow> SyscallSelector \<Rightarrow>
     ('m \<times> 's SyscallHintProcessor, HintError, unit) action" where
  "dispatch_syscall E V R exec selector =
     (case selector of
        CallContract \<Rightarrow>
          execute_syscall V (CallContractRequest_read E V) (call_contract V R exec) (write_segment V)
            call_contract_gas_cost
      | Deploy \<Rightarrow>
          execute_syscall V (DeployRequest_read V) (deploy E V R exec) (DeployResponse_write V) deploy_gas_cost
      | EmitEvent \<Rightarrow>
          execute_syscall V (EmitEventRequest_read V) (\<lambda>q. keep_gas (emit_event q)) EmptyResponse_write
            emit_event_gas_cost
      | GetBlockHash \<Rightarrow>
          execute_syscall V (GetBlockHashRequest_read V) (\<lambda>q. keep_gas (get_block_hash E R q))
            (felt_response_write V) get_block_hash_gas_cost
      | GetExecutionInfo \<Rightarrow>
          execute_syscall V EmptyRequest_read (\<lambda>q. keep_gas (get_execution_info V q))
            (GetExecutionInfoResponse_write V) get_execution_info_gas_cost
      | Keccak \<Rightarrow>
          execute_syscall V (KeccakRequest_read V) (keccak V) (KeccakResponse_write V) keccak_gas_cost
      | LibraryCall \<Rightarrow>
          execute_syscall V (LibraryCallRequest_read V) (library_call V exec) (write_segment V)
            library_call_gas_cost
      | LibraryCallL1Handler \<Rightarrow>
          execute_syscall V (LibraryCallRequest_read V) (library_call_l1_handler V exec) (write_segment V)
            library_call_gas_cost
      | ReplaceClass \<Rightarrow>
          execute_syscall V (ReplaceClassRequest_read V) (\<lambda>q. keep_gas (replace_class R q)) EmptyResponse_write
            replace_class_gas_cost
      | Secp256k1Add \<Rightarrow>
          execute_syscall V (SecpAddRequest_read V) (\<lambda>q. keep_gas (secp256k1_add V q)) (SecpOpRespone_write V)
            secp256k1_add_gas_cost
      | Secp256k1GetPointFromX \<Rightarrow>
          execute_syscall V (SecpGetPointFromXRequest_read V) (\<lambda>q. keep_gas (secp256k1_get_point_from_x V q))
            (SecpOptionalEcPointResponse_write V) secp256k1_get_point_from_x_gas_cost
      | Secp256k1GetXy \<Rightarrow>
          execute_syscall V (SecpGetXyRequest_read V) (\<lambda>q. keep_gas (secp256k1_get_xy q))
            (SecpGetXyResponse_write V) secp256k1_get_xy_gas_cost
      | Secp256k1Mul \<Rightarrow>
          execute_syscall V (SecpMulRequest_read V) (\<lambda>q. keep_gas (secp256k1_mul V q)) (SecpOpRespone_write V)
            secp256k1_mul_gas_cost
      | Secp256k1New \<Rightarrow>
          execute_syscall V (SecpNewRequest_read V) (\<lambda>q. keep_gas (secp256k1_new V q))
            (SecpOptionalEcPointResponse_write V) secp256k1_new_gas_cost
      | Secp256r1Add \<Rightarrow>
          execute_syscall V (SecpAddRequest_read V) (\<lambda>q. keep_gas (secp256r1_add V q)) (SecpOpRespone_write V)
            secp256r1_add_gas_cost
      | Secp256r1GetPointFromX \<Rightarrow>
          execute_syscall V (SecpGetPointFromXRequest_read V) (\<lambda>q. keep_gas (secp256r1_get_point_from_x V q))
            (SecpOptionalEcPointResponse_write V) secp256r1_get_point_from_x_gas_cost
      | Secp256r1GetXy \<Rightarrow>
          execute_syscall V (SecpGetXyRequest_read V) (\<lambda>q. keep_gas (secp256r1_get_xy q))
            (SecpGetXyResponse_write V) secp256r1_get_xy_gas_cost
      | Secp256r1Mul \<Rightarrow>
          execute_syscall V (SecpMulRequest_read V) (\<lambda>q. keep_gas (secp256r1_mul V q)) (SecpOpRespone_write V)
            secp256r1_mul_gas_cost
      | Secp256r1New \<Rightarrow>
          execute_syscall V (SecpNewRequest_read V) (\<lambda>q. keep_gas (secp256r1_new V q))
            (SecpOptionalEcPointResponse_write V) secp256r1_new_gas_cost
      | SendMessageToL1 \<Rightarrow>
          execute_syscall V (SendMessageToL1Request_read V) (\<lambda>q. keep_gas (send_message_to_l1 q))
            EmptyResponse_write send_message_to_l1_gas_cost
      | StorageRead \<Rightarrow>
          execute_syscall V (StorageReadRequest_read E V) (\<lambda>q. keep_gas (storage_read R q))
            (felt_response_write V) storage_read_gas_cost
      | StorageWrite \<Rightarrow>
          execute_syscall V (StorageWriteRequest_read E V) (\<lambda>q. keep_gas (storage_write q))
            EmptyResponse_write storage_write_gas_cost
      | _ \<Rightarrow> slift (Err (UnknownHint ''Unsupported syscall selector.'')))"

definition execute_next_syscall ::
    "'a Externals_scheme \<Rightarrow> 'm VmApi \<Rightarrow> 's StateReader \<Rightarrow> 's Executor \<Rightarrow> StarknetHint \<Rightarrow>
     ('m \<times> 's SyscallHintProcessor, HintError, unit) action" where
  "execute_next_syscall E V R exec hint =
     (case hint of
        TestHint _ \<Rightarrow>
          slift (Err (HintInternal (VmOther ''Test functions are unsupported on starknet.'')))
      | SystemCall syscall \<Rightarrow>
          sbind (with_vm (\<lambda>vm. slift (get_ptr_from_res_operand_unchecked V vm syscall))) (\<lambda>initial_syscall_ptr.
            sbind (smap_err hint_error_from (verify_syscall_ptr initial_syscall_ptr)) (\<lambda>_.
              sbind (smap_err hint_error_from (reading (read_felt V))) (\<lambda>raw_selector.
                sbind (slift (map_err (\<lambda>e. HintInternal (VmOtherDeprecatedSyscall e))
                         (SyscallSelector_try_from raw_selector))) (\<lambda>selector.
                  sbind (if selector \<noteq> Keccak then increment_syscall_count selector else sret ()) (\<lambda>_.
                    dispatch_syscall E V R exec selector))))))"

definition execute_hint ::
    "'a Externals_scheme \<Rightarrow> 'm VmApi \<Rightarrow> 's StateReader \<Rightarrow> 's Executor \<Rightarrow> HintData \<Rightarrow>
     (string, StarkFelt) HashMap \<Rightarrow> ('m \<times> 's SyscallHintProcessor, HintError, unit) action" where
  "execute_hint E V R exec hint_data constants =
     (case hint_data of
        HintOf (CoreHint hint) \<Rightarrow>
          on_vm (vm_execute_core_hint_base V hint)
      | HintOf (Starknet hint) \<Rightarrow> execute_next_syscall E V R exec hint
      | _ \<Rightarrow> slift (Err WrongHintData))"

text \<open>The resource tracker of both handlers is that of the execution context.\<close>

definition consumed :: "'m VmApi \<Rightarrow> ('s, 'x) HintProcessorBase_scheme \<Rightarrow> bool" where
  "consumed V h = run_resources_consumed V (epc_vm_run_resources (hp_context h))"

definition consume_step ::
    "'m VmApi \<Rightarrow> ('s, 'x) HintProcessorBase_scheme \<Rightarrow> ('s, 'x) HintProcessorBase_scheme" where
  "consume_step V h =
     h\<lparr>hp_context := (hp_context h)\<lparr>epc_vm_run_resources :=
       run_resources_consume_step V (epc_vm_run_resources (hp_context h))\<rparr>\<rparr>"

end
