(* ===== verification/Deprecated_Syscalls.thy ===== *)
theory Deprecated_Syscalls
  imports Syscalls
begin

text \<open>
  The syscall handler of Cairo 0 contracts: \<open>execution/deprecated_syscalls/mod.rs\<close> and
  \<open>execution/deprecated_syscalls/hint_processor.rs\<close>. It has no gas counter. A name that the
  handler of Sierra contracts also uses carries the prefix \<open>dep_\<close>.
\<close>

section \<open>The handler\<close>

record 's DeprecatedSyscallHintProcessor = "'s HintProcessorBase" +
  dh_storage_address :: ContractAddress
  dh_caller_address :: ContractAddress
  dh_tx_signature_start_ptr :: "Relocatable option"
  dh_tx_info_start_ptr :: "Relocatable option"

definition DeprecatedSyscallHintProcessor_new ::
    "'s ExecState \<Rightarrow> Relocatable \<Rightarrow> ContractAddress \<Rightarrow> ContractAddress \<Rightarrow> 's DeprecatedSyscallHintProcessor" where
  "DeprecatedSyscallHintProcessor_new borrowed initial_syscall_ptr storage_address caller_address =
     (case borrowed of (state, resources, context) \<Rightarrow>
        \<lparr>hp_state = state, hp_resources = resources, hp_context = context, hp_inner_calls = [],
         hp_events = [], hp_l2_to_l1_messages = [], hp_syscall_counter = [],
         hp_read_only_segments = [], hp_syscall_ptr = initial_syscall_ptr,
         hp_read_values = [], hp_accessed_keys = [], dh_storage_address = storage_address,
         dh_caller_address = caller_address, dh_tx_signature_start_ptr = None,
         dh_tx_info_start_ptr = None\<rparr>)"

type_synonym ('m, 's, 'a) dep_syscall =
  "('m \<times> 's DeprecatedSyscallHintProcessor, DeprecatedSyscallExecutionError, 'a) action"

definition verify_not_in_validate_mode :: "string \<Rightarrow> ('m, 's, unit) dep_syscall" where
  "verify_not_in_validate_mode syscall_name =
     with_handler (\<lambda>h.
       if is_validate_mode h then slift (Err (DepInvalidSyscallInExecutionMode syscall_name (execution_mode h)))
       else sret ())"

definition dep_verify_syscall_ptr :: "Relocatable \<Rightarrow> ('m, 's, unit) dep_syscall" where
  "dep_verify_syscall_ptr actual_ptr =
     with_handler (\<lambda>h.
       if actual_ptr \<noteq> hp_syscall_ptr h then slift (Err (DepBadSyscallPointer (hp_syscall_ptr h) actual_ptr))
       else sret ())"

section \<open>Requests and responses\<close>

abbreviation dep_read_felt ::
    "'m VmApi \<Rightarrow> 'm \<Rightarrow> (Relocatable, DeprecatedSyscallExecutionError, StarkFelt) action" where
  "dep_read_felt V vm \<equiv> smap_err DepVirtualMachineError (stark_felt_from_ptr V vm)"

abbreviation dep_write_mem ::
    "'m VmApi \<Rightarrow> MaybeRelocatable \<Rightarrow> ('m \<times> Relocatable, DeprecatedSyscallExecutionError, unit) action" where
  "dep_write_mem V v \<equiv> smap_err DepMemoryError (write_maybe_relocatable V v)"

definition dep_felt_to_bool :: "StarkFelt \<Rightarrow> (DeprecatedSyscallExecutionError, bool) result" where
  "dep_felt_to_bool felt =
     (if felt = 0 then Ok False else if felt = 1 then Ok True
      else Err (DepInvalidSyscallInput felt
                  ''The deploy_from_zero field in the deploy system call must be 0 or 1.''))"

definition dep_read_felt_array ::
    "'m VmApi \<Rightarrow> 'm \<Rightarrow> (Relocatable, DeprecatedSyscallExecutionError, StarkFelt list) action" where
  "dep_read_felt_array V vm =
     sbind (dep_read_felt V vm) (\<lambda>array_size.
       sbind (smap_err (case_sum DepMemoryError DepMathError) (relocatable_from_ptr V vm)) (\<lambda>array_data_start_ptr.
         sbind (slift (map_err DepStarknetApiError (usize_from_felt array_size))) (\<lambda>n.
           slift (map_err DepVirtualMachineError (felt_range_from_ptr V vm array_data_start_ptr n)))))"

definition dep_read_calldata ::
    "'m VmApi \<Rightarrow> 'm \<Rightarrow> (Relocatable, DeprecatedSyscallExecutionError, Calldata) action" where
  "dep_read_calldata V vm = dep_read_felt_array V vm"

definition dep_read_call_params ::
    "'m VmApi \<Rightarrow> 'm \<Rightarrow> (Relocatable, DeprecatedSyscallExecutionError, EntryPointSelector \<times> Calldata) action" where
  "dep_read_call_params V vm =
     sbind (dep_read_felt V vm) (\<lambda>function_selector.
       sbind (dep_read_calldata V vm) (\<lambda>calldata. sret (function_selector, calldata)))"

definition dep_read_patricia_key ::
    "'a Externals_scheme \<Rightarrow> 'm VmApi \<Rightarrow> 'm \<Rightarrow> (Relocatable, DeprecatedSyscallExecutionError, nat) action" where
  "dep_read_patricia_key E V vm =
     sbind (dep_read_felt V vm) (\<lambda>felt. slift (map_err DepStarknetApiError (patricia_key_try_from E felt)))"

definition dep_EmptyRequest_read :: "'m \<Rightarrow> (Relocatable, DeprecatedSyscallExecutionError, unit) action" where
  "dep_EmptyRequest_read vm = sret ()"

definition dep_CallContractRequest_read ::
    "'a Externals_scheme \<Rightarrow> 'm VmApi \<Rightarrow> 'm \<Rightarrow>
     (Relocatable, DeprecatedSyscallExecutionError, CallContractRequest) action" where
  "dep_CallContractRequest_read E V vm =
     sbind (dep_read_patricia_key E V vm) (\<lambda>contract_address.
       sbind (dep_read_call_params V vm) (\<lambda>(function_selector, calldata).
         sret \<lparr>ccr_contract_address = contract_address, ccr_function_selector = function_selector,
               ccr_calldata = calldata\<rparr>))"

definition dep_DeployRequest_read ::
    "'m VmApi \<Rightarrow> 'm \<Rightarrow> (Relocatable, DeprecatedSyscallExecutionError, DeployRequest) action" where
  "dep_DeployRequest_read V vm =
     sbind (dep_read_felt V vm) (\<lambda>class_hash.
       sbind (dep_read_felt V vm) (\<lambda>contract_address_salt.
         sbind (dep_read_calldata V vm) (\<lambda>constructor_calldata.
           sbind (dep_read_felt V vm) (\<lambda>deploy_from_zero.
             sbind (slift (dep_felt_to_bool deploy_from_zero)) (\<lambda>from_zero.
               sret \<lparr>dr_class_hash = class_hash, dr_contract_address_salt = contract_address_salt,
                     dr_constructor_calldata = constructor_calldata, dr_deploy_from_zero = from_zero\<rparr>)))))"

definition dep_EmitEventRequest_read ::
    "'m VmApi \<Rightarrow> 'm \<Rightarrow> (Relocatable, DeprecatedSyscallExecutionError, EventContent) action" where
  "dep_EmitEventRequest_read V vm =
     sbind (dep_read_felt_array V vm) (\<lambda>keys. sbind (dep_read_felt_array V vm) (\<lambda>data.
       sret \<lparr>ev_keys = keys, ev_data = data\<rparr>))"

definition dep_LibraryCallRequest_read ::
    "'m VmApi \<Rightarrow> 'm \<Rightarrow> (Relocatable, DeprecatedSyscallExecutionError, LibraryCallRequest) action" where
  "dep_LibraryCallRequest_read V vm =
     sbind (dep_read_felt V vm) (\<lambda>class_hash.
       sbind (dep_read_call_params V vm) (\<lambda>(function_selector, calldata).
         sret \<lparr>lcr_class_hash = class_hash, lcr_function_selector = function_selector, lcr_calldata = calldata\<rparr>))"

definition dep_ReplaceClassRequest_read ::
    "'m VmApi \<Rightarrow> 'm \<Rightarrow> (Relocatable, DeprecatedSyscallExecutionError, ClassHash) action" where
  "dep_ReplaceClassRequest_read V vm = dep_read_felt V vm"

definition dep_SendMessageToL1Request_read ::
    "'m VmApi \<Rightarrow> 'm \<Rightarrow> (Relocatable, DeprecatedSyscallExecutionError, MessageToL1) action" where
  "dep_SendMessageToL1Request_read V vm =
     sbind (dep_read_felt V vm) (\<lambda>felt.
       sbind (slift (map_err DepStarknetApiError (eth_address_try_from V felt))) (\<lambda>to_address.
         sbind (dep_read_felt_array V vm) (\<lambda>payload.
           sret \<lparr>msg_to_address = to_address, msg_payload = payload\<rparr>)))"

definition dep_StorageReadRequest_read ::
    "'a Externals_scheme \<Rightarrow> 'm VmApi \<Rightarrow> 'm \<Rightarrow> (Relocatable, DeprecatedSyscallExecutionError, StorageKey) action" where
  "dep_StorageReadRequest_read E V vm = dep_read_patricia_key E V vm"

definition dep_StorageWriteRequest_read ::
    "'a Externals_scheme \<Rightarrow> 'm VmApi \<Rightarrow> 'm \<Rightarrow>
     (Relocatable, DeprecatedSyscallExecutionError, StorageKey \<times> StarkFelt) action" where
  "dep_StorageWriteRequest_read E V vm =
     sbind (dep_read_patricia_key E V vm) (\<lambda>address.
       sbind (dep_read_felt V vm) (\<lambda>v. sret (address, v)))"

definition dep_EmptyResponse_write ::
    "unit \<Rightarrow> ('m \<times> Relocatable, DeprecatedSyscallExecutionError, unit) action" where
  "dep_EmptyResponse_write response = sret ()"

definition dep_SingleSegmentResponse_write ::
    "'m VmApi \<Rightarrow> ReadOnlySegment \<Rightarrow> ('m \<times> Relocatable, DeprecatedSyscallExecutionError, unit) action" where
  "dep_SingleSegmentResponse_write V segment =
     sbind (dep_write_mem V (MInt (unat (seg_length segment)))) (\<lambda>_.
       dep_write_mem V (MRel (seg_start_ptr segment)))"

definition dep_DeployResponse_write ::
    "'m VmApi \<Rightarrow> ContractAddress \<Rightarrow> ('m \<times> Relocatable, DeprecatedSyscallExecutionError, unit) action" where
  "dep_DeployResponse_write V contract_address =
     sbind (dep_write_mem V (MInt contract_address)) (\<lambda>_.
       sbind (dep_write_mem V (MInt 0)) (\<lambda>_. dep_write_mem V (MInt 0)))"

definition dep_felt_response_write ::
    "'m VmApi \<Rightarrow> StarkFelt \<Rightarrow> ('m \<times> Relocatable, DeprecatedSyscallExecutionError, unit) action" where
  "dep_felt_response_write V v = dep_write_mem V (MInt v)"

definition dep_GetTxInfoResponse_write ::
    "'m VmApi \<Rightarrow> Relocatable \<Rightarrow> ('m \<times> Relocatable, DeprecatedSyscallExecutionError, unit) action" where
  "dep_GetTxInfoResponse_write V tx_info_start_ptr = dep_write_mem V (MRel tx_info_start_ptr)"

section \<open>Segments of the handler\<close>

definition allocate_tx_signature_segment :: "'m VmApi \<Rightarrow> ('m, 's, Relocatable) dep_syscall" where
  "allocate_tx_signature_segment V =
     with_handler (\<lambda>h. smap_err DepMemoryError (allocate V (felts_to_memory (ti_signature (hp_tx_info h)))))"

definition get_or_allocate_tx_signature_segment :: "'m VmApi \<Rightarrow> ('m, 's, Relocatable) dep_syscall" where
  "get_or_allocate_tx_signature_segment V =
     with_handler (\<lambda>h.
       case dh_tx_signature_start_ptr h of
         Some tx_signature_start_ptr \<Rightarrow> sret tx_signature_start_ptr
       | None \<Rightarrow>
           sbind (allocate_tx_signature_segment V) (\<lambda>tx_signature_start_ptr.
             sbind (modify_handler (\<lambda>h. h\<lparr>dh_tx_signature_start_ptr := Some tx_signature_start_ptr\<rparr>)) (\<lambda>_.
               sret tx_signature_start_ptr)))"

definition dep_allocate_tx_info_segment :: "'m VmApi \<Rightarrow> ('m, 's, Relocatable) dep_syscall" where
  "dep_allocate_tx_info_segment V =
     sbind (get_or_allocate_tx_signature_segment V) (\<lambda>tx_signature_start_ptr.
       with_handler (\<lambda>h.
         let info = hp_tx_info h in
         smap_err DepMemoryError (allocate V
           [MInt (signed_version info), MInt (ti_sender_address info), MInt (max_fee_for_execution_info info),
            MInt (length (ti_signature info)), MRel tx_signature_start_ptr, MInt (ti_transaction_hash info),
            MInt (felt_from_bytes_be (string_bytes (chain_id (chain_info (block_context (epc_tx_context (hp_context h))))))),
            MInt (ti_nonce info)])))"

definition get_or_allocate_tx_info_start_ptr :: "'m VmApi \<Rightarrow> ('m, 's, Relocatable) dep_syscall" where
  "get_or_allocate_tx_info_start_ptr V =
     with_handler (\<lambda>h.
       case dh_tx_info_start_ptr h of
         Some tx_info_start_ptr \<Rightarrow> sret tx_info_start_ptr
       | None \<Rightarrow>
           sbind (dep_allocate_tx_info_segment V) (\<lambda>tx_info_start_ptr.
             sbind (modify_handler (\<lambda>h. h\<lparr>dh_tx_info_start_ptr := Some tx_info_start_ptr\<rparr>)) (\<lambda>_.
               sret tx_info_start_ptr)))"

section \<open>The syscalls\<close>

definition dep_execute_inner_call ::
    "'m VmApi \<Rightarrow> 's Executor \<Rightarrow> CallEntryPoint \<Rightarrow> ('m, 's, ReadOnlySegment) dep_syscall" where
  "dep_execute_inner_call V exec call =
     sbind (smap_err DepEntryPointError (on_execution (exec call))) (\<lambda>call_info.
       let retdata = ce_retdata (ci_execution call_info) in
       sbind (smap_err DepMemoryError (allocate V (felts_to_memory retdata))) (\<lambda>retdata_segment_start_ptr.
         sbind (push_inner_call call_info) (\<lambda>_.
           sret \<lparr>seg_start_ptr = retdata_segment_start_ptr, seg_length = vec_len retdata\<rparr>)))"

definition dep_call_contract ::
    "'m VmApi \<Rightarrow> 's StateReader \<Rightarrow> 's Executor \<Rightarrow> CallContractRequest \<Rightarrow> ('m, 's, ReadOnlySegment) dep_syscall" where
  "dep_call_contract V R exec request =
     (let storage_address = ccr_contract_address request; selector = ccr_function_selector request in
      sbind (smap_err DepStateError (on_state (get_class_hash_at R storage_address))) (\<lambda>class_hash.
        with_handler (\<lambda>h.
          if is_validate_mode h \<and> dh_storage_address h \<noteq> storage_address then
            slift (Err (DepInvalidSyscallInExecutionMode ''call_contract'' (execution_mode h)))
          else
            smap_err (DepCallContractExecutionError class_hash storage_address selector)
              (dep_execute_inner_call V exec
                 \<lparr>cep_class_hash = None, cep_code_address = Some storage_address,
                  cep_entry_point_type = External, cep_entry_point_selector = selector,
                  cep_calldata = ccr_calldata request, cep_storage_address = storage_address,
                  cep_caller_address = dh_storage_address h, cep_call_type = Call,
                  cep_initial_gas = initial_gas_cost (hp_gas_costs h)\<rparr>))))"

definition dep_execute_library_call ::
    "'m VmApi \<Rightarrow> 's Executor \<Rightarrow> ClassHash \<Rightarrow> ContractAddress option \<Rightarrow> bool \<Rightarrow> EntryPointSelector \<Rightarrow> Calldata \<Rightarrow>
     ('m, 's, ReadOnlySegment) dep_syscall" where
  "dep_execute_library_call V exec class_hash code_address call_to_external entry_point_selector calldata =
     with_handler (\<lambda>h.
       smap_err (DepLibraryCallExecutionError class_hash (dh_storage_address h) entry_point_selector)
         (dep_execute_inner_call V exec
            \<lparr>cep_class_hash = Some class_hash, cep_code_address = code_address,
             cep_entry_point_type = (if call_to_external then External else L1Handler),
             cep_entry_point_selector = entry_point_selector, cep_calldata = calldata,
             cep_storage_address = dh_storage_address h, cep_caller_address = dh_caller_address h,
             cep_call_type = Delegate, cep_initial_gas = initial_gas_cost (hp_gas_costs h)\<rparr>))"

definition delegate_call ::
    "'m VmApi \<Rightarrow> 's StateReader \<Rightarrow> 's Executor \<Rightarrow> CallContractRequest \<Rightarrow> ('m, 's, ReadOnlySegment) dep_syscall" where
  "delegate_call V R exec request =
     sbind (smap_err DepStateError (on_state (get_class_hash_at R (ccr_contract_address request)))) (\<lambda>class_hash.
       dep_execute_library_call V exec class_hash (Some (ccr_contract_address request)) True
         (ccr_function_selector request) (ccr_calldata request))"

definition delegate_l1_handler ::
    "'m VmApi \<Rightarrow> 's StateReader \<Rightarrow> 's Executor \<Rightarrow> CallContractRequest \<Rightarrow> ('m, 's, ReadOnlySegment) dep_syscall" where
  "delegate_l1_handler V R exec request =
     sbind (smap_err DepStateError (on_state (get_class_hash_at R (ccr_contract_address request)))) (\<lambda>class_hash.
       dep_execute_library_call V exec class_hash (Some (ccr_contract_address request)) False
         (ccr_function_selector request) (ccr_calldata request))"

definition dep_library_call ::
    "'m VmApi \<Rightarrow> 's Executor \<Rightarrow> LibraryCallRequest \<Rightarrow> ('m, 's, ReadOnlySegment) dep_syscall" where
  "dep_library_call V exec request =
     dep_execute_library_call V exec (lcr_class_hash request) None True
       (lcr_function_selector request) (lcr_calldata request)"

definition dep_library_call_l1_handler ::
    "'m VmApi \<Rightarrow> 's Executor \<Rightarrow> LibraryCallRequest \<Rightarrow> ('m, 's, ReadOnlySegment) dep_syscall" where
  "dep_library_call_l1_handler V exec request =
     dep_execute_library_call V exec (lcr_class_hash request) None False
       (lcr_function_selector request) (lcr_calldata request)"

definition dep_deploy ::
    "'a Externals_scheme \<Rightarrow> 's StateReader \<Rightarrow> 's Executor \<Rightarrow> DeployRequest \<Rightarrow> ('m, 's, ContractAddress) dep_syscall" where
  "dep_deploy E R exec request =
     with_handler (\<lambda>h.
       let deployer_address = dh_storage_address h;
           deployer_address_for_calculation = (if dr_deploy_from_zero request then 0 else deployer_address)
       in sbind (slift (map_err DepStarknetApiError
                   (contract_address_from E (dr_contract_address_salt request) (dr_class_hash request)
                      (dr_constructor_calldata request) deployer_address_for_calculation)))
            (\<lambda>deployed_contract_address.
              sbind (smap_err DepConstructorError (on_execution
                       (execute_deployment E R exec
                          \<lparr>ctor_class_hash = dr_class_hash request,
                           ctor_code_address = Some deployed_contract_address,
                           ctor_storage_address = deployed_contract_address,
                           ctor_caller_address = deployer_address\<rparr>
                          (dr_constructor_calldata request) (initial_gas_cost (hp_gas_costs h))))) (\<lambda>call_info.
                sbind (push_inner_call call_info) (\<lambda>_. sret deployed_contract_address))))"

definition dep_emit_event :: "EventContent \<Rightarrow> ('m, 's, unit) dep_syscall" where
  "dep_emit_event content = smap_err DepEmitEventError (push_event content)"

definition get_block_number :: "unit \<Rightarrow> ('m, 's, StarkFelt) dep_syscall" where
  "get_block_number request =
     with_handler (\<lambda>h.
       let n = block_number (hp_block_info h) in
       sret (unat (case execution_mode h of
         Validate \<Rightarrow> round_down n (get_validate_block_number_rounding (hp_versioned_constants h))
       | Execute \<Rightarrow> n)))"

definition get_block_timestamp :: "unit \<Rightarrow> ('m, 's, StarkFelt) dep_syscall" where
  "get_block_timestamp request =
     with_handler (\<lambda>h.
       let t = block_timestamp (hp_block_info h) in
       sret (unat (case execution_mode h of
         Validate \<Rightarrow> round_down t (get_validate_timestamp_rounding (hp_versioned_constants h))
       | Execute \<Rightarrow> t)))"

definition get_caller_address :: "unit \<Rightarrow> ('m, 's, ContractAddress) dep_syscall" where
  "get_caller_address request = with_handler (\<lambda>h. sret (dh_caller_address h))"

definition get_contract_address :: "unit \<Rightarrow> ('m, 's, ContractAddress) dep_syscall" where
  "get_contract_address request = with_handler (\<lambda>h. sret (dh_storage_address h))"

definition get_sequencer_address :: "unit \<Rightarrow> ('m, 's, ContractAddress) dep_syscall" where
  "get_sequencer_address request =
     sbind (verify_not_in_validate_mode ''get_sequencer_address'') (\<lambda>_.
       with_handler (\<lambda>h. sret (sequencer_address (hp_block_info h))))"

definition get_tx_info :: "'m VmApi \<Rightarrow> unit \<Rightarrow> ('m, 's, Relocatable) dep_syscall" where
  "get_tx_info V request = get_or_allocate_tx_info_start_ptr V"

definition get_tx_signature :: "'m VmApi \<Rightarrow> unit \<Rightarrow> ('m, 's, ReadOnlySegment) dep_syscall" where
  "get_tx_signature V request =
     sbind (get_or_allocate_tx_signature_segment V) (\<lambda>start_ptr.
       with_handler (\<lambda>h.
         sret \<lparr>seg_start_ptr = start_ptr, seg_length = vec_len (ti_signature (hp_tx_info h))\<rparr>))"

definition dep_replace_class :: "'s StateReader \<Rightarrow> ClassHash \<Rightarrow> ('m, 's, unit) dep_syscall" where
  "dep_replace_class R class_hash =
     sbind (smap_err DepStateError (on_state (get_compiled_contract_class R class_hash))) (\<lambda>_.
       with_handler (\<lambda>h. smap_err DepStateError (on_state (set_class_hash_at (dh_storage_address h) class_hash))))"

definition dep_send_message_to_l1 :: "MessageToL1 \<Rightarrow> ('m, 's, unit) dep_syscall" where
  "dep_send_message_to_l1 message = push_message message"

definition dep_storage_read :: "'s StateReader \<Rightarrow> StorageKey \<Rightarrow> ('m, 's, StarkFelt) dep_syscall" where
  "dep_storage_read R address =
     with_handler (\<lambda>h. smap_err DepStateError (read_contract_storage R (dh_storage_address h) address))"

definition dep_storage_write :: "StorageKey \<times> StarkFelt \<Rightarrow> ('m, 's, unit) dep_syscall" where
  "dep_storage_write request =
     with_handler (\<lambda>h. smap_err DepStateError
       (write_contract_storage (dh_storage_address h) (fst request) (snd request)))"

section \<open>Dispatch\<close>

definition dep_hint_error_from :: "DeprecatedSyscallExecutionError \<Rightarrow> HintError" where
  "dep_hint_error_from e = HintInternal (VmOtherDeprecatedSyscall e)"

definition dep_execute_syscall ::
    "('m \<Rightarrow> (Relocatable, DeprecatedSyscallExecutionError, 'q) action) \<Rightarrow>
     ('q \<Rightarrow> ('m, 's, 'r) dep_syscall) \<Rightarrow>
     ('r \<Rightarrow> ('m \<times> Relocatable, DeprecatedSyscallExecutionError, unit) action) \<Rightarrow>
     ('m \<times> 's DeprecatedSyscallHintProcessor, HintError, unit) action" where
  "dep_execute_syscall read execute_callback write =
     smap_err dep_hint_error_from
       (sbind (reading read) (\<lambda>request. sbind (execute_callback request) (\<lambda>response. writing (write response))))"

definition dep_dispatch_syscall ::
    "'a Externals_scheme \<Rightarrow> 'm VmApi \<Rightarrow> 's StateReader \<Rightarrow> 's Executor \<Rightarrow> SyscallSelector \<Rightarrow>
     ('m \<times> 's DeprecatedSyscallHintProcessor, HintError, unit) action" where
  "dep_dispatch_syscall E V R exec selector =
     (case selector of
        CallContract \<Rightarrow>
          dep_execute_syscall (dep_CallContractRequest_read E V) (dep_call_contract V R exec)
            (dep_SingleSegmentResponse_write V)
      | DelegateCall \<Rightarrow>
          dep_execute_syscall (dep_CallContractRequest_read E V) (delegate_call V R exec)
            (dep_SingleSegmentResponse_write V)
      | DelegateL1Handler \<Rightarrow>
          dep_execute_syscall (dep_CallContractRequest_read E V) (delegate_l1_handler V R exec)
            (dep_SingleSegmentResponse_write V)
      | Deploy \<Rightarrow>
          dep_execute_syscall (dep_DeployRequest_read V) (dep_deploy E R exec) (dep_DeployResponse_write V)
      | EmitEvent \<Rightarrow>
          dep_execute_syscall (dep_EmitEventRequest_read V) dep_emit_event dep_EmptyResponse_write
      | GetBlockNumber \<Rightarrow>
          dep_execute_syscall dep_EmptyRequest_read get_block_number (dep_felt_response_write V)
      | GetBlockTimestamp \<Rightarrow>
          dep_execute_syscall dep_EmptyRequest_read get_block_timestamp (dep_felt_response_write V)
      | GetCallerAddress \<Rightarrow>
          dep_execute_syscall dep_EmptyRequest_read get_caller_address (dep_felt_response_write V)
      | GetContractAddress \<Rightarrow>
          dep_execute_syscall dep_EmptyRequest_read get_contract_address (dep_felt_response_write V)
      | GetSequencerAddress \<Rightarrow>
          dep_execute_syscall dep_EmptyRequest_read get_sequencer_address (dep_felt_response_write V)
      | GetTxInfo \<Rightarrow>
          dep_execute_syscall dep_EmptyRequest_read (get_tx_info V) (dep_GetTxInfoResponse_write V)
      | GetTxSignature \<Rightarrow>
          dep_execute_syscall dep_EmptyRequest_read (get_tx_signature V) (dep_SingleSegmentResponse_write V)
      | LibraryCall \<Rightarrow>
          dep_execute_syscall (dep_LibraryCallRequest_read V) (dep_library_call V exec)
            (dep_SingleSegmentResponse_write V)
      | LibraryCallL1Handler \<Rightarrow>
          dep_execute_syscall (dep_LibraryCallRequest_read V) (dep_library_call_l1_handler V exec)
            (dep_SingleSegmentResponse_write V)
      | ReplaceClass \<Rightarrow>
          dep_execute_syscall (dep_ReplaceClassRequest_read V) (dep_replace_class R) dep_EmptyResponse_write
      | SendMessageToL1 \<Rightarrow>
          dep_execute_syscall (dep_SendMessageToL1Request_read V) dep_send_message_to_l1 dep_EmptyResponse_write
      | StorageRead \<Rightarrow>
          dep_execute_syscall (dep_StorageReadRequest_read E V) (dep_storage_read R) (dep_felt_response_write V)
      | StorageWrite \<Rightarrow>
          dep_execute_syscall (dep_StorageWriteRequest_read E V) dep_storage_write dep_EmptyResponse_write
      | _ \<Rightarrow> slift (Err (UnknownHint ''Unsupported syscall selector.'')))"

definition dep_execute_next_syscall ::
    "'a Externals_scheme \<Rightarrow> 'm VmApi \<Rightarrow> 's StateReader \<Rightarrow> 's Executor \<Rightarrow> nat \<Rightarrow>
     ('m \<times> 's DeprecatedSyscallHintProcessor, HintError, unit) action" where
  "dep_execute_next_syscall E V R exec ids_data =
     sbind (with_vm (\<lambda>vm. slift (vm_get_ptr_from_var_name V ''syscall_ptr'' ids_data vm))) (\<lambda>initial_syscall_ptr.
       sbind (smap_err dep_hint_error_from (dep_verify_syscall_ptr initial_syscall_ptr)) (\<lambda>_.
         sbind (smap_err dep_hint_error_from (reading (dep_read_felt V))) (\<lambda>raw_selector.
           sbind (slift (map_err dep_hint_error_from (SyscallSelector_try_from raw_selector))) (\<lambda>selector.
             sbind (increment_syscall_count selector) (\<lambda>_. dep_dispatch_syscall E V R exec selector)))))"

definition SYSCALL_HINTS :: "string list" where
  "SYSCALL_HINTS =
     map (\<lambda>name. ''syscall_handler.'' @ name @ ''(segments=segments, syscall_ptr=ids.syscall_ptr)'')
       [''call_contract'', ''delegate_call'', ''delegate_l1_handler'', ''deploy'', ''emit_event'',
        ''get_block_number'', ''get_block_timestamp'', ''get_caller_address'', ''get_contract_address'',
        ''get_sequencer_address'', ''get_tx_info'', ''get_tx_signature'', ''library_call'',
        ''library_call_l1_handler'', ''replace_class'', ''send_message_to_l1'', ''storage_read'',
        ''storage_write'']"

definition dep_execute_hint ::
    "'a Externals_scheme \<Rightarrow> 'm VmApi \<Rightarrow> 's StateReader \<Rightarrow> 's Executor \<Rightarrow> HintData \<Rightarrow>
     (string, StarkFelt) HashMap \<Rightarrow> ('m \<times> 's DeprecatedSyscallHintProcessor, HintError, unit) action" where
  "dep_execute_hint E V R exec hint_data constants =
     (case hint_data of
        DeprecatedHintOf hint \<Rightarrow>
          (if hint_code hint \<in> set SYSCALL_HINTS then dep_execute_next_syscall E V R exec (hint_references hint)
           else
             on_vm (vm_builtin_execute_hint V (extended_builtin_hint_processor V) hint constants))
      | _ \<Rightarrow> slift (Err WrongHintData))"

end
