(* ===== verification/Entry_Point_Execution.thy ===== *)
theory Entry_Point_Execution
  imports Deprecated_Syscalls
begin

text \<open>
  Execution of a call: \<open>CallEntryPoint::execute\<close> (\<open>execution/entry_point.rs\<close>), its dispatch on the
  kind of class (\<open>execution/execution_utils.rs\<close>), and the two ways to run a class,
  \<open>execution/entry_point_execution.rs\<close> and \<open>execution/deprecated_entry_point_execution.rs\<close>.

  \<open>call_entry_point\<close> is the body of \<open>execute\<close>, with the executor of inner calls as its argument;
  \<open>execute_fuel\<close> closes the recursion by the number of nested calls, and \<open>execute\<close> gives it as
  much fuel as the maximal recursion depth asks for. That this is enough, so that \<open>execute\<close>
  satisfies the recursive equation of the source, is shown in the theory on call depth.
\<close>

section \<open>Sierra classes\<close>

record 'm VmExecutionContext =
  vec_vm :: 'm
  vec_read_only_segments :: ReadOnlySegments
  vec_initial_syscall_ptr :: Relocatable
  vec_entry_point :: EntryPointV1
  vec_program_extra_data_length :: usize

record CallResult =
  cr_failed :: bool
  cr_retdata :: Retdata
  cr_gas_consumed :: u64

definition at_pointer ::
    "Relocatable \<Rightarrow> ('m \<times> Relocatable, 'e, 'a) action \<Rightarrow> ('m, 'e, Relocatable \<times> 'a) action" where
  "at_pointer ptr act = (\<lambda>vm. case act (vm, ptr) of (r, (vm', ptr')) \<Rightarrow> (rbind r (\<lambda>a. Ok (ptr', a)), vm'))"

definition new_segment :: "'m VmApi \<Rightarrow> ('m, 'e, Relocatable) action" where
  "new_segment V = (\<lambda>vm. case vm_add_memory_segment V vm of (ptr, vm') \<Rightarrow> (Ok ptr, vm'))"

definition prepare_program_extra_data ::
    "'m VmApi \<Rightarrow> ContractClassV1 \<Rightarrow> ('m \<times> ReadOnlySegments, PreExecutionError, usize) action" where
  "prepare_program_extra_data V contract_class =
     sbind (smap_err PreMemoryError (ReadOnlySegments_allocate V (replicate 20 (MInt 0)))) (\<lambda>builtin_cost_segment_start.
       sbind (with_vm (\<lambda>vm. slift (map_err PreMathError
                (rel_add V (vm_get_pc V vm) (bytecode_length (V1 contract_class)))))) (\<lambda>ptr.
         sbind (smap_err PreMemoryError (on_vm (at_pointer ptr
                  (sbind (write_stark_felt V 0x208b7fff7fff7ffe) (\<lambda>_.
                     write_maybe_relocatable V (MRel builtin_cost_segment_start)))))) (\<lambda>_.
           sret 2)))"

definition program_builtins :: "string list" where
  "program_builtins =
     [''bitwise'', ''ec_op'', ''ecdsa'', ''output'', ''pedersen'', ''poseidon'', ''range_check'', ''segment_arena'']"

definition initialize_execution_context ::
    "'a Externals_scheme \<Rightarrow> 'm VmApi \<Rightarrow> CallEntryPoint \<Rightarrow> ContractClassV1 \<Rightarrow>
     (PreExecutionError, 'm VmExecutionContext) result" where
  "initialize_execution_context E V call contract_class =
     rbind (get_entry_point E contract_class call) (\<lambda>entry_point.
       rbind (map_err PreRunnerError (runner_new V (v1_program contract_class) True)) (\<lambda>vm.
         case sbind (on_vm (smap_err PreRunnerError
                       (runner_initialize_function_runner_cairo_1 V program_builtins))) (\<lambda>_.
                sbind (prepare_program_extra_data V contract_class) (\<lambda>extra_length.
                  sbind (on_vm (new_segment V)) (\<lambda>initial_syscall_ptr. sret (extra_length, initial_syscall_ptr))))
                (vm, []) of
           (Ok (extra_length, initial_syscall_ptr), (vm', segments)) \<Rightarrow>
             Ok \<lparr>vec_vm = vm', vec_read_only_segments = segments, vec_initial_syscall_ptr = initial_syscall_ptr,
                 vec_entry_point = entry_point, vec_program_extra_data_length = extra_length\<rparr>
         | (Err e, _) \<Rightarrow> Err e
         | (Panic p, _) \<Rightarrow> Panic p))"

definition segment_arena_argument :: "'m VmApi \<Rightarrow> ('m, PreExecutionError, CairoArg) action" where
  "segment_arena_argument V =
     sbind (new_segment V) (\<lambda>segment_arena.
       sbind (new_segment V) (\<lambda>info_segment.
         sbind (smap_err PreMemoryError (at_pointer segment_arena
                  (sbind (write_maybe_relocatable V (MRel info_segment)) (\<lambda>_.
                     sbind (write_stark_felt V 0) (\<lambda>_. write_stark_felt V 0))))) (\<lambda>(ptr, _).
           sret (Single (MRel ptr)))))"

fun push_builtins ::
    "'a Externals_scheme \<Rightarrow> 'm VmApi \<Rightarrow> string list \<Rightarrow> CairoArg list \<Rightarrow> ('m, PreExecutionError, CairoArg list) action" where
  "push_builtins E V [] args = sret args"
| "push_builtins E V (name # names) args =
     (\<lambda>vm. case map_of (vm_builtin_runners V vm) name of
        Some initial_stack \<Rightarrow> push_builtins E V names (args @ map Single initial_stack) vm
      | None \<Rightarrow>
          (if name = builtin_name E SEGMENT_ARENA then
             sbind (segment_arena_argument V) (\<lambda>arg. push_builtins E V names (args @ [arg])) vm
           else (Err (InvalidBuiltin name), vm)))"

definition prepare_call_arguments ::
    "'a Externals_scheme \<Rightarrow> 'm VmApi \<Rightarrow> CallEntryPoint \<Rightarrow> Relocatable \<Rightarrow> EntryPointV1 \<Rightarrow>
     ('m \<times> 's SyscallHintProcessor, PreExecutionError, CairoArg list) action" where
  "prepare_call_arguments E V call initial_syscall_ptr entrypoint =
     sbind (on_vm (push_builtins E V (ep1_builtins entrypoint) [])) (\<lambda>args.
       sbind (smap_err PreMemoryError (allocate V (felts_to_memory (cep_calldata call)))) (\<lambda>calldata_start_ptr.
         sbind (slift (map_err PreMathError (rel_add V calldata_start_ptr (vec_len (cep_calldata call))))) (\<lambda>calldata_end_ptr.
           sret (args @ [Single (MInt (unat (cep_initial_gas call))), Single (MRel initial_syscall_ptr),
                         Single (MRel calldata_start_ptr), Single (MRel calldata_end_ptr)]))))"

definition run_entry_point ::
    "'a Externals_scheme \<Rightarrow> 'm VmApi \<Rightarrow> 's StateReader \<Rightarrow> 's Executor \<Rightarrow> EntryPointV1 \<Rightarrow> CairoArg list \<Rightarrow> usize \<Rightarrow>
     ('m \<times> 's SyscallHintProcessor, EntryPointExecutionError, unit) action" where
  "run_entry_point E V R exec entry_point args program_segment_size =
     (\<lambda>(vm, h).
        let verify_secure = True;
            run = runner_run_from_entrypoint V (epc_vm_run_resources (hp_context h)) (ep1_offset entry_point)
                    args verify_secure (Some program_segment_size) vm
        in case run_vm (execute_hint E V R exec) (consumed V) (consume_step V) run h of
             (Ok vm', h') \<Rightarrow> (Ok (), (vm', h'))
           | (Err e, h') \<Rightarrow> (Err (from_cairo_run_error e), (vm, h'))
           | (Panic p, h') \<Rightarrow> (Panic p, (vm, h')))"

fun collect_visited_pcs ::
    "usize \<Rightarrow> usize list \<Rightarrow> usize HashSet \<Rightarrow> (EntryPointExecutionError, usize HashSet) result" where
  "collect_visited_pcs n [] class_visited_pcs = Ok class_visited_pcs"
| "collect_visited_pcs n (pc # trace) class_visited_pcs =
     (if pc < 1 then Err (InternalError ''Invalid PC value in trace.'')
      else
        (let real_pc = pc - 1
         in collect_visited_pcs n trace
              (if real_pc < n then hs_insert real_pc class_visited_pcs else class_visited_pcs)))"

definition register_visited_pcs ::
    "'m VmApi \<Rightarrow> ClassHash \<Rightarrow> usize \<Rightarrow> usize \<Rightarrow>
     ('m \<times> ('s, 'x) HintProcessorBase_scheme, EntryPointExecutionError, unit) action" where
  "register_visited_pcs V class_hash program_segment_size bytecode_len =
     sbind (on_vm (smap_err EpTraceError (vm_relocate_trace V [1, 1 + program_segment_size]))) (\<lambda>_.
       sbind (with_vm (\<lambda>vm. slift (map_err EpTraceError (vm_get_relocated_trace V vm)))) (\<lambda>trace.
         sbind (slift (collect_visited_pcs bytecode_len trace [])) (\<lambda>class_visited_pcs.
           modify_handler (\<lambda>h. h\<lparr>hp_state := add_visited_pcs class_hash class_visited_pcs (hp_state h)\<rparr>))))"

definition get_call_result ::
    "'m VmApi \<Rightarrow> 'm \<Rightarrow> 's SyscallHintProcessor \<Rightarrow> (PostExecutionError, CallResult) result" where
  "get_call_result V vm h =
     rbind (map_err PostMemoryError (vm_get_return_values V vm 5)) (\<lambda>return_result.
       case return_result of
         [gas, _, failure_flag, retdata_start, retdata_end] \<Rightarrow>
           rbind (if failure_flag = MInt 0 then Ok False
                  else if failure_flag = MInt 1 then Ok True
                  else Err (MalformedReturnData ''Failure flag expected to be either 0 or 1.'')) (\<lambda>failed.
             rbind (map_err PostMathError (maybe_sub V retdata_end retdata_start)) (\<lambda>retdata_size.
               case gas of
                 MRel _ \<Rightarrow> Err (MalformedReturnData ''Error extracting return data.'')
               | MInt gas_felt \<Rightarrow>
                   (case to_u64 gas_felt of
                      None \<Rightarrow> Err (MalformedReturnData ''Unexpected remaining gas.'')
                    | Some remaining_gas \<Rightarrow>
                        (if remaining_gas > cep_initial_gas (sh_call h) then
                           Err (MalformedReturnData ''Unexpected remaining gas.'')
                         else
                           rbind (read_execution_retdata V vm retdata_size retdata_start) (\<lambda>retdata.
                             Ok \<lparr>cr_failed = failed, cr_retdata = retdata,
                                 cr_gas_consumed = cep_initial_gas (sh_call h) - remaining_gas\<rparr>)))))
       | _ \<Rightarrow> Panic ''Return values must be of size 3.'')"

text \<open>
  The accounting at the end of a run, the same for both kinds of classes: the resources of the
  run and of its syscalls are added to the resources of the transaction; the resources of the
  call are what was added since the call started.
\<close>

definition add_call_resources ::
    "'a Externals_scheme \<Rightarrow> 'm VmApi \<Rightarrow> ExecutionResources \<Rightarrow>
     ('m \<times> ('s, 'x) HintProcessorBase_scheme, PostExecutionError, ExecutionResources) action" where
  "add_call_resources E V previous_resources =
     sbind (with_vm (\<lambda>vm. slift (map_err (\<lambda>e. PostVirtualMachineError (VmErrorMessage e))
              (runner_get_execution_resources V vm)))) (\<lambda>run_resources.
       sbind (modify_handler (\<lambda>h. h\<lparr>hp_resources :=
                er_add E (hp_resources h) (er_filter_unused_builtins E run_resources)\<rparr>)) (\<lambda>_.
         with_handler (\<lambda>h.
           sbind (slift (get_additional_os_syscall_resources E (os_resources (hp_versioned_constants h))
                    (hp_syscall_counter h))) (\<lambda>syscall_resources.
             sbind (modify_handler (\<lambda>h. h\<lparr>hp_resources := er_add E (hp_resources h) syscall_resources\<rparr>)) (\<lambda>_.
               with_handler (\<lambda>h.
                 sret (er_filter_unused_builtins E (er_sub E (hp_resources h) previous_resources))))))))"

definition mark_arguments_as_accessed ::
    "'m VmApi \<Rightarrow> usize \<Rightarrow> ('m \<times> ('s, 'x) HintProcessorBase_scheme, PostExecutionError, unit) action" where
  "mark_arguments_as_accessed V n_total_args =
     sbind (with_vm (\<lambda>vm. slift (expect
              ''The `initial_fp` field should be initialized after running the entry point.''
              (runner_get_initial_fp V vm)))) (\<lambda>initial_fp.
       sbind (slift (map_err PostMathError (rel_sub V initial_fp (n_total_args + 2)))) (\<lambda>args_ptr.
         sbind (on_vm (smap_err PostVirtualMachineError
                  (vm_mark_address_range_as_accessed V args_ptr n_total_args))) (\<lambda>_.
           with_handler (\<lambda>h. on_vm (ReadOnlySegments_mark_as_accessed V (hp_read_only_segments h))))))"

definition finalize_execution ::
    "'a Externals_scheme \<Rightarrow> 'm VmApi \<Rightarrow> ExecutionResources \<Rightarrow> usize \<Rightarrow> usize \<Rightarrow>
     ('m \<times> 's SyscallHintProcessor, PostExecutionError, CallInfo) action" where
  "finalize_execution E V previous_resources n_total_args program_extra_data_length =
     sbind (with_vm (\<lambda>vm. slift (expect
              ''The `program_base` field should be initialized after running the entry point.''
              (runner_program_base V vm)))) (\<lambda>program_start_ptr.
       sbind (with_vm (\<lambda>vm. slift (map_err PostMathError
                (rel_add V program_start_ptr (runner_program_data_len V vm))))) (\<lambda>program_end_ptr.
         sbind (on_vm (smap_err PostVirtualMachineError
                  (vm_mark_address_range_as_accessed V program_end_ptr program_extra_data_length))) (\<lambda>_.
           sbind (mark_arguments_as_accessed V n_total_args) (\<lambda>_.
             sbind (with_vm (\<lambda>vm. with_handler (\<lambda>h. slift (get_call_result V vm h)))) (\<lambda>call_result.
               sbind (add_call_resources E V previous_resources) (\<lambda>call_resources.
                 with_handler (\<lambda>h.
                   sret (CallInfo (sh_call h)
                     \<lparr>ce_retdata = cr_retdata call_result, ce_events = hp_events h,
                      ce_l2_to_l1_messages = hp_l2_to_l1_messages h, ce_failed = cr_failed call_result,
                      ce_gas_consumed = cr_gas_consumed call_result\<rparr>
                     call_resources (hp_inner_calls h) (hp_read_values h) (hp_accessed_keys h)))))))))"

definition run_initialized ::
    "'a Externals_scheme \<Rightarrow> 'm VmApi \<Rightarrow> 's StateReader \<Rightarrow> 's Executor \<Rightarrow> CallEntryPoint \<Rightarrow> ClassHash \<Rightarrow>
     ContractClassV1 \<Rightarrow> 'm VmExecutionContext \<Rightarrow>
     ('m \<times> 's SyscallHintProcessor, EntryPointExecutionError, CallInfo) action" where
  "run_initialized E V R exec call class_hash contract_class vm_context =
     sbind (smap_err EpPreExecutionError (prepare_call_arguments E V call
              (vec_initial_syscall_ptr vm_context) (vec_entry_point vm_context))) (\<lambda>args.
       with_handler (\<lambda>h.
         let n_total_args = vec_len args;
             previous_resources = hp_resources h;
             bytecode_len = bytecode_length (V1 contract_class);
             program_segment_size = bytecode_len + vec_program_extra_data_length vm_context
         in sbind (run_entry_point E V R exec (vec_entry_point vm_context) args program_segment_size) (\<lambda>_.
              sbind (register_visited_pcs V class_hash program_segment_size bytecode_len) (\<lambda>_.
                sbind (smap_err EpPostExecutionError (finalize_execution E V previous_resources n_total_args
                         (vec_program_extra_data_length vm_context))) (\<lambda>call_info.
                  if ce_failed (ci_execution call_info) then
                    slift (Err (ExecutionFailed (ce_retdata (ci_execution call_info))))
                  else sret call_info)))))"

definition borrow_into ::
    "('s ExecState \<Rightarrow> ('s, 'x) HintProcessorBase_scheme) \<Rightarrow> 'm \<Rightarrow>
     ('m \<times> ('s, 'x) HintProcessorBase_scheme, 'e, 'a) action \<Rightarrow> ('s ExecState, 'e, 'a) action" where
  "borrow_into new_handler vm act =
     (\<lambda>borrowed. case act (vm, new_handler borrowed) of
        (r, (_, h)) \<Rightarrow> (r, (hp_state h, hp_resources h, hp_context h)))"

definition execute_v1_entry_point_call ::
    "'a Externals_scheme \<Rightarrow> 'm VmApi \<Rightarrow> 's StateReader \<Rightarrow> 's Executor \<Rightarrow> CallEntryPoint \<Rightarrow> ContractClassV1 \<Rightarrow>
     ('s ExecState, EntryPointExecutionError, CallInfo) action" where
  "execute_v1_entry_point_call E V R exec call contract_class =
     (case cep_class_hash call of
        None \<Rightarrow> slift (Err (InternalError ''Class hash must not be None when executing an entry point.''))
      | Some class_hash \<Rightarrow>
          sbind (slift (map_err EpPreExecutionError (initialize_execution_context E V call contract_class)))
            (\<lambda>vm_context.
              borrow_into (\<lambda>borrowed. SyscallHintProcessor_new borrowed (vec_initial_syscall_ptr vm_context) call
                             (vec_read_only_segments vm_context)) (vec_vm vm_context)
                (run_initialized E V R exec call class_hash contract_class vm_context)))"

section \<open>Cairo 0 classes\<close>

definition resolve_entry_point_pc ::
    "'a Externals_scheme \<Rightarrow> CallEntryPoint \<Rightarrow> ContractClassV0 \<Rightarrow> (PreExecutionError, usize) result" where
  "resolve_entry_point_pc E call contract_class =
     (if cep_entry_point_type call = Constructor
         \<and> cep_entry_point_selector call \<noteq> selector_from_name E CONSTRUCTOR_ENTRY_POINT_NAME
      then Err InvalidConstructorEntryPointName
      else
        rbind (entry_points_of (v0_entry_points_by_type contract_class) (cep_entry_point_type call))
          (\<lambda>entry_points_of_same_type.
            case filter (\<lambda>ep. ep0_selector ep = cep_entry_point_selector call) entry_points_of_same_type of
              [] \<Rightarrow>
                (case entry_points_of_same_type of
                   [] \<Rightarrow> Err (NoEntryPointOfTypeFound (cep_entry_point_type call))
                 | entry_point # _ \<Rightarrow>
                     (if ep0_selector entry_point = DEFAULT_ENTRY_POINT_SELECTOR then Ok (ep0_offset entry_point)
                      else Err (EntryPointNotFound (cep_entry_point_selector call))))
            | [entry_point] \<Rightarrow> Ok (ep0_offset entry_point)
            | _ \<Rightarrow> Err (DuplicatedEntryPointSelector (cep_entry_point_selector call) (cep_entry_point_type call))))"

definition dep_initialize_execution_context ::
    "'a Externals_scheme \<Rightarrow> 'm VmApi \<Rightarrow> CallEntryPoint \<Rightarrow> ContractClassV0 \<Rightarrow>
     (PreExecutionError, 'm \<times> Relocatable \<times> usize) result" where
  "dep_initialize_execution_context E V call contract_class =
     rbind (resolve_entry_point_pc E call contract_class) (\<lambda>entry_point_pc.
       rbind (map_err PreRunnerError (runner_new V (v0_program contract_class) False)) (\<lambda>vm.
         case smap_err PreRunnerError (runner_initialize_builtins V) vm of
           (Ok _, vm1) \<Rightarrow>
             (case vm_add_memory_segment V (runner_initialize_segments V vm1) of
                (initial_syscall_ptr, vm2) \<Rightarrow> Ok (vm2, initial_syscall_ptr, entry_point_pc))
         | (Err e, _) \<Rightarrow> Err e
         | (Panic p, _) \<Rightarrow> Panic p))"

definition dep_prepare_call_arguments ::
    "'m VmApi \<Rightarrow> CallEntryPoint \<Rightarrow> Relocatable \<Rightarrow>
     ('m \<times> 's DeprecatedSyscallHintProcessor, PreExecutionError, MaybeRelocatable list \<times> CairoArg list) action" where
  "dep_prepare_call_arguments V call initial_syscall_ptr =
     with_vm (\<lambda>vm.
       let implicit_args = MRel initial_syscall_ptr # concat (map snd (vm_builtin_runners V vm)) in
       sbind (smap_err PreMemoryError (allocate V (felts_to_memory (cep_calldata call)))) (\<lambda>calldata_start_ptr.
         sret (implicit_args,
               [Single (MInt (cep_entry_point_selector call)), Array implicit_args,
                Single (MInt (length (cep_calldata call))), Single (MRel calldata_start_ptr)])))"

definition dep_run_entry_point ::
    "'a Externals_scheme \<Rightarrow> 'm VmApi \<Rightarrow> 's StateReader \<Rightarrow> 's Executor \<Rightarrow> usize \<Rightarrow> CairoArg list \<Rightarrow>
     ('m \<times> 's DeprecatedSyscallHintProcessor, EntryPointExecutionError, unit) action" where
  "dep_run_entry_point E V R exec entry_point_pc args =
     (\<lambda>(vm, h).
        let verify_secure = True;
            run = runner_run_from_entrypoint V (epc_vm_run_resources (hp_context h)) entry_point_pc args
                    verify_secure None vm
        in case run_vm (dep_execute_hint E V R exec) (consumed V) (consume_step V) run h of
             (Ok vm', h') \<Rightarrow> (Ok (), (vm', h'))
           | (Err e, h') \<Rightarrow> (Err (from_cairo_run_error e), (vm, h'))
           | (Panic p, h') \<Rightarrow> (Panic p, (vm, h')))"

definition validate_run ::
    "'m VmApi \<Rightarrow> MaybeRelocatable list \<Rightarrow> Relocatable \<Rightarrow>
     ('m \<times> 's DeprecatedSyscallHintProcessor, PostExecutionError, unit) action" where
  "validate_run V implicit_args implicit_args_end =
     sbind (on_vm (smap_err SecurityValidationError (runner_get_builtins_final_stack V implicit_args_end)))
       (\<lambda>current_builtin_ptr.
         sbind (slift (map_err PostMathError (rel_sub V current_builtin_ptr 1))) (\<lambda>implicit_args_start.
           sbind (slift (map_err PostMathError (rel_add V implicit_args_start (vec_len implicit_args)))) (\<lambda>expected_end.
             if expected_end \<noteq> implicit_args_end then
               slift (Err (SecurityValidationError ''Implicit arguments' segments''))
             else
               (case implicit_args of
                  [] \<Rightarrow> slift (Panic ''Implicit args must not be empty.'')
                | first # _ \<Rightarrow>
                    sbind (slift (map_err PostMemoryError (rel_try_from V first))) (\<lambda>syscall_start_ptr.
                      if rel_offset syscall_start_ptr \<noteq> 0 then
                        slift (Err (SecurityValidationError ''Syscall segment start''))
                      else
                        sbind (with_vm (\<lambda>vm. slift (map_err PostMemoryError
                                 (vm_get_relocatable V vm implicit_args_start)))) (\<lambda>syscall_end_ptr.
                          sbind (slift (usize_from_segment_index (segment_index syscall_start_ptr))) (\<lambda>index.
                            sbind (with_vm (\<lambda>vm. slift (expect ''Segments must contain the syscall segment.''
                                     (vm_get_segment_used_size V vm index)))) (\<lambda>syscall_used_size.
                              sbind (slift (map_err PostMathError (rel_add V syscall_start_ptr syscall_used_size)))
                                (\<lambda>used_end.
                                  if used_end \<noteq> syscall_end_ptr then
                                    slift (Err (SecurityValidationError ''Syscall segment size''))
                                  else
                                    sbind (smap_err (\<lambda>_. SecurityValidationError ''Syscall segment end'')
                                             (dep_verify_syscall_ptr syscall_end_ptr)) (\<lambda>_.
                                      with_vm (\<lambda>vm. with_handler (\<lambda>h.
                                        slift (ReadOnlySegments_validate V vm (hp_read_only_segments h))))))))))))))"

definition dep_finalize_execution ::
    "'a Externals_scheme \<Rightarrow> 'm VmApi \<Rightarrow> CallEntryPoint \<Rightarrow> ExecutionResources \<Rightarrow> MaybeRelocatable list \<Rightarrow> usize \<Rightarrow>
     ('m \<times> 's DeprecatedSyscallHintProcessor, PostExecutionError, CallInfo) action" where
  "dep_finalize_execution E V call previous_resources implicit_args n_total_args =
     sbind (mark_arguments_as_accessed V n_total_args) (\<lambda>_.
       sbind (with_vm (\<lambda>vm. slift (map_err PostMemoryError (vm_get_return_values V vm 2)))) (\<lambda>return_values.
         case return_values of
           [retdata_size, retdata_ptr] \<Rightarrow>
             sbind (with_vm (\<lambda>vm. slift (map_err PostMathError (rel_sub V (vm_get_ap V vm) 2)))) (\<lambda>implicit_args_end_ptr.
               sbind (validate_run V implicit_args implicit_args_end_ptr) (\<lambda>_.
                 sbind (add_call_resources E V previous_resources) (\<lambda>call_resources.
                   sbind (with_vm (\<lambda>vm. slift (read_execution_retdata V vm retdata_size retdata_ptr))) (\<lambda>retdata.
                     with_handler (\<lambda>h.
                       sret (CallInfo call
                         \<lparr>ce_retdata = retdata, ce_events = hp_events h,
                          ce_l2_to_l1_messages = hp_l2_to_l1_messages h, ce_failed = False, ce_gas_consumed = 0\<rparr>
                         call_resources (hp_inner_calls h) (hp_read_values h) (hp_accessed_keys h)))))))
         | _ \<Rightarrow> slift (Panic ''Return values must be of size 2.'')))"

definition execute_v0_entry_point_call ::
    "'a Externals_scheme \<Rightarrow> 'm VmApi \<Rightarrow> 's StateReader \<Rightarrow> 's Executor \<Rightarrow> CallEntryPoint \<Rightarrow> ContractClassV0 \<Rightarrow>
     ('s ExecState, EntryPointExecutionError, CallInfo) action" where
  "execute_v0_entry_point_call E V R exec call contract_class =
     sbind (slift (map_err EpPreExecutionError (dep_initialize_execution_context E V call contract_class)))
       (\<lambda>(vm, initial_syscall_ptr, entry_point_pc).
         borrow_into (\<lambda>borrowed. DeprecatedSyscallHintProcessor_new borrowed initial_syscall_ptr
                        (cep_storage_address call) (cep_caller_address call)) vm
           (sbind (smap_err EpPreExecutionError (dep_prepare_call_arguments V call initial_syscall_ptr))
              (\<lambda>(implicit_args, args).
                with_handler (\<lambda>h.
                  sbind (dep_run_entry_point E V R exec entry_point_pc args) (\<lambda>_.
                    smap_err EpPostExecutionError
                      (dep_finalize_execution E V call (hp_resources h) implicit_args (vec_len args)))))))"

section \<open>Execution of a call\<close>

definition execute_entry_point_call ::
    "'a Externals_scheme \<Rightarrow> 'm VmApi \<Rightarrow> 's StateReader \<Rightarrow> 's Executor \<Rightarrow> CallEntryPoint \<Rightarrow> ContractClass \<Rightarrow>
     ('s ExecState, EntryPointExecutionError, CallInfo) action" where
  "execute_entry_point_call E V R exec call contract_class =
     (case contract_class of
        V0 class_v0 \<Rightarrow> execute_v0_entry_point_call E V R exec call class_v0
      | V1 class_v1 \<Rightarrow> execute_v1_entry_point_call E V R exec call class_v1)"

definition FAULTY_CLASS_HASH :: ClassHash where
  "FAULTY_CLASS_HASH = 0x1A7820094FEAF82D53F53F214B81292D717E7BB9A92BB2488092CD306F3993F"

definition on_context :: "(EntryPointExecutionContext, 'e, 'a) action \<Rightarrow> ('s ExecState, 'e, 'a) action" where
  "on_context act =
     (\<lambda>(state, resources, context). case act context of (r, context') \<Rightarrow> (r, (state, resources, context')))"

definition with_recursion_guard ::
    "('s ExecState, EntryPointExecutionError, 'a) action \<Rightarrow>
     ('s ExecState, EntryPointExecutionError, 'a) action" where
  "with_recursion_guard body =
     (\<lambda>(state, resources, context).
        case sbind (on_context (try_increment_and_check_depth
                      (max_recursion_depth (epc_versioned_constants context)))) (\<lambda>_. body)
               (state, resources, context) of
          (r, (state', resources', context')) \<Rightarrow> (r, (state', resources', drop_recursion_guard context')))"

definition guarded_call ::
    "'a Externals_scheme \<Rightarrow> 'm VmApi \<Rightarrow> 's StateReader \<Rightarrow> 's Executor \<Rightarrow> CallEntryPoint \<Rightarrow>
     ('s ExecState, EntryPointExecutionError, CallInfo) action" where
  "guarded_call E V R exec call =
     sbind (smap_err EpStateError (on_cached_state (get_class_hash_at R (cep_storage_address call)))) (\<lambda>storage_class_hash.
       if storage_class_hash = 0 then
         slift (Err (EpPreExecutionError (UninitializedStorageAddress (cep_storage_address call))))
       else
         (let class_hash = (case cep_class_hash call of Some hash \<Rightarrow> hash | None \<Rightarrow> storage_class_hash) in
          with_exec_context (\<lambda>context.
             if ti_version (tx_info (epc_tx_context context)) = 0 \<and> class_hash = FAULTY_CLASS_HASH then
                slift (Err (EpPreExecutionError FraudAttempt))
              else
                sbind (smap_err EpStateError (on_cached_state (get_compiled_contract_class R class_hash)))
                  (\<lambda>contract_class.
                    execute_entry_point_call E V R exec (call\<lparr>cep_class_hash := Some class_hash\<rparr>) contract_class))))"

definition call_entry_point ::
    "'a Externals_scheme \<Rightarrow> 'm VmApi \<Rightarrow> 's StateReader \<Rightarrow> 's Executor \<Rightarrow> CallEntryPoint \<Rightarrow>
     ('s ExecState, EntryPointExecutionError, CallInfo) action" where
  "call_entry_point E V R exec call = with_recursion_guard (guarded_call E V R exec call)"

primrec execute_fuel ::
    "nat \<Rightarrow> 'a Externals_scheme \<Rightarrow> 'm VmApi \<Rightarrow> 's StateReader \<Rightarrow> 's Executor" where
  "execute_fuel 0 E V R = (\<lambda>call s. (Panic ''out of fuel'', s))"
| "execute_fuel (Suc n) E V R = call_entry_point E V R (execute_fuel n E V R)"

definition execute :: "'a Externals_scheme \<Rightarrow> 'm VmApi \<Rightarrow> 's StateReader \<Rightarrow> 's Executor" where
  "execute E V R call =
     (\<lambda>(state, resources, context).
        execute_fuel (Suc (unat (max_recursion_depth (epc_versioned_constants context)))) E V R call
          (state, resources, context))"

end
