(* ===== verification/Transactions.thy ===== *)
theory Transactions
  imports Error_Traces Entry_Point_Execution
begin

text \<open>
  The transactions and what executing one means: \<open>transaction/transactions.rs\<close> (the four kinds of
  transaction, their information and their execute stage), the data and getters of
  \<open>transaction/account_transaction.rs\<close>, \<open>transaction/transaction_utils.rs\<close>,
  \<open>TransactionExecutionInfo\<close> of \<open>transaction/objects.rs\<close>, and
  \<open>transaction/transaction_execution.rs\<close> up to \<open>from_api\<close>.

  A transaction of the \<open>starknet_api\<close> crate is seen through its getters (version, signature,
  nonce, sender, class hash, calldata) and the fields of its variants.

  The execute stage acts on the three objects an execution borrows and on the remaining gas.
\<close>

section \<open>Transactions of the API\<close>

record ApiGetters =
  api_version :: TransactionVersion
  api_signature :: "StarkFelt list"
  api_nonce :: Nonce

record V3Fields =
  v3_resource_bounds :: ResourceBoundsMapping
  v3_tip :: u64
  v3_nonce_data_availability_mode :: DataAvailabilityMode
  v3_fee_data_availability_mode :: DataAvailabilityMode
  v3_paymaster_data :: "StarkFelt list"

datatype DeclareVariant =
    DeclareV0 Fee
  | DeclareV1 Fee
  | DeclareV2 Fee CompiledClassHash
  | DeclareV3 V3Fields "StarkFelt list" CompiledClassHash

record ApiDeclareTransaction = ApiGetters +
  api_declare_class_hash :: ClassHash
  api_declare_sender_address :: ContractAddress
  api_declare_variant :: DeclareVariant

datatype DeployAccountVariant = DeployAccountV1 Fee | DeployAccountV3 V3Fields

record ApiDeployAccountTransaction = ApiGetters +
  api_deploy_class_hash :: ClassHash
  api_deploy_constructor_calldata :: Calldata
  api_deploy_contract_address_salt :: StarkFelt
  api_deploy_variant :: DeployAccountVariant

datatype InvokeVariant = InvokeV0 Fee EntryPointSelector | InvokeV1 Fee | InvokeV3 V3Fields "StarkFelt list"

record ApiInvokeTransaction = ApiGetters +
  api_invoke_sender_address :: ContractAddress
  api_invoke_calldata :: Calldata
  api_invoke_variant :: InvokeVariant

record ApiL1HandlerTransaction =
  api_l1_version :: TransactionVersion
  api_l1_nonce :: Nonce
  api_l1_contract_address :: ContractAddress
  api_l1_entry_point_selector :: EntryPointSelector
  api_l1_calldata :: Calldata

datatype ApiTransaction =
    ApiDeclare ApiDeclareTransaction
  | ApiDeploy
  | ApiDeployAccount ApiDeployAccountTransaction
  | ApiInvoke ApiInvokeTransaction
  | ApiL1Handler ApiL1HandlerTransaction

section \<open>Transactions\<close>

record DeclareTransaction =
  declare_tx :: ApiDeclareTransaction
  declare_tx_hash :: TransactionHash
  declare_only_query :: bool
  declare_class_info :: ClassInfo

record DeployAccountTransaction =
  deploy_tx :: ApiDeployAccountTransaction
  deploy_tx_hash :: TransactionHash
  deploy_contract_address :: ContractAddress
  deploy_only_query :: bool

record InvokeTransaction =
  invoke_tx :: ApiInvokeTransaction
  invoke_tx_hash :: TransactionHash
  invoke_only_query :: bool

record L1HandlerTransaction =
  l1_tx :: ApiL1HandlerTransaction
  l1_tx_hash :: TransactionHash
  l1_paid_fee_on_l1 :: Fee

datatype AccountTransaction =
    Declare DeclareTransaction
  | DeployAccount DeployAccountTransaction
  | Invoke InvokeTransaction

datatype Transaction =
    AccountTx AccountTransaction
  | L1HandlerTx L1HandlerTransaction

definition verify_contract_class_version ::
    "ContractClass \<Rightarrow> TransactionVersion \<Rightarrow> (TransactionExecutionError, unit) result" where
  "verify_contract_class_version contract_class declare_version =
     (case contract_class of
        V0 _ \<Rightarrow>
          (if declare_version = 0 \<or> declare_version = 1 then Ok ()
           else Err (ContractClassVersionMismatch declare_version 0))
      | V1 _ \<Rightarrow>
          (if declare_version = 2 \<or> declare_version = 3 then Ok ()
           else Err (ContractClassVersionMismatch declare_version 1)))"

definition DeclareTransaction_create ::
    "ApiDeclareTransaction \<Rightarrow> TransactionHash \<Rightarrow> ClassInfo \<Rightarrow> bool \<Rightarrow> (TransactionExecutionError, DeclareTransaction) result" where
  "DeclareTransaction_create tx tx_hash class_info only_query =
     rbind (verify_contract_class_version (info_contract_class class_info) (api_version tx)) (\<lambda>_.
       Ok \<lparr>declare_tx = tx, declare_tx_hash = tx_hash, declare_only_query = only_query,
           declare_class_info = class_info\<rparr>)"

definition Transaction_from_api ::
    "'a Externals_scheme \<Rightarrow> ApiTransaction \<Rightarrow> TransactionHash \<Rightarrow> ClassInfo option \<Rightarrow> Fee option \<Rightarrow> ContractAddress option \<Rightarrow> bool
      \<Rightarrow> (TransactionExecutionError, Transaction) result" where
  "Transaction_from_api E tx tx_hash class_info paid_fee_on_l1 deployed_contract_address only_query =
     (case tx of
        ApiL1Handler l1_handler \<Rightarrow>
          rbind (expect ''L1Handler should be created with the fee paid on L1'' paid_fee_on_l1) (\<lambda>paid_fee.
            Ok (L1HandlerTx \<lparr>l1_tx = l1_handler, l1_tx_hash = tx_hash, l1_paid_fee_on_l1 = paid_fee\<rparr>))
      | ApiDeclare declare_api_tx \<Rightarrow>
          rbind (expect ''Declare should be created with a ClassInfo.'' class_info) (\<lambda>non_optional_class_info.
            rbind (DeclareTransaction_create declare_api_tx tx_hash non_optional_class_info only_query) (\<lambda>declare_transaction.
              Ok (AccountTx (Declare declare_transaction))))
      | ApiDeployAccount deploy_account \<Rightarrow>
          rbind
            (case deployed_contract_address of
               Some address \<Rightarrow> Ok address
             | None \<Rightarrow> map_err TxStarknetApiError
                 (contract_address_from E (api_deploy_contract_address_salt deploy_account)
                   (api_deploy_class_hash deploy_account) (api_deploy_constructor_calldata deploy_account) 0))
            (\<lambda>contract_address.
              Ok (AccountTx (DeployAccount \<lparr>deploy_tx = deploy_account, deploy_tx_hash = tx_hash,
                    deploy_contract_address = contract_address, deploy_only_query = only_query\<rparr>)))
      | ApiInvoke invoke \<Rightarrow>
          Ok (AccountTx (Invoke \<lparr>invoke_tx = invoke, invoke_tx_hash = tx_hash, invoke_only_query = only_query\<rparr>))
      | ApiDeploy \<Rightarrow> Panic ''not implemented'')"

definition payload_size :: "L1HandlerTransaction \<Rightarrow> usize" where
  "payload_size self = vec_len (api_l1_calldata (l1_tx self)) - 1"

section \<open>Information of a transaction\<close>

definition current_tx_info :: "CommonAccountFields \<Rightarrow> V3Fields \<Rightarrow> StarkFelt list \<Rightarrow> TransactionInfo" where
  "current_tx_info account_fields tx account_deployment_data =
     Current
       \<lparr>cti_common_fields = account_fields,
        cti_resource_bounds = v3_resource_bounds tx,
        cti_tip = v3_tip tx,
        cti_nonce_data_availability_mode = v3_nonce_data_availability_mode tx,
        cti_fee_data_availability_mode = v3_fee_data_availability_mode tx,
        cti_paymaster_data = v3_paymaster_data tx,
        cti_account_deployment_data = account_deployment_data\<rparr>"

definition deprecated_tx_info :: "CommonAccountFields \<Rightarrow> Fee \<Rightarrow> TransactionInfo" where
  "deprecated_tx_info account_fields max_fee = Deprecated \<lparr>dti_common_fields = account_fields, dti_max_fee = max_fee\<rparr>"

definition DeclareTransaction_create_tx_info :: "DeclareTransaction \<Rightarrow> TransactionInfo" where
  "DeclareTransaction_create_tx_info self =
     (let tx = declare_tx self;
          account_fields = \<lparr>caf_transaction_hash = declare_tx_hash self, caf_version = api_version tx,
            caf_signature = api_signature tx, caf_nonce = api_nonce tx,
            caf_sender_address = api_declare_sender_address tx, caf_only_query = declare_only_query self\<rparr>
      in case api_declare_variant tx of
           DeclareV0 max_fee \<Rightarrow> deprecated_tx_info account_fields max_fee
         | DeclareV1 max_fee \<Rightarrow> deprecated_tx_info account_fields max_fee
         | DeclareV2 max_fee _ \<Rightarrow> deprecated_tx_info account_fields max_fee
         | DeclareV3 v3 account_deployment_data _ \<Rightarrow> current_tx_info account_fields v3 account_deployment_data)"

definition DeployAccountTransaction_create_tx_info :: "DeployAccountTransaction \<Rightarrow> TransactionInfo" where
  "DeployAccountTransaction_create_tx_info self =
     (let tx = deploy_tx self;
          account_fields = \<lparr>caf_transaction_hash = deploy_tx_hash self, caf_version = api_version tx,
            caf_signature = api_signature tx, caf_nonce = api_nonce tx,
            caf_sender_address = deploy_contract_address self, caf_only_query = deploy_only_query self\<rparr>
      in case api_deploy_variant tx of
           DeployAccountV1 max_fee \<Rightarrow> deprecated_tx_info account_fields max_fee
         | DeployAccountV3 v3 \<Rightarrow> current_tx_info account_fields v3 [])"

definition InvokeTransaction_create_tx_info :: "InvokeTransaction \<Rightarrow> TransactionInfo" where
  "InvokeTransaction_create_tx_info self =
     (let tx = invoke_tx self;
          account_fields = \<lparr>caf_transaction_hash = invoke_tx_hash self, caf_version = api_version tx,
            caf_signature = api_signature tx, caf_nonce = api_nonce tx,
            caf_sender_address = api_invoke_sender_address tx, caf_only_query = invoke_only_query self\<rparr>
      in case api_invoke_variant tx of
           InvokeV0 max_fee _ \<Rightarrow> deprecated_tx_info account_fields max_fee
         | InvokeV1 max_fee \<Rightarrow> deprecated_tx_info account_fields max_fee
         | InvokeV3 v3 account_deployment_data \<Rightarrow> current_tx_info account_fields v3 account_deployment_data)"

definition L1HandlerTransaction_create_tx_info :: "L1HandlerTransaction \<Rightarrow> TransactionInfo" where
  "L1HandlerTransaction_create_tx_info self =
     deprecated_tx_info
       \<lparr>caf_transaction_hash = l1_tx_hash self, caf_version = api_l1_version (l1_tx self), caf_signature = [],
        caf_nonce = api_l1_nonce (l1_tx self), caf_sender_address = api_l1_contract_address (l1_tx self),
        caf_only_query = False\<rparr>
       0"

definition AccountTransaction_create_tx_info :: "AccountTransaction \<Rightarrow> TransactionInfo" where
  "AccountTransaction_create_tx_info self =
     (case self of
        Declare tx \<Rightarrow> DeclareTransaction_create_tx_info tx
      | DeployAccount tx \<Rightarrow> DeployAccountTransaction_create_tx_info tx
      | Invoke tx \<Rightarrow> InvokeTransaction_create_tx_info tx)"

definition Transaction_create_tx_info :: "Transaction \<Rightarrow> TransactionInfo" where
  "Transaction_create_tx_info self =
     (case self of
        AccountTx account_tx \<Rightarrow> AccountTransaction_create_tx_info account_tx
      | L1HandlerTx l1_handler_tx \<Rightarrow> L1HandlerTransaction_create_tx_info l1_handler_tx)"

section \<open>Getters of account transactions\<close>

definition AccountTransaction_version :: "AccountTransaction \<Rightarrow> TransactionVersion" where
  "AccountTransaction_version self =
     (case self of
        Declare tx \<Rightarrow> api_version (declare_tx tx)
      | DeployAccount tx \<Rightarrow> api_version (deploy_tx tx)
      | Invoke tx \<Rightarrow>
          (case api_invoke_variant (invoke_tx tx) of InvokeV0 _ _ \<Rightarrow> 0 | InvokeV1 _ \<Rightarrow> 1 | InvokeV3 _ _ \<Rightarrow> 3))"

definition AccountTransaction_fee_type :: "AccountTransaction \<Rightarrow> FeeType" where
  "AccountTransaction_fee_type self = fee_type False (AccountTransaction_version self)"

definition L1HandlerTransaction_fee_type :: "L1HandlerTransaction \<Rightarrow> FeeType" where
  "L1HandlerTransaction_fee_type self = fee_type True (api_l1_version (l1_tx self))"

definition tx_type :: "AccountTransaction \<Rightarrow> TransactionType" where
  "tx_type self =
     (case self of Declare _ \<Rightarrow> TxDeclare | DeployAccount _ \<Rightarrow> TxDeployAccount | Invoke _ \<Rightarrow> TxInvokeFunction)"

definition EXECUTE_ENTRY_POINT_NAME :: string where
  "EXECUTE_ENTRY_POINT_NAME = ''__execute__''"

definition TRANSFER_ENTRY_POINT_NAME :: string where
  "TRANSFER_ENTRY_POINT_NAME = ''transfer''"

definition VALIDATE_ENTRY_POINT_NAME :: string where
  "VALIDATE_ENTRY_POINT_NAME = ''__validate__''"

definition VALIDATE_DECLARE_ENTRY_POINT_NAME :: string where
  "VALIDATE_DECLARE_ENTRY_POINT_NAME = ''__validate_declare__''"

definition VALIDATE_DEPLOY_ENTRY_POINT_NAME :: string where
  "VALIDATE_DEPLOY_ENTRY_POINT_NAME = ''__validate_deploy__''"

definition VALIDATE_RETDATA :: StarkFelt where
  "VALIDATE_RETDATA = 0x56414c4944"

definition validate_entry_point_selector :: "'a Externals_scheme \<Rightarrow> AccountTransaction \<Rightarrow> EntryPointSelector" where
  "validate_entry_point_selector E self =
     selector_from_name E
       (case self of
          Declare _ \<Rightarrow> VALIDATE_DECLARE_ENTRY_POINT_NAME
        | DeployAccount _ \<Rightarrow> VALIDATE_DEPLOY_ENTRY_POINT_NAME
        | Invoke _ \<Rightarrow> VALIDATE_ENTRY_POINT_NAME)"

definition validate_entrypoint_calldata :: "AccountTransaction \<Rightarrow> Calldata" where
  "validate_entrypoint_calldata self =
     (case self of
        Declare tx \<Rightarrow> [api_declare_class_hash (declare_tx tx)]
      | DeployAccount tx \<Rightarrow>
          [api_deploy_class_hash (deploy_tx tx), api_deploy_contract_address_salt (deploy_tx tx)]
          @ api_deploy_constructor_calldata (deploy_tx tx)
      | Invoke tx \<Rightarrow> api_invoke_calldata (invoke_tx tx))"

definition calldata_length :: "AccountTransaction \<Rightarrow> usize" where
  "calldata_length self =
     vec_len (case self of
        Declare _ \<Rightarrow> []
      | DeployAccount tx \<Rightarrow> api_deploy_constructor_calldata (deploy_tx tx)
      | Invoke tx \<Rightarrow> api_invoke_calldata (invoke_tx tx))"

definition signature_length :: "AccountTransaction \<Rightarrow> usize" where
  "signature_length self =
     vec_len (case self of
        Declare tx \<Rightarrow> api_signature (declare_tx tx)
      | DeployAccount tx \<Rightarrow> api_signature (deploy_tx tx)
      | Invoke tx \<Rightarrow> api_signature (invoke_tx tx))"

definition declare_code_size :: "AccountTransaction \<Rightarrow> usize" where
  "declare_code_size self = (case self of Declare tx \<Rightarrow> code_size (declare_class_info tx) | _ \<Rightarrow> 0)"

definition allowed_versions :: "AccountTransaction \<Rightarrow> TransactionVersion list" where
  "allowed_versions self =
     (case self of Declare _ \<Rightarrow> [0, 1, 2, 3] | DeployAccount _ \<Rightarrow> [1, 3] | Invoke _ \<Rightarrow> [0, 1, 3])"

definition verify_tx_version ::
    "AccountTransaction \<Rightarrow> TransactionVersion \<Rightarrow> (TransactionExecutionError, unit) result" where
  "verify_tx_version self version =
     (if version \<in> set (allowed_versions self) then Ok ()
      else Err (InvalidVersion version (allowed_versions self)))"

definition is_non_revertible :: "AccountTransaction \<Rightarrow> TransactionInfo \<Rightarrow> bool" where
  "is_non_revertible self info \<longleftrightarrow>
     (case self of Declare _ \<Rightarrow> True | DeployAccount _ \<Rightarrow> True | Invoke _ \<Rightarrow> is_v0 info)"

section \<open>The execute stage\<close>

definition DeclareTransaction_declare ::
    "'s StateReader \<Rightarrow> DeclareTransaction \<Rightarrow> ('s CachedState, TransactionExecutionError, CallInfo option) action" where
  "DeclareTransaction_declare R self =
     (let class_hash = api_declare_class_hash (declare_tx self);
          contract_class = info_contract_class (declare_class_info self);
          set_class = smap_err TxStateError (set_contract_class class_hash contract_class);
          declare_undeclared = (\<lambda>compiled_class_hash state.
            case get_compiled_contract_class R class_hash state of
              (Err (UndeclaredClassHash _), state') \<Rightarrow>
                sbind set_class (\<lambda>_.
                  sbind (smap_err TxStateError (set_compiled_class_hash class_hash compiled_class_hash)) (\<lambda>_.
                    sret None)) state'
            | (Err error, state') \<Rightarrow> (Err (TxStateError error), state')
            | (Ok _, state') \<Rightarrow> (Err (DeclareTransactionError class_hash), state')
            | (Panic p, state') \<Rightarrow> (Panic p, state'))
      in case api_declare_variant (declare_tx self) of
           DeclareV0 _ \<Rightarrow> sbind set_class (\<lambda>_. sret None)
         | DeclareV1 _ \<Rightarrow> sbind set_class (\<lambda>_. sret None)
         | DeclareV2 _ compiled_class_hash \<Rightarrow> declare_undeclared compiled_class_hash
         | DeclareV3 _ _ compiled_class_hash \<Rightarrow> declare_undeclared compiled_class_hash)"

definition DeclareTransaction_run_execute ::
    "'s StateReader \<Rightarrow> DeclareTransaction \<Rightarrow> ('s ExecState \<times> u64, TransactionExecutionError, CallInfo option) action" where
  "DeclareTransaction_run_execute R self = keep_gas (on_cached_state (DeclareTransaction_declare R self))"

text \<open>The two stages that pay for a call from the remaining gas.\<close>

definition paying_gas ::
    "(u64 \<Rightarrow> ('s ExecState, TransactionExecutionError, CallInfo) action) \<Rightarrow>
     ('s ExecState \<times> u64, TransactionExecutionError, CallInfo option) action" where
  "paying_gas run =
     with_gas (\<lambda>remaining_gas.
       sbind (keep_gas (run remaining_gas)) (\<lambda>call_info.
         sbind (set_gas (update_remaining_gas remaining_gas call_info)) (\<lambda>_. sret (Some call_info))))"

definition DeployAccountTransaction_run_execute ::
    "'a Externals_scheme \<Rightarrow> 'm VmApi \<Rightarrow> 's StateReader \<Rightarrow> DeployAccountTransaction \<Rightarrow>
     ('s ExecState \<times> u64, TransactionExecutionError, CallInfo option) action" where
  "DeployAccountTransaction_run_execute E V R self =
     paying_gas (\<lambda>remaining_gas.
       smap_err ContractConstructorExecutionFailed
         (execute_deployment E R (execute E V R)
           \<lparr>ctor_class_hash = api_deploy_class_hash (deploy_tx self), ctor_code_address = None,
            ctor_storage_address = deploy_contract_address self, ctor_caller_address = 0\<rparr>
           (api_deploy_constructor_calldata (deploy_tx self)) remaining_gas))"

definition InvokeTransaction_run_execute ::
    "'a Externals_scheme \<Rightarrow> 'm VmApi \<Rightarrow> 's StateReader \<Rightarrow> InvokeTransaction \<Rightarrow>
     ('s ExecState \<times> u64, TransactionExecutionError, CallInfo option) action" where
  "InvokeTransaction_run_execute E V R self =
     (let entry_point_selector =
            (case api_invoke_variant (invoke_tx self) of
               InvokeV0 _ selector \<Rightarrow> selector
             | _ \<Rightarrow> selector_from_name E EXECUTE_ENTRY_POINT_NAME)
      in paying_gas (\<lambda>remaining_gas.
           with_exec_context (\<lambda>context.
             let storage_address = ti_sender_address (tx_info (epc_tx_context context)) in
             sbind (smap_err TxStateError (on_cached_state (get_class_hash_at R storage_address))) (\<lambda>class_hash.
               smap_err (\<lambda>error. TxExecutionError error class_hash storage_address entry_point_selector)
                 (execute E V R
                   \<lparr>cep_class_hash = None, cep_code_address = None, cep_entry_point_type = External,
                    cep_entry_point_selector = entry_point_selector, cep_calldata = api_invoke_calldata (invoke_tx self),
                    cep_storage_address = storage_address, cep_caller_address = 0, cep_call_type = Call,
                    cep_initial_gas = remaining_gas\<rparr>)))))"

definition L1HandlerTransaction_run_execute ::
    "'a Externals_scheme \<Rightarrow> 'm VmApi \<Rightarrow> 's StateReader \<Rightarrow> L1HandlerTransaction \<Rightarrow>
     ('s ExecState \<times> u64, TransactionExecutionError, CallInfo option) action" where
  "L1HandlerTransaction_run_execute E V R self =
     (let tx = l1_tx self;
          storage_address = api_l1_contract_address tx;
          selector = api_l1_entry_point_selector tx
      in with_gas (\<lambda>remaining_gas. keep_gas
           (sbind (smap_err TxStateError (on_cached_state (get_class_hash_at R storage_address))) (\<lambda>class_hash.
             sbind (smap_err (\<lambda>error. TxExecutionError error class_hash storage_address selector)
               (execute E V R
                 \<lparr>cep_class_hash = None, cep_code_address = None, cep_entry_point_type = L1Handler,
                  cep_entry_point_selector = selector, cep_calldata = api_l1_calldata tx,
                  cep_storage_address = storage_address, cep_caller_address = 0, cep_call_type = Call,
                  cep_initial_gas = remaining_gas\<rparr>))
               (\<lambda>call_info. sret (Some call_info))))))"

definition AccountTransaction_run_execute ::
    "'a Externals_scheme \<Rightarrow> 'm VmApi \<Rightarrow> 's StateReader \<Rightarrow> AccountTransaction \<Rightarrow>
     ('s ExecState \<times> u64, TransactionExecutionError, CallInfo option) action" where
  "AccountTransaction_run_execute E V R self =
     (case self of
        Declare tx \<Rightarrow> DeclareTransaction_run_execute R tx
      | DeployAccount tx \<Rightarrow> DeployAccountTransaction_run_execute E V R tx
      | Invoke tx \<Rightarrow> InvokeTransaction_run_execute E V R tx)"

section \<open>Results\<close>

record TransactionExecutionInfo =
  tei_validate_call_info :: "CallInfo option"
  tei_execute_call_info :: "CallInfo option"
  tei_fee_transfer_call_info :: "CallInfo option"
  tei_actual_fee :: Fee
  tei_da_gas :: GasVector
  tei_actual_resources :: TransactionResources
  tei_revert_error :: "string option"

definition option_iter :: "'a option \<Rightarrow> 'a list" where
  "option_iter x = (case x of Some a \<Rightarrow> [a] | None \<Rightarrow> [])"

definition non_optional_call_infos :: "TransactionExecutionInfo \<Rightarrow> CallInfo list" where
  "non_optional_call_infos self =
     option_iter (tei_validate_call_info self) @ option_iter (tei_execute_call_info self)
     @ option_iter (tei_fee_transfer_call_info self)"

definition is_reverted :: "TransactionExecutionInfo \<Rightarrow> bool" where
  "is_reverted self \<longleftrightarrow> tei_revert_error self \<noteq> None"

fun summarize_all :: "CallInfo list \<Rightarrow> (unit, ExecutionSummary list) result" where
  "summarize_all [] = Ok []"
| "summarize_all (call_info # call_infos) =
     rbind (CallInfo_summarize call_info) (\<lambda>summary.
       rbind (summarize_all call_infos) (\<lambda>summaries. Ok (summary # summaries)))"

definition TransactionExecutionInfo_summarize :: "TransactionExecutionInfo \<Rightarrow> (unit, ExecutionSummary) result" where
  "TransactionExecutionInfo_summarize self =
     rbind (summarize_all (non_optional_call_infos self)) (\<lambda>summaries. Ok (ExecutionSummary_sum summaries))"

definition TransactionReceipt_from_account_tx ::
    "'a Externals_scheme \<Rightarrow> AccountTransaction \<Rightarrow> TransactionContext \<Rightarrow> StateChanges \<Rightarrow> ExecutionResources \<Rightarrow> CallInfo list \<Rightarrow> usize
      \<Rightarrow> (TransactionExecutionError, TransactionReceipt) result" where
  "TransactionReceipt_from_account_tx E account_tx tx_context state_changes execution_resources call_infos reverted_steps =
     TransactionReceipt_from_params E
       \<lparr>rcp_tx_context = tx_context,
        rcp_calldata_length = calldata_length account_tx,
        rcp_signature_length = signature_length account_tx,
        rcp_code_size = declare_code_size account_tx,
        rcp_state_changes = state_changes,
        rcp_sender_address = Some (ti_sender_address (tx_info tx_context)),
        rcp_l1_handler_payload_size = None,
        rcp_call_infos = call_infos,
        rcp_execution_resources = execution_resources,
        rcp_tx_type = tx_type account_tx,
        rcp_reverted_steps = reverted_steps\<rparr>"

end
