(* ===== verification/Account_Transactions.thy ===== *)
theory Account_Transactions
  imports Transactions
begin

text \<open>
  The stages of a transaction, from \<open>transaction/account_transaction.rs\<close> and the second half of
  \<open>transaction/transaction_execution.rs\<close>: the checks before validation (\<open>estimate_minimal_gas_vector\<close>
  of \<open>fee/gas_usage.rs\<close> included), the call of the validate entry point, execution with or without
  the possibility of a revert, and the transfer of the fee.

  A nested transactional state is run on \<open>create_transactional\<close> and ends with \<open>commit\<close> or \<open>abort\<close>;
  dropping it, on an early return, has the effect of \<open>abort\<close>. Resources and the execution context
  that a stage creates are local to it.
\<close>

section \<open>Before validation\<close>

definition state_changes_by_account_transaction :: "AccountTransaction \<Rightarrow> StateChangesCount" where
  "state_changes_by_account_transaction tx =
     (case tx of
        Declare _ \<Rightarrow>
          \<lparr>n_storage_updates = 1, n_class_hash_updates = 0, n_compiled_class_hash_updates = 0, n_modified_contracts = 1\<rparr>
      | Invoke _ \<Rightarrow>
          \<lparr>n_storage_updates = 1, n_class_hash_updates = 0, n_compiled_class_hash_updates = 0, n_modified_contracts = 1\<rparr>
      | DeployAccount _ \<Rightarrow>
          \<lparr>n_storage_updates = 1, n_class_hash_updates = 1, n_compiled_class_hash_updates = 0, n_modified_contracts = 1\<rparr>)"

definition estimate_minimal_gas_vector ::
    "'a Externals_scheme \<Rightarrow> BlockContext \<Rightarrow> AccountTransaction \<Rightarrow> (TransactionPreValidationError, GasVector) result" where
  "estimate_minimal_gas_vector E context tx =
     (let constants = versioned_constants context;
          changes = state_changes_by_account_transaction tx;
          data_segment_length = get_onchain_data_segment_length changes
      in rbind (resources_for_tx_type E (os_resources constants) (tx_type tx) (calldata_length tx)) (\<lambda>tx_type_resources.
           let os_steps_for_type = er_n_steps tx_type_resources
                 + er_n_steps (os_kzg_da_resources E (os_resources constants) data_segment_length);
               resources = er_default\<lparr>er_n_steps := os_steps_for_type\<rparr>
           in rbind (map_err PreValFeeError (calculate_l1_gas_by_vm_usage E constants resources 0)) (\<lambda>vm_gas.
                Ok (GasVector_add (get_da_gas_cost changes (use_kzg_da (block_info context))) vm_gas))))"

definition check_fee_bounds ::
    "'a Externals_scheme \<Rightarrow> AccountTransaction \<Rightarrow> TransactionContext \<Rightarrow> (TransactionPreValidationError, unit) result" where
  "check_fee_bounds E self tx_context =
     rbind (estimate_minimal_gas_vector E (block_context tx_context) self) (\<lambda>minimal_l1_gas_amount_vector.
       let minimal_l1_gas_amount = compute_discounted_gas_from_gas_vector minimal_l1_gas_amount_vector tx_context;
           info = block_info (block_context tx_context);
           t = ti_fee_type (tx_info tx_context)
       in case tx_info tx_context of
            Current context \<Rightarrow>
              rbind (map_err PreValFeeError (l1_resource_bounds context)) (\<lambda>bounds.
                let max_l1_gas_amount = max_amount bounds;
                    max_l1_gas_price = max_price_per_unit bounds;
                    max_l1_gas_amount_as_u128 = (ucast max_l1_gas_amount :: u128);
                    actual_l1_gas_price = get_gas_price_by_fee_type (gas_prices info) t
                in if max_l1_gas_amount_as_u128 < minimal_l1_gas_amount then
                     (if unat minimal_l1_gas_amount < 2 ^ 64
                      then Err (PreValFeeError (MaxL1GasAmountTooLow max_l1_gas_amount (ucast minimal_l1_gas_amount)))
                      else Panic ''Failed to convert u128 to u64.'')
                   else if max_l1_gas_price < actual_l1_gas_price then
                     Err (PreValFeeError (MaxL1GasPriceTooLow max_l1_gas_price actual_l1_gas_price))
                   else Ok ())
          | Deprecated context \<Rightarrow>
              (let max_fee = dti_max_fee context;
                   min_fee = get_fee_by_gas_vector info minimal_l1_gas_amount_vector t
               in if max_fee < min_fee then Err (PreValFeeError (MaxFeeTooLow min_fee max_fee)) else Ok ()))"

definition handle_nonce ::
    "'s StateReader \<Rightarrow> TransactionInfo \<Rightarrow> bool \<Rightarrow> ('s CachedState, TransactionPreValidationError, unit) action" where
  "handle_nonce R info strict =
     (if is_v0 info then sret ()
      else
        (let address = ti_sender_address info;
             incoming_tx_nonce = ti_nonce info
         in sbind (smap_err PreValStateError (get_nonce_at R address)) (\<lambda>account_nonce.
              let valid_nonce = (if strict then account_nonce = incoming_tx_nonce else account_nonce \<le> incoming_tx_nonce)
              in if valid_nonce then smap_err PreValStateError (increment_nonce R address)
                 else slift (Err (InvalidNonce address account_nonce incoming_tx_nonce)))))"

definition perform_pre_validation_stage ::
    "'a Externals_scheme \<Rightarrow> 's StateReader \<Rightarrow> AccountTransaction \<Rightarrow> TransactionContext \<Rightarrow> bool \<Rightarrow> bool
      \<Rightarrow> ('s CachedState, TransactionPreValidationError, unit) action" where
  "perform_pre_validation_stage E R self tx_context charge_fee strict_nonce_check =
     sbind (handle_nonce R (tx_info tx_context) strict_nonce_check) (\<lambda>_.
       sbind (if charge_fee then slift (map_err PreValFeeError (enforce_fee (tx_info tx_context))) else sret False)
         (\<lambda>enforced.
           if enforced then
             sbind (slift (check_fee_bounds E self tx_context)) (\<lambda>_.
               smap_err PreValFeeError (verify_can_pay_committed_bounds E R tx_context))
           else sret ()))"

section \<open>Validation\<close>

type_synonym 's StageState = "('s CachedState \<times> ExecutionResources) \<times> u64"

text \<open>
  \<open>in_context\<close> runs an action in a context that is dropped afterwards, \<open>on_tx_state\<close> an action on
  the state alone; \<open>with_resources\<close> reads the resources, \<open>with_new_resources\<close> creates and drops them.
\<close>

definition in_context ::
    "EntryPointExecutionContext \<Rightarrow> ('s ExecState \<times> u64, 'e, 'b) action \<Rightarrow> ('s StageState, 'e, 'b) action" where
  "in_context context act =
     (\<lambda>((state, resources), gas).
        case act ((state, resources, context), gas) of
          (r, ((state', resources', _), gas')) \<Rightarrow> (r, ((state', resources'), gas')))"

definition on_tx_state :: "('s CachedState, 'e, 'b) action \<Rightarrow> ('s StageState, 'e, 'b) action" where
  "on_tx_state act =
     (\<lambda>((state, resources), gas). case act state of (r, state') \<Rightarrow> (r, ((state', resources), gas)))"

definition with_resources :: "(ExecutionResources \<Rightarrow> ('s StageState, 'e, 'b) action) \<Rightarrow> ('s StageState, 'e, 'b) action" where
  "with_resources f = (\<lambda>s. f (snd (fst s)) s)"

definition with_new_resources :: "('s StageState, 'e, 'b) action \<Rightarrow> ('s CachedState \<times> u64, 'e, 'b) action" where
  "with_new_resources act =
     (\<lambda>(state, gas). case act ((state, er_default), gas) of (r, ((state', _), gas')) \<Rightarrow> (r, (state', gas')))"

definition validate_tx ::
    "'a Externals_scheme \<Rightarrow> 'm VmApi \<Rightarrow> 's StateReader \<Rightarrow> AccountTransaction \<Rightarrow> TransactionContext \<Rightarrow> bool
      \<Rightarrow> ('s StageState, TransactionExecutionError, CallInfo option) action" where
  "validate_tx E V R self tx_context limit_steps_by_resources =
     sbind (slift (new_validate E tx_context limit_steps_by_resources)) (\<lambda>context.
       if is_v0 (tx_info tx_context) then sret None
       else
         (let storage_address = ti_sender_address (tx_info tx_context);
              validate_selector = validate_entry_point_selector E self
          in in_context context (paying_gas (\<lambda>remaining_gas.
               sbind (smap_err TxStateError (on_cached_state (get_class_hash_at R storage_address))) (\<lambda>class_hash.
                 sbind (smap_err (\<lambda>error. ValidateTransactionError error class_hash storage_address validate_selector)
                          (execute E V R
                            \<lparr>cep_class_hash = None, cep_code_address = None, cep_entry_point_type = External,
                             cep_entry_point_selector = validate_selector,
                             cep_calldata = validate_entrypoint_calldata self,
                             cep_storage_address = storage_address, cep_caller_address = 0, cep_call_type = Call,
                             cep_initial_gas = remaining_gas\<rparr>)) (\<lambda>validate_call_info.
                   sbind (smap_err TxStateError (on_cached_state (get_compiled_contract_class R class_hash))) (\<lambda>contract_class.
                     case contract_class of
                       V1 _ \<Rightarrow>
                         (if ce_retdata (ci_execution validate_call_info) \<noteq> [VALIDATE_RETDATA]
                          then slift (Err (InvalidValidateReturnData (ce_retdata (ci_execution validate_call_info))))
                          else sret validate_call_info)
                     | V0 _ \<Rightarrow> sret validate_call_info)))))))"

definition handle_validate_tx ::
    "'a Externals_scheme \<Rightarrow> 'm VmApi \<Rightarrow> 's StateReader \<Rightarrow> AccountTransaction \<Rightarrow> TransactionContext \<Rightarrow> bool \<Rightarrow> bool
      \<Rightarrow> ('s StageState, TransactionExecutionError, CallInfo option) action" where
  "handle_validate_tx E V R self tx_context validate limit_steps_by_resources =
     (if validate then validate_tx E V R self tx_context limit_steps_by_resources else sret None)"

section \<open>Fees\<close>

definition assert_actual_fee_in_bounds :: "TransactionContext \<Rightarrow> Fee \<Rightarrow> (TransactionExecutionError, unit) result" where
  "assert_actual_fee_in_bounds tx_context actual_fee =
     (case tx_info tx_context of
        Current context \<Rightarrow>
          rbind (map_err TxFeeError (l1_resource_bounds context)) (\<lambda>bounds.
            if actual_fee > ucast (max_amount bounds) * max_price_per_unit bounds
            then Panic ''Actual fee exceeded bounds'' else Ok ())
      | Deprecated context \<Rightarrow>
          (if actual_fee > dti_max_fee context then Panic ''Actual fee exceeded bounds'' else Ok ()))"

definition execute_fee_transfer ::
    "'a Externals_scheme \<Rightarrow> 'm VmApi \<Rightarrow> 's StateReader \<Rightarrow> TransactionContext \<Rightarrow> Fee
      \<Rightarrow> ('s CachedState, TransactionExecutionError, CallInfo) action" where
  "execute_fee_transfer E V R tx_context actual_fee =
     (let context = block_context tx_context;
          lsb_amount = unat actual_fee;
          msb_amount = 0;
          fee_transfer_call =
            \<lparr>cep_class_hash = None, cep_code_address = None, cep_entry_point_type = External,
             cep_entry_point_selector = selector_from_name E TRANSFER_ENTRY_POINT_NAME,
             cep_calldata = [sequencer_address (block_info context), lsb_amount, msb_amount],
             cep_storage_address = chain_fee_token_address (chain_info context) (ti_fee_type (tx_info tx_context)),
             cep_caller_address = ti_sender_address (tx_info tx_context),
             cep_call_type = Call,
             cep_initial_gas = initial_gas_cost (gas_costs (os_constants (versioned_constants context)))\<rparr>
      in sbind (slift (new_invoke E tx_context True)) (\<lambda>execution_context. \<lambda>state.
           case smap_err (\<lambda>error. TxFeeError (ExecuteFeeTransferError error)) (execute E V R fee_transfer_call)
                  (state, er_default, execution_context) of
             (r, (state', _, _)) \<Rightarrow> (r, state')))"

definition concurrency_execute_fee_transfer ::
    "'a Externals_scheme \<Rightarrow> 'm VmApi \<Rightarrow> 's StateReader \<Rightarrow> TransactionContext \<Rightarrow> Fee
      \<Rightarrow> ('s CachedState, TransactionExecutionError, CallInfo) action" where
  "concurrency_execute_fee_transfer E V R tx_context actual_fee =
     (let fee_address = chain_fee_token_address (chain_info (block_context tx_context)) (ti_fee_type (tx_info tx_context))
      in sbind (slift (get_sequencer_balance_keys E (block_context tx_context)))
           (\<lambda>(sequencer_balance_key_low, sequencer_balance_key_high). \<lambda>state.
             let transfer_state = with_cache
                   (\<lambda>cache. set_storage_initial_value fee_address sequencer_balance_key_high 0
                      (set_storage_initial_value fee_address sequencer_balance_key_low 0 cache))
                   (create_transactional state)
             in case execute_fee_transfer E V R tx_context actual_fee transfer_state of
                  (fee_transfer_call_info, transfer_state') \<Rightarrow>
                    (fee_transfer_call_info,
                     commit (with_cache
                       (\<lambda>cache. cache\<lparr>writes := (writes cache)\<lparr>sm_storage :=
                          hm_remove (fee_address, sequencer_balance_key_high)
                            (hm_remove (fee_address, sequencer_balance_key_low) (sm_storage (writes cache)))\<rparr>\<rparr>)
                       transfer_state'))))"

definition handle_fee ::
    "'a Externals_scheme \<Rightarrow> 'm VmApi \<Rightarrow> 's StateReader \<Rightarrow> TransactionContext \<Rightarrow> Fee \<Rightarrow> bool
      \<Rightarrow> ('s CachedState, TransactionExecutionError, CallInfo option) action" where
  "handle_fee E V R tx_context actual_fee charge_fee =
     (if \<not> charge_fee \<or> actual_fee = 0 then sret None
      else
        sbind (slift (assert_actual_fee_in_bounds tx_context actual_fee)) (\<lambda>_.
          sbind
            (if concurrency_mode (block_context tx_context)
                \<and> sequencer_address (block_info (block_context tx_context)) \<noteq> ti_sender_address (tx_info tx_context)
             then concurrency_execute_fee_transfer E V R tx_context actual_fee
             else execute_fee_transfer E V R tx_context actual_fee)
            (\<lambda>fee_transfer_call_info. sret (Some fee_transfer_call_info))))"

section \<open>Execution\<close>

record ValidateExecuteCallInfo =
  vec_validate_call_info :: "CallInfo option"
  vec_execute_call_info :: "CallInfo option"
  vec_revert_error :: "string option"
  vec_final_cost :: TransactionReceipt

definition new_accepted :: "CallInfo option \<Rightarrow> CallInfo option \<Rightarrow> TransactionReceipt \<Rightarrow> ValidateExecuteCallInfo" where
  "new_accepted validate_call_info execute_call_info final_cost =
     \<lparr>vec_validate_call_info = validate_call_info, vec_execute_call_info = execute_call_info,
      vec_revert_error = None, vec_final_cost = final_cost\<rparr>"

definition new_reverted :: "CallInfo option \<Rightarrow> string \<Rightarrow> TransactionReceipt \<Rightarrow> ValidateExecuteCallInfo" where
  "new_reverted validate_call_info revert_error final_cost =
     \<lparr>vec_validate_call_info = validate_call_info, vec_execute_call_info = None,
      vec_revert_error = Some revert_error, vec_final_cost = final_cost\<rparr>"

definition run_non_revertible ::
    "'a Externals_scheme \<Rightarrow> 'm VmApi \<Rightarrow> 's StateReader \<Rightarrow> AccountTransaction \<Rightarrow> TransactionContext \<Rightarrow> bool \<Rightarrow> bool
      \<Rightarrow> ('s CachedState \<times> u64, TransactionExecutionError, ValidateExecuteCallInfo) action" where
  "run_non_revertible E V R self tx_context validate charge_fee =
     with_new_resources
       (sbind
          (case self of
             DeployAccount _ \<Rightarrow>
               sbind (slift (new_validate E tx_context charge_fee)) (\<lambda>execution_context.
                 sbind (in_context execution_context (AccountTransaction_run_execute E V R self)) (\<lambda>execute_call_info.
                   sbind (handle_validate_tx E V R self tx_context validate charge_fee) (\<lambda>validate_call_info.
                     sret (validate_call_info, execute_call_info))))
           | _ \<Rightarrow>
               sbind (slift (new_invoke E tx_context charge_fee)) (\<lambda>execution_context.
                 sbind (handle_validate_tx E V R self tx_context validate charge_fee) (\<lambda>validate_call_info.
                   sbind (in_context execution_context (AccountTransaction_run_execute E V R self)) (\<lambda>execute_call_info.
                     sret (validate_call_info, execute_call_info)))))
          (\<lambda>(validate_call_info, execute_call_info).
            sbind (on_tx_state (smap_err TxStateError (get_actual_state_changes R))) (\<lambda>state_changes.
              with_resources (\<lambda>resources.
                sbind (slift (TransactionReceipt_from_account_tx E self tx_context state_changes resources
                         (option_iter validate_call_info @ option_iter execute_call_info) 0)) (\<lambda>tx_receipt.
                  sbind (on_tx_state (PostExecutionReport_new E R tx_context tx_receipt charge_fee)) (\<lambda>post_execution_report.
                    case report_error post_execution_report of
                      Some error \<Rightarrow> slift (Err (TxFeeCheckError error))
                    | None \<Rightarrow> sret (new_accepted validate_call_info execute_call_info tx_receipt)))))))"

text \<open>
  \<open>check_execution\<close> is the receipt and the post-execution report of an execution that succeeded,
  \<open>execute_or_revert\<close> the rest of \<open>run_revertible\<close> from the creation of the nested state on.
\<close>

definition check_execution ::
    "'a Externals_scheme \<Rightarrow> 's StateReader \<Rightarrow> AccountTransaction \<Rightarrow> TransactionContext \<Rightarrow> StateChanges \<Rightarrow> ExecutionResources
      \<Rightarrow> CallInfo list \<Rightarrow> bool \<Rightarrow> ('s CachedState, TransactionExecutionError, TransactionReceipt \<times> FeeCheckReport) action" where
  "check_execution E R self tx_context validate_state_changes execution_resources call_infos charge_fee =
     sbind (smap_err TxStateError (get_actual_state_changes R)) (\<lambda>execution_state_changes.
       sbind (slift (TransactionReceipt_from_account_tx E self tx_context
                (StateChanges_merge [validate_state_changes, execution_state_changes])
                execution_resources call_infos 0)) (\<lambda>tx_receipt.
         sbind (PostExecutionReport_new E R tx_context tx_receipt charge_fee) (\<lambda>post_execution_report.
           sret (tx_receipt, post_execution_report))))"

definition catch_unwound :: "('e, 'b) result \<Rightarrow> ('f, unit) result" where
  "catch_unwound r = (case r of Panic p \<Rightarrow> Panic p | _ \<Rightarrow> Ok ())"

definition execute_or_revert ::
    "'t ErrorTexts_scheme \<Rightarrow> 'a Externals_scheme \<Rightarrow> 'm VmApi \<Rightarrow> 's StateReader \<Rightarrow> AccountTransaction \<Rightarrow> TransactionContext
      \<Rightarrow> EntryPointExecutionContext \<Rightarrow> usize \<Rightarrow> CallInfo option \<Rightarrow> StateChanges \<Rightarrow> bool
      \<Rightarrow> ('s StageState, TransactionExecutionError, ValidateExecuteCallInfo) action" where
  "execute_or_revert T E V R self tx_context execution_context n_allotted_execution_steps validate_call_info
       validate_state_changes charge_fee =
     (\<lambda>((state, resources), remaining_gas).
        case AccountTransaction_run_execute E V R self
               ((create_transactional state, resources, execution_context), remaining_gas) of
          (execution_result, ((execution_state, execution_resources, execution_context'), remaining_gas')) \<Rightarrow>
            (let finish = (\<lambda>r state'. (r, ((state', resources), remaining_gas')));
                 revert_cost_result =
                   rbind (catch_unwound execution_result) (\<lambda>_.
                     rbind (n_remaining_steps execution_context') (\<lambda>n_remaining.
                       TransactionReceipt_from_account_tx E self tx_context validate_state_changes resources
                         (option_iter validate_call_info) (n_allotted_execution_steps - n_remaining)));
                 reverted = (\<lambda>error revert_cost report.
                   rbind (TransactionExecutionError_to_string T error) (\<lambda>shown.
                     Ok (new_reverted validate_call_info shown (revert_cost\<lparr>receipt_fee := recommended_fee report\<rparr>))))
             in case revert_cost_result of
                  Err e \<Rightarrow> finish (Err e) (abort execution_state)
                | Panic p \<Rightarrow> finish (Panic p) (abort execution_state)
                | Ok revert_cost \<Rightarrow>
                    (case execution_result of
                       Ok execute_call_info \<Rightarrow>
                         (case check_execution E R self tx_context validate_state_changes execution_resources
                                 (option_iter validate_call_info @ option_iter execute_call_info) charge_fee execution_state of
                            (Ok (tx_receipt, report), execution_state') \<Rightarrow>
                              (case report_error report of
                                 Some post_execution_error \<Rightarrow>
                                   finish (reverted (TxFeeCheckError post_execution_error) revert_cost report)
                                     (abort execution_state')
                               | None \<Rightarrow>
                                   finish (Ok (new_accepted validate_call_info execute_call_info tx_receipt))
                                     (commit execution_state'))
                          | (Err e, execution_state') \<Rightarrow> finish (Err e) (abort execution_state')
                          | (Panic p, execution_state') \<Rightarrow> finish (Panic p) (abort execution_state'))
                     | Err execution_error \<Rightarrow>
                         (case PostExecutionReport_new E R tx_context revert_cost charge_fee (abort execution_state) of
                            (r, state') \<Rightarrow> finish (rbind r (reverted execution_error revert_cost)) state')
                     | Panic p \<Rightarrow> finish (Panic p) (abort execution_state))))"

definition run_revertible ::
    "'t ErrorTexts_scheme \<Rightarrow> 'a Externals_scheme \<Rightarrow> 'm VmApi \<Rightarrow> 's StateReader \<Rightarrow> AccountTransaction \<Rightarrow> TransactionContext
      \<Rightarrow> bool \<Rightarrow> bool \<Rightarrow> ('s CachedState \<times> u64, TransactionExecutionError, ValidateExecuteCallInfo) action" where
  "run_revertible T E V R self tx_context validate charge_fee =
     with_new_resources
       (sbind (slift (new_invoke E tx_context charge_fee)) (\<lambda>execution_context.
         sbind (handle_validate_tx E V R self tx_context validate charge_fee) (\<lambda>validate_call_info.
           case subtract_validation_and_overhead_steps E validate_call_info (tx_type self) (calldata_length self)
                  execution_context of
             (steps, execution_context') \<Rightarrow>
               sbind (slift steps) (\<lambda>n_allotted_execution_steps.
                 sbind (on_tx_state (smap_err TxStateError (get_actual_state_changes R))) (\<lambda>validate_state_changes.
                   execute_or_revert T E V R self tx_context execution_context' n_allotted_execution_steps
                     validate_call_info validate_state_changes charge_fee)))))"

definition run_or_revert ::
    "'t ErrorTexts_scheme \<Rightarrow> 'a Externals_scheme \<Rightarrow> 'm VmApi \<Rightarrow> 's StateReader \<Rightarrow> AccountTransaction \<Rightarrow> TransactionContext
      \<Rightarrow> bool \<Rightarrow> bool \<Rightarrow> ('s CachedState \<times> u64, TransactionExecutionError, ValidateExecuteCallInfo) action" where
  "run_or_revert T E V R self tx_context validate charge_fee =
     (if is_non_revertible self (tx_info tx_context)
      then run_non_revertible E V R self tx_context validate charge_fee
      else run_revertible T E V R self tx_context validate charge_fee)"

definition with_initial_gas :: "u64 \<Rightarrow> ('s CachedState \<times> u64, 'e, 'b) action \<Rightarrow> ('s CachedState, 'e, 'b) action" where
  "with_initial_gas gas act = (\<lambda>state. case act (state, gas) of (r, (state', _)) \<Rightarrow> (r, state'))"

definition AccountTransaction_execute_raw ::
    "'t ErrorTexts_scheme \<Rightarrow> 'a Externals_scheme \<Rightarrow> 'm VmApi \<Rightarrow> 's StateReader \<Rightarrow> AccountTransaction \<Rightarrow> BlockContext \<Rightarrow> bool \<Rightarrow> bool
      \<Rightarrow> ('s CachedState, TransactionExecutionError, TransactionExecutionInfo) action" where
  "AccountTransaction_execute_raw T E V R self context charge_fee validate =
     (let tx_context = to_tx_context context (AccountTransaction_create_tx_info self);
          strict_nonce_check = True
      in sbind (slift (verify_tx_version self (ti_version (tx_info tx_context)))) (\<lambda>_.
           sbind (smap_err TxPreValidationError
                    (perform_pre_validation_stage E R self tx_context charge_fee strict_nonce_check)) (\<lambda>_.
             sbind (with_initial_gas (tx_initial_gas (versioned_constants context))
                      (run_or_revert T E V R self tx_context validate charge_fee)) (\<lambda>info.
               sbind (handle_fee E V R tx_context (receipt_fee (vec_final_cost info)) charge_fee) (\<lambda>fee_transfer_call_info.
                 sret
                   \<lparr>tei_validate_call_info = vec_validate_call_info info,
                    tei_execute_call_info = vec_execute_call_info info,
                    tei_fee_transfer_call_info = fee_transfer_call_info,
                    tei_actual_fee = receipt_fee (vec_final_cost info),
                    tei_da_gas = receipt_da_gas (vec_final_cost info),
                    tei_actual_resources = receipt_resources (vec_final_cost info),
                    tei_revert_error = vec_revert_error info\<rparr>)))))"

section \<open>L1 handlers and transactions\<close>

definition L1HandlerTransaction_execute_raw ::
    "'a Externals_scheme \<Rightarrow> 'm VmApi \<Rightarrow> 's StateReader \<Rightarrow> L1HandlerTransaction \<Rightarrow> BlockContext
      \<Rightarrow> ('s CachedState, TransactionExecutionError, TransactionExecutionInfo) action" where
  "L1HandlerTransaction_execute_raw E V R self context =
     (let tx_context = to_tx_context context (L1HandlerTransaction_create_tx_info self) in
      with_initial_gas (tx_initial_gas (versioned_constants context)) (with_new_resources
        (sbind (slift (new_invoke E tx_context True)) (\<lambda>execution_context.
          sbind (in_context execution_context (L1HandlerTransaction_run_execute E V R self)) (\<lambda>execute_call_info.
            sbind (on_tx_state (smap_err TxStateError (get_actual_state_changes R))) (\<lambda>state_changes.
              with_resources (\<lambda>execution_resources.
                sbind (slift (TransactionReceipt_from_l1_handler E tx_context (payload_size self)
                         (option_iter execute_call_info) state_changes execution_resources)) (\<lambda>receipt.
                  if l1_paid_fee_on_l1 self = 0
                  then slift (Err (TxFeeError (InsufficientL1Fee (l1_paid_fee_on_l1 self) (receipt_fee receipt))))
                  else
                    sret
                      \<lparr>tei_validate_call_info = None,
                       tei_execute_call_info = execute_call_info,
                       tei_fee_transfer_call_info = None,
                       tei_actual_fee = 0,
                       tei_da_gas = receipt_da_gas receipt,
                       tei_actual_resources = receipt_resources receipt,
                       tei_revert_error = None\<rparr>))))))))"

definition Transaction_execute_raw ::
    "'t ErrorTexts_scheme \<Rightarrow> 'a Externals_scheme \<Rightarrow> 'm VmApi \<Rightarrow> 's StateReader \<Rightarrow> Transaction \<Rightarrow> BlockContext \<Rightarrow> bool \<Rightarrow> bool
      \<Rightarrow> ('s CachedState, TransactionExecutionError, TransactionExecutionInfo) action" where
  "Transaction_execute_raw T E V R self context charge_fee validate =
     (case self of
        AccountTx account_tx \<Rightarrow> AccountTransaction_execute_raw T E V R account_tx context charge_fee validate
      | L1HandlerTx tx \<Rightarrow> L1HandlerTransaction_execute_raw E V R tx context)"

text \<open>The provided method of the trait \<open>ExecutableTransaction\<close>, given \<open>execute_raw\<close>.\<close>

definition ExecutableTransaction_execute ::
    "('s CachedState, TransactionExecutionError, TransactionExecutionInfo) action
      \<Rightarrow> ('s CachedState, TransactionExecutionError, TransactionExecutionInfo) action" where
  "ExecutableTransaction_execute execute_raw =
     (\<lambda>state.
        case execute_raw (create_transactional state) of
          (Ok info, transactional_state) \<Rightarrow> (Ok info, commit transactional_state)
        | (Err error, transactional_state) \<Rightarrow> (Err error, abort transactional_state)
        | (Panic p, transactional_state) \<Rightarrow> (Panic p, abort transactional_state))"

definition Transaction_execute ::
    "'t ErrorTexts_scheme \<Rightarrow> 'a Externals_scheme \<Rightarrow> 'm VmApi \<Rightarrow> 's StateReader \<Rightarrow> Transaction \<Rightarrow> BlockContext \<Rightarrow> bool \<Rightarrow> bool
      \<Rightarrow> ('s CachedState, TransactionExecutionError, TransactionExecutionInfo) action" where
  "Transaction_execute T E V R self context charge_fee validate =
     ExecutableTransaction_execute (Transaction_execute_raw T E V R self context charge_fee validate)"

end
