(* ===== verification/Transaction_Executor.thy ===== *)
theory Transaction_Executor
  imports Account_Transactions
begin

text \<open>
  The executor of the transactions of a block (\<open>blockifier/transaction_executor.rs\<close>,
  \<open>blockifier/config.rs\<close>) and the validator of a gateway (\<open>blockifier/stateful_validator.rs\<close>). The
  execution of a chunk by several workers is a \<open>todo!()\<close> in the source and panics here.
\<close>

section \<open>The transaction executor\<close>

record ConcurrencyConfig =
  cc_enabled :: bool
  cc_n_workers :: usize
  cc_chunk_size :: usize

record TransactionExecutorConfig =
  tec_concurrency_config :: ConcurrencyConfig

definition TransactionExecutorConfig_default :: TransactionExecutorConfig where
  "TransactionExecutorConfig_default =
     \<lparr>tec_concurrency_config = \<lparr>cc_enabled = False, cc_n_workers = 0, cc_chunk_size = 0\<rparr>\<rparr>"

record 's TransactionExecutor =
  te_block_context :: BlockContext
  te_bouncer :: Bouncer
  te_config :: TransactionExecutorConfig
  te_state :: "'s CachedState"

definition TransactionExecutor_new ::
    "'s CachedState \<Rightarrow> BlockContext \<Rightarrow> BouncerConfig \<Rightarrow> TransactionExecutorConfig \<Rightarrow> 's TransactionExecutor" where
  "TransactionExecutor_new state context bouncer_config config =
     \<lparr>te_block_context = context, te_bouncer = Bouncer_new bouncer_config, te_config = config, te_state = state\<rparr>"

definition on_te_state ::
    "('s CachedState, 'e, 'b) action \<Rightarrow> ('s TransactionExecutor, 'e, 'b) action" where
  "on_te_state act = (\<lambda>self. case act (te_state self) of (r, state) \<Rightarrow> (r, self\<lparr>te_state := state\<rparr>))"

definition TransactionExecutor_execute ::
    "'t ErrorTexts_scheme \<Rightarrow> 'a Externals_scheme \<Rightarrow> 'm VmApi \<Rightarrow> 's StateReader \<Rightarrow> Transaction \<Rightarrow> bool
      \<Rightarrow> ('s TransactionExecutor, TransactionExecutorError, TransactionExecutionInfo) action" where
  "TransactionExecutor_execute T E V R tx charge_fee =
     (\<lambda>self.
        let validate = True in
        case Transaction_execute_raw T E V R tx (te_block_context self) charge_fee validate
               (create_transactional (te_state self)) of
          (Ok tx_execution_info, transactional_state) \<Rightarrow>
            (case TransactionExecutionInfo_summarize tx_execution_info of
               Ok summary \<Rightarrow>
                 (case try_update E R summary (tei_actual_resources tx_execution_info)
                         (te_bouncer self, transactional_state) of
                    (Ok (), (bouncer, transactional_state')) \<Rightarrow>
                      (Ok tx_execution_info, self\<lparr>te_bouncer := bouncer, te_state := commit transactional_state'\<rparr>)
                  | (Err e, (bouncer, transactional_state')) \<Rightarrow>
                      (Err e, self\<lparr>te_bouncer := bouncer, te_state := abort transactional_state'\<rparr>)
                  | (Panic p, (bouncer, transactional_state')) \<Rightarrow>
                      (Panic p, self\<lparr>te_bouncer := bouncer, te_state := abort transactional_state'\<rparr>))
             | Err _ \<Rightarrow> (Panic ''summarize does not fail'', self\<lparr>te_state := abort transactional_state\<rparr>)
             | Panic p \<Rightarrow> (Panic p, self\<lparr>te_state := abort transactional_state\<rparr>))
        | (Err error, transactional_state) \<Rightarrow>
            (Err (ExecutorTransactionError error), self\<lparr>te_state := abort transactional_state\<rparr>)
        | (Panic p, transactional_state) \<Rightarrow> (Panic p, self\<lparr>te_state := abort transactional_state\<rparr>))"

text \<open>The results of the executed transactions, in order; a full block ends the loop.\<close>

fun execute_txs_sequentially ::
    "'t ErrorTexts_scheme \<Rightarrow> 'a Externals_scheme \<Rightarrow> 'm VmApi \<Rightarrow> 's StateReader \<Rightarrow> Transaction list \<Rightarrow> bool
      \<Rightarrow> ('s TransactionExecutor, unit, (TransactionExecutorError, TransactionExecutionInfo) result list) action" where
  "execute_txs_sequentially T E V R [] charge_fee self = (Ok [], self)"
| "execute_txs_sequentially T E V R (tx # txs) charge_fee self =
     (case TransactionExecutor_execute T E V R tx charge_fee self of
        (Err BlockFull, self') \<Rightarrow> (Ok [], self')
      | (Panic p, self') \<Rightarrow> (Panic p, self')
      | (result, self') \<Rightarrow>
          (case execute_txs_sequentially T E V R txs charge_fee self' of
             (Ok results, self'') \<Rightarrow> (Ok (result # results), self'')
           | (other, self'') \<Rightarrow> (other, self'')))"

definition execute_chunk ::
    "Transaction list \<Rightarrow> bool
      \<Rightarrow> ('s TransactionExecutor, unit, (TransactionExecutorError, TransactionExecutionInfo) result list) action" where
  "execute_chunk chunk charge_fee = slift (Panic ''not yet implemented'')"

fun execute_chunks ::
    "Transaction list list \<Rightarrow> bool
      \<Rightarrow> ('s TransactionExecutor, unit, (TransactionExecutorError, TransactionExecutionInfo) result list) action" where
  "execute_chunks [] charge_fee = sret []"
| "execute_chunks (chunk # chunks) charge_fee =
     sbind (execute_chunk chunk charge_fee) (\<lambda>chunk_results.
       if length chunk_results < length chunk then sret chunk_results
       else sbind (execute_chunks chunks charge_fee) (\<lambda>results. sret (chunk_results @ results)))"

function chunks_of :: "nat \<Rightarrow> 'b list \<Rightarrow> 'b list list" where
  "chunks_of n xs = (if n = 0 \<or> xs = [] then [] else take n xs # chunks_of n (drop n xs))"
  by auto

termination chunks_of
  by (relation "measure (\<lambda>(n, xs). length xs)") auto

declare chunks_of.simps [simp del]

definition execute_txs ::
    "'t ErrorTexts_scheme \<Rightarrow> 'a Externals_scheme \<Rightarrow> 'm VmApi \<Rightarrow> 's StateReader \<Rightarrow> Transaction list \<Rightarrow> bool
      \<Rightarrow> ('s TransactionExecutor, unit, (TransactionExecutorError, TransactionExecutionInfo) result list) action" where
  "execute_txs T E V R txs charge_fee =
     (\<lambda>self.
        let config = tec_concurrency_config (te_config self) in
        if \<not> cc_enabled config then execute_txs_sequentially T E V R txs charge_fee self
        else if cc_chunk_size config = 0 then (Panic ''chunk size must be non-zero'', self)
        else execute_chunks (chunks_of (unat (cc_chunk_size config)) txs) charge_fee self)"

definition TransactionExecutor_validate ::
    "'a Externals_scheme \<Rightarrow> 'm VmApi \<Rightarrow> 's StateReader \<Rightarrow> AccountTransaction \<Rightarrow> u64
      \<Rightarrow> ('s TransactionExecutor, TransactionExecutorError, CallInfo option \<times> TransactionReceipt) action" where
  "TransactionExecutor_validate E V R account_tx remaining_gas =
     (\<lambda>self.
        let tx_context = to_tx_context (te_block_context self) (AccountTransaction_create_tx_info account_tx);
            limit_steps_by_resources = True
        in on_te_state
             (sbind (smap_err ExecutorStateError (increment_nonce R (ti_sender_address (tx_info tx_context)))) (\<lambda>_.
               smap_err ExecutorTransactionError
                 (with_initial_gas remaining_gas (with_new_resources
                   (sbind (validate_tx E V R account_tx tx_context limit_steps_by_resources) (\<lambda>validate_call_info.
                     sbind (on_tx_state (smap_err TxStateError (get_actual_state_changes R))) (\<lambda>state_changes.
                       with_resources (\<lambda>execution_resources.
                         sbind (slift (TransactionReceipt_from_account_tx E account_tx tx_context state_changes
                                  execution_resources (option_iter validate_call_info) 0)) (\<lambda>tx_receipt.
                           sret (validate_call_info, tx_receipt))))))))))
             self)"

text \<open>The visited segments of each class that ran, and the state diff.\<close>

fun collect_visited_segments ::
    "'s StateReader \<Rightarrow> (ClassHash \<times> usize HashSet) list
      \<Rightarrow> ('s CachedState, TransactionExecutorError, (ClassHash \<times> usize list) list) action" where
  "collect_visited_segments R [] = sret []"
| "collect_visited_segments R ((class_hash, class_visited_pcs) # rest) =
     sbind (smap_err ExecutorStateError (get_compiled_contract_class R class_hash)) (\<lambda>contract_class.
       sbind (slift (map_err ExecutorTransactionError (class_get_visited_segments contract_class class_visited_pcs)))
         (\<lambda>segments.
           sbind (collect_visited_segments R rest) (\<lambda>others. sret ((class_hash, segments) # others))))"

definition finalize ::
    "'s StateReader
      \<Rightarrow> ('s TransactionExecutor, TransactionExecutorError, CommitmentStateDiff \<times> (ClassHash \<times> usize list) list) action" where
  "finalize R =
     (\<lambda>self. on_te_state
        (sbind (collect_visited_segments R (cs_visited_pcs (te_state self))) (\<lambda>visited_segments.
          sbind (smap_err ExecutorStateError (to_state_diff R)) (\<lambda>state_diff.
            sret (state_diff, visited_segments)))) self)"

section \<open>The stateful validator\<close>

datatype StatefulValidatorError =
    ValidatorStateError StateError
  | ValidatorTransactionError TransactionExecutionError
  | ValidatorExecutorError TransactionExecutorError
  | ValidatorPreValidationError TransactionPreValidationError

record 's StatefulValidator =
  sval_tx_executor :: "'s TransactionExecutor"
  sval_max_nonce_for_validation_skip :: Nonce

definition StatefulValidator_create ::
    "'s CachedState \<Rightarrow> BlockContext \<Rightarrow> Nonce \<Rightarrow> BouncerConfig \<Rightarrow> 's StatefulValidator" where
  "StatefulValidator_create state context max_nonce_for_validation_skip bouncer_config =
     \<lparr>sval_tx_executor = TransactionExecutor_new state context bouncer_config TransactionExecutorConfig_default,
      sval_max_nonce_for_validation_skip = max_nonce_for_validation_skip\<rparr>"

definition on_executor ::
    "('s TransactionExecutor, 'e, 'b) action \<Rightarrow> ('s StatefulValidator, 'e, 'b) action" where
  "on_executor act =
     (\<lambda>self. case act (sval_tx_executor self) of (r, executor) \<Rightarrow> (r, self\<lparr>sval_tx_executor := executor\<rparr>))"

definition StatefulValidator_execute ::
    "'t ErrorTexts_scheme \<Rightarrow> 'a Externals_scheme \<Rightarrow> 'm VmApi \<Rightarrow> 's StateReader \<Rightarrow> AccountTransaction
      \<Rightarrow> ('s StatefulValidator, StatefulValidatorError, unit) action" where
  "StatefulValidator_execute T E V R tx =
     sbind (smap_err ValidatorExecutorError
              (on_executor (TransactionExecutor_execute T E V R (AccountTx tx) True))) (\<lambda>_. sret ())"

definition StatefulValidator_perform_pre_validation_stage ::
    "'a Externals_scheme \<Rightarrow> 's StateReader \<Rightarrow> AccountTransaction \<Rightarrow> TransactionContext
      \<Rightarrow> ('s StatefulValidator, StatefulValidatorError, unit) action" where
  "StatefulValidator_perform_pre_validation_stage E R tx tx_context =
     (let strict_nonce_check = False;
          charge_fee = True
      in smap_err ValidatorPreValidationError
           (on_executor (on_te_state (perform_pre_validation_stage E R tx tx_context charge_fee strict_nonce_check))))"

definition skip_validate_due_to_unprocessed_deploy_account ::
    "'s StateReader \<Rightarrow> TransactionInfo \<Rightarrow> TransactionHash option
      \<Rightarrow> ('s StatefulValidator, StatefulValidatorError, bool) action" where
  "skip_validate_due_to_unprocessed_deploy_account R info deploy_account_tx_hash =
     (\<lambda>self. sbind
        (smap_err ValidatorStateError (on_executor (on_te_state (get_nonce_at R (ti_sender_address info)))))
        (\<lambda>nonce.
          let tx_nonce = ti_nonce info;
              deploy_account_not_processed = (deploy_account_tx_hash \<noteq> None \<and> nonce = 0);
              is_post_deploy_nonce = (1 \<le> tx_nonce);
              nonce_small_enough_to_qualify_for_validation_skip = (tx_nonce \<le> sval_max_nonce_for_validation_skip self)
          in sret (deploy_account_not_processed \<and> is_post_deploy_nonce \<and> nonce_small_enough_to_qualify_for_validation_skip))
        self)"

definition StatefulValidator_validate ::
    "'a Externals_scheme \<Rightarrow> 'm VmApi \<Rightarrow> 's StateReader \<Rightarrow> AccountTransaction \<Rightarrow> u64
      \<Rightarrow> ('s StatefulValidator, StatefulValidatorError, CallInfo option \<times> TransactionReceipt) action" where
  "StatefulValidator_validate E V R tx remaining_gas =
     smap_err ValidatorExecutorError (on_executor (TransactionExecutor_validate E V R tx remaining_gas))"

definition perform_validations ::
    "'t ErrorTexts_scheme \<Rightarrow> 'a Externals_scheme \<Rightarrow> 'm VmApi \<Rightarrow> 's StateReader \<Rightarrow> AccountTransaction \<Rightarrow> TransactionHash option
      \<Rightarrow> ('s StatefulValidator, StatefulValidatorError, unit) action" where
  "perform_validations T E V R tx deploy_account_tx_hash =
     (case tx of
        DeployAccount _ \<Rightarrow> StatefulValidator_execute T E V R tx
      | _ \<Rightarrow>
          (\<lambda>self.
             let tx_context = to_tx_context (te_block_context (sval_tx_executor self)) (AccountTransaction_create_tx_info tx)
             in sbind (skip_validate_due_to_unprocessed_deploy_account R (tx_info tx_context) deploy_account_tx_hash)
                  (\<lambda>skip_validate.
                    sbind (StatefulValidator_perform_pre_validation_stage E R tx tx_context) (\<lambda>_.
                      if skip_validate then sret ()
                      else
                        sbind (StatefulValidator_validate E V R tx
                                 (tx_initial_gas (versioned_constants (block_context tx_context))))
                          (\<lambda>(_, actual_cost).
                            slift (map_err ValidatorTransactionError (PostValidationReport_verify tx_context actual_cost)))))
                  self))"

end
