(* ===== verification/Call_Depth.thy ===== *)
theory Call_Depth
  imports Entry_Point_Execution
begin

text \<open>
  The recursion of the execution layer ends. An execution never changes the transaction context,
  the recursion depth or the mode of its context for its caller, whatever its outcome; inner
  calls run one level deeper, and the guard stops them at the maximal depth. So the executor of
  inner calls matters only one level deeper, and \<open>execute\<close>, which has fuel for every level up to
  the maximal depth, satisfies the recursive equation of the source.
\<close>

section \<open>Agreement of actions\<close>

text \<open>
  \<open>agree P m m'\<close>: on states that satisfy \<open>P\<close> the two actions are the same, and they keep \<open>P\<close>.
\<close>

definition agree :: "('t \<Rightarrow> bool) \<Rightarrow> ('t, 'e, 'a) action \<Rightarrow> ('t, 'e, 'a) action \<Rightarrow> bool" where
  "agree P m m' \<longleftrightarrow> (\<forall>s. P s \<longrightarrow> m s = m' s \<and> P (snd (m' s)))"

definition frame :: "EntryPointExecutionContext \<Rightarrow> TransactionContext \<times> usize \<times> ExecutionMode" where
  "frame context = (epc_tx_context context, epc_current_recursion_depth context, epc_execution_mode context)"

definition exec_at :: "('s CachedState \<Rightarrow> bool) \<Rightarrow> TransactionContext \<times> usize \<times> ExecutionMode \<Rightarrow> 's ExecState \<Rightarrow> bool" where
  "exec_at J F = (\<lambda>(state, _, context). J state \<and> frame context = F)"

definition handler_at ::
    "('s CachedState \<Rightarrow> bool) \<Rightarrow> TransactionContext \<times> usize \<times> ExecutionMode \<Rightarrow> 'm \<times> ('s, 'x) HintProcessorBase_scheme \<Rightarrow> bool" where
  "handler_at J F = (\<lambda>(_, h). J (hp_state h) \<and> frame (hp_context h) = F)"

definition gas_at ::
    "('s CachedState \<Rightarrow> bool) \<Rightarrow> TransactionContext \<times> usize \<times> ExecutionMode \<Rightarrow> ('m \<times> ('s, 'x) HintProcessorBase_scheme) \<times> u64 \<Rightarrow> bool" where
  "gas_at J F = (\<lambda>(s, _). handler_at J F s)"

definition at_frame ::
    "('s CachedState \<Rightarrow> bool) \<Rightarrow> TransactionContext \<times> usize \<times> ExecutionMode \<Rightarrow> ('s, 'x) HintProcessorBase_scheme \<Rightarrow> bool" where
  "at_frame J F h \<longleftrightarrow> J (hp_state h) \<and> frame (hp_context h) = F"

definition same_executor ::
    "('s CachedState \<Rightarrow> bool) \<Rightarrow> TransactionContext \<times> usize \<times> ExecutionMode \<Rightarrow> 's Executor \<Rightarrow> 's Executor \<Rightarrow> bool" where
  "same_executor J F exec exec' \<longleftrightarrow> (\<forall>call. agree (exec_at J F) (exec call) (exec' call))"

named_theorems agree_intros "agreement of composed actions"

lemma agreeD: "agree P m m' \<Longrightarrow> P s \<Longrightarrow> m s = m' s" "agree P m m' \<Longrightarrow> P s \<Longrightarrow> P (snd (m' s))"
  by (auto simp: agree_def)

lemma agree_sret [agree_intros]: "agree P (sret a) (sret a)"
  by (simp add: agree_def)

lemma agree_slift [agree_intros]: "agree P (slift r) (slift r)"
  by (simp add: agree_def)

lemma agree_sbind [agree_intros]:
  assumes "agree P m m'" and "\<And>a. agree P (f a) (f' a)"
  shows "agree P (sbind m f) (sbind m' f')"
  unfolding agree_def
proof (intro allI impI)
  fix s
  assume "P s"
  obtain r t where m: "m s = (r, t)"
    by fastforce
  then have "m' s = (r, t)" and "P t"
    using agreeD [OF assms(1) \<open>P s\<close>] by auto
  then show "sbind m f s = sbind m' f' s \<and> P (snd (sbind m' f' s))"
    using m assms(2) by (cases r) (auto simp: sbind_def agree_def)
qed

lemma agree_smap_err [agree_intros]: "agree P m m' \<Longrightarrow> agree P (smap_err f m) (smap_err f m')"
  by (simp add: agree_def smap_err_def)

lemma agree_with_handler [agree_intros]:
  "(\<And>h. agree P (f h) (f' h)) \<Longrightarrow> agree P (with_handler f) (with_handler f')"
  by (simp add: agree_def with_handler_def)

lemma agree_with_vm [agree_intros]:
  "(\<And>vm. agree P (f vm) (f' vm)) \<Longrightarrow> agree P (with_vm f) (with_vm f')"
  by (simp add: agree_def with_vm_def)

lemma agree_with_gas [agree_intros]:
  "(\<And>g. agree P (f g) (f' g)) \<Longrightarrow> agree P (with_gas f) (with_gas f')"
  by (simp add: agree_def with_gas_def)

lemma agree_with_call_state [agree_intros]:
  "(\<And>vm h g. agree P (f vm h g) (f' vm h g)) \<Longrightarrow> agree P (with_call_state f) (with_call_state f')"
  by (simp add: agree_def with_call_state_def)

lemma agree_with_exec_context [agree_intros]:
  "(\<And>c. agree P (f c) (f' c)) \<Longrightarrow> agree P (with_exec_context f) (with_exec_context f')"
  by (simp add: agree_def with_exec_context_def)

lemma agree_if [agree_intros]:
  "(b \<Longrightarrow> agree P m m') \<Longrightarrow> (\<not> b \<Longrightarrow> agree P n n') \<Longrightarrow> agree P (if b then m else n) (if b then m' else n')"
  by simp

lemma agree_Let [agree_intros]: "agree P (f x) (f' x) \<Longrightarrow> agree P (Let x f) (Let x f')"
  by simp

lemma agree_case_option [agree_intros]:
  "(x = None \<Longrightarrow> agree P m m') \<Longrightarrow> (\<And>a. x = Some a \<Longrightarrow> agree P (f a) (f' a)) \<Longrightarrow>
   agree P (case x of None \<Rightarrow> m | Some a \<Rightarrow> f a) (case x of None \<Rightarrow> m' | Some a \<Rightarrow> f' a)"
  by (cases x) simp_all

lemma agree_case_prod [agree_intros]:
  "(\<And>a b. agree P (f a b) (f' a b)) \<Longrightarrow> agree P (case x of (a, b) \<Rightarrow> f a b) (case x of (a, b) \<Rightarrow> f' a b)"
  by (cases x) simp

lemma agree_case_list [agree_intros]:
  "agree P m m' \<Longrightarrow> (\<And>a as. agree P (f a as) (f' a as)) \<Longrightarrow>
   agree P (case x of [] \<Rightarrow> m | a # as \<Rightarrow> f a as) (case x of [] \<Rightarrow> m' | a # as \<Rightarrow> f' a as)"
  by (cases x) simp_all

lemma agree_case_TransactionInfo [agree_intros]:
  "(\<And>a. agree P (f a) (f' a)) \<Longrightarrow> (\<And>a. agree P (g a) (g' a)) \<Longrightarrow>
   agree P (case x of Current a \<Rightarrow> f a | Deprecated a \<Rightarrow> g a) (case x of Current a \<Rightarrow> f' a | Deprecated a \<Rightarrow> g' a)"
  by (cases x) simp_all

lemma agree_case_ContractClass [agree_intros]:
  "(\<And>a. agree P (f a) (f' a)) \<Longrightarrow> (\<And>a. agree P (g a) (g' a)) \<Longrightarrow>
   agree P (case x of V0 a \<Rightarrow> f a | V1 a \<Rightarrow> g a) (case x of V0 a \<Rightarrow> f' a | V1 a \<Rightarrow> g' a)"
  by (cases x) simp_all

section \<open>Agreement of the borrowed actions\<close>

lemma agree_on_state [agree_intros]: "keeps J act \<Longrightarrow> agree (handler_at J F) (on_state act) (on_state act)"
  by (auto simp: agree_def on_state_def handler_at_def split: prod.splits dest: keeps_run)

lemma agree_reading [agree_intros]: "agree (handler_at J F) (reading r) (reading r)"
  by (auto simp: agree_def reading_def handler_at_def split: prod.splits)

lemma agree_writing [agree_intros]: "agree (handler_at J F) (writing w) (writing w)"
  by (auto simp: agree_def writing_def handler_at_def split: prod.splits)

lemma agree_allocate [agree_intros]: "agree (handler_at J F) (allocate V data) (allocate V data)"
  by (auto simp: agree_def allocate_def handler_at_def split: prod.splits)

lemma agree_on_vm [agree_intros]: "agree (handler_at J F) (on_vm act) (on_vm act)"
  by (auto simp: agree_def on_vm_def handler_at_def split: prod.splits)

lemma agree_modify_handler [agree_intros]:
  "(\<And>h. J (hp_state h) \<Longrightarrow> J (hp_state (f h)) \<and> frame (hp_context (f h)) = frame (hp_context h)) \<Longrightarrow>
   agree (handler_at J F) (modify_handler f) (modify_handler f)"
  by (auto simp: agree_def modify_handler_def handler_at_def)

lemma agree_on_secp256k1 [agree_intros]: "agree (handler_at J F) (on_secp256k1 act) (on_secp256k1 act)"
  by (auto simp: agree_def on_secp256k1_def handler_at_def split: prod.splits)

lemma agree_on_secp256r1 [agree_intros]: "agree (handler_at J F) (on_secp256r1 act) (on_secp256r1 act)"
  by (auto simp: agree_def on_secp256r1_def handler_at_def split: prod.splits)

lemma agree_on_execution [agree_intros]:
  fixes m m' :: "('s ExecState, 'e, 'a) action"
  shows "agree (exec_at J F) m m' \<Longrightarrow> agree (handler_at J F) (on_execution m) (on_execution m')"
  unfolding agree_def
proof (intro allI impI)
  fix s :: "'m \<times> ('s, 'x) HintProcessorBase_scheme"
  assume m: "\<forall>s. exec_at J F s \<longrightarrow> m s = m' s \<and> exec_at J F (snd (m' s))" and at: "handler_at J F s"
  obtain vm h where s: "s = (vm, h)"
    by fastforce
  let ?b = "(hp_state h, hp_resources h, hp_context h)"
  obtain r state resources ctx where run: "m ?b = (r, (state, resources, ctx))"
    by (metis prod.exhaust)
  have "exec_at J F ?b"
    using at by (simp add: s handler_at_def exec_at_def)
  then have eq: "m ?b = m' ?b" and at': "exec_at J F (snd (m' ?b))"
    using m by simp_all
  have run': "m' ?b = (r, (state, resources, ctx))"
    using eq run by simp
  then have "J state \<and> frame ctx = F"
    using at' by (simp add: exec_at_def)
  then show "on_execution m s = on_execution m' s \<and> handler_at J F (snd (on_execution m' s))"
    by (simp add: s on_execution_def handler_at_def run run')
qed

lemma agree_on_cached_state [agree_intros]:
  "keeps J act \<Longrightarrow> agree (exec_at J F) (on_cached_state act) (on_cached_state act)"
  by (auto simp: agree_def on_cached_state_def exec_at_def split: prod.splits dest: keeps_run)

lemma agree_keep_gas [agree_intros]:
  "agree (handler_at J F) m m' \<Longrightarrow> agree (gas_at J F) (keep_gas m) (keep_gas m')"
  by (simp add: agree_def keep_gas_def gas_at_def split: prod.splits) fastforce

lemma agree_set_gas [agree_intros]: "agree (gas_at J F) (set_gas g) (set_gas g)"
  by (auto simp: agree_def set_gas_def gas_at_def)

lemma agree_executor [agree_intros]: "same_executor J F exec exec' \<Longrightarrow> agree (exec_at J F) (exec call) (exec' call)"
  by (simp add: same_executor_def)

lemma frame_updates [simp]:
  "frame (c\<lparr>epc_n_emitted_events := n\<rparr>) = frame c"
  "frame (c\<lparr>epc_n_sent_messages_to_l1 := n\<rparr>) = frame c"
  "frame (c\<lparr>epc_vm_run_resources := r\<rparr>) = frame c"
  by (simp_all add: frame_def)

section \<open>Deployments and syscalls\<close>

text \<open>
  What the execution layer does to a state: it reads it, writes storage, sets the class of a
  contract and records program counters. An invariant of these operations is an invariant of
  every execution.
\<close>

locale state_invariant =
  fixes R :: "'s StateReader"
    and J :: "'s CachedState \<Rightarrow> bool"
  assumes kept_by_reads:
      "keeps J (get_storage_at R a k)" "keeps J (get_class_hash_at R a)" "keeps J (get_compiled_contract_class R c)"
    and kept_by_writes: "keeps J (set_storage_at a k v)" "keeps J (set_class_hash_at a c)"
    and kept_by_visited_pcs: "J state \<Longrightarrow> J (add_visited_pcs c pcs state)"
begin

lemmas state_kept [agree_intros] = kept_by_reads kept_by_writes

lemmas visited_pcs_kept [simp] = kept_by_visited_pcs

lemma agree_execute_deployment [agree_intros]:
  assumes "same_executor J F exec exec'"
  shows "agree (exec_at J F) (execute_deployment E R exec c d g) (execute_deployment E R exec' c d g)"
  unfolding execute_deployment_def execute_constructor_entry_point_def using assms by (intro agree_intros)

lemma agree_push_event [agree_intros]: "agree (handler_at J F) (push_event content) (push_event content)"
  unfolding push_event_def by (intro agree_intros) simp

lemma agree_push_message [agree_intros]: "agree (handler_at J F) (push_message m) (push_message m)"
  unfolding push_message_def by (intro agree_intros) simp

lemma agree_push_inner_call [agree_intros]: "agree (handler_at J F) (push_inner_call c) (push_inner_call c)"
  unfolding push_inner_call_def by (intro agree_intros) simp

lemma agree_increment_syscall_count_by [agree_intros]:
  "agree (handler_at J F) (increment_syscall_count_by selector n) (increment_syscall_count_by selector n)"
  unfolding increment_syscall_count_by_def by (intro agree_intros) simp

lemma agree_storage [agree_intros]:
  "agree (handler_at J F) (read_contract_storage R a k) (read_contract_storage R a k)"
  "agree (handler_at J F) (write_contract_storage a k v) (write_contract_storage a k v)"
  unfolding read_contract_storage_def write_contract_storage_def by (intro agree_intros; simp)+

lemma agree_allocate_data_segment [agree_intros]:
  "agree (handler_at J F) (allocate_data_segment V data) (allocate_data_segment V data)"
  unfolding allocate_data_segment_def by (intro agree_intros)

lemma agree_create_retdata_segment [agree_intros]:
  "agree (handler_at J F) (create_retdata_segment V data) (create_retdata_segment V data)"
  unfolding create_retdata_segment_def by (intro agree_intros)

lemma agree_get_execution_info [agree_intros]:
  "agree (handler_at J F) (get_execution_info V q) (get_execution_info V q)"
  unfolding get_execution_info_def get_or_allocate_execution_info_segment_def
    allocate_execution_info_segment_def allocate_block_info_segment_def allocate_tx_info_segment_def
    allocate_tx_resource_bounds_segment_def
  by (intro agree_intros) simp_all

lemma agree_execute_inner_call [agree_intros]:
  assumes "same_executor J F exec exec'"
  shows "agree (gas_at J F) (execute_inner_call V exec call) (execute_inner_call V exec' call)"
  unfolding execute_inner_call_def using assms by (intro agree_intros)

lemma agree_calls [agree_intros]:
  assumes "same_executor J F exec exec'"
  shows "agree (gas_at J F) (call_contract V R exec q) (call_contract V R exec' q)"
    and "agree (gas_at J F) (library_call V exec p) (library_call V exec' p)"
    and "agree (gas_at J F) (library_call_l1_handler V exec p) (library_call_l1_handler V exec' p)"
    and "agree (gas_at J F) (deploy E V R exec r) (deploy E V R exec' r)"
  unfolding call_contract_def library_call_def library_call_l1_handler_def execute_library_call_def deploy_def
  by (intro agree_intros assms)+

lemma agree_keccak [agree_intros]: "agree (gas_at J F) (keccak V q) (keccak V q)"
  unfolding keccak_def by (intro agree_intros)

lemma agree_simple_syscalls [agree_intros]:
  "agree (handler_at J F) (emit_event e) (emit_event e)"
  "agree (handler_at J F) (get_block_hash E R n) (get_block_hash E R n)"
  "agree (handler_at J F) (replace_class R c) (replace_class R c)"
  "agree (handler_at J F) (send_message_to_l1 m) (send_message_to_l1 m)"
  "agree (handler_at J F) (storage_read R q) (storage_read R q)"
  "agree (handler_at J F) (storage_write p) (storage_write p)"
  unfolding emit_event_def get_block_hash_def replace_class_def send_message_to_l1_def storage_read_def
    storage_write_def by (intro agree_intros)+

lemma agree_secp [agree_intros]:
  "agree (handler_at J F) (secp256k1_add V a) (secp256k1_add V a)"
  "agree (handler_at J F) (secp256r1_add V a) (secp256r1_add V a)"
  "agree (handler_at J F) (secp256k1_get_point_from_x V b) (secp256k1_get_point_from_x V b)"
  "agree (handler_at J F) (secp256r1_get_point_from_x V b) (secp256r1_get_point_from_x V b)"
  "agree (handler_at J F) (secp256k1_get_xy c) (secp256k1_get_xy c)"
  "agree (handler_at J F) (secp256r1_get_xy c) (secp256r1_get_xy c)"
  "agree (handler_at J F) (secp256k1_mul V d) (secp256k1_mul V d)"
  "agree (handler_at J F) (secp256r1_mul V d) (secp256r1_mul V d)"
  "agree (handler_at J F) (secp256k1_new V e) (secp256k1_new V e)"
  "agree (handler_at J F) (secp256r1_new V e) (secp256r1_new V e)"
  unfolding secp256k1_add_def secp256r1_add_def secp256k1_get_point_from_x_def secp256r1_get_point_from_x_def
    secp256k1_get_xy_def secp256r1_get_xy_def secp256k1_mul_def secp256r1_mul_def secp256k1_new_def
    secp256r1_new_def by (intro agree_intros)+

lemma handler_at_respond:
  "handler_at J F s \<Longrightarrow> handler_at J F (snd (respond V w (r, (s, g))))"
  by (cases r; cases "case r of Err e \<Rightarrow> e")
    (simp_all add: respond_def agreeD(2) [OF agree_writing] split: SyscallExecutionError.splits)

lemma agree_respond:
  fixes cb cb' :: "'q \<Rightarrow> ('m, 's, 'r) gas_syscall"
  assumes "agree (gas_at J F) (cb q) (cb' q)"
  shows "agree (handler_at J F) (\<lambda>s. respond V w (cb q (s, g))) (\<lambda>s. respond V w (cb' q (s, g)))"
  unfolding agree_def
proof (intro allI impI)
  fix s :: "'m \<times> 's SyscallHintProcessor"
  assume "handler_at J F s"
  then have eq: "cb q (s, g) = cb' q (s, g)" and at': "gas_at J F (snd (cb' q (s, g)))"
    using agreeD [OF assms, of "(s, g)"] by (simp_all add: gas_at_def)
  obtain r s' g' where run: "cb' q (s, g) = (r, (s', g'))"
    by (metis prod.exhaust)
  then have "handler_at J F s'"
    using at' by (simp add: gas_at_def)
  then show "respond V w (cb q (s, g)) = respond V w (cb' q (s, g))
      \<and> handler_at J F (snd (respond V w (cb' q (s, g))))"
    by (simp add: eq run handler_at_respond)
qed

lemma agree_execute_syscall [agree_intros]:
  assumes "\<And>q. agree (gas_at J F) (cb q) (cb' q)"
  shows "agree (handler_at J F) (execute_syscall V r cb w cost) (execute_syscall V r cb' w cost)"
  unfolding execute_syscall_def by (intro agree_intros agree_respond assms)

lemma agree_dispatch_syscall [agree_intros]:
  assumes "same_executor J F exec exec'"
  shows "agree (handler_at J F) (dispatch_syscall E V R exec selector) (dispatch_syscall E V R exec' selector)"
  by (cases selector) (simp_all add: dispatch_syscall_def, (intro agree_intros assms)+)

lemma agree_execute_hint [agree_intros]:
  assumes "same_executor J F exec exec'"
  shows "agree (handler_at J F) (execute_hint E V R exec d c) (execute_hint E V R exec' d c)"
proof -
  have "agree (handler_at J F) (execute_next_syscall E V R exec hint) (execute_next_syscall E V R exec' hint)" for hint
    unfolding execute_next_syscall_def verify_syscall_ptr_def increment_syscall_count_def
    by (cases hint) (simp_all, (intro agree_intros assms)+)
  then show ?thesis
    unfolding execute_hint_def by (auto intro: agree_intros split: HintData.splits Hint.splits)
qed

section \<open>Deprecated syscalls\<close>

lemma agree_dep_inner_calls [agree_intros]:
  assumes "same_executor J F exec exec'"
  shows "agree (handler_at J F) (dep_execute_inner_call V exec call) (dep_execute_inner_call V exec' call)"
  unfolding dep_execute_inner_call_def by (intro agree_intros assms)

lemma agree_dep_library_call [agree_intros]:
  assumes "same_executor J F exec exec'"
  shows "agree (handler_at J F) (dep_execute_library_call V exec k a b s d) (dep_execute_library_call V exec' k a b s d)"
  unfolding dep_execute_library_call_def by (intro agree_intros assms)

lemma agree_dep_calls [agree_intros]:
  assumes "same_executor J F exec exec'"
  shows "agree (handler_at J F) (dep_call_contract V R exec q) (dep_call_contract V R exec' q)"
    and "agree (handler_at J F) (delegate_call V R exec q) (delegate_call V R exec' q)"
    and "agree (handler_at J F) (delegate_l1_handler V R exec q) (delegate_l1_handler V R exec' q)"
    and "agree (handler_at J F) (dep_library_call V exec p) (dep_library_call V exec' p)"
    and "agree (handler_at J F) (dep_library_call_l1_handler V exec p) (dep_library_call_l1_handler V exec' p)"
    and "agree (handler_at J F) (dep_deploy E R exec r) (dep_deploy E R exec' r)"
  unfolding dep_call_contract_def delegate_call_def delegate_l1_handler_def dep_library_call_def
    dep_library_call_l1_handler_def dep_deploy_def
  by (intro agree_intros assms)+

lemma agree_tx_signature_segment [agree_intros]:
  "agree (handler_at J F) (get_or_allocate_tx_signature_segment V) (get_or_allocate_tx_signature_segment V)"
  unfolding get_or_allocate_tx_signature_segment_def allocate_tx_signature_segment_def
  by (intro agree_intros) simp

lemma agree_dep_simple_syscalls [agree_intros]:
  "agree (handler_at J F) (dep_emit_event e) (dep_emit_event e)"
  "agree (handler_at J F) (get_block_number u) (get_block_number u)"
  "agree (handler_at J F) (get_block_timestamp u) (get_block_timestamp u)"
  "agree (handler_at J F) (get_caller_address u) (get_caller_address u)"
  "agree (handler_at J F) (get_contract_address u) (get_contract_address u)"
  "agree (handler_at J F) (get_sequencer_address u) (get_sequencer_address u)"
  "agree (handler_at J F) (get_tx_info V u) (get_tx_info V u)"
  "agree (handler_at J F) (get_tx_signature V u) (get_tx_signature V u)"
  "agree (handler_at J F) (dep_replace_class R c) (dep_replace_class R c)"
  "agree (handler_at J F) (dep_send_message_to_l1 m) (dep_send_message_to_l1 m)"
  "agree (handler_at J F) (dep_storage_read R k) (dep_storage_read R k)"
  "agree (handler_at J F) (dep_storage_write w) (dep_storage_write w)"
  unfolding dep_emit_event_def get_block_number_def get_block_timestamp_def get_caller_address_def
    get_contract_address_def get_sequencer_address_def get_tx_info_def get_tx_signature_def
    dep_replace_class_def dep_send_message_to_l1_def dep_storage_read_def dep_storage_write_def
    verify_not_in_validate_mode_def get_or_allocate_tx_info_start_ptr_def dep_allocate_tx_info_segment_def
  by (intro agree_intros; simp)+

lemma agree_dep_execute_syscall [agree_intros]:
  assumes "\<And>q. agree (handler_at J F) (cb q) (cb' q)"
  shows "agree (handler_at J F) (dep_execute_syscall r cb w) (dep_execute_syscall r cb' w)"
  unfolding dep_execute_syscall_def by (intro agree_intros assms)

lemma agree_dep_dispatch_syscall [agree_intros]:
  assumes "same_executor J F exec exec'"
  shows "agree (handler_at J F) (dep_dispatch_syscall E V R exec selector) (dep_dispatch_syscall E V R exec' selector)"
  by (cases selector) (simp_all add: dep_dispatch_syscall_def, (intro agree_intros assms)+)

lemma agree_dep_execute_hint [agree_intros]:
  assumes "same_executor J F exec exec'"
  shows "agree (handler_at J F) (dep_execute_hint E V R exec d c) (dep_execute_hint E V R exec' d c)"
proof -
  have "agree (handler_at J F) (dep_execute_next_syscall E V R exec n) (dep_execute_next_syscall E V R exec' n)" for n
    unfolding dep_execute_next_syscall_def dep_verify_syscall_ptr_def increment_syscall_count_def
    by (intro agree_intros assms)
  then show ?thesis
    unfolding dep_execute_hint_def by (auto intro: agree_intros split: HintData.splits)
qed

section \<open>Runs\<close>

text \<open>A run of the VM, of either handler: it agrees where its hints do.\<close>

lemma agree_run_vm:
  fixes hint hint' :: "HintData \<Rightarrow> (string, StarkFelt) HashMap \<Rightarrow>
    ('m \<times> ('s, 'x) HintProcessorBase_scheme, HintError, unit) action"
  assumes "\<And>d c. agree (handler_at J F) (hint d c) (hint' d c)"
  shows "agree (at_frame J F) (run_vm hint (consumed V) (consume_step V) run)
    (run_vm hint' (consumed V) (consume_step V) run)"
proof (induction run)
  case (RunHint d c vm on_error k)
  show ?case
    unfolding agree_def
  proof (intro allI impI)
    fix h :: "('s, 'x) HintProcessorBase_scheme"
    assume "at_frame J F h"
    then have at: "handler_at J F (vm, h)"
      by (simp add: at_frame_def handler_at_def)
    obtain r vm' h' where run: "hint' d c (vm, h) = (r, (vm', h'))"
      by (metis prod.exhaust)
    have "hint d c (vm, h) = (r, (vm', h'))" and h': "at_frame J F h'"
      using agreeD [OF assms at, of d c] run by (simp_all add: handler_at_def at_frame_def)
    then show "run_vm hint (consumed V) (consume_step V) (RunHint d c vm on_error k) h =
        run_vm hint' (consumed V) (consume_step V) (RunHint d c vm on_error k) h \<and>
      at_frame J F (snd (run_vm hint' (consumed V) (consume_step V) (RunHint d c vm on_error k) h))"
      using RunHint.IH [of "k vm'"] run by (cases r) (simp_all add: agree_def)
  qed
qed (simp_all add: agree_def consume_step_def at_frame_def)

lemma agree_run_then:
  fixes go go' :: "'m VmRun \<Rightarrow> (('s, 'x) HintProcessorBase_scheme, CairoRunError, 'm) action"
  assumes "\<And>run. agree (at_frame J F) (go run) (go' run)"
  shows "agree (handler_at J F)
    (\<lambda>(vm, h). case go (start vm h) h of
       (Ok vm', h') \<Rightarrow> (Ok (), (vm', h'))
     | (Err e, h') \<Rightarrow> (Err (from_cairo_run_error e), (vm, h'))
     | (Panic p, h') \<Rightarrow> (Panic p, (vm, h')))
    (\<lambda>(vm, h). case go' (start vm h) h of
       (Ok vm', h') \<Rightarrow> (Ok (), (vm', h'))
     | (Err e, h') \<Rightarrow> (Err (from_cairo_run_error e), (vm, h'))
     | (Panic p, h') \<Rightarrow> (Panic p, (vm, h')))"
  unfolding agree_def split_paired_All split_conv
proof (intro allI impI)
  fix vm :: 'm and h :: "('s, 'x) HintProcessorBase_scheme"
  assume "handler_at J F (vm, h)"
  then have "at_frame J F h"
    by (simp add: handler_at_def at_frame_def)
  note go = agreeD [OF assms this, of "start vm h"]
  obtain r h' where run: "go' (start vm h) h = (r, h')"
    by fastforce
  then have "J (hp_state h') \<and> frame (hp_context h') = F"
    using go(2) by (simp add: at_frame_def)
  then show "(case go (start vm h) h of (Ok vm', h') \<Rightarrow> (Ok (), (vm', h'))
        | (Err e, h') \<Rightarrow> (Err (from_cairo_run_error e), (vm, h')) | (Panic p, h') \<Rightarrow> (Panic p, (vm, h')))
      = (case go' (start vm h) h of (Ok vm', h') \<Rightarrow> (Ok (), (vm', h'))
        | (Err e, h') \<Rightarrow> (Err (from_cairo_run_error e), (vm, h')) | (Panic p, h') \<Rightarrow> (Panic p, (vm, h')))
    \<and> handler_at J F (snd (case go' (start vm h) h of (Ok vm', h') \<Rightarrow> (Ok (), (vm', h'))
        | (Err e, h') \<Rightarrow> (Err (from_cairo_run_error e), (vm, h')) | (Panic p, h') \<Rightarrow> (Panic p, (vm, h'))))"
    unfolding go(1) run by (cases r) (simp_all add: handler_at_def)
qed

lemma agree_run_entry_point [agree_intros]:
  assumes "same_executor J F exec exec'"
  shows "agree (handler_at J F) (run_entry_point E V R exec ep args n) (run_entry_point E V R exec' ep args n)"
    and "agree (handler_at J F) (dep_run_entry_point E V R exec pc args) (dep_run_entry_point E V R exec' pc args)"
proof -
  have run: "agree (at_frame J F) (run_vm (execute_hint E V R exec) (consumed V) (consume_step V) run)
      (run_vm (execute_hint E V R exec') (consumed V) (consume_step V) run)"
    "agree (at_frame J F) (run_vm (dep_execute_hint E V R exec) (consumed V) (consume_step V) run)
      (run_vm (dep_execute_hint E V R exec') (consumed V) (consume_step V) run)" for run
    by (intro agree_run_vm agree_intros assms)+
  show "agree (handler_at J F) (run_entry_point E V R exec ep args n) (run_entry_point E V R exec' ep args n)"
    unfolding run_entry_point_def Let_def by (rule agree_run_then [OF run(1)])
  show "agree (handler_at J F) (dep_run_entry_point E V R exec pc args) (dep_run_entry_point E V R exec' pc args)"
    unfolding dep_run_entry_point_def Let_def by (rule agree_run_then [OF run(2)])
qed

section \<open>Calls\<close>

lemma agree_register_visited_pcs [agree_intros]:
  "agree (handler_at J F) (register_visited_pcs V k n l) (register_visited_pcs V k n l)"
  unfolding register_visited_pcs_def by (intro agree_intros) simp

lemma agree_accounting [agree_intros]:
  "agree (handler_at J F) (add_call_resources E V p) (add_call_resources E V p)"
  "agree (handler_at J F) (mark_arguments_as_accessed V n) (mark_arguments_as_accessed V n)"
  unfolding add_call_resources_def mark_arguments_as_accessed_def by (intro agree_intros; simp)+

lemma agree_finalize_execution [agree_intros]:
  "agree (handler_at J F) (finalize_execution E V p n l) (finalize_execution E V p n l)"
  "agree (handler_at J F) (dep_finalize_execution E V c p i n) (dep_finalize_execution E V c p i n)"
  unfolding finalize_execution_def dep_finalize_execution_def validate_run_def dep_verify_syscall_ptr_def
  by (intro agree_intros)+

lemma agree_prepare_call_arguments [agree_intros]:
  "agree (handler_at J F) (prepare_call_arguments E V c p e) (prepare_call_arguments E V c p e)"
  "agree (handler_at J F) (dep_prepare_call_arguments V c p) (dep_prepare_call_arguments V c p)"
  unfolding prepare_call_arguments_def dep_prepare_call_arguments_def by (intro agree_intros)+

lemma agree_borrow_into:
  fixes m m' :: "('m \<times> ('s, 'x) HintProcessorBase_scheme, 'e, 'a) action"
  assumes "agree (handler_at J F) m m'"
    and "\<And>s. exec_at J F s \<Longrightarrow> at_frame J F (new_handler s)"
  shows "agree (exec_at J F) (borrow_into new_handler vm m) (borrow_into new_handler vm m')"
  unfolding agree_def
proof (intro allI impI)
  fix s :: "'s ExecState"
  assume "exec_at J F s"
  then have "handler_at J F (vm, new_handler s)"
    using assms(2) by (simp add: handler_at_def at_frame_def)
  note m = agreeD [OF assms(1) this]
  obtain r vm' h where run: "m' (vm, new_handler s) = (r, (vm', h))"
    by (metis prod.exhaust)
  then have "J (hp_state h) \<and> frame (hp_context h) = F"
    using m(2) by (simp add: handler_at_def)
  then show "borrow_into new_handler vm m s = borrow_into new_handler vm m' s
      \<and> exec_at J F (snd (borrow_into new_handler vm m' s))"
    unfolding borrow_into_def m(1) run by (simp add: exec_at_def)
qed

lemma at_frame_new_handler:
  "exec_at J F s \<Longrightarrow> at_frame J F (SyscallHintProcessor_new s p c g)"
  "exec_at J F s \<Longrightarrow> at_frame J F (DeprecatedSyscallHintProcessor_new s p a b)"
  by (cases s; simp add: at_frame_def exec_at_def SyscallHintProcessor_new_def
      DeprecatedSyscallHintProcessor_new_def)+

lemma agree_run_initialized:
  assumes "same_executor J F exec exec'"
  shows "agree (handler_at J F) (run_initialized E V R exec call h k c) (run_initialized E V R exec' call h k c)"
  unfolding run_initialized_def by (intro agree_intros assms)

lemma agree_execute_v1_entry_point_call [agree_intros]:
  assumes "same_executor J F exec exec'"
  shows "agree (exec_at J F) (execute_v1_entry_point_call E V R exec call k) (execute_v1_entry_point_call E V R exec' call k)"
  unfolding execute_v1_entry_point_call_def
  by (intro agree_intros agree_borrow_into agree_run_initialized assms at_frame_new_handler)

lemma agree_execute_v0_entry_point_call [agree_intros]:
  assumes "same_executor J F exec exec'"
  shows "agree (exec_at J F) (execute_v0_entry_point_call E V R exec call k) (execute_v0_entry_point_call E V R exec' call k)"
  unfolding execute_v0_entry_point_call_def
  by (intro agree_intros agree_borrow_into assms at_frame_new_handler)

lemma agree_execute_entry_point_call [agree_intros]:
  assumes "same_executor J F exec exec'"
  shows "agree (exec_at J F) (execute_entry_point_call E V R exec call k) (execute_entry_point_call E V R exec' call k)"
  unfolding execute_entry_point_call_def by (intro agree_intros assms)

lemma agree_guarded_call:
  assumes "same_executor J F exec exec'"
  shows "agree (exec_at J F) (guarded_call E V R exec call) (guarded_call E V R exec' call)"
  unfolding guarded_call_def by (intro agree_intros assms)

text \<open>
  A call made at depth \<open>d\<close> uses the executor of inner calls at depth \<open>d + 1\<close>, and only if that
  does not exceed the maximal depth; it leaves its context at depth \<open>d\<close>.
\<close>

lemma agree_call_entry_point:
  fixes exec exec' :: "'s Executor"
  assumes "d + 1 \<le> max_recursion_depth (versioned_constants (block_context T)) \<Longrightarrow>
      same_executor J (T, d + 1, mode) exec exec'"
  shows "agree (exec_at J (T, d, mode)) (call_entry_point E V R exec call) (call_entry_point E V R exec' call)"
  unfolding agree_def split_paired_All
proof (intro allI impI)
  fix state :: "'s CachedState" and resources ctx
  assume "exec_at J (T, d, mode) (state, resources, ctx)"
  then have state: "J state" and ctx: "epc_tx_context ctx = T" "epc_current_recursion_depth ctx = d" "epc_execution_mode ctx = mode"
    by (simp_all add: exec_at_def frame_def)
  let ?max = "max_recursion_depth (versioned_constants (block_context T))"
  let ?s = "(state, resources, ctx\<lparr>epc_current_recursion_depth := d + 1\<rparr>)"
  show "call_entry_point E V R exec call (state, resources, ctx) = call_entry_point E V R exec' call (state, resources, ctx)
    \<and> exec_at J (T, d, mode) (snd (call_entry_point E V R exec' call (state, resources, ctx)))"
  proof (cases "d + 1 \<le> ?max")
    case True
    have "exec_at J (T, d + 1, mode) ?s"
      by (simp add: exec_at_def frame_def ctx state)
    note body = agreeD [OF agree_guarded_call [OF assms [OF True]] this, of E V call]
    obtain r state' resources' ctx' where run: "guarded_call E V R exec' call ?s = (r, (state', resources', ctx'))"
      by (metis prod.exhaust)
    then have "J state' \<and> frame ctx' = (T, d + 1, mode)"
      using body(2) by (simp add: exec_at_def)
    then show ?thesis
      using True run body(1) state
      by (simp add: call_entry_point_def with_recursion_guard_def sbind_def on_context_def exec_at_def frame_def
          try_increment_and_check_depth_def drop_recursion_guard_def epc_versioned_constants_def ctx not_less Let_def)
  next
    case False
    then show ?thesis
      using state
      by (simp add: call_entry_point_def with_recursion_guard_def sbind_def on_context_def exec_at_def frame_def
          try_increment_and_check_depth_def drop_recursion_guard_def epc_versioned_constants_def ctx not_le Let_def)
  qed
qed

lemma execute_fuel_agree:
  assumes "unat (max_recursion_depth (versioned_constants (block_context T))) + 1 < 2 ^ 64"
    and "unat d \<le> unat (max_recursion_depth (versioned_constants (block_context T)))"
    and "unat (max_recursion_depth (versioned_constants (block_context T))) - unat d < n"
    and "unat (max_recursion_depth (versioned_constants (block_context T))) - unat d < n'"
  shows "same_executor J (T, d, mode) (execute_fuel n E V R) (execute_fuel n' E V R)"
  using assms(2-4)
proof (induction n arbitrary: n' d)
  case 0
  then show ?case
    by simp
next
  case (Suc n)
  obtain k where n': "n' = Suc k"
    using Suc.prems(3) by (cases n') simp_all
  have "unat (d + 1) = unat d + 1"
    using assms(1) Suc.prems(1) by (subst unat_plus_exact) simp_all
  then have "same_executor J (T, d + 1, mode) (execute_fuel n E V R) (execute_fuel k E V R)"
    if "d + 1 \<le> max_recursion_depth (versioned_constants (block_context T))"
    using that Suc.prems by (intro Suc.IH) (simp_all add: n' word_le_nat_alt)
  then show ?case
    unfolding same_executor_def [of J "(T, d, mode)"] n' execute_fuel.simps by (blast intro: agree_call_entry_point)
qed

lemma same_executor_execute:
  assumes "unat (max_recursion_depth (versioned_constants (block_context T))) + 1 < 2 ^ 64"
    and "unat d \<le> unat (max_recursion_depth (versioned_constants (block_context T)))"
    and "unat (max_recursion_depth (versioned_constants (block_context T))) - unat d < n"
  shows "same_executor J (T, d, mode) (execute_fuel n E V R) (execute E V R)"
proof -
  let ?n = "Suc (unat (max_recursion_depth (versioned_constants (block_context T))))"
  have "same_executor J (T, d, mode) (execute_fuel n E V R) (execute_fuel ?n E V R)"
    using assms by (intro execute_fuel_agree) simp_all
  moreover have "execute E V R call s = execute_fuel ?n E V R call s" if "exec_at J (T, d, mode) s" for call s
    using that by (auto simp: execute_def exec_at_def frame_def epc_versioned_constants_def)
  ultimately show ?thesis
    by (simp add: same_executor_def agree_def)
qed

lemma execute_fuel_keeps_frame: "same_executor J F (execute_fuel n E V R) (execute_fuel n E V R)"
proof (induction n arbitrary: F)
  case 0
  then show ?case
    by (simp add: same_executor_def agree_def)
next
  case (Suc n)
  obtain T d mode where "F = (T, d, mode)"
    by (cases F)
  then show ?case
    using Suc unfolding same_executor_def [of J F] by (simp add: agree_call_entry_point)
qed

lemma execute_at:
  assumes "exec_at J F (state, resources, ctx)"
  shows "exec_at J F (snd (execute E V R call (state, resources, ctx)))"
proof -
  let ?n = "Suc (unat (max_recursion_depth (epc_versioned_constants ctx)))"
  have "agree (exec_at J F) (execute_fuel ?n E V R call) (execute_fuel ?n E V R call)"
    using execute_fuel_keeps_frame [of F ?n E V] by (simp only: same_executor_def)
  from agreeD(2) [OF this assms] show ?thesis
    by (simp add: execute_def)
qed

end

interpretation any_state: state_invariant R "\<lambda>_. True" for R
  by unfold_locales (simp_all add: keeps_def)

end
