(* ===== verification/Transaction_Invariants.thy ===== *)
theory Transaction_Invariants
  imports Transaction_Executor Call_Depth
begin

text \<open>
  Invariants of the state through the stages of a transaction. A stage runs on the state of the
  transaction (\<open>J\<close>), and a revertible one also on a state nested in it (\<open>K\<close>); what all operations on
  either keep, and what committing and aborting carry from \<open>K\<close> to \<open>J\<close>, is kept by the whole
  transaction.
\<close>

section \<open>Kept predicates\<close>

definition on_fst :: "('x \<Rightarrow> bool) \<Rightarrow> 'x \<times> 'y \<Rightarrow> bool" where
  "on_fst P s \<longleftrightarrow> P (fst s)"

lemma on_fst_pair [simp]: "on_fst P (a, b) = P a"
  by (simp add: on_fst_def)

lemma keeps_branches [keeps_intros]:
  "keeps P (f x) \<Longrightarrow> keeps P (Let x f)"
  "(\<And>a b. keeps P (g a b)) \<Longrightarrow> keeps P (case p of (a, b) \<Rightarrow> g a b)"
  "(y = None \<Longrightarrow> keeps P m) \<Longrightarrow> (\<And>a. y = Some a \<Longrightarrow> keeps P (h a)) \<Longrightarrow> keeps P (case y of None \<Rightarrow> m | Some a \<Rightarrow> h a)"
  by (simp_all split: prod.split option.split)

lemma keeps_case_ContractClass [keeps_intros]:
  "(\<And>a. keeps P (f a)) \<Longrightarrow> (\<And>a. keeps P (g a)) \<Longrightarrow> keeps P (case x of V0 a \<Rightarrow> f a | V1 a \<Rightarrow> g a)"
  by (cases x) simp_all

lemma keeps_case_TransactionInfo [keeps_intros]:
  "(\<And>a. keeps P (f a)) \<Longrightarrow> (\<And>a. keeps P (g a)) \<Longrightarrow> keeps P (case x of Current a \<Rightarrow> f a | Deprecated a \<Rightarrow> g a)"
  by (cases x) simp_all

lemma keeps_case_AccountTransaction [keeps_intros]:
  "(\<And>a. keeps P (f a)) \<Longrightarrow> (\<And>a. keeps P (g a)) \<Longrightarrow> (\<And>a. keeps P (h a)) \<Longrightarrow>
   keeps P (case x of Declare a \<Rightarrow> f a | DeployAccount a \<Rightarrow> g a | Invoke a \<Rightarrow> h a)"
  by (cases x) simp_all

lemma keeps_borrowed [keeps_intros]:
  "keeps P act \<Longrightarrow> keeps (on_fst P) (on_cached_state act)"
  "keeps Q m \<Longrightarrow> keeps (on_fst Q) (keep_gas m)"
  "(\<And>g. keeps U (f g)) \<Longrightarrow> keeps U (with_gas f)"
  "keeps (on_fst Q) (set_gas g)"
  "(\<And>c. keeps W (f' c)) \<Longrightarrow> keeps W (with_exec_context f')"
  by (auto simp: keeps_def on_cached_state_def keep_gas_def with_gas_def set_gas_def with_exec_context_def
      split: prod.splits)

lemma keeps_paying_gas [keeps_intros]: "(\<And>g. keeps P (run g)) \<Longrightarrow> keeps (on_fst P) (paying_gas run)"
  unfolding paying_gas_def by (intro keeps_intros)

lemma keeps_stages [keeps_intros]:
  "keeps (on_fst (on_fst P)) act \<Longrightarrow> keeps (on_fst (on_fst P)) (in_context c act)"
  "keeps P m \<Longrightarrow> keeps (on_fst (on_fst P)) (on_tx_state m)"
  "(\<And>r. keeps (on_fst (on_fst P)) (f r)) \<Longrightarrow> keeps (on_fst (on_fst P)) (with_resources f)"
  "keeps (on_fst (on_fst P)) n \<Longrightarrow> keeps (on_fst P) (with_new_resources n)"
  "keeps (on_fst P) k \<Longrightarrow> keeps P (with_initial_gas g k)"
  by (auto simp: keeps_def in_context_def on_tx_state_def with_resources_def with_new_resources_def
      with_initial_gas_def split: prod.splits) (metis on_fst_pair snd_conv)+


section \<open>Stages\<close>

text \<open>The checks of fees only read balances.\<close>

lemma keeps_fee_reads:
  assumes "\<And>a k. keeps J (get_storage_at R a k)"
  shows "keeps J (verify_can_pay_committed_bounds E R tx_context)" and "keeps J (check_can_pay_fee E R tx_context receipt)"
  unfolding verify_can_pay_committed_bounds_def check_can_pay_fee_def get_balance_and_if_covers_fee_def
    get_fee_token_balance_def
  by (intro keeps_intros assms)+

lemma keeps_PostExecutionReport:
  assumes "\<And>a k. keeps J (get_storage_at R a k)"
  shows "keeps J (PostExecutionReport_new E R tx_context receipt charge_fee)"
proof -
  have "keeps J (\<lambda>state. case check_can_pay_fee E R tx_context receipt state of (pay, state') \<Rightarrow> (f pay, state'))" for f
    using keeps_fee_reads(2) [OF assms, of E tx_context receipt] by (auto simp: keeps_def split: prod.splits)
  then show ?thesis
    unfolding PostExecutionReport_new_def Let_def by (intro keeps_intros)
qed

context state_invariant
begin

lemma keeps_execute [keeps_intros]: "keeps (on_fst J) (execute E V R call)"
proof (rule keepsI)
  fix s :: "'s ExecState"
  assume "on_fst J s"
  moreover obtain state resources ctx where s: "s = (state, resources, ctx)"
    by (cases s)
  ultimately have "exec_at J (frame ctx) (snd (execute E V R call (state, resources, ctx)))"
    by (intro execute_at) (simp add: exec_at_def)
  then show "on_fst J (snd (execute E V R call s))"
    by (auto simp: s exec_at_def on_fst_def)
qed

lemmas state_operations_kept [keeps_intros] = kept_by_reads kept_by_writes

lemmas fee_reads_kept [keeps_intros] = keeps_fee_reads [OF kept_by_reads(1)] keeps_PostExecutionReport [OF kept_by_reads(1)]

lemma keeps_validate_tx [keeps_intros]:
  "keeps (on_fst (on_fst J)) (handle_validate_tx E V R self tx_context validate limit)"
  unfolding handle_validate_tx_def validate_tx_def by (intro keeps_intros)

lemma keeps_calls [keeps_intros]:
  "keeps (on_fst (on_fst J)) (InvokeTransaction_run_execute E V R i)"
  "keeps (on_fst (on_fst J)) (L1HandlerTransaction_run_execute E V R l)"
  "keeps (on_fst (on_fst J)) (DeployAccountTransaction_run_execute E V R d)"
  unfolding InvokeTransaction_run_execute_def L1HandlerTransaction_run_execute_def
    DeployAccountTransaction_run_execute_def execute_deployment_def execute_constructor_entry_point_def
  by (intro keeps_intros)+

lemma keeps_execute_fee_transfer [keeps_intros]: "keeps J (execute_fee_transfer E V R tx_context fee)"
proof -
  have "keeps J (\<lambda>state. case smap_err f (execute E V R call) (state, er_default, c) of (r, (state', _, _)) \<Rightarrow> (r, state'))"
    for f call c
    using keeps_execute [of E V call] by (auto simp: keeps_def smap_err_def split: prod.splits) (metis on_fst_pair snd_conv)
  then show ?thesis
    unfolding execute_fee_transfer_def Let_def by (intro keeps_intros)
qed

end


locale declaring_invariant = state_invariant R J for R :: "'s StateReader" and J +
  assumes kept_by_declarations: "keeps J (set_contract_class h c)" "keeps J (set_compiled_class_hash h ch)"
    and kept_by_changes: "keeps J (get_actual_state_changes R)"
begin

lemmas declarations_kept [keeps_intros] = kept_by_declarations kept_by_changes

lemma keeps_declare [keeps_intros]: "keeps J (DeclareTransaction_declare R d)"
proof -
  have undeclared: "keeps J (\<lambda>state. case get_compiled_contract_class R h state of
      (Err (UndeclaredClassHash _), state') \<Rightarrow> m state'
    | (Err error, state') \<Rightarrow> (e error, state')
    | (Ok _, state') \<Rightarrow> (x, state')
    | (Panic p, state') \<Rightarrow> (Panic p, state'))" if "keeps J m"
    for h and m :: "('s CachedState, TransactionExecutionError, CallInfo option) action" and e x
    using that kept_by_reads(3) [of h]
    by (auto simp: keeps_def split: prod.splits result.splits StateError.splits)
  show ?thesis
    unfolding DeclareTransaction_declare_def Let_def
    by (cases "api_declare_variant (declare_tx d)") (auto intro!: keeps_intros undeclared)
qed

lemma keeps_run_execute [keeps_intros]: "keeps (on_fst (on_fst J)) (AccountTransaction_run_execute E V R tx)"
  by (cases tx) (auto simp: AccountTransaction_run_execute_def DeclareTransaction_run_execute_def intro!: keeps_intros)

lemma keeps_run_non_revertible [keeps_intros]:
  "keeps (on_fst J) (run_non_revertible E V R tx tx_context validate charge_fee)"
  unfolding run_non_revertible_def by (intro keeps_intros)

lemma keeps_check_execution [keeps_intros]:
  "keeps J (check_execution E R tx tx_context changes resources call_infos charge_fee)"
  unfolding check_execution_def by (intro keeps_intros)

lemma keeps_L1HandlerTransaction_execute_raw [keeps_intros]:
  "keeps J (L1HandlerTransaction_execute_raw E V R tx context)"
  unfolding L1HandlerTransaction_execute_raw_def Let_def by (intro keeps_intros)

end

locale stage_invariant = declaring_invariant R J + nested: declaring_invariant R K
  for R :: "'s StateReader" and J and K +
  fixes concurrent :: bool
  assumes nested_start: "J d \<Longrightarrow> K (create_transactional d)"
    and nested_commit: "K c \<Longrightarrow> J (commit c)"
    and nested_abort: "K c \<Longrightarrow> J (abort c)"
    and nested_cache: "concurrent \<Longrightarrow> K c \<Longrightarrow> K (with_cache f c)"
begin

lemma keeps_execute_or_revert [keeps_intros]:
  "keeps (on_fst (on_fst J)) (execute_or_revert T E V R tx tx_context ctx steps call_info changes charge_fee)"
proof (rule keepsI)
  fix s :: "'s StageState"
  assume "on_fst (on_fst J) s"
  moreover obtain state resources gas where s: "s = ((state, resources), gas)"
    by (metis prod.exhaust)
  ultimately have start: "on_fst (on_fst K) ((create_transactional state, resources, ctx), gas)"
    by (simp add: nested_start)
  obtain r state1 resources1 ctx1 gas1 where run:
    "AccountTransaction_run_execute E V R tx ((create_transactional state, resources, ctx), gas) =
      (r, ((state1, resources1, ctx1), gas1))"
    by (metis prod.exhaust)
  then have K: "K state1"
    using keepsD [OF nested.keeps_run_execute start, of E V tx] by simp
  have checked: "K (snd (check_execution E R tx tx_context changes resources1 infos charge_fee state1))" for infos
    by (rule keepsD [OF nested.keeps_check_execution K])
  have reported: "J (snd (PostExecutionReport_new E R tx_context receipt charge_fee (abort state1)))" for receipt
    by (rule keepsD [OF fee_reads_kept(3) nested_abort [OF K]])
  show "on_fst (on_fst J) (snd (execute_or_revert T E V R tx tx_context ctx steps call_info changes charge_fee s))"
    using checked reported nested_abort [OF K] nested_commit nested_abort
    unfolding s execute_or_revert_def split_conv run Let_def
    by (auto split: result.splits prod.splits option.splits) (metis snd_conv)+
qed

lemma keeps_run_or_revert [keeps_intros]:
  "keeps (on_fst J) (run_or_revert T E V R tx tx_context validate charge_fee)"
  unfolding run_or_revert_def run_revertible_def by (intro keeps_intros)

lemma keeps_handle_fee [keeps_intros]:
  assumes "concurrency_mode (block_context tx_context) \<Longrightarrow> concurrent"
  shows "keeps J (handle_fee E V R tx_context fee charge_fee)"
proof -
  have "keeps J (concurrency_execute_fee_transfer E V R tx_context fee)" if concurrent
  proof -
    have K: "K (with_cache f (create_transactional state))" if "J state" for f state
      using nested_start nested_cache \<open>concurrent\<close> that by blast
    have "K (snd (execute_fee_transfer E V R tx_context fee (with_cache f (create_transactional state))))"
      if "J state" for f state
      using K [OF that] by (rule keepsD [OF nested.keeps_execute_fee_transfer])
    then have "J (commit (with_cache g (snd (execute_fee_transfer E V R tx_context fee (with_cache f (create_transactional state))))))"
      if "J state" for f g state
      using nested_commit nested_cache \<open>concurrent\<close> that by blast
    then have "keeps J (\<lambda>state. case execute_fee_transfer E V R tx_context fee (with_cache f (create_transactional state)) of
        (r, t) \<Rightarrow> (r, commit (with_cache g t)))" for f g
      by (auto simp: keeps_def split: prod.splits) (metis snd_conv)
    then show ?thesis
      unfolding concurrency_execute_fee_transfer_def Let_def by (intro keeps_intros)
  qed
  then show ?thesis
    unfolding handle_fee_def using assms by (auto intro!: keeps_intros)
qed

end

locale transaction_invariant = stage_invariant R J K concurrent
  for R :: "'s StateReader" and J and K and concurrent +
  assumes kept_by_nonces: "keeps J (get_nonce_at R a)" "keeps J (increment_nonce R a)"
begin

lemmas nonces_kept [keeps_intros] = kept_by_nonces

lemma keeps_pre_validation [keeps_intros]:
  "keeps J (perform_pre_validation_stage E R tx tx_context charge_fee strict)"
  unfolding perform_pre_validation_stage_def handle_nonce_def by (intro keeps_intros)

lemma keeps_execute_raw:
  assumes "concurrency_mode context \<Longrightarrow> concurrent"
  shows "keeps J (Transaction_execute_raw T E V R tx context charge_fee validate)"
proof -
  have "keeps J (AccountTransaction_execute_raw T E V R account_tx context charge_fee validate)" for account_tx
    unfolding AccountTransaction_execute_raw_def Let_def
    using assms by (intro keeps_intros) (simp add: to_tx_context_def)
  then show ?thesis
    by (cases tx) (simp_all add: Transaction_execute_raw_def keeps_L1HandlerTransaction_execute_raw)
qed

end

section \<open>Invariants of the inner state\<close>

text \<open>
  What every read of the inner state keeps, every operation on the state keeps: operations
  touch the inner state only by reading it.
\<close>

definition inner_kept :: "'s StateReader \<Rightarrow> ('s StateImpl \<Rightarrow> bool) \<Rightarrow> bool" where
  "inner_kept R Q \<longleftrightarrow> (\<forall>a k. keeps Q (get_storage_at_inner R a k)) \<and> (\<forall>a. keeps Q (get_nonce_at_inner R a))
     \<and> (\<forall>a. keeps Q (get_class_hash_at_inner R a)) \<and> (\<forall>h. keeps Q (get_compiled_contract_class_inner R h))
     \<and> (\<forall>h. keeps Q (get_compiled_class_hash_inner R h))"

definition on_inner :: "('s StateImpl \<Rightarrow> bool) \<Rightarrow> 's CachedState \<Rightarrow> bool" where
  "on_inner Q d \<longleftrightarrow> Q (cs_state d)"

lemma on_inner_simps [simp]:
  "on_inner Q (CachedState st cache classes pcs) = Q st"
  "on_inner Q (with_cache f c) = on_inner Q c"
  by (simp_all add: on_inner_def)

lemma inner_after_read:
  "cs_state (snd (get_storage_at R a k d)) \<in> {cs_state d, snd (get_storage_at_inner R a k (cs_state d))}"
  "cs_state (snd (get_nonce_at R a d)) \<in> {cs_state d, snd (get_nonce_at_inner R a (cs_state d))}"
  "cs_state (snd (get_class_hash_at R a d)) \<in> {cs_state d, snd (get_class_hash_at_inner R a (cs_state d))}"
  "cs_state (snd (get_compiled_contract_class R h d)) \<in> {cs_state d, snd (get_compiled_contract_class_inner R h (cs_state d))}"
  "cs_state (snd (get_compiled_class_hash R h d)) \<in> {cs_state d, snd (get_compiled_class_hash_inner R h (cs_state d))}"
  by (cases d; simp add: Let_def split: prod.split result.split option.split StateError.split)+

lemma keeps_on_inner:
  assumes "keeps Q inner" and "\<And>d. cs_state (snd (m d)) \<in> {cs_state d, snd (inner (cs_state d))}"
  shows "keeps (on_inner Q) m"
  using assms unfolding keeps_def on_inner_def by (metis insertE singletonD)

lemma inner_keptD:
  assumes "inner_kept R Q"
  shows "keeps Q (get_storage_at_inner R a k)" and "keeps Q (get_nonce_at_inner R a)"
    and "keeps Q (get_class_hash_at_inner R a)" and "keeps Q (get_compiled_contract_class_inner R h)"
    and "keeps Q (get_compiled_class_hash_inner R h)"
  using assms by (simp_all add: inner_kept_def)

lemma reads_keep_on_inner:
  assumes "inner_kept R Q"
  shows "keeps (on_inner Q) (get_storage_at R a k)" and "keeps (on_inner Q) (get_nonce_at R a)"
    and "keeps (on_inner Q) (get_class_hash_at R a)" and "keeps (on_inner Q) (get_compiled_contract_class R h)"
    and "keeps (on_inner Q) (get_compiled_class_hash R h)"
  by (rule keeps_on_inner, rule inner_keptD [OF assms], rule inner_after_read)+

lemma writes_keep_on_inner:
  "keeps (on_inner Q) (set_storage_at a k v)" "keeps (on_inner Q) (set_class_hash_at a c)"
  "keeps (on_inner Q) (set_contract_class c l)" "keeps (on_inner Q) (set_compiled_class_hash c h)"
  "on_inner Q state \<Longrightarrow> on_inner Q (add_visited_pcs c pcs state)"
  by (simp_all add: keeps_def on_inner_def set_storage_at_def set_class_hash_at_def set_contract_class_def
      set_compiled_class_hash_def add_visited_pcs_def)

lemma nonces_keep_on_inner: "inner_kept R Q \<Longrightarrow> keeps (on_inner Q) (increment_nonce R a)"
  using reads_keep_on_inner(2) [of R Q a] increment_nonce_snd [of R a]
  by (metis (no_types, lifting) keeps_def on_inner_simps(2))

lemma changes_keep_on_inner:
  assumes "inner_kept R Q"
  shows "keeps (on_inner Q) (get_actual_state_changes R)"
proof -
  have initial: "keeps (on_inner Q) (cache_initial_storage R e)" "keeps (on_inner Q) (cache_initial_class_hash R a)"
    "keeps (on_inner Q) (cache_initial_nonce R a)" for e a
    using keeps_on_inner [OF inner_keptD(1) [OF assms, of "fst e" "snd e"], of "cache_initial_storage R e"]
      keeps_on_inner [OF inner_keptD(3) [OF assms, of a], of "cache_initial_class_hash R a"]
      keeps_on_inner [OF inner_keptD(2) [OF assms, of a], of "cache_initial_nonce R a"]
    by (simp_all add: cache_initial_storage_def cache_initial_class_hash_def cache_initial_nonce_def Let_def
        split: prod.split result.split)
  have "keeps (on_inner Q) (update_initial_values_of_write_only_access R)"
    unfolding update_initial_values_of_write_only_access_def [abs_def]
    by (rule keepsI, rule keepsD, intro keeps_intros initial)
  then show ?thesis
    unfolding get_actual_state_changes_def by (intro keeps_intros) (simp_all add: keeps_def)
qed

lemma declaring_on_inner: "inner_kept R Q \<Longrightarrow> declaring_invariant R (on_inner Q)"
  by unfold_locales (simp_all add: reads_keep_on_inner writes_keep_on_inner changes_keep_on_inner)

section \<open>Nested states\<close>

fun parent_kept :: "('s CachedState \<Rightarrow> bool) \<Rightarrow> 's StateImpl \<Rightarrow> bool" where
  "parent_kept J (MutRefState p) = J p"
| "parent_kept J (BaseReader s) = False"

definition reads_kept :: "'s StateReader \<Rightarrow> ('s CachedState \<Rightarrow> bool) \<Rightarrow> bool" where
  "reads_kept R J \<longleftrightarrow> (\<forall>a k. keeps J (get_storage_at R a k)) \<and> (\<forall>a. keeps J (get_nonce_at R a))
     \<and> (\<forall>a. keeps J (get_class_hash_at R a)) \<and> (\<forall>h. keeps J (get_compiled_contract_class R h))
     \<and> (\<forall>h. keeps J (get_compiled_class_hash R h))"

lemma keeps_parent:
  assumes "keeps J m" and "\<And>p. inner (MutRefState p) = map_prod id MutRefState (m p)"
  shows "keeps (parent_kept J) inner"
proof (rule keepsI)
  fix st
  assume "parent_kept J st"
  then show "parent_kept J (snd (inner st))"
    using assms by (cases st) (simp_all add: keeps_def)
qed

lemma parent_kept_reads:
  assumes "reads_kept R J"
  shows "inner_kept R (parent_kept J)"
proof -
  have "keeps (parent_kept J) (get_storage_at_inner R a k)" "keeps (parent_kept J) (get_nonce_at_inner R a)"
    "keeps (parent_kept J) (get_class_hash_at_inner R a)" "keeps (parent_kept J) (get_compiled_contract_class_inner R h)"
    "keeps (parent_kept J) (get_compiled_class_hash_inner R h)" for a k h
    using keeps_parent [of J "get_storage_at R a k" "get_storage_at_inner R a k"]
      keeps_parent [of J "get_nonce_at R a" "get_nonce_at_inner R a"]
      keeps_parent [of J "get_class_hash_at R a" "get_class_hash_at_inner R a"]
      keeps_parent [of J "get_compiled_contract_class R h" "get_compiled_contract_class_inner R h"]
      keeps_parent [of J "get_compiled_class_hash R h" "get_compiled_class_hash_inner R h"] assms
    by (simp_all add: reads_kept_def)
  then show ?thesis
    by (simp add: inner_kept_def)
qed

lemma on_parent_ends:
  assumes "on_inner (parent_kept J) c"
  obtains p cache classes pcs where "c = CachedState (MutRefState p) cache classes pcs" "J p"
  using assms by (cases c) (auto elim!: parent_kept.elims)

text \<open>
  A predicate that survives every commit is an invariant of whole transactions, with its nested
  state constrained only by its parent; this covers the concurrent transfer of fees as well.
\<close>

lemma transaction_invariantI:
  assumes "declaring_invariant R J" and "reads_kept R J" and "\<And>a. keeps J (increment_nonce R a)"
    and "\<And>p cache classes pcs. J p \<Longrightarrow> J (commit (CachedState (MutRefState p) cache classes pcs))"
  shows "transaction_invariant R J (on_inner (parent_kept J)) True"
proof (intro transaction_invariant.intro stage_invariant.intro stage_invariant_axioms.intro
    transaction_invariant_axioms.intro assms(1,3))
  show "declaring_invariant R (on_inner (parent_kept J))"
    by (rule declaring_on_inner [OF parent_kept_reads [OF assms(2)]])
  show "keeps J (get_nonce_at R a)" for a
    using assms(2) by (simp add: reads_kept_def)
  show "J d \<Longrightarrow> on_inner (parent_kept J) (create_transactional d)" for d
    by (simp add: create_transactional_def CachedState_new_def)
  show "J (commit c)" and "J (abort c)" if "on_inner (parent_kept J) c" for c
    using that by (auto elim!: on_parent_ends simp: assms(4) simp del: commit.simps)
qed simp

end
