(* ===== verification/Call_Invariants.thy ===== *)
theory Call_Invariants
  imports Call_Depth "HOL-Library.Multiset"
begin

text \<open>
  What holds of the call tree that a successful execution returns: every call was given a class,
  did not fail and consumed no more gas than it had; the events are numbered one after the
  other, each number used once; in validate mode a call reaches no contract but its own and the
  ones it deploys.

  The invariant is a relation between the states of a syscall handler, shared by both handlers
  (the locale \<open>handler\<close>); the contract of the executor of inner calls is the locale
  \<open>executor\<close>, which \<open>execute\<close> satisfies by induction on the fuel.
\<close>

section \<open>The contract\<close>

definition event_orders :: "OrderedEvent list \<Rightarrow> nat multiset" where
  "event_orders events = mset (map (\<lambda>e. unat (oe_order e)) events)"

fun tree_orders :: "CallInfo \<Rightarrow> nat multiset" where
  "tree_orders (CallInfo call execution resources inner reads keys) =
     event_orders (ce_events execution) + sum_list (map tree_orders inner)"

fun executed_tree :: "ExecutionMode \<Rightarrow> CallInfo \<Rightarrow> bool" where
  "executed_tree mode (CallInfo call execution resources inner reads keys) \<longleftrightarrow>
     cep_class_hash call \<noteq> None \<and> \<not> ce_failed execution \<and> ce_gas_consumed execution \<le> cep_initial_gas call
     \<and> (\<forall>c \<in> set inner. executed_tree mode c
          \<and> (mode = Validate \<longrightarrow> cep_storage_address (ci_call c) = cep_storage_address call
                                \<or> cep_entry_point_type (ci_call c) = Constructor))"

definition inner_ok :: "ExecutionMode \<Rightarrow> ContractAddress \<Rightarrow> CallInfo \<Rightarrow> bool" where
  "inner_ok mode address c \<longleftrightarrow> executed_tree mode c
     \<and> (mode = Validate \<longrightarrow> cep_storage_address (ci_call c) = address \<or> cep_entry_point_type (ci_call c) = Constructor)"

definition n_events_of :: "EntryPointExecutionContext \<Rightarrow> nat" where
  "n_events_of ctx = unat (epc_n_emitted_events ctx)"

definition events_ok :: "EntryPointExecutionContext \<Rightarrow> bool" where
  "events_ok ctx \<longleftrightarrow>
     unat (max_n_emitted_events (tx_event_limits (epc_versioned_constants ctx))) + 1 < 2 ^ 64
   \<and> epc_n_emitted_events ctx \<le> max_n_emitted_events (tx_event_limits (epc_versioned_constants ctx))"

definition events_between :: "EntryPointExecutionContext \<Rightarrow> EntryPointExecutionContext \<Rightarrow> nat multiset" where
  "events_between ctx ctx' = mset [n_events_of ctx..<n_events_of ctx']"

definition context_step :: "EntryPointExecutionContext \<Rightarrow> EntryPointExecutionContext \<Rightarrow> bool" where
  "context_step ctx ctx' \<longleftrightarrow> events_ok ctx' \<and> frame ctx' = frame ctx \<and> n_events_of ctx \<le> n_events_of ctx'"

definition sound_call :: "(CallEntryPoint \<Rightarrow> bool) \<Rightarrow> ('s ExecState, 'e, CallInfo) action \<Rightarrow> bool" where
  "sound_call Q act \<longleftrightarrow>
     (\<forall>state resources ctx c state' resources' ctx'.
        events_ok ctx \<longrightarrow> act (state, resources, ctx) = (Ok c, (state', resources', ctx')) \<longrightarrow>
        context_step ctx ctx' \<and> tree_orders c = events_between ctx ctx'
        \<and> executed_tree (epc_execution_mode ctx) c \<and> Q (ci_call c))"

definition exec_sound :: "'s Executor \<Rightarrow> bool" where
  "exec_sound exec \<longleftrightarrow>
     (\<forall>call. sound_call (\<lambda>d. \<exists>k. d = call\<lparr>cep_class_hash := k\<rparr>) (exec call))"

definition handler_orders :: "('s, 'x) HintProcessorBase_scheme \<Rightarrow> nat multiset" where
  "handler_orders h = event_orders (hp_events h) + sum_list (map tree_orders (hp_inner_calls h))"

definition handler_step ::
    "(('s, 'x) HintProcessorBase_scheme \<Rightarrow> 'k) \<Rightarrow> ('k \<Rightarrow> ContractAddress) \<Rightarrow>
     ('s, 'x) HintProcessorBase_scheme \<Rightarrow> ('s, 'x) HintProcessorBase_scheme \<Rightarrow> bool" where
  "handler_step key address h h' \<longleftrightarrow>
     (events_ok (hp_context h) \<longrightarrow>
        context_step (hp_context h) (hp_context h') \<and> key h' = key h
        \<and> handler_orders h' = handler_orders h + events_between (hp_context h) (hp_context h')
        \<and> (\<forall>c \<in> set (hp_inner_calls h'). c \<in> set (hp_inner_calls h)
             \<or> inner_ok (epc_execution_mode (hp_context h)) (address (key h)) c))"

text \<open>
  \<open>steps\<close>: an action on a state that contains a handler makes a step of it whenever it returns,
  and also when it fails with an error in \<open>D\<close> that its caller recovers from.
\<close>

definition returns :: "('e \<Rightarrow> bool) \<Rightarrow> ('e, 'a) result \<Rightarrow> bool" where
  "returns D r = (case r of Ok _ \<Rightarrow> True | Err e \<Rightarrow> D e | Panic _ \<Rightarrow> False)"

definition steps ::
    "('h \<Rightarrow> 'h \<Rightarrow> bool) \<Rightarrow> ('t \<Rightarrow> 'h) \<Rightarrow> ('e \<Rightarrow> bool) \<Rightarrow> ('t, 'e, 'a) action \<Rightarrow> bool" where
  "steps step part D m \<longleftrightarrow> (\<forall>s. returns D (fst (m s)) \<longrightarrow> step (part s) (part (snd (m s))))"

named_theorems steps_intros "steps of composed actions"

section \<open>Steps of contexts and handlers\<close>

lemma context_step_refl: "events_ok ctx \<Longrightarrow> context_step ctx ctx"
  by (simp add: context_step_def)

lemma context_step_trans: "context_step a b \<Longrightarrow> context_step b c \<Longrightarrow> context_step a c"
  by (auto simp: context_step_def)

lemma events_between_refl [simp]: "events_between ctx ctx = {#}"
  by (simp add: events_between_def)

lemma events_between_trans:
  "context_step a b \<Longrightarrow> context_step b c \<Longrightarrow> events_between a b + events_between b c = events_between a c"
  unfolding events_between_def context_step_def
  by (metis le_Suc_ex mset_append upt_add_eq_append)

lemma frame_mode: "frame ctx' = frame ctx \<Longrightarrow> epc_execution_mode ctx' = epc_execution_mode ctx"
  by (simp add: frame_def)

lemma handler_step_refl: "handler_step key address h h"
  by (simp add: handler_step_def context_step_refl)

lemma handler_step_trans:
  assumes "handler_step key address a b" and "handler_step key address b c"
  shows "handler_step key address a c"
  unfolding handler_step_def
proof (intro impI)
  assume a: "events_ok (hp_context a)"
  note ab = assms(1) [unfolded handler_step_def, rule_format, OF a]
  then have b: "events_ok (hp_context b)"
    by (simp add: context_step_def)
  note bc = assms(2) [unfolded handler_step_def, rule_format, OF b]
  have steps: "context_step (hp_context a) (hp_context b)" "context_step (hp_context b) (hp_context c)"
    using ab bc by blast+
  have mode: "epc_execution_mode (hp_context b) = epc_execution_mode (hp_context a)"
    using steps(1) by (intro frame_mode) (simp add: context_step_def)
  have "handler_orders c = handler_orders a + events_between (hp_context a) (hp_context c)"
    using ab bc by (simp add: add.assoc events_between_trans [OF steps])
  moreover have "d \<in> set (hp_inner_calls a) \<or> inner_ok (epc_execution_mode (hp_context a)) (address (key a)) d"
    if "d \<in> set (hp_inner_calls c)" for d
  proof -
    have "key b = key a"
      using ab by blast
    moreover have "d \<in> set (hp_inner_calls b) \<or> inner_ok (epc_execution_mode (hp_context b)) (address (key b)) d"
      using bc that by blast
    ultimately show ?thesis
      using ab unfolding mode by (elim disjE) simp_all
  qed
  ultimately show "context_step (hp_context a) (hp_context c) \<and> key c = key a
    \<and> handler_orders c = handler_orders a + events_between (hp_context a) (hp_context c)
    \<and> (\<forall>d \<in> set (hp_inner_calls c). d \<in> set (hp_inner_calls a)
        \<or> inner_ok (epc_execution_mode (hp_context a)) (address (key a)) d)"
    using ab bc context_step_trans [OF steps] by simp
qed

text \<open>Fields that the invariant does not see.\<close>

lemma handler_step_invisible:
  assumes "key h' = key h" and "hp_events h' = hp_events h" and "hp_inner_calls h' = hp_inner_calls h"
    and "frame (hp_context h') = frame (hp_context h)"
    and "epc_n_emitted_events (hp_context h') = epc_n_emitted_events (hp_context h)"
  shows "handler_step key address h h'"
proof -
  have "epc_versioned_constants (hp_context h') = epc_versioned_constants (hp_context h)"
    using assms(4) by (simp add: frame_def epc_versioned_constants_def)
  then show ?thesis
    using assms by (simp add: handler_step_def context_step_def events_ok_def n_events_of_def events_between_def
        handler_orders_def)
qed

section \<open>Steps of composed actions\<close>

lemma stepsD: "steps step part D m \<Longrightarrow> m s = (Ok a, s') \<Longrightarrow> step (part s) (part s')"
  unfolding steps_def by (drule spec [of _ s]) (simp add: returns_def)

lemma steps_sret [steps_intros]: "steps (handler_step key address) part D (sret a)"
  by (simp add: steps_def handler_step_refl)

lemma steps_slift [steps_intros]: "steps (handler_step key address) part D (slift r)"
  by (simp add: steps_def handler_step_refl)

lemma steps_sbind [steps_intros]:
  assumes "steps (handler_step key address) part D m"
    and "\<And>a. steps (handler_step key address) part D (f a)"
  shows "steps (handler_step key address) part D (sbind m f)"
  unfolding steps_def
proof (intro allI impI)
  fix s
  assume ret: "returns D (fst (sbind m f s))"
  obtain r t where m: "m s = (r, t)"
    by fastforce
  show "handler_step key address (part s) (part (snd (sbind m f s)))"
  proof (cases r)
    case (Ok a)
    then have "handler_step key address (part s) (part t)"
      using assms(1) m by (auto dest: stepsD)
    moreover have "handler_step key address (part t) (part (snd (f a t)))"
      using assms(2) [of a] ret m Ok by (simp add: steps_def sbind_def)
    ultimately show ?thesis
      using m Ok by (simp add: sbind_def handler_step_trans)
  next
    case (Err e)
    then have "returns D (fst (m s))"
      using ret m by (simp add: sbind_def returns_def)
    then show ?thesis
      using assms(1) [unfolded steps_def, rule_format, of s] m Err by (simp add: sbind_def)
  next
    case (Panic p)
    then show ?thesis
      using ret m by (simp add: sbind_def returns_def)
  qed
qed

lemma steps_smap_err [steps_intros]:
  assumes "steps step part (\<lambda>e. D (f e)) m"
  shows "steps step part D (smap_err f m)"
  unfolding steps_def
proof (intro allI impI)
  fix s
  assume "returns D (fst (smap_err f m s))"
  then have "returns (\<lambda>e. D (f e)) (fst (m s))"
    by (cases "fst (m s)") (simp_all add: smap_err_def returns_def)
  then show "step (part s) (part (snd (smap_err f m s)))"
    using assms by (simp add: steps_def smap_err_def)
qed

lemma steps_with_handler [steps_intros]: "(\<And>h. steps step part D (f h)) \<Longrightarrow> steps step part D (with_handler f)"
  by (simp add: steps_def with_handler_def)

lemma steps_with_vm [steps_intros]: "(\<And>vm. steps step part D (f vm)) \<Longrightarrow> steps step part D (with_vm f)"
  by (simp add: steps_def with_vm_def)

lemma steps_with_gas [steps_intros]: "(\<And>g. steps step part D (f g)) \<Longrightarrow> steps step part D (with_gas f)"
  by (simp add: steps_def with_gas_def)

lemma steps_with_call_state [steps_intros]:
  "(\<And>vm h g. steps step part D (f vm h g)) \<Longrightarrow> steps step part D (with_call_state f)"
  by (simp add: steps_def with_call_state_def)

lemma steps_if [steps_intros]:
  "(b \<Longrightarrow> steps step part D m) \<Longrightarrow> (\<not> b \<Longrightarrow> steps step part D n) \<Longrightarrow> steps step part D (if b then m else n)"
  by simp

lemma steps_Let [steps_intros]: "steps step part D (f x) \<Longrightarrow> steps step part D (Let x f)"
  by simp

lemma steps_case_option [steps_intros]:
  "(x = None \<Longrightarrow> steps step part D m) \<Longrightarrow> (\<And>a. x = Some a \<Longrightarrow> steps step part D (f a)) \<Longrightarrow>
   steps step part D (case x of None \<Rightarrow> m | Some a \<Rightarrow> f a)"
  by (cases x) simp_all

lemma steps_case_prod [steps_intros]:
  "(\<And>a b. steps step part D (f a b)) \<Longrightarrow> steps step part D (case x of (a, b) \<Rightarrow> f a b)"
  by (cases x) simp

lemma steps_case_list [steps_intros]:
  "steps step part D m \<Longrightarrow> (\<And>a as. steps step part D (f a as)) \<Longrightarrow>
   steps step part D (case x of [] \<Rightarrow> m | a # as \<Rightarrow> f a as)"
  by (cases x) simp_all

lemma steps_case_TransactionInfo [steps_intros]:
  "(\<And>a. steps step part D (f a)) \<Longrightarrow> (\<And>a. steps step part D (g a)) \<Longrightarrow>
   steps step part D (case x of Current a \<Rightarrow> f a | Deprecated a \<Rightarrow> g a)"
  by (cases x) simp_all

lemma steps_case_ContractClass [steps_intros]:
  "(\<And>a. steps step part D (f a)) \<Longrightarrow> (\<And>a. steps step part D (g a)) \<Longrightarrow>
   steps step part D (case x of V0 a \<Rightarrow> f a | V1 a \<Rightarrow> g a)"
  by (cases x) simp_all

lemma steps_keep_gas [steps_intros]:
  "steps step snd D m \<Longrightarrow> steps step (\<lambda>s. snd (fst s)) D (keep_gas m)"
  by (auto simp: steps_def keep_gas_def split: prod.splits) (metis fst_conv snd_conv)

lemma steps_set_gas [steps_intros]: "steps (handler_step key address) (\<lambda>s. snd (fst s)) D (set_gas g)"
  by (auto simp: steps_def set_gas_def handler_step_refl)

text \<open>
  The result \<open>c\<close> of an inner call is accounted for once it is pushed to the inner calls of the
  handler. \<open>absorbs\<close>: an action pushes \<open>c\<close> on its way.
\<close>

definition push_call :: "CallInfo \<Rightarrow> ('s, 'x) HintProcessorBase_scheme \<Rightarrow> ('s, 'x) HintProcessorBase_scheme" where
  "push_call c h = h\<lparr>hp_inner_calls := hp_inner_calls h @ [c]\<rparr>"

definition absorbs ::
    "(('s, 'x) HintProcessorBase_scheme \<Rightarrow> 'k) \<Rightarrow> ('k \<Rightarrow> ContractAddress) \<Rightarrow>
     ('t \<Rightarrow> ('s, 'x) HintProcessorBase_scheme) \<Rightarrow> CallInfo \<Rightarrow> ('t, 'e, 'a) action \<Rightarrow> bool" where
  "absorbs key address part c m \<longleftrightarrow>
     (\<forall>s a s'. m s = (Ok a, s') \<longrightarrow> handler_step key address (push_call c (part s)) (part s'))"

definition step_from ::
    "('h \<Rightarrow> 'h \<Rightarrow> bool) \<Rightarrow> ('t \<Rightarrow> 'h) \<Rightarrow> ('e \<Rightarrow> bool) \<Rightarrow> ('t, 'e, 'a) action \<Rightarrow> 't \<Rightarrow> bool" where
  "step_from step part D m s \<longleftrightarrow> (returns D (fst (m s)) \<longrightarrow> step (part s) (part (snd (m s))))"

definition never :: "('e \<Rightarrow> bool) \<Rightarrow> ('t, 'e, 'a) action \<Rightarrow> bool" where
  "never D m \<longleftrightarrow> (\<forall>s e. fst (m s) = Err e \<longrightarrow> \<not> D e)"

named_theorems absorbs_intros "actions that push the result of an inner call"
named_theorems never_intros "actions that do not fail with a recoverable error"

lemma absorbs_push [absorbs_intros]: "absorbs key address snd c (push_inner_call c)"
  by (auto simp: absorbs_def push_inner_call_def modify_handler_def push_call_def handler_step_refl)

lemma absorbs_keep_gas [absorbs_intros]:
  "absorbs key address snd c m \<Longrightarrow> absorbs key address (\<lambda>s. snd (fst s)) c (keep_gas m)"
  by (auto simp: absorbs_def keep_gas_def split: prod.splits)

lemma absorbs_slift_Err [absorbs_intros]: "absorbs key address part c (slift (Err e))"
  by (simp add: absorbs_def slift_def)

lemma absorbs_if [absorbs_intros]:
  "absorbs key address part c m \<Longrightarrow> absorbs key address part c n \<Longrightarrow> absorbs key address part c (if b then m else n)"
  by simp

lemma absorbs_Let [absorbs_intros]: "absorbs key address part c (f x) \<Longrightarrow> absorbs key address part c (Let x f)"
  by simp

lemma absorbs_then_sret [absorbs_intros]:
  "absorbs key address part c m \<Longrightarrow> absorbs key address part c (sbind m (\<lambda>_. sret b))"
  by (auto simp: absorbs_def elim!: sbind_OkE)

lemma step_from_absorbed:
  assumes "\<And>c s'. A s = (Ok c, s') \<Longrightarrow> handler_step key address (part s) (push_call c (part s'))"
    and "\<And>c. absorbs key address part c (f c)" and "\<And>e. \<not> D e"
  shows "step_from (handler_step key address) part D (sbind A f) s"
proof -
  have "handler_step key address (part s) (part s')" if "sbind A f s = (Ok b, s')" for b s'
  proof -
    from that obtain c t where A: "A s = (Ok c, t)" and f: "f c t = (Ok b, s')"
      by (rule sbind_OkE)
    show ?thesis
      using assms(1) [OF A] assms(2) [unfolded absorbs_def, rule_format, OF f] by (rule handler_step_trans)
  qed
  then show ?thesis
    using assms(3) by (cases "sbind A f s") (auto simp: step_from_def returns_def split: result.splits)
qed

lemma steps_from: "(\<And>s. step_from step part D m s) \<Longrightarrow> steps step part D m"
  by (simp add: steps_def step_from_def)

lemma step_from_steps: "steps step part D m \<Longrightarrow> step_from step part D m s"
  by (simp add: steps_def step_from_def)

lemma step_from_smap_err: "step_from step part (\<lambda>e. D (f e)) m s \<Longrightarrow> step_from step part D (smap_err f m) s"
  by (cases "fst (m s)") (simp_all add: step_from_def smap_err_def returns_def)

lemma step_from_if:
  "(b \<Longrightarrow> step_from step part D m s) \<Longrightarrow> (\<not> b \<Longrightarrow> step_from step part D n s) \<Longrightarrow>
   step_from step part D (if b then m else n) s"
  by simp

lemma steps_with_call_state_at:
  "(\<And>vm h g. step_from step part D (f vm h g) ((vm, h), g)) \<Longrightarrow> steps step part D (with_call_state f)"
  by (auto simp: steps_def step_from_def with_call_state_def)

lemma steps_with_handler_at:
  "(\<And>vm h. step_from step part D (f h) (vm, h)) \<Longrightarrow> steps step part D (with_handler f)"
  by (auto simp: steps_def step_from_def with_handler_def)

lemma steps_never:
  assumes "never D m" and "steps step part (\<lambda>_. False) m"
  shows "steps step part D m"
  unfolding steps_def
proof (intro allI impI)
  fix s
  assume "returns D (fst (m s))"
  then have "returns (\<lambda>_. False) (fst (m s))"
    using assms(1) by (auto simp: never_def returns_def split: result.splits)
  then show "step (part s) (part (snd (m s)))"
    using assms(2) by (simp add: steps_def)
qed

lemma never_sret [never_intros]: "never D (sret a)"
  by (simp add: never_def)

lemma never_smap_err [never_intros]: "(\<And>e. \<not> D (f e)) \<Longrightarrow> never D (smap_err f m)"
  by (auto simp: never_def smap_err_def)

lemma never_map_err [never_intros]: "(\<And>e. \<not> D (f e)) \<Longrightarrow> never D (slift (map_err f r))"
  by (auto simp: never_def slift_def)

lemma never_sbind [never_intros]:
  assumes "never D m" and "\<And>a. never D (f a)"
  shows "never D (sbind m f)"
  unfolding never_def
proof (intro allI impI)
  fix s e
  assume e: "fst (sbind m f s) = Err e"
  obtain r t where m: "m s = (r, t)"
    by fastforce
  show "\<not> D e"
  proof (cases r)
    case (Ok a)
    then have "fst (f a t) = Err e"
      using e m by (simp add: sbind_def)
    then show ?thesis
      using assms(2) by (auto simp: never_def)
  next
    case (Err e')
    then have "fst (m s) = Err e"
      using e m by (simp add: sbind_def)
    then show ?thesis
      using assms(1) by (auto simp: never_def)
  qed (use e m in \<open>simp add: sbind_def\<close>)
qed

lemma never_keep_gas [never_intros]: "never D m \<Longrightarrow> never D (keep_gas m)"
  by (simp add: never_def keep_gas_def case_prod_beta)

lemma never_reads [never_intros]:
  "(\<And>h. never D (f h)) \<Longrightarrow> never D (with_handler f)"
  "(\<And>g. never D (f' g)) \<Longrightarrow> never D (with_gas f')"
  "(\<And>vm h g. never D (f'' vm h g)) \<Longrightarrow> never D (with_call_state f'')"
  by (simp_all add: never_def with_handler_def with_gas_def with_call_state_def)

lemma never_updates [never_intros]:
  "never D (set_gas g)" "never D (push_inner_call c)"
  by (auto simp: never_def set_gas_def push_inner_call_def modify_handler_def)

lemma never_Let [never_intros]: "never D (f x) \<Longrightarrow> never D (Let x f)"
  by simp

lemma never_case_prod [never_intros]: "(\<And>a b. never D (f a b)) \<Longrightarrow> never D (case x of (a, b) \<Rightarrow> f a b)"
  by (cases x) simp

text \<open>Calls that only read the state before they execute, or that fail.\<close>

named_theorems sound_call_intros "actions that meet the contract of an execution"

lemma sound_call_Err [sound_call_intros]: "sound_call Q (slift (Err e))"
  by (simp add: sound_call_def)

lemma sound_call_on_state [sound_call_intros]:
  assumes "\<And>a. sound_call Q (f a)"
  shows "sound_call Q (sbind (smap_err g (on_cached_state act)) f)"
  unfolding sound_call_def
proof (intro allI impI)
  fix state resources ctx c state' resources' ctx'
  assume ok: "events_ok ctx"
    and "sbind (smap_err g (on_cached_state act)) f (state, resources, ctx) = (Ok c, (state', resources', ctx'))"
  then obtain a t where "smap_err g (on_cached_state act) (state, resources, ctx) = (Ok a, t)"
    and f: "f a t = (Ok c, (state', resources', ctx'))"
    by (auto elim: sbind_OkE)
  then obtain state1 where t: "t = (state1, resources, ctx)"
    by (auto simp: smap_err_def on_cached_state_def split: prod.splits)
  show "context_step ctx ctx' \<and> tree_orders c = events_between ctx ctx'
    \<and> executed_tree (epc_execution_mode ctx) c \<and> Q (ci_call c)"
    using assms [of a, unfolded sound_call_def, rule_format, OF ok f [unfolded t]] .
qed

lemma sound_call_slift [sound_call_intros]:
  "(\<And>a. sound_call Q (f a)) \<Longrightarrow> sound_call Q (sbind (slift r) f)"
  by (cases r) (simp_all add: sound_call_def sbind_def)

lemma sound_call_smap_err [sound_call_intros]: "sound_call Q act \<Longrightarrow> sound_call Q (smap_err f act)"
  unfolding sound_call_def smap_err_def by (auto simp: prod_eq_iff)

lemma sound_call_if [sound_call_intros]:
  "(b \<Longrightarrow> sound_call Q act) \<Longrightarrow> (\<not> b \<Longrightarrow> sound_call Q act') \<Longrightarrow> sound_call Q (if b then act else act')"
  by simp

lemma sound_call_Let [sound_call_intros]: "sound_call Q (f x) \<Longrightarrow> sound_call Q (Let x f)"
  by simp

lemma sound_call_case_option [sound_call_intros]:
  "(x = None \<Longrightarrow> sound_call Q act) \<Longrightarrow> (\<And>a. x = Some a \<Longrightarrow> sound_call Q (f a)) \<Longrightarrow>
   sound_call Q (case x of None \<Rightarrow> act | Some a \<Rightarrow> f a)"
  by (cases x) simp_all

lemma sound_call_case_prod [sound_call_intros]:
  "(\<And>a b. sound_call Q (f a b)) \<Longrightarrow> sound_call Q (case x of (a, b) \<Rightarrow> f a b)"
  by (cases x) simp

lemma sound_call_with_exec_context [sound_call_intros]:
  "(\<And>ctx. sound_call Q (f ctx)) \<Longrightarrow> sound_call Q (with_exec_context f)"
  by (simp add: sound_call_def with_exec_context_def)

lemma sound_call_handle_empty_constructor [sound_call_intros]:
  "sound_call (\<lambda>d. cep_entry_point_type d = Constructor)
     (slift (map_err f (handle_empty_constructor E ctor calldata gas)))"
  by (auto simp: sound_call_def handle_empty_constructor_def CallExecution_default_def event_orders_def
      context_step_refl)

lemma sound_with_recursion_guard:
  assumes "sound_call Q body"
  shows "sound_call Q (with_recursion_guard body)"
  unfolding sound_call_def
proof (intro allI impI)
  fix state resources ctx c state' resources' ctx'
  assume ok: "events_ok ctx"
    and run: "with_recursion_guard body (state, resources, ctx) = (Ok c, (state', resources', ctx'))"
  define deeper where "deeper = ctx\<lparr>epc_current_recursion_depth := epc_current_recursion_depth ctx + 1\<rparr>"
  obtain ctx2 where body: "body (state, resources, deeper) = (Ok c, (state', resources', ctx2))"
    and ctx': "ctx' = drop_recursion_guard ctx2"
    using run by (cases "body (state, resources, deeper)")
      (auto simp: with_recursion_guard_def on_context_def try_increment_and_check_depth_def Let_def deeper_def
        sbind_def split: if_splits prod.splits result.splits)
  have same: "events_ok deeper" "n_events_of deeper = n_events_of ctx"
    "epc_execution_mode deeper = epc_execution_mode ctx" "n_events_of ctx' = n_events_of ctx2"
    "events_ok ctx' = events_ok ctx2"
    using ok by (simp_all add: events_ok_def n_events_of_def deeper_def epc_versioned_constants_def ctx'
        drop_recursion_guard_def)
  note c = assms [unfolded sound_call_def, rule_format, OF same(1) body]
  then have "frame ctx' = frame ctx"
    by (simp add: context_step_def frame_def deeper_def ctx' drop_recursion_guard_def)
  then show "context_step ctx ctx' \<and> tree_orders c = events_between ctx ctx'
    \<and> executed_tree (epc_execution_mode ctx) c \<and> Q (ci_call c)"
    using c same by (simp add: context_step_def events_between_def)
qed

lemma sound_call_mono: "sound_call Q act \<Longrightarrow> (\<And>d. Q d \<Longrightarrow> Q' d) \<Longrightarrow> sound_call Q' act"
  unfolding sound_call_def by blast

lemma smap_err_Ok_iff: "smap_err f m s = (Ok a, s') \<longleftrightarrow> m s = (Ok a, s')"
  by (auto simp: smap_err_def prod_eq_iff)

lemma smap_err_OkE:
  assumes "smap_err f act s = (Ok c, s')"
  obtains vm' h' where "act s = (Ok c, (vm', h'))" and "snd s' = h'"
  using assms by (cases "act s") (auto simp: smap_err_def)

lemma keep_gas_OkE:
  assumes "keep_gas (smap_err f act) ((vm, h), g) = (Ok c, s')"
  obtains vm' h' where "act (vm, h) = (Ok c, (vm', h'))" and "snd (fst s') = h'"
  using assms by (cases "act (vm, h)") (auto simp: keep_gas_def smap_err_def)

text \<open>
  The call information made from the handler at the end of a run has its events and inner calls.
\<close>

definition made_from :: "CallEntryPoint \<Rightarrow> ('s, 'x) HintProcessorBase_scheme \<Rightarrow> CallInfo \<Rightarrow> bool" where
  "made_from call h c \<longleftrightarrow> ci_call c = call \<and> ce_events (ci_execution c) = hp_events h
     \<and> ci_inner_calls c = hp_inner_calls h \<and> \<not> ce_failed (ci_execution c)
     \<and> ce_gas_consumed (ci_execution c) \<le> cep_initial_gas call"

section \<open>The shared operations of the handlers\<close>

text \<open>
  A handler of either kind: \<open>key\<close> are the fields that identify the call it runs, which no
  operation changes, and \<open>address\<close> is the contract the call runs in.
\<close>

locale handler =
  fixes key :: "('s, 'x) HintProcessorBase_scheme \<Rightarrow> 'k" and address :: "'k \<Rightarrow> ContractAddress"
  assumes key_state: "key (h\<lparr>hp_state := a\<rparr>) = key h"
    and key_resources: "key (h\<lparr>hp_resources := b\<rparr>) = key h"
    and key_context: "key (h\<lparr>hp_context := c\<rparr>) = key h"
    and key_inner_calls: "key (h\<lparr>hp_inner_calls := d\<rparr>) = key h"
    and key_events: "key (h\<lparr>hp_events := e\<rparr>) = key h"
    and key_messages: "key (h\<lparr>hp_l2_to_l1_messages := f\<rparr>) = key h"
    and key_counter: "key (h\<lparr>hp_syscall_counter := g\<rparr>) = key h"
    and key_segments: "key (h\<lparr>hp_read_only_segments := i\<rparr>) = key h"
    and key_ptr: "key (h\<lparr>hp_syscall_ptr := j\<rparr>) = key h"
    and key_values: "key (h\<lparr>hp_read_values := k\<rparr>) = key h"
    and key_keys: "key (h\<lparr>hp_accessed_keys := l\<rparr>) = key h"
begin

lemmas key_simps =
  key_state key_resources key_context key_inner_calls key_events key_messages key_counter key_segments
  key_ptr key_values key_keys

lemma steps_on_state [steps_intros]: "steps (handler_step key address) snd D (on_state act)"
  by (auto simp: steps_def on_state_def key_simps split: prod.splits intro!: handler_step_invisible)

lemma steps_reading [steps_intros]: "steps (handler_step key address) snd D (reading r)"
  by (auto simp: steps_def reading_def key_simps split: prod.splits intro!: handler_step_invisible)

lemma steps_writing [steps_intros]: "steps (handler_step key address) snd D (writing w)"
  by (auto simp: steps_def writing_def key_simps split: prod.splits intro!: handler_step_invisible)

lemma steps_allocate [steps_intros]: "steps (handler_step key address) snd D (allocate V data)"
  by (auto simp: steps_def allocate_def key_simps split: prod.splits intro!: handler_step_invisible)

lemma steps_on_vm [steps_intros]: "steps (handler_step key address) snd D (on_vm act)"
  by (auto simp: steps_def on_vm_def split: prod.splits intro!: handler_step_invisible)

lemma steps_increment_syscall_count_by [steps_intros]:
  "steps (handler_step key address) snd D (increment_syscall_count_by selector n)"
  by (auto simp: steps_def increment_syscall_count_by_def modify_handler_def key_simps intro!: handler_step_invisible)

lemma steps_push_message [steps_intros]: "steps (handler_step key address) snd D (push_message m)"
  by (auto simp: steps_def push_message_def modify_handler_def key_simps intro!: handler_step_invisible)

lemma steps_accessed_key:
  "steps (handler_step key address) snd D (modify_handler (\<lambda>h. h\<lparr>hp_accessed_keys := hs_insert k (hp_accessed_keys h)\<rparr>))"
  by (auto simp: steps_def modify_handler_def key_simps intro!: handler_step_invisible)

lemma steps_read_value:
  "steps (handler_step key address) snd D (modify_handler (\<lambda>h. h\<lparr>hp_read_values := hp_read_values h @ [v]\<rparr>))"
  by (auto simp: steps_def modify_handler_def key_simps intro!: handler_step_invisible)

lemma steps_storage [steps_intros]:
  "steps (handler_step key address) snd D (read_contract_storage R a k)"
  "steps (handler_step key address) snd D (write_contract_storage a k v)"
  unfolding read_contract_storage_def write_contract_storage_def
  by (intro steps_intros steps_accessed_key steps_read_value)+

lemma steps_consume_step: "handler_step key address h (consume_step V h)"
  by (auto simp: consume_step_def key_simps intro!: handler_step_invisible)

lemma steps_push_event [steps_intros]: "steps (handler_step key address) snd D (push_event content)"
  unfolding steps_def
proof (intro allI impI)
  fix s :: "'m \<times> ('s, 'x) HintProcessorBase_scheme"
  obtain vm h where s: "s = (vm, h)"
    by fastforce
  let ?n = "epc_n_emitted_events (hp_context h)"
  let ?max = "max_n_emitted_events (tx_event_limits (epc_versioned_constants (hp_context h)))"
  show "handler_step key address (snd s) (snd (snd (push_event content s)))"
  proof (cases "exceeds_event_size_limit (hp_versioned_constants h) (?n + 1) content")
    case (Ok u)
    then have max: "?n + 1 \<le> ?max"
      by (simp add: exceeds_event_size_limit_def Let_def hp_versioned_constants_def not_less split: if_splits)
    have n: "unat (?n + 1) = unat ?n + 1" if "events_ok (hp_context h)"
      using that by (subst unat_plus_exact) (simp_all add: events_ok_def word_le_nat_alt)
    have constants: "epc_versioned_constants ((hp_context h)\<lparr>epc_n_emitted_events := ?n + 1\<rparr>)
        = epc_versioned_constants (hp_context h)"
      by (simp add: epc_versioned_constants_def)
    show ?thesis
      using Ok max n constants unfolding s handler_step_def
      by (auto simp: push_event_def with_handler_def sbind_def slift_def modify_handler_def key_simps
          context_step_def events_ok_def frame_def n_events_of_def handler_orders_def event_orders_def
          events_between_def)
  qed (simp_all add: s push_event_def with_handler_def sbind_def slift_def handler_step_refl)
qed

lemma handler_step_push:
  "handler_step key address h h' \<Longrightarrow> handler_step key address (push_call c h) (push_call c h')"
  by (auto simp: handler_step_def push_call_def key_simps handler_orders_def)

lemma absorbs_before [absorbs_intros]:
  assumes "steps (handler_step key address) part (\<lambda>_. False) m"
    and "\<And>a. absorbs key address part c (f a)"
  shows "absorbs key address part c (sbind m f)"
  unfolding absorbs_def
proof (intro allI impI)
  fix s b s'
  assume "sbind m f s = (Ok b, s')"
  then obtain a t where m: "m s = (Ok a, t)" and f: "f a t = (Ok b, s')"
    by (rule sbind_OkE)
  show "handler_step key address (push_call c (part s)) (part s')"
    using handler_step_push [OF stepsD [OF assms(1) m], of c] assms(2) [unfolded absorbs_def, rule_format, OF f]
    by (rule handler_step_trans)
qed

lemma steps_state_update:
  "steps (handler_step key address) snd D (modify_handler (\<lambda>h. h\<lparr>hp_state := f (hp_state h)\<rparr>))"
  "steps (handler_step key address) snd D (modify_handler (\<lambda>h. h\<lparr>hp_resources := g (hp_resources h)\<rparr>))"
  by (auto simp: steps_def modify_handler_def key_simps intro!: handler_step_invisible)

lemma steps_register_visited_pcs [steps_intros]:
  "steps (handler_step key address) snd D (register_visited_pcs V k n l)"
  unfolding register_visited_pcs_def by (intro steps_intros steps_state_update)

lemma steps_add_call_resources [steps_intros]:
  "steps (handler_step key address) snd D (add_call_resources E V p)"
  unfolding add_call_resources_def by (intro steps_intros steps_state_update)

lemma steps_mark_arguments_as_accessed [steps_intros]:
  "steps (handler_step key address) snd D (mark_arguments_as_accessed V n)"
  unfolding mark_arguments_as_accessed_def by (intro steps_intros)

lemma run_vm_step:
  assumes "\<And>d c. steps (handler_step key address) snd (\<lambda>_. False) (hint d c)"
    and "run_vm hint (consumed V) (consume_step V) run h = (Ok vm', h')"
  shows "handler_step key address h h'"
  using assms(2)
proof (induction run arbitrary: h)
  case (RunConsumeStep run)
  then have "handler_step key address (consume_step V h) h'"
    by simp
  then show ?case
    using steps_consume_step handler_step_trans by blast
next
  case (RunHint d c vm on_error k)
  obtain r vm1 h1 where hint: "hint d c (vm, h) = (r, (vm1, h1))"
    by (metis prod.exhaust)
  show ?case
  proof (cases r)
    case (Ok u)
    then have "run_vm hint (consumed V) (consume_step V) (k vm1) h1 = (Ok vm', h')"
      using RunHint.prems hint by simp
    then have "handler_step key address h1 h'"
      using RunHint.IH [of "k vm1"] by simp
    moreover have "handler_step key address h h1"
      using stepsD [OF assms(1) hint [unfolded Ok]] by simp
    ultimately show ?thesis
      using handler_step_trans by blast
  qed (use RunHint.prems hint in simp_all)
qed (auto simp: handler_step_refl rbind_Ok_iff)

lemma steps_run:
  assumes "\<And>d c. steps (handler_step key address) snd (\<lambda>_. False) (hint d c)"
  shows "steps (handler_step key address) snd (\<lambda>_. False)
    (\<lambda>(vm, h). case run_vm hint (consumed V) (consume_step V) (start vm h) h of
       (Ok vm', h') \<Rightarrow> (Ok (), (vm', h'))
     | (Err e, h') \<Rightarrow> (Err (from_cairo_run_error e), (vm, h'))
     | (Panic p, h') \<Rightarrow> (Panic p, (vm, h')))"
  unfolding steps_def split_paired_All split_conv
proof (intro allI impI)
  fix vm h
  obtain r h' where run: "run_vm hint (consumed V) (consume_step V) (start vm h) h = (r, h')"
    by fastforce
  have step: "handler_step key address h h'" if "r = Ok vm'" for vm'
    using run_vm_step [of hint V "start vm h" h vm' h'] assms run that by simp
  show "handler_step key address (snd (vm, h)) (snd (snd (
      case run_vm hint (consumed V) (consume_step V) (start vm h) h of
        (Ok vm', h') \<Rightarrow> (Ok (), (vm', h'))
      | (Err e, h') \<Rightarrow> (Err (from_cairo_run_error e), (vm, h'))
      | (Panic p, h') \<Rightarrow> (Panic p, (vm, h')))))"
    if "returns (\<lambda>_. False) (fst (
      case run_vm hint (consumed V) (consume_step V) (start vm h) h of
        (Ok vm', h') \<Rightarrow> (Ok (), (vm', h'))
      | (Err e, h') \<Rightarrow> (Err (from_cairo_run_error e), (vm, h'))
      | (Panic p, h') \<Rightarrow> (Panic p, (vm, h'))))"
    using that step unfolding run by (cases r) (simp_all add: returns_def)
qed

lemma sound_borrow_into:
  assumes "\<And>s c s'. act s = (Ok c, s') \<Longrightarrow> events_ok (hp_context (snd s)) \<Longrightarrow> key (snd s) = k \<Longrightarrow>
      handler_step key address (snd s) (snd s') \<and> made_from call (snd s') c"
    and "\<And>state resources ctx. hp_context (new_handler (state, resources, ctx)) = ctx
      \<and> handler_orders (new_handler (state, resources, ctx)) = {#}
      \<and> hp_inner_calls (new_handler (state, resources, ctx)) = []
      \<and> key (new_handler (state, resources, ctx)) = k"
    and "address k = cep_storage_address call" and "cep_class_hash call \<noteq> None"
  shows "sound_call (\<lambda>d. d = call) (borrow_into new_handler vm act)"
  unfolding sound_call_def
proof (intro allI impI)
  fix state resources ctx c state' resources' ctx'
  assume ok: "events_ok ctx"
    and run: "borrow_into new_handler vm act (state, resources, ctx) = (Ok c, (state', resources', ctx'))"
  define h where "h = new_handler (state, resources, ctx)"
  note new = assms(2) [of state resources ctx, folded h_def]
  obtain vm' h' where act: "act (vm, h) = (Ok c, (vm', h'))" and ctx': "hp_context h' = ctx'"
    using run by (cases "act (vm, h)") (auto simp: borrow_into_def h_def)
  have step: "handler_step key address h h'" and made: "made_from call h' c"
    using assms(1) [OF act] ok new by simp_all
  note step = step [unfolded handler_step_def, rule_format, unfolded ctx' conjunct1 [OF new], OF ok]
  have "tree_orders c = handler_orders h'"
    using made by (cases c) (simp add: made_from_def handler_orders_def)
  moreover have "executed_tree (epc_execution_mode ctx) c"
    using made step new assms(3,4) by (cases c) (auto simp: made_from_def inner_ok_def)
  ultimately show "context_step ctx ctx' \<and> tree_orders c = events_between ctx ctx'
    \<and> executed_tree (epc_execution_mode ctx) c \<and> ci_call c = call"
    using step new made by (simp add: made_from_def)
qed

lemma sound_call_step:
  assumes "sound_call Q act" and "on_execution act (vm, h) = (Ok c, (vm', h'))"
    and "\<And>d. Q d \<Longrightarrow> is_validate_mode h \<Longrightarrow>
      cep_storage_address d = address (key h) \<or> cep_entry_point_type d = Constructor"
  shows "handler_step key address h (push_call c h')"
  unfolding handler_step_def
proof
  assume ok: "events_ok (hp_context h)"
  obtain state resources ctx where act:
    "act (hp_state h, hp_resources h, hp_context h) = (Ok c, (state, resources, ctx))"
    and h': "h' = h\<lparr>hp_state := state, hp_resources := resources, hp_context := ctx\<rparr>"
    using assms(2) by (cases "act (hp_state h, hp_resources h, hp_context h)") (auto simp: on_execution_def)
  note c = assms(1) [unfolded sound_call_def, rule_format, OF ok act]
  then have "inner_ok (epc_execution_mode (hp_context h)) (address (key h)) c"
    using assms(3) [of "ci_call c"] by (simp add: inner_ok_def is_validate_mode_def execution_mode_def)
  then show "context_step (hp_context h) (hp_context (push_call c h')) \<and> key (push_call c h') = key h
    \<and> handler_orders (push_call c h') = handler_orders h + events_between (hp_context h) (hp_context (push_call c h'))
    \<and> (\<forall>d \<in> set (hp_inner_calls (push_call c h')). d \<in> set (hp_inner_calls h)
        \<or> inner_ok (epc_execution_mode (hp_context h)) (address (key h)) d)"
    using c by (auto simp: h' push_call_def key_simps handler_orders_def)
qed

end

interpretation sierra: handler sh_call cep_storage_address
  by unfold_locales simp_all

interpretation cairo0: handler "\<lambda>h. (dh_storage_address h, dh_caller_address h)" fst
  by unfold_locales simp_all

end
