(* ===== verification/Call_Trees.thy ===== *)
theory Call_Trees
  imports Call_Invariants
begin

text \<open>
  The syscalls of both handlers make steps of the invariant, provided the executor of inner calls
  meets its contract (the locale \<open>executor\<close>); so does a whole run, and the call information
  made from the handler at its end has the properties of the contract. Hence \<open>execute\<close> meets it.
\<close>

abbreviation sierra_step :: "'s SyscallHintProcessor \<Rightarrow> 's SyscallHintProcessor \<Rightarrow> bool" where
  "sierra_step \<equiv> handler_step sh_call cep_storage_address"

abbreviation cairo0_step :: "'s DeprecatedSyscallHintProcessor \<Rightarrow> 's DeprecatedSyscallHintProcessor \<Rightarrow> bool" where
  "cairo0_step \<equiv> handler_step (\<lambda>h. (dh_storage_address h, dh_caller_address h)) fst"

abbreviation gas_handler :: "('m \<times> 'h) \<times> u64 \<Rightarrow> 'h" where
  "gas_handler \<equiv> (\<lambda>s. snd (fst s))"

fun is_syscall_error :: "SyscallExecutionError \<Rightarrow> bool" where
  "is_syscall_error (SyscallError _) = True"
| "is_syscall_error _ = False"

section \<open>Syscalls without inner calls\<close>

lemma steps_secp_tables [steps_intros]:
  "steps sierra_step snd D (on_secp256k1 act)" "steps sierra_step snd D (on_secp256r1 act)"
  by (auto simp: steps_def on_secp256k1_def on_secp256r1_def split: prod.splits intro!: handler_step_invisible)

lemma steps_segment_pointers [steps_intros]:
  "steps sierra_step snd D (modify_handler (\<lambda>h. h\<lparr>sh_execution_info_ptr := p\<rparr>))"
  "steps cairo0_step snd D (modify_handler (\<lambda>h. h\<lparr>dh_tx_signature_start_ptr := p\<rparr>))"
  "steps cairo0_step snd D (modify_handler (\<lambda>h. h\<lparr>dh_tx_info_start_ptr := p\<rparr>))"
  by (auto simp: steps_def modify_handler_def intro!: handler_step_invisible)

lemma steps_data_segments [steps_intros]:
  "steps sierra_step snd D (allocate_data_segment V data)"
  "steps sierra_step snd D (create_retdata_segment V data)"
  unfolding create_retdata_segment_def allocate_data_segment_def by (intro steps_intros)+

lemma steps_get_execution_info [steps_intros]: "steps sierra_step snd D (get_execution_info V u)"
  unfolding get_execution_info_def get_or_allocate_execution_info_segment_def allocate_execution_info_segment_def
    allocate_block_info_segment_def allocate_tx_info_segment_def allocate_tx_resource_bounds_segment_def
  by (intro steps_intros)

lemma steps_keccak [steps_intros]: "steps sierra_step gas_handler D (keccak V request)"
  unfolding keccak_def by (intro steps_intros)

lemma steps_simple_syscalls [steps_intros]:
  "steps sierra_step snd D (emit_event e)"
  "steps sierra_step snd D (get_block_hash E R n)"
  "steps sierra_step snd D (replace_class R c)"
  "steps sierra_step snd D (send_message_to_l1 m)"
  "steps sierra_step snd D (storage_read R q)"
  "steps sierra_step snd D (storage_write w)"
  unfolding emit_event_def get_block_hash_def replace_class_def send_message_to_l1_def storage_read_def
    storage_write_def by (intro steps_intros)+

lemma steps_secp [steps_intros]:
  "steps sierra_step snd D (secp256k1_add V a)"
  "steps sierra_step snd D (secp256r1_add V a)"
  "steps sierra_step snd D (secp256k1_get_point_from_x V b)"
  "steps sierra_step snd D (secp256r1_get_point_from_x V b)"
  "steps sierra_step snd D (secp256k1_get_xy c)"
  "steps sierra_step snd D (secp256r1_get_xy c)"
  "steps sierra_step snd D (secp256k1_mul V d)"
  "steps sierra_step snd D (secp256r1_mul V d)"
  "steps sierra_step snd D (secp256k1_new V e)"
  "steps sierra_step snd D (secp256r1_new V e)"
  unfolding secp256k1_add_def secp256r1_add_def secp256k1_get_point_from_x_def secp256r1_get_point_from_x_def
    secp256k1_get_xy_def secp256r1_get_xy_def secp256k1_mul_def secp256r1_mul_def secp256k1_new_def
    secp256r1_new_def by (intro steps_intros)+

lemma steps_tx_signature_segment [steps_intros]:
  "steps cairo0_step snd D (get_or_allocate_tx_signature_segment V)"
  unfolding get_or_allocate_tx_signature_segment_def allocate_tx_signature_segment_def by (intro steps_intros)

lemma steps_dep_simple_syscalls [steps_intros]:
  "steps cairo0_step snd D (dep_emit_event e)"
  "steps cairo0_step snd D (get_block_number u)"
  "steps cairo0_step snd D (get_block_timestamp u)"
  "steps cairo0_step snd D (get_caller_address u)"
  "steps cairo0_step snd D (get_contract_address u)"
  "steps cairo0_step snd D (get_sequencer_address u)"
  "steps cairo0_step snd D (get_tx_info V u)"
  "steps cairo0_step snd D (get_tx_signature V u)"
  "steps cairo0_step snd D (dep_replace_class R c)"
  "steps cairo0_step snd D (dep_send_message_to_l1 m)"
  "steps cairo0_step snd D (dep_storage_read R k)"
  "steps cairo0_step snd D (dep_storage_write w)"
  unfolding dep_emit_event_def get_block_number_def get_block_timestamp_def get_caller_address_def
    get_contract_address_def get_sequencer_address_def get_tx_info_def get_tx_signature_def
    dep_replace_class_def dep_send_message_to_l1_def dep_storage_read_def dep_storage_write_def
    verify_not_in_validate_mode_def get_or_allocate_tx_info_start_ptr_def dep_allocate_tx_info_segment_def
  by (intro steps_intros)+

section \<open>Dispatch\<close>

text \<open>The error of a syscall that is written back to the caller is recovered from.\<close>

lemma steps_respond:
  fixes cb :: "('m, 's, 'r) gas_syscall"
  assumes "steps sierra_step gas_handler is_syscall_error cb"
  shows "steps sierra_step snd (\<lambda>_. False) (\<lambda>s. respond V w (cb (s, g)))"
  unfolding steps_def
proof (intro allI impI)
  fix s :: "'m \<times> 's SyscallHintProcessor"
  assume ret: "returns (\<lambda>_. False) (fst (respond V w (cb (s, g))))"
  obtain r t g' where cb: "cb (s, g) = (r, (t, g'))"
    by (metis prod.exhaust)
  have first: "sierra_step (snd s) (snd t)" if "returns is_syscall_error r"
    using assms [unfolded steps_def, rule_format, of "(s, g)"] that by (simp add: cb)
  have second: "sierra_step (snd t) (snd (snd (writing m t)))"
    if "returns (\<lambda>_. False) (fst (writing m t))" for m :: "('m \<times> Relocatable, SyscallExecutionError, unit) action"
    using sierra.steps_writing [unfolded steps_def, rule_format, of "\<lambda>_. False" m t] that by simp
  show "sierra_step (snd s) (snd (snd (respond V w (cb (s, g)))))"
  proof (cases r)
    case (Ok a)
    then show ?thesis
      using ret first second handler_step_trans by (simp add: cb respond_def returns_def [of is_syscall_error]) blast
  next
    case (Err e)
    show ?thesis
    proof (cases "is_syscall_error e")
      case True
      then obtain data where "e = SyscallError data"
        by (cases e) simp_all
      then show ?thesis
        using ret first second handler_step_trans Err by (simp add: cb respond_def returns_def [of is_syscall_error]) blast
    next
      case False
      then have "fst (respond V w (cb (s, g))) = Err e"
        using Err by (cases e) (simp_all add: cb respond_def)
      then show ?thesis
        using ret by (simp add: returns_def)
    qed
  next
    case (Panic p)
    then show ?thesis
      using ret by (simp add: cb respond_def returns_def)
  qed
qed

lemma steps_execute_syscall [steps_intros]:
  assumes "\<And>q. steps sierra_step gas_handler is_syscall_error (cb q)"
  shows "steps sierra_step snd (\<lambda>_. False) (execute_syscall V r cb w cost)"
  unfolding execute_syscall_def by (intro steps_intros steps_respond assms)

lemma steps_dep_execute_syscall [steps_intros]:
  assumes "\<And>q. steps cairo0_step snd (\<lambda>e. D (dep_hint_error_from e)) (cb q)"
  shows "steps cairo0_step snd D (dep_execute_syscall r cb w)"
  unfolding dep_execute_syscall_def by (intro steps_intros assms)

section \<open>The end of a run\<close>

lemma steps_finalize_execution [steps_intros]:
  "steps sierra_step snd D (finalize_execution E V p n l)"
  unfolding finalize_execution_def by (intro steps_intros)

lemma steps_dep_finalize_execution [steps_intros]:
  "steps cairo0_step snd D (dep_finalize_execution E V c p i n)"
  unfolding dep_finalize_execution_def validate_run_def dep_verify_syscall_ptr_def by (intro steps_intros)

lemma steps_prepare_call_arguments [steps_intros]:
  "steps sierra_step snd D (prepare_call_arguments E V c p e)"
  "steps cairo0_step snd D (dep_prepare_call_arguments V c p)"
  unfolding prepare_call_arguments_def dep_prepare_call_arguments_def by (intro steps_intros)+

lemma five_values:
  "(case xs of [a, b, c, d, e] \<Rightarrow> f a b c d e | _ \<Rightarrow> Panic p) = Ok r \<Longrightarrow> \<exists>a b c d e. f a b c d e = Ok r"
  by (auto split: list.splits) blast

lemma checked_gas:
  assumes "(case gas of MRel _ \<Rightarrow> Err e
     | MInt g \<Rightarrow> (case to_u64 g of None \<Rightarrow> Err e'
        | Some n \<Rightarrow> (if n > m then Err e' else rbind x (\<lambda>d. Ok (f n d))))) = Ok r"
  shows "\<exists>n d. n \<le> m \<and> r = f n d"
  using assms by (auto simp: rbind_Ok_iff not_less split: MaybeRelocatable.splits option.splits if_splits)

lemma call_result_gas:
  "get_call_result V vm h = Ok r \<Longrightarrow> cr_gas_consumed r \<le> cep_initial_gas (sh_call h)"
  unfolding get_call_result_def
  by (subst (asm) rbind_Ok_iff, elim exE conjE, drule five_values, elim exE, subst (asm) rbind_Ok_iff, elim exE conjE,
      subst (asm) rbind_Ok_iff, elim exE conjE, drule checked_gas) (auto intro: word_sub_le)

lemma add_call_resources_call:
  "add_call_resources E V p (vm, h) = (Ok r, (vm', h')) \<Longrightarrow> \<exists>resources. h' = h\<lparr>hp_resources := resources\<rparr>"
  unfolding add_call_resources_def
  by (auto simp: with_vm_def with_handler_def modify_handler_def elim!: sbind_OkE)

lemma finalized_call:
  assumes "finalize_execution E V p n l s = (Ok c, s')"
  shows "ci_call c = sh_call (snd s') \<and> ce_events (ci_execution c) = hp_events (snd s')
    \<and> ci_inner_calls c = hp_inner_calls (snd s') \<and> ce_gas_consumed (ci_execution c) \<le> cep_initial_gas (ci_call c)"
proof -
  obtain t r u resources where result: "get_call_result V (fst t) (snd t) = Ok r"
    and "add_call_resources E V p t = (Ok resources, u)"
    and c: "c = CallInfo (sh_call (snd u))
      \<lparr>ce_retdata = cr_retdata r, ce_events = hp_events (snd u), ce_l2_to_l1_messages = hp_l2_to_l1_messages (snd u),
       ce_failed = cr_failed r, ce_gas_consumed = cr_gas_consumed r\<rparr>
      resources (hp_inner_calls (snd u)) (hp_read_values (snd u)) (hp_accessed_keys (snd u))"
    and s': "s' = u"
    using assms unfolding finalize_execution_def
    by (auto simp: with_vm_def with_handler_def elim!: sbind_OkE)
  then have "sh_call (snd u) = sh_call (snd t)"
    using add_call_resources_call [of E V p "fst t" "snd t" resources "fst u" "snd u"] by auto
  then show ?thesis
    using call_result_gas [OF result] by (simp add: c s')
qed

lemma dep_finalized_call:
  assumes "dep_finalize_execution E V call p i n s = (Ok c, s')"
  shows "made_from call (snd s') c"
  using assms unfolding dep_finalize_execution_def
  by (auto simp: with_vm_def with_handler_def made_from_def split: list.splits elim!: sbind_OkE)

section \<open>Calls made by syscalls\<close>

locale executor =
  fixes exec :: "'s Executor"
  assumes sound: "exec_sound exec"
begin

lemma sound_exec: "sound_call (\<lambda>d. \<exists>k. d = call\<lparr>cep_class_hash := k\<rparr>) (exec call)"
  using sound by (simp add: exec_sound_def)

lemma sound_execute_deployment:
  "sound_call (\<lambda>d. cep_entry_point_type d = Constructor) (execute_deployment E R exec ctor calldata gas)"
  unfolding execute_deployment_def execute_constructor_entry_point_def Let_def
  by (intro sound_call_intros sound_call_mono [OF sound_exec]) auto

lemma step_from_execute_inner_call:
  assumes "is_validate_mode h \<Longrightarrow> cep_storage_address call = cep_storage_address (sh_call h)"
    and "\<And>e. \<not> D e"
  shows "step_from sierra_step gas_handler D (execute_inner_call V exec call) ((vm, h), g)"
  unfolding execute_inner_call_def
proof (rule step_from_absorbed)
  fix c s'
  assume "keep_gas (smap_err SysEntryPointError (on_execution (exec call))) ((vm, h), g) = (Ok c, s')"
  then obtain vm' h' where run: "on_execution (exec call) (vm, h) = (Ok c, (vm', h'))" and s': "gas_handler s' = h'"
    by (rule keep_gas_OkE)
  have "sierra_step h (push_call c h')"
    by (rule sierra.sound_call_step [OF sound_exec run]) (use assms(1) in auto)
  then show "sierra_step (gas_handler ((vm, h), g)) (push_call c (gas_handler s'))"
    by (simp add: s')
qed (intro absorbs_intros steps_intros sierra.absorbs_before assms(2))+

lemma steps_calls [steps_intros]:
  "steps sierra_step gas_handler is_syscall_error (call_contract V R exec q)"
  "steps sierra_step gas_handler is_syscall_error (library_call V exec p)"
  "steps sierra_step gas_handler is_syscall_error (library_call_l1_handler V exec p)"
  unfolding call_contract_def library_call_def library_call_l1_handler_def execute_library_call_def Let_def
  by (intro steps_sbind steps_keep_gas steps_smap_err sierra.steps_on_state steps_with_call_state_at step_from_if
      step_from_smap_err step_from_steps [OF steps_slift] step_from_execute_inner_call; simp)+

lemma steps_deploy [steps_intros]: "steps sierra_step gas_handler is_syscall_error (deploy E V R exec request)"
proof (rule steps_never)
  show "never is_syscall_error (deploy E V R exec request)"
    unfolding deploy_def create_retdata_segment_def allocate_data_segment_def by (intro never_intros) simp_all
  have inner: "sierra_step (gas_handler s) (push_call c (gas_handler s'))"
    if run: "keep_gas (smap_err SysConstructorError (on_execution (execute_deployment E R exec ctor calldata gas))) s = (Ok c, s')"
    for s s' :: "('m \<times> 's SyscallHintProcessor) \<times> u64" and ctor calldata gas c
  proof -
    obtain vm h g where s: "s = ((vm, h), g)"
      by (metis prod.exhaust)
    obtain vm' h' where deployed: "on_execution (execute_deployment E R exec ctor calldata gas) (vm, h) = (Ok c, (vm', h'))"
      and s': "gas_handler s' = h'"
      using run unfolding s by (rule keep_gas_OkE)
    have "sierra_step h (push_call c h')"
      by (rule sierra.sound_call_step [OF sound_execute_deployment deployed]) simp
    then show ?thesis
      by (simp add: s s')
  qed
  show "steps sierra_step gas_handler (\<lambda>_. False) (deploy E V R exec request)"
    unfolding deploy_def Let_def
    by (rule steps_with_call_state, rule steps_sbind [OF steps_slift], rule steps_from, rule step_from_absorbed,
        erule inner) (intro absorbs_intros steps_intros, simp)
qed

lemma steps_dispatch_syscall: "steps sierra_step snd (\<lambda>_. False) (dispatch_syscall E V R exec selector)"
  by (cases selector) (simp_all add: dispatch_syscall_def, (intro steps_intros)+)

lemma steps_execute_hint: "steps sierra_step snd (\<lambda>_. False) (execute_hint E V R exec d c)"
proof -
  have "steps sierra_step snd (\<lambda>_. False) (execute_next_syscall E V R exec hint)" for hint
    unfolding execute_next_syscall_def verify_syscall_ptr_def increment_syscall_count_def
    by (cases hint) (simp_all, (intro steps_intros steps_dispatch_syscall)+)
  then show ?thesis
    unfolding execute_hint_def by (auto intro: steps_intros split: HintData.splits Hint.splits)
qed

lemma step_from_dep_execute_inner_call:
  assumes "is_validate_mode h \<Longrightarrow> cep_storage_address call = dh_storage_address h" and "\<And>e. \<not> D e"
  shows "step_from cairo0_step snd D (dep_execute_inner_call V exec call) (vm, h)"
  unfolding dep_execute_inner_call_def
proof (rule step_from_absorbed)
  fix c s'
  assume "smap_err DepEntryPointError (on_execution (exec call)) (vm, h) = (Ok c, s')"
  then obtain vm' h' where run: "on_execution (exec call) (vm, h) = (Ok c, (vm', h'))" and s': "snd s' = h'"
    by (rule smap_err_OkE)
  have "cairo0_step h (push_call c h')"
    by (rule cairo0.sound_call_step [OF sound_exec run]) (use assms(1) in auto)
  then show "cairo0_step (snd (vm, h)) (push_call c (snd s'))"
    by (simp add: s')
qed (intro absorbs_intros steps_intros cairo0.absorbs_before assms(2))+

lemma steps_dep_execute_library_call [steps_intros]:
  "steps cairo0_step snd (\<lambda>_. False) (dep_execute_library_call V exec k a b s d)"
  unfolding dep_execute_library_call_def
  by (intro steps_with_handler_at step_from_smap_err step_from_dep_execute_inner_call) simp_all

lemma steps_dep_call_contract [steps_intros]:
  "steps cairo0_step snd (\<lambda>_. False) (dep_call_contract V R exec q)"
  unfolding dep_call_contract_def Let_def
  by (intro steps_sbind steps_smap_err cairo0.steps_on_state steps_with_handler_at step_from_if
      step_from_smap_err step_from_steps [OF steps_slift] step_from_dep_execute_inner_call; simp)

lemma steps_dep_library_calls [steps_intros]:
  "steps cairo0_step snd (\<lambda>_. False) (delegate_call V R exec q)"
  "steps cairo0_step snd (\<lambda>_. False) (delegate_l1_handler V R exec q)"
  "steps cairo0_step snd (\<lambda>_. False) (dep_library_call V exec p)"
  "steps cairo0_step snd (\<lambda>_. False) (dep_library_call_l1_handler V exec p)"
  unfolding delegate_call_def delegate_l1_handler_def dep_library_call_def dep_library_call_l1_handler_def
  by (intro steps_intros)+

lemma steps_dep_deploy [steps_intros]: "steps cairo0_step snd (\<lambda>_. False) (dep_deploy E R exec request)"
proof -
  have inner: "cairo0_step (snd s) (push_call c (snd s'))"
    if run: "smap_err DepConstructorError (on_execution (execute_deployment E R exec ctor calldata gas)) s = (Ok c, s')"
    for s s' :: "'m \<times> 's DeprecatedSyscallHintProcessor" and ctor calldata gas c
  proof -
    obtain vm h where s: "s = (vm, h)"
      by fastforce
    obtain vm' h' where deployed: "on_execution (execute_deployment E R exec ctor calldata gas) (vm, h) = (Ok c, (vm', h'))"
      and s': "snd s' = h'"
      using run unfolding s by (rule smap_err_OkE)
    have "cairo0_step h (push_call c h')"
      by (rule cairo0.sound_call_step [OF sound_execute_deployment deployed]) simp
    then show ?thesis
      by (simp add: s s')
  qed
  show ?thesis
    unfolding dep_deploy_def Let_def
    by (intro steps_with_handler steps_sbind steps_slift steps_from step_from_absorbed inner absorbs_intros
        steps_intros) simp_all
qed

lemma steps_dep_dispatch_syscall:
  "steps cairo0_step snd (\<lambda>_. False) (dep_dispatch_syscall E V R exec selector)"
  by (cases selector) (simp_all add: dep_dispatch_syscall_def, (intro steps_intros)+)

lemma steps_dep_execute_hint: "steps cairo0_step snd (\<lambda>_. False) (dep_execute_hint E V R exec d c)"
proof -
  have "steps cairo0_step snd (\<lambda>_. False) (dep_execute_next_syscall E V R exec n)" for n
    unfolding dep_execute_next_syscall_def dep_verify_syscall_ptr_def increment_syscall_count_def
    by (intro steps_intros steps_dep_dispatch_syscall)
  then show ?thesis
    unfolding dep_execute_hint_def by (auto intro: steps_intros split: HintData.splits)
qed

lemma steps_run_entry_points [steps_intros]:
  "steps sierra_step snd (\<lambda>_. False) (run_entry_point E V R exec ep args n)"
  "steps cairo0_step snd (\<lambda>_. False) (dep_run_entry_point E V R exec pc args)"
  unfolding run_entry_point_def dep_run_entry_point_def Let_def
  by (rule sierra.steps_run [OF steps_execute_hint] cairo0.steps_run [OF steps_dep_execute_hint])+

lemma run_initialized_call:
  assumes "run_initialized E V R exec call k kind vm_context s = (Ok c, s')"
    and "events_ok (hp_context (snd s))" and "sh_call (snd s) = call"
  shows "sierra_step (snd s) (snd s') \<and> made_from call (snd s') c"
proof
  have "steps sierra_step snd (\<lambda>_. False) (run_initialized E V R exec call k kind vm_context)"
    unfolding run_initialized_def by (intro steps_intros)
  then show step: "sierra_step (snd s) (snd s')"
    using assms(1) by (rule stepsD)
  obtain p n l t where final: "finalize_execution E V p n l t = (Ok c, s')" and "\<not> ce_failed (ci_execution c)"
    using assms(1) unfolding run_initialized_def Let_def
    by (auto simp: with_handler_def smap_err_Ok_iff split: if_splits elim!: sbind_OkE)
  moreover have "sh_call (snd s') = call"
    using step assms(2,3) by (simp add: handler_step_def)
  ultimately show "made_from call (snd s') c"
    using finalized_call [OF final] by (auto simp: made_from_def)
qed

lemma sound_execute_v1_entry_point_call:
  assumes "cep_class_hash call \<noteq> None"
  shows "sound_call (\<lambda>d. d = call) (execute_v1_entry_point_call E V R exec call kind)"
  unfolding execute_v1_entry_point_call_def
  by (intro sound_call_intros sierra.sound_borrow_into [where k = call] run_initialized_call)
    (simp_all add: assms SyscallHintProcessor_new_def handler_orders_def event_orders_def)

lemma sound_execute_v0_entry_point_call:
  assumes "cep_class_hash call \<noteq> None"
  shows "sound_call (\<lambda>d. d = call) (execute_v0_entry_point_call E V R exec call kind)"
proof -
  let ?body = "\<lambda>p pc. sbind (smap_err EpPreExecutionError (dep_prepare_call_arguments V call p)) (\<lambda>(implicit_args, args).
        with_handler (\<lambda>h. sbind (dep_run_entry_point E V R exec pc args) (\<lambda>_.
          smap_err EpPostExecutionError (dep_finalize_execution E V call (hp_resources h) implicit_args (vec_len args)))))"
  have steps: "steps cairo0_step snd (\<lambda>_. False) (?body p pc)" for p pc
    by (intro steps_intros)
  have "cairo0_step (snd s) (snd s') \<and> made_from call (snd s') c" if run: "?body p pc s = (Ok c, s')" for s s' p pc c
  proof
    show "cairo0_step (snd s) (snd s')"
      using steps run by (rule stepsD)
    show "made_from call (snd s') c"
      using run by (auto simp: with_handler_def smap_err_Ok_iff split: prod.splits elim!: sbind_OkE dest!: dep_finalized_call)
  qed
  then show ?thesis
    unfolding execute_v0_entry_point_call_def
    by (intro sound_call_intros cairo0.sound_borrow_into [where k = "(cep_storage_address call, cep_caller_address call)"])
      (simp_all add: assms DeprecatedSyscallHintProcessor_new_def handler_orders_def event_orders_def)
qed

lemma sound_call_entry_point:
  "sound_call (\<lambda>d. \<exists>k. d = call\<lparr>cep_class_hash := k\<rparr>) (call_entry_point E V R exec call)"
proof -
  have "sound_call (\<lambda>d. \<exists>k. d = call\<lparr>cep_class_hash := k\<rparr>)
      (execute_entry_point_call E V R exec (call\<lparr>cep_class_hash := Some k\<rparr>) kind)" for k kind
  proof (cases kind)
    case (V0 class_v0)
    then show ?thesis
      by (simp add: execute_entry_point_call_def) (rule sound_call_mono, rule sound_execute_v0_entry_point_call, auto)
  next
    case (V1 class_v1)
    then show ?thesis
      by (simp add: execute_entry_point_call_def) (rule sound_call_mono, rule sound_execute_v1_entry_point_call, auto)
  qed
  then show ?thesis
    unfolding call_entry_point_def guarded_call_def by (intro sound_with_recursion_guard sound_call_intros)
qed

end

end
