(* ===== verification/Reference_Vm.thy ===== *)
theory Reference_Vm
  imports Vm_Memory
begin

text \<open>
  One concrete virtual machine: a write-once memory of cells, segments numbered in the order they
  are added, and programs given by a script that maps an entry point to its run. It is a
  \<open>VmApi\<close> on which the laws of memory hold that the round trips rely on, and it serves the concrete
  instances of properties of executions; no definition of the model depends on it.
\<close>

section \<open>Memory\<close>

record MemVm =
  mv_cells :: "(Relocatable \<times> MaybeRelocatable) list"
  mv_segments :: nat
  mv_returns :: "MaybeRelocatable list"

definition pointer :: "nat \<Rightarrow> usize \<Rightarrow> Relocatable" where
  "pointer index offset = \<lparr>segment_index = int index, rel_offset = offset\<rparr>"

definition mem_add :: "Relocatable \<Rightarrow> usize \<Rightarrow> (MathError, Relocatable) result" where
  "mem_add p n =
     (case checked_add (rel_offset p) n of
        Some offset \<Rightarrow> Ok (p\<lparr>rel_offset := offset\<rparr>)
      | None \<Rightarrow> Err ''RelocatableAddUsizeOffsetExceeded'')"

definition mem_sub :: "Relocatable \<Rightarrow> usize \<Rightarrow> (MathError, Relocatable) result" where
  "mem_sub p n =
     (if n \<le> rel_offset p then Ok (p\<lparr>rel_offset := rel_offset p - n\<rparr>) else Err ''RelocatableSubUsizeNegOffset'')"

definition mem_diff :: "Relocatable \<Rightarrow> Relocatable \<Rightarrow> (MathError, usize) result" where
  "mem_diff p q =
     (if segment_index p \<noteq> segment_index q then Err ''RelocatableSubDiffIndex''
      else if rel_offset q \<le> rel_offset p then Ok (rel_offset p - rel_offset q)
      else Err ''RelocatableSubUsizeNegOffset'')"

definition mem_integer :: "MemVm \<Rightarrow> Relocatable \<Rightarrow> (MemoryError, StarkFelt) result" where
  "mem_integer vm p =
     (case map_of (mv_cells vm) p of Some (MInt felt) \<Rightarrow> Ok felt | _ \<Rightarrow> Err ''ExpectedInteger'')"

definition mem_relocatable :: "MemVm \<Rightarrow> Relocatable \<Rightarrow> (MemoryError, Relocatable) result" where
  "mem_relocatable vm p =
     (case map_of (mv_cells vm) p of Some (MRel q) \<Rightarrow> Ok q | _ \<Rightarrow> Err ''ExpectedRelocatable'')"

fun mem_integers :: "MemVm \<Rightarrow> Relocatable \<Rightarrow> nat \<Rightarrow> (MemoryError, StarkFelt list) result" where
  "mem_integers vm p 0 = Ok []"
| "mem_integers vm p (Suc n) =
     rbind (mem_integer vm p) (\<lambda>felt. rbind (mem_add p 1) (\<lambda>q. rbind (mem_integers vm q n) (\<lambda>felts. Ok (felt # felts))))"

definition mem_insert :: "Relocatable \<Rightarrow> MaybeRelocatable \<Rightarrow> (MemVm, MemoryError, unit) action" where
  "mem_insert p v vm =
     (case map_of (mv_cells vm) p of
        None \<Rightarrow> (Ok (), vm\<lparr>mv_cells := (p, v) # mv_cells vm\<rparr>)
      | Some w \<Rightarrow> (if v = w then Ok () else Err ''InconsistentMemory'', vm))"

fun mem_load :: "Relocatable \<Rightarrow> MaybeRelocatable list \<Rightarrow> (MemVm, MemoryError, Relocatable) action" where
  "mem_load p [] = sret p"
| "mem_load p (v # vs) = sbind (mem_insert p v) (\<lambda>_. sbind (slift (mem_add p 1)) (\<lambda>q. mem_load q vs))"

definition mem_add_segment :: "MemVm \<Rightarrow> Relocatable \<times> MemVm" where
  "mem_add_segment vm = (pointer (mv_segments vm) 0, vm\<lparr>mv_segments := Suc (mv_segments vm)\<rparr>)"

definition mem_maybe_sub :: "MaybeRelocatable \<Rightarrow> MaybeRelocatable \<Rightarrow> (MathError, MaybeRelocatable) result" where
  "mem_maybe_sub a b =
     (case (a, b) of
        (MRel p, MRel q) \<Rightarrow> rbind (mem_diff p q) (\<lambda>n. Ok (MInt (unat n)))
      | _ \<Rightarrow> Err ''SubWrongType'')"

section \<open>The machine\<close>

definition empty_vm :: MemVm where
  "empty_vm = \<lparr>mv_cells = [], mv_segments = 2, mv_returns = []\<rparr>"

definition curve_example :: SecpCurve where
  "curve_example =
     \<lparr>curve_modulus = 7, curve_identity = \<lparr>ec_x = 0, ec_y = 0, ec_infinity = True\<rparr>,
      curve_add = (\<lambda>p q. p), curve_mul = (\<lambda>p n. p), curve_get_ys_from_x = (\<lambda>x. None),
      curve_is_on_curve = (\<lambda>p. ec_infinity p), curve_is_in_correct_subgroup = (\<lambda>p. ec_infinity p)\<rparr>"

type_synonym Script = "usize \<Rightarrow> CairoArg list \<Rightarrow> MemVm \<Rightarrow> MemVm VmRun"

definition memory_vm :: "Script \<Rightarrow> MemVm VmApi" where
  "memory_vm script =
     \<lparr>rel_add = mem_add, rel_sub = mem_sub, rel_diff = mem_diff,
      rel_add_i32 = (\<lambda>p n. mem_add p (of_int n)),
      rel_add_felt = (\<lambda>p n. mem_add p (of_nat n)),
      rel_try_from = (\<lambda>v. case v of MRel p \<Rightarrow> Ok p | MInt _ \<Rightarrow> Err ''AddressNotRelocatable''),
      maybe_sub = mem_maybe_sub,
      vm_get_integer = mem_integer, vm_get_relocatable = mem_relocatable,
      vm_get_integer_range = (\<lambda>vm p n. mem_integers vm p (unat n)),
      vm_insert_value = mem_insert,
      vm_add_memory_segment = mem_add_segment, vm_load_data = mem_load,
      vm_get_segment_used_size = (\<lambda>vm i. Some 0),
      vm_mark_address_range_as_accessed = (\<lambda>p n vm. (Ok (), vm)),
      vm_get_pc = (\<lambda>vm. pointer 0 0), vm_get_ap = (\<lambda>vm. pointer 1 0), vm_get_fp = (\<lambda>vm. pointer 1 0),
      vm_get_return_values = (\<lambda>vm n. Ok (mv_returns vm)),
      vm_builtin_runners = (\<lambda>vm. []),
      vm_relocate_trace = (\<lambda>bases vm. (Ok (), vm)),
      vm_get_relocated_trace = (\<lambda>vm. Ok []),
      vm_execute_core_hint_base = (\<lambda>hint vm. (Ok (), vm)),
      vm_get_ptr_from_var_name = (\<lambda>name ids vm. Ok (pointer 1 0)),
      vm_get_integer_from_var_name = (\<lambda>name ids vm. Ok 0),
      vm_insert_value_from_var_name = (\<lambda>name felt ids vm. (Ok (), vm)),
      vm_builtin_execute_hint = (\<lambda>extra hint constants vm. (Ok (), vm)),
      runner_new = (\<lambda>program proof_mode. Ok empty_vm),
      runner_initialize_function_runner_cairo_1 = (\<lambda>builtins vm. (Ok (), vm)),
      runner_initialize_builtins = (\<lambda>vm. (Ok (), vm)),
      runner_initialize_segments = (\<lambda>vm. vm),
      runner_run_from_entrypoint = (\<lambda>resources pc args verify_secure size vm. script pc args vm),
      runner_program_base = (\<lambda>vm. Some (pointer 0 0)),
      runner_program_data_len = (\<lambda>vm. 0),
      runner_get_initial_fp = (\<lambda>vm. Some (pointer 1 16)),
      runner_get_execution_resources = (\<lambda>vm. Ok er_default),
      runner_get_builtins_final_stack = (\<lambda>p vm. (Ok p, vm)),
      run_resources_consumed = (\<lambda>resources. resources = Some 0),
      run_resources_consume_step = map_option (\<lambda>n. n - 1),
      keccak_f1600 = (\<lambda>state. state),
      da_mode_to_felt = (\<lambda>mode. case mode of L1Da \<Rightarrow> 0 | L2Da \<Rightarrow> 1),
      eth_address_try_from = (\<lambda>felt. if felt < 2 ^ 160 then Ok felt else Err ''OutOfRange''),
      secp256k1 = curve_example, secp256r1 = curve_example\<rparr>"

lemma memory_vm_simps [simp]:
  "rel_add (memory_vm script) = mem_add" "rel_sub (memory_vm script) = mem_sub" "rel_diff (memory_vm script) = mem_diff"
  "rel_add_i32 (memory_vm script) p i = mem_add p (of_int i)"
  "rel_add_felt (memory_vm script) p felt = mem_add p (of_nat felt)"
  "rel_try_from (memory_vm script) (MRel p) = Ok p"
  "maybe_sub (memory_vm script) = mem_maybe_sub"
  "vm_get_integer (memory_vm script) = mem_integer" "vm_get_relocatable (memory_vm script) = mem_relocatable"
  "vm_get_integer_range (memory_vm script) vm p n = mem_integers vm p (unat n)"
  "vm_insert_value (memory_vm script) = mem_insert"
  "vm_add_memory_segment (memory_vm script) = mem_add_segment" "vm_load_data (memory_vm script) = mem_load"
  "vm_mark_address_range_as_accessed (memory_vm script) p n vm = (Ok (), vm)"
  "vm_get_pc (memory_vm script) vm = pointer 0 0" "vm_get_ap (memory_vm script) vm = pointer 1 0"
  "vm_get_return_values (memory_vm script) vm n = Ok (mv_returns vm)"
  "vm_relocate_trace (memory_vm script) bases vm = (Ok (), vm)"
  "vm_get_relocated_trace (memory_vm script) vm = Ok []"
  "runner_new (memory_vm script) program proof_mode = Ok empty_vm"
  "runner_initialize_function_runner_cairo_1 (memory_vm script) builtins vm = (Ok (), vm)"
  "runner_run_from_entrypoint (memory_vm script) resources pc args secure limit vm = script pc args vm"
  "runner_program_base (memory_vm script) vm = Some (pointer 0 0)"
  "runner_program_data_len (memory_vm script) vm = 0"
  "runner_get_initial_fp (memory_vm script) vm = Some (pointer 1 16)"
  "runner_get_execution_resources (memory_vm script) vm = Ok er_default"
  by (simp_all add: memory_vm_def)

lemma pointer_eq_iff [simp]: "pointer i m = pointer j n \<longleftrightarrow> i = j \<and> m = n"
  by (simp add: pointer_def)

lemma pointer_fields [simp]: "rel_offset (pointer i n) = n" "segment_index (pointer i n) = int i"
  by (simp_all add: pointer_def)

lemma mem_add_pointer [simp]: "unat m + unat n < 2 ^ 64 \<Longrightarrow> mem_add (pointer i m) n = Ok (pointer i (m + n))"
  by (simp add: mem_add_def checked_add_def pointer_def)

text \<open>Loading data into a fresh segment succeeds and leaves the other segments alone.\<close>

lemma mem_load_fresh:
  assumes "\<And>n. map_of (mv_cells vm) (pointer i n) = None \<or> unat n < unat k" and "unat k + length vs < 2 ^ 64"
  shows "\<exists>cells. mem_load (pointer i k) vs vm = (Ok (pointer i (k + of_nat (length vs))), vm\<lparr>mv_cells := cells\<rparr>)
    \<and> (\<forall>j n. j \<noteq> i \<longrightarrow> map_of cells (pointer j n) = map_of (mv_cells vm) (pointer j n))"
  using assms
proof (induction vs arbitrary: k vm)
  case Nil
  then show ?case
    by (intro exI [of _ "mv_cells vm"]) simp
next
  case (Cons v vs)
  define vm1 where "vm1 = vm\<lparr>mv_cells := (pointer i k, v) # mv_cells vm\<rparr>"
  have insert: "mem_insert (pointer i k) v vm = (Ok (), vm1)"
    using Cons.prems(1) [of k] by (simp add: mem_insert_def vm1_def)
  have next_k: "unat (k + 1) = unat k + 1"
    using Cons.prems(2) by (subst unat_plus_exact) simp_all
  have "map_of (mv_cells vm1) (pointer i n) = None \<or> unat n < unat (k + 1)" for n
    using Cons.prems(1) [of n] next_k by (auto simp: vm1_def)
  then obtain cells where cells: "mem_load (pointer i (k + 1)) vs vm1
      = (Ok (pointer i (k + 1 + of_nat (length vs))), vm1\<lparr>mv_cells := cells\<rparr>)"
    "\<forall>j n. j \<noteq> i \<longrightarrow> map_of cells (pointer j n) = map_of (mv_cells vm1) (pointer j n)"
    using Cons.IH [of vm1 "k + 1"] Cons.prems(2) next_k by auto
  moreover have "mem_add (pointer i k) 1 = Ok (pointer i (k + 1))"
    using Cons.prems(2) by simp
  ultimately show ?case
    using insert by (intro exI [of _ cells]) (simp add: sbind_def vm1_def add.assoc)
qed

section \<open>Laws of memory\<close>

text \<open>
  What the documentation of the VM promises of its memory and the callers rely on: a cell reads
  back the integer written to it, and what is written stays (the memory is immutable).
\<close>

definition memory_laws :: "'m VmApi \<Rightarrow> bool" where
  "memory_laws V \<longleftrightarrow>
     (\<forall>p felt vm vm'. vm_insert_value V p (MInt felt) vm = (Ok (), vm') \<longrightarrow> vm_get_integer V vm' p = Ok felt)
   \<and> (\<forall>p v vm vm' q felt. vm_insert_value V p v vm = (Ok (), vm') \<longrightarrow>
        vm_get_integer V vm q = Ok felt \<longrightarrow> vm_get_integer V vm' q = Ok felt)"

lemma memory_vm_laws: "memory_laws (memory_vm script)"
  unfolding memory_laws_def
  by (auto simp: memory_vm_def mem_insert_def mem_integer_def split: option.splits MaybeRelocatable.splits if_splits)

end
