(* ===== verification/Round_Trips.thy ===== *)
theory Round_Trips
  imports Reference_Vm Syscall_Base
begin

text \<open>
  Two encodings that the handlers exchange with VM memory: a 256-bit integer is written as its
  two halves and read back as the same integer, and a syscall selector is the felt whose
  big-endian bytes spell its name.
\<close>

section \<open>256-bit integers\<close>

lemma unat_of_nat_u128: "n < 2 ^ 128 \<Longrightarrow> unat (of_nat n :: u128) = n"
  by (simp add: unat_of_nat_small)

lemma two_128_less_PRIME: "(2 :: nat) ^ 128 < PRIME"
  by (simp add: PRIME_def)

lemma write_felt_Ok:
  "write_felt V felt (vm, ptr) = (Ok (), (vm', ptr')) \<longleftrightarrow>
   vm_insert_value V ptr (MInt felt) vm = (Ok (), vm') \<and> advance V ptr = (Ok (), ptr')"
  by (auto simp: write_felt_def write_maybe_relocatable_def split: prod.splits result.splits)

lemma from_memory_u128:
  assumes "vm_get_integer V vm ptr = Ok felt" and "advance V ptr = (Ok (), ptr')" and "felt < 2 ^ 128"
  shows "SierraU128_from_memory V vm ptr = (Ok (of_nat felt), ptr')"
  using assms by (simp add: SierraU128_from_memory_def sbind_def smap_err_def felt_to_u128_def)

lemma halves:
  fixes v :: nat
  assumes "v < 2 ^ 256"
  shows "(v AND mask 128) mod PRIME = v mod 2 ^ 128" and "drop_bit 128 v mod PRIME = v div 2 ^ 128"
    and "v div 2 ^ 128 < 2 ^ 128"
proof -
  show "v div 2 ^ 128 < 2 ^ 128"
    using assms by (simp add: less_mult_imp_div_less)
  then show "drop_bit 128 v mod PRIME = v div 2 ^ 128"
    using two_128_less_PRIME by (simp add: drop_bit_eq_div)
  have "v mod 2 ^ 128 < 2 ^ 128"
    by simp
  then show "(v AND mask 128) mod PRIME = v mod 2 ^ 128"
    using two_128_less_PRIME by (simp add: take_bit_eq_mod flip: take_bit_eq_mask)
qed

text \<open>C39: A 256-bit integer survives the exchange with VM memory. Where \<open>write_u256\<close> succeeds at a
  pointer, reading a \<open>SierraU256\<close> at that pointer succeeds, gives the integer that was written, and
  leaves the pointer where the writer left it.\<close>

theorem u256_round_trip:
  assumes "memory_laws V" and "v < 2 ^ 256" and "write_u256 V v (vm, ptr) = (Ok (), (vm', ptr'))"
  shows "\<exists>u. SierraU256_from_memory V vm' ptr = (Ok u, ptr') \<and> to_biguint u = v"
proof -
  obtain vm1 ptr1 where low: "write_felt V (v mod 2 ^ 128) (vm, ptr) = (Ok (), (vm1, ptr1))"
    and high: "write_felt V (v div 2 ^ 128) (vm1, ptr1) = (Ok (), (vm', ptr'))"
    using assms(3) unfolding write_u256_def halves [OF assms(2)] by (auto elim!: sbind_OkE)
  have "vm_get_integer V vm1 ptr = Ok (v mod 2 ^ 128)" and high_value: "vm_get_integer V vm' ptr1 = Ok (v div 2 ^ 128)"
    using assms(1) low high unfolding memory_laws_def write_felt_Ok by blast+
  then have low_value: "vm_get_integer V vm' ptr = Ok (v mod 2 ^ 128)"
    using assms(1) high unfolding memory_laws_def write_felt_Ok by blast
  let ?u = "\<lparr>low_val = of_nat (v mod 2 ^ 128), high_val = of_nat (v div 2 ^ 128)\<rparr> :: SierraU256"
  have "SierraU256_from_memory V vm' ptr = (Ok ?u, ptr')"
    using from_memory_u128 [OF low_value, of ptr1] from_memory_u128 [OF high_value, of ptr'] low high halves(3) [OF assms(2)]
    by (simp add: SierraU256_from_memory_def sbind_def write_felt_Ok)
  moreover have "to_biguint ?u = v"
    using halves(3) [OF assms(2)] by (simp add: to_biguint_def unat_of_nat_u128 push_bit_eq_mult)
  ultimately show ?thesis
    by blast
qed

section \<open>Selectors\<close>

text \<open>The big-endian bytes of a number, and the number of a list of bytes.\<close>

definition bytes_value :: "8 word list \<Rightarrow> nat" where
  "bytes_value bs = foldl (\<lambda>acc b. acc * 256 + unat b) 0 bs"

definition be_bytes :: "nat \<Rightarrow> nat \<Rightarrow> 8 word list" where
  "be_bytes n v = map (\<lambda>i. of_nat (v div 256 ^ (n - 1 - i))) [0..<n]"

lemma bytes_value_snoc [simp]: "bytes_value (bs @ [b]) = bytes_value bs * 256 + unat b"
  by (simp add: bytes_value_def)

lemma bytes_value_Nil [simp]: "bytes_value [] = 0"
  by (simp add: bytes_value_def)

lemma be_bytes_0 [simp]: "be_bytes 0 v = []"
  by (simp add: be_bytes_def)

lemma be_bytes_Suc: "be_bytes (Suc n) v = be_bytes n (v div 256) @ [of_nat v]"
proof -
  have "v div 256 ^ (n - i) = v div 256 div 256 ^ (n - 1 - i)" if "i < n" for i
  proof -
    have "n - i = Suc (n - 1 - i)"
      using that by simp
    then show ?thesis
      by (simp add: div_mult2_eq)
  qed
  then show ?thesis
    by (simp add: be_bytes_def)
qed

lemma unat_byte_less: "unat (b :: 8 word) < 256"
  using unat_less_2p [of b] by simp

lemma be_bytes_value: "be_bytes (k + length bs) (bytes_value bs) = replicate k 0 @ bs"
proof (induction bs rule: rev_induct)
  case Nil
  show ?case
    by (induction k) (simp_all add: be_bytes_Suc replicate_append_same)
next
  case (snoc b bs)
  have "(bytes_value bs * 256 + unat b) div 256 = bytes_value bs"
    using unat_byte_less [of b] by simp
  moreover have "of_nat (bytes_value bs) * (256 :: 8 word) = 0"
  proof -
    have "(256 :: 8 word) = 0"
      by simp
    then show ?thesis
      by (simp only: mult_zero_right)
  qed
  ultimately show ?case
    using snoc by (simp add: be_bytes_Suc)
qed

lemma value_be_bytes: "bytes_value (be_bytes n v) = v mod 256 ^ n"
proof (induction n arbitrary: v)
  case (Suc n)
  have "unat (of_nat v :: 8 word) = v mod 256"
    by (simp add: unat_of_nat)
  then show ?case
    using Suc [of "v div 256"] mod_mult2_eq [of v 256 "256 ^ n"] by (simp add: be_bytes_Suc mult.commute)
qed simp

lemma value_dropWhile: "bytes_value (dropWhile (\<lambda>b. b = 0) bs) = bytes_value bs"
proof (induction bs)
  case (Cons b bs)
  then show ?case
    by (simp add: bytes_value_def)
qed simp

lemma felt_bytes_be_eq: "felt_bytes_be felt = be_bytes 32 felt"
  by (simp add: felt_bytes_be_def be_bytes_def)

lemma string_bytes_inj: "string_bytes s = string_bytes t \<Longrightarrow> s = t"
  unfolding string_bytes_def
proof (rule map_injective)
  show "inj (\<lambda>c. of_nat (of_char c) :: 8 word)"
  proof (rule injI)
    fix c d :: char
    assume "(of_nat (of_char c) :: 8 word) = of_nat (of_char d)"
    then have "unat (of_nat (of_char c) :: 8 word) = unat (of_nat (of_char d) :: 8 word)"
      by simp
    then have "(of_char c :: nat) = of_char d"
      by (simp add: unat_of_nat)
    then show "c = d"
      by simp
  qed
qed

lemma SyscallSelector_name_inj: "SyscallSelector_name s = SyscallSelector_name t \<Longrightarrow> s = t"
  by (cases s; cases t) simp_all

lemma find_selector:
  "find (\<lambda>selector. string_bytes (SyscallSelector_name selector) = string_bytes (SyscallSelector_name s))
     SyscallSelector_iter = Some s"
proof -
  have iff: "string_bytes (SyscallSelector_name selector) = string_bytes (SyscallSelector_name s) \<longleftrightarrow> selector = s" for selector
    using string_bytes_inj SyscallSelector_name_inj by blast
  have "find (\<lambda>selector. selector = s) xs = Some s" if "s \<in> set xs" for xs
    using that by (induction xs) auto
  then show ?thesis
    unfolding iff using SyscallSelector_iter_complete by blast
qed

lemma selector_name_bytes:
  "length (SyscallSelector_name s) \<le> 22 \<and> SyscallSelector_name s \<noteq> [] \<and> hd (string_bytes (SyscallSelector_name s)) \<noteq> 0"
  by (cases s) (simp_all add: string_bytes_def of_char_def)

lemma name_value:
  "felt_from_bytes_be (string_bytes (SyscallSelector_name s)) = bytes_value (string_bytes (SyscallSelector_name s))"
proof -
  let ?name = "string_bytes (SyscallSelector_name s)"
  have "bytes_value ?name mod 256 ^ length ?name = bytes_value ?name"
    using value_be_bytes [of "length ?name" "bytes_value ?name"] be_bytes_value [of 0 ?name] by simp
  then have "bytes_value ?name < 256 ^ length ?name"
    by (metis mod_less_divisor zero_less_numeral zero_less_power)
  also have "\<dots> \<le> 256 ^ 22"
    using selector_name_bytes [of s] by (intro power_increasing) (simp_all add: string_bytes_def)
  also have "\<dots> < PRIME"
    by (simp add: PRIME_def)
  finally show ?thesis
    by (simp add: felt_from_bytes_be_def bytes_value_def)
qed

lemma decode_encoded: "SyscallSelector_try_from (felt_from_bytes_be (string_bytes (SyscallSelector_name s))) = Ok s"
proof -
  let ?name = "string_bytes (SyscallSelector_name s)"
  have name: "length ?name \<le> 22" "?name \<noteq> []" "hd ?name \<noteq> 0"
    using selector_name_bytes [of s] by (simp_all add: string_bytes_def)
  have "felt_bytes_be (felt_from_bytes_be ?name) = replicate (32 - length ?name) 0 @ ?name"
    using be_bytes_value [of "32 - length ?name" ?name] name(1) by (simp add: felt_bytes_be_eq name_value)
  moreover have "dropWhile (\<lambda>b. b = 0) (replicate (32 - length ?name) 0 @ ?name) = ?name"
    using name(2,3) by (subst dropWhile_append2) (simp_all add: dropWhile_eq_self_iff)
  ultimately show ?thesis
    using find_selector [of s] by (simp add: SyscallSelector_try_from_def)
qed

text \<open>Decoding a selector inverts its encoding. A felt decodes to a selector exactly if its
  big-endian bytes, without leading zeros, are the characters of the selector's name; in
  particular every selector is decoded from its own encoding, and from no other felt.\<close>

theorem selector_round_trip:
  assumes "raw_selector < PRIME"
  shows "SyscallSelector_try_from raw_selector = Ok selector \<longleftrightarrow>
    raw_selector = felt_from_bytes_be (string_bytes (SyscallSelector_name selector))"
proof
  let ?bytes = "dropWhile (\<lambda>b. b = 0) (felt_bytes_be raw_selector)"
  assume "SyscallSelector_try_from raw_selector = Ok selector"
  then have "find (\<lambda>s. string_bytes (SyscallSelector_name s) = ?bytes) SyscallSelector_iter = Some selector"
    by (simp add: SyscallSelector_try_from_def split: option.splits)
  then have "?bytes = string_bytes (SyscallSelector_name selector)"
    by (auto simp: find_Some_iff)
  moreover have "raw_selector < 256 ^ 32"
    using assms by (simp add: PRIME_def)
  then have "bytes_value ?bytes = raw_selector"
    by (simp add: value_dropWhile felt_bytes_be_eq value_be_bytes)
  ultimately show "raw_selector = felt_from_bytes_be (string_bytes (SyscallSelector_name selector))"
    by (simp add: name_value)
qed (simp add: decode_encoded)

theorem selector_round_trip_witness:
  "SyscallSelector_try_from (felt_from_bytes_be (string_bytes ''StorageRead'')) = Ok StorageRead"
  using selector_round_trip [of "felt_from_bytes_be (string_bytes ''StorageRead'')" StorageRead]
  by (simp add: felt_from_bytes_be_def PRIME_def)

theorem u256_round_trip_witness:
  "\<exists>u ptr'. SierraU256_from_memory (memory_vm (\<lambda>pc args vm. RunDone (Ok ()) vm))
      (fst (snd (write_u256 (memory_vm (\<lambda>pc args vm. RunDone (Ok ()) vm)) (2 ^ 200 + 5) (empty_vm, pointer 1 0))))
      (pointer 1 0) = (Ok u, ptr') \<and> to_biguint u = 2 ^ 200 + 5"
proof -
  let ?V = "memory_vm (\<lambda>pc args vm. RunDone (Ok ()) vm)"
  obtain vm' ptr' where run: "write_u256 ?V (2 ^ 200 + 5) (empty_vm, pointer 1 0) = (Ok (), (vm', ptr'))"
    by (simp add: write_u256_def sbind_def write_felt_def write_maybe_relocatable_def memory_vm_def mem_insert_def
        mem_add_def advance_def checked_add_def empty_vm_def pointer_def)
  show ?thesis
    using u256_round_trip [OF memory_vm_laws _ run] unfolding run by auto
qed

end
