(* ===== verification/Execution_Example.thy ===== *)
theory Execution_Example
  imports Call_Trees Round_Trips Example_Context Dict_State_Reader
begin

text \<open>
  A concrete execution on the reference machine: a contract of a Sierra class whose only entry
  point emits one event and returns. It serves the concrete instances of properties of
  executions; no definition of the model depends on it.
\<close>

definition class_example :: ContractClassV1 where
  "class_example =
     \<lparr>v1_program = \<lparr>program_id = 1, program_data_len = 8, program_builtins_len = 0\<rparr>,
      v1_entry_points_by_type = [(External, [\<lparr>ep1_selector = 5, ep1_offset = 0, ep1_builtins = []\<rparr>]),
        (Constructor, []), (L1Handler, [])],
      v1_bytecode_segment_lengths = Leaf 8\<rparr>"

definition contract_example :: "DictStateReader CachedState" where
  "contract_example = CachedState_new (BaseReader
     \<lparr>dict_storage_view = [], dict_address_to_nonce = [], dict_address_to_class_hash = [(7, 77)],
      dict_class_hash_to_class = [(77, V1 class_example)], dict_class_hash_to_compiled_class_hash = []\<rparr>)"

definition emit_hint :: HintData where
  "emit_hint = HintOf (Starknet (SystemCall (ResDeref \<lparr>cell_register = AP, cell_offset = 0\<rparr>)))"

definition emit_script :: Script where
  "emit_script pc args vm =
     (case args of
        [_, Single (MRel p), _, _] \<Rightarrow>
          RunHint emit_hint []
            (vm\<lparr>mv_cells :=
               [(pointer 1 0, MRel p), (p, MInt (felt_from_bytes_be (string_bytes ''EmitEvent''))),
                (p\<lparr>rel_offset := 1\<rparr>, MInt 1000000), (p\<lparr>rel_offset := 2\<rparr>, MRel p), (p\<lparr>rel_offset := 3\<rparr>, MRel p),
                (p\<lparr>rel_offset := 4\<rparr>, MRel p), (p\<lparr>rel_offset := 5\<rparr>, MRel p)]\<rparr>)
            (\<lambda>e vm. OtherRunError ''hint'')
            (\<lambda>vm. RunDone (Ok ()) (vm\<lparr>mv_returns := [MInt 900000, MInt 0, MInt 0, MRel p, MRel p]\<rparr>))
      | _ \<Rightarrow> RunDone (Err (OtherRunError ''arguments'')) vm)"

definition emit_call :: CallEntryPoint where
  "emit_call = CallEntryPoint_default\<lparr>cep_entry_point_selector := 5, cep_storage_address := 7,
     cep_initial_gas := 1000000\<rparr>"

definition context_example :: "ExecutionMode \<Rightarrow> EntryPointExecutionContext" where
  "context_example mode =
     \<lparr>epc_tx_context = tx_context_example, epc_vm_run_resources = Some 1000, epc_n_emitted_events = 3,
      epc_n_sent_messages_to_l1 = 0, epc_current_recursion_depth = 0, epc_execution_mode = mode\<rparr>"

abbreviation vm_example :: "MemVm VmApi" where
  "vm_example \<equiv> memory_vm emit_script"

abbreviation entry_point_example :: EntryPointV1 where
  "entry_point_example \<equiv> \<lparr>ep1_selector = 5, ep1_offset = 0, ep1_builtins = []\<rparr>"

lemma init_example:
  "\<exists>cells segments. initialize_execution_context reference_externals vm_example (emit_call\<lparr>cep_class_hash := Some 77\<rparr>)
     class_example = Ok \<lparr>vec_vm = \<lparr>mv_cells = cells, mv_segments = 4, mv_returns = []\<rparr>,
       vec_read_only_segments = segments, vec_initial_syscall_ptr = pointer 3 0,
       vec_entry_point = entry_point_example, vec_program_extra_data_length = 2\<rparr>"
proof -
  let ?vm = "empty_vm\<lparr>mv_segments := 3\<rparr>"
  obtain cells where load: "mem_load (pointer 2 0) (replicate 20 (MInt 0)) ?vm = (Ok (pointer 2 20), ?vm\<lparr>mv_cells := cells\<rparr>)"
    and cells: "\<forall>j n. j \<noteq> 2 \<longrightarrow> map_of cells (pointer j n) = None"
    using mem_load_fresh [of ?vm 2 0 "replicate 20 (MInt 0)"] by (auto simp: empty_vm_def)
  have "get_entry_point reference_externals class_example (emit_call\<lparr>cep_class_hash := Some 77\<rparr>) = Ok entry_point_example"
    by (simp add: get_entry_point_def emit_call_def CallEntryPoint_default_def class_example_def entry_points_of_def)
  moreover have "mem_add_segment empty_vm = (pointer 2 0, ?vm)"
    by (simp add: mem_add_segment_def empty_vm_def)
  ultimately show ?thesis
    using load cells
    by (simp add: initialize_execution_context_def sbind_def smap_err_def on_vm_def with_vm_def
      prepare_program_extra_data_def ReadOnlySegments_allocate_def at_pointer_def write_stark_felt_def write_felt_def
      write_maybe_relocatable_def advance_def new_segment_def mem_insert_def class_example_def)
     (simp add: mem_add_segment_def empty_vm_def)
qed

definition args_example :: "CairoArg list" where
  "args_example =
     [Single (MInt 1000000), Single (MRel (pointer 3 0)), Single (MRel (pointer 4 0)), Single (MRel (pointer 4 0))]"

lemma arguments_example:
  "\<exists>segments. prepare_call_arguments reference_externals vm_example (emit_call\<lparr>cep_class_hash := Some 77\<rparr>)
     (pointer 3 0) entry_point_example (\<lparr>mv_cells = cells, mv_segments = 4, mv_returns = []\<rparr>, h) =
   (Ok args_example, (\<lparr>mv_cells = cells, mv_segments = 5, mv_returns = []\<rparr>, h\<lparr>hp_read_only_segments := segments\<rparr>))"
  by (simp add: prepare_call_arguments_def sbind_def smap_err_def on_vm_def allocate_def ReadOnlySegments_allocate_def
      mem_add_segment_def felts_to_memory_def emit_call_def CallEntryPoint_default_def vec_len_def args_example_def)
    blast

definition run_vm_example :: MemVm where
  "run_vm_example =
     \<lparr>mv_cells =
        [(pointer 1 0, MRel (pointer 3 0)), (pointer 3 0, MInt (felt_from_bytes_be (string_bytes ''EmitEvent''))),
         (pointer 3 1, MInt 1000000), (pointer 3 2, MRel (pointer 3 0)), (pointer 3 3, MRel (pointer 3 0)),
         (pointer 3 4, MRel (pointer 3 0)), (pointer 3 5, MRel (pointer 3 0))], mv_segments = 5, mv_returns = []\<rparr>"

lemma run_reads [simp]:
  "k < 2 ^ 63 \<Longrightarrow> mem_integer run_vm_example (pointer 3 k) = Ok felt \<Longrightarrow>
   stark_felt_from_ptr vm_example run_vm_example (pointer 3 k) = (Ok felt, pointer 3 (k + 1))"
  "k < 2 ^ 63 \<Longrightarrow> mem_relocatable run_vm_example (pointer 3 k) = Ok p \<Longrightarrow>
   relocatable_from_ptr vm_example run_vm_example (pointer 3 k) = (Ok p, pointer 3 (k + 1))"
  by (simp_all add: sbind_def smap_err_def stark_felt_from_ptr_def felt_from_ptr_def relocatable_from_ptr_def
      advance_def word_less_nat_alt)

lemma read_example:
  "SyscallRequestWrapper_read vm_example (EmitEventRequest_read vm_example) run_vm_example (pointer 3 1)
   = (Ok (1000000, \<lparr>ev_keys = [], ev_data = []\<rparr>), pointer 3 6)"
proof -
  have "mem_integer run_vm_example (pointer 3 1) = Ok 1000000"
    "mem_relocatable run_vm_example (pointer 3 2) = Ok (pointer 3 0)" "mem_relocatable run_vm_example (pointer 3 3) = Ok (pointer 3 0)"
    "mem_relocatable run_vm_example (pointer 3 4) = Ok (pointer 3 0)" "mem_relocatable run_vm_example (pointer 3 5) = Ok (pointer 3 0)"
    by (simp_all add: mem_integer_def mem_relocatable_def run_vm_example_def)
  then show ?thesis
    by (simp add: SyscallRequestWrapper_read_def EmitEventRequest_read_def read_felt_array_def sbind_def smap_err_def
        to_u64_def mem_diff_def felt_range_from_ptr_def)
qed

lemma hint_example:
  assumes "hp_syscall_ptr h = pointer 3 0" and "hp_syscall_counter h = []" and "hp_context h = ctx"
    and "epc_tx_context ctx = tx_context_example" and "epc_n_emitted_events ctx = 3"
  shows "\<exists>vm'. execute_hint reference_externals vm_example R exec emit_hint [] (run_vm_example, h) =
    (Ok (), (vm', h\<lparr>hp_syscall_ptr := pointer 3 8, hp_syscall_counter := [(EmitEvent, 1)],
       hp_events := hp_events h @ [\<lparr>oe_order = 3, oe_event = \<lparr>ev_keys = [], ev_data = []\<rparr>\<rparr>],
       hp_context := ctx\<lparr>epc_n_emitted_events := 4\<rparr>\<rparr>))"
proof -
  have "get_ptr_from_res_operand_unchecked vm_example run_vm_example (ResDeref \<lparr>cell_register = AP, cell_offset = 0\<rparr>)
      = (Ok (pointer 3 0) :: (HintError, Relocatable) result)"
    by (simp add: get_ptr_from_res_operand_unchecked_def unwrap_def mem_relocatable_def run_vm_example_def)
  moreover have "mem_integer run_vm_example (pointer 3 0) = Ok (felt_from_bytes_be (string_bytes ''EmitEvent''))"
    by (simp add: mem_integer_def run_vm_example_def)
  then have "read_felt vm_example run_vm_example (pointer 3 0) = (Ok (felt_from_bytes_be (string_bytes ''EmitEvent'')), pointer 3 1)"
    by (simp add: smap_err_def)
  moreover have "SyscallSelector_try_from (felt_from_bytes_be (string_bytes ''EmitEvent'')) = Ok EmitEvent"
    using decode_encoded [of EmitEvent] by simp
  moreover have "exceeds_event_size_limit (epc_versioned_constants ctx) 4 \<lparr>ev_keys = [], ev_data = []\<rparr> = Ok ()"
    using assms by (simp add: exceeds_event_size_limit_def epc_versioned_constants_def example_defs vec_len_def)
  moreover have "emit_event_gas_cost (epc_gas_costs ctx) = 20000" "syscall_base_gas_cost (epc_gas_costs ctx) = 10000"
    using assms by (simp_all add: epc_gas_costs_def epc_versioned_constants_def example_defs)
  moreover have "map_of (mv_cells run_vm_example) (pointer 3 6) = None" "map_of (mv_cells run_vm_example) (pointer 3 7) = None"
    by (simp_all add: run_vm_example_def)
  ultimately show ?thesis
    using assms read_example
    by (simp add: execute_hint_def emit_hint_def execute_next_syscall_def sbind_def with_vm_def with_handler_def
        smap_err_def verify_syscall_ptr_def reading_def increment_syscall_count_def increment_syscall_count_by_def
        modify_handler_def dispatch_syscall_def execute_syscall_def hp_gas_costs_def keep_gas_def emit_event_def
        push_event_def hp_versioned_constants_def respond_def writing_def EmptyResponse_write_def
        write_maybe_relocatable_def mem_insert_def advance_def hm_insert_def)
qed

lemma run_example:
  assumes "hp_syscall_ptr h = pointer 3 0" and "hp_syscall_counter h = []" and "hp_context h = ctx"
    and "epc_tx_context ctx = tx_context_example" and "epc_n_emitted_events ctx = 3"
  shows "\<exists>vm'. run_entry_point reference_externals vm_example R exec entry_point_example args_example n
      (\<lparr>mv_cells = cells, mv_segments = 5, mv_returns = []\<rparr>, h) =
    (Ok (), (vm'\<lparr>mv_returns := [MInt 900000, MInt 0, MInt 0, MRel (pointer 3 0), MRel (pointer 3 0)]\<rparr>,
       h\<lparr>hp_syscall_ptr := pointer 3 8, hp_syscall_counter := [(EmitEvent, 1)],
         hp_events := hp_events h @ [\<lparr>oe_order = 3, oe_event = \<lparr>ev_keys = [], ev_data = []\<rparr>\<rparr>],
         hp_context := ctx\<lparr>epc_n_emitted_events := 4\<rparr>\<rparr>))"
proof -
  obtain vm' where hint: "execute_hint reference_externals vm_example R exec emit_hint [] (run_vm_example, h) =
    (Ok (), (vm', h\<lparr>hp_syscall_ptr := pointer 3 8, hp_syscall_counter := [(EmitEvent, 1)],
       hp_events := hp_events h @ [\<lparr>oe_order = 3, oe_event = \<lparr>ev_keys = [], ev_data = []\<rparr>\<rparr>],
       hp_context := ctx\<lparr>epc_n_emitted_events := 4\<rparr>\<rparr>))"
    using hint_example [OF assms] by blast
  have script: "emit_script 0 args_example \<lparr>mv_cells = cells, mv_segments = 5, mv_returns = []\<rparr> =
    RunHint emit_hint [] run_vm_example (\<lambda>e vm. OtherRunError ''hint'')
      (\<lambda>vm. RunDone (Ok ()) (vm\<lparr>mv_returns := [MInt 900000, MInt 0, MInt 0, MRel (pointer 3 0), MRel (pointer 3 0)]\<rparr>))"
    by (simp add: emit_script_def args_example_def run_vm_example_def pointer_def)
  show ?thesis
    by (simp add: run_entry_point_def script hint) blast
qed

lemma mark_accessed_example:
  "ReadOnlySegments_mark_as_accessed vm_example segments vm = (Ok (), vm)"
  unfolding ReadOnlySegments_mark_as_accessed_def
  by (induction segments) (simp_all add: sbind_def smap_err_def)

lemma finalize_example:
  assumes "sh_call h = emit_call\<lparr>cep_class_hash := Some 77\<rparr>" and "hp_syscall_counter h = [(EmitEvent, 1)]"
    and "epc_tx_context (hp_context h) = tx_context_example"
  shows "\<exists>c vm' resources. finalize_execution reference_externals vm_example previous 4 2
      (vm\<lparr>mv_returns := [MInt 900000, MInt 0, MInt 0, MRel (pointer 3 0), MRel (pointer 3 0)]\<rparr>, h) =
    (Ok c, (vm', h\<lparr>hp_resources := resources\<rparr>)) \<and> \<not> ce_failed (ci_execution c)"
proof -
  obtain syscalls where "get_additional_os_syscall_resources reference_externals os_example [(EmitEvent, 1)]
      = (Ok syscalls :: (PostExecutionError, ExecutionResources) result)"
    by (simp add: get_additional_os_syscall_resources_def os_example_def SyscallSelector_iter_def)
  moreover have "os_resources (hp_versioned_constants h) = os_example"
    using assms(3) by (simp add: hp_versioned_constants_def epc_versioned_constants_def example_defs)
  ultimately show ?thesis
    using assms
    by (simp add: finalize_execution_def sbind_def smap_err_def with_vm_def with_handler_def on_vm_def expect_def
        mark_arguments_as_accessed_def mem_sub_def mark_accessed_example get_call_result_def mem_maybe_sub_def
        mem_diff_def to_u64_def emit_call_def CallEntryPoint_default_def felt_range_from_ptr_def
        add_call_resources_def modify_handler_def hp_versioned_constants_def) blast
qed

lemma v1_call_example:
  assumes "epc_tx_context ctx = tx_context_example" and "epc_n_emitted_events ctx = 3"
  shows "\<exists>c s. execute_v1_entry_point_call reference_externals vm_example R exec (emit_call\<lparr>cep_class_hash := Some 77\<rparr>)
      class_example (state, resources, ctx) = (Ok c, s)"
proof -
  let ?call = "emit_call\<lparr>cep_class_hash := Some 77\<rparr>"
  obtain cells segments where init: "initialize_execution_context reference_externals vm_example ?call class_example
      = Ok \<lparr>vec_vm = \<lparr>mv_cells = cells, mv_segments = 4, mv_returns = []\<rparr>, vec_read_only_segments = segments,
          vec_initial_syscall_ptr = pointer 3 0, vec_entry_point = entry_point_example,
          vec_program_extra_data_length = 2\<rparr>"
    using init_example by blast
  define h where "h = SyscallHintProcessor_new (state, resources, ctx) (pointer 3 0) ?call segments"
  obtain segments' where arguments: "prepare_call_arguments reference_externals vm_example ?call (pointer 3 0)
      entry_point_example (\<lparr>mv_cells = cells, mv_segments = 4, mv_returns = []\<rparr>, h) =
    (Ok args_example, (\<lparr>mv_cells = cells, mv_segments = 5, mv_returns = []\<rparr>, h\<lparr>hp_read_only_segments := segments'\<rparr>))"
    using arguments_example by blast
  define h1 where "h1 = h\<lparr>hp_read_only_segments := segments'\<rparr>"
  define h2 where "h2 = h1\<lparr>hp_syscall_ptr := pointer 3 8, hp_syscall_counter := [(EmitEvent, 1)],
         hp_events := hp_events h1 @ [\<lparr>oe_order = 3, oe_event = \<lparr>ev_keys = [], ev_data = []\<rparr>\<rparr>],
         hp_context := ctx\<lparr>epc_n_emitted_events := 4\<rparr>\<rparr>"
  have h1: "hp_syscall_ptr h1 = pointer 3 0" "hp_syscall_counter h1 = []" "hp_context h1 = ctx"
    by (simp_all add: h1_def h_def SyscallHintProcessor_new_def)
  have run: "\<exists>vm'. run_entry_point reference_externals vm_example R exec entry_point_example args_example n
      (\<lparr>mv_cells = cells, mv_segments = 5, mv_returns = []\<rparr>, h1) =
    (Ok (), (vm'\<lparr>mv_returns := [MInt 900000, MInt 0, MInt 0, MRel (pointer 3 0), MRel (pointer 3 0)]\<rparr>, h2))" for n
    unfolding h2_def by (rule run_example [OF h1 assms])
  define h3 where "h3 = h2\<lparr>hp_state := add_visited_pcs 77 [] (hp_state h2)\<rparr>"
  have "sh_call h3 = ?call" "hp_syscall_counter h3 = [(EmitEvent, 1)]"
    "epc_tx_context (hp_context h3) = tx_context_example"
    using assms by (simp_all add: h3_def h2_def h1_def h_def SyscallHintProcessor_new_def)
  note final = finalize_example [OF this]
  have register: "register_visited_pcs vm_example 77 n k (vm, h2) = (Ok (), (vm, h3))" for n k vm
    by (simp add: register_visited_pcs_def sbind_def smap_err_def on_vm_def with_vm_def modify_handler_def h3_def)
  obtain vm' where run1: "run_entry_point reference_externals vm_example R exec entry_point_example args_example
      (bytecode_length (V1 class_example) + 2) (\<lparr>mv_cells = cells, mv_segments = 5, mv_returns = []\<rparr>, h1) =
    (Ok (), (vm'\<lparr>mv_returns := [MInt 900000, MInt 0, MInt 0, MRel (pointer 3 0), MRel (pointer 3 0)]\<rparr>, h2))"
    using run by blast
  obtain c vm'' resources' where final1: "finalize_execution reference_externals vm_example (hp_resources h1) 4 2
      (vm'\<lparr>mv_returns := [MInt 900000, MInt 0, MInt 0, MRel (pointer 3 0), MRel (pointer 3 0)]\<rparr>, h3) =
    (Ok c, (vm'', h3\<lparr>hp_resources := resources'\<rparr>))" and "\<not> ce_failed (ci_execution c)"
    using final [of "hp_resources h1" vm'] by blast
  have args: "vec_len args_example = 4"
    by (simp add: vec_len_def args_example_def)
  have "run_initialized reference_externals vm_example R exec ?call 77 class_example
      \<lparr>vec_vm = \<lparr>mv_cells = cells, mv_segments = 4, mv_returns = []\<rparr>, vec_read_only_segments = segments,
          vec_initial_syscall_ptr = pointer 3 0, vec_entry_point = entry_point_example,
          vec_program_extra_data_length = 2\<rparr> (\<lparr>mv_cells = cells, mv_segments = 4, mv_returns = []\<rparr>, h)
    = (Ok c, (vm'', h3\<lparr>hp_resources := resources'\<rparr>))"
    using arguments [folded h1_def] run1 final1 register \<open>\<not> ce_failed (ci_execution c)\<close>
    by (simp add: run_initialized_def sbind_def smap_err_def with_handler_def args Let_def)
  then show ?thesis
    by (simp add: execute_v1_entry_point_call_def init sbind_def borrow_into_def flip: h_def)
qed

lemma execute_example:
  "\<exists>c state resources ctx. execute reference_externals vm_example dict_reader emit_call
     (contract_example, er_default, (context_example mode)) = (Ok c, (state, resources, ctx))"
proof -
  let ?deeper = "(context_example mode)\<lparr>epc_current_recursion_depth := 1\<rparr>"
  define state1 where "state1 = snd (get_class_hash_at dict_reader 7 contract_example)"
  have inv: "cached_inv dict_view dict_ok contract_example"
    by (simp add: contract_example_def)
  have view: "sv_class_hash (cached_view dict_view contract_example) 7 = Ok 77"
    "sv_class (cached_view dict_view contract_example) 77 = Ok (V1 class_example)"
    by (simp_all add: contract_example_def dict_view_def unwrap_or_default_def)
  have hash: "get_class_hash_at dict_reader 7 contract_example = (Ok 77, state1)"
    using dict.get_class_hash_at_refines(2) [OF inv, of 7] view by (simp add: state1_def prod_eq_iff)
  have known: "get_compiled_contract_class dict_reader 77 state1 =
      (Ok (V1 class_example), snd (get_compiled_contract_class dict_reader 77 state1))"
    using dict.get_class_hash_at_refines(2) [OF inv, of 7] dict.get_compiled_contract_class_refines(2) [of state1 77] view
    by (simp add: state1_def prod_eq_iff)
  define state2 where "state2 = snd (get_compiled_contract_class dict_reader 77 state1)"
  obtain c s where call: "execute_v1_entry_point_call reference_externals vm_example dict_reader
      (execute_fuel 50 reference_externals vm_example dict_reader) (emit_call\<lparr>cep_class_hash := Some 77\<rparr>)
      class_example (state2, er_default, ?deeper) = (Ok c, s)"
  proof -
    have "epc_tx_context ?deeper = tx_context_example" and "epc_n_emitted_events ?deeper = 3"
      by (simp_all add: context_example_def)
    then show thesis
      using v1_call_example [of ?deeper dict_reader "execute_fuel 50 reference_externals vm_example dict_reader" state2 er_default]
        that by blast
  qed
  have fields: "cep_storage_address emit_call = 7" "cep_class_hash emit_call = None"
    "ti_version (tx_info (epc_tx_context (context_example mode))) = 3" "epc_current_recursion_depth (context_example mode) = 0"
    "max_recursion_depth (epc_versioned_constants (context_example mode)) = 50"
    by (simp_all add: emit_call_def CallEntryPoint_default_def context_example_def epc_versioned_constants_def example_defs ti_version_def)
  have "execute reference_externals vm_example dict_reader emit_call (contract_example, er_default, (context_example mode))
    = call_entry_point reference_externals vm_example dict_reader (execute_fuel 50 reference_externals vm_example dict_reader)
        emit_call (contract_example, er_default, (context_example mode))"
    by (simp add: execute_def fields)
  moreover have "guarded_call reference_externals vm_example dict_reader
      (execute_fuel 50 reference_externals vm_example dict_reader) emit_call (contract_example, er_default, ?deeper) = (Ok c, s)"
    using hash known call
    by (simp add: guarded_call_def sbind_def smap_err_def on_cached_state_def with_exec_context_def fields
        execute_entry_point_call_def Let_def flip: state2_def)
  ultimately show ?thesis
    by (cases s) (simp add: call_entry_point_def with_recursion_guard_def sbind_def on_context_def
        try_increment_and_check_depth_def Let_def fields)
qed

end
