(* ===== verification/Transaction_Example.thy ===== *)
theory Transaction_Example
  imports Transaction_Executor Execution_Example
begin

text \<open>
  Concrete transactions and an executor, on which the properties of transactions with hypotheses
  are instantiated; no definition of the model depends on them.
\<close>

definition texts_example :: ErrorTexts where
  "texts_example =
     \<lparr>felt_text = (\<lambda>_. ''0x0''), class_hash_text = (\<lambda>_. ''0x0''), entry_point_error_text = (\<lambda>_. ''call failed''),
      vm_error_text = (\<lambda>_. ''run failed''), syscall_error_text = (\<lambda>_. ''syscall failed''),
      deprecated_syscall_error_text = (\<lambda>_. ''syscall failed''), transaction_error_text = (\<lambda>_. ''failed'')\<rparr>"

text \<open>An invocation of the account 9, at which no contract is deployed.\<close>

definition invoke_example :: "TransactionVersion \<Rightarrow> InvokeTransaction" where
  "invoke_example version =
     \<lparr>invoke_tx = \<lparr>api_version = version, api_signature = [1, 2], api_nonce = 0, api_invoke_sender_address = 9,
        api_invoke_calldata = [1, 2, 3, 4], api_invoke_variant = InvokeV1 1000\<rparr>,
      invoke_tx_hash = 17, invoke_only_query = False\<rparr>"

lemma invoke_example_info:
  "AccountTransaction_create_tx_info (Invoke (invoke_example version)) =
     Deprecated \<lparr>dti_common_fields = \<lparr>caf_transaction_hash = 17, caf_version = version, caf_signature = [1, 2],
       caf_nonce = 0, caf_sender_address = 9, caf_only_query = False\<rparr>, dti_max_fee = 1000\<rparr>"
  by (simp add: AccountTransaction_create_tx_info_def InvokeTransaction_create_tx_info_def invoke_example_def
      deprecated_tx_info_def)

lemma invoke_example_version: "ti_version (AccountTransaction_create_tx_info (Invoke (invoke_example version))) = version"
  by (simp add: invoke_example_info ti_version_def)

definition executor_example :: "DictStateReader TransactionExecutor" where
  "executor_example = TransactionExecutor_new cached_example block_context_example bouncer_config_example
     TransactionExecutorConfig_default"

text \<open>The state of a transaction that has advanced the nonce of the account 9.\<close>

definition advanced_example :: "DictStateReader CachedState" where
  "advanced_example =
     CachedState
       (MutRefState (CachedState (BaseReader dict_example)
          \<lparr>initial_reads = StateMaps_default\<lparr>sm_nonces := [(9, 0)]\<rparr>, writes = StateMaps_default\<rparr> [] []))
       \<lparr>initial_reads = StateMaps_default\<lparr>sm_nonces := [(9, 0)]\<rparr>,
        writes = StateMaps_default\<lparr>sm_nonces := [(9, 1)]\<rparr>\<rparr> [] []"

lemma nonce_example:
  "handle_nonce dict_reader (AccountTransaction_create_tx_info (Invoke (invoke_example 1))) True
     (create_transactional cached_example) = (Ok (), advanced_example)"
  by (simp add: handle_nonce_def invoke_example_info is_v0_def ti_version_def ti_nonce_def ti_sender_address_def
      create_transactional_def cached_example_def CachedState_new_def StateCache_default_def StateMaps_default_def
      sbind_def smap_err_def increment_nonce_def dict_reader_def dict_get_nonce_at_def dict_example_def cache_defs
      usize_try_from_felt_def with_cache_def set_nonce_value_def unwrap_or_default_def hm_insert_def advanced_example_def)

definition nonce_changes_example :: StateChanges where
  "nonce_changes_example = StateChanges_default\<lparr>nonce_updates := [(9, 1)]\<rparr>"

lemma advanced_example_changes:
  "get_actual_state_changes dict_reader advanced_example = (Ok nonce_changes_example, advanced_example)"
  by (simp add: advanced_example_def get_actual_state_changes_def update_initial_values_of_write_only_access_def
      StateMaps_default_def sbind_def hm_keys_def cache_initial_nonce_def Let_def cache_defs hm_contains_def
      cache_state_changes_def get_storage_updates_def get_nonce_updates_def get_class_hash_updates_def
      get_compiled_class_hash_updates_def strict_subtract_mappings_def subtract_mappings_def
      nonce_changes_example_def StateChanges_default_def)

lemma advanced_example_inv: "cached_inv dict_view dict_ok advanced_example"
  by (simp add: advanced_example_def cache_inv_def reads_agree_def maps_wf_def StateMaps_default_def dict_view_def
      dict_example_def cache_view_def cache_defs unwrap_or_default_def) (simp add: hm_wf_def)

abbreviation undeployed_error :: TransactionExecutionError where
  "undeployed_error \<equiv> TxExecutionError (EpPreExecutionError (UninitializedStorageAddress 9)) 0 9
     (selector_from_name reference_externals EXECUTE_ENTRY_POINT_NAME)"

lemma undeployed_example:
  assumes "ti_sender_address (tx_info (epc_tx_context ctx)) = 9"
    and "max_recursion_depth (epc_versioned_constants ctx) = 50" and "epc_current_recursion_depth ctx = 0"
  shows "\<exists>state'. AccountTransaction_run_execute reference_externals vm_example dict_reader (Invoke (invoke_example 1))
      ((create_transactional advanced_example, er_default, ctx), gas) = (Err undeployed_error, ((state', er_default, ctx), gas))"
proof -
  let ?start = "create_transactional advanced_example"
  define state1 where "state1 = snd (get_class_hash_at dict_reader 9 ?start)"
  define state2 where "state2 = snd (get_class_hash_at dict_reader 9 state1)"
  have inv: "cached_inv dict_view dict_ok ?start"
    by (simp add: advanced_example_inv)
  have view: "sv_class_hash (cached_view dict_view ?start) 9 = Ok 0"
    by (simp add: advanced_example_def cache_view_def cache_defs StateMaps_default_def dict_view_def dict_example_def
        unwrap_or_default_def overlay_def or_else_def)
  have first: "get_class_hash_at dict_reader 9 ?start = (Ok 0, state1)"
    using dict.get_class_hash_at_refines(2) [OF inv, of 9] view by (simp add: state1_def prod_eq_iff)
  have second: "get_class_hash_at dict_reader 9 state1 = (Ok 0, state2)"
    using dict.get_class_hash_at_refines(2) [OF inv, of 9] dict.get_class_hash_at_refines(2) [of state1 9] view
    by (simp add: state1_def state2_def prod_eq_iff)
  have call: "execute reference_externals vm_example dict_reader call (state1, er_default, ctx)
      = (Err (EpPreExecutionError (UninitializedStorageAddress 9)), (state2, er_default, ctx))"
    if "cep_storage_address call = 9" for call
    by (simp add: execute_def assms call_entry_point_def with_recursion_guard_def sbind_def on_context_def
        try_increment_and_check_depth_def drop_recursion_guard_def Let_def guarded_call_def smap_err_def on_cached_state_def
        that second)
  show ?thesis
    by (simp add: AccountTransaction_run_execute_def InvokeTransaction_run_execute_def paying_gas_def with_gas_def
        keep_gas_def with_exec_context_def Let_def sbind_def smap_err_def on_cached_state_def assms(1) first call invoke_example_def)
qed

lemma undeployed_error_text: "\<exists>shown. TransactionExecutionError_to_string texts_example undeployed_error = Ok shown"
  by (simp add: TransactionExecutionError_to_string_def numeral_2_eq_2 prefixed_def gen_transaction_execution_error_trace_def
      gen_error_trace_from_entry_point_error_def texts_example_def finalize_error_stack_def frame_preamble_def
      decimal.simps [of 0] newline_def TRACE_LENGTH_CAP_def TRACE_EXTRA_CHARS_SLACK_def)

section \<open>Receipts\<close>

lemma receipt_exists:
  assumes "versioned_constants (block_context tx_context) = vc" and "use_kzg_da (block_info (block_context tx_context)) = kzg"
    and "enforce_fee (tx_info tx_context) = Ok enforced"
    and "count_for_fee_charge E changes sender (fee_token_address tx_context) = counts"
    and "vc_get_additional_os_tx_resources E vc type (StarknetResources_new calldata signature code counts payload infos) kzg
      = (Ok extra :: (TransactionExecutionError, ExecutionResources) result)"
    and "calculate_l1_gas_by_vm_usage E vc (er_filter_unused_builtins E (er_add E resources extra)) reverted = Ok gas"
  shows "\<exists>receipt. TransactionReceipt_from_params E
      \<lparr>rcp_tx_context = tx_context, rcp_calldata_length = calldata, rcp_signature_length = signature, rcp_code_size = code,
       rcp_state_changes = changes, rcp_sender_address = sender, rcp_l1_handler_payload_size = payload, rcp_call_infos = infos,
       rcp_execution_resources = resources, rcp_tx_type = type, rcp_reverted_steps = reverted\<rparr> = Ok receipt
    \<and> receipt_resources receipt = \<lparr>tr_starknet_resources = StarknetResources_new calldata signature code counts payload infos,
      tr_vm_resources = er_filter_unused_builtins E (er_add E resources extra), tr_n_reverted_steps = reverted\<rparr>"
  using assms
  by (cases "enforced \<or> type = TxL1Handler")
    (auto simp: TransactionReceipt_from_params_def Let_def calculate_tx_fee_def TransactionResources_to_gas_vector_def)

abbreviation invoke_context_example :: TransactionContext where
  "invoke_context_example \<equiv>
     to_tx_context block_context_example (AccountTransaction_create_tx_info (Invoke (invoke_example 1)))"

definition nonce_count_example :: StateChangesCount where
  "nonce_count_example = count_example\<lparr>n_modified_contracts := 1\<rparr>"

lemma nonce_changes_count:
  "a \<noteq> 9 \<Longrightarrow> count_for_fee_charge reference_externals nonce_changes_example (Some 9) a = nonce_count_example"
  by (simp add: count_for_fee_charge_def nonce_changes_example_def StateChanges_default_def get_modified_contracts_def
      nonce_count_example_def count_example_def hm_len_def hs_len_def hm_keys_def hs_from_def hs_extend_def hs_remove_def
      hs_insert_def hm_contains_def)

lemma invoke_receipt_example:
  "\<exists>receipt. TransactionReceipt_from_account_tx reference_externals (Invoke (invoke_example 1)) invoke_context_example
     nonce_changes_example er_default [] 0 = Ok receipt"
proof -
  have chain: "block_context invoke_context_example = block_context_example"
    "versioned_constants block_context_example = vc_example" "use_kzg_da (block_info block_context_example)"
    "ti_sender_address (tx_info invoke_context_example) = 9" "fee_token_address invoke_context_example \<noteq> 9"
    "enforce_fee (tx_info invoke_context_example) = Ok True"
    by (simp_all add: to_tx_context_def block_context_example_def block_info_example_def invoke_example_info ti_sender_address_def
        fee_token_address_def chain_fee_token_address_def get_by_fee_type_def ti_fee_type_def fee_type_def ti_version_def)
  have lengths: "calldata_length (Invoke (invoke_example 1)) = 4" "signature_length (Invoke (invoke_example 1)) = 2"
    "declare_code_size (Invoke (invoke_example 1)) = 0" "tx_type (Invoke (invoke_example 1)) = TxInvokeFunction"
    by (simp_all add: calldata_length_def signature_length_def declare_code_size_def tx_type_def invoke_example_def vec_len_def)
  have os: "vc_get_additional_os_tx_resources reference_externals vc_example TxInvokeFunction
      (StarknetResources_new 4 2 0 nonce_count_example None []) True =
    (Ok \<lparr>er_n_steps = 197, er_n_memory_holes = 0, er_builtin_instance_counter = [(''poseidon'', 3)]\<rparr>
      :: (TransactionExecutionError, ExecutionResources) result)"
    by (simp add: StarknetResources_new_def calculate_events_resources_def MessageL1CostInfo_calculate_def
        get_message_segment_length_def vc_get_additional_os_tx_resources_def nonce_count_example_def count_example_def
        get_onchain_data_segment_length_def get_additional_os_tx_resources_def resources_for_tx_type_def
        resources_params_for_tx_type_def os_kzg_da_resources_def poseidon_hash_many_cost_def vc_example_def os_example_def
        TransactionType_iter_def er_default_def reference_externals_def reference_builtin_name_def merge_counters_def
        counter_value_def hm_keys_def)
  obtain gas where gas: "calculate_l1_gas_by_vm_usage reference_externals vc_example
     (er_filter_unused_builtins reference_externals (er_add reference_externals er_default
        \<lparr>er_n_steps = 197, er_n_memory_holes = 0, er_builtin_instance_counter = [(''poseidon'', 3)]\<rparr>)) 0 = Ok gas"
    by (simp add: calculate_l1_gas_by_vm_usage_def vm_resource_usage_for_fee_def prover_builtins_def total_n_steps_def
      builtin_count_def vm_resources_example_def vc_example_def ratio_def reference_externals_def reference_builtin_name_def
      hm_remove_def hm_insert_def N_STEPS_RESOURCE_def from_l1_gas_def u128_from_usize_def hm_keys_def merge_counters_def
      counter_value_def er_default_def)
  have at: "versioned_constants (block_context invoke_context_example) = vc_example"
    "use_kzg_da (block_info (block_context invoke_context_example)) = True"
    by (simp_all only: chain)
  show ?thesis
    unfolding TransactionReceipt_from_account_tx_def chain lengths
    using receipt_exists [OF at chain(6) nonce_changes_count [OF chain(5)] os gas] by blast
qed

lemma reverted_example:
  "\<exists>info state' gas'. run_or_revert texts_example reference_externals vm_example dict_reader (Invoke (invoke_example 1))
     invoke_context_example False False (advanced_example, gas) = (Ok info, (state', gas')) \<and> vec_revert_error info \<noteq> None"
proof -
  let ?tx = "Invoke (invoke_example 1)"
  have chain: "block_context invoke_context_example = block_context_example" "versioned_constants block_context_example = vc_example"
    "ti_sender_address (tx_info invoke_context_example) = 9" "\<not> is_v0 (tx_info invoke_context_example)"
    by (simp_all add: to_tx_context_def block_context_example_def invoke_example_info ti_sender_address_def is_v0_def ti_version_def)
  let ?new = "\<lparr>epc_tx_context = invoke_context_example, epc_vm_run_resources = Some 4000000, epc_n_emitted_events = 0,
      epc_n_sent_messages_to_l1 = 0, epc_current_recursion_depth = 0, epc_execution_mode = Execute\<rparr>"
  have new: "new_invoke reference_externals invoke_context_example False = Ok ?new"
    by (simp add: new_invoke_def EntryPointExecutionContext_new_def max_steps_def chain block_upper_bound_def vc_example_def del: One_nat_def)
  obtain overhead where "resources_for_tx_type reference_externals os_example TxInvokeFunction 4
      = (Ok overhead :: (TransactionExecutionError, ExecutionResources) result)"
    by (simp add: resources_for_tx_type_def resources_params_for_tx_type_def os_example_def TransactionType_iter_def
        reference_externals_def)
  moreover have "calldata_length ?tx = 4" "tx_type ?tx = TxInvokeFunction" "os_resources vc_example = os_example"
    by (simp_all add: calldata_length_def tx_type_def invoke_example_def vec_len_def vc_example_def)
  ultimately obtain n where n: "subtract_validation_and_overhead_steps reference_externals None (tx_type ?tx) (calldata_length ?tx) ?new
      = ((Ok n :: (TransactionExecutionError, usize) result), ?new\<lparr>epc_vm_run_resources := Some n\<rparr>)"
    by (simp add: subtract_validation_and_overhead_steps_def epc_versioned_constants_def chain subtract_steps_def
        n_remaining_steps_def Let_def del: One_nat_def)
  let ?ctx = "?new\<lparr>epc_vm_run_resources := Some n\<rparr>"
  obtain state1 where fails: "AccountTransaction_run_execute reference_externals vm_example dict_reader ?tx
      ((create_transactional advanced_example, er_default, ?ctx), gas) = (Err undeployed_error, ((state1, er_default, ?ctx), gas))"
    using undeployed_example [of ?ctx gas] by (auto simp: chain epc_versioned_constants_def vc_example_def simp del: One_nat_def)
  obtain receipt where receipt: "TransactionReceipt_from_account_tx reference_externals ?tx invoke_context_example
      nonce_changes_example er_default [] 0 = Ok receipt"
    using invoke_receipt_example by blast
  obtain shown where shown: "TransactionExecutionError_to_string texts_example undeployed_error
      = (Ok shown :: (TransactionExecutionError, string) result)"
    using undeployed_error_text by blast
  have "execute_or_revert texts_example reference_externals vm_example dict_reader ?tx invoke_context_example ?ctx n None
      nonce_changes_example False ((advanced_example, er_default), gas)
    = (Ok (new_reverted None shown (receipt\<lparr>receipt_fee := receipt_fee receipt\<rparr>)), ((abort state1, er_default), gas))"
    unfolding execute_or_revert_def split_conv fails
    by (simp add: catch_unwound_def n_remaining_steps_def option_iter_def receipt shown PostExecutionReport_new_def success_report_def
       del: One_nat_def)
  then show ?thesis
    by (simp add: run_or_revert_def is_non_revertible_def chain run_revertible_def with_new_resources_def new sbind_def
        handle_validate_tx_def n on_tx_state_def smap_err_def advanced_example_changes new_reverted_def del: One_nat_def)
qed

lemma transaction_example:
  "\<exists>info state'. Transaction_execute texts_example reference_externals vm_example dict_reader
     (AccountTx (Invoke (invoke_example 1))) block_context_example False False cached_example = (Ok info, state')"
proof -
  let ?tx = "Invoke (invoke_example 1)"
  have tx: "tx_info invoke_context_example = AccountTransaction_create_tx_info ?tx"
    by (simp add: to_tx_context_def)
  have pre: "perform_pre_validation_stage reference_externals dict_reader ?tx invoke_context_example False True
      (create_transactional cached_example) = (Ok (), advanced_example)"
    by (simp add: perform_pre_validation_stage_def tx sbind_def nonce_example del: One_nat_def)
  obtain info state' gas' where "run_or_revert texts_example reference_externals vm_example dict_reader ?tx
      invoke_context_example False False (advanced_example, tx_initial_gas (versioned_constants block_context_example))
      = (Ok info, (state', gas'))"
    using reverted_example by blast
  moreover have "verify_tx_version ?tx 1 = Ok ()"
    by (simp add: verify_tx_version_def allowed_versions_def)
  ultimately have "\<exists>info state'. Transaction_execute_raw texts_example reference_externals vm_example dict_reader (AccountTx ?tx)
      block_context_example False False (create_transactional cached_example) = (Ok info, state')"
    by (simp add: Transaction_execute_raw_def AccountTransaction_execute_raw_def Let_def tx invoke_example_version sbind_def
        smap_err_def pre with_initial_gas_def handle_fee_def del: One_nat_def)
  then show ?thesis
    by (auto simp: Transaction_execute_def ExecutableTransaction_execute_def)
qed

section \<open>A declaration\<close>

definition declare_example :: DeclareTransaction where
  "declare_example =
     \<lparr>declare_tx = \<lparr>api_version = 0, api_signature = [], api_nonce = 0, api_declare_class_hash = 88,
        api_declare_sender_address = 7, api_declare_variant = DeclareV0 0\<rparr>,
      declare_tx_hash = 18, declare_only_query = False,
      declare_class_info = \<lparr>info_contract_class = V0 \<lparr>v0_program =
          \<lparr>program_id = 2, program_data_len = 10, program_builtins_len = 0\<rparr>, v0_entry_points_by_type = []\<rparr>,
        info_sierra_program_length = 0, info_abi_length = 20\<rparr>\<rparr>"

abbreviation declare_context_example :: TransactionContext where
  "declare_context_example \<equiv> to_tx_context block_context_example (AccountTransaction_create_tx_info (Declare declare_example))"

definition declared_example :: "DictStateReader CachedState" where
  "declared_example =
     CachedState (MutRefState cached_example)
       \<lparr>initial_reads = StateMaps_default, writes = StateMaps_default\<lparr>sm_declared_contracts := [(88, True)]\<rparr>\<rparr>
       [(88, info_contract_class (declare_class_info declare_example))] []"

lemma declare_run_example:
  "DeclareTransaction_declare dict_reader declare_example (create_transactional cached_example) = (Ok None, declared_example)"
  by (simp add: DeclareTransaction_declare_def declare_example_def sbind_def smap_err_def set_contract_class_def
      create_transactional_def CachedState_new_def StateCache_default_def declare_contract_def hm_insert_def
      StateMaps_default_def declared_example_def)

lemma declared_example_changes:
  "get_actual_state_changes dict_reader declared_example = (Ok StateChanges_default, declared_example)"
  by (simp add: declared_example_def get_actual_state_changes_def update_initial_values_of_write_only_access_def
      StateMaps_default_def sbind_def hm_keys_def cache_state_changes_def get_storage_updates_def get_nonce_updates_def
      get_class_hash_updates_def get_compiled_class_hash_updates_def strict_subtract_mappings_def subtract_mappings_def
      StateChanges_default_def)

definition declare_resources_example :: TransactionResources where
  "declare_resources_example =
     \<lparr>tr_starknet_resources = StarknetResources_new 0 0 340 count_example None [],
      tr_vm_resources = \<lparr>er_n_steps = 153, er_n_memory_holes = 0, er_builtin_instance_counter = [(''poseidon'', 2)]\<rparr>,
      tr_n_reverted_steps = 0\<rparr>"

lemma declare_receipt_example:
  "\<exists>receipt. TransactionReceipt_from_account_tx reference_externals (Declare declare_example) declare_context_example
     StateChanges_default er_default [] 0 = Ok receipt \<and> receipt_resources receipt = declare_resources_example"
proof -
  have chain: "block_context declare_context_example = block_context_example"
    "versioned_constants block_context_example = vc_example" "use_kzg_da (block_info block_context_example)"
    "ti_sender_address (tx_info declare_context_example) = 7" "enforce_fee (tx_info declare_context_example) = Ok False"
    by (simp_all add: to_tx_context_def block_context_example_def block_info_example_def AccountTransaction_create_tx_info_def
        DeclareTransaction_create_tx_info_def declare_example_def deprecated_tx_info_def ti_sender_address_def)
  have lengths: "calldata_length (Declare declare_example) = 0" "signature_length (Declare declare_example) = 0"
    "declare_code_size (Declare declare_example) = 340" "tx_type (Declare declare_example) = TxDeclare"
    by (simp_all add: calldata_length_def signature_length_def declare_code_size_def tx_type_def declare_example_def vec_len_def
        code_size_def WORD_WIDTH_def)
  have os: "vc_get_additional_os_tx_resources reference_externals vc_example TxDeclare
      (StarknetResources_new 0 0 340 count_example None []) True =
    (Ok \<lparr>er_n_steps = 153, er_n_memory_holes = 0, er_builtin_instance_counter = [(''poseidon'', 2)]\<rparr>
      :: (TransactionExecutionError, ExecutionResources) result)"
    by (simp add: StarknetResources_new_def calculate_events_resources_def MessageL1CostInfo_calculate_def
        get_message_segment_length_def vc_get_additional_os_tx_resources_def count_example_def
        get_onchain_data_segment_length_def get_additional_os_tx_resources_def resources_for_tx_type_def
        resources_params_for_tx_type_def os_kzg_da_resources_def poseidon_hash_many_cost_def vc_example_def os_example_def
        TransactionType_iter_def er_default_def reference_externals_def reference_builtin_name_def merge_counters_def
        counter_value_def hm_keys_def)
  have filtered: "er_filter_unused_builtins reference_externals (er_add reference_externals er_default
        \<lparr>er_n_steps = 153, er_n_memory_holes = 0, er_builtin_instance_counter = [(''poseidon'', 2)]\<rparr>)
     = \<lparr>er_n_steps = 153, er_n_memory_holes = 0, er_builtin_instance_counter = [(''poseidon'', 2)]\<rparr>"
    by (simp add: reference_externals_def merge_counters_def counter_value_def hm_keys_def er_default_def)
  obtain gas where gas: "calculate_l1_gas_by_vm_usage reference_externals vc_example
     (er_filter_unused_builtins reference_externals (er_add reference_externals er_default
        \<lparr>er_n_steps = 153, er_n_memory_holes = 0, er_builtin_instance_counter = [(''poseidon'', 2)]\<rparr>)) 0 = Ok gas"
    unfolding filtered
    by (simp add: calculate_l1_gas_by_vm_usage_def vm_resource_usage_for_fee_def prover_builtins_def total_n_steps_def
      builtin_count_def vc_example_def ratio_def reference_externals_def reference_builtin_name_def
      hm_remove_def hm_insert_def N_STEPS_RESOURCE_def from_l1_gas_def u128_from_usize_def hm_keys_def)
  have at: "versioned_constants (block_context declare_context_example) = vc_example"
    "use_kzg_da (block_info (block_context declare_context_example)) = True"
    by (simp_all only: chain)
  show ?thesis
    unfolding TransactionReceipt_from_account_tx_def chain lengths declare_resources_example_def
    using receipt_exists [OF at chain(5) no_changes_count os gas] unfolding filtered by blast
qed

lemma declare_executed_example:
  "\<exists>info. Transaction_execute_raw texts_example reference_externals vm_example dict_reader (AccountTx (Declare declare_example))
     block_context_example False True (create_transactional cached_example) = (Ok info, declared_example)
   \<and> tei_actual_resources info = declare_resources_example \<and> non_optional_call_infos info = []"
proof -
  let ?tx = "Declare declare_example"
  have info: "tx_info declare_context_example = AccountTransaction_create_tx_info ?tx"
    "is_v0 (AccountTransaction_create_tx_info ?tx)" "ti_version (AccountTransaction_create_tx_info ?tx) = 0"
    by (simp_all add: to_tx_context_def is_v0_def ti_version_def AccountTransaction_create_tx_info_def
        DeclareTransaction_create_tx_info_def declare_example_def deprecated_tx_info_def)
  have new: "\<exists>ctx. new_invoke reference_externals declare_context_example False = Ok ctx"
    "\<exists>ctx. new_validate reference_externals declare_context_example False = Ok ctx"
    by (simp_all add: new_invoke_def new_validate_def EntryPointExecutionContext_new_def max_steps_def)
  obtain ctx ctx' where new: "new_invoke reference_externals declare_context_example False = Ok ctx"
    "new_validate reference_externals declare_context_example False = Ok ctx'"
    using new by blast
  obtain receipt where receipt: "TransactionReceipt_from_account_tx reference_externals ?tx declare_context_example
      StateChanges_default er_default [] 0 = Ok receipt" "receipt_resources receipt = declare_resources_example"
    using declare_receipt_example by blast
  have "run_non_revertible reference_externals vm_example dict_reader ?tx declare_context_example True False
      (create_transactional cached_example, gas) = (Ok (new_accepted None None receipt), (declared_example, gas))" for gas
    by (simp add: run_non_revertible_def with_new_resources_def sbind_def new handle_validate_tx_def validate_tx_def info
        in_context_def AccountTransaction_run_execute_def DeclareTransaction_run_execute_def keep_gas_def on_cached_state_def
        declare_run_example on_tx_state_def smap_err_def declared_example_changes with_resources_def option_iter_def
        receipt PostExecutionReport_new_def success_report_def)
  moreover have "verify_tx_version ?tx 0 = Ok ()"
    by (simp add: verify_tx_version_def allowed_versions_def)
  ultimately show ?thesis
    by (simp add: Transaction_execute_raw_def AccountTransaction_execute_raw_def Let_def info sbind_def smap_err_def
        perform_pre_validation_stage_def handle_nonce_def with_initial_gas_def run_or_revert_def is_non_revertible_def
        handle_fee_def new_accepted_def receipt(2) non_optional_call_infos_def option_iter_def)
qed

definition declare_weights_example :: BouncerWeights where
  "declare_weights_example =
     \<lparr>bw_builtin_count = BuiltinCount_default\<lparr>bc_poseidon := 2\<rparr>,
      bw_gas = 0, bw_message_segment_length = 0, bw_n_events = 0, bw_n_steps = 153, bw_state_diff_size = 0\<rparr>"

lemma declare_weights:
  "get_tx_weights reference_externals R (Bouncer_new config) ExecutionSummary_default declare_resources_example
     StateChangesKeys_default s = (Ok declare_weights_example, s)"
proof -
  let ?vm = "\<lparr>er_n_steps = 153, er_n_memory_holes = 0, er_builtin_instance_counter = [(''pedersen'', 0), (''poseidon'', 2)]\<rparr>"
  have sum: "er_add reference_externals (er_add reference_externals er_default
      (get_particia_update_resources reference_externals [] [])) (tr_vm_resources declare_resources_example) = ?vm"
    by (simp add: get_particia_update_resources_def hs_len_def hs_difference_def reference_externals_def
        reference_builtin_name_def merge_counters_def counter_value_def hm_keys_def er_default_def declare_resources_example_def)
  have count: "BuiltinCount_from reference_externals [(''pedersen'', 0), (''poseidon'', 2)] = Ok (BuiltinCount_default\<lparr>bc_poseidon := 2\<rparr>)"
    by (simp add: BuiltinCount_from_def reference_externals_def reference_builtin_name_def counted_builtins_def hm_remove_def
        BuiltinCount_default_def)
  have "prover_builtins reference_externals ?vm = [(''pedersen'', 0), (''poseidon'', 2)]" "total_n_steps reference_externals ?vm = 153"
    by (simp_all add: prover_builtins_def total_n_steps_def reference_externals_def reference_builtin_name_def hm_remove_def
        builtin_count_def)
  moreover have "calculate_message_l1_resources (tr_starknet_resources declare_resources_example)
      = (Ok (0, 0) :: (TransactionExecutorError, usize \<times> usize) result)"
    by (simp add: calculate_message_l1_resources_def declare_resources_example_def StarknetResources_new_def
        calculate_events_resources_def MessageL1CostInfo_calculate_def get_message_segment_length_def get_messages_gas_usage_def
        get_consumed_message_to_l2_emissions_cost_def get_log_message_to_l1_emissions_cost_def GasVector_sum_def
        GasVector_add_def GasVector_default_def from_l1_gas_def vec_len_def u128_from_usize_def usize_from_u128_def)
  ultimately show ?thesis
    by (simp add: get_tx_weights_def sbind_def get_casm_hash_calculation_resources_def ExecutionSummary_default_def Bouncer_new_def
        hs_difference_def [of "[]"] sum count)
      (simp add: declare_weights_example_def declare_resources_example_def StarknetResources_new_def calculate_events_resources_def
        get_onchain_data_segment_length_def StateChangesKeys_count_def StateChangesKeys_default_def hs_len_def)
qed

lemma block_of_declaration:
  "\<exists>info self'. execute_txs texts_example reference_externals vm_example dict_reader [AccountTx (Declare declare_example)] False
     executor_example = (Ok [Ok info], self')"
proof -
  obtain info where raw: "Transaction_execute_raw texts_example reference_externals vm_example dict_reader
      (AccountTx (Declare declare_example)) block_context_example False True (create_transactional cached_example)
      = (Ok info, declared_example)" "tei_actual_resources info = declare_resources_example" "non_optional_call_infos info = []"
    using declare_executed_example by blast
  have summary: "TransactionExecutionInfo_summarize info = Ok ExecutionSummary_default"
    by (simp add: TransactionExecutionInfo_summarize_def raw ExecutionSummary_sum_def)
  have keys: "get_state_changes_keys dict_reader (Bouncer_new bouncer_config_example) declared_example
      = (Ok StateChangesKeys_default, declared_example)"
    by (simp add: get_state_changes_keys_def sbind_def smap_err_def declared_example_changes StateChanges_default_def into_keys_def
        hm_keys_def get_modified_contracts_def StateChangesKeys_difference_def hs_difference_def StateChangesKeys_default_def
        hs_from_def hs_extend_def)
  have room: "has_room (weights_example 1000000) declare_weights_example"
    and capacity: "chosen_capacity bouncer_config_example BouncerWeights_default declare_weights_example = weights_example 1000000"
    and sum: "BouncerWeights_add BouncerWeights_default declare_weights_example = declare_weights_example"
    by (simp_all add: has_room_iff weight_fields_def weights_example_def declare_weights_example_def BuiltinCount_default_def
        chosen_capacity_def bouncer_config_example_def BouncerWeights_default_def BouncerWeights_add_def BuiltinCount_add_def)
  obtain b where "try_update reference_externals dict_reader ExecutionSummary_default declare_resources_example
      (Bouncer_new bouncer_config_example, declared_example) = (Ok (), (b, declared_example))"
    by (simp add: try_update_def sbind_def keys declare_weights room capacity sum)
  then have "\<exists>self'. TransactionExecutor_execute texts_example reference_externals vm_example dict_reader
      (AccountTx (Declare declare_example)) False executor_example = (Ok info, self')"
    by (simp add: executor_example_def TransactionExecutor_new_def TransactionExecutor_execute_def raw summary split: unit.splits)
  then show ?thesis
    by (auto simp: execute_txs_def executor_example_def TransactionExecutor_new_def TransactionExecutorConfig_default_def Let_def)
qed

end
