(* ===== verification/Transaction_Properties.thy ===== *)
theory Transaction_Properties
  imports Transaction_Invariants Transaction_Example
begin

text \<open>
  Properties of whole transactions and of the executor of a block: a transaction that fails leaves
  no trace, nonces move by one, a revert keeps only the effects of validation, and the bouncer
  accounts for exactly the transactions that were executed.
\<close>

section \<open>Failed transactions\<close>

context declaring_invariant
begin

lemma keeps_bouncer_reads [keeps_intros]:
  "keeps J (get_state_changes_keys R b)" "keeps J (add_casm_hash_resources E R hashes acc)"
proof -
  show "keeps J (get_state_changes_keys R b)"
    unfolding get_state_changes_keys_def by (intro keeps_intros)
  show "keeps J (add_casm_hash_resources E R hashes acc)"
    by (induction hashes arbitrary: acc) (auto intro!: keeps_intros)
qed

lemma try_update_kept:
  assumes "J state" and "try_update E R summary resources (b, state) = (r, (b', state'))"
  shows "J state'"
proof -
  let ?weigh = "sbind (get_state_changes_keys R b) (\<lambda>keys.
      sbind (get_tx_weights E R b summary resources keys) (\<lambda>weights. sret (keys, weights)))"
  have keeps: "keeps J ?weigh"
    unfolding get_tx_weights_def get_casm_hash_calculation_resources_def Let_def by (intro keeps_intros)
  obtain weights state1 where weigh: "?weigh state = (weights, state1)"
    by fastforce
  have "J state1"
    by (rule keeps_run [OF keeps assms(1) weigh])
  moreover have "state' = state1"
    using assms(2) weigh by (cases weights) (auto simp: try_update_def Let_def split: if_splits)
  ultimately show ?thesis
    by simp
qed

end

definition ancestor :: "('s \<Rightarrow> StateView) \<Rightarrow> ('s \<Rightarrow> bool) \<Rightarrow> 's CachedState \<Rightarrow> 's StateImpl \<Rightarrow> bool" where
  "ancestor view ok p st \<longleftrightarrow> inner_inv view ok st \<and> inner_view view st = cached_view view p
     \<and> inner_writes st = writes_stack p"

context state_reader
begin

lemma ancestor_kept: "inner_kept R (ancestor view ok p)"
  by (simp add: inner_kept_def keeps_def ancestor_def get_storage_at_refines(1) get_nonce_at_refines(1)
      get_class_hash_at_refines(1) get_compiled_contract_class_refines(1) get_compiled_class_hash_refines(1))

lemma ancestor_transaction_invariant:
  "transaction_invariant R (on_inner (ancestor view ok p)) (on_inner (parent_kept (on_inner (ancestor view ok p)))) True"
proof (rule transaction_invariantI)
  note kept = ancestor_kept [of p]
  show "declaring_invariant R (on_inner (ancestor view ok p))"
    by (rule declaring_on_inner [OF kept])
  show "reads_kept R (on_inner (ancestor view ok p))"
    by (simp add: reads_kept_def reads_keep_on_inner [OF kept])
  show "keeps (on_inner (ancestor view ok p)) (increment_nonce R a)" for a
    by (rule nonces_keep_on_inner [OF kept])
qed (simp add: on_inner_def commit_simps del: commit.simps)

end

sublocale state_reader \<subseteq> failing: transaction_invariant R "on_inner (ancestor view ok p)"
    "on_inner (parent_kept (on_inner (ancestor view ok p)))" True for p
  by (rule ancestor_transaction_invariant)

lemma on_ancestor_create_transactional [simp]:
  "on_inner (ancestor view ok p) (create_transactional p) \<longleftrightarrow> cached_inv view ok p"
  by (simp add: create_transactional_def CachedState_new_def ancestor_def)

lemma abort_to_ancestor:
  assumes "on_inner (ancestor view ok p) c"
  shows "cached_inv view ok (abort c) \<and> cached_view view (abort c) = cached_view view p \<and> writes_stack (abort c) = writes_stack p"
proof -
  have "is_transactional c"
    using assms by (simp add: is_transactional_iff on_inner_def ancestor_def writes_stack_eq)
  then show ?thesis
    using assms by (cases c rule: is_transactional.cases) (simp_all add: ancestor_def)
qed

context state_reader
begin

lemma failed_execution:
  assumes inv: "cached_inv view ok (te_state self)"
    and run: "TransactionExecutor_execute T E V R tx charge_fee self = (r, self')" and fails: "\<And>info. r \<noteq> Ok info"
  obtains c where "on_inner (ancestor view ok (te_state self)) c" "self' = self\<lparr>te_state := abort c\<rparr>"
proof -
  obtain r1 c1 where raw: "Transaction_execute_raw T E V R tx (te_block_context self) charge_fee True
      (create_transactional (te_state self)) = (r1, c1)"
    by fastforce
  have c1: "on_inner (ancestor view ok (te_state self)) c1"
    using keeps_run [OF failing.keeps_execute_raw _ raw, of "te_state self"] inv by simp
  note run' = run [unfolded TransactionExecutor_execute_def Let_def raw]
  show ?thesis
  proof (cases r1)
    case (Ok info)
    show ?thesis
    proof (cases "TransactionExecutionInfo_summarize info")
      case summary: (Ok summary)
      obtain r2 b2 c2 where update: "try_update E R summary (tei_actual_resources info) (te_bouncer self, c1) = (r2, (b2, c2))"
        by (metis prod.exhaust)
      have "r2 \<noteq> Ok ()"
      proof
        assume "r2 = Ok ()"
        then have "r = Ok info"
          using run' by (simp add: Ok summary update split: unit.splits)
        with fails show False
          by blast
      qed
      moreover from this have "b2 = te_bouncer self"
        by (rule try_update_not_Ok [OF update])
      ultimately have "self' = self\<lparr>te_state := abort c2\<rparr>"
        using run' by (cases r2) (simp_all add: Ok summary update)
      then show ?thesis
        using that failing.try_update_kept [OF c1 update] by blast
    qed (use run' c1 that in \<open>simp_all add: Ok\<close>)
  qed (use run' c1 that in simp_all)
qed

end

text \<open>
  C2: A transaction that is not executed leaves no trace. Over every reader that meets its
  contract and whatever the contracts it calls do, when the executor of a block reports an error for
  a transaction (it was rejected, its execution failed, or it does not fit into the block), then
  what its state answers to every query, the pending writes of the block and the bouncer are what
  they were before.
\<close>

theorem failed_transaction_leaves_no_trace:
  assumes "state_reader R view ok" and "cached_inv view ok (te_state self)"
    and "TransactionExecutor_execute T E V R tx charge_fee self = (Err e, self')"
  shows "cached_view view (te_state self') = cached_view view (te_state self)
    \<and> cached_inv view ok (te_state self')
    \<and> writes_stack (te_state self') = writes_stack (te_state self)
    \<and> te_bouncer self' = te_bouncer self"
proof -
  obtain c where "on_inner (ancestor view ok (te_state self)) c" and "self' = self\<lparr>te_state := abort c\<rparr>"
    using state_reader.failed_execution [OF assms] by blast
  then show ?thesis
    using abort_to_ancestor by fastforce
qed

theorem failed_transaction_leaves_no_trace_witness:
  "\<exists>e self'. TransactionExecutor_execute texts_example reference_externals vm_example dict_reader
       (AccountTx (Invoke (invoke_example 2))) True executor_example = (Err e, self')
     \<and> cached_view dict_view (te_state self') = cached_view dict_view cached_example
     \<and> te_bouncer self' = te_bouncer executor_example"
proof -
  have "Transaction_execute_raw texts_example reference_externals vm_example dict_reader
      (AccountTx (Invoke (invoke_example 2))) block_context_example True True (create_transactional cached_example)
    = (Err (InvalidVersion 2 [0, 1, 3]), create_transactional cached_example)"
    by (simp add: Transaction_execute_raw_def AccountTransaction_execute_raw_def invoke_example_version to_tx_context_def
        verify_tx_version_def allowed_versions_def sbind_def)
  then have "\<exists>self'. TransactionExecutor_execute texts_example reference_externals vm_example dict_reader
       (AccountTx (Invoke (invoke_example 2))) True executor_example
     = (Err (ExecutorTransactionError (InvalidVersion 2 [0, 1, 3])), self')"
    by (simp add: TransactionExecutor_execute_def executor_example_def TransactionExecutor_new_def)
  then show ?thesis
    using failed_transaction_leaves_no_trace [OF dict.state_reader_axioms, of executor_example texts_example
        reference_externals vm_example "AccountTx (Invoke (invoke_example 2))" True]
    by (auto simp: executor_example_def TransactionExecutor_new_def)
qed


section \<open>Nonces\<close>

definition nonces_are :: "('s \<Rightarrow> StateView) \<Rightarrow> ('s \<Rightarrow> bool) \<Rightarrow> (ContractAddress \<Rightarrow> (StateError, Nonce) result) \<Rightarrow> 's CachedState \<Rightarrow> bool" where
  "nonces_are view ok N d \<longleftrightarrow> cached_inv view ok d \<and> sv_nonce (cached_view view d) = N"

definition nested_nonces_are :: "('s \<Rightarrow> StateView) \<Rightarrow> ('s \<Rightarrow> bool) \<Rightarrow> (ContractAddress \<Rightarrow> (StateError, Nonce) result) \<Rightarrow> 's CachedState \<Rightarrow> bool" where
  "nested_nonces_are view ok N c \<longleftrightarrow> nonces_are view ok N c \<and> on_inner (parent_kept (nonces_are view ok N)) c"

lemma keeps_conj: "keeps P m \<Longrightarrow> keeps Q m \<Longrightarrow> keeps (\<lambda>s. P s \<and> Q s) m"
  by (simp add: keeps_def)

lemma declaring_conj:
  assumes "declaring_invariant R P" and "declaring_invariant R Q"
  shows "declaring_invariant R (\<lambda>d. P d \<and> Q d)"
  using assms unfolding declaring_invariant_def declaring_invariant_axioms_def state_invariant_def
  by (simp add: keeps_conj)

context state_reader
begin

lemma nonces_kept_by_reads:
  "keeps (nonces_are view ok N) (get_storage_at R a k)" "keeps (nonces_are view ok N) (get_nonce_at R a)"
  "keeps (nonces_are view ok N) (get_class_hash_at R a)" "keeps (nonces_are view ok N) (get_compiled_contract_class R h)"
  "keeps (nonces_are view ok N) (get_compiled_class_hash R h)"
  by (simp_all add: keeps_def nonces_are_def get_storage_at_refines(2) get_nonce_at_refines(2) get_class_hash_at_refines(2)
      get_compiled_contract_class_refines(2) get_compiled_class_hash_refines(2))

lemma nonces_kept_by_writes:
  "keeps (nonces_are view ok N) (set_storage_at a k v)" "keeps (nonces_are view ok N) (set_class_hash_at a h)"
  "keeps (nonces_are view ok N) (set_contract_class h c)" "keeps (nonces_are view ok N) (set_compiled_class_hash h ch)"
  "nonces_are view ok N d \<Longrightarrow> nonces_are view ok N (add_visited_pcs h pcs d)"
  using set_contract_class_refines
  by (auto simp: keeps_def nonces_are_def set_storage_at_def set_class_hash_at_def set_compiled_class_hash_def
      set_op_refines view_set_storage_def view_set_class_hash_def view_set_class_def view_set_compiled_class_hash_def)

lemma nonces_kept_by_changes: "keeps (nonces_are view ok N) (get_actual_state_changes R)"
proof -
  have "snd (get_actual_state_changes R d) = snd (update_initial_values_of_write_only_access R d)" for d
    by (simp add: get_actual_state_changes_def sbind_def split: prod.split result.split)
  then show ?thesis
    using update_initial_values_same_view
    by (fastforce simp: keeps_def nonces_are_def reads_grow_def same_view_def)
qed

lemma nonces_declaring: "declaring_invariant R (nonces_are view ok N)"
  by unfold_locales
    (simp_all add: nonces_kept_by_reads nonces_kept_by_writes nonces_kept_by_changes)

lemma nested_nonces_declaring: "declaring_invariant R (nested_nonces_are view ok N)"
proof -
  have "reads_kept R (nonces_are view ok N)"
    by (simp add: reads_kept_def nonces_kept_by_reads)
  then show ?thesis
    unfolding nested_nonces_are_def [abs_def]
    by (intro declaring_conj nonces_declaring declaring_on_inner parent_kept_reads)
qed

lemma nonces_stage_invariant: "stage_invariant R (nonces_are view ok N) (nested_nonces_are view ok N) False"
proof (intro stage_invariant.intro nonces_declaring nested_nonces_declaring stage_invariant_axioms.intro)
  show "nonces_are view ok N d \<Longrightarrow> nested_nonces_are view ok N (create_transactional d)" for d
    by (simp add: nested_nonces_are_def nonces_are_def) (simp add: create_transactional_def CachedState_new_def nonces_are_def)
  show "nonces_are view ok N (commit c)" and "nonces_are view ok N (abort c)" if "nested_nonces_are view ok N c" for c
    using that commit_view [of c view ok]
    by (auto simp: nested_nonces_are_def nonces_are_def elim!: on_parent_ends simp del: commit.simps)
qed simp

end

sublocale state_reader \<subseteq> advancing: stage_invariant R "nonces_are view ok N" "nested_nonces_are view ok N" False for N
  by (rule nonces_stage_invariant)

definition nonces_from ::
    "TransactionInfo \<Rightarrow> (ContractAddress \<Rightarrow> (StateError, Nonce) result) \<Rightarrow> ContractAddress \<Rightarrow> (StateError, Nonce) result" where
  "nonces_from info N = (if is_v0 info then N else N(ti_sender_address info := Ok ((ti_nonce info + 1) mod 2 ^ 64)))"

definition nonces_after ::
    "Transaction \<Rightarrow> (ContractAddress \<Rightarrow> (StateError, Nonce) result) \<Rightarrow> ContractAddress \<Rightarrow> (StateError, Nonce) result" where
  "nonces_after tx N =
     (case tx of AccountTx _ \<Rightarrow> nonces_from (Transaction_create_tx_info tx) N | L1HandlerTx _ \<Rightarrow> N)"

text \<open>What an account transaction does after the checks before validation.\<close>

definition run_and_charge ::
    "'t ErrorTexts_scheme \<Rightarrow> 'a Externals_scheme \<Rightarrow> 'm VmApi \<Rightarrow> 's StateReader \<Rightarrow> AccountTransaction \<Rightarrow> TransactionContext
      \<Rightarrow> bool \<Rightarrow> bool \<Rightarrow> ('s CachedState, TransactionExecutionError, TransactionExecutionInfo) action" where
  "run_and_charge T E V R self tx_context charge_fee validate =
     sbind (with_initial_gas (tx_initial_gas (versioned_constants (block_context tx_context)))
              (run_or_revert T E V R self tx_context validate charge_fee)) (\<lambda>info.
       sbind (handle_fee E V R tx_context (receipt_fee (vec_final_cost info)) charge_fee) (\<lambda>fee_transfer_call_info.
         sret
           \<lparr>tei_validate_call_info = vec_validate_call_info info,
            tei_execute_call_info = vec_execute_call_info info,
            tei_fee_transfer_call_info = fee_transfer_call_info,
            tei_actual_fee = receipt_fee (vec_final_cost info),
            tei_da_gas = receipt_da_gas (vec_final_cost info),
            tei_actual_resources = receipt_resources (vec_final_cost info),
            tei_revert_error = vec_revert_error info\<rparr>))"

lemma account_execute_raw_eq:
  "AccountTransaction_execute_raw T E V R self ctx charge_fee validate =
     (let tx_context = to_tx_context ctx (AccountTransaction_create_tx_info self) in
      sbind (slift (verify_tx_version self (ti_version (tx_info tx_context)))) (\<lambda>_.
        sbind (smap_err TxPreValidationError (perform_pre_validation_stage E R self tx_context charge_fee True)) (\<lambda>_.
          run_and_charge T E V R self tx_context charge_fee validate)))"
  by (simp add: AccountTransaction_execute_raw_def run_and_charge_def Let_def to_tx_context_def)

context state_reader
begin

lemma handle_nonce_advances:
  assumes "cached_inv view ok c" and "handle_nonce R info True c = (Ok (), c')"
  shows "nonces_are view ok (nonces_from info (sv_nonce (cached_view view c))) c'
    \<and> (is_v0 info \<or> sv_nonce (cached_view view c) (ti_sender_address info) = Ok (ti_nonce info))"
proof (cases "is_v0 info")
  case True
  then show ?thesis
    using assms by (simp add: handle_nonce_def nonces_are_def nonces_from_def)
next
  case False
  let ?a = "ti_sender_address info"
  obtain c1 where read: "get_nonce_at R ?a c = (sv_nonce (cached_view view c) ?a, c1)"
    and c1: "cached_inv view ok c1" "cached_view view c1 = cached_view view c"
    using get_nonce_at_refines(2) [OF assms(1), of ?a] by (metis prod.collapse)
  then obtain n where n: "sv_nonce (cached_view view c) ?a = Ok n"
    and after: "(if n = ti_nonce info then smap_err PreValStateError (increment_nonce R ?a)
      else slift (Err (InvalidNonce ?a n (ti_nonce info)))) c1 = (Ok (), c')"
    using assms(2) False
    by (cases "sv_nonce (cached_view view c) ?a")
      (simp_all add: handle_nonce_def sbind_def smap_err_def [of PreValStateError "get_nonce_at R ?a"] Let_def)
  then have nonce: "sv_nonce (cached_view view c) ?a = Ok (ti_nonce info)"
    and run: "smap_err PreValStateError (increment_nonce R ?a) c1 = (Ok (), c')"
    by (simp_all split: if_splits)
  have "ti_nonce info < 2 ^ 64"
    and "cached_view view c' = view_set_nonce ?a (unat (1 + of_nat (ti_nonce info) :: usize)) (cached_view view c)"
    and "cached_inv view ok c'"
    using increment_nonce_refines [OF c1(1), of ?a] run nonce c1(2)
    by (auto simp: view_increment_nonce_def usize_try_from_felt_def smap_err_def split: prod.splits if_splits)
  then show ?thesis
    using False nonce
    by (simp add: nonces_are_def nonces_from_def view_set_nonce_def unat_word_ariths unsigned_of_nat take_bit_nat_eq_self)
qed

lemma pre_validation_advances:
  assumes inv: "cached_inv view ok c"
    and run: "perform_pre_validation_stage E R account_tx tx_context charge_fee True c = (Ok (), c')"
  shows "nonces_are view ok (nonces_from (tx_info tx_context) (sv_nonce (cached_view view c))) c'"
    and "is_v0 (tx_info tx_context)
      \<or> sv_nonce (cached_view view c) (ti_sender_address (tx_info tx_context)) = Ok (ti_nonce (tx_info tx_context))"
proof -
  let ?checks = "sbind (if charge_fee then slift (map_err PreValFeeError (enforce_fee (tx_info tx_context))) else sret False)
      (\<lambda>enforced. if enforced then sbind (slift (check_fee_bounds E account_tx tx_context)) (\<lambda>_.
         smap_err PreValFeeError (verify_can_pay_committed_bounds E R tx_context)) else sret ())"
  obtain c1 where nonce: "handle_nonce R (tx_info tx_context) True c = (Ok (), c1)" and c1: "?checks c1 = (Ok (), c')"
    using run unfolding perform_pre_validation_stage_def by (rule sbind_OkE) simp
  note start = handle_nonce_advances [OF inv nonce]
  show "is_v0 (tx_info tx_context)
      \<or> sv_nonce (cached_view view c) (ti_sender_address (tx_info tx_context)) = Ok (ti_nonce (tx_info tx_context))"
    using start by simp
  have "keeps (nonces_are view ok (nonces_from (tx_info tx_context) (sv_nonce (cached_view view c)))) ?checks"
    by (intro keeps_intros)
  then show "nonces_are view ok (nonces_from (tx_info tx_context) (sv_nonce (cached_view view c))) c'"
    using start c1 by (rule keeps_run [OF _ conjunct1])
qed

lemma execute_raw_advances:
  assumes inv: "cached_inv view ok c" and mode: "\<not> concurrency_mode context"
    and run: "Transaction_execute_raw T E V R tx context charge_fee validate c = (Ok info, c')"
  shows "nonces_are view ok (nonces_after tx (sv_nonce (cached_view view c))) c'
    \<and> (\<forall>account_tx. tx = AccountTx account_tx \<longrightarrow> is_v0 (Transaction_create_tx_info tx)
       \<or> sv_nonce (cached_view view c) (ti_sender_address (Transaction_create_tx_info tx))
          = Ok (ti_nonce (Transaction_create_tx_info tx)))"
proof (cases tx)
  case (AccountTx account_tx)
  let ?info = "AccountTransaction_create_tx_info account_tx"
  let ?ctx = "to_tx_context context ?info"
  have tx: "tx_info ?ctx = ?info" "Transaction_create_tx_info tx = ?info" "\<not> concurrency_mode (block_context ?ctx)"
    using mode by (simp_all add: to_tx_context_def AccountTx Transaction_create_tx_info_def)
  obtain c2 where pre: "perform_pre_validation_stage E R account_tx ?ctx charge_fee True c = (Ok (), c2)"
    and rest: "run_and_charge T E V R account_tx ?ctx charge_fee validate c2 = (Ok info, c')"
    using run by (auto simp: AccountTx Transaction_execute_raw_def account_execute_raw_eq smap_err_Ok_iff Let_def elim!: sbind_OkE)
  note start = pre_validation_advances [OF inv pre]
  have keeps: "keeps (nonces_are view ok (nonces_from ?info (sv_nonce (cached_view view c))))
      (run_and_charge T E V R account_tx ?ctx charge_fee validate)"
    unfolding run_and_charge_def using tx(3) by (intro keeps_intros) simp
  have "nonces_are view ok (nonces_from ?info (sv_nonce (cached_view view c))) c'"
    by (rule keeps_run [OF keeps _ rest]) (use start(1) tx(1) in simp)
  then show ?thesis
    using start(2) tx(1,2) by (simp add: nonces_after_def AccountTx)
next
  case (L1HandlerTx l1)
  let ?N = "sv_nonce (cached_view view c)"
  have handler: "L1HandlerTransaction_execute_raw E V R l1 context c = (Ok info, c')"
    using run by (simp add: L1HandlerTx Transaction_execute_raw_def)
  have "nonces_are view ok ?N c"
    using inv by (simp add: nonces_are_def)
  then have "nonces_are view ok ?N c'"
    by (rule keeps_run [OF advancing.keeps_L1HandlerTransaction_execute_raw _ handler])
  then show ?thesis
    by (simp add: L1HandlerTx nonces_after_def)
qed

end


text \<open>
  C4: Nonces advance by one. When a transaction is executed (\<open>execute\<close> of the trait
  \<open>ExecutableTransaction\<close>, outside of concurrency mode), then the only nonce that changes is
  that of the sender of an account transaction of a version above zero: it was the nonce of the
  transaction and is one more afterwards (as a 64-bit integer). Neither validation, nor execution or
  its revert, nor the fee transfer, nor any contract called meanwhile touches a nonce.
\<close>

theorem executed_transaction_advances_one_nonce:
  assumes "state_reader R view ok" and "cached_inv view ok state" and "\<not> concurrency_mode context"
    and "Transaction_execute T E V R tx context charge_fee validate state = (Ok info, state')"
  shows "sv_nonce (cached_view view state') = nonces_after tx (sv_nonce (cached_view view state))
    \<and> (\<forall>account_tx. tx = AccountTx account_tx \<longrightarrow> is_v0 (Transaction_create_tx_info tx)
       \<or> sv_nonce (cached_view view state) (ti_sender_address (Transaction_create_tx_info tx))
          = Ok (ti_nonce (Transaction_create_tx_info tx)))"
proof -
  obtain c where run: "Transaction_execute_raw T E V R tx context charge_fee validate (create_transactional state) = (Ok info, c)"
    and state': "state' = commit c"
    using assms(4) by (auto simp: Transaction_execute_def ExecutableTransaction_execute_def split: prod.splits result.splits)
  have "on_inner (ancestor view ok state) c"
    using keeps_run [OF transaction_invariant.keeps_execute_raw
        [OF state_reader.ancestor_transaction_invariant [OF assms(1)]] _ run] assms(2,3) by simp
  then have "is_transactional c"
    by (simp add: is_transactional_iff on_inner_def ancestor_def writes_stack_eq)
  then have "cached_view view state' = cached_view view c" if "cached_inv view ok c"
    unfolding state' by (rule commit_view(1) [OF _ that])
  moreover note state_reader.execute_raw_advances [OF assms(1) _ assms(3) run]
  ultimately show ?thesis
    using assms(2) by (simp add: nonces_are_def)
qed

theorem executed_transaction_advances_one_nonce_witness:
  "\<exists>info state'. Transaction_execute texts_example reference_externals vm_example dict_reader
       (AccountTx (Invoke (invoke_example 1))) block_context_example False False cached_example = (Ok info, state')
     \<and> sv_nonce (cached_view dict_view state') 9 = Ok 1
     \<and> sv_nonce (cached_view dict_view state') 7 = Ok 3"
proof -
  obtain info state' where run: "Transaction_execute texts_example reference_externals vm_example dict_reader
       (AccountTx (Invoke (invoke_example 1))) block_context_example False False cached_example = (Ok info, state')"
    using transaction_example by blast
  have "\<not> concurrency_mode block_context_example"
    by (simp add: block_context_example_def)
  then have "sv_nonce (cached_view dict_view state')
      = nonces_after (AccountTx (Invoke (invoke_example 1))) (sv_nonce (cached_view dict_view cached_example))"
    using executed_transaction_advances_one_nonce [OF dict.state_reader_axioms cached_example_inv _ run] by blast
  then show ?thesis
    using run
    by (simp add: nonces_after_def nonces_from_def Transaction_create_tx_info_def invoke_example_info is_v0_def ti_version_def ti_nonce_def
        ti_sender_address_def cached_example_def dict_view_def dict_example_def unwrap_or_default_def)
qed

section \<open>Reverted transactions\<close>

context state_reader
begin

lemma reverted_execution:
  assumes inv: "cached_inv view ok state" and reverted: "vec_revert_error info \<noteq> None"
    and run: "execute_or_revert T E V R tx tx_context ctx allotted call_info changes charge_fee ((state, resources), gas)
      = (Ok info, ((state', resources'), gas'))"
  shows "cached_view view state' = cached_view view state \<and> writes_stack state' = writes_stack state
    \<and> vec_validate_call_info info = call_info \<and> vec_execute_call_info info = None"
proof -
  let ?J = "on_inner (ancestor view ok state)"
  obtain r1 state1 resources1 ctx1 gas1 where exec:
    "AccountTransaction_run_execute E V R tx ((create_transactional state, resources, ctx), gas) =
      (r1, ((state1, resources1, ctx1), gas1))"
    by (metis prod.exhaust)
  have J: "?J state1"
    using keepsD [OF failing.keeps_run_execute, of state "((create_transactional state, resources, ctx), gas)" E V tx] exec inv
    by simp
  note run' = run [unfolded execute_or_revert_def split_conv exec Let_def]
  obtain revert_cost where cost: "rbind (catch_unwound r1) (\<lambda>_. rbind (n_remaining_steps ctx1) (\<lambda>n_remaining.
      TransactionReceipt_from_account_tx E tx tx_context changes resources (option_iter call_info) (allotted - n_remaining)))
      = Ok revert_cost"
    using run' by (auto split: result.splits)
  note run2 = run' [unfolded cost result.case]
  show ?thesis
  proof (cases r1)
    case (Ok execute_call_info)
    obtain r2 state2 where check: "check_execution E R tx tx_context changes resources1
        (option_iter call_info @ option_iter execute_call_info) charge_fee state1 = (r2, state2)"
      by fastforce
    have "?J state2"
      by (rule keeps_run [OF failing.keeps_check_execution J check])
    moreover have "state' = abort state2" "vec_validate_call_info info = call_info" "vec_execute_call_info info = None"
      using run2 reverted
      by (auto simp: Ok check new_accepted_def new_reverted_def rbind_Ok_iff split: result.splits prod.splits option.splits)
    ultimately show ?thesis
      using abort_to_ancestor by fastforce
  next
    case (Err e)
    obtain r2 state2 where report: "PostExecutionReport_new E R tx_context revert_cost charge_fee (abort state1) = (r2, state2)"
      by fastforce
    note aborted = abort_to_ancestor [OF J]
    have "same_view view ok (abort state1) (abort state1)"
      using aborted by (simp add: same_view_def)
    then have "same_view view ok (abort state1) state2"
      by (rule keeps_run [OF keeps_PostExecutionReport [OF same_view_reads(1)] _ report])
    moreover have "state' = state2" "vec_validate_call_info info = call_info" "vec_execute_call_info info = None"
      using run2 by (auto simp: Err report new_reverted_def rbind_Ok_iff)
    ultimately show ?thesis
      using aborted by (simp add: same_view_def)
  qed (use run2 in simp)
qed

lemma reverted_run:
  assumes inv: "cached_inv view ok state" and reverted: "vec_revert_error info \<noteq> None"
    and run: "run_or_revert T E V R tx tx_context validate charge_fee (state, gas) = (Ok info, (state', gas'))"
  obtains call_info validated resources gas1 where
    "handle_validate_tx E V R tx tx_context validate charge_fee ((state, er_default), gas)
       = (Ok call_info, ((validated, resources), gas1))"
    "cached_view view state' = cached_view view validated" "writes_stack state' = writes_stack validated"
    "vec_validate_call_info info = call_info" "vec_execute_call_info info = None"
    "\<not> is_non_revertible tx (tx_info tx_context)"
proof -
  have revertible: "\<not> is_non_revertible tx (tx_info tx_context)"
    using run reverted
    by (auto simp: run_or_revert_def run_non_revertible_def with_new_resources_def with_resources_def new_accepted_def
        split: prod.splits option.splits elim!: sbind_OkE)
  obtain ctx resources' where after: "sbind (handle_validate_tx E V R tx tx_context validate charge_fee) (\<lambda>call_info.
       case subtract_validation_and_overhead_steps E call_info (tx_type tx) (calldata_length tx) ctx of
         (allotted, ctx') \<Rightarrow> sbind (slift allotted) (\<lambda>n.
           sbind (on_tx_state (smap_err TxStateError (get_actual_state_changes R))) (\<lambda>changes.
             execute_or_revert T E V R tx tx_context ctx' n call_info changes charge_fee)))
       ((state, er_default), gas) = (Ok info, ((state', resources'), gas'))"
    using run revertible unfolding run_or_revert_def run_revertible_def with_new_resources_def
    by (auto split: prod.splits elim!: sbind_OkE [of "slift m" for m])
  then obtain call_info s1 where validated: "handle_validate_tx E V R tx tx_context validate charge_fee ((state, er_default), gas) = (Ok call_info, s1)"
    and after1: "(case subtract_validation_and_overhead_steps E call_info (tx_type tx) (calldata_length tx) ctx of
         (allotted, ctx') \<Rightarrow> sbind (slift allotted) (\<lambda>n.
           sbind (on_tx_state (smap_err TxStateError (get_actual_state_changes R))) (\<lambda>changes.
             execute_or_revert T E V R tx tx_context ctx' n call_info changes charge_fee))) s1 = (Ok info, ((state', resources'), gas'))"
    by (rule sbind_OkE)
  obtain state1 resources1 gas1 where s1: "s1 = ((state1, resources1), gas1)"
    by (metis prod.exhaust)
  obtain ctx' n where "sbind (on_tx_state (smap_err TxStateError (get_actual_state_changes R))) (\<lambda>changes.
      execute_or_revert T E V R tx tx_context ctx' n call_info changes charge_fee) s1 = (Ok info, ((state', resources'), gas'))"
    using after1 by (auto split: prod.splits elim!: sbind_OkE [of "slift m" for m])
  then obtain changes s2 where changes: "on_tx_state (smap_err TxStateError (get_actual_state_changes R)) s1 = (Ok changes, s2)"
    and last: "execute_or_revert T E V R tx tx_context ctx' n call_info changes charge_fee s2 = (Ok info, ((state', resources'), gas'))"
    by (rule sbind_OkE)
  let ?start = "nonces_are view ok (sv_nonce (cached_view view state))"
  have "on_fst (on_fst ?start) s1"
    using keeps_run [OF advancing.keeps_validate_tx _ validated] inv by (simp add: nonces_are_def)
  then have "same_view view ok state1 (snd (update_initial_values_of_write_only_access R state1))"
    using update_initial_values_same_view by (simp add: s1 nonces_are_def reads_grow_def)
  then obtain state2 where s2: "s2 = ((state2, resources1), gas1)" and same: "same_view view ok state1 state2"
    using changes
    by (auto simp: s1 on_tx_state_def smap_err_def get_actual_state_changes_def sbind_def split: prod.splits result.splits)
  then have "cached_inv view ok state2"
    by (simp add: same_view_def)
  from reverted_execution [OF this reverted last [unfolded s2]] show ?thesis
    using that [OF validated [unfolded s1]] same revertible by (simp add: same_view_def)
qed

end

text \<open>
  C3: A revert keeps only the effects of validation. When the execution stage of an account
  transaction ends with a revert error (its execution failed, or it succeeded but costs more than its
  bounds or its balance allow), then the transaction is an invocation of a version above zero, the
  validation stage before it succeeded with the reported validate call, no execute call is reported,
  and the state answers every query, and holds every pending write, as validation left it.
\<close>

theorem revert_keeps_only_validation:
  assumes "state_reader R view ok" and "cached_inv view ok state" and "vec_revert_error info \<noteq> None"
    and "run_or_revert T E V R tx tx_context validate charge_fee (state, gas) = (Ok info, (state', gas'))"
  shows "\<not> is_non_revertible tx (tx_info tx_context) \<and> vec_execute_call_info info = None
    \<and> (\<exists>validated resources gas1.
         handle_validate_tx E V R tx tx_context validate charge_fee ((state, er_default), gas)
           = (Ok (vec_validate_call_info info), ((validated, resources), gas1))
         \<and> cached_view view state' = cached_view view validated \<and> writes_stack state' = writes_stack validated)"
  by (rule state_reader.reverted_run [OF assms]) blast

theorem revert_keeps_only_validation_witness:
  "\<exists>info state' gas'. run_or_revert texts_example reference_externals vm_example dict_reader (Invoke (invoke_example 1))
       invoke_context_example False False (advanced_example, 1000) = (Ok info, (state', gas'))
     \<and> vec_execute_call_info info = None \<and> writes_stack state' = writes_stack advanced_example"
proof -
  obtain info state' gas' where run: "run_or_revert texts_example reference_externals vm_example dict_reader
       (Invoke (invoke_example 1)) invoke_context_example False False (advanced_example, 1000) = (Ok info, (state', gas'))"
    and reverted: "vec_revert_error info \<noteq> None"
    using reverted_example by blast
  show ?thesis
    using revert_keeps_only_validation [OF dict.state_reader_axioms advanced_example_inv reverted run] run
    by (auto simp: handle_validate_tx_def)
qed

end
