(* ===== verification/Block_Properties.thy ===== *)
theory Block_Properties
  imports Transaction_Properties
begin

text \<open>
  The bouncer and the executor of a block together: the transactions that the executor reports as
  executed are those whose weights the bouncer has accumulated.
\<close>

section \<open>Pending writes have distinct keys\<close>

definition writes_distinct :: "'s CachedState \<Rightarrow> bool" where
  "writes_distinct d \<longleftrightarrow> maps_wf (writes (cs_cache d))"

lemma writes_of_reads:
  "writes (cs_cache (snd (get_storage_at R a k d))) = writes (cs_cache d)"
  "writes (cs_cache (snd (get_nonce_at R a d))) = writes (cs_cache d)"
  "writes (cs_cache (snd (get_class_hash_at R a d))) = writes (cs_cache d)"
  "writes (cs_cache (snd (get_compiled_contract_class R h d))) = writes (cs_cache d)"
  "writes (cs_cache (snd (get_compiled_class_hash R h d))) = writes (cs_cache d)"
  by (cases d; simp add: Let_def cache_defs split: prod.split result.split option.split StateError.split)+

lemma writes_distinct_kept:
  "keeps writes_distinct (get_storage_at R a k)" "keeps writes_distinct (get_nonce_at R a)"
  "keeps writes_distinct (get_class_hash_at R a)" "keeps writes_distinct (get_compiled_contract_class R h)"
  "keeps writes_distinct (get_compiled_class_hash R h)" "keeps writes_distinct (increment_nonce R a)"
  "keeps writes_distinct (set_storage_at a k v)" "keeps writes_distinct (set_class_hash_at a h)"
  "keeps writes_distinct (set_contract_class h c)" "keeps writes_distinct (set_compiled_class_hash h ch)"
  "writes_distinct d \<Longrightarrow> writes_distinct (add_visited_pcs h pcs d)"
proof -
  show "keeps writes_distinct (increment_nonce R a)"
    unfolding increment_nonce_def
    by (intro keeps_sbind) (auto simp: keeps_def writes_distinct_def writes_of_reads set_nonce_value_def split: result.splits)
qed (auto simp: keeps_def writes_distinct_def writes_of_reads set_storage_at_def set_class_hash_at_def
    set_contract_class_def set_compiled_class_hash_def add_visited_pcs_def cache_defs)

lemma writes_distinct_declaring: "declaring_invariant R writes_distinct"
proof unfold_locales
  have "writes (cs_cache (snd (get_actual_state_changes R d))) = writes (cs_cache d)" for d
    using update_initial_values_writes [of R d]
    by (auto simp: get_actual_state_changes_def sbind_def split: prod.split result.split)
  then show "keeps writes_distinct (get_actual_state_changes R)"
    by (simp add: keeps_def writes_distinct_def)
qed (rule writes_distinct_kept; assumption?)+


lemma writes_distinct_transaction:
  "transaction_invariant R writes_distinct (on_inner (parent_kept writes_distinct)) True"
proof (rule transaction_invariantI [OF writes_distinct_declaring])
  show "reads_kept R writes_distinct"
    by (simp add: reads_kept_def writes_distinct_kept)
  show "keeps writes_distinct (increment_nonce R a)" for a
    by (rule writes_distinct_kept)
qed (simp add: writes_distinct_def commit_simps del: commit.simps)

interpretation pending_writes: transaction_invariant R writes_distinct "on_inner (parent_kept writes_distinct)" True for R
  by (rule writes_distinct_transaction)

section \<open>Accumulated weights\<close>

lemma try_update_weighs:
  assumes "try_update E R summary resources (b, state) = (Ok (), (b', state'))"
  obtains w where "tx_weights_of E R summary resources b state = Ok w"
  using assms
  by (auto simp: try_update_def tx_weights_of_def sbind_def Let_def split: prod.splits result.splits if_splits)

lemma executed_or_kept:
  assumes run: "TransactionExecutor_execute T E V R tx charge_fee self = (r, self')"
    and block: "block_of E R config ws (te_bouncer self)"
  obtains ws' where "block_of E R config ws' (te_bouncer self')" "length ws' = length ws + (if is_ok r then 1 else 0)"
proof -
  obtain r1 c1 where raw: "Transaction_execute_raw T E V R tx (te_block_context self) charge_fee True
      (create_transactional (te_state self)) = (r1, c1)"
    by fastforce
  have "writes_distinct (create_transactional (te_state self))"
    by (simp add: writes_distinct_def create_transactional_def CachedState_new_def StateCache_default_def)
  then have distinct: "maps_wf (writes (cs_cache c1))"
    using keeps_run [OF pending_writes.keeps_execute_raw _ raw] by (simp add: writes_distinct_def)
  note run' = run [unfolded TransactionExecutor_execute_def Let_def raw]
  show ?thesis
  proof (cases "\<exists>info summary. r1 = Ok info \<and> TransactionExecutionInfo_summarize info = Ok summary")
    case True
    then obtain info summary where info: "r1 = Ok info" "TransactionExecutionInfo_summarize info = Ok summary"
      by blast
    obtain r2 b2 c2 where update: "try_update E R summary (tei_actual_resources info) (te_bouncer self, c1) = (r2, (b2, c2))"
      by (metis prod.exhaust)
    have "te_bouncer self' = b2 \<and> (is_ok r \<longleftrightarrow> r2 = Ok ())"
      using run' by (cases r2) (simp_all add: info update split: unit.splits, safe, simp_all)
    then have self': "te_bouncer self' = b2" and r: "is_ok r \<longleftrightarrow> r2 = Ok ()"
      by blast+
    show ?thesis
    proof (cases "r2 = Ok ()")
      case True
      then obtain w where "tx_weights_of E R summary (tei_actual_resources info) (te_bouncer self) c1 = Ok w"
        using try_update_weighs update by metis
      then show ?thesis
        using that [of "ws @ [w]"] accepted_tx [OF block distinct] update True self' r by simp
    next
      case False
      then show ?thesis
        using that [of ws] rejected_tx [OF block update] self' r by simp
    qed
  next
    case False
    then have "te_bouncer self' = te_bouncer self \<and> \<not> is_ok r"
      using run' by (cases r1; cases "TransactionExecutionInfo_summarize (case r1 of Ok info \<Rightarrow> info)")
        (simp_all, (safe, simp_all)+)
    then show ?thesis
      using that [of ws] block by simp
  qed
qed

lemma executed_sequentially:
  assumes "execute_txs_sequentially T E V R txs charge_fee self = (Ok results, self')"
    and "block_of E R config ws (te_bouncer self)"
  shows "\<exists>ws'. block_of E R config ws' (te_bouncer self') \<and> length ws' = length ws + length (filter is_ok results)"
  using assms
proof (induction txs arbitrary: self ws results)
  case Nil
  then show ?case
    by auto
next
  case (Cons tx txs)
  obtain r self1 where run: "TransactionExecutor_execute T E V R tx charge_fee self = (r, self1)"
    by fastforce
  obtain ws1 where ws1: "block_of E R config ws1 (te_bouncer self1)" "length ws1 = length ws + (if is_ok r then 1 else 0)"
    using executed_or_kept [OF run Cons.prems(2)] by blast
  show ?case
  proof (cases "r = Err BlockFull")
    case True
    then show ?thesis
      using Cons.prems(1) run ws1 by auto
  next
    case False
    then obtain results' where "execute_txs_sequentially T E V R txs charge_fee self1 = (Ok results', self')" "results = r # results'"
      using Cons.prems(1) run by (auto split: result.splits prod.splits TransactionExecutorError.splits)
    then show ?thesis
      using Cons.IH [OF _ ws1(1)] ws1(2) by fastforce
  qed
qed

lemma execute_chunks_not_Ok: "chunks \<noteq> [] \<Longrightarrow> execute_chunks chunks charge_fee self \<noteq> (Ok results, self')"
  by (cases chunks) (auto simp: execute_chunk_def sbind_def)

text \<open>
  C6: A block accounts for exactly its transactions. When the executor of a new block has run a
  list of transactions, whatever they do and however many fail or are rejected, the bouncer has
  accumulated the weights of some sequence of transactions that it accepted one after the other,
  each on the state it produced, and that sequence is as long as the list of results that report
  success: no executed transaction is left out of the accounting, and no failed one is in it.
\<close>

theorem executed_block_accounts_for_its_transactions:
  assumes "execute_txs T E V R txs charge_fee (TransactionExecutor_new state context bouncer_config config) = (Ok results, self')"
  shows "\<exists>ws. block_of E R bouncer_config ws (te_bouncer self') \<and> length ws = length (filter is_ok results)"
proof -
  let ?self = "TransactionExecutor_new state context bouncer_config config"
  have start: "block_of E R bouncer_config [] (te_bouncer ?self)"
    by (simp add: TransactionExecutor_new_def empty_block)
  show ?thesis
  proof (cases "cc_enabled (tec_concurrency_config config)")
    case False
    then have "execute_txs_sequentially T E V R txs charge_fee ?self = (Ok results, self')"
      using assms by (simp add: execute_txs_def TransactionExecutor_new_def)
    from executed_sequentially [OF this start] show ?thesis
      by simp
  next
    case True
    let ?chunks = "chunks_of (unat (cc_chunk_size (tec_concurrency_config config))) txs"
    have run: "execute_chunks ?chunks charge_fee ?self = (Ok results, self')"
      using assms True by (simp add: execute_txs_def TransactionExecutor_new_def Let_def split: if_splits)
    then have "?chunks = []"
      using execute_chunks_not_Ok by blast
    then show ?thesis
      using run start by auto
  qed
qed

theorem executed_block_accounts_for_its_transactions_witness:
  "\<exists>info self'. execute_txs texts_example reference_externals vm_example dict_reader [AccountTx (Declare declare_example)] False
       executor_example = (Ok [Ok info], self')
     \<and> (\<exists>w. block_of reference_externals dict_reader bouncer_config_example [w] (te_bouncer self'))"
proof -
  obtain info self' where run: "execute_txs texts_example reference_externals vm_example dict_reader
      [AccountTx (Declare declare_example)] False executor_example = (Ok [Ok info], self')"
    using block_of_declaration by blast
  then show ?thesis
    using executed_block_accounts_for_its_transactions [OF run [unfolded executor_example_def]]
    by (auto simp: length_Suc_conv)
qed

end
