(* ===== verification/Execution_Properties.thy ===== *)
theory Execution_Properties
  imports Execution_Example
begin

text \<open>
  Properties of \<open>CallEntryPoint::execute\<close> as a whole: it is the recursive method of the source,
  restores the context of its caller, and returns a call tree whose events are numbered in
  sequence, whose calls are within their gas, and which in validate mode stays in its contract.
\<close>

section \<open>The executor meets its contract\<close>

lemma execute_fuel_sound: "exec_sound (execute_fuel n E V R)"
proof (induction n)
  case 0
  show ?case
    by (simp add: exec_sound_def sound_call_def)
next
  case (Suc n)
  then have "executor (execute_fuel n E V R)"
    by (rule executor.intro)
  then show ?case
    by (simp add: exec_sound_def executor.sound_call_entry_point)
qed

interpretation calls: executor "execute E V R" for E V R
proof
  have "sound_call Q (execute E V R call)" if "\<And>n. sound_call Q (execute_fuel n E V R call)" for Q call
    using that unfolding sound_call_def execute_def split_conv by blast
  then show "exec_sound (execute E V R)"
    using execute_fuel_sound unfolding exec_sound_def by blast
qed

section \<open>Call trees\<close>

lemma tree_orders_preorder:
  "tree_orders c = mset (map (\<lambda>e. unat (oe_order e)) (concat (map (\<lambda>d. ce_events (ci_execution d)) (preorder c))))"
proof (induction c rule: tree_orders.induct)
  case (1 call execution resources inner reads keys)
  have "sum_list (map tree_orders cs) =
      mset (map (\<lambda>e. unat (oe_order e)) (concat (map (\<lambda>d. ce_events (ci_execution d)) (concat (map preorder cs)))))"
    if "set cs \<subseteq> set inner" for cs
    using that 1 by (induction cs) (simp_all add: event_orders_def)
  then show ?case
    by (simp add: event_orders_def)
qed

lemma executed_tree_preorder:
  "executed_tree mode c \<Longrightarrow> d \<in> set (preorder c) \<Longrightarrow>
   cep_class_hash (ci_call d) \<noteq> None \<and> \<not> ce_failed (ci_execution d)
   \<and> ce_gas_consumed (ci_execution d) \<le> cep_initial_gas (ci_call d)
   \<and> (mode = Validate \<longrightarrow> (\<forall>i \<in> set (ci_inner_calls d).
        cep_storage_address (ci_call i) = cep_storage_address (ci_call d) \<or> cep_entry_point_type (ci_call i) = Constructor))"
  by (induction mode c rule: executed_tree.induct) auto

section \<open>Properties\<close>

text \<open>
  C8: The execution of a call terminates at every depth, and is the recursive method of the
  source. From a context whose depth does not exceed the maximal one, \<open>execute\<close> satisfies the
  equation of \<open>CallEntryPoint::execute\<close>, in which the syscalls of the run call \<open>execute\<close> again;
  and any fuel above the number of levels left gives the same result, so that running out of fuel
  is never observed. (The maximal depth is smaller than the largest \<open>usize\<close>, so that counting
  the levels does not wrap around.)
\<close>

theorem execute_is_the_recursive_method:
  assumes "unat (max_recursion_depth (epc_versioned_constants ctx)) + 1 < 2 ^ 64"
    and "epc_current_recursion_depth ctx \<le> max_recursion_depth (epc_versioned_constants ctx)"
  shows "execute E V R call (state, resources, ctx) =
      call_entry_point E V R (execute E V R) call (state, resources, ctx)
    \<and> (\<forall>n > unat (max_recursion_depth (epc_versioned_constants ctx)) - unat (epc_current_recursion_depth ctx).
        execute_fuel n E V R call (state, resources, ctx) = execute E V R call (state, resources, ctx))"
proof
  let ?max = "max_recursion_depth (epc_versioned_constants ctx)" and ?d = "epc_current_recursion_depth ctx"
  let ?T = "epc_tx_context ctx" and ?mode = "epc_execution_mode ctx"
  have max: "max_recursion_depth (versioned_constants (block_context ?T)) = ?max"
    by (simp add: epc_versioned_constants_def)
  have le: "unat ?d \<le> unat ?max"
    using assms(2) by (simp add: word_le_nat_alt)
  have at: "exec_at (\<lambda>_. True) (?T, ?d, ?mode) (state, resources, ctx)"
    by (simp add: exec_at_def frame_def)
  have "same_executor (\<lambda>_. True) (?T, ?d + 1, ?mode) (execute_fuel (unat ?max) E V R) (execute E V R)" if "?d + 1 \<le> ?max"
  proof (rule any_state.same_executor_execute, unfold max)
    have "unat (?d + 1) = unat ?d + 1"
      using assms(1) le by (subst unat_plus_exact) simp_all
    then show "unat (?d + 1) \<le> unat ?max" and "unat ?max - unat (?d + 1) < unat ?max"
      using that le by (simp_all add: word_le_nat_alt)
    show "unat ?max + 1 < 2 ^ 64"
      by (rule assms(1))
  qed
  then have "agree (exec_at (\<lambda>_. True) (?T, ?d, ?mode)) (call_entry_point E V R (execute_fuel (unat ?max) E V R) call)
      (call_entry_point E V R (execute E V R) call)"
    by (intro any_state.agree_call_entry_point) (simp add: max)
  from agreeD(1) [OF this at] show "execute E V R call (state, resources, ctx) =
      call_entry_point E V R (execute E V R) call (state, resources, ctx)"
    by (simp add: execute_def)
  show "\<forall>n > unat ?max - unat ?d.
      execute_fuel n E V R call (state, resources, ctx) = execute E V R call (state, resources, ctx)"
  proof (intro allI impI)
    fix n
    assume "unat ?max - unat ?d < n"
    then have "same_executor (\<lambda>_. True) (?T, ?d, ?mode) (execute_fuel n E V R) (execute E V R)"
      using assms(1) le by (intro any_state.same_executor_execute) (simp_all add: max)
    then show "execute_fuel n E V R call (state, resources, ctx) = execute E V R call (state, resources, ctx)"
      using at by (simp add: same_executor_def agree_def)
  qed
qed

text \<open>
  C38: An execution restores the context of its caller. Whatever the outcome of a call (success,
  error or panic, at any depth of inner calls), the transaction context, the recursion depth and
  the execution mode are afterwards what they were before.
\<close>

theorem execute_restores_the_context:
  "frame (snd (snd (snd (execute E V R call (state, resources, ctx))))) = frame ctx"
proof -
  have "exec_at (\<lambda>_. True) (frame ctx) (snd (execute E V R call (state, resources, ctx)))"
    by (rule any_state.execute_at) (simp add: exec_at_def)
  then show ?thesis
    by (simp add: exec_at_def case_prod_beta)
qed


theorem execute_is_the_recursive_method_witness:
  "execute reference_externals vm_example dict_reader emit_call (contract_example, er_default, context_example Execute) =
     call_entry_point reference_externals vm_example dict_reader (execute reference_externals vm_example dict_reader)
       emit_call (contract_example, er_default, context_example Execute)
   \<and> execute_fuel 60 reference_externals vm_example dict_reader emit_call (contract_example, er_default, context_example Execute)
     = execute reference_externals vm_example dict_reader emit_call (contract_example, er_default, context_example Execute)"
proof -
  have "max_recursion_depth (epc_versioned_constants (context_example Execute)) = 50"
    "epc_current_recursion_depth (context_example Execute) = 0"
    by (simp_all add: context_example_def epc_versioned_constants_def example_defs)
  then show ?thesis
    using execute_is_the_recursive_method [of "context_example Execute" reference_externals vm_example dict_reader
        emit_call contract_example er_default] by simp
qed

lemma example_event_limits:
  "max_n_emitted_events (tx_event_limits (epc_versioned_constants (context_example mode))) = 1000"
  "epc_n_emitted_events (context_example mode) = 3" "epc_execution_mode (context_example mode) = mode"
  by (simp_all add: context_example_def epc_versioned_constants_def example_defs)

text \<open>
  C9: Events are numbered in sequence. The events of all calls of the tree of a successful
  execution, inner calls at any depth included, carry each of the numbers from the counter before
  the execution up to the counter after it exactly once, and the counter stays within the limit on
  the events of a transaction.
\<close>

theorem events_are_numbered_in_sequence:
  assumes "unat (max_n_emitted_events (tx_event_limits (epc_versioned_constants ctx))) + 1 < 2 ^ 64"
    and "epc_n_emitted_events ctx \<le> max_n_emitted_events (tx_event_limits (epc_versioned_constants ctx))"
    and "execute E V R call (state, resources, ctx) = (Ok c, (state', resources', ctx'))"
  shows "mset (map (\<lambda>e. unat (oe_order e)) (concat (map (\<lambda>d. ce_events (ci_execution d)) (preorder c))))
      = mset [unat (epc_n_emitted_events ctx)..<unat (epc_n_emitted_events ctx')]
    \<and> epc_n_emitted_events ctx \<le> epc_n_emitted_events ctx'
    \<and> epc_n_emitted_events ctx' \<le> max_n_emitted_events (tx_event_limits (epc_versioned_constants ctx))"
proof -
  have ok: "events_ok ctx"
    using assms(1,2) by (simp add: events_ok_def)
  note tree = calls.sound_exec [unfolded sound_call_def, rule_format, OF ok assms(3)]
  then have "epc_versioned_constants ctx' = epc_versioned_constants ctx"
    by (simp add: context_step_def frame_def epc_versioned_constants_def)
  then show ?thesis
    using tree by (simp add: tree_orders_preorder context_step_def events_between_def n_events_of_def events_ok_def
        word_le_nat_alt)
qed

theorem events_are_numbered_in_sequence_witness:
  "\<exists>c state resources ctx. execute reference_externals vm_example dict_reader emit_call
     (contract_example, er_default, context_example Execute) = (Ok c, (state, resources, ctx))
   \<and> mset (map (\<lambda>e. unat (oe_order e)) (concat (map (\<lambda>d. ce_events (ci_execution d)) (preorder c))))
      = mset [3..<unat (epc_n_emitted_events ctx)]
   \<and> epc_n_emitted_events ctx \<le> 1000"
proof -
  obtain c state resources ctx where run: "execute reference_externals vm_example dict_reader emit_call
      (contract_example, er_default, context_example Execute) = (Ok c, (state, resources, ctx))"
    using execute_example by blast
  show ?thesis
    using events_are_numbered_in_sequence [OF _ _ run] run by (auto simp: example_event_limits)
qed

text \<open>
  C14: Every call of the tree of a successful execution has been given a class, has not failed and
  has consumed no more gas than it was called with; so the summary of the tree, which unwraps the
  class hashes, does not panic. The root is the call itself, with its class filled in.
\<close>

theorem executed_calls_are_within_their_gas:
  assumes "unat (max_n_emitted_events (tx_event_limits (epc_versioned_constants ctx))) + 1 < 2 ^ 64"
    and "epc_n_emitted_events ctx \<le> max_n_emitted_events (tx_event_limits (epc_versioned_constants ctx))"
    and "execute E V R call (state, resources, ctx) = (Ok c, (state', resources', ctx'))"
  shows "(\<forall>d \<in> set (preorder c). cep_class_hash (ci_call d) \<noteq> None \<and> \<not> ce_failed (ci_execution d)
      \<and> ce_gas_consumed (ci_execution d) \<le> cep_initial_gas (ci_call d))
    \<and> (\<exists>summary. CallInfo_summarize c = Ok summary)
    \<and> (\<exists>k. ci_call c = call\<lparr>cep_class_hash := k\<rparr>)"
proof -
  have ok: "events_ok ctx"
    using assms(1,2) by (simp add: events_ok_def)
  note tree = calls.sound_exec [unfolded sound_call_def, rule_format, OF ok assms(3)]
  then have calls: "cep_class_hash (ci_call d) \<noteq> None \<and> \<not> ce_failed (ci_execution d)
      \<and> ce_gas_consumed (ci_execution d) \<le> cep_initial_gas (ci_call d)" if "d \<in> set (preorder c)" for d
    using executed_tree_preorder that by blast
  then have "\<forall>d \<in> set (preorder c). executed d"
    by (simp add: executed_def)
  then have "\<exists>summary. CallInfo_summarize c = Ok summary"
    using summarize_calls_Ok [of "preorder c" ExecutionSummary_default]
    by (auto simp: CallInfo_summarize_def CallInfo_iter_preorder)
  then show ?thesis
    using calls tree by blast
qed

theorem executed_calls_are_within_their_gas_witness:
  "\<exists>c state resources ctx. execute reference_externals vm_example dict_reader emit_call
     (contract_example, er_default, context_example Execute) = (Ok c, (state, resources, ctx))
   \<and> (\<forall>d \<in> set (preorder c). ce_gas_consumed (ci_execution d) \<le> cep_initial_gas (ci_call d))
   \<and> (\<exists>summary. CallInfo_summarize c = Ok summary)"
proof -
  obtain c state resources ctx where run: "execute reference_externals vm_example dict_reader emit_call
      (contract_example, er_default, context_example Execute) = (Ok c, (state, resources, ctx))"
    using execute_example by blast
  show ?thesis
    using executed_calls_are_within_their_gas [OF _ _ run] run by (auto simp: example_event_limits)
qed

text \<open>
  C15: Validation is confined to its contract. In the tree of a successful execution in validate
  mode, a call only makes inner calls that run in its own contract, or the constructors of
  contracts that it deploys.
\<close>

theorem validation_stays_in_its_contract:
  assumes "unat (max_n_emitted_events (tx_event_limits (epc_versioned_constants ctx))) + 1 < 2 ^ 64"
    and "epc_n_emitted_events ctx \<le> max_n_emitted_events (tx_event_limits (epc_versioned_constants ctx))"
    and "epc_execution_mode ctx = Validate"
    and "execute E V R call (state, resources, ctx) = (Ok c, (state', resources', ctx'))"
  shows "\<forall>d \<in> set (preorder c). \<forall>i \<in> set (ci_inner_calls d).
    cep_storage_address (ci_call i) = cep_storage_address (ci_call d) \<or> cep_entry_point_type (ci_call i) = Constructor"
proof -
  have ok: "events_ok ctx"
    using assms(1,2) by (simp add: events_ok_def)
  have "executed_tree Validate c"
    using calls.sound_exec [unfolded sound_call_def, rule_format, OF ok assms(4)] assms(3) by simp
  then show ?thesis
    using executed_tree_preorder by blast
qed

theorem validation_stays_in_its_contract_witness:
  "\<exists>c state resources ctx. execute reference_externals vm_example dict_reader emit_call
     (contract_example, er_default, context_example Validate) = (Ok c, (state, resources, ctx))
   \<and> (\<forall>d \<in> set (preorder c). \<forall>i \<in> set (ci_inner_calls d).
        cep_storage_address (ci_call i) = cep_storage_address (ci_call d) \<or> cep_entry_point_type (ci_call i) = Constructor)"
proof -
  obtain c state resources ctx where run: "execute reference_externals vm_example dict_reader emit_call
      (contract_example, er_default, context_example Validate) = (Ok c, (state, resources, ctx))"
    using execute_example by blast
  show ?thesis
    using validation_stays_in_its_contract [OF _ _ _ run] run by (auto simp: example_event_limits)
qed

end
