(* ===== verification/Fee_Properties.thy ===== *)
theory Fee_Properties
  imports Account_Transactions
begin

text \<open>
  What the post-execution report (\<open>fee/fee_checks.rs\<close>) guarantees of a transaction that passed the
  checks before validation: the fee it recommends, against what the sender committed to and what the
  sender owns.
\<close>

section \<open>Costs as natural numbers\<close>

definition tx_gas_price :: "TransactionContext \<Rightarrow> nat" where
  "tx_gas_price tx_context =
     unat (get_gas_price_by_fee_type (gas_prices (block_info (block_context tx_context))) (ti_fee_type (tx_info tx_context)))"

definition tx_data_gas_price :: "TransactionContext \<Rightarrow> nat" where
  "tx_data_gas_price tx_context =
     unat (get_data_gas_price_by_fee_type (gas_prices (block_info (block_context tx_context))) (ti_fee_type (tx_info tx_context)))"

definition gas_cost_of :: "TransactionContext \<Rightarrow> GasVector \<Rightarrow> nat" where
  "gas_cost_of tx_context gas =
     unat (l1_gas gas) * tx_gas_price tx_context + unat (l1_data_gas gas) * tx_data_gas_price tx_context"

text \<open>
  What the sender allows: an amount of gas, at the price of the block, or a fee; and what the sender
  committed to, which is the same amount at the highest price that the sender accepts.
\<close>

definition limit_cost :: "TransactionContext \<Rightarrow> nat" where
  "limit_cost tx_context =
     (case tx_info tx_context of
        Current info \<Rightarrow>
          (case map_of (cti_resource_bounds info) L1Gas of
             Some bounds \<Rightarrow> unat (max_amount bounds) * tx_gas_price tx_context | None \<Rightarrow> 0)
      | Deprecated info \<Rightarrow> unat (dti_max_fee info))"

definition committed_cost :: "TransactionContext \<Rightarrow> nat" where
  "committed_cost tx_context =
     (case tx_info tx_context of
        Current info \<Rightarrow>
          (case map_of (cti_resource_bounds info) L1Gas of
             Some bounds \<Rightarrow> unat (max_amount bounds) * unat (max_price_per_unit bounds) | None \<Rightarrow> 0)
      | Deprecated info \<Rightarrow> unat (dti_max_fee info))"

definition within_limit :: "TransactionContext \<Rightarrow> TransactionReceipt \<Rightarrow> bool" where
  "within_limit tx_context receipt \<longleftrightarrow>
     (case tx_info tx_context of
        Current info \<Rightarrow> gas_cost_of tx_context (receipt_gas receipt) \<le> limit_cost tx_context
      | Deprecated info \<Rightarrow> unat (receipt_fee receipt) \<le> limit_cost tx_context)"

section \<open>Lemmas\<close>

lemma div_ceil_le_iff:
  assumes "b \<noteq> 0"
  shows "unat (u128_div_ceil a b) \<le> m \<longleftrightarrow> unat a \<le> m * unat b"
proof
  assume "unat (u128_div_ceil a b) \<le> m"
  then show "unat a \<le> m * unat b"
    using u128_div_ceil_bounds(1) [OF assms, of a] mult_le_mono1 order_trans by blast
next
  assume "unat a \<le> m * unat b"
  then have "unat (u128_div_ceil a b) * unat b < (m + 1) * unat b"
    using u128_div_ceil_bounds(2) [OF assms, of a] by (simp add: algebra_simps)
  then show "unat (u128_div_ceil a b) \<le> m"
    using mult_less_cancel2 by (metis Suc_eq_plus1 less_Suc_eq_le)
qed

lemma discounted_gas_le_iff:
  assumes exact: "discount_exact gas tx_context" and wf: "gas_prices_wf (gas_prices (block_info (block_context tx_context)))"
  shows "unat (compute_discounted_gas_from_gas_vector gas tx_context) \<le> m
    \<longleftrightarrow> gas_cost_of tx_context gas \<le> m * tx_gas_price tx_context"
proof -
  let ?prices = "gas_prices (block_info (block_context tx_context))" and ?t = "ti_fee_type (tx_info tx_context)"
  let ?p = "get_gas_price_by_fee_type ?prices ?t" and ?q = "get_data_gas_price_by_fee_type ?prices ?t"
  let ?data = "l1_data_gas gas * ?q"
  have data: "unat ?data = unat (l1_data_gas gas) * unat ?q"
    using exact by (intro unat_mult_exact) (simp add: discount_exact_def Let_def)
  then have data_eq: "?data = of_nat (unat (l1_data_gas gas) * unat ?q)"
    by simp
  have sum: "unat (compute_discounted_gas_from_gas_vector gas tx_context) = unat (l1_gas gas) + unat (u128_div_ceil ?data ?p)"
    unfolding compute_discounted_gas_from_gas_vector_def Let_def
    using exact by (intro unat_plus_exact) (simp only: data_eq discount_exact_def Let_def, simp)
  have pos: "?p \<noteq> 0"
    by (rule gas_price_nonzero(1) [OF wf])
  then have le: "unat (u128_div_ceil ?data ?p) \<le> m - unat (l1_gas gas)
      \<longleftrightarrow> unat (l1_data_gas gas) * unat ?q \<le> (m - unat (l1_gas gas)) * unat ?p"
    unfolding data [symmetric] by (rule div_ceil_le_iff)
  show ?thesis
  proof (cases "unat (l1_gas gas) \<le> m")
    case True
    then have "m * unat ?p = unat (l1_gas gas) * unat ?p + (m - unat (l1_gas gas)) * unat ?p"
      by (simp add: flip: add_mult_distrib)
    then show ?thesis
      using le True by (simp add: sum gas_cost_of_def tx_gas_price_def tx_data_gas_price_def) linarith
  next
    case False
    then have "m * unat ?p < unat (l1_gas gas) * unat ?p"
      using pos by (simp add: unat_gt_0)
    then show ?thesis
      using False unfolding sum gas_cost_of_def tx_gas_price_def by linarith
  qed
qed

lemma fee_by_gas_vector_nat:
  "unat (get_fee_by_gas_vector (block_info (block_context tx_context)) gas (ti_fee_type (tx_info tx_context)))
     = min (2 ^ 128 - 1) (gas_cost_of tx_context gas)"
  by (simp add: get_fee_by_gas_vector_def saturated_cost_nat gas_cost_of_def tx_gas_price_def tx_data_gas_price_def)

lemma limit_within_commitment:
  assumes "check_fee_bounds E tx tx_context = Ok ()"
  shows "limit_cost tx_context \<le> committed_cost tx_context"
  using assms
  by (cases "tx_info tx_context")
    (auto simp: check_fee_bounds_def limit_cost_def committed_cost_def tx_gas_price_def rbind_Ok_iff Let_def not_less
      word_le_nat_alt l1_resource_bounds_def split: if_splits option.splits intro: mult_le_mono2)

text \<open>The two checks and the report, as values.\<close>

lemma check_actual_cost_value:
  assumes "discount_exact (receipt_gas receipt) tx_context" and "gas_prices_wf (gas_prices (block_info (block_context tx_context)))"
    and "\<And>info. tx_info tx_context = Current info \<Longrightarrow> map_of (cti_resource_bounds info) L1Gas \<noteq> None"
  shows "if within_limit tx_context receipt then check_actual_cost_within_bounds tx_context receipt = Ok ()
    else \<exists>e. check_actual_cost_within_bounds tx_context receipt = Err (TxFeeCheckError e)
      \<and> (\<forall>fee low high. e \<noteq> InsufficientFeeTokenBalance fee low high)"
proof (cases "tx_info tx_context")
  case (Current info)
  then obtain bounds where bounds: "map_of (cti_resource_bounds info) L1Gas = Some bounds"
    using assms(3) by auto
  have "compute_discounted_gas_from_gas_vector (receipt_gas receipt) tx_context \<le> ucast (max_amount bounds)
      \<longleftrightarrow> within_limit tx_context receipt"
    using discounted_gas_le_iff [OF assms(1,2), of "unat (max_amount bounds)"] Current bounds
    by (simp add: word_le_nat_alt within_limit_def limit_cost_def)
  then show ?thesis
    using Current bounds by (auto simp: check_actual_cost_within_bounds_def l1_resource_bounds_def Let_def not_less)
next
  case (Deprecated info)
  then show ?thesis
    by (simp add: check_actual_cost_within_bounds_def within_limit_def limit_cost_def word_less_nat_alt)
qed

lemma overdraft_report:
  assumes "\<forall>fee low high. e \<noteq> InsufficientFeeTokenBalance fee low high"
    and "\<And>info. tx_info tx_context = Current info \<Longrightarrow>
      ti_fee_type (tx_info tx_context) = Strk \<and> map_of (cti_resource_bounds info) L1Gas \<noteq> None"
  shows "\<exists>limit. unat limit = min (2 ^ 128 - 1) (limit_cost tx_context)
    \<and> from_fee_check_error fee e tx_context = Ok \<lparr>recommended_fee = limit, report_error = Some e\<rparr>"
proof (cases "tx_info tx_context")
  case (Current info)
  then obtain bounds where bounds: "map_of (cti_resource_bounds info) L1Gas = Some bounds" and strk: "ti_fee_type (tx_info tx_context) = Strk"
    using assms(2) by auto
  have "unat (get_fee_by_gas_vector (block_info (block_context tx_context)) (from_l1_gas (ucast (max_amount bounds))) Strk)
      = min (2 ^ 128 - 1) (limit_cost tx_context)"
    using fee_by_gas_vector_nat [of tx_context "from_l1_gas (ucast (max_amount bounds))"] strk Current bounds
    by (simp add: gas_cost_of_def from_l1_gas_def limit_cost_def)
  then show ?thesis
    using Current bounds assms(1) by (cases e) (auto simp: from_fee_check_error_def l1_resource_bounds_def)
next
  case (Deprecated info)
  have "unat (dti_max_fee info) \<le> 2 ^ 128 - 1"
    using unsigned_less [where 'a = nat, of "dti_max_fee info"] by simp
  then show ?thesis
    using Deprecated assms(1) by (cases e) (auto simp: from_fee_check_error_def limit_cost_def)
qed

lemma report_value:
  assumes "enforce_fee (tx_info tx_context) = Ok True"
  shows "fst (PostExecutionReport_new E R tx_context receipt True c) = first_fee_check_error tx_context (receipt_fee receipt)
    [check_actual_cost_within_bounds tx_context receipt, fst (check_can_pay_fee E R tx_context receipt c)]"
  using assms by (simp add: PostExecutionReport_new_def sbind_def slift_def split: prod.splits)

context state_reader
begin

lemma check_can_pay_value:
  assumes "address_laws E" and "cached_inv view ok c"
    and "sv_storage (cached_view view c) (fee_token_address tx_context)
      (get_fee_token_var_address E (ti_sender_address (tx_info tx_context))) = Ok low"
    and "sv_storage (cached_view view c) (fee_token_address tx_context)
      (get_fee_token_var_address E (ti_sender_address (tx_info tx_context)) + 1) = Ok high"
  shows "fst (check_can_pay_fee E R tx_context receipt c) =
    (if unat (receipt_fee receipt) \<le> low + 2 ^ 128 * high then Ok ()
     else Err (TxFeeCheckError (InsufficientFeeTokenBalance (receipt_fee receipt) low high)))"
proof -
  obtain c' where "get_fee_token_balance E R (ti_sender_address (tx_info tx_context)) (fee_token_address tx_context) c = (Ok (low, high), c')"
    using get_fee_token_balance_value [OF assms] by (metis prod.collapse)
  moreover have "unat (receipt_fee receipt) \<le> low + 2 ^ 128 * high \<longleftrightarrow> high > 0 \<or> low \<ge> unat (receipt_fee receipt)"
    using unsigned_less [where 'a = nat, of "receipt_fee receipt"] by (cases high) auto
  ultimately show ?thesis
    by (simp add: check_can_pay_fee_def get_balance_and_if_covers_fee_def sbind_def smap_err_def)
qed

end

section \<open>Properties\<close>

text \<open>
  C11: The fee after execution. For a transaction whose fee is enforced and whose bounds passed
  \<open>check_fee_bounds\<close>, the post-execution checks always give a report. It has no error exactly if the cost of
  the resources used is within the limit of the sender (the amount of gas at the prices of the block,
  or the maximal fee) and the fee is covered by the balance of the sender in the fee token. The fee it
  recommends is the fee of the receipt if the cost is within the limit, and otherwise the cost of the
  limit, capped at \<open>2 ^ 128 - 1\<close>; it never exceeds what the sender committed to, the amount of gas times the
  maximal price per unit, or the maximal fee. It needs that the discounted gas is computed without
  wrap-around and that resource bounds go with the STRK fee type, as they do from version 3 on.
\<close>

theorem post_execution_fee_is_bounded:
  assumes reader: "state_reader R view ok" "cached_inv view ok c" "address_laws E"
    and receipt: "TransactionReceipt_from_params E params = Ok receipt" "rcp_tx_context params = tx_context"
    and enforced: "enforce_fee (tx_info tx_context) = Ok True" and bounds: "check_fee_bounds E tx tx_context = Ok ()"
    and exact: "discount_exact (receipt_gas receipt) tx_context"
    and prices: "gas_prices_wf (gas_prices (block_info (block_context tx_context)))"
    and strk: "\<And>info. tx_info tx_context = Current info \<Longrightarrow> ti_fee_type (tx_info tx_context) = Strk"
    and low: "sv_storage (cached_view view c) (fee_token_address tx_context)
      (get_fee_token_var_address E (ti_sender_address (tx_info tx_context))) = Ok low"
    and high: "sv_storage (cached_view view c) (fee_token_address tx_context)
      (get_fee_token_var_address E (ti_sender_address (tx_info tx_context)) + 1) = Ok high"
  shows "\<exists>report. fst (PostExecutionReport_new E R tx_context receipt True c) = Ok report
    \<and> (report_error report = None \<longleftrightarrow> within_limit tx_context receipt \<and> unat (receipt_fee receipt) \<le> low + 2 ^ 128 * high)
    \<and> unat (recommended_fee report) =
        (if within_limit tx_context receipt then unat (receipt_fee receipt) else min (2 ^ 128 - 1) (limit_cost tx_context))
    \<and> unat (recommended_fee report) \<le> committed_cost tx_context"
proof -
  have l1: "map_of (cti_resource_bounds info) L1Gas \<noteq> None" if "tx_info tx_context = Current info" for info
    using bounds that by (auto simp: check_fee_bounds_def rbind_Ok_iff l1_resource_bounds_def Let_def split: option.splits)
  have fee: "unat (receipt_fee receipt) = min (2 ^ 128 - 1) (gas_cost_of tx_context (receipt_gas receipt))"
    using receipt_fee_of_gas [OF receipt(1)] receipt(2) enforced fee_by_gas_vector_nat by simp
  have committed: "unat (receipt_fee receipt) \<le> limit_cost tx_context" if "within_limit tx_context receipt"
    using that fee by (auto simp: within_limit_def split: TransactionInfo.splits)
  have report: "fst (PostExecutionReport_new E R tx_context receipt True c) =
      first_fee_check_error tx_context (receipt_fee receipt) [check_actual_cost_within_bounds tx_context receipt,
        if unat (receipt_fee receipt) \<le> low + 2 ^ 128 * high then Ok ()
        else Err (TxFeeCheckError (InsufficientFeeTokenBalance (receipt_fee receipt) low high))]"
    unfolding state_reader.check_can_pay_value [OF reader(1,3,2) low high, symmetric] by (rule report_value [OF enforced])
  show ?thesis
  proof (cases "within_limit tx_context receipt")
    case True
    then have "check_actual_cost_within_bounds tx_context receipt = Ok ()"
      using check_actual_cost_value [OF exact prices l1] by simp
    then show ?thesis
      using report True committed limit_within_commitment [OF bounds]
      by (auto simp: success_report_def from_fee_check_error_def)
  next
    case False
    then obtain e where e: "check_actual_cost_within_bounds tx_context receipt = Err (TxFeeCheckError e)"
      and other: "\<forall>fee low high. e \<noteq> InsufficientFeeTokenBalance fee low high"
      using check_actual_cost_value [OF exact prices l1] by auto
    then show ?thesis
      using report False overdraft_report [OF other] strk l1 limit_within_commitment [OF bounds] by fastforce
  qed
qed

section \<open>A transaction\<close>

definition fee_tx_example :: AccountTransaction where
  "fee_tx_example = Invoke
     \<lparr>invoke_tx = \<lparr>api_version = 3, api_signature = [], api_nonce = 4, api_invoke_sender_address = 7,
        api_invoke_calldata = [1, 2, 3, 4],
        api_invoke_variant = InvokeV3
          \<lparr>v3_resource_bounds = [(L1Gas, \<lparr>max_amount = 10000, max_price_per_unit = 300\<rparr>)], v3_tip = 0,
           v3_nonce_data_availability_mode = L1Da, v3_fee_data_availability_mode = L1Da, v3_paymaster_data = []\<rparr> []\<rparr>,
      invoke_tx_hash = 17, invoke_only_query = False\<rparr>"

text \<open>A state in which the sender has 60000 units of the STRK token.\<close>

definition funded_example :: "DictStateReader CachedState" where
  "funded_example =
     snd (run_op dict_reader (SetStorageAt 4098 (get_fee_token_var_address reference_externals 7) 60000) cached_example)"

lemma fee_tx_example_info: "AccountTransaction_create_tx_info fee_tx_example = tx_info_example"
  by (simp add: fee_tx_example_def AccountTransaction_create_tx_info_def InvokeTransaction_create_tx_info_def
      current_tx_info_def tx_info_example_def)

lemma tx_context_example_parts:
  "tx_info tx_context_example = tx_info_example" "block_context tx_context_example = block_context_example"
  "block_info block_context_example = block_info_example" "versioned_constants block_context_example = vc_example"
  "fee_token_address tx_context_example = 4098"
  by (simp_all add: tx_context_example_def block_context_example_def fee_token_address_def chain_fee_token_address_def
      get_by_fee_type_def fee_type_example)

lemma funded_example_view:
  "cached_inv dict_view dict_ok funded_example"
  "sv_storage (cached_view dict_view funded_example) 4098 (get_fee_token_var_address reference_externals 7) = Ok 60000"
  "sv_storage (cached_view dict_view funded_example) 4098 (get_fee_token_var_address reference_externals 7 + 1) = Ok 0"
  using dict.run_op_refines [OF cached_example_inv, of "SetStorageAt 4098 (get_fee_token_var_address reference_externals 7) 60000"]
  by (simp_all add: funded_example_def view_set_storage_def cached_example_def CachedState_new_def dict_view_def dict_example_def
      unwrap_or_default_def)

lemma minimal_gas_example:
  "estimate_minimal_gas_vector reference_externals block_context_example fee_tx_example = Ok \<lparr>l1_gas = 1, l1_data_gas = 128\<rparr>"
proof -
  have "resources_for_tx_type reference_externals (os_resources vc_example) (tx_type fee_tx_example) (calldata_length fee_tx_example)
      = (Ok (er_default\<lparr>er_n_steps := 112\<rparr>) :: (TransactionPreValidationError, ExecutionResources) result)"
    by (simp add: resources_for_tx_type_def resources_params_for_tx_type_def vc_example_def os_example_def TransactionType_iter_def
        er_default_def reference_externals_def merge_counters_def hm_keys_def fee_tx_example_def tx_type_def calldata_length_def
        vec_len_def)
  moreover have "er_n_steps (os_kzg_da_resources reference_externals (os_resources vc_example) 4) = 85"
    by (simp add: os_kzg_da_resources_def poseidon_hash_many_cost_def vc_example_def os_example_def er_default_def
        reference_externals_def)
  moreover have "calculate_l1_gas_by_vm_usage reference_externals vc_example (er_default\<lparr>er_n_steps := 197\<rparr>) 0
      = Ok \<lparr>l1_gas = 1, l1_data_gas = 0\<rparr>"
    by (simp add: calculate_l1_gas_by_vm_usage_def vm_resource_usage_for_fee_def prover_builtins_def total_n_steps_def
        builtin_count_def er_default_def vc_example_def ratio_def reference_externals_def reference_builtin_name_def
        hm_remove_def hm_insert_def N_STEPS_RESOURCE_def from_l1_gas_def u128_from_usize_def hm_keys_def)
  moreover have "get_onchain_data_segment_length (state_changes_by_account_transaction fee_tx_example) = 4"
    "get_da_gas_cost (state_changes_by_account_transaction fee_tx_example) True = \<lparr>l1_gas = 0, l1_data_gas = 128\<rparr>"
    by (simp_all add: state_changes_by_account_transaction_def fee_tx_example_def get_onchain_data_segment_length_def
        get_da_gas_cost_def DATA_GAS_PER_FIELD_ELEMENT_def DATA_GAS_PER_BLOB_def FIELD_ELEMENTS_PER_BLOB_def u128_from_usize_def)
  ultimately show ?thesis
    by (simp add: estimate_minimal_gas_vector_def tx_context_example_parts block_info_example_def GasVector_add_def er_default_def)
qed

lemma check_fee_bounds_example: "check_fee_bounds reference_externals fee_tx_example tx_context_example = Ok ()"
  by (simp add: check_fee_bounds_def minimal_gas_example tx_context_example_parts)
    (simp add: tx_info_example_def l1_resource_bounds_def compute_discounted_gas_from_gas_vector_def tx_context_example_parts
      block_info_example_def ti_fee_type_def ti_version_def fee_type_def get_gas_price_by_fee_type_def
      get_data_gas_price_by_fee_type_def u128_div_ceil_def)

lemma receipt_example_exact: "discount_exact (receipt_gas receipt_example) tx_context_example"
  by (simp add: discount_exact_def tx_context_example_parts fee_type_example)
    (simp add: receipt_example_def block_info_example_def get_gas_price_by_fee_type_def get_data_gas_price_by_fee_type_def
      u128_div_ceil_def)

lemma costs_of_example:
  "within_limit tx_context_example receipt_example" "committed_cost tx_context_example = 10000 * 300"
  by (simp_all add: within_limit_def committed_cost_def limit_cost_def gas_cost_of_def tx_gas_price_def tx_data_gas_price_def
      tx_context_example_parts fee_type_example)
    (simp_all add: tx_info_example_def limit_cost_def gas_cost_of_def tx_gas_price_def tx_data_gas_price_def
      tx_context_example_parts receipt_example_def block_info_example_def get_gas_price_by_fee_type_def
      get_data_gas_price_by_fee_type_def ti_fee_type_def ti_version_def fee_type_def)

lemma cached_example_view:
  "sv_storage (cached_view dict_view cached_example) 4098 k = Ok 0"
  by (simp add: cached_example_def CachedState_new_def dict_view_def dict_example_def unwrap_or_default_def)

theorem post_execution_fee_is_bounded_witness:
  "(\<exists>report. fst (PostExecutionReport_new reference_externals dict_reader tx_context_example receipt_example True funded_example)
       = Ok report \<and> report_error report = None \<and> unat (recommended_fee report) = 50520)
   \<and> (\<exists>report. fst (PostExecutionReport_new reference_externals dict_reader tx_context_example receipt_example True cached_example)
       = Ok report \<and> report_error report \<noteq> None \<and> unat (recommended_fee report) \<le> 10000 * 300)"
proof -
  have sender: "ti_sender_address (tx_info tx_context_example) = 7"
    by (simp add: tx_context_example_parts sender_example)
  have params: "rcp_tx_context receipt_params_example = tx_context_example" "enforce_fee (tx_info tx_context_example) = Ok True"
    and strk: "ti_fee_type (tx_info tx_context_example) = Strk"
    and prices: "gas_prices_wf (gas_prices (block_info (block_context tx_context_example)))"
    by (simp_all add: receipt_params_example_def tx_context_example_parts fee_type_example)
      (simp add: block_info_example_def gas_prices_wf_def)
  note report = post_execution_fee_is_bounded [OF dict.state_reader_axioms _ reference_address_laws receipt_of_example params
      check_fee_bounds_example receipt_example_exact prices strk, unfolded sender tx_context_example_parts(5) costs_of_example(2)]
  have fee: "unat (receipt_fee receipt_example) = 50520"
    by (simp add: receipt_example_def)
  show ?thesis
    using report [OF funded_example_view] report [OF cached_example_inv cached_example_view cached_example_view]
    by (auto simp: costs_of_example(1) fee)
qed

end
