(* ===== verification/Papyrus_Reader.thy ===== *)
theory Papyrus_Reader
  imports Dict_State_Reader Contract_Class
begin

text \<open>
  The state reader of a sequencer (\<open>native_blockifier/src/state_readers/papyrus_state.rs\<close>), which reads
  the Papyrus database and keeps contract classes in a cache shared by all readers
  (\<open>blockifier/src/state/global_cache.rs\<close>).

  The crates \<open>papyrus_storage\<close> and \<open>cached\<close> are the records \<open>PapyrusApi\<close> and \<open>SizedCache\<close>; a storage error
  is its text. The programs of classes are built by the VM crate. What the reader relies on is the
  law \<open>cache_laws\<close>: a cache returns nothing that was not put into it since it was last cleared.
\<close>

section \<open>The shared class cache\<close>

record 'c SizedCache =
  cache_with_size :: "usize \<Rightarrow> 'c"
  cache_get :: "ClassHash \<Rightarrow> 'c \<Rightarrow> ContractClass option \<times> 'c"
  cache_set :: "ClassHash \<Rightarrow> ContractClass \<Rightarrow> 'c \<Rightarrow> 'c"
  cache_clear :: "'c \<Rightarrow> 'c"

text \<open>
  The lock is held for one operation, none of which panics, so it is never poisoned. The constructor
  is total: a cache of size 0, which the crate \<open>cached\<close> may refuse, is not told apart.
\<close>

definition GlobalContractCache_get :: "'c SizedCache \<Rightarrow> ClassHash \<Rightarrow> 'c \<Rightarrow> ContractClass option \<times> 'c" where
  "GlobalContractCache_get C class_hash self = cache_get C class_hash self"

definition GlobalContractCache_set :: "'c SizedCache \<Rightarrow> ClassHash \<Rightarrow> ContractClass \<Rightarrow> 'c \<Rightarrow> 'c" where
  "GlobalContractCache_set C class_hash contract_class self = cache_set C class_hash contract_class self"

definition GlobalContractCache_clear :: "'c SizedCache \<Rightarrow> 'c \<Rightarrow> 'c" where
  "GlobalContractCache_clear C self = cache_clear C self"

definition GlobalContractCache_new :: "'c SizedCache \<Rightarrow> usize \<Rightarrow> 'c" where
  "GlobalContractCache_new C cache_size = cache_with_size C cache_size"

definition cache_laws :: "'c SizedCache \<Rightarrow> ('c \<Rightarrow> ClassHash \<Rightarrow> ContractClass option) \<Rightarrow> bool" where
  "cache_laws C content \<longleftrightarrow>
     (\<forall>n. content (cache_with_size C n) = Map.empty)
   \<and> (\<forall>h cl c. fst (cache_get C h c) = Some cl \<longrightarrow> content c h = Some cl)
   \<and> (\<forall>h c. content (snd (cache_get C h c)) \<subseteq>\<^sub>m content c)
   \<and> (\<forall>h cl c. content (cache_set C h cl c) \<subseteq>\<^sub>m (content c)(h \<mapsto> cl))
   \<and> (\<forall>c. content (cache_clear C c) = Map.empty)"

section \<open>The reader\<close>

type_synonym BlockNumber = u64

record 'p DeprecatedContractClass =
  dcc_program :: 'p
  dcc_entry_points_by_type :: "(EntryPointType, EntryPointV0 list) HashMap"

record ('d, 't, 'r, 'p) PapyrusApi =
  begin_ro_txn :: "'d \<Rightarrow> (string, 't) result"
  get_state_reader :: "'t \<Rightarrow> (string, 'r) result"
  db_get_storage_at :: "'r \<Rightarrow> BlockNumber \<Rightarrow> ContractAddress \<Rightarrow> StorageKey \<Rightarrow> (string, StarkFelt) result"
  db_get_nonce_at :: "'r \<Rightarrow> BlockNumber \<Rightarrow> ContractAddress \<Rightarrow> (string, Nonce option) result"
  db_get_class_hash_at :: "'r \<Rightarrow> BlockNumber \<Rightarrow> ContractAddress \<Rightarrow> (string, ClassHash option) result"
  db_get_class_definition_block_number :: "'r \<Rightarrow> ClassHash \<Rightarrow> (string, BlockNumber option) result"
  db_get_deprecated_class_definition_at ::
    "'r \<Rightarrow> BlockNumber \<Rightarrow> ClassHash \<Rightarrow> (string, 'p DeprecatedContractClass option) result"
  db_get_casm :: "'t \<Rightarrow> ClassHash \<Rightarrow> (string, CasmContractClass option) result"
  casm_program :: "CasmContractClass \<Rightarrow> (string, Program) result"
  deprecated_program :: "'p \<Rightarrow> (string, Program) result"

record ('d, 'c) PapyrusReader =
  pr_storage_reader :: 'd
  pr_latest_block :: BlockNumber
  pr_global_class_hash_to_class :: 'c

definition PapyrusReader_new :: "'d \<Rightarrow> BlockNumber \<Rightarrow> 'c \<Rightarrow> ('d, 'c) PapyrusReader" where
  "PapyrusReader_new storage_reader latest_block global_class_hash_to_class =
     \<lparr>pr_storage_reader = storage_reader, pr_latest_block = latest_block,
      pr_global_class_hash_to_class = global_class_hash_to_class\<rparr>"

definition papyrus_txn ::
    "('d, 't, 'r, 'p, 'z) PapyrusApi_scheme \<Rightarrow> ('d, 'c) PapyrusReader \<Rightarrow> (StateError, 't) result" where
  "papyrus_txn P self = map_err StateReadError (begin_ro_txn P (pr_storage_reader self))"

definition ContractClassV0_try_from ::
    "('d, 't, 'r, 'p, 'z) PapyrusApi_scheme \<Rightarrow> 'p DeprecatedContractClass \<Rightarrow> (string, ContractClassV0) result" where
  "ContractClassV0_try_from P class =
     rbind (deprecated_program P (dcc_program class)) (\<lambda>program.
       Ok \<lparr>v0_program = program, v0_entry_points_by_type = dcc_entry_points_by_type class\<rparr>)"

text \<open>The method \<open>_get_compiled_contract_class\<close>: a V1 class if one was declared, otherwise a V0 class.\<close>

definition papyrus_class_from_db ::
    "('d, 't, 'r, 'p, 'z) PapyrusApi_scheme \<Rightarrow> ('d, 'c) PapyrusReader \<Rightarrow> ClassHash \<Rightarrow> (StateError, ContractClass) result" where
  "papyrus_class_from_db P self class_hash =
     (let state_number = pr_latest_block self in
      rbind (papyrus_txn P self) (\<lambda>txn.
      rbind (map_err StateReadError (rbind (get_state_reader P txn) (\<lambda>sr.
               db_get_class_definition_block_number P sr class_hash))) (\<lambda>class_declaration_block_number.
        let class_is_declared =
              (case class_declaration_block_number of Some declared_at \<Rightarrow> declared_at \<le> state_number | None \<Rightarrow> False)
        in if class_is_declared then
             rbind (papyrus_txn P self) (\<lambda>txn.
             rbind (map_err StateReadError (db_get_casm P txn class_hash)) (\<lambda>casm.
             rbind (expect ''Should be able to fetch a Casm class if its definition exists, database is inconsistent.'' casm)
               (\<lambda>casm_contract_class.
             rbind (map_err ProgramError (ContractClassV1_try_from (casm_program P casm_contract_class) casm_contract_class))
               (\<lambda>class_v1. Ok (V1 class_v1)))))
           else
             rbind (papyrus_txn P self) (\<lambda>txn.
             rbind (map_err StateReadError (rbind (get_state_reader P txn) (\<lambda>sr.
                      db_get_deprecated_class_definition_at P sr state_number class_hash))) (\<lambda>v0_contract_class.
               case v0_contract_class of
                 Some starknet_api_contract_class \<Rightarrow>
                   rbind (map_err ProgramError (ContractClassV0_try_from P starknet_api_contract_class))
                     (\<lambda>class_v0. Ok (V0 class_v0))
               | None \<Rightarrow> Err (UndeclaredClassHash class_hash))))))"

definition papyrus_get_storage_at ::
    "('d, 't, 'r, 'p, 'z) PapyrusApi_scheme \<Rightarrow> ContractAddress \<Rightarrow> StorageKey
      \<Rightarrow> (('d, 'c) PapyrusReader, StateError, StarkFelt) action" where
  "papyrus_get_storage_at P contract_address key self =
     (rbind (papyrus_txn P self) (\<lambda>txn.
        map_err StateReadError (rbind (get_state_reader P txn) (\<lambda>sr.
          db_get_storage_at P sr (pr_latest_block self) contract_address key))), self)"

definition papyrus_get_nonce_at ::
    "('d, 't, 'r, 'p, 'z) PapyrusApi_scheme \<Rightarrow> ContractAddress \<Rightarrow> (('d, 'c) PapyrusReader, StateError, Nonce) action" where
  "papyrus_get_nonce_at P contract_address self =
     (rbind (papyrus_txn P self) (\<lambda>txn.
        case rbind (get_state_reader P txn) (\<lambda>sr. db_get_nonce_at P sr (pr_latest_block self) contract_address) of
          Ok (Some nonce) \<Rightarrow> Ok nonce
        | Ok None \<Rightarrow> Ok 0
        | Err err \<Rightarrow> Err (StateReadError err)
        | Panic p \<Rightarrow> Panic p), self)"

definition papyrus_get_class_hash_at ::
    "('d, 't, 'r, 'p, 'z) PapyrusApi_scheme \<Rightarrow> ContractAddress \<Rightarrow> (('d, 'c) PapyrusReader, StateError, ClassHash) action" where
  "papyrus_get_class_hash_at P contract_address self =
     (rbind (papyrus_txn P self) (\<lambda>txn.
        case rbind (get_state_reader P txn) (\<lambda>sr. db_get_class_hash_at P sr (pr_latest_block self) contract_address) of
          Ok (Some class_hash) \<Rightarrow> Ok class_hash
        | Ok None \<Rightarrow> Ok 0
        | Err err \<Rightarrow> Err (StateReadError err)
        | Panic p \<Rightarrow> Panic p), self)"

definition papyrus_get_compiled_contract_class ::
    "('d, 't, 'r, 'p, 'z) PapyrusApi_scheme \<Rightarrow> 'c SizedCache \<Rightarrow> ClassHash
      \<Rightarrow> (('d, 'c) PapyrusReader, StateError, ContractClass) action" where
  "papyrus_get_compiled_contract_class P C class_hash self =
     (case GlobalContractCache_get C class_hash (pr_global_class_hash_to_class self) of
        (contract_class, cache) \<Rightarrow>
          (let self = self\<lparr>pr_global_class_hash_to_class := cache\<rparr> in
           case contract_class of
             Some contract_class \<Rightarrow> (Ok contract_class, self)
           | None \<Rightarrow>
               (case papyrus_class_from_db P self class_hash of
                  Ok contract_class_from_db \<Rightarrow>
                    (Ok contract_class_from_db,
                     self\<lparr>pr_global_class_hash_to_class :=
                       GlobalContractCache_set C class_hash contract_class_from_db (pr_global_class_hash_to_class self)\<rparr>)
                | Err e \<Rightarrow> (Err e, self)
                | Panic p \<Rightarrow> (Panic p, self))))"

definition papyrus_get_compiled_class_hash ::
    "ClassHash \<Rightarrow> (('d, 'c) PapyrusReader, StateError, CompiledClassHash) action" where
  "papyrus_get_compiled_class_hash class_hash = slift (Panic ''not yet implemented'')"

definition papyrus_reader ::
    "('d, 't, 'r, 'p, 'z) PapyrusApi_scheme \<Rightarrow> 'c SizedCache \<Rightarrow> ('d, 'c) PapyrusReader StateReader" where
  "papyrus_reader P C =
     \<lparr>sr_get_storage_at = papyrus_get_storage_at P,
      sr_get_nonce_at = papyrus_get_nonce_at P,
      sr_get_class_hash_at = papyrus_get_class_hash_at P,
      sr_get_compiled_contract_class = papyrus_get_compiled_contract_class P C,
      sr_get_compiled_class_hash = papyrus_get_compiled_class_hash\<rparr>"

section \<open>The contract of a reader\<close>

text \<open>
  What the database says at the block of the reader, without the cache; and the invariant that
  the cache holds only classes that the database gives at that block.
\<close>

definition papyrus_view :: "('d, 't, 'r, 'p, 'z) PapyrusApi_scheme \<Rightarrow> ('d, 'c) PapyrusReader \<Rightarrow> StateView" where
  "papyrus_view P self =
     \<lparr>sv_storage = (\<lambda>a k. fst (papyrus_get_storage_at P a k self)),
      sv_nonce = (\<lambda>a. fst (papyrus_get_nonce_at P a self)),
      sv_class_hash = (\<lambda>a. fst (papyrus_get_class_hash_at P a self)),
      sv_class = papyrus_class_from_db P self,
      sv_compiled_class_hash = (\<lambda>h. Panic ''not yet implemented'')\<rparr>"

definition cache_coherent ::
    "('d, 't, 'r, 'p, 'z) PapyrusApi_scheme \<Rightarrow> ('c \<Rightarrow> ClassHash \<Rightarrow> ContractClass option) \<Rightarrow> ('d, 'c) PapyrusReader \<Rightarrow> bool" where
  "cache_coherent P content self \<longleftrightarrow>
     (\<forall>h cl. content (pr_global_class_hash_to_class self) h = Some cl \<longrightarrow> papyrus_class_from_db P self h = Ok cl)"

lemma papyrus_cache_irrelevant [simp]:
  "papyrus_txn P (self\<lparr>pr_global_class_hash_to_class := c\<rparr>) = papyrus_txn P self"
  "papyrus_class_from_db P (self\<lparr>pr_global_class_hash_to_class := c\<rparr>) = papyrus_class_from_db P self"
  "papyrus_view P (self\<lparr>pr_global_class_hash_to_class := c\<rparr>) = papyrus_view P self"
  by (simp_all add: fun_eq_iff Let_def papyrus_txn_def papyrus_class_from_db_def papyrus_view_def papyrus_get_storage_at_def
      papyrus_get_nonce_at_def papyrus_get_class_hash_at_def cong: if_cong option.case_cong)

lemma cache_coherent_submap:
  assumes "cache_coherent P content self" and "content c \<subseteq>\<^sub>m content (pr_global_class_hash_to_class self)"
  shows "cache_coherent P content (self\<lparr>pr_global_class_hash_to_class := c\<rparr>)"
  using assms by (auto simp: cache_coherent_def map_le_def dom_def)

lemma cache_coherent_set:
  assumes "cache_coherent P content self" and "papyrus_class_from_db P self h = Ok cl"
    and "content c \<subseteq>\<^sub>m (content (pr_global_class_hash_to_class self))(h \<mapsto> cl)"
  shows "cache_coherent P content (self\<lparr>pr_global_class_hash_to_class := c\<rparr>)"
  unfolding cache_coherent_def
proof (intro allI impI)
  fix h' cl'
  assume "content (pr_global_class_hash_to_class (self\<lparr>pr_global_class_hash_to_class := c\<rparr>)) h' = Some cl'"
  then have "((content (pr_global_class_hash_to_class self))(h \<mapsto> cl)) h' = Some cl'"
    using assms(3) by (auto simp: map_le_def dom_def)
  then show "papyrus_class_from_db P (self\<lparr>pr_global_class_hash_to_class := c\<rparr>) h' = Ok cl'"
    using assms(1,2) by (auto simp: cache_coherent_def split: if_splits)
qed

lemma papyrus_class_law:
  assumes laws: "cache_laws C content" and coherent: "cache_coherent P content self"
  shows "fst (papyrus_get_compiled_contract_class P C h self) = papyrus_class_from_db P self h
    \<and> cache_coherent P content (snd (papyrus_get_compiled_contract_class P C h self))
    \<and> papyrus_view P (snd (papyrus_get_compiled_contract_class P C h self)) = papyrus_view P self"
proof -
  obtain found c where got: "cache_get C h (pr_global_class_hash_to_class self) = (found, c)"
    by fastforce
  let ?self = "self\<lparr>pr_global_class_hash_to_class := c\<rparr>"
  have "content c \<subseteq>\<^sub>m content (pr_global_class_hash_to_class self)"
    using laws got unfolding cache_laws_def by (metis snd_conv)
  then have coherent': "cache_coherent P content ?self"
    by (rule cache_coherent_submap [OF coherent])
  show ?thesis
  proof (cases found)
    case (Some cl)
    then have "content (pr_global_class_hash_to_class self) h = Some cl"
      using laws got unfolding cache_laws_def by (metis fst_conv)
    then have "papyrus_class_from_db P self h = Ok cl"
      using coherent by (simp add: cache_coherent_def)
    then show ?thesis
      using coherent' Some got by (simp add: papyrus_get_compiled_contract_class_def GlobalContractCache_get_def)
  next
    case None
    have set: "content (cache_set C h cl c) \<subseteq>\<^sub>m (content c)(h \<mapsto> cl)" for cl
      using laws by (simp add: cache_laws_def)
    have "cache_coherent P content (self\<lparr>pr_global_class_hash_to_class := cache_set C h cl c\<rparr>)"
      if "papyrus_class_from_db P self h = Ok cl" for cl
      using cache_coherent_set [OF coherent', of h cl "cache_set C h cl c"] that set [of cl] by simp
    then show ?thesis
      using coherent' None got
      by (cases "papyrus_class_from_db P self h")
        (simp_all add: papyrus_get_compiled_contract_class_def GlobalContractCache_get_def GlobalContractCache_set_def)
  qed
qed

lemma papyrus_state_reader:
  assumes "cache_laws C content"
  shows "state_reader (papyrus_reader P C) (papyrus_view P) (cache_coherent P content)"
  using papyrus_class_law [OF assms]
  by unfold_locales
    (simp_all add: papyrus_reader_def papyrus_view_def papyrus_get_storage_at_def papyrus_get_nonce_at_def
      papyrus_get_class_hash_at_def papyrus_get_compiled_class_hash_def slift_def)

text \<open>A reader with a new or a just cleared cache satisfies the invariant, whatever the database holds.\<close>

lemma cache_coherent_new:
  assumes "cache_laws C content"
  shows "cache_coherent P content (PapyrusReader_new storage n (GlobalContractCache_new C cache_size))"
    and "cache_coherent P content (PapyrusReader_new storage n (GlobalContractCache_clear C c))"
  using assms
  by (simp_all add: cache_coherent_def cache_laws_def PapyrusReader_new_def GlobalContractCache_new_def
      GlobalContractCache_clear_def)

section \<open>A least recently used cache\<close>

text \<open>An instance of the cache: a capacity and the entries, the most recently used one first.\<close>

type_synonym LruCache = "usize \<times> (ClassHash \<times> ContractClass) list"

definition lru_touch :: "ClassHash \<Rightarrow> ContractClass \<Rightarrow> LruCache \<Rightarrow> LruCache" where
  "lru_touch h cl c = (fst c, take (unat (fst c)) ((h, cl) # AList.delete h (snd c)))"

definition lru_cache :: "LruCache SizedCache" where
  "lru_cache =
     \<lparr>cache_with_size = (\<lambda>n. (n, [])),
      cache_get = (\<lambda>h c. case map_of (snd c) h of None \<Rightarrow> (None, c) | Some cl \<Rightarrow> (Some cl, lru_touch h cl c)),
      cache_set = lru_touch,
      cache_clear = (\<lambda>c. (fst c, []))\<rparr>"

definition lru_content :: "LruCache \<Rightarrow> ClassHash \<Rightarrow> ContractClass option" where
  "lru_content c = map_of (snd c)"

lemma map_of_take_le: "map_of (take n xs) \<subseteq>\<^sub>m map_of xs"
  using map_le_map_add [of "map_of (take n xs)" "map_of (drop n xs)"]
  by (simp flip: map_of_append)

lemma lru_touch_content: "lru_content (lru_touch h cl c) \<subseteq>\<^sub>m (lru_content c)(h \<mapsto> cl)"
proof -
  have "map_of ((h, cl) # AList.delete h (snd c)) = (map_of (snd c))(h \<mapsto> cl)"
    by (auto simp: delete_conv')
  then show ?thesis
    using map_of_take_le [of "unat (fst c)" "(h, cl) # AList.delete h (snd c)"]
    by (simp add: lru_content_def lru_touch_def)
qed

lemma lru_cache_laws: "cache_laws lru_cache lru_content"
proof -
  have "lru_content (lru_touch h cl c) \<subseteq>\<^sub>m lru_content c" if "map_of (snd c) h = Some cl" for h cl c
    using lru_touch_content [of h cl c] that by (simp add: lru_content_def map_upd_triv)
  then show ?thesis
    using lru_touch_content
    by (auto simp: cache_laws_def lru_cache_def lru_content_def split: option.splits)
qed

interpretation papyrus_lru: state_reader "papyrus_reader P lru_cache" "papyrus_view P" "cache_coherent P lru_content" for P
  by (rule papyrus_state_reader [OF lru_cache_laws])

end
