(* ===== verification/Native_Storage.thy ===== *)
theory Native_Storage
  imports Papyrus_Reader State_Changes Syscall_Base Transaction_Executor
begin

text \<open>
  The storage of a sequencer (\<open>native_blockifier/src/storage.rs\<close>), the state diffs it exchanges with
  Python (\<open>native_blockifier/src/py_state_diff.rs\<close>) and the errors of the crate
  (\<open>native_blockifier/src/errors.rs\<close>). Values that PyO3 has extracted from Python objects are the
  arguments: a \<open>PyFelt\<close> is a felt.

  The database, its transactions and the JSON parser are fields of \<open>StorageApi\<close>. The operations of a
  write transaction return a transaction; \<open>txn_commit\<close> is the step that replaces the database of the
  storage, at the place where the code commits. The reader and the writer are handles of one database.
\<close>

section \<open>Errors\<close>

datatype InvalidNativeBlockifierInputError =
    InvalidGasPriceWei u128
  | InvalidGasPriceFri u128
  | InvalidDataGasPriceWei u128
  | InvalidDataGasPriceFri u128

datatype NativeBlockifierInputError =
    MaxStepsPerTxOutOfRange u32
  | MaxValidateStepsPerTxOutOfRange u32
  | InvalidInput InvalidNativeBlockifierInputError
  | InputParseError ParseError
  | InputProgramError string
  | InputStarknetApiError string
  | UnsupportedContractClassVersion usize
  | UnsupportedTransactionVersion TransactionType usize

datatype NativeBlockifierError =
    NativeContractClassError ContractClassError
  | NativeInputError NativeBlockifierInputError
  | NativeProgramError string
  | NativePyo3Error string
  | NativeSerdeError string
  | NativeStarknetApiError string
  | NativeStateError StateError
  | NativeStatefulValidatorError StatefulValidatorError
  | NativeStorageError string
  | NativeTransactionExecutionError TransactionExecutionError
  | NativeTransactionExecutorError TransactionExecutorError
  | NativeTransactionPreValidationError TransactionPreValidationError

type_synonym 'a NativeBlockifierResult = "(NativeBlockifierError, 'a) result"

section \<open>State diffs\<close>

record PyStateDiff =
  psd_address_to_class_hash :: "(StarkFelt, StarkFelt) HashMap"
  psd_address_to_nonce :: "(StarkFelt, StarkFelt) HashMap"
  psd_storage_updates :: "(StarkFelt, (StarkFelt, StarkFelt) HashMap) HashMap"
  psd_class_hash_to_compiled_class_hash :: "(StarkFelt, StarkFelt) HashMap"

record ('p, 'k) StateDiff =
  sd_deployed_contracts :: "(ContractAddress, ClassHash) HashMap"
  sd_storage_diffs :: StorageDiff
  sd_declared_classes :: "(ClassHash, CompiledClassHash \<times> 'k) HashMap"
  sd_deprecated_declared_classes :: "(ClassHash, 'p DeprecatedContractClass) HashMap"
  sd_nonces :: "(ContractAddress, Nonce) HashMap"
  sd_replaced_classes :: "(ContractAddress, ClassHash) HashMap"

text \<open>The loops of \<open>try_from\<close>: a felt out of the range of addresses and storage keys ends them.\<close>

fun insert_by_patricia_key ::
    "'a Externals_scheme \<Rightarrow> (StarkFelt, 'v) HashMap \<Rightarrow> (nat, 'v) HashMap \<Rightarrow> (nat, 'v) HashMap NativeBlockifierResult" where
  "insert_by_patricia_key E [] inserted = Ok inserted"
| "insert_by_patricia_key E ((felt, v) # rest) inserted =
     rbind (map_err NativeStarknetApiError (patricia_key_try_from E felt)) (\<lambda>key.
       insert_by_patricia_key E rest (hm_insert key v inserted))"

fun insert_storage_diffs ::
    "'a Externals_scheme \<Rightarrow> (StarkFelt, (StarkFelt, StarkFelt) HashMap) HashMap \<Rightarrow> StorageDiff
      \<Rightarrow> StorageDiff NativeBlockifierResult" where
  "insert_storage_diffs E [] storage_diffs = Ok storage_diffs"
| "insert_storage_diffs E ((felt, storage_mapping) # rest) storage_diffs =
     rbind (map_err NativeStarknetApiError (patricia_key_try_from E felt)) (\<lambda>address.
     rbind (insert_by_patricia_key E storage_mapping []) (\<lambda>changes.
       insert_storage_diffs E rest (hm_insert address changes storage_diffs)))"

definition StateDiff_try_from :: "'a Externals_scheme \<Rightarrow> PyStateDiff \<Rightarrow> ('p, 'k) StateDiff NativeBlockifierResult" where
  "StateDiff_try_from E state_diff =
     rbind (insert_by_patricia_key E (psd_address_to_class_hash state_diff) []) (\<lambda>deployed_contracts.
     rbind (insert_storage_diffs E (psd_storage_updates state_diff) []) (\<lambda>storage_diffs.
     rbind (insert_by_patricia_key E (psd_address_to_nonce state_diff) []) (\<lambda>nonces.
       Ok \<lparr>sd_deployed_contracts = deployed_contracts, sd_storage_diffs = storage_diffs, sd_declared_classes = [],
           sd_deprecated_declared_classes = [], sd_nonces = nonces, sd_replaced_classes = []\<rparr>)))"

definition PyStateDiff_from :: "CommitmentStateDiff \<Rightarrow> PyStateDiff" where
  "PyStateDiff_from state_diff =
     \<lparr>psd_address_to_class_hash = address_to_class_hash state_diff,
      psd_address_to_nonce = address_to_nonce state_diff,
      psd_storage_updates = diff_storage_updates state_diff,
      psd_class_hash_to_compiled_class_hash = class_hash_to_compiled_class_hash state_diff\<rparr>"

record PyResourcePrice =
  price_in_wei :: u128
  price_in_fri :: u128

record PyBlockInfo =
  pbi_block_number :: u64
  pbi_block_timestamp :: u64
  pbi_l1_gas_price :: PyResourcePrice
  pbi_l1_data_gas_price :: PyResourcePrice
  pbi_sequencer_address :: StarkFelt
  pbi_use_kzg_da :: bool

section \<open>The storage\<close>

record StorageConfig =
  sc_path_prefix :: string
  sc_chain_id :: string
  sc_enforce_file_exists :: bool
  sc_max_size :: usize

text \<open>The fields of a header that \<open>append_block\<close> sets; the others have their default value.\<close>

record BlockHeader =
  bh_block_hash :: StarkFelt
  bh_parent_hash :: StarkFelt
  bh_block_number :: BlockNumber

record ('d, 't, 'r, 'p, 'w, 'k) StorageApi = "('d, 't, 'r, 'p) PapyrusApi" +
  open_storage :: "StorageConfig \<Rightarrow> (string, 'd) result"
  db_get_state_marker :: "'t \<Rightarrow> (string, BlockNumber) result"
  db_get_header_marker :: "'t \<Rightarrow> (string, BlockNumber) result"
  db_get_block_header :: "'t \<Rightarrow> BlockNumber \<Rightarrow> (string, BlockHeader option) result"
  db_get_class_definition_at :: "'r \<Rightarrow> BlockNumber \<Rightarrow> ClassHash \<Rightarrow> (string, 'k option) result"
  begin_rw_txn :: "'d \<Rightarrow> (string, 'w) result"
  append_casm :: "'w \<Rightarrow> ClassHash \<Rightarrow> CasmContractClass \<Rightarrow> (string, 'w) result"
  append_state_diff :: "'w \<Rightarrow> BlockNumber \<Rightarrow> ('p, 'k) StateDiff \<Rightarrow> (string, 'w) result"
  append_header :: "'w \<Rightarrow> BlockNumber \<Rightarrow> BlockHeader \<Rightarrow> (string, 'w) result"
  revert_state_diff :: "'w \<Rightarrow> BlockNumber \<Rightarrow> (string, 'w) result"
  revert_header :: "'w \<Rightarrow> BlockNumber \<Rightarrow> (string, 'w) result"
  commit_txn :: "'w \<Rightarrow> (string, 'd) result"
  default_contract_class :: 'k
  casm_from_str :: "string \<Rightarrow> (string, CasmContractClass) result"
  deprecated_class_from_str :: "string \<Rightarrow> (string, 'p DeprecatedContractClass) result"

definition GENESIS_BLOCK_ID :: u64 where "GENESIS_BLOCK_ID = - 1"

record 'd PapyrusStorage =
  ps_database :: 'd
  ps_reader :: bool
  ps_writer :: bool

definition PapyrusStorage_new ::
    "('d, 't, 'r, 'p, 'w, 'k) StorageApi \<Rightarrow> StorageConfig \<Rightarrow> 'd PapyrusStorage NativeBlockifierResult" where
  "PapyrusStorage_new P config =
     rbind (map_err NativeStorageError (open_storage P config)) (\<lambda>database.
       Ok \<lparr>ps_database = database, ps_reader = True, ps_writer = True\<rparr>)"

definition storage_reader :: "'d PapyrusStorage \<Rightarrow> ('e, 'd) result" where
  "storage_reader self = (if ps_reader self then Ok (ps_database self) else Panic ''Storage should be initialized.'')"

definition storage_writer :: "'d PapyrusStorage \<Rightarrow> ('e, 'd) result" where
  "storage_writer self = (if ps_writer self then Ok (ps_database self) else Panic ''Storage should be initialized.'')"

definition get_state_marker :: "('d, 't, 'r, 'p, 'w, 'k) StorageApi \<Rightarrow> 'd PapyrusStorage \<Rightarrow> u64 NativeBlockifierResult" where
  "get_state_marker P self =
     rbind (storage_reader self) (\<lambda>reader.
       map_err NativeStorageError (rbind (begin_ro_txn P reader) (db_get_state_marker P)))"

definition get_header_marker :: "('d, 't, 'r, 'p, 'w, 'k) StorageApi \<Rightarrow> 'd PapyrusStorage \<Rightarrow> u64 NativeBlockifierResult" where
  "get_header_marker P self =
     rbind (storage_reader self) (\<lambda>reader.
       map_err NativeStorageError (rbind (begin_ro_txn P reader) (db_get_header_marker P)))"

text \<open>The bytes of the block hash that \<open>get_block_id\<close> returns are the felt they stand for.\<close>

definition get_block_id ::
    "('d, 't, 'r, 'p, 'w, 'k) StorageApi \<Rightarrow> u64 \<Rightarrow> 'd PapyrusStorage \<Rightarrow> StarkFelt option NativeBlockifierResult" where
  "get_block_id P number self =
     rbind (storage_reader self) (\<lambda>reader.
       map_err NativeStorageError
         (rbind (begin_ro_txn P reader) (\<lambda>txn.
          rbind (db_get_block_header P txn number) (\<lambda>block_header.
            Ok (map_option bh_block_hash block_header)))))"

definition txn_begin ::
    "('d, 't, 'r, 'p, 'w, 'k) StorageApi \<Rightarrow> ('d PapyrusStorage, NativeBlockifierError, 'w) action" where
  "txn_begin P self = (rbind (storage_writer self) (\<lambda>writer. map_err NativeStorageError (begin_rw_txn P writer)), self)"

definition txn_step ::
    "(string, 'w) result \<Rightarrow> ('d PapyrusStorage, NativeBlockifierError, 'w) action" where
  "txn_step r = slift (map_err NativeStorageError r)"

definition txn_commit ::
    "('d, 't, 'r, 'p, 'w, 'k) StorageApi \<Rightarrow> 'w \<Rightarrow> ('d PapyrusStorage, NativeBlockifierError, unit) action" where
  "txn_commit P txn self =
     (case commit_txn P txn of
        Ok database \<Rightarrow> (Ok (), self\<lparr>ps_database := database\<rparr>)
      | Err e \<Rightarrow> (Err (NativeStorageError e), self)
      | Panic p \<Rightarrow> (Panic p, self))"

definition storage_revert_block ::
    "('d, 't, 'r, 'p, 'w, 'k) StorageApi \<Rightarrow> u64 \<Rightarrow> ('d PapyrusStorage, NativeBlockifierError, unit) action" where
  "storage_revert_block P number =
     sbind (txn_begin P) (\<lambda>revert_txn.
     sbind (txn_step (revert_state_diff P revert_txn number)) (\<lambda>revert_txn.
     sbind (txn_step (revert_header P revert_txn number)) (\<lambda>revert_txn.
       txn_commit P revert_txn)))"

text \<open>A query of the state in a read transaction of its own, as the loops of \<open>append_block\<close> make it.\<close>

definition state_query ::
    "('d, 't, 'r, 'p, 'w, 'k) StorageApi \<Rightarrow> 'd PapyrusStorage \<Rightarrow> ('r \<Rightarrow> (string, 'v option) result)
      \<Rightarrow> 'v option NativeBlockifierResult" where
  "state_query P self query =
     rbind (storage_reader self) (\<lambda>reader.
       map_err NativeStorageError (rbind (begin_ro_txn P reader) (\<lambda>txn. rbind (get_state_reader P txn) query)))"

fun collect_deprecated_declared_classes ::
    "('d, 't, 'r, 'p, 'w, 'k) StorageApi \<Rightarrow> 'd PapyrusStorage \<Rightarrow> BlockNumber \<Rightarrow> (StarkFelt, string) HashMap
      \<Rightarrow> (ClassHash, 'p DeprecatedContractClass) HashMap \<Rightarrow> (ClassHash, 'p DeprecatedContractClass) HashMap NativeBlockifierResult" where
  "collect_deprecated_declared_classes P self state_number [] classes = Ok classes"
| "collect_deprecated_declared_classes P self state_number ((class_hash, raw_class) # rest) classes =
     rbind (state_query P self (\<lambda>sr. db_get_deprecated_class_definition_at P sr state_number class_hash)) (\<lambda>definition_at.
       if definition_at = None then
         rbind (map_err NativeSerdeError (deprecated_class_from_str P raw_class)) (\<lambda>deprecated_contract_class.
           collect_deprecated_declared_classes P self state_number rest
             (hm_insert class_hash deprecated_contract_class classes))
       else collect_deprecated_declared_classes P self state_number rest classes)"

fun collect_replaced_classes ::
    "'a Externals_scheme \<Rightarrow> ('d, 't, 'r, 'p, 'w, 'k) StorageApi \<Rightarrow> 'd PapyrusStorage \<Rightarrow> BlockNumber
      \<Rightarrow> (StarkFelt, StarkFelt) HashMap \<Rightarrow> (ContractAddress, ClassHash) HashMap
      \<Rightarrow> (ContractAddress, ClassHash) HashMap NativeBlockifierResult" where
  "collect_replaced_classes E P self state_number [] replaced_classes = Ok replaced_classes"
| "collect_replaced_classes E P self state_number ((felt, class_hash) # rest) replaced_classes =
     rbind (map_err NativeStarknetApiError (patricia_key_try_from E felt)) (\<lambda>address.
     rbind (state_query P self (\<lambda>sr. db_get_class_hash_at P sr state_number address)) (\<lambda>class_hash_at.
       if class_hash_at \<noteq> None
       then collect_replaced_classes E P self state_number rest (hm_insert address class_hash replaced_classes)
       else collect_replaced_classes E P self state_number rest replaced_classes))"

fun collect_declared_classes ::
    "('d, 't, 'r, 'p, 'w, 'k) StorageApi \<Rightarrow> 'd PapyrusStorage \<Rightarrow> BlockNumber \<Rightarrow> (StarkFelt, StarkFelt \<times> string) HashMap
      \<Rightarrow> (ClassHash, CompiledClassHash \<times> 'k) HashMap \<times> (ClassHash \<times> CasmContractClass) list
      \<Rightarrow> ((ClassHash, CompiledClassHash \<times> 'k) HashMap \<times> (ClassHash \<times> CasmContractClass) list) NativeBlockifierResult" where
  "collect_declared_classes P self state_number [] collected = Ok collected"
| "collect_declared_classes P self state_number ((class_hash, compiled_class_hash, raw_class) # rest) (classes, casms) =
     rbind (state_query P self (\<lambda>sr. db_get_class_definition_at P sr state_number class_hash)) (\<lambda>definition_at.
       if definition_at = None then
         rbind (map_err NativeSerdeError (casm_from_str P raw_class)) (\<lambda>contract_class.
           collect_declared_classes P self state_number rest
             (hm_insert class_hash (compiled_class_hash, default_contract_class P) classes,
              casms @ [(class_hash, contract_class)]))
       else collect_declared_classes P self state_number rest (classes, casms))"

fun append_casms ::
    "('d, 't, 'r, 'p, 'w, 'k) StorageApi \<Rightarrow> 'w \<Rightarrow> (ClassHash \<times> CasmContractClass) list \<Rightarrow> (string, 'w) result" where
  "append_casms P append_txn [] = Ok append_txn"
| "append_casms P append_txn ((class_hash, contract_class) # rest) =
     rbind (append_casm P append_txn class_hash contract_class) (\<lambda>append_txn. append_casms P append_txn rest)"

text \<open>What is written for a block, before the transaction begins; the rest of the state diff is in \<open>bu_py_state_diff\<close>.\<close>

record ('p, 'k) BlockUpdate =
  bu_py_state_diff :: PyStateDiff
  bu_deprecated_declared_classes :: "(ClassHash, 'p DeprecatedContractClass) HashMap"
  bu_replaced_classes :: "(ContractAddress, ClassHash) HashMap"
  bu_declared_classes :: "(ClassHash, CompiledClassHash \<times> 'k) HashMap"
  bu_undeclared_casm_contracts :: "(ClassHash \<times> CasmContractClass) list"

definition prepare_block ::
    "'a Externals_scheme \<Rightarrow> ('d, 't, 'r, 'p, 'w, 'k) StorageApi \<Rightarrow> 'd PapyrusStorage \<Rightarrow> BlockNumber \<Rightarrow> PyStateDiff
      \<Rightarrow> (StarkFelt, StarkFelt \<times> string) HashMap \<Rightarrow> (StarkFelt, string) HashMap
      \<Rightarrow> ('p, 'k) BlockUpdate NativeBlockifierResult" where
  "prepare_block E P self state_number py_state_diff declared_class_hash_to_class deprecated_declared_class_hash_to_class =
     rbind (collect_deprecated_declared_classes P self state_number deprecated_declared_class_hash_to_class [])
       (\<lambda>deprecated_declared_classes.
     rbind (collect_replaced_classes E P self state_number (psd_address_to_class_hash py_state_diff) [])
       (\<lambda>replaced_classes.
     let py_state_diff = py_state_diff\<lparr>psd_address_to_class_hash :=
           fold hm_remove (hm_keys replaced_classes) (psd_address_to_class_hash py_state_diff)\<rparr>
     in rbind (collect_declared_classes P self state_number declared_class_hash_to_class ([], []))
       (\<lambda>(declared_classes, undeclared_casm_contracts).
       Ok \<lparr>bu_py_state_diff = py_state_diff, bu_deprecated_declared_classes = deprecated_declared_classes,
           bu_replaced_classes = replaced_classes, bu_declared_classes = declared_classes,
           bu_undeclared_casm_contracts = undeclared_casm_contracts\<rparr>)))"

definition block_state_diff :: "'a Externals_scheme \<Rightarrow> ('p, 'k) BlockUpdate \<Rightarrow> ('p, 'k) StateDiff NativeBlockifierResult" where
  "block_state_diff E update =
     rbind (StateDiff_try_from E (bu_py_state_diff update)) (\<lambda>state_diff.
       Ok (state_diff\<lparr>sd_deprecated_declared_classes := bu_deprecated_declared_classes update,
                      sd_declared_classes := bu_declared_classes update,
                      sd_replaced_classes := bu_replaced_classes update\<rparr>))"

definition write_block ::
    "'a Externals_scheme \<Rightarrow> ('d, 't, 'r, 'p, 'w, 'k) StorageApi \<Rightarrow> u64 \<Rightarrow> StarkFelt option \<Rightarrow> BlockNumber
      \<Rightarrow> ('p, 'k) BlockUpdate \<Rightarrow> ('d PapyrusStorage, NativeBlockifierError, unit) action" where
  "write_block E P block_id previous_block_id number update =
     sbind (txn_begin P) (\<lambda>append_txn.
     sbind (txn_step (append_casms P append_txn (bu_undeclared_casm_contracts update))) (\<lambda>append_txn.
     sbind (slift (block_state_diff E update)) (\<lambda>state_diff.
     sbind (txn_step (append_state_diff P append_txn number state_diff)) (\<lambda>append_txn.
     let previous_block_id = (case previous_block_id of Some felt \<Rightarrow> felt | None \<Rightarrow> unat GENESIS_BLOCK_ID);
         block_header = \<lparr>bh_block_hash = unat block_id, bh_parent_hash = previous_block_id, bh_block_number = number\<rparr>
     in sbind (txn_step (append_header P append_txn number block_header)) (\<lambda>append_txn.
          txn_commit P append_txn)))))"

definition storage_append_block ::
    "'a Externals_scheme \<Rightarrow> ('d, 't, 'r, 'p, 'w, 'k) StorageApi \<Rightarrow> u64 \<Rightarrow> StarkFelt option \<Rightarrow> PyBlockInfo \<Rightarrow> PyStateDiff
      \<Rightarrow> (StarkFelt, StarkFelt \<times> string) HashMap \<Rightarrow> (StarkFelt, string) HashMap
      \<Rightarrow> ('d PapyrusStorage, NativeBlockifierError, unit) action" where
  "storage_append_block E P block_id previous_block_id py_block_info py_state_diff declared_class_hash_to_class
       deprecated_declared_class_hash_to_class =
     (let number = pbi_block_number py_block_info
      in sbind (\<lambda>self. (prepare_block E P self number py_state_diff declared_class_hash_to_class
                         deprecated_declared_class_hash_to_class, self)) (\<lambda>update.
           write_block E P block_id previous_block_id number update))"

fun expect_ok :: "string \<Rightarrow> ('e, 'a) result \<Rightarrow> ('f, 'a) result" where
  "expect_ok msg (Ok a) = Ok a"
| "expect_ok msg (Err e) = Panic msg"
| "expect_ok msg (Panic p) = Panic p"

definition storage_validate_aligned ::
    "('d, 't, 'r, 'p, 'w, 'k) StorageApi \<Rightarrow> u64 \<Rightarrow> 'd PapyrusStorage \<Rightarrow> ('e, unit) result" where
  "storage_validate_aligned P source_block_number self =
     rbind (expect_ok ''Should have a header marker'' (get_header_marker P self)) (\<lambda>header_marker.
     rbind (expect_ok ''Should have a state marker'' (get_state_marker P self)) (\<lambda>state_marker.
       if header_marker \<noteq> state_marker
       then Panic ''Block header marker must be aligned to block state diff marker before sequencing starts.''
       else if state_marker \<noteq> source_block_number
       then Panic ''Target storage should have been aligned to block number.''
       else Ok ()))"

definition storage_close :: "'d PapyrusStorage \<Rightarrow> 'd PapyrusStorage" where
  "storage_close self = self\<lparr>ps_reader := False, ps_writer := False\<rparr>"

section \<open>Lemmas\<close>

lemmas ok_iffs = rbind_Ok_iff map_err_eq_iff

lemma patricia_key_try_from_Ok_iff: "patricia_key_try_from E felt = Ok key \<longleftrightarrow> felt < patricia_key_upper_bound E \<and> key = felt"
  by (auto simp: patricia_key_try_from_def)

lemma hm_insert_new: "k \<notin> fst ` set m \<Longrightarrow> hm_insert k v m = m @ [(k, v)]"
  unfolding hm_insert_def by (induction m) auto

lemma insert_by_patricia_key_eq:
  assumes "distinct (map fst inserted @ map fst felts)" and "\<forall>felt\<in>fst ` set felts. felt < patricia_key_upper_bound E"
  shows "insert_by_patricia_key E felts inserted = Ok (inserted @ felts)"
  using assms
proof (induction felts arbitrary: inserted)
  case (Cons entry felts)
  obtain felt v where entry: "entry = (felt, v)" by fastforce
  have "hm_insert felt v inserted = inserted @ [entry]"
    using hm_insert_new [of felt inserted v] Cons.prems(1) entry by auto
  then show ?case
    using Cons.IH [of "inserted @ [entry]"] Cons.prems entry by (simp add: patricia_key_try_from_def)
qed simp

lemma insert_by_patricia_key_lookup:
  assumes "insert_by_patricia_key E felts inserted = Ok m" and "hm_wf felts"
  shows "map_of m = map_of inserted ++ map_of felts"
  using assms
proof (induction felts arbitrary: inserted)
  case (Cons entry felts)
  obtain felt v where entry: "entry = (felt, v)" by fastforce
  have "map_of m = map_of (hm_insert felt v inserted) ++ map_of felts"
    using Cons entry by (auto simp: ok_iffs patricia_key_try_from_Ok_iff hm_wf_def)
  moreover have "map_of felts felt = None"
    using Cons.prems(2) entry by (auto simp: hm_wf_def map_of_eq_None_iff)
  ultimately show ?case
    using entry by (auto simp: fun_eq_iff map_add_def split: option.splits)
qed simp

lemma insert_storage_diffs_eq:
  assumes "distinct (map fst inserted @ map fst updates)" and "\<forall>felt\<in>fst ` set updates. felt < patricia_key_upper_bound E"
    and "\<forall>(a, m)\<in>set updates. hm_wf m \<and> (\<forall>felt\<in>fst ` set m. felt < patricia_key_upper_bound E)"
  shows "insert_storage_diffs E updates inserted = Ok (inserted @ updates)"
  using assms
proof (induction updates arbitrary: inserted)
  case (Cons entry updates)
  obtain felt m where entry: "entry = (felt, m)" by fastforce
  have "hm_insert felt m inserted = inserted @ [entry]"
    using hm_insert_new [of felt inserted m] Cons.prems(1) entry by auto
  moreover have "insert_by_patricia_key E m [] = Ok m"
    using insert_by_patricia_key_eq [of "[]" m E] Cons.prems(3) entry by (auto simp: hm_wf_def)
  ultimately show ?case
    using Cons.IH [of "inserted @ [entry]"] Cons.prems entry by (simp add: patricia_key_try_from_def)
qed simp

text \<open>The state diff of a block goes to Python and comes back to be stored without loss.\<close>

lemma state_diff_round_trip:
  assumes "hm_wf (address_to_class_hash d)" and "hm_wf (address_to_nonce d)" and "hm_wf (diff_storage_updates d)"
    and "\<forall>felt \<in> fst ` set (address_to_class_hash d) \<union> fst ` set (address_to_nonce d) \<union> fst ` set (diff_storage_updates d).
      felt < patricia_key_upper_bound E"
    and "\<forall>(a, m)\<in>set (diff_storage_updates d). hm_wf m \<and> (\<forall>felt\<in>fst ` set m. felt < patricia_key_upper_bound E)"
  shows "StateDiff_try_from E (PyStateDiff_from d) =
    Ok \<lparr>sd_deployed_contracts = address_to_class_hash d, sd_storage_diffs = diff_storage_updates d, sd_declared_classes = [],
        sd_deprecated_declared_classes = [], sd_nonces = address_to_nonce d, sd_replaced_classes = []\<rparr>"
proof -
  have "insert_by_patricia_key E (address_to_class_hash d) [] = Ok (address_to_class_hash d)"
    and "insert_by_patricia_key E (address_to_nonce d) [] = Ok (address_to_nonce d)"
    and "insert_storage_diffs E (diff_storage_updates d) [] = Ok (diff_storage_updates d)"
    using insert_by_patricia_key_eq [of "[]" "address_to_class_hash d" E] insert_by_patricia_key_eq [of "[]" "address_to_nonce d" E]
      insert_storage_diffs_eq [of "[]" "diff_storage_updates d" E] assms
    by (simp_all add: hm_wf_def ball_Un)
  then show ?thesis
    by (simp add: StateDiff_try_from_def PyStateDiff_from_def)
qed

text \<open>What the database says, before the block, of the class hash of an address and of a class.\<close>

definition query_found :: "'v option NativeBlockifierResult \<Rightarrow> bool" where
  "query_found r = (case r of Ok (Some _) \<Rightarrow> True | _ \<Rightarrow> False)"

definition address_assigned ::
    "('d, 't, 'r, 'p, 'w, 'k) StorageApi \<Rightarrow> 'd PapyrusStorage \<Rightarrow> BlockNumber \<Rightarrow> ContractAddress \<Rightarrow> bool" where
  "address_assigned P self state_number address =
     query_found (state_query P self (\<lambda>sr. db_get_class_hash_at P sr state_number address))"

definition class_declared ::
    "('d, 't, 'r, 'p, 'w, 'k) StorageApi \<Rightarrow> 'd PapyrusStorage \<Rightarrow> BlockNumber \<Rightarrow> ClassHash \<Rightarrow> bool" where
  "class_declared P self state_number class_hash =
     query_found (state_query P self (\<lambda>sr. db_get_class_definition_at P sr state_number class_hash))"

definition deprecated_class_declared ::
    "('d, 't, 'r, 'p, 'w, 'k) StorageApi \<Rightarrow> 'd PapyrusStorage \<Rightarrow> BlockNumber \<Rightarrow> ClassHash \<Rightarrow> bool" where
  "deprecated_class_declared P self state_number class_hash =
     query_found (state_query P self (\<lambda>sr. db_get_deprecated_class_definition_at P sr state_number class_hash))"

lemma collect_replaced_lookup:
  assumes "collect_replaced_classes E P self n felts inserted = Ok m" and "hm_wf felts"
  shows "map_of m = (\<lambda>a. if address_assigned P self n a \<and> map_of felts a \<noteq> None then map_of felts a else map_of inserted a)"
  using assms
proof (induction felts arbitrary: inserted)
  case (Cons entry felts)
  obtain felt v where entry: "entry = (felt, v)" by fastforce
  have new: "map_of felts felt = None"
    using Cons.prems(2) entry by (auto simp: hm_wf_def map_of_eq_None_iff)
  have wf: "hm_wf felts"
    using Cons.prems(2) by (simp add: hm_wf_def)
  obtain class_hash_at where query: "state_query P self (\<lambda>sr. db_get_class_hash_at P sr n felt) = Ok class_hash_at"
    and rest: "collect_replaced_classes E P self n felts
                 (if class_hash_at \<noteq> None then hm_insert felt v inserted else inserted) = Ok m"
    using Cons.prems(1) entry by (auto simp: ok_iffs patricia_key_try_from_Ok_iff split: if_splits)
  show ?case
    using Cons.IH [OF rest wf] query new entry
    by (cases class_hash_at) (auto simp: fun_eq_iff address_assigned_def query_found_def)
qed simp

lemma map_of_fold_hm_remove: "map_of (fold hm_remove ks m) = (\<lambda>a. if a \<in> set ks then None else map_of m a)"
  by (induction ks arbitrary: m) (auto simp: fun_eq_iff hm_remove_def delete_conv')

lemma hm_wf_fold_hm_remove: "hm_wf m \<Longrightarrow> hm_wf (fold hm_remove ks m)"
  by (induction ks arbitrary: m) (auto simp: hm_wf_def hm_remove_def distinct_delete)

lemma collect_declared_step:
  assumes "collect_declared_classes P self n ((h, compiled, raw) # classes) (m, casms) = Ok (m', casms')"
  shows "if class_declared P self n h then collect_declared_classes P self n classes (m, casms) = Ok (m', casms')
    else \<exists>casm. casm_from_str P raw = Ok casm \<and> collect_declared_classes P self n classes
           (hm_insert h (compiled, default_contract_class P) m, casms @ [(h, casm)]) = Ok (m', casms')"
  using assms by (auto simp: ok_iffs class_declared_def query_found_def split: if_splits)

lemma collect_declared_lookup:
  assumes "collect_declared_classes P self n classes (m, casms) = Ok (m', casms')" and "hm_wf classes"
  shows "map_of m' = (\<lambda>h. if class_declared P self n h \<or> map_of classes h = None then map_of m h
      else map_option (\<lambda>(compiled, raw). (compiled, default_contract_class P)) (map_of classes h))"
  using assms
proof (induction classes arbitrary: m casms)
  case (Cons entry classes)
  obtain h compiled raw where entry: "entry = (h, compiled, raw)" by (metis prod.exhaust)
  have "map_of classes h = None" and "hm_wf classes"
    using Cons.prems(2) entry by (auto simp: hm_wf_def map_of_eq_None_iff)
  then show ?case
    using collect_declared_step [OF Cons.prems(1) [unfolded entry]] Cons.IH entry
    by (auto simp: fun_eq_iff split: if_splits)
qed simp

lemma collect_declared_casms:
  assumes "collect_declared_classes P self n classes (m, casms) = Ok (m', casms')" and "hm_wf classes"
  shows "\<exists>added. casms' = casms @ added \<and> map fst added = filter (\<lambda>h. \<not> class_declared P self n h) (map fst classes)
    \<and> (\<forall>(h, casm) \<in> set added. \<exists>compiled raw. map_of classes h = Some (compiled, raw) \<and> casm_from_str P raw = Ok casm)"
  using assms
proof (induction classes arbitrary: m casms)
  case (Cons entry classes)
  obtain h compiled raw where entry: "entry = (h, compiled, raw)" by (metis prod.exhaust)
  have new: "map_of classes h = None" and wf: "hm_wf classes"
    using Cons.prems(2) entry by (auto simp: hm_wf_def map_of_eq_None_iff)
  obtain here m1 where rest: "collect_declared_classes P self n classes (m1, casms @ here) = Ok (m', casms')"
    and here: "if class_declared P self n h then here = [] else \<exists>casm. here = [(h, casm)] \<and> casm_from_str P raw = Ok casm"
    using collect_declared_step [OF Cons.prems(1) [unfolded entry]] by (cases "class_declared P self n h") fastforce+
  obtain added where casms': "casms' = (casms @ here) @ added"
    and fsts: "map fst added = filter (\<lambda>h. \<not> class_declared P self n h) (map fst classes)"
    and parsed: "\<forall>(h, casm) \<in> set added. \<exists>compiled raw. map_of classes h = Some (compiled, raw) \<and> casm_from_str P raw = Ok casm"
    using Cons.IH [OF rest wf] by blast
  have "\<forall>(k, casm) \<in> set (here @ added). \<exists>compiled raw. map_of (entry # classes) k = Some (compiled, raw) \<and> casm_from_str P raw = Ok casm"
    using parsed here new entry by (fastforce split: if_splits)
  then show ?case
    using casms' fsts here entry by (intro exI [of _ "here @ added"]) (auto split: if_splits)
qed simp

lemma collect_deprecated_lookup:
  assumes "collect_deprecated_declared_classes P self n classes m = Ok m'" and "hm_wf classes"
  shows "map_option Ok (map_of m' h) = (if deprecated_class_declared P self n h \<or> map_of classes h = None
      then map_option Ok (map_of m h) else map_option (deprecated_class_from_str P) (map_of classes h))"
  using assms
proof (induction classes arbitrary: m)
  case (Cons entry classes)
  obtain k raw where entry: "entry = (k, raw)" by fastforce
  have new: "map_of classes k = None" and wf: "hm_wf classes"
    using Cons.prems(2) entry by (auto simp: hm_wf_def map_of_eq_None_iff)
  obtain found where query: "state_query P self (\<lambda>sr. db_get_deprecated_class_definition_at P sr n k) = Ok found"
    using Cons.prems(1) entry by (auto simp: ok_iffs)
  show ?case
  proof (cases found)
    case None
    then obtain parsed where parsed: "deprecated_class_from_str P raw = Ok parsed"
      and rest: "collect_deprecated_declared_classes P self n classes (hm_insert k parsed m) = Ok m'"
      using Cons.prems(1) entry query by (auto simp: ok_iffs)
    have "\<not> deprecated_class_declared P self n k"
      using query None by (simp add: deprecated_class_declared_def query_found_def)
    then show ?thesis
      using Cons.IH [OF rest wf] new entry parsed by auto
  next
    case (Some definition_at)
    have "deprecated_class_declared P self n k"
      using query Some by (simp add: deprecated_class_declared_def query_found_def)
    then show ?thesis
      using Cons.IH [of m] wf Cons.prems(1) new entry query Some by auto
  qed
qed simp

lemma insert_storage_diffs_lookup:
  assumes "insert_storage_diffs E updates inserted = Ok m" and "hm_wf updates" and "\<forall>(a, cells) \<in> set updates. hm_wf cells"
  shows "map_option map_of (map_of m a) =
    (if map_of updates a = None then map_option map_of (map_of inserted a) else map_option map_of (map_of updates a))"
  using assms
proof (induction updates arbitrary: inserted)
  case (Cons entry updates)
  obtain felt cells where entry: "entry = (felt, cells)" by fastforce
  have new: "map_of updates felt = None" and wf: "hm_wf updates"
    using Cons.prems(2) entry by (auto simp: hm_wf_def map_of_eq_None_iff)
  obtain changes where changes: "insert_by_patricia_key E cells [] = Ok changes"
    and rest: "insert_storage_diffs E updates (hm_insert felt changes inserted) = Ok m"
    using Cons.prems(1) entry by (auto simp: ok_iffs patricia_key_try_from_Ok_iff)
  have "map_of changes = map_of cells"
    using insert_by_patricia_key_lookup [OF changes] Cons.prems(3) entry by simp
  then show ?case
    using Cons.IH [OF rest wf] Cons.prems(3) new entry by auto
qed simp

lemma write_block_Ok:
  assumes "write_block E P block_id previous number update s = (Ok (), s')"
  shows "\<exists>txn0 txn1 txn2 txn3 sd. ps_writer s \<and> begin_rw_txn P (ps_database s) = Ok txn0
    \<and> append_casms P txn0 (bu_undeclared_casm_contracts update) = Ok txn1
    \<and> block_state_diff E update = Ok sd
    \<and> append_state_diff P txn1 number sd = Ok txn2
    \<and> append_header P txn2 number \<lparr>bh_block_hash = unat block_id,
         bh_parent_hash = (case previous of Some felt \<Rightarrow> felt | None \<Rightarrow> unat GENESIS_BLOCK_ID), bh_block_number = number\<rparr> = Ok txn3
    \<and> commit_txn P txn3 = Ok (ps_database s') \<and> s' = s\<lparr>ps_database := ps_database s'\<rparr>"
  using assms
  by (auto simp: write_block_def txn_begin_def txn_step_def txn_commit_def sbind_def slift_def Let_def storage_writer_def ok_iffs
      split: prod.splits result.splits if_splits)

lemma write_block_failed:
  assumes "write_block E P block_id previous number update s = (r, s')" and "r \<noteq> Ok ()"
  shows "s' = s"
  using assms
  by (auto simp: write_block_def txn_begin_def txn_step_def txn_commit_def sbind_def slift_def Let_def
      split: prod.splits result.splits)

lemma storage_append_block_cases:
  assumes "storage_append_block E P block_id previous info diff declared deprecated s = (r, s')"
  shows "(\<exists>update. prepare_block E P s (pbi_block_number info) diff declared deprecated = Ok update
      \<and> write_block E P block_id previous (pbi_block_number info) update s = (r, s')) \<or> (r \<noteq> Ok () \<and> s' = s)"
  using assms
  by (cases "prepare_block E P s (pbi_block_number info) diff declared deprecated") (auto simp: storage_append_block_def sbind_def Let_def)

lemma storage_revert_block_failed:
  assumes "storage_revert_block P number s = (r, s')" and "r \<noteq> Ok ()"
  shows "s' = s"
  using assms
  by (auto simp: storage_revert_block_def txn_begin_def txn_step_def txn_commit_def sbind_def slift_def
      split: prod.splits result.splits)

end
