(* ===== verification/Native_Block_Executor.thy ===== *)
theory Native_Block_Executor
  imports Native_Storage
begin

text \<open>
  The block executor and the validator that the sequencer calls from Python
  (\<open>native_blockifier/src/py_block_executor.rs\<close>, \<open>py_validator.rs\<close>, \<open>py_objects.rs\<close>), on the values that
  PyO3 has extracted from their arguments and before serde serializes their results.

  The reader of a running block shares the class cache (an \<open>Arc\<close>) and the database with the block
  executor. The model keeps both in the block executor: \<open>with_tx_executor\<close> hands them to the reader
  at the start of an operation and takes the cache back at its end.
\<close>

section \<open>Configuration\<close>

definition MAX_STEPS_PER_TX :: u32 where "MAX_STEPS_PER_TX = 4000000"
definition MAX_VALIDATE_STEPS_PER_TX :: u32 where "MAX_VALIDATE_STEPS_PER_TX = 1000000"

definition MESSAGE_SEGMENT_LENGTH :: string where "MESSAGE_SEGMENT_LENGTH = ''message_segment_length''"
definition STATE_DIFF_SIZE :: string where "STATE_DIFF_SIZE = ''state_diff_size''"
definition N_EVENTS :: string where "N_EVENTS = ''n_events''"

record PyBouncerConfig =
  full_total_weights_with_keccak :: "(string, usize) HashMap"
  full_total_weights :: "(string, usize) HashMap"

definition remove_weight :: "string \<Rightarrow> string \<Rightarrow> (string, usize) HashMap \<Rightarrow> ('e, usize \<times> (string, usize) HashMap) result" where
  "remove_weight key msg data = rbind (expect msg (map_of data key)) (\<lambda>weight. Ok (weight, hm_remove key data))"

definition hash_map_into_bouncer_weights ::
    "'a Externals_scheme \<Rightarrow> (string, usize) HashMap \<Rightarrow> ('e, BouncerWeights) result" where
  "hash_map_into_bouncer_weights E data =
     rbind (remove_weight L1_GAS_USAGE ''gas_weight must be present'' data) (\<lambda>(gas, data).
     rbind (remove_weight N_STEPS_RESOURCE ''n_steps must be present'' data) (\<lambda>(n_steps, data).
     rbind (remove_weight MESSAGE_SEGMENT_LENGTH ''message_segment_length must be present'' data)
       (\<lambda>(message_segment_length, data).
     rbind (remove_weight STATE_DIFF_SIZE ''state_diff_size must be present'' data) (\<lambda>(state_diff_size, data).
     rbind (remove_weight N_EVENTS ''n_events must be present'' data) (\<lambda>(n_events, data).
     rbind (BuiltinCount_from E data) (\<lambda>builtin_count.
       Ok \<lparr>bw_builtin_count = builtin_count, bw_gas = gas, bw_message_segment_length = message_segment_length,
           bw_n_events = n_events, bw_n_steps = n_steps, bw_state_diff_size = state_diff_size\<rparr>))))))"

definition BouncerConfig_from :: "'a Externals_scheme \<Rightarrow> PyBouncerConfig \<Rightarrow> ('e, BouncerConfig) result" where
  "BouncerConfig_from E py_bouncer_config =
     rbind (hash_map_into_bouncer_weights E (full_total_weights py_bouncer_config)) (\<lambda>max_capacity.
     rbind (hash_map_into_bouncer_weights E (full_total_weights_with_keccak py_bouncer_config)) (\<lambda>max_capacity_with_keccak.
       Ok \<lparr>block_max_capacity = max_capacity, block_max_capacity_with_keccak = max_capacity_with_keccak\<rparr>))"

record PyConcurrencyConfig =
  pcc_enabled :: bool
  pcc_n_workers :: usize
  pcc_chunk_size :: usize

definition ConcurrencyConfig_from :: "PyConcurrencyConfig \<Rightarrow> ConcurrencyConfig" where
  "ConcurrencyConfig_from py_concurrency_config =
     \<lparr>cc_enabled = pcc_enabled py_concurrency_config, cc_n_workers = pcc_n_workers py_concurrency_config,
      cc_chunk_size = pcc_chunk_size py_concurrency_config\<rparr>"

record PyOsConfig =
  pos_chain_id :: string
  pos_deprecated_fee_token_address :: StarkFelt
  pos_fee_token_address :: StarkFelt

record PyGeneralConfig =
  pgc_starknet_os_config :: PyOsConfig
  pgc_invoke_tx_max_n_steps :: u32
  pgc_validate_max_n_steps :: u32

definition address_try_from :: "'a Externals_scheme \<Rightarrow> StarkFelt \<Rightarrow> ContractAddress NativeBlockifierResult" where
  "address_try_from E felt = map_err NativeStarknetApiError (patricia_key_try_from E felt)"

definition ChainInfo_try_from :: "'a Externals_scheme \<Rightarrow> PyOsConfig \<Rightarrow> ChainInfo NativeBlockifierResult" where
  "ChainInfo_try_from E py_os_config =
     rbind (address_try_from E (pos_deprecated_fee_token_address py_os_config)) (\<lambda>eth_address.
     rbind (address_try_from E (pos_fee_token_address py_os_config)) (\<lambda>strk_address.
       Ok \<lparr>chain_id = pos_chain_id py_os_config,
           fee_token_addresses = \<lparr>strk_fee_token_address = strk_address, eth_fee_token_address = eth_address\<rparr>\<rparr>))"

definition non_zero_price :: "(u128 \<Rightarrow> InvalidNativeBlockifierInputError) \<Rightarrow> u128 \<Rightarrow> u128 NativeBlockifierResult" where
  "non_zero_price error price = (if price = 0 then Err (NativeInputError (InvalidInput (error price))) else Ok price)"

definition into_block_context_args ::
    "'a Externals_scheme \<Rightarrow> PyGeneralConfig \<Rightarrow> PyBlockInfo \<Rightarrow> (BlockInfo \<times> ChainInfo) NativeBlockifierResult" where
  "into_block_context_args E general_config info =
     rbind (ChainInfo_try_from E (pgc_starknet_os_config general_config)) (\<lambda>chain.
     rbind (address_try_from E (pbi_sequencer_address info)) (\<lambda>sequencer.
     rbind (non_zero_price InvalidGasPriceWei (price_in_wei (pbi_l1_gas_price info))) (\<lambda>eth_price.
     rbind (non_zero_price InvalidGasPriceFri (price_in_fri (pbi_l1_gas_price info))) (\<lambda>strk_price.
     rbind (non_zero_price InvalidDataGasPriceWei (price_in_wei (pbi_l1_data_gas_price info))) (\<lambda>eth_data_price.
     rbind (non_zero_price InvalidDataGasPriceFri (price_in_fri (pbi_l1_data_gas_price info))) (\<lambda>strk_data_price.
       Ok (\<lparr>block_number = pbi_block_number info, block_timestamp = pbi_block_timestamp info,
            sequencer_address = sequencer,
            gas_prices = \<lparr>eth_l1_gas_price = eth_price, strk_l1_gas_price = strk_price,
                          eth_l1_data_gas_price = eth_data_price, strk_l1_data_gas_price = strk_data_price\<rparr>,
            use_kzg_da = pbi_use_kzg_da info\<rparr>, chain)))))))"

definition native_pre_process_block ::
    "'a Externals_scheme \<Rightarrow> (u64 \<times> StarkFelt) option \<Rightarrow> PyGeneralConfig \<Rightarrow> PyBlockInfo \<Rightarrow> VersionedConstants \<Rightarrow> bool
      \<Rightarrow> ('s CachedState, NativeBlockifierError, BlockContext) action" where
  "native_pre_process_block E old_block_number_and_hash general_config info constants concurrency =
     (let old_pair = map_option (\<lambda>(number, hash). \<lparr>bnh_number = number, bnh_hash = hash\<rparr>) old_block_number_and_hash in
      if invoke_tx_max_n_steps constants > MAX_STEPS_PER_TX
      then slift (Err (NativeInputError (MaxStepsPerTxOutOfRange (invoke_tx_max_n_steps constants))))
      else if validate_max_n_steps constants > MAX_VALIDATE_STEPS_PER_TX
      then slift (Err (NativeInputError (MaxValidateStepsPerTxOutOfRange (validate_max_n_steps constants))))
      else sbind (slift (into_block_context_args E general_config info)) (\<lambda>(created_info, chain).
             smap_err NativeStateError (pre_process_block old_pair created_info chain constants concurrency)))"

section \<open>Execution infos\<close>

record ThinTransactionExecutionInfo =
  thin_validate_call_info :: "CallInfo option"
  thin_execute_call_info :: "CallInfo option"
  thin_fee_transfer_call_info :: "CallInfo option"
  thin_actual_fee :: Fee
  thin_da_gas :: GasVector
  thin_actual_resources :: "(string, usize) HashMap"
  thin_revert_error :: "string option"

definition Thin_from_tx_execution_info ::
    "'a Externals_scheme \<Rightarrow> BlockContext \<Rightarrow> TransactionExecutionInfo \<Rightarrow> ('e, ThinTransactionExecutionInfo) result" where
  "Thin_from_tx_execution_info E bc info =
     rbind (to_resources_mapping E (tei_actual_resources info) (versioned_constants bc) (use_kzg_da (block_info bc)) True)
       (\<lambda>actual_resources.
       Ok \<lparr>thin_validate_call_info = tei_validate_call_info info, thin_execute_call_info = tei_execute_call_info info,
           thin_fee_transfer_call_info = tei_fee_transfer_call_info info, thin_actual_fee = tei_actual_fee info,
           thin_da_gas = tei_da_gas info, thin_actual_resources = actual_resources,
           thin_revert_error = tei_revert_error info\<rparr>)"

record TypedTransactionExecutionInfo =
  typed_info :: ThinTransactionExecutionInfo
  typed_tx_type :: string

definition Typed_from_tx_execution_info ::
    "'a Externals_scheme \<Rightarrow> BlockContext \<Rightarrow> TransactionExecutionInfo \<Rightarrow> string \<Rightarrow> ('e, TypedTransactionExecutionInfo) result" where
  "Typed_from_tx_execution_info E bc info type_name =
     rbind (Thin_from_tx_execution_info E bc info) (\<lambda>thin. Ok \<lparr>typed_info = thin, typed_tx_type = type_name\<rparr>)"

fun typed_results ::
    "'a Externals_scheme \<Rightarrow> BlockContext \<Rightarrow> ((TransactionExecutorError, TransactionExecutionInfo) result \<times> string) list
      \<Rightarrow> ('e, (TransactionExecutorError, TypedTransactionExecutionInfo) result list) result" where
  "typed_results E bc [] = Ok []"
| "typed_results E bc ((result, type_name) # rest) =
     rbind (case result of
              Ok info \<Rightarrow> rbind (Typed_from_tx_execution_info E bc info type_name) (\<lambda>typed. Ok (Ok typed))
            | Err error \<Rightarrow> Ok (Err error)
            | Panic p \<Rightarrow> Panic p) (\<lambda>typed.
       rbind (typed_results E bc rest) (\<lambda>typeds. Ok (typed # typeds)))"

section \<open>The block executor\<close>

record ('d, 'c) PyBlockExecutor =
  pbe_bouncer_config :: BouncerConfig
  pbe_tx_executor_config :: TransactionExecutorConfig
  pbe_general_config :: PyGeneralConfig
  pbe_versioned_constants :: VersionedConstants
  pbe_tx_executor :: "('d, 'c) PapyrusReader TransactionExecutor option"
  pbe_storage :: "'d PapyrusStorage"
  pbe_global_contract_cache :: 'c

primrec map_base_impl :: "('s \<Rightarrow> 's) \<Rightarrow> 's StateImpl \<Rightarrow> 's StateImpl"
  and map_base :: "('s \<Rightarrow> 's) \<Rightarrow> 's CachedState \<Rightarrow> 's CachedState" where
  "map_base_impl f (BaseReader reader) = BaseReader (f reader)"
| "map_base_impl f (MutRefState state) = MutRefState (map_base f state)"
| "map_base f (CachedState state cache classes pcs) = CachedState (map_base_impl f state) cache classes pcs"

primrec base_of_impl :: "'s StateImpl \<Rightarrow> 's" and base_of :: "'s CachedState \<Rightarrow> 's" where
  "base_of_impl (BaseReader reader) = reader"
| "base_of_impl (MutRefState state) = base_of state"
| "base_of (CachedState state cache classes pcs) = base_of_impl state"

definition with_tx_executor ::
    "(('d, 'c) PapyrusReader TransactionExecutor, 'e, 'b) action \<Rightarrow> (('d, 'c) PyBlockExecutor, 'e, 'b) action" where
  "with_tx_executor act self =
     (case pbe_tx_executor self of
        None \<Rightarrow> (Panic ''Transaction executor should be initialized'', self)
      | Some executor \<Rightarrow>
          (let shared = (\<lambda>reader. reader\<lparr>pr_storage_reader := ps_database (pbe_storage self),
                                       pr_global_class_hash_to_class := pbe_global_contract_cache self\<rparr>)
           in case act (executor\<lparr>te_state := map_base shared (te_state executor)\<rparr>) of
                (r, executor) \<Rightarrow>
                  (r, self\<lparr>pbe_tx_executor := Some executor,
                           pbe_global_contract_cache := pr_global_class_hash_to_class (base_of (te_state executor))\<rparr>)))"

definition PyBlockExecutor_create ::
    "'a Externals_scheme \<Rightarrow> ('d, 't, 'r, 'p, 'w, 'k) StorageApi \<Rightarrow> 'c SizedCache \<Rightarrow> VersionedConstants \<Rightarrow> PyBouncerConfig
      \<Rightarrow> PyConcurrencyConfig \<Rightarrow> PyGeneralConfig \<Rightarrow> u32 \<Rightarrow> usize \<Rightarrow> usize \<Rightarrow> StorageConfig
      \<Rightarrow> ('e, ('d, 'c) PyBlockExecutor) result" where
  "PyBlockExecutor_create E P C latest bouncer_config concurrency_config general_config validate_max max_depth
       global_contract_cache_size target_storage_config =
     rbind (expect_ok ''Failed to initialize storage'' (PapyrusStorage_new P target_storage_config)) (\<lambda>storage.
     rbind (BouncerConfig_from E bouncer_config) (\<lambda>bouncer_config.
       Ok \<lparr>pbe_bouncer_config = bouncer_config,
           pbe_tx_executor_config = \<lparr>tec_concurrency_config = ConcurrencyConfig_from concurrency_config\<rparr>,
           pbe_general_config = general_config,
           pbe_versioned_constants = latest_constants_with_overrides latest validate_max max_depth,
           pbe_tx_executor = None,
           pbe_storage = storage,
           pbe_global_contract_cache = GlobalContractCache_new C global_contract_cache_size\<rparr>))"

definition get_aligned_reader ::
    "('d, 't, 'r, 'p, 'w, 'k) StorageApi \<Rightarrow> ('d, 'c) PyBlockExecutor \<Rightarrow> u64 \<Rightarrow> ('e, ('d, 'c) PapyrusReader) result" where
  "get_aligned_reader P self next_block_number =
     rbind (storage_validate_aligned P next_block_number (pbe_storage self)) (\<lambda>_.
     rbind (storage_reader (pbe_storage self)) (\<lambda>reader.
       Ok (PapyrusReader_new reader next_block_number (pbe_global_contract_cache self))))"

definition setup_block_execution ::
    "'a Externals_scheme \<Rightarrow> ('d, 't, 'r, 'p, 'w, 'k) StorageApi \<Rightarrow> PyBlockInfo \<Rightarrow> (u64 \<times> StarkFelt) option
      \<Rightarrow> (('d, 'c) PyBlockExecutor, NativeBlockifierError, unit) action" where
  "setup_block_execution E P next_block_info old_block_number_and_hash self =
     (case get_aligned_reader P self (pbi_block_number next_block_info) of
        Ok aligned_reader \<Rightarrow>
          (case native_pre_process_block E old_block_number_and_hash (pbe_general_config self) next_block_info
                  (pbe_versioned_constants self)
                  (cc_enabled (tec_concurrency_config (pbe_tx_executor_config self)))
                  (CachedState_new (BaseReader aligned_reader)) of
             (Ok created_context, state) \<Rightarrow>
               (Ok (), self\<lparr>pbe_tx_executor := Some
                  (TransactionExecutor_new state created_context (pbe_bouncer_config self) (pbe_tx_executor_config self))\<rparr>)
           | (Err e, state) \<Rightarrow> (Err e, self)
           | (Panic p, state) \<Rightarrow> (Panic p, self))
      | Err e \<Rightarrow> (Err e, self)
      | Panic p \<Rightarrow> (Panic p, self))"

definition teardown_block_execution :: "('d, 'c) PyBlockExecutor \<Rightarrow> ('d, 'c) PyBlockExecutor" where
  "teardown_block_execution self = self\<lparr>pbe_tx_executor := None\<rparr>"

definition PyBlockExecutor_execute ::
    "'t ErrorTexts_scheme \<Rightarrow> 'a Externals_scheme \<Rightarrow> 'm VmApi \<Rightarrow> ('d, 'c) PapyrusReader StateReader \<Rightarrow> Transaction \<Rightarrow> string
      \<Rightarrow> (('d, 'c) PyBlockExecutor, NativeBlockifierError, TypedTransactionExecutionInfo) action" where
  "PyBlockExecutor_execute T E V R tx type_name =
     (let charge_fee = True in
      with_tx_executor
        (sbind (smap_err NativeTransactionExecutorError (TransactionExecutor_execute T E V R tx charge_fee)) (\<lambda>info executor.
           (Typed_from_tx_execution_info E (te_block_context executor) info type_name, executor))))"

definition PyBlockExecutor_execute_txs ::
    "'t ErrorTexts_scheme \<Rightarrow> 'a Externals_scheme \<Rightarrow> 'm VmApi \<Rightarrow> ('d, 'c) PapyrusReader StateReader \<Rightarrow> (Transaction \<times> string) list
      \<Rightarrow> (('d, 'c) PyBlockExecutor, unit, (TransactionExecutorError, TypedTransactionExecutionInfo) result list) action" where
  "PyBlockExecutor_execute_txs T E V R typed_txs =
     (let charge_fee = True in
      with_tx_executor
        (sbind (execute_txs T E V R (map fst typed_txs) charge_fee) (\<lambda>results executor.
           (typed_results E (te_block_context executor) (zip results (map snd typed_txs)), executor))))"

definition PyBlockExecutor_finalize ::
    "('d, 'c) PapyrusReader StateReader
      \<Rightarrow> (('d, 'c) PyBlockExecutor, NativeBlockifierError, PyStateDiff \<times> (StarkFelt \<times> usize list) list) action" where
  "PyBlockExecutor_finalize R =
     with_tx_executor
       (sbind (smap_err NativeTransactionExecutorError (finalize R)) (\<lambda>(commitment_state_diff, visited_pcs).
          sret (PyStateDiff_from commitment_state_diff, visited_pcs)))"

definition on_storage ::
    "('d PapyrusStorage, 'e, 'b) action \<Rightarrow> (('d, 'c) PyBlockExecutor, 'e, 'b) action" where
  "on_storage act self = (case act (pbe_storage self) of (r, storage) \<Rightarrow> (r, self\<lparr>pbe_storage := storage\<rparr>))"

definition PyBlockExecutor_append_block ::
    "'a Externals_scheme \<Rightarrow> ('d, 't, 'r, 'p, 'w, 'k) StorageApi \<Rightarrow> u64 \<Rightarrow> StarkFelt option \<Rightarrow> PyBlockInfo \<Rightarrow> PyStateDiff
      \<Rightarrow> (StarkFelt, StarkFelt \<times> string) HashMap \<Rightarrow> (StarkFelt, string) HashMap
      \<Rightarrow> (('d, 'c) PyBlockExecutor, NativeBlockifierError, unit) action" where
  "PyBlockExecutor_append_block E P block_id previous_block_id py_block_info py_state_diff declared_class_hash_to_class
       deprecated_declared_class_hash_to_class =
     on_storage (storage_append_block E P block_id previous_block_id py_block_info py_state_diff
       declared_class_hash_to_class deprecated_declared_class_hash_to_class)"

definition get_block_id_at_target ::
    "('d, 't, 'r, 'p, 'w, 'k) StorageApi \<Rightarrow> u64 \<Rightarrow> ('d, 'c) PyBlockExecutor \<Rightarrow> StarkFelt option NativeBlockifierResult" where
  "get_block_id_at_target P number self =
     rbind (get_block_id P number (pbe_storage self)) (\<lambda>block_id.
       case block_id of
         None \<Rightarrow> Ok None
       | Some felt \<Rightarrow> if felt < PRIME then Ok (Some felt) else Err (NativeStarknetApiError ''OutOfRange''))"

definition PyBlockExecutor_revert_block ::
    "('d, 't, 'r, 'p, 'w, 'k) StorageApi \<Rightarrow> 'c SizedCache \<Rightarrow> u64
      \<Rightarrow> (('d, 'c) PyBlockExecutor, NativeBlockifierError, unit) action" where
  "PyBlockExecutor_revert_block P C number self =
     on_storage (storage_revert_block P number)
       (self\<lparr>pbe_global_contract_cache := GlobalContractCache_clear C (pbe_global_contract_cache self)\<rparr>)"

definition PyBlockExecutor_close :: "('d, 'c) PyBlockExecutor \<Rightarrow> ('d, 'c) PyBlockExecutor" where
  "PyBlockExecutor_close self =
     (let self = teardown_block_execution self in self\<lparr>pbe_storage := storage_close (pbe_storage self)\<rparr>)"

section \<open>The validator\<close>

definition PyValidator_create ::
    "'a Externals_scheme \<Rightarrow> VersionedConstants \<Rightarrow> PyGeneralConfig \<Rightarrow> 's \<Rightarrow> PyBlockInfo \<Rightarrow> u32 \<Rightarrow> usize \<Rightarrow> StarkFelt
      \<Rightarrow> 's StatefulValidator NativeBlockifierResult" where
  "PyValidator_create E latest general_config py_state_reader next_block_info validate_max max_depth max_nonce_for_validation_skip =
     (let state = CachedState_new (BaseReader py_state_reader) in
      rbind (into_block_context_args E general_config next_block_info) (\<lambda>(created_info, chain).
        let constants = latest_constants_with_overrides latest validate_max max_depth;
            created_context = BlockContext_new_unchecked created_info chain constants
        in Ok (StatefulValidator_create state created_context max_nonce_for_validation_skip BouncerConfig_max)))"

definition PyValidator_perform_validations ::
    "'t ErrorTexts_scheme \<Rightarrow> 'a Externals_scheme \<Rightarrow> 'm VmApi \<Rightarrow> 's StateReader \<Rightarrow> AccountTransaction \<Rightarrow> StarkFelt option
      \<Rightarrow> ('s StatefulValidator, NativeBlockifierError, unit) action" where
  "PyValidator_perform_validations T E V R account_tx deploy_account_tx_hash =
     smap_err NativeStatefulValidatorError (perform_validations T E V R account_tx deploy_account_tx_hash)"

end
