(* ===== verification/Native_Properties.thy ===== *)
theory Native_Properties
  imports Native_Block_Executor Example_Context
begin

text \<open>
  The properties of the native interface: the class cache never changes what the database says, a
  block is written with its class hashes separated into deployed and replaced ones, and a block is
  set up exactly on valid input. They are evaluated on a database that is the list of the blocks
  appended to it.
\<close>

section \<open>A database\<close>

record ListDatabase =
  ld_headers :: "BlockHeader list"
  ld_diffs :: "(Program, unit) StateDiff list"
  ld_casms :: "(ClassHash, CasmContractClass) HashMap"

definition latest_value :: "((Program, unit) StateDiff \<Rightarrow> 'v option) \<Rightarrow> BlockNumber \<Rightarrow> ListDatabase \<Rightarrow> 'v option" where
  "latest_value f number d = foldl (\<lambda>v diff. case f diff of None \<Rightarrow> v | Some w \<Rightarrow> Some w) None (take (unat number) (ld_diffs d))"

definition diff_class_hash :: "ContractAddress \<Rightarrow> (Program, unit) StateDiff \<Rightarrow> ClassHash option" where
  "diff_class_hash a diff =
     (case map_of (sd_replaced_classes diff) a of Some h \<Rightarrow> Some h | None \<Rightarrow> map_of (sd_deployed_contracts diff) a)"

definition diff_storage :: "ContractAddress \<Rightarrow> StorageKey \<Rightarrow> (Program, unit) StateDiff \<Rightarrow> StarkFelt option" where
  "diff_storage a k diff = (case map_of (sd_storage_diffs diff) a of Some updates \<Rightarrow> map_of updates k | None \<Rightarrow> None)"

definition declaring_block :: "ClassHash \<Rightarrow> ListDatabase \<Rightarrow> BlockNumber option" where
  "declaring_block h d =
     (case filter (\<lambda>i. hm_contains (sd_declared_classes (ld_diffs d ! i)) h) [0..<length (ld_diffs d)] of
        [] \<Rightarrow> None | i # _ \<Rightarrow> Some (of_nat i))"

definition list_storage ::
    "(ListDatabase, ListDatabase, ListDatabase, Program, ListDatabase, unit) StorageApi" where
  "list_storage =
     \<lparr>begin_ro_txn = Ok,
      get_state_reader = Ok,
      db_get_storage_at = (\<lambda>d n a k. Ok (case latest_value (diff_storage a k) n d of Some v \<Rightarrow> v | None \<Rightarrow> 0)),
      db_get_nonce_at = (\<lambda>d n a. Ok (latest_value (\<lambda>diff. map_of (sd_nonces diff) a) n d)),
      db_get_class_hash_at = (\<lambda>d n a. Ok (latest_value (diff_class_hash a) n d)),
      db_get_class_definition_block_number = (\<lambda>d h. Ok (declaring_block h d)),
      db_get_deprecated_class_definition_at =
        (\<lambda>d n h. Ok (latest_value (\<lambda>diff. map_of (sd_deprecated_declared_classes diff) h) n d)),
      db_get_casm = (\<lambda>d h. Ok (map_of (ld_casms d) h)),
      casm_program = (\<lambda>casm. Err ''no program''),
      deprecated_program = Ok,
      open_storage = (\<lambda>config. Ok \<lparr>ld_headers = [], ld_diffs = [], ld_casms = []\<rparr>),
      db_get_state_marker = (\<lambda>d. Ok (of_nat (length (ld_diffs d)))),
      db_get_header_marker = (\<lambda>d. Ok (of_nat (length (ld_headers d)))),
      db_get_block_header =
        (\<lambda>d n. Ok (if unat n < length (ld_headers d) then Some (ld_headers d ! unat n) else None)),
      db_get_class_definition_at =
        (\<lambda>d n h. Ok (case declaring_block h d of Some i \<Rightarrow> if i < n then Some () else None | None \<Rightarrow> None)),
      begin_rw_txn = Ok,
      append_casm = (\<lambda>d h casm. Ok (d\<lparr>ld_casms := hm_insert h casm (ld_casms d)\<rparr>)),
      append_state_diff = (\<lambda>d n diff.
        if unat n = length (ld_diffs d) then Ok (d\<lparr>ld_diffs := ld_diffs d @ [diff]\<rparr>) else Err ''MarkerMismatch''),
      append_header = (\<lambda>d n header.
        if unat n = length (ld_headers d) then Ok (d\<lparr>ld_headers := ld_headers d @ [header]\<rparr>) else Err ''MarkerMismatch''),
      revert_state_diff = (\<lambda>d n.
        Ok (if unat n + 1 = length (ld_diffs d) then d\<lparr>ld_diffs := butlast (ld_diffs d)\<rparr> else d)),
      revert_header = (\<lambda>d n.
        Ok (if unat n + 1 = length (ld_headers d) then d\<lparr>ld_headers := butlast (ld_headers d)\<rparr> else d)),
      commit_txn = Ok,
      default_contract_class = (),
      casm_from_str = (\<lambda>s. Err ''not a class''),
      deprecated_class_from_str = (\<lambda>s. Err ''not a class'')\<rparr>"

definition program_example :: Program where
  "program_example = \<lparr>program_id = 1, program_data_len = 12, program_builtins_len = 2\<rparr>"

definition diff_example :: "(Program, unit) StateDiff" where
  "diff_example =
     \<lparr>sd_deployed_contracts = [(5, 7)], sd_storage_diffs = [(5, [(1, 2)])], sd_declared_classes = [],
      sd_deprecated_declared_classes = [(7, \<lparr>dcc_program = program_example, dcc_entry_points_by_type = []\<rparr>)],
      sd_nonces = [], sd_replaced_classes = []\<rparr>"

text \<open>One block, in which the class 7 of version 0 was declared and contract 5 deployed with it.\<close>

definition database_example :: ListDatabase where
  "database_example =
     \<lparr>ld_headers = [\<lparr>bh_block_hash = 100, bh_parent_hash = 99, bh_block_number = 0\<rparr>], ld_diffs = [diff_example],
      ld_casms = []\<rparr>"

definition storage_example :: "ListDatabase PapyrusStorage" where
  "storage_example = \<lparr>ps_database = database_example, ps_reader = True, ps_writer = True\<rparr>"

definition py_block_info_example :: PyBlockInfo where
  "py_block_info_example =
     \<lparr>pbi_block_number = 1, pbi_block_timestamp = 1000,
      pbi_l1_gas_price = \<lparr>price_in_wei = 100, price_in_fri = 200\<rparr>,
      pbi_l1_data_gas_price = \<lparr>price_in_wei = 1, price_in_fri = 2\<rparr>,
      pbi_sequencer_address = 4096, pbi_use_kzg_da = True\<rparr>"

definition py_state_diff_example :: PyStateDiff where
  "py_state_diff_example =
     \<lparr>psd_address_to_class_hash = [(5, 8), (6, 8)], psd_address_to_nonce = [(5, 1)], psd_storage_updates = [(6, [(3, 4)])],
      psd_class_hash_to_compiled_class_hash = []\<rparr>"

section \<open>The class cache\<close>

fun class_reads ::
    "('d, 't, 'r, 'p, 'z) PapyrusApi_scheme \<Rightarrow> 'c SizedCache \<Rightarrow> ClassHash list \<Rightarrow> ('d, 'c) PapyrusReader
      \<Rightarrow> (StateError, ContractClass) result list" where
  "class_reads P C [] self = []"
| "class_reads P C (h # hs) self =
     (case papyrus_get_compiled_contract_class P C h self of (r, self) \<Rightarrow> r # class_reads P C hs self)"

lemma class_reads_coherent:
  assumes "cache_laws C content" and "cache_coherent P content self"
  shows "class_reads P C hs self = map (papyrus_class_from_db P self) hs"
  using assms(2)
proof (induction hs arbitrary: self)
  case (Cons h hs)
  obtain r self' where read: "papyrus_get_compiled_contract_class P C h self = (r, self')"
    by fastforce
  have "papyrus_class_from_db P self' = papyrus_class_from_db P self" and "cache_coherent P content self'"
    and "r = papyrus_class_from_db P self h"
    using papyrus_class_law [OF assms(1) Cons.prems, of h] read by (auto simp: papyrus_view_def)
  then show ?case
    using Cons.IH [of self'] read by simp
qed simp

text \<open>
  C19: The cache is transparent. Whatever the size of the class cache and whatever it evicts, any
  sequence of class reads through a reader, started with a new cache, with a cache cleared after a
  revert, or with a cache whose classes all come from the database, returns for every class hash what
  the database answers: the V1 class if it was declared up to the block of the reader, otherwise the
  V0 class, otherwise the error of an undeclared class; errors are not cached.
\<close>

theorem cached_classes_are_the_database_classes:
  assumes "cache_laws C content"
    and "cache_coherent P content self \<or> pr_global_class_hash_to_class self = GlobalContractCache_new C n
      \<or> pr_global_class_hash_to_class self = GlobalContractCache_clear C c"
  shows "class_reads P C hs self = map (papyrus_class_from_db P self) hs"
proof -
  have "self = PapyrusReader_new (pr_storage_reader self) (pr_latest_block self) (pr_global_class_hash_to_class self)"
    by (simp add: PapyrusReader_new_def)
  then have "cache_coherent P content self"
    using assms(2) cache_coherent_new [OF assms(1), of P "pr_storage_reader self" "pr_latest_block self"] by metis
  then show ?thesis
    by (rule class_reads_coherent [OF assms(1)])
qed

theorem cached_classes_are_the_database_classes_witness:
  "class_reads list_storage lru_cache [7, 8, 7] (PapyrusReader_new database_example 1 (GlobalContractCache_new lru_cache 1))
   = [Ok (V0 \<lparr>v0_program = program_example, v0_entry_points_by_type = []\<rparr>), Err (UndeclaredClassHash 8),
      Ok (V0 \<lparr>v0_program = program_example, v0_entry_points_by_type = []\<rparr>)]"
  using cached_classes_are_the_database_classes [OF lru_cache_laws, of list_storage
      "PapyrusReader_new database_example 1 (GlobalContractCache_new lru_cache 1)" 1 "(1, [])" "[7, 8, 7]"]
  by (simp add: PapyrusReader_new_def papyrus_class_from_db_def papyrus_txn_def list_storage_def declaring_block_def
      database_example_def diff_example_def hm_contains_def latest_value_def ContractClassV0_try_from_def)

section \<open>Blocks\<close>

text \<open>
  The maps of the arguments of \<open>append_block\<close> have distinct keys, as every \<open>HashMap\<close> does.
\<close>

definition py_state_diff_wf :: "PyStateDiff \<Rightarrow> bool" where
  "py_state_diff_wf diff \<longleftrightarrow> hm_wf (psd_address_to_class_hash diff) \<and> hm_wf (psd_address_to_nonce diff)
     \<and> hm_wf (psd_storage_updates diff) \<and> (\<forall>(a, cells) \<in> set (psd_storage_updates diff). hm_wf cells)"

text \<open>
  The state diff that a block must be stored with: a class hash of the diff is a replacement exactly
  if the database already assigns one to the address, the nonces and storage cells are those of the
  diff, and a class is declared exactly if the database does not know it.
\<close>

definition diff_of_block ::
    "('d, 't, 'r, 'p, 'w, 'k) StorageApi \<Rightarrow> 'd PapyrusStorage \<Rightarrow> BlockNumber \<Rightarrow> PyStateDiff
      \<Rightarrow> (StarkFelt, StarkFelt \<times> string) HashMap \<Rightarrow> (StarkFelt, string) HashMap \<Rightarrow> ('p, 'k) StateDiff \<Rightarrow> bool" where
  "diff_of_block P s n diff declared deprecated sd \<longleftrightarrow>
     map_of (sd_deployed_contracts sd) = (\<lambda>a. if address_assigned P s n a then None else map_of (psd_address_to_class_hash diff) a)
   \<and> map_of (sd_replaced_classes sd) = (\<lambda>a. if address_assigned P s n a then map_of (psd_address_to_class_hash diff) a else None)
   \<and> map_of (sd_nonces sd) = map_of (psd_address_to_nonce diff)
   \<and> (\<forall>a. map_option map_of (map_of (sd_storage_diffs sd) a) = map_option map_of (map_of (psd_storage_updates diff) a))
   \<and> map_of (sd_declared_classes sd) = (\<lambda>h. if class_declared P s n h then None
       else map_option (\<lambda>(compiled, raw). (compiled, default_contract_class P)) (map_of declared h))
   \<and> (\<forall>h. map_option Ok (map_of (sd_deprecated_declared_classes sd) h) = (if deprecated_class_declared P s n h then None
       else map_option (deprecated_class_from_str P) (map_of deprecated h)))"

text \<open>The compiled classes of the declared ones that the database does not know.\<close>

definition casms_of_block ::
    "('d, 't, 'r, 'p, 'w, 'k) StorageApi \<Rightarrow> 'd PapyrusStorage \<Rightarrow> BlockNumber \<Rightarrow> (StarkFelt, StarkFelt \<times> string) HashMap
      \<Rightarrow> (ClassHash \<times> CasmContractClass) list \<Rightarrow> bool" where
  "casms_of_block P s n declared casms \<longleftrightarrow>
     map fst casms = filter (\<lambda>h. \<not> class_declared P s n h) (map fst declared)
   \<and> (\<forall>(h, casm) \<in> set casms. \<exists>compiled raw. map_of declared h = Some (compiled, raw) \<and> casm_from_str P raw = Ok casm)"

lemma prepare_block_classes:
  assumes "prepare_block E P s n diff declared deprecated = Ok update" and "hm_wf declared"
  shows "casms_of_block P s n declared (bu_undeclared_casm_contracts update)"
    and "map_of (bu_declared_classes update) = (\<lambda>h. if class_declared P s n h then None
       else map_option (\<lambda>(compiled, raw). (compiled, default_contract_class P)) (map_of declared h))"
proof -
  have run: "collect_declared_classes P s n declared ([], []) = Ok (bu_declared_classes update, bu_undeclared_casm_contracts update)"
    using assms(1) by (auto simp: prepare_block_def ok_iffs Let_def)
  show "casms_of_block P s n declared (bu_undeclared_casm_contracts update)"
    using collect_declared_casms [OF run assms(2)] by (simp add: casms_of_block_def)
  show "map_of (bu_declared_classes update) = (\<lambda>h. if class_declared P s n h then None
       else map_option (\<lambda>(compiled, raw). (compiled, default_contract_class P)) (map_of declared h))"
    using collect_declared_lookup [OF run assms(2)] by (auto simp: fun_eq_iff)
qed

lemma prepare_block_class_hashes:
  assumes "prepare_block E P s n diff declared deprecated = Ok update" and "hm_wf (psd_address_to_class_hash diff)"
  obtains left where "bu_py_state_diff update = diff\<lparr>psd_address_to_class_hash := left\<rparr>" and "hm_wf left"
    and "map_of left = (\<lambda>a. if address_assigned P s n a then None else map_of (psd_address_to_class_hash diff) a)"
    and "map_of (bu_replaced_classes update) =
      (\<lambda>a. if address_assigned P s n a then map_of (psd_address_to_class_hash diff) a else None)"
proof -
  let ?left = "fold hm_remove (hm_keys (bu_replaced_classes update)) (psd_address_to_class_hash diff)"
  have "collect_replaced_classes E P s n (psd_address_to_class_hash diff) [] = Ok (bu_replaced_classes update)"
    and left: "bu_py_state_diff update = diff\<lparr>psd_address_to_class_hash := ?left\<rparr>"
    using assms(1) by (auto simp: prepare_block_def ok_iffs Let_def)
  note lookup = collect_replaced_lookup [OF this(1) assms(2)]
  have "map_of ?left = (\<lambda>a. if address_assigned P s n a then None else map_of (psd_address_to_class_hash diff) a)"
    and "map_of (bu_replaced_classes update) =
      (\<lambda>a. if address_assigned P s n a then map_of (psd_address_to_class_hash diff) a else None)"
    by (auto simp: map_of_fold_hm_remove fun_eq_iff lookup dom_def split: if_splits)
  then show thesis
    using that [OF left hm_wf_fold_hm_remove [OF assms(2)]] by blast
qed

lemma prepared_diff_of_block:
  assumes prepared: "prepare_block E P s n diff declared deprecated = Ok update" and sd: "block_state_diff E update = Ok sd"
    and wf: "py_state_diff_wf diff" "hm_wf declared" "hm_wf deprecated"
  shows "diff_of_block P s n diff declared deprecated sd"
proof -
  have wf': "hm_wf (psd_address_to_class_hash diff)" "hm_wf (psd_address_to_nonce diff)" "hm_wf (psd_storage_updates diff)"
    "\<forall>(a, cells) \<in> set (psd_storage_updates diff). hm_wf cells"
    using wf(1) by (simp_all add: py_state_diff_wf_def)
  obtain left where left: "bu_py_state_diff update = diff\<lparr>psd_address_to_class_hash := left\<rparr>" "hm_wf left"
      "map_of left = (\<lambda>a. if address_assigned P s n a then None else map_of (psd_address_to_class_hash diff) a)"
    and replaced: "map_of (bu_replaced_classes update) =
      (\<lambda>a. if address_assigned P s n a then map_of (psd_address_to_class_hash diff) a else None)"
    using prepare_block_class_hashes [OF prepared wf'(1)] .
  have parts: "insert_by_patricia_key E left [] = Ok (sd_deployed_contracts sd)"
    "insert_by_patricia_key E (psd_address_to_nonce diff) [] = Ok (sd_nonces sd)"
    "insert_storage_diffs E (psd_storage_updates diff) [] = Ok (sd_storage_diffs sd)"
    and classes: "sd_replaced_classes sd = bu_replaced_classes update" "sd_declared_classes sd = bu_declared_classes update"
    "sd_deprecated_declared_classes sd = bu_deprecated_declared_classes update"
    using sd left(1) by (auto simp: block_state_diff_def StateDiff_try_from_def ok_iffs)
  have "collect_deprecated_declared_classes P s n deprecated [] = Ok (sd_deprecated_declared_classes sd)"
    using prepared by (auto simp: prepare_block_def ok_iffs Let_def classes)
  note deprecated_lookup = collect_deprecated_lookup [OF this wf(3)]
  show ?thesis
    unfolding diff_of_block_def
    using insert_by_patricia_key_lookup [OF parts(1) left(2)] insert_by_patricia_key_lookup [OF parts(2) wf'(2)]
      insert_storage_diffs_lookup [OF parts(3) wf'(3,4)] prepare_block_classes(2) [OF prepared wf(2)] replaced left(3)
    by (auto simp: classes(1,2) deprecated_lookup)
qed

text \<open>
  C18: What \<open>append_block\<close> stores. When it succeeds, it has written one transaction to the database and
  committed it: the compiled classes of the declared classes that the database does not know, then
  the state diff of the block, then its header with the hash and the hash of its parent (the genesis
  id if there is none). In the state diff an address is a replaced class exactly if the database
  assigns it a class hash before the block and a deployed contract exactly otherwise, with its new
  class hash in both cases; the nonces and storage cells are those given, and a class of either
  version is declared exactly if the database does not know it. When \<open>append_block\<close> fails at any of its
  steps, the storage is unchanged.
\<close>

theorem append_block_separates_replaced_classes:
  assumes "storage_append_block E P block_id previous info diff declared deprecated s = (r, s')"
    and "py_state_diff_wf diff" and "hm_wf declared" and "hm_wf deprecated"
  shows "if r = Ok ()
    then \<exists>casms sd txn0 txn1 txn2 txn3. begin_rw_txn P (ps_database s) = Ok txn0
       \<and> append_casms P txn0 casms = Ok txn1 \<and> casms_of_block P s (pbi_block_number info) declared casms
       \<and> append_state_diff P txn1 (pbi_block_number info) sd = Ok txn2
       \<and> diff_of_block P s (pbi_block_number info) diff declared deprecated sd
       \<and> append_header P txn2 (pbi_block_number info)
           \<lparr>bh_block_hash = unat block_id, bh_parent_hash = (case previous of Some felt \<Rightarrow> felt | None \<Rightarrow> 2 ^ 64 - 1),
            bh_block_number = pbi_block_number info\<rparr> = Ok txn3
       \<and> commit_txn P txn3 = Ok (ps_database s') \<and> s' = s\<lparr>ps_database := ps_database s'\<rparr>
    else s' = s"
proof (cases "r = Ok ()")
  case True
  obtain update where prepared: "prepare_block E P s (pbi_block_number info) diff declared deprecated = Ok update"
    and written: "write_block E P block_id previous (pbi_block_number info) update s = (Ok (), s')"
    using storage_append_block_cases [OF assms(1)] True by blast
  have genesis: "unat GENESIS_BLOCK_ID = 2 ^ 64 - 1"
    by (simp add: GENESIS_BLOCK_ID_def unsigned_minus_1_eq_mask mask_eq_exp_minus_1)
  obtain txn0 txn1 txn2 txn3 sd where steps: "begin_rw_txn P (ps_database s) = Ok txn0"
      "append_casms P txn0 (bu_undeclared_casm_contracts update) = Ok txn1"
      "append_state_diff P txn1 (pbi_block_number info) sd = Ok txn2"
      "append_header P txn2 (pbi_block_number info) \<lparr>bh_block_hash = unat block_id,
         bh_parent_hash = (case previous of Some felt \<Rightarrow> felt | None \<Rightarrow> 2 ^ 64 - 1), bh_block_number = pbi_block_number info\<rparr> = Ok txn3"
      "commit_txn P txn3 = Ok (ps_database s')" "s' = s\<lparr>ps_database := ps_database s'\<rparr>"
    and sd: "block_state_diff E update = Ok sd"
    using write_block_Ok [OF written, unfolded genesis] by blast
  note parts = steps prepare_block_classes(1) [OF prepared assms(3)] prepared_diff_of_block [OF prepared sd assms(2-4)]
  show ?thesis
    unfolding if_P [OF True] by (intro exI conjI) (rule parts)+
next
  case False
  then show ?thesis
    using storage_append_block_cases [OF assms(1)] write_block_failed by auto
qed

lemma append_block_example:
  "fst (storage_append_block reference_externals list_storage 101 (Some 100) py_block_info_example py_state_diff_example [] []
     storage_example) = Ok ()"
  "fst (storage_append_block reference_externals list_storage 101 (Some 100) (py_block_info_example\<lparr>pbi_block_number := 2\<rparr>)
     py_state_diff_example [] [] storage_example) \<noteq> Ok ()"
  by (simp_all add: storage_append_block_def prepare_block_def state_query_def storage_reader_def storage_writer_def
      storage_example_def py_block_info_example_def py_state_diff_example_def list_storage_def database_example_def
      diff_example_def latest_value_def diff_class_hash_def patricia_key_try_from_def reference_externals_def hm_keys_def
      hm_remove_def hm_insert_def write_block_def block_state_diff_def StateDiff_try_from_def Let_def txn_begin_def
      txn_step_def txn_commit_def sbind_def slift_def)

lemma list_storage_appends:
  assumes "begin_rw_txn list_storage d = Ok txn0" and "append_casms list_storage txn0 casms = Ok txn1"
    and "append_state_diff list_storage txn1 n sd = Ok txn2" and "append_header list_storage txn2 n header = Ok txn3"
    and "commit_txn list_storage txn3 = Ok d'"
  shows "ld_diffs d' = ld_diffs d @ [sd]" and "ld_headers d' = ld_headers d @ [header]"
proof -
  have "ld_diffs txn1 = ld_diffs txn0 \<and> ld_headers txn1 = ld_headers txn0"
    using assms(2)
  proof (induction casms arbitrary: txn0)
    case (Cons entry casms)
    then show ?case
      by (cases entry) (fastforce simp: list_storage_def)
  qed simp
  then show "ld_diffs d' = ld_diffs d @ [sd]" and "ld_headers d' = ld_headers d @ [header]"
    using assms(1,3-5) by (auto simp: list_storage_def split: if_splits)
qed

theorem append_block_separates_replaced_classes_witness:
  "(\<exists>s' sd. storage_append_block reference_externals list_storage 101 (Some 100) py_block_info_example py_state_diff_example [] []
       storage_example = (Ok (), s')
     \<and> ld_diffs (ps_database s') = [diff_example, sd]
     \<and> map_of (sd_replaced_classes sd) 5 = Some 8 \<and> map_of (sd_deployed_contracts sd) 5 = None
     \<and> map_of (sd_deployed_contracts sd) 6 = Some 8 \<and> map_of (sd_replaced_classes sd) 6 = None
     \<and> map_of (sd_nonces sd) 5 = Some 1)
   \<and> snd (storage_append_block reference_externals list_storage 101 (Some 100) (py_block_info_example\<lparr>pbi_block_number := 2\<rparr>)
       py_state_diff_example [] [] storage_example) = storage_example"
proof (rule conjI)
  have wf: "py_state_diff_wf py_state_diff_example" "hm_wf []"
    by (simp_all add: py_state_diff_wf_def py_state_diff_example_def hm_wf_def)
  have "address_assigned list_storage storage_example 1 5" and "\<not> address_assigned list_storage storage_example 1 6"
    and "pbi_block_number py_block_info_example = 1" and "ld_diffs (ps_database storage_example) = [diff_example]"
    by (simp_all add: address_assigned_def query_found_def state_query_def storage_reader_def storage_example_def list_storage_def
        database_example_def diff_example_def latest_value_def diff_class_hash_def py_block_info_example_def)
  moreover obtain s' where run: "storage_append_block reference_externals list_storage 101 (Some 100) py_block_info_example
      py_state_diff_example [] [] storage_example = (Ok (), s')"
    using append_block_example(1) by (metis prod.collapse)
  moreover obtain sd where "ld_diffs (ps_database s') = ld_diffs (ps_database storage_example) @ [sd]"
    and "diff_of_block list_storage storage_example (pbi_block_number py_block_info_example) py_state_diff_example [] [] sd"
    using append_block_separates_replaced_classes [OF run wf wf(2)] list_storage_appends(1) [of "ps_database storage_example"]
    by (simp only: if_True simp_thms) blast
  ultimately show "\<exists>s' sd. storage_append_block reference_externals list_storage 101 (Some 100) py_block_info_example
       py_state_diff_example [] [] storage_example = (Ok (), s')
     \<and> ld_diffs (ps_database s') = [diff_example, sd]
     \<and> map_of (sd_replaced_classes sd) 5 = Some 8 \<and> map_of (sd_deployed_contracts sd) 5 = None
     \<and> map_of (sd_deployed_contracts sd) 6 = Some 8 \<and> map_of (sd_replaced_classes sd) 6 = None
     \<and> map_of (sd_nonces sd) 5 = Some 1"
    by (intro exI [of _ s'] exI [of _ sd]) (simp add: diff_of_block_def py_state_diff_example_def)
  show "snd (storage_append_block reference_externals list_storage 101 (Some 100) (py_block_info_example\<lparr>pbi_block_number := 2\<rparr>)
       py_state_diff_example [] [] storage_example) = storage_example"
    using append_block_separates_replaced_classes [OF surjective_pairing wf wf(2)] append_block_example(2)
    by (metis (no_types, lifting))
qed

section \<open>Setting up a block\<close>

definition storage_aligned :: "('d, 't, 'r, 'p, 'w, 'k) StorageApi \<Rightarrow> 'd PapyrusStorage \<Rightarrow> u64 \<Rightarrow> bool" where
  "storage_aligned P s number \<longleftrightarrow> get_header_marker P s = Ok number \<and> get_state_marker P s = Ok number"

definition py_block_info_valid :: "'a Externals_scheme \<Rightarrow> PyGeneralConfig \<Rightarrow> PyBlockInfo \<Rightarrow> bool" where
  "py_block_info_valid E config info \<longleftrightarrow>
     pos_deprecated_fee_token_address (pgc_starknet_os_config config) < patricia_key_upper_bound E
   \<and> pos_fee_token_address (pgc_starknet_os_config config) < patricia_key_upper_bound E
   \<and> pbi_sequencer_address info < patricia_key_upper_bound E
   \<and> price_in_wei (pbi_l1_gas_price info) \<noteq> 0 \<and> price_in_fri (pbi_l1_gas_price info) \<noteq> 0
   \<and> price_in_wei (pbi_l1_data_gas_price info) \<noteq> 0 \<and> price_in_fri (pbi_l1_data_gas_price info) \<noteq> 0"

lemma validate_aligned_Ok_iff: "storage_validate_aligned P number s = Ok () \<longleftrightarrow> storage_aligned P s number"
  by (cases "get_header_marker P s"; cases "get_state_marker P s")
    (auto simp: storage_validate_aligned_def storage_aligned_def)

lemma aligned_is_open: "storage_aligned P s number \<Longrightarrow> ps_reader s"
  by (auto simp: storage_aligned_def get_header_marker_def storage_reader_def split: if_splits)

lemma get_aligned_reader_Ok_iff:
  "(get_aligned_reader P self number :: (NativeBlockifierError, _) result) = Ok reader \<longleftrightarrow> storage_aligned P (pbe_storage self) number
     \<and> reader = PapyrusReader_new (ps_database (pbe_storage self)) number (pbe_global_contract_cache self)"
  using aligned_is_open [of P "pbe_storage self" number]
  by (auto simp: get_aligned_reader_def rbind_Ok_iff validate_aligned_Ok_iff storage_reader_def)

text \<open>
  The context of a block: prices in wei are prices in ETH and prices in fri are prices in STRK; the
  deprecated fee token is the one of ETH.
\<close>

definition context_of_block :: "PyGeneralConfig \<Rightarrow> PyBlockInfo \<Rightarrow> VersionedConstants \<Rightarrow> bool \<Rightarrow> BlockContext" where
  "context_of_block config info constants concurrency =
     \<lparr>block_info =
        \<lparr>block_number = pbi_block_number info, block_timestamp = pbi_block_timestamp info,
         sequencer_address = pbi_sequencer_address info,
         gas_prices =
           \<lparr>eth_l1_gas_price = price_in_wei (pbi_l1_gas_price info), strk_l1_gas_price = price_in_fri (pbi_l1_gas_price info),
            eth_l1_data_gas_price = price_in_wei (pbi_l1_data_gas_price info),
            strk_l1_data_gas_price = price_in_fri (pbi_l1_data_gas_price info)\<rparr>,
         use_kzg_da = pbi_use_kzg_da info\<rparr>,
      chain_info =
        \<lparr>chain_id = pos_chain_id (pgc_starknet_os_config config),
         fee_token_addresses =
           \<lparr>strk_fee_token_address = pos_fee_token_address (pgc_starknet_os_config config),
            eth_fee_token_address = pos_deprecated_fee_token_address (pgc_starknet_os_config config)\<rparr>\<rparr>,
      versioned_constants = constants, concurrency_mode = concurrency\<rparr>"

lemma into_block_context_args_Ok:
  "(\<exists>args. into_block_context_args E config info = Ok args) \<longleftrightarrow> py_block_info_valid E config info"
  "into_block_context_args E config info = Ok (created_info, chain) \<Longrightarrow>
     \<lparr>block_info = created_info, chain_info = chain, versioned_constants = constants, concurrency_mode = concurrency\<rparr>
       = context_of_block config info constants concurrency"
  "into_block_context_args E config info = Ok (created_info, chain) \<Longrightarrow> block_number created_info = pbi_block_number info"
  by (auto simp: into_block_context_args_def ChainInfo_try_from_def address_try_from_def non_zero_price_def
      patricia_key_try_from_def py_block_info_valid_def context_of_block_def split: if_splits)

lemma native_pre_process_block_Ok:
  "(\<exists>created. fst (native_pre_process_block E old config info constants concurrency c) = Ok created) \<longleftrightarrow>
     invoke_tx_max_n_steps constants \<le> MAX_STEPS_PER_TX \<and> validate_max_n_steps constants \<le> MAX_VALIDATE_STEPS_PER_TX
   \<and> py_block_info_valid E config info \<and> (old = None \<longrightarrow> pbi_block_number info < STORED_BLOCK_HASH_BUFFER)"
proof (cases "into_block_context_args E config info")
  case (Ok args)
  obtain created_info chain where "args = (created_info, chain)" by fastforce
  then show ?thesis
    using Ok into_block_context_args_Ok(1) [of E config info] into_block_context_args_Ok(3) [of E config info created_info chain]
    by (cases old)
      (auto simp: native_pre_process_block_def pre_process_block_def set_storage_at_def Let_def sbind_def slift_def sret_def
        smap_err_def not_less split: prod.splits)
qed (use into_block_context_args_Ok(1) [of E config info] in
    \<open>auto simp: native_pre_process_block_def Let_def sbind_def slift_def\<close>)

lemma native_pre_process_block_context:
  assumes "native_pre_process_block E old config info constants concurrency (CachedState_new reader) = (Ok created, c')"
  shows "created = context_of_block config info constants concurrency" and "cs_state c' = reader"
    and "writes (cs_cache c') = StateMaps_default\<lparr>sm_storage := (case old of None \<Rightarrow> [] | Some (n, hash) \<Rightarrow> [((1, unat n), hash)])\<rparr>"
proof -
  obtain created_info chain where args: "into_block_context_args E config info = Ok (created_info, chain)"
    and run: "smap_err NativeStateError (pre_process_block (map_option (\<lambda>(number, hash). \<lparr>bnh_number = number, bnh_hash = hash\<rparr>) old)
      created_info chain constants concurrency) (CachedState_new reader) = (Ok created, c')"
    using assms by (cases "into_block_context_args E config info")
      (auto simp: native_pre_process_block_def Let_def sbind_def slift_def split: if_splits)
  note created = into_block_context_args_Ok(2) [OF args]
  show "created = context_of_block config info constants concurrency" and "cs_state c' = reader"
    and "writes (cs_cache c') = StateMaps_default\<lparr>sm_storage := (case old of None \<Rightarrow> [] | Some (n, hash) \<Rightarrow> [((1, unat n), hash)])\<rparr>"
    using run
    by (auto simp: pre_process_block_def created set_storage_at_def Let_def sbind_def slift_def sret_def smap_err_def
        CachedState_new_def with_cache_def set_storage_value_def StateCache_default_def StateMaps_default_def
        hm_insert_def BLOCK_HASH_CONTRACT_ADDRESS_def split: if_splits option.splits)
qed

text \<open>
  C20: A block is set up exactly on valid input, with the values it was given. \<open>setup_block_execution\<close>
  succeeds exactly if the header and the state marker of the storage are both at the number of the
  block, the step limits are in range, the addresses are in range and no gas price is zero, and the
  hash of an old block is given from block 10 on. Then the new executor has an empty bouncer and the
  configuration of the block executor, reads the storage at that block through the shared cache, has
  written nothing but the given old block hash, and has exactly the context of the block: its number,
  timestamp and sequencer, the prices in wei for ETH and in fri for STRK, the deprecated fee token for
  ETH, the constants and the concurrency mode. The gas prices are not zero, as the fee computations
  require. Otherwise the block executor is unchanged.
\<close>

theorem setup_block_execution_accepts_exactly_valid_blocks:
  assumes "setup_block_execution E P info old self = (r, self')"
  shows "(r = Ok () \<longleftrightarrow>
      storage_aligned P (pbe_storage self) (pbi_block_number info)
      \<and> invoke_tx_max_n_steps (pbe_versioned_constants self) \<le> MAX_STEPS_PER_TX
      \<and> validate_max_n_steps (pbe_versioned_constants self) \<le> MAX_VALIDATE_STEPS_PER_TX
      \<and> py_block_info_valid E (pbe_general_config self) info
      \<and> (old = None \<longrightarrow> pbi_block_number info < 10))
    \<and> (if r = Ok () then \<exists>executor. self' = self\<lparr>pbe_tx_executor := Some executor\<rparr>
          \<and> te_block_context executor = context_of_block (pbe_general_config self) info (pbe_versioned_constants self)
              (cc_enabled (tec_concurrency_config (pbe_tx_executor_config self)))
          \<and> gas_prices_wf (gas_prices (block_info (te_block_context executor)))
          \<and> te_bouncer executor = Bouncer_new (pbe_bouncer_config self)
          \<and> te_config executor = pbe_tx_executor_config self
          \<and> cs_state (te_state executor) = BaseReader (PapyrusReader_new (ps_database (pbe_storage self))
              (pbi_block_number info) (pbe_global_contract_cache self))
          \<and> writes (cs_cache (te_state executor)) =
              StateMaps_default\<lparr>sm_storage := (case old of None \<Rightarrow> [] | Some (n, hash) \<Rightarrow> [((1, unat n), hash)])\<rparr>
        else self' = self)"
proof (cases "get_aligned_reader P self (pbi_block_number info) :: (NativeBlockifierError, _) result")
  case (Ok reader)
  then have aligned: "storage_aligned P (pbe_storage self) (pbi_block_number info)"
    and reader: "reader = PapyrusReader_new (ps_database (pbe_storage self)) (pbi_block_number info) (pbe_global_contract_cache self)"
    by (auto simp: get_aligned_reader_Ok_iff)
  obtain r1 c where pre: "native_pre_process_block E old (pbe_general_config self) info (pbe_versioned_constants self)
      (cc_enabled (tec_concurrency_config (pbe_tx_executor_config self))) (CachedState_new (BaseReader reader)) = (r1, c)"
    by fastforce
  note accepted = native_pre_process_block_Ok [of E old "pbe_general_config self" info "pbe_versioned_constants self"
      "cc_enabled (tec_concurrency_config (pbe_tx_executor_config self))" "CachedState_new (BaseReader reader)",
      unfolded pre STORED_BLOCK_HASH_BUFFER_def]
  show ?thesis
  proof (cases r1)
    case r1: (Ok created)
    have valid: "gas_prices_wf (gas_prices (block_info (context_of_block config info constants concurrency)))"
      if "py_block_info_valid E config info" for config constants concurrency
      using that by (simp add: py_block_info_valid_def gas_prices_wf_def context_of_block_def)
    show ?thesis
      using assms Ok pre accepted aligned reader native_pre_process_block_context [OF pre [unfolded r1]] r1 valid
      by (auto simp: setup_block_execution_def TransactionExecutor_new_def)
  qed (use assms Ok pre accepted in \<open>auto simp: setup_block_execution_def\<close>)
qed (use assms get_aligned_reader_Ok_iff [of P self "pbi_block_number info"] in \<open>auto simp: setup_block_execution_def\<close>)

definition block_executor_example :: "(ListDatabase, LruCache) PyBlockExecutor" where
  "block_executor_example =
     \<lparr>pbe_bouncer_config = BouncerConfig_max, pbe_tx_executor_config = TransactionExecutorConfig_default,
      pbe_general_config = \<lparr>pgc_starknet_os_config = \<lparr>pos_chain_id = ''SN_MAIN'', pos_deprecated_fee_token_address = 4097,
        pos_fee_token_address = 4098\<rparr>, pgc_invoke_tx_max_n_steps = 4000000, pgc_validate_max_n_steps = 1000000\<rparr>,
      pbe_versioned_constants = vc_example, pbe_tx_executor = None, pbe_storage = storage_example,
      pbe_global_contract_cache = GlobalContractCache_new lru_cache 100\<rparr>"

theorem setup_block_execution_accepts_exactly_valid_blocks_witness:
  "(\<exists>executor. setup_block_execution reference_externals list_storage py_block_info_example (Some (0, 77)) block_executor_example
       = (Ok (), block_executor_example\<lparr>pbe_tx_executor := Some executor\<rparr>)
     \<and> eth_l1_gas_price (gas_prices (block_info (te_block_context executor))) = 100
     \<and> strk_l1_gas_price (gas_prices (block_info (te_block_context executor))) = 200
     \<and> sm_storage (writes (cs_cache (te_state executor))) = [((1, 0), 77)])
   \<and> fst (setup_block_execution reference_externals list_storage (py_block_info_example\<lparr>pbi_block_number := 2\<rparr>) None
         block_executor_example) \<noteq> Ok ()"
proof (rule conjI)
  note example_defs = storage_aligned_def get_header_marker_def get_state_marker_def storage_reader_def storage_example_def
    list_storage_def database_example_def block_executor_example_def vc_example_def MAX_STEPS_PER_TX_def
    MAX_VALIDATE_STEPS_PER_TX_def py_block_info_valid_def py_block_info_example_def reference_externals_def
  obtain r self' where run: "setup_block_execution reference_externals list_storage py_block_info_example (Some (0, 77))
      block_executor_example = (r, self')"
    by fastforce
  note result = setup_block_execution_accepts_exactly_valid_blocks [OF run]
  have r: "r = Ok ()"
    using result by (simp add: example_defs)
  obtain executor where "self' = block_executor_example\<lparr>pbe_tx_executor := Some executor\<rparr>"
    and "te_block_context executor = context_of_block (pbe_general_config block_executor_example) py_block_info_example
      (pbe_versioned_constants block_executor_example)
      (cc_enabled (tec_concurrency_config (pbe_tx_executor_config block_executor_example)))"
    and "writes (cs_cache (te_state executor)) = StateMaps_default\<lparr>sm_storage := [((1, 0), 77)]\<rparr>"
    using result r by auto
  then show "\<exists>executor. setup_block_execution reference_externals list_storage py_block_info_example (Some (0, 77))
       block_executor_example = (Ok (), block_executor_example\<lparr>pbe_tx_executor := Some executor\<rparr>)
     \<and> eth_l1_gas_price (gas_prices (block_info (te_block_context executor))) = 100
     \<and> strk_l1_gas_price (gas_prices (block_info (te_block_context executor))) = 200
     \<and> sm_storage (writes (cs_cache (te_state executor))) = [((1, 0), 77)]"
    using run r by (intro exI [of _ executor]) (simp add: context_of_block_def py_block_info_example_def)
  show "fst (setup_block_execution reference_externals list_storage (py_block_info_example\<lparr>pbi_block_number := 2\<rparr>) None
         block_executor_example) \<noteq> Ok ()"
    using setup_block_execution_accepts_exactly_valid_blocks [of reference_externals list_storage
        "py_block_info_example\<lparr>pbi_block_number := 2\<rparr>" None block_executor_example, OF surjective_pairing]
    by (simp add: example_defs)
qed

end
