(* ===== verification/Versioned_Storage.thy ===== *)
theory Versioned_Storage
  imports State_View
begin

text \<open>
  The multi-version storage of \<open>concurrency/versioned_storage.rs\<close>: per key, the values
  written by the transactions of a chunk, indexed by transaction, over the cached initial
  values. A \<open>BTreeMap\<close> is an association list sorted by its keys. The locale
  \<open>versioned_map\<close> is the contract the shared versioned state relies on: the version \<open>i + 1\<close>
  of a cell is the version \<open>i\<close> unless transaction \<open>i\<close> wrote it.
\<close>

type_synonym TxIndex = nat
type_synonym 'v BTreeMap = "(TxIndex \<times> 'v) list"

fun btree_insert :: "TxIndex \<Rightarrow> 'v \<Rightarrow> 'v BTreeMap \<Rightarrow> 'v BTreeMap" where
  "btree_insert i v [] = [(i, v)]"
| "btree_insert i v ((j, w) # m) =
     (if i < j then (i, v) # (j, w) # m
      else if i = j then (i, v) # m
      else (j, w) # btree_insert i v m)"

definition next_back :: "'a list \<Rightarrow> 'a option" where
  "next_back xs = (if xs = [] then None else Some (last xs))"

definition range_below :: "TxIndex \<Rightarrow> 'v BTreeMap \<Rightarrow> 'v BTreeMap" where
  "range_below i m = filter (\<lambda>(j, v). j < i) m"

definition range_upto :: "TxIndex \<Rightarrow> 'v BTreeMap \<Rightarrow> 'v BTreeMap" where
  "range_upto i m = filter (\<lambda>(j, v). j \<le> i) m"

record ('k, 'v) VersionedStorage =
  cached_initial_values :: "('k, 'v) HashMap"
  vs_writes :: "('k, 'v BTreeMap) HashMap"

definition VersionedStorage_default :: "('k, 'v) VersionedStorage" where
  "VersionedStorage_default = \<lparr>cached_initial_values = [], vs_writes = []\<rparr>"

definition vs_read :: "('k, 'v) VersionedStorage \<Rightarrow> TxIndex \<Rightarrow> 'k \<Rightarrow> 'v option" where
  "vs_read self tx_index key =
     (let val = Option.bind (map_of (vs_writes self) key) (\<lambda>cell. next_back (range_below tx_index cell))
      in or_else (map_option snd val) (map_of (cached_initial_values self) key))"

definition vs_write :: "TxIndex \<Rightarrow> 'k \<Rightarrow> 'v \<Rightarrow> ('k, 'v) VersionedStorage \<Rightarrow> ('k, 'v) VersionedStorage" where
  "vs_write tx_index key val self =
     (let cell = (case map_of (vs_writes self) key of Some cell \<Rightarrow> cell | None \<Rightarrow> [])
      in self\<lparr>vs_writes := hm_insert key (btree_insert tx_index val cell) (vs_writes self)\<rparr>)"

definition set_initial_value :: "'k \<Rightarrow> 'v \<Rightarrow> ('k, 'v) VersionedStorage \<Rightarrow> ('k, 'v) VersionedStorage" where
  "set_initial_value key val self =
     self\<lparr>cached_initial_values := hm_insert key val (cached_initial_values self)\<rparr>"

definition get_writes_from_index :: "('k, 'v) VersionedStorage \<Rightarrow> TxIndex \<Rightarrow> ('k, 'v) HashMap" where
  "get_writes_from_index self from_index =
     fold (\<lambda>(key, cell) acc.
         case next_back (range_upto from_index cell) of
           Some entry \<Rightarrow> hm_insert key (snd entry) acc
         | None \<Rightarrow> acc)
       (vs_writes self) []"

section \<open>Specification\<close>

definition vs_at :: "('k, 'v) VersionedStorage \<Rightarrow> 'k \<Rightarrow> TxIndex \<Rightarrow> 'v option" where
  "vs_at self key i = Option.bind (map_of (vs_writes self) key) (\<lambda>cell. map_of cell i)"

definition btree_wf :: "'v BTreeMap \<Rightarrow> bool" where
  "btree_wf m \<longleftrightarrow> sorted_wrt (<) (map fst m)"

definition vs_wf :: "('k, 'v) VersionedStorage \<Rightarrow> bool" where
  "vs_wf self \<longleftrightarrow> hm_wf (cached_initial_values self) \<and> hm_wf (vs_writes self)
     \<and> (\<forall>key cell. map_of (vs_writes self) key = Some cell \<longrightarrow> btree_wf cell)"

text \<open>The value a chunk leaves in a cell: what the latest transaction below an index wrote.\<close>

definition latest_write :: "('k, 'v) VersionedStorage \<Rightarrow> TxIndex \<Rightarrow> 'k \<Rightarrow> 'v option" where
  "latest_write vs i k =
     (case map_of (vs_writes vs) k of
        None \<Rightarrow> None
      | Some cell \<Rightarrow> map_option snd (next_back (range_below i cell)))"

text \<open>The contract of a multi-version map, over what each transaction wrote.\<close>

locale versioned_map =
  fixes wf :: "'m \<Rightarrow> bool"
    and written :: "'m \<Rightarrow> 'k \<Rightarrow> TxIndex \<Rightarrow> 'v option"
    and initial :: "'m \<Rightarrow> 'k \<Rightarrow> 'v option"
    and read :: "'m \<Rightarrow> TxIndex \<Rightarrow> 'k \<Rightarrow> 'v option"
    and put :: "TxIndex \<Rightarrow> 'k \<Rightarrow> 'v \<Rightarrow> 'm \<Rightarrow> 'm"
  assumes read_0: "wf m \<Longrightarrow> read m 0 k = initial m k"
    and read_Suc: "wf m \<Longrightarrow> read m (Suc i) k = or_else (written m k i) (read m i k)"
    and put_wf: "wf m \<Longrightarrow> wf (put i k v m)"
    and put_at: "wf m \<Longrightarrow> written (put i k v m) k' j = (if k' = k \<and> j = i then Some v else written m k' j)"
    and put_initial: "initial (put i k v m) = initial m"
begin

text \<open>A read depends on earlier transactions only.\<close>

lemma read_cong:
  assumes "wf m" and "wf m'" and "\<And>j. j < i \<Longrightarrow> written m k j = written m' k j" and "initial m k = initial m' k"
  shows "read m i k = read m' i k"
  using assms(3) by (induction i) (simp_all add: assms(1,2,4) read_0 read_Suc)

lemma read_put_later: "wf m \<Longrightarrow> i \<le> j \<Longrightarrow> read (put j k v m) i k' = read m i k'"
  by (rule read_cong) (auto simp: put_wf put_at put_initial)

lemma read_put_next: "wf m \<Longrightarrow> read (put i k v m) (Suc i) k = Some v"
  by (simp add: read_Suc put_wf put_at)

lemma read_latest:
  assumes "wf m" and "j < i" and "written m k j = Some v" and "\<And>l. j < l \<Longrightarrow> l < i \<Longrightarrow> written m k l = None"
  shows "read m i k = Some v"
  using assms(2,4)
proof (induction i)
  case (Suc i)
  show ?case
  proof (cases "j = i")
    case True
    then show ?thesis
      using assms(1,3) by (simp add: read_Suc)
  next
    case False
    then have "j < i"
      using Suc.prems(1) by simp
    then show ?thesis
      using Suc assms(1) by (simp add: read_Suc)
  qed
qed simp

lemma read_initial:
  assumes "wf m" and "\<And>l. l < i \<Longrightarrow> written m k l = None"
  shows "read m i k = initial m k"
  using assms(2) by (induction i) (simp_all add: assms(1) read_0 read_Suc)

lemma puts_commute:
  assumes "wf m" and "i \<noteq> j"
  shows "read (put i k v (put j k' v' m)) l x = read (put j k' v' (put i k v m)) l x"
  by (rule read_cong) (use assms in \<open>auto simp: put_wf put_at put_initial\<close>)

end

section \<open>Lemmas\<close>

lemma btree_wf_Nil [simp]: "btree_wf []"
  by (simp add: btree_wf_def)

lemma fst_set_btree_insert: "set (map fst (btree_insert i v m)) = insert i (set (map fst m))"
proof (induction m)
  case (Cons e m)
  then show ?case
    by (cases e) (simp add: insert_commute)
qed simp

lemma btree_wf_insert [simp]: "btree_wf m \<Longrightarrow> btree_wf (btree_insert i v m)"
proof (induction m)
  case (Cons e m)
  obtain j w where e: "e = (j, w)"
    by fastforce
  have "\<forall>l \<in> set (map fst (btree_insert i v m)). l = i \<or> l \<in> set (map fst m)"
    unfolding fst_set_btree_insert by simp
  then show ?case
    using Cons by (auto simp: e btree_wf_def simp del: set_map)
qed (simp add: btree_wf_def)

lemma map_of_btree_insert: "btree_wf m \<Longrightarrow> map_of (btree_insert i v m) l = (if l = i then Some v else map_of m l)"
proof (induction m)
  case (Cons e m)
  then show ?case
    by (cases e) (auto simp: btree_wf_def)
qed simp

lemma range_upto_eq: "range_upto i m = range_below (Suc i) m"
  by (simp add: range_upto_def range_below_def less_Suc_eq_le)

lemma range_below_0 [simp]: "range_below 0 m = []"
  by (simp add: range_below_def)

lemma next_back_range_Suc:
  assumes "btree_wf m"
  shows "map_option snd (next_back (range_below (Suc i) m)) =
    or_else (map_of m i) (map_option snd (next_back (range_below i m)))"
  using assms
proof (induction m)
  case (Cons e m)
  obtain j w where e: "e = (j, w)"
    by fastforce
  have wf: "btree_wf m" and above: "\<And>l u. (l, u) \<in> set m \<Longrightarrow> j < l"
    using Cons.prems by (force simp: e btree_wf_def)+
  have none: "map_of m l = None" if "l \<le> j" for l
    using above that by (force simp: map_of_eq_None_iff)
  have empty: "range_below l m = []" if "l \<le> Suc j" for l
    using above that by (force simp: range_below_def filter_empty_conv)
  show ?case
    using Cons.IH [OF wf] none [of j] empty [of i] empty [of "Suc i"]
    by (cases "map_of m i"; cases "j < i"; cases "j = i")
      (auto simp: e range_below_def next_back_def split: if_splits)
qed (simp add: range_below_def next_back_def)

lemma vs_read_eq:
  "vs_read vs i k = or_else
     (case map_of (vs_writes vs) k of None \<Rightarrow> None | Some cell \<Rightarrow> map_option snd (next_back (range_below i cell)))
     (map_of (cached_initial_values vs) k)"
  by (simp add: vs_read_def split: option.splits)

lemma vs_at_eq: "vs_at vs k i = (case map_of (vs_writes vs) k of None \<Rightarrow> None | Some cell \<Rightarrow> map_of cell i)"
  by (simp add: vs_at_def split: option.splits)

lemma or_else_None [simp]: "or_else x None = x"
  by (cases x) simp_all

lemma or_else_assoc: "or_else (or_else x y) z = or_else x (or_else y z)"
  by (cases x) simp_all

interpretation vs: versioned_map vs_wf vs_at "\<lambda>vs. map_of (cached_initial_values vs)" vs_read vs_write
proof
  fix vs :: "('a, 'b) VersionedStorage" and k k' :: 'a and i j :: TxIndex and v :: 'b
  show "vs_read vs 0 k = map_of (cached_initial_values vs) k"
    by (simp add: vs_read_eq next_back_def split: option.splits)
  show "map_of (cached_initial_values (vs_write i k v vs)) = map_of (cached_initial_values vs)"
    by (simp add: vs_write_def Let_def)
  assume wf: "vs_wf vs"
  show "vs_read vs (Suc i) k = or_else (vs_at vs k i) (vs_read vs i k)"
    using wf by (auto simp: vs_read_eq vs_at_eq vs_wf_def next_back_range_Suc or_else_assoc split: option.splits)
  show "vs_wf (vs_write i k v vs)"
    using wf by (auto simp: vs_wf_def vs_write_def Let_def split: option.splits if_splits)
  show "vs_at (vs_write i k v vs) k' j = (if k' = k \<and> j = i then Some v else vs_at vs k' j)"
    using wf by (auto simp: vs_at_eq vs_write_def vs_wf_def Let_def map_of_btree_insert split: option.splits)
qed

lemma vs_wf_default [simp]: "vs_wf VersionedStorage_default"
  by (simp add: vs_wf_def VersionedStorage_default_def)

lemma vs_wf_set_initial [simp]: "vs_wf vs \<Longrightarrow> vs_wf (set_initial_value k v vs)"
  by (simp add: vs_wf_def set_initial_value_def)

lemma vs_at_set_initial [simp]: "vs_at (set_initial_value k v vs) = vs_at vs"
  by (simp add: vs_at_eq set_initial_value_def fun_eq_iff)

lemma vs_read_set_initial:
  "vs_read vs i k = None \<Longrightarrow>
    vs_read (set_initial_value k v vs) i k = Some v"
  by (simp add: vs_read_eq set_initial_value_def)

lemma vs_read_latest: "vs_read vs i k = or_else (latest_write vs i k) (map_of (cached_initial_values vs) k)"
  by (simp add: vs_read_eq latest_write_def)

lemma latest_write_0 [simp]: "latest_write vs 0 k = None"
  by (simp add: latest_write_def next_back_def split: option.splits)

lemma latest_write_Suc:
  "vs_wf vs \<Longrightarrow> latest_write vs (Suc i) k = or_else (vs_at vs k i) (latest_write vs i k)"
  by (auto simp: latest_write_def vs_at_eq vs_wf_def next_back_range_Suc split: option.splits)

lemma fold_get_writes:
  assumes "hm_wf ws" and "hm_wf acc"
  shows "hm_wf (fold (\<lambda>(key, cell) acc. case next_back (range_upto n cell) of
        Some entry \<Rightarrow> hm_insert key (snd entry) acc | None \<Rightarrow> acc) ws acc)
    \<and> map_of (fold (\<lambda>(key, cell) acc. case next_back (range_upto n cell) of
        Some entry \<Rightarrow> hm_insert key (snd entry) acc | None \<Rightarrow> acc) ws acc) k =
      or_else (case map_of ws k of None \<Rightarrow> None | Some cell \<Rightarrow> map_option snd (next_back (range_upto n cell)))
        (map_of acc k)"
  using assms
proof (induction ws arbitrary: acc)
  case (Cons e ws)
  obtain key cell where e: "e = (key, cell)"
    by fastforce
  have "hm_wf ws" and "map_of ws key = None"
    using Cons.prems(1) by (simp_all add: e hm_wf_def map_of_eq_None_iff)
  then show ?case
    using Cons.IH [of acc] Cons.IH [of "hm_insert key v acc" for v] Cons.prems(2)
    by (cases "next_back (range_upto n cell)") (auto simp: e)
qed simp

lemma map_of_get_writes_from_index:
  "vs_wf vs \<Longrightarrow> map_of (get_writes_from_index vs n) k = latest_write vs (Suc n) k"
  using fold_get_writes [of "vs_writes vs" "[]" n k]
  by (simp add: get_writes_from_index_def latest_write_def vs_wf_def range_upto_eq split: option.splits)

lemma hm_wf_get_writes_from_index: "vs_wf vs \<Longrightarrow> hm_wf (get_writes_from_index vs n)"
  using fold_get_writes [of "vs_writes vs" "[]" n] by (simp add: get_writes_from_index_def vs_wf_def)

text \<open>Writing a whole map at one version.\<close>

lemma vs_write_all:
  assumes "vs_wf vs" and "hm_wf m"
  shows "vs_wf (fold (\<lambda>(k, v). vs_write i k v) m vs)
    \<and> cached_initial_values (fold (\<lambda>(k, v). vs_write i k v) m vs) = cached_initial_values vs
    \<and> (\<forall>k j. vs_at (fold (\<lambda>(k, v). vs_write i k v) m vs) k j =
        (if j = i then or_else (map_of m k) (vs_at vs k i) else vs_at vs k j))"
  using assms
proof (induction m arbitrary: vs)
  case (Cons e m)
  obtain key v where e: "e = (key, v)"
    by fastforce
  have "hm_wf m" and "map_of m key = None"
    using Cons.prems(2) by (simp_all add: e hm_wf_def map_of_eq_None_iff)
  moreover have "cached_initial_values (vs_write i key v vs) = cached_initial_values vs"
    by (simp add: vs_write_def Let_def)
  ultimately show ?case
    using Cons.IH [of "vs_write i key v vs"] Cons.prems(1) by (auto simp: e vs.put_wf vs.put_at)
qed simp

end
