(* ===== verification/Scheduler.thy ===== *)
theory Scheduler
  imports Versioned_Storage
begin

text \<open>
  The scheduler of a chunk of transactions (\<open>concurrency/scheduler.rs\<close>), twice.

  First as it is written: one function per operation on the record of its atomics and
  status cells, run without interruption. Then as it is run: any number of worker threads
  interleave at every atomic load, store, read-modify-write and critical section. The
  program counter \<open>pc\<close> of a thread names the next atomic action of the operation it is in,
  \<open>thread_step\<close> performs it, and \<open>reach\<close> is reachability from the initial state in a given
  number of atomic steps. Atomics are sequentially consistent here. A thread executes the
  task it was handed and reports it with \<open>finish_execution\<close> (\<open>run\<close> and \<open>execute\<close> of
  \<open>concurrency/worker_logic.rs\<close>). The body of \<open>validate\<close> there is still a \<open>todo!()\<close>; the
  model lets a thread use the scheduler's interface for it as the operations require: it
  validates with any outcome, tries to abort when the validation failed, and reports with
  \<open>finish_validation\<close>, going on with the task this returns.

  \<open>AtomicUsize\<close> is a natural number below \<open>2 ^ 64\<close> with the wrap-around written out.
\<close>

datatype TransactionStatus = ReadyToExecute | Executing | Executed | Aborting

datatype Task = ExecutionTask TxIndex | ValidationTask TxIndex | NoTask | Done

record Scheduler =
  execution_index :: nat
  validation_index :: nat
  decrease_counter :: nat
  n_active_tasks :: nat
  chunk_size :: nat
  tx_statuses :: "TransactionStatus list"
  done_marker :: bool

definition fetch_add :: "nat \<Rightarrow> nat" where
  "fetch_add x = (x + 1) mod 2 ^ 64"

definition fetch_sub :: "nat \<Rightarrow> nat" where
  "fetch_sub x = (x + 2 ^ 64 - 1) mod 2 ^ 64"

definition Scheduler_new :: "nat \<Rightarrow> Scheduler" where
  "Scheduler_new n =
     \<lparr>execution_index = 0, validation_index = n, decrease_counter = 0, n_active_tasks = 0,
      chunk_size = n, tx_statuses = replicate n ReadyToExecute, done_marker = False\<rparr>"

section \<open>The operations, uninterrupted\<close>

type_synonym 'a sched = "(Scheduler, unit, 'a) action"

definition safe_decrement_n_active_tasks :: "unit sched" where
  "safe_decrement_n_active_tasks s =
     (let previous_n_active_tasks = n_active_tasks s;
          s' = s\<lparr>n_active_tasks := fetch_sub (n_active_tasks s)\<rparr>
      in if previous_n_active_tasks > 0 then (Ok (), s') else (Panic ''n_active_tasks underflow'', s'))"

definition lock_tx_status :: "TxIndex \<Rightarrow> TransactionStatus sched" where
  "lock_tx_status tx_index s =
     (if tx_index < length (tx_statuses s) then (Ok (tx_statuses s ! tx_index), s)
      else (Panic ''index out of bounds'', s))"

definition set_status :: "TxIndex \<Rightarrow> TransactionStatus \<Rightarrow> Scheduler \<Rightarrow> Scheduler" where
  "set_status tx_index status s = s\<lparr>tx_statuses := (tx_statuses s)[tx_index := status]\<rparr>"

definition set_executed_status :: "TxIndex \<Rightarrow> unit sched" where
  "set_executed_status tx_index =
     sbind (lock_tx_status tx_index) (\<lambda>status s.
       if status = Executing then (Ok (), set_status tx_index Executed s)
       else (Panic ''Only executing transactions can gain status executed.'', s))"

definition set_ready_status :: "TxIndex \<Rightarrow> unit sched" where
  "set_ready_status tx_index =
     sbind (lock_tx_status tx_index) (\<lambda>status s.
       if status = Aborting then (Ok (), set_status tx_index ReadyToExecute s)
       else (Panic ''Only aborting transactions can be re-executed.'', s))"

definition decrease_validation_index :: "TxIndex \<Rightarrow> unit sched" where
  "decrease_validation_index target_index s =
     (let previous_validation_index = validation_index s;
          s' = s\<lparr>validation_index := min (validation_index s) target_index\<rparr>
      in if target_index < previous_validation_index
         then (Ok (), s'\<lparr>decrease_counter := fetch_add (decrease_counter s')\<rparr>)
         else (Ok (), s'))"

definition try_incarnate :: "TxIndex \<Rightarrow> bool sched" where
  "try_incarnate tx_index s =
     (if tx_index < chunk_size s then
        sbind (lock_tx_status tx_index) (\<lambda>status.
          if status = ReadyToExecute
          then (\<lambda>s. (Ok True, set_status tx_index Executing s))
          else sbind safe_decrement_n_active_tasks (\<lambda>_. sret False)) s
      else sbind safe_decrement_n_active_tasks (\<lambda>_. sret False) s)"

definition check_done :: "unit sched" where
  "check_done s =
     (let observed_decrease_counter = decrease_counter s in
      if min (validation_index s) (execution_index s) \<ge> chunk_size s
         \<and> n_active_tasks s = 0
         \<and> observed_decrease_counter = decrease_counter s
      then (Ok (), s\<lparr>done_marker := True\<rparr>) else (Ok (), s))"

definition next_version_to_validate :: "TxIndex option sched" where
  "next_version_to_validate s =
     (if validation_index s \<ge> chunk_size s then sbind check_done (\<lambda>_. sret None) s
      else
        (let s1 = s\<lparr>n_active_tasks := fetch_add (n_active_tasks s)\<rparr>;
             index_to_validate = validation_index s1;
             s2 = s1\<lparr>validation_index := fetch_add (validation_index s1)\<rparr>
         in if index_to_validate < chunk_size s2 then
              sbind (lock_tx_status index_to_validate) (\<lambda>status.
                if status = Executed then sret (Some index_to_validate)
                else sbind safe_decrement_n_active_tasks (\<lambda>_. sret None)) s2
            else sbind safe_decrement_n_active_tasks (\<lambda>_. sret None) s2))"

definition next_version_to_execute :: "TxIndex option sched" where
  "next_version_to_execute s =
     (if execution_index s \<ge> chunk_size s then sbind check_done (\<lambda>_. sret None) s
      else
        (let s1 = s\<lparr>n_active_tasks := fetch_add (n_active_tasks s)\<rparr>;
             index_to_execute = execution_index s1;
             s2 = s1\<lparr>execution_index := fetch_add (execution_index s1)\<rparr>
         in sbind (try_incarnate index_to_execute) (\<lambda>incarnated.
              sret (if incarnated then Some index_to_execute else None)) s2))"

definition next_task :: "Task sched" where
  "next_task s =
     (if done_marker s then (Ok Done, s)
      else
        (let index_to_validate = validation_index s;
             index_to_execute = execution_index s
         in if min index_to_validate index_to_execute \<ge> chunk_size s then (Ok NoTask, s)
            else
              sbind (if index_to_validate < index_to_execute then next_version_to_validate else sret None)
                (\<lambda>validate. case validate of
                   Some tx_index \<Rightarrow> sret (ValidationTask tx_index)
                 | None \<Rightarrow>
                     sbind next_version_to_execute (\<lambda>execute. case execute of
                       Some tx_index \<Rightarrow> sret (ExecutionTask tx_index)
                     | None \<Rightarrow> sret NoTask)) s))"

definition finish_execution :: "TxIndex \<Rightarrow> unit sched" where
  "finish_execution tx_index =
     sbind (set_executed_status tx_index) (\<lambda>_.
       sbind (\<lambda>s. if validation_index s > tx_index then decrease_validation_index tx_index s else (Ok (), s)) (\<lambda>_.
         safe_decrement_n_active_tasks))"

definition try_validation_abort :: "TxIndex \<Rightarrow> bool sched" where
  "try_validation_abort tx_index =
     sbind (lock_tx_status tx_index) (\<lambda>status s.
       if status = Executed then (Ok True, set_status tx_index Aborting s) else (Ok False, s))"

definition finish_validation :: "TxIndex \<Rightarrow> bool \<Rightarrow> Task sched" where
  "finish_validation tx_index aborted =
     (if aborted then
        sbind (set_ready_status tx_index) (\<lambda>_.
          sbind (\<lambda>s. if execution_index s > tx_index then try_incarnate tx_index s else (Ok False, s)) (\<lambda>incarnated.
            if incarnated then sret (ExecutionTask tx_index)
            else sbind safe_decrement_n_active_tasks (\<lambda>_. sret NoTask)))
      else sbind safe_decrement_n_active_tasks (\<lambda>_. sret NoTask))"

section \<open>The operations, one atomic action at a time\<close>

text \<open>
  The comment after each program counter is the action it is about to perform. The flag of
  the \<open>CheckDone\<close> counters tells where \<open>check_done\<close> returns to: into
  \<open>next_version_to_execute\<close> when it was called from \<open>next_version_to_validate\<close>, else out of
  \<open>next_task\<close>.
\<close>

datatype pc =
    Idle                      \<comment> \<open>\<open>next_task\<close>: load \<open>done_marker\<close>\<close>
  | NextTask1                 \<comment> \<open>load \<open>validation_index\<close>\<close>
  | NextTask2 nat             \<comment> \<open>load \<open>execution_index\<close>\<close>
  | Validate1                 \<comment> \<open>\<open>next_version_to_validate\<close>: load \<open>validation_index\<close>\<close>
  | Validate2                 \<comment> \<open>increment \<open>n_active_tasks\<close>\<close>
  | Validate3                 \<comment> \<open>fetch and increment \<open>validation_index\<close>\<close>
  | Validate4 TxIndex         \<comment> \<open>lock the status\<close>
  | Validate5                 \<comment> \<open>decrement \<open>n_active_tasks\<close>\<close>
  | Execute1                  \<comment> \<open>\<open>next_version_to_execute\<close>: load \<open>execution_index\<close>\<close>
  | Execute2                  \<comment> \<open>increment \<open>n_active_tasks\<close>\<close>
  | Execute3                  \<comment> \<open>fetch and increment \<open>execution_index\<close>\<close>
  | Execute4 TxIndex          \<comment> \<open>\<open>try_incarnate\<close>\<close>
  | Execute5                  \<comment> \<open>decrement \<open>n_active_tasks\<close>\<close>
  | CheckDone1 bool           \<comment> \<open>\<open>check_done\<close>: load \<open>decrease_counter\<close>\<close>
  | CheckDone2 bool nat       \<comment> \<open>load \<open>validation_index\<close>\<close>
  | CheckDone3 bool nat nat   \<comment> \<open>load \<open>execution_index\<close>\<close>
  | CheckDone4 bool nat       \<comment> \<open>load \<open>n_active_tasks\<close>\<close>
  | CheckDone5 bool nat       \<comment> \<open>load \<open>decrease_counter\<close> again\<close>
  | CheckDone6 bool           \<comment> \<open>store \<open>done_marker\<close>\<close>
  | Running TxIndex           \<comment> \<open>has executed its task; \<open>set_executed_status\<close>\<close>
  | FinishExecution2 TxIndex  \<comment> \<open>load \<open>validation_index\<close>\<close>
  | FinishExecution3 TxIndex  \<comment> \<open>fetch the minimum into \<open>validation_index\<close>\<close>
  | FinishExecution4          \<comment> \<open>increment \<open>decrease_counter\<close>\<close>
  | FinishExecution5          \<comment> \<open>decrement \<open>n_active_tasks\<close>\<close>
  | Validating TxIndex        \<comment> \<open>validates its task\<close>
  | TryAbort TxIndex          \<comment> \<open>\<open>try_validation_abort\<close>\<close>
  | FinishValidation1 TxIndex \<comment> \<open>\<open>set_ready_status\<close>\<close>
  | FinishValidation2 TxIndex \<comment> \<open>load \<open>execution_index\<close>\<close>
  | FinishValidation3 TxIndex \<comment> \<open>\<open>try_incarnate\<close>\<close>
  | FinishValidation4         \<comment> \<open>decrement \<open>n_active_tasks\<close> in a failed \<open>try_incarnate\<close>\<close>
  | FinishValidation5         \<comment> \<open>decrement \<open>n_active_tasks\<close>\<close>
  | Stopped                   \<comment> \<open>was told \<open>Done\<close>\<close>
  | Panicked

definition decrement_then :: "pc \<Rightarrow> Scheduler \<Rightarrow> Scheduler \<times> pc" where
  "decrement_then p s =
     (s\<lparr>n_active_tasks := fetch_sub (n_active_tasks s)\<rparr>, if n_active_tasks s > 0 then p else Panicked)"

definition increment_then :: "pc \<Rightarrow> Scheduler \<Rightarrow> Scheduler \<times> pc" where
  "increment_then p s = (s\<lparr>n_active_tasks := fetch_add (n_active_tasks s)\<rparr>, p)"

definition return_from_check :: "bool \<Rightarrow> pc" where
  "return_from_check from_validate = (if from_validate then Execute1 else Idle)"

definition with_status ::
    "TxIndex \<Rightarrow> (TransactionStatus \<Rightarrow> Scheduler \<times> pc) \<Rightarrow> Scheduler \<Rightarrow> Scheduler \<times> pc" where
  "with_status i f s = (if i < length (tx_statuses s) then f (tx_statuses s ! i) else (s, Panicked))"

fun thread_step :: "bool \<Rightarrow> pc \<Rightarrow> Scheduler \<Rightarrow> Scheduler \<times> pc" where
  "thread_step valid Idle s = (s, if done_marker s then Stopped else NextTask1)"
| "thread_step valid NextTask1 s = (s, NextTask2 (validation_index s))"
| "thread_step valid (NextTask2 v) s =
     (s, if min v (execution_index s) \<ge> chunk_size s then Idle
         else if v < execution_index s then Validate1 else Execute1)"
| "thread_step valid Validate1 s =
     (s, if validation_index s \<ge> chunk_size s then CheckDone1 True else Validate2)"
| "thread_step valid Validate2 s = increment_then Validate3 s"
| "thread_step valid Validate3 s =
     (s\<lparr>validation_index := fetch_add (validation_index s)\<rparr>,
      if validation_index s < chunk_size s then Validate4 (validation_index s) else Validate5)"
| "thread_step valid (Validate4 i) s =
     with_status i (\<lambda>status. (s, if status = Executed then Validating i else Validate5)) s"
| "thread_step valid Validate5 s = decrement_then Execute1 s"
| "thread_step valid Execute1 s =
     (s, if execution_index s \<ge> chunk_size s then CheckDone1 False else Execute2)"
| "thread_step valid Execute2 s = increment_then Execute3 s"
| "thread_step valid Execute3 s =
     (s\<lparr>execution_index := fetch_add (execution_index s)\<rparr>, Execute4 (execution_index s))"
| "thread_step valid (Execute4 i) s =
     (if i < chunk_size s then
        with_status i (\<lambda>status. if status = ReadyToExecute then (set_status i Executing s, Running i)
                                else (s, Execute5)) s
      else (s, Execute5))"
| "thread_step valid Execute5 s = decrement_then Idle s"
| "thread_step valid (CheckDone1 r) s = (s, CheckDone2 r (decrease_counter s))"
| "thread_step valid (CheckDone2 r dc) s = (s, CheckDone3 r dc (validation_index s))"
| "thread_step valid (CheckDone3 r dc v) s =
     (s, if min v (execution_index s) \<ge> chunk_size s then CheckDone4 r dc else return_from_check r)"
| "thread_step valid (CheckDone4 r dc) s =
     (s, if n_active_tasks s = 0 then CheckDone5 r dc else return_from_check r)"
| "thread_step valid (CheckDone5 r dc) s =
     (s, if dc = decrease_counter s then CheckDone6 r else return_from_check r)"
| "thread_step valid (CheckDone6 r) s = (s\<lparr>done_marker := True\<rparr>, return_from_check r)"
| "thread_step valid (Running i) s =
     with_status i (\<lambda>status. if status = Executing then (set_status i Executed s, FinishExecution2 i)
                             else (s, Panicked)) s"
| "thread_step valid (FinishExecution2 i) s =
     (s, if validation_index s > i then FinishExecution3 i else FinishExecution5)"
| "thread_step valid (FinishExecution3 i) s =
     (s\<lparr>validation_index := min (validation_index s) i\<rparr>,
      if i < validation_index s then FinishExecution4 else FinishExecution5)"
| "thread_step valid FinishExecution4 s =
     (s\<lparr>decrease_counter := fetch_add (decrease_counter s)\<rparr>, FinishExecution5)"
| "thread_step valid FinishExecution5 s = decrement_then Idle s"
| "thread_step valid (Validating i) s = (s, if valid then FinishValidation5 else TryAbort i)"
| "thread_step valid (TryAbort i) s =
     with_status i (\<lambda>status. if status = Executed then (set_status i Aborting s, FinishValidation1 i)
                             else (s, FinishValidation5)) s"
| "thread_step valid (FinishValidation1 i) s =
     with_status i (\<lambda>status. if status = Aborting then (set_status i ReadyToExecute s, FinishValidation2 i)
                             else (s, Panicked)) s"
| "thread_step valid (FinishValidation2 i) s =
     (s, if execution_index s > i then FinishValidation3 i else FinishValidation5)"
| "thread_step valid (FinishValidation3 i) s =
     (if i < chunk_size s then
        with_status i (\<lambda>status. if status = ReadyToExecute then (set_status i Executing s, Running i)
                                else (s, FinishValidation4)) s
      else (s, FinishValidation4))"
| "thread_step valid FinishValidation4 s = decrement_then FinishValidation5 s"
| "thread_step valid FinishValidation5 s = decrement_then Idle s"
| "thread_step valid Stopped s = (s, Stopped)"
| "thread_step valid Panicked s = (s, Panicked)"

type_synonym Config = "Scheduler \<times> pc list"

inductive step :: "Config \<Rightarrow> Config \<Rightarrow> bool" where
  thread: "t < length threads \<Longrightarrow> thread_step valid (threads ! t) s = (s', p) \<Longrightarrow>
    step (s, threads) (s', threads[t := p])"

inductive reach :: "nat \<Rightarrow> nat \<Rightarrow> nat \<Rightarrow> Config \<Rightarrow> bool" for n n_workers where
  start: "reach n n_workers 0 (Scheduler_new n, replicate n_workers Idle)"
| more: "reach n n_workers k c \<Longrightarrow> step c c' \<Longrightarrow> reach n n_workers (Suc k) c'"

end
