(* ===== verification/Scheduler_Safety.thy ===== *)
theory Scheduler_Safety
  imports Scheduler
begin

text \<open>
  Safety of the scheduler under every interleaving of its workers: an inductive invariant
  over the shared atomics and the program counters of all threads, and the properties it
  gives. A thread \<open>owns\<close> a transaction from the moment it is bound to incarnate it until its
  execution is recorded, and again from the moment it has marked it as aborting.
\<close>

section \<open>The invariant\<close>

fun active :: "pc \<Rightarrow> bool" where
  "active Validate3 = True"
| "active (Validate4 i) = True"
| "active Validate5 = True"
| "active Execute3 = True"
| "active (Execute4 i) = True"
| "active Execute5 = True"
| "active (Running i) = True"
| "active (FinishExecution2 i) = True"
| "active (FinishExecution3 i) = True"
| "active FinishExecution4 = True"
| "active FinishExecution5 = True"
| "active (Validating i) = True"
| "active (TryAbort i) = True"
| "active (FinishValidation1 i) = True"
| "active (FinishValidation2 i) = True"
| "active (FinishValidation3 i) = True"
| "active FinishValidation4 = True"
| "active FinishValidation5 = True"
| "active _ = False"

fun owner :: "pc \<Rightarrow> TxIndex option" where
  "owner (Execute4 i) = Some i"
| "owner (Running i) = Some i"
| "owner (FinishValidation1 i) = Some i"
| "owner (FinishValidation2 i) = Some i"
| "owner (FinishValidation3 i) = Some i"
| "owner _ = None"

fun owner_status :: "pc \<Rightarrow> TransactionStatus" where
  "owner_status (Running i) = Executing"
| "owner_status (FinishValidation1 i) = Aborting"
| "owner_status _ = ReadyToExecute"

fun in_range :: "nat \<Rightarrow> pc \<Rightarrow> bool" where
  "in_range n (Validate4 i) = (i < n)"
| "in_range n (Running i) = (i < n)"
| "in_range n (FinishExecution2 i) = (i < n)"
| "in_range n (FinishExecution3 i) = (i < n)"
| "in_range n (Validating i) = (i < n)"
| "in_range n (TryAbort i) = (i < n)"
| "in_range n (FinishValidation1 i) = (i < n)"
| "in_range n (FinishValidation2 i) = (i < n)"
| "in_range n (FinishValidation3 i) = (i < n)"
| "in_range n FinishValidation4 = False"
| "in_range n Panicked = False"
| "in_range n _ = True"

definition pc_ok :: "Scheduler \<Rightarrow> pc \<Rightarrow> bool" where
  "pc_ok s p \<longleftrightarrow> in_range (chunk_size s) p \<and>
     (\<forall>i. owner p = Some i \<longrightarrow> i < execution_index s \<and>
        (i < chunk_size s \<longrightarrow> tx_statuses s ! i = owner_status p))"

fun fetches_validation :: "pc \<Rightarrow> bool" where
  "fetches_validation Validate2 = True"
| "fetches_validation Validate3 = True"
| "fetches_validation _ = False"

fun fetches_execution :: "pc \<Rightarrow> bool" where
  "fetches_execution Execute2 = True"
| "fetches_execution Execute3 = True"
| "fetches_execution _ = False"

definition count :: "(pc \<Rightarrow> bool) \<Rightarrow> pc list \<Rightarrow> nat" where
  "count P threads = length (filter P threads)"

definition shape :: "nat \<Rightarrow> nat \<Rightarrow> Config \<Rightarrow> bool" where
  "shape n n_workers c \<longleftrightarrow>
     chunk_size (fst c) = n \<and> length (tx_statuses (fst c)) = n \<and> length (snd c) = n_workers
   \<and> n_active_tasks (fst c) = count active (snd c)
   \<and> validation_index (fst c) + count fetches_validation (snd c) \<le> n + n_workers
   \<and> execution_index (fst c) + count fetches_execution (snd c) \<le> n + n_workers"

definition owned :: "Config \<Rightarrow> bool" where
  "owned c \<longleftrightarrow>
     (\<forall>t < length (snd c). pc_ok (fst c) (snd c ! t))
   \<and> (\<forall>t u i. t < length (snd c) \<longrightarrow> u < length (snd c) \<longrightarrow> owner (snd c ! t) = Some i \<longrightarrow>
        owner (snd c ! u) = Some i \<longrightarrow> t = u)
   \<and> (\<forall>i < chunk_size (fst c). i < execution_index (fst c) \<longrightarrow> tx_statuses (fst c) ! i \<noteq> Executed \<longrightarrow>
        (\<exists>t < length (snd c). owner (snd c ! t) = Some i))
   \<and> (\<forall>i < chunk_size (fst c). execution_index (fst c) \<le> i \<longrightarrow> tx_statuses (fst c) ! i = ReadyToExecute)"

text \<open>A settled chunk: everything is executed, both indices have passed the chunk, and no
  thread holds a task or can still get one.\<close>

fun calm :: "nat \<Rightarrow> pc \<Rightarrow> bool" where
  "calm n (Execute4 i) = (n \<le> i)"
| "calm n (Validate4 i) = False"
| "calm n (Running i) = False"
| "calm n (FinishExecution2 i) = False"
| "calm n (FinishExecution3 i) = False"
| "calm n FinishExecution4 = False"
| "calm n FinishExecution5 = False"
| "calm n (Validating i) = False"
| "calm n (TryAbort i) = False"
| "calm n (FinishValidation1 i) = False"
| "calm n (FinishValidation2 i) = False"
| "calm n (FinishValidation3 i) = False"
| "calm n FinishValidation4 = False"
| "calm n FinishValidation5 = False"
| "calm n Panicked = False"
| "calm n _ = True"

definition settled :: "Config \<Rightarrow> bool" where
  "settled c \<longleftrightarrow>
     chunk_size (fst c) \<le> validation_index (fst c) \<and> chunk_size (fst c) \<le> execution_index (fst c)
   \<and> (\<forall>i < chunk_size (fst c). tx_statuses (fst c) ! i = Executed)
   \<and> (\<forall>p \<in> set (snd c). calm (chunk_size (fst c)) p)"

definition undisturbed :: "Config \<Rightarrow> nat \<Rightarrow> bool" where
  "undisturbed c dc \<longleftrightarrow>
     chunk_size (fst c) \<le> validation_index (fst c) \<or> dc < decrease_counter (fst c)
   \<or> FinishExecution4 \<in> set (snd c)"

fun check_ok :: "Config \<Rightarrow> pc \<Rightarrow> bool" where
  "check_ok c (CheckDone2 r dc) = (dc \<le> decrease_counter (fst c))"
| "check_ok c (CheckDone3 r dc v) =
     (dc \<le> decrease_counter (fst c) \<and> (chunk_size (fst c) \<le> v \<longrightarrow> undisturbed c dc))"
| "check_ok c (CheckDone4 r dc) =
     (dc \<le> decrease_counter (fst c) \<and> undisturbed c dc \<and> chunk_size (fst c) \<le> execution_index (fst c))"
| "check_ok c (CheckDone5 r dc) = (dc \<le> decrease_counter (fst c) \<and> (dc < decrease_counter (fst c) \<or> settled c))"
| "check_ok c (CheckDone6 r) = settled c"
| "check_ok c _ = True"

definition checked :: "nat \<Rightarrow> Config \<Rightarrow> bool" where
  "checked k c \<longleftrightarrow> decrease_counter (fst c) \<le> k \<and> (\<forall>p \<in> set (snd c). check_ok c p)
     \<and> (done_marker (fst c) \<longrightarrow> settled c)"

section \<open>One step of one thread\<close>

lemma fetch_sub_pos: "0 < x \<Longrightarrow> x < 2 ^ 64 \<Longrightarrow> fetch_sub x = x - 1"
  by (cases x) (simp_all add: fetch_sub_def)

lemma fetch_add_small: "x + 1 < 2 ^ 64 \<Longrightarrow> fetch_add x = x + 1"
  by (simp add: fetch_add_def)

lemma count_update:
  "t < length threads \<Longrightarrow>
    count P (threads[t := p]) + (if P (threads ! t) then 1 else 0) = count P threads + (if P p then 1 else 0)"
proof (induction threads arbitrary: t)
  case (Cons q threads)
  then show ?case
    by (cases t) (auto simp: count_def)
qed simp

lemma count_pos: "t < length threads \<Longrightarrow> P (threads ! t) \<Longrightarrow> 0 < count P threads"
  unfolding count_def by (metis (no_types, lifting) filter_empty_conv length_greater_0_conv nth_mem)

lemma count_le: "count P threads \<le> length threads"
  by (simp add: count_def)

lemma count_zero: "count P threads = 0 \<Longrightarrow> p \<in> set threads \<Longrightarrow> \<not> P p"
  by (simp add: count_def filter_empty_conv)

lemma owner_active: "owner p = Some i \<Longrightarrow> active p"
  by (cases p) auto

named_theorems sched_defs "definitions of the actions of a thread"

lemmas thread_defs [sched_defs] =
  with_status_def decrement_then_def increment_then_def return_from_check_def set_status_def

text \<open>What a step may do to the shared state, and to the thread that makes it.\<close>

lemma step_frame:
  assumes "thread_step valid p s = (s', p')"
  shows "chunk_size s' = chunk_size s" and "length (tx_statuses s') = length (tx_statuses s)"
  using assms by (cases p; auto simp: sched_defs split: if_splits)+

lemma step_statuses:
  assumes "thread_step valid p s = (s', p')" and "pc_ok s p" and "tx_statuses s' ! j \<noteq> tx_statuses s ! j"
  shows "owner p = Some j \<or> tx_statuses s ! j = Executed"
  using assms by (cases p) (auto simp: sched_defs pc_ok_def nth_list_update split: if_splits)

lemma step_execution_index:
  assumes "thread_step valid p s = (s', p')" and "p = Execute3 \<Longrightarrow> execution_index s + 1 < 2 ^ 64"
  shows "execution_index s' = execution_index s + (if p = Execute3 then 1 else 0)"
  using assms by (cases p) (auto simp: sched_defs fetch_add_small split: if_splits)

lemma step_validation_index:
  assumes "thread_step valid p s = (s', p')" and "p = Validate3 \<Longrightarrow> validation_index s + 1 < 2 ^ 64"
  shows "validation_index s' \<le> validation_index s + (if p = Validate3 then 1 else 0)"
    and "chunk_size s \<le> validation_index s \<Longrightarrow> validation_index s' < chunk_size s \<Longrightarrow> p' = FinishExecution4"
  using assms by (cases p; auto simp: sched_defs fetch_add_small split: if_splits)+

lemma step_active:
  assumes "thread_step valid p s = (s', p')" and "p' \<noteq> Panicked" and "p \<noteq> FinishValidation4"
    and "active p \<Longrightarrow> 0 < n_active_tasks s" and "n_active_tasks s + (if active p then 0 else 1) < 2 ^ 64"
  shows "n_active_tasks s' + (if active p then 1 else 0) = n_active_tasks s + (if active p' then 1 else 0)"
  using assms by (cases p) (auto simp: sched_defs fetch_sub_pos fetch_add_small split: if_splits)

lemma step_self_ok:
  assumes "thread_step valid p s = (s', p')" and "pc_ok s p" and "length (tx_statuses s) = chunk_size s"
    and "active p \<Longrightarrow> 0 < n_active_tasks s"
    and "p = Execute3 \<Longrightarrow> execution_index s + 1 < 2 ^ 64"
    and "\<forall>i < chunk_size s. execution_index s \<le> i \<longrightarrow> tx_statuses s ! i = ReadyToExecute"
  shows "pc_ok s' p'"
  using assms by (cases p) (auto simp: sched_defs pc_ok_def fetch_add_small split: if_splits)

lemma step_owner:
  assumes "thread_step valid p s = (s', p')" and "owner p' = Some i"
  shows "owner p = Some i \<or> (p = Execute3 \<and> i = execution_index s) \<or> (i < length (tx_statuses s) \<and> tx_statuses s ! i = Executed)"
  using assms by (cases p) (auto simp: sched_defs split: if_splits)

lemma step_cover:
  assumes "thread_step valid p s = (s', p')" and "pc_ok s p" and "length (tx_statuses s) = chunk_size s"
    and "p = Execute3 \<Longrightarrow> execution_index s + 1 < 2 ^ 64"
    and "i < chunk_size s" and "i < execution_index s'" and "tx_statuses s' ! i \<noteq> Executed"
  shows "owner p' = Some i \<or> (i < execution_index s \<and> tx_statuses s ! i \<noteq> Executed \<and> owner p \<noteq> Some i)"
  using assms by (cases p) (auto simp: sched_defs pc_ok_def fetch_add_small nth_list_update split: if_splits)

section \<open>The invariant holds in every reachable configuration\<close>

text \<open>The facts a step of thread \<open>t\<close> may use about the configuration it starts from.\<close>

lemma invariant_thread:
  assumes "shape n n_workers (s, threads)" and "owned (s, threads)" and "n + n_workers < 2 ^ 64"
    and "t < length threads"
  shows "pc_ok s (threads ! t)" and "threads ! t \<noteq> FinishValidation4" and "threads ! t \<noteq> Panicked"
    and "length (tx_statuses s) = chunk_size s"
    and "active (threads ! t) \<Longrightarrow> 0 < n_active_tasks s"
    and "n_active_tasks s + (if active (threads ! t) then 0 else 1) < 2 ^ 64"
    and "threads ! t = Execute3 \<Longrightarrow> execution_index s + 1 < 2 ^ 64"
    and "threads ! t = Validate3 \<Longrightarrow> validation_index s + 1 < 2 ^ 64"
proof -
  show ok: "pc_ok s (threads ! t)"
    using assms(2,4) by (simp add: owned_def)
  then show "threads ! t \<noteq> FinishValidation4" and "threads ! t \<noteq> Panicked"
    by (auto simp: pc_ok_def)
  show "length (tx_statuses s) = chunk_size s"
    using assms(1) by (simp add: shape_def)
  show "active (threads ! t) \<Longrightarrow> 0 < n_active_tasks s"
    using assms(1,4) count_pos by (simp add: shape_def)
  have "count active threads + (if active (threads ! t) then 0 else 1) \<le> length threads"
    using count_update [OF assms(4), of active "Validate3"] count_le [of active "threads[t := Validate3]"]
    by (simp split: if_splits)
  then show "n_active_tasks s + (if active (threads ! t) then 0 else 1) < 2 ^ 64"
    using assms(1,3) by (simp add: shape_def)
  show "threads ! t = Execute3 \<Longrightarrow> execution_index s + 1 < 2 ^ 64"
    using assms(1,3) count_pos [OF assms(4), of fetches_execution] by (simp add: shape_def)
  show "threads ! t = Validate3 \<Longrightarrow> validation_index s + 1 < 2 ^ 64"
    using assms(1,3) count_pos [OF assms(4), of fetches_validation] by (simp add: shape_def)
qed

lemma step_fetches:
  assumes "thread_step valid p s = (s', p')"
  shows "fetches_execution p' \<Longrightarrow> \<not> fetches_execution p \<Longrightarrow> execution_index s < chunk_size s"
    and "fetches_validation p' \<Longrightarrow> \<not> fetches_validation p \<Longrightarrow> validation_index s < chunk_size s"
    and "fetches_execution p \<Longrightarrow> p \<noteq> Execute3 \<Longrightarrow> fetches_execution p'"
    and "fetches_validation p \<Longrightarrow> p \<noteq> Validate3 \<Longrightarrow> fetches_validation p'"
    and "p = Execute3 \<Longrightarrow> \<not> fetches_execution p'"
    and "p = Validate3 \<Longrightarrow> \<not> fetches_validation p'"
  using assms by (cases p; auto simp: sched_defs split: if_splits)+

lemma shape_step:
  assumes "shape n n_workers (s, threads)" and "owned (s, threads)" and "n + n_workers < 2 ^ 64"
    and t: "t < length threads" and run: "thread_step valid (threads ! t) s = (s', p)"
  shows "shape n n_workers (s', threads[t := p])"
proof -
  note facts = invariant_thread [OF assms(1-3) t]
  have "pc_ok s' p"
    by (rule step_self_ok [OF run facts(1,4,5,7)]) (use assms(2) in \<open>simp_all add: owned_def\<close>)
  then have alive: "p \<noteq> Panicked"
    by (auto simp: pc_ok_def)
  have workers: "length threads = n_workers"
    using assms(1) by (simp add: shape_def)
  have act: "n_active_tasks s' = count active (threads[t := p])"
    using step_active [OF run alive facts(2,5,6)] count_update [OF t, of active p] assms(1)
    by (simp add: shape_def)
  have "count fetches_execution (threads[t := p]) \<le> n_workers" "count fetches_validation (threads[t := p]) \<le> n_workers"
    using count_le [of _ "threads[t := p]"] workers by simp_all
  then have "execution_index s' + count fetches_execution (threads[t := p]) \<le> n + n_workers"
    and "validation_index s' + count fetches_validation (threads[t := p]) \<le> n + n_workers"
    using step_execution_index [OF run facts(7)] step_validation_index(1) [OF run facts(8)] step_fetches [OF run]
      count_update [OF t, of fetches_execution p] count_update [OF t, of fetches_validation p] assms(1)
    by (auto simp: shape_def split: if_splits)
  then show ?thesis
    using step_frame [OF run] act assms(1) by (simp add: shape_def)
qed

lemma owned_step:
  assumes "shape n n_workers (s, threads)" and "owned (s, threads)" and "n + n_workers < 2 ^ 64"
    and t: "t < length threads" and run: "thread_step valid (threads ! t) s = (s', p)"
  shows "owned (s', threads[t := p])"
proof -
  note facts = invariant_thread [OF assms(1-3) t]
  have ok: "\<And>u. u < length threads \<Longrightarrow> pc_ok s (threads ! u)"
    and unique: "\<And>u v i. u < length threads \<Longrightarrow> v < length threads \<Longrightarrow> owner (threads ! u) = Some i \<Longrightarrow>
        owner (threads ! v) = Some i \<Longrightarrow> u = v"
    and cover: "\<And>i. i < chunk_size s \<Longrightarrow> i < execution_index s \<Longrightarrow> tx_statuses s ! i \<noteq> Executed \<Longrightarrow>
        \<exists>u < length threads. owner (threads ! u) = Some i"
    and fresh: "\<forall>i < chunk_size s. execution_index s \<le> i \<longrightarrow> tx_statuses s ! i = ReadyToExecute"
    using assms(2) by (auto simp: owned_def)
  have size: "chunk_size s' = chunk_size s"
    by (rule step_frame(1) [OF run])
  have self: "pc_ok s' p"
    by (rule step_self_ok [OF run facts(1,4,5,7) fresh])
  have other: "pc_ok s' (threads ! u)" if u: "u < length threads" "u \<noteq> t" for u
  proof -
    have "tx_statuses s' ! i = tx_statuses s ! i" if "owner (threads ! u) = Some i" "i < chunk_size s" for i
      using step_statuses [OF run facts(1), of i] unique [OF u(1) t] ok [OF u(1)] that u(2)
      by (cases "threads ! u") (auto simp: pc_ok_def)
    then show ?thesis
      using ok [OF u(1)] step_execution_index [OF run facts(7)] by (auto simp: pc_ok_def size)
  qed
  have new_owner: "u = t" if "u < length threads" "owner (threads ! u) = Some i" "owner p = Some i" for u i
    using step_owner [OF run that(3)] unique [OF that(1) t that(2)] ok [OF that(1)] that(2) facts(4)
    by (cases "threads ! u") (auto simp: pc_ok_def)
  have covered: "\<exists>u < length threads. owner (threads[t := p] ! u) = Some i"
    if i: "i < chunk_size s" "i < execution_index s'" "tx_statuses s' ! i \<noteq> Executed" for i
    using step_cover [OF run facts(1,4,7) i]
  proof
    assume "owner p = Some i"
    then show ?thesis
      using t by (intro exI [of _ t]) simp
  next
    assume *: "i < execution_index s \<and> tx_statuses s ! i \<noteq> Executed \<and> owner (threads ! t) \<noteq> Some i"
    then obtain u where u: "u < length threads" "owner (threads ! u) = Some i"
      using cover i(1) by blast
    then have "u \<noteq> t"
      using * by auto
    then show ?thesis
      using u by (intro exI [of _ u]) simp
  qed
  have fresh': "tx_statuses s' ! i = ReadyToExecute" if "i < chunk_size s" "execution_index s' \<le> i" for i
  proof -
    have old: "tx_statuses s ! i = ReadyToExecute" and "execution_index s \<le> i"
      using fresh that step_execution_index [OF run facts(7)] by (auto split: if_splits)
    then have "owner (threads ! t) \<noteq> Some i"
      using facts(1) by (auto simp: pc_ok_def)
    then show ?thesis
      using step_statuses [OF run facts(1), of i] old by force
  qed
  show ?thesis
    unfolding owned_def fst_conv snd_conv length_list_update size
    using t self other new_owner unique covered fresh' by (auto simp: nth_list_update)
qed

lemma settled_step:
  assumes "shape n n_workers (s, threads)" and "owned (s, threads)" and "n + n_workers < 2 ^ 64"
    and t: "t < length threads" and run: "thread_step valid (threads ! t) s = (s', p)"
    and "settled (s, threads)"
  shows "settled (s', threads[t := p])"
proof -
  note facts = invariant_thread [OF assms(1-3) t]
  have calm: "calm (chunk_size s) (threads ! t)"
    using assms(6) t by (simp add: settled_def)
  have "calm (chunk_size s) p \<and> tx_statuses s' = tx_statuses s \<and> chunk_size s \<le> validation_index s'"
    using run calm facts(5,8) assms(6)
    by (cases "threads ! t") (auto simp: sched_defs settled_def fetch_add_small split: if_splits)
  moreover have "execution_index s \<le> execution_index s'"
    using step_execution_index [OF run facts(7)] by simp
  moreover have "set (threads[t := p]) \<subseteq> insert p (set threads)"
    by (rule set_update_subset_insert)
  ultimately show ?thesis
    using assms(6) step_frame(1) [OF run] unfolding settled_def by fastforce
qed

lemma undisturbed_step:
  assumes t: "t < length threads" and run: "thread_step valid (threads ! t) s = (s', p)"
    and "decrease_counter s + 1 < 2 ^ 64" and "threads ! t = Validate3 \<Longrightarrow> validation_index s + 1 < 2 ^ 64"
    and "dc \<le> decrease_counter s" and "undisturbed (s, threads) dc"
  shows "undisturbed (s', threads[t := p]) dc"
proof -
  have counter: "decrease_counter s \<le> decrease_counter s'"
      "threads ! t = FinishExecution4 \<Longrightarrow> decrease_counter s < decrease_counter s'"
    using run assms(3) by (cases "threads ! t"; auto simp: sched_defs fetch_add_small split: if_splits)+
  have size: "chunk_size s' = chunk_size s"
    by (rule step_frame(1) [OF run])
  have here: "p \<in> set (threads[t := p])"
    using t by (rule set_update_memI)
  have there: "FinishExecution4 \<in> set (threads[t := p])"
    if "FinishExecution4 \<in> set threads" "threads ! t \<noteq> FinishExecution4"
    using that by (metis in_set_conv_nth length_list_update nth_list_update_neq)
  show ?thesis
    using assms(5,6) counter here there step_validation_index(2) [OF run assms(4)]
    by (cases "threads ! t = FinishExecution4") (auto simp: undisturbed_def size not_less)
qed

lemma no_active_settled:
  assumes "shape n n_workers (s, threads)" and "owned (s, threads)"
    and "n_active_tasks s = 0" and "chunk_size s \<le> validation_index s" and "chunk_size s \<le> execution_index s"
  shows "settled (s, threads)"
proof -
  have idle: "\<not> active q" if "q \<in> set threads" for q
    using assms(1,3) count_zero [of active threads q, OF _ that] by (simp add: shape_def)
  have "calm (chunk_size s) q" if "q \<in> set threads" for q
    using idle [OF that] assms(2) that by (cases q) (auto simp: owned_def pc_ok_def in_set_conv_nth)
  moreover have "tx_statuses s ! i = Executed" if i: "i < chunk_size s" for i
  proof (rule ccontr)
    assume "tx_statuses s ! i \<noteq> Executed"
    then obtain u where "u < length threads" "owner (threads ! u) = Some i"
      using assms(2,5) i by (auto simp: owned_def)
    then show False
      using idle [of "threads ! u"] owner_active by simp
  qed
  ultimately show ?thesis
    using assms(4,5) by (simp add: settled_def)
qed

text \<open>The only steps that put a thread into \<open>check_done\<close> past its first load.\<close>

lemma step_check_cases:
  assumes "thread_step valid p s = (s', p')"
  shows "(\<forall>c. check_ok c p')
    \<or> (\<exists>r. p = CheckDone1 r \<and> p' = CheckDone2 r (decrease_counter s) \<and> s' = s)
    \<or> (\<exists>r dc. p = CheckDone2 r dc \<and> p' = CheckDone3 r dc (validation_index s) \<and> s' = s)
    \<or> (\<exists>r dc v. p = CheckDone3 r dc v \<and> p' = CheckDone4 r dc \<and> s' = s
          \<and> chunk_size s \<le> v \<and> chunk_size s \<le> execution_index s)
    \<or> (\<exists>r dc. p = CheckDone4 r dc \<and> p' = CheckDone5 r dc \<and> s' = s \<and> n_active_tasks s = 0)
    \<or> (\<exists>r dc. p = CheckDone5 r dc \<and> p' = CheckDone6 r \<and> s' = s \<and> dc = decrease_counter s)"
proof -
  have away: "check_ok c (return_from_check r)" for c r
    by (simp add: return_from_check_def)
  have run: "s' = fst (thread_step valid p s)" "p' = snd (thread_step valid p s)"
    using assms by simp_all
  show ?thesis
    unfolding run using away by (cases p) (simp_all add: sched_defs)
qed

lemma step_done:
  assumes "thread_step valid p s = (s', p')" and "done_marker s'"
  shows "done_marker s \<or> (\<exists>r. p = CheckDone6 r)"
  using assms by (cases p) (auto simp: sched_defs split: if_splits)

lemma checked_step:
  assumes "shape n n_workers (s, threads)" and "owned (s, threads)" and "n + n_workers < 2 ^ 64"
    and "checked k (s, threads)" and "k + 1 < 2 ^ 64"
    and t: "t < length threads" and run: "thread_step valid (threads ! t) s = (s', p)"
  shows "checked (Suc k) (s', threads[t := p])"
proof -
  note facts = invariant_thread [OF assms(1-3) t]
  have size: "chunk_size s' = chunk_size s"
    by (rule step_frame(1) [OF run])
  have small: "decrease_counter s + 1 < 2 ^ 64"
    using assms(4,5) by (simp add: checked_def)
  have counter: "decrease_counter s \<le> decrease_counter s'" "decrease_counter s' \<le> Suc k"
    using run small assms(4)
    by (cases "threads ! t"; auto simp: sched_defs fetch_add_small checked_def split: if_splits)+
  have index: "execution_index s \<le> execution_index s'"
    using step_execution_index [OF run facts(7)] by simp
  note quiet = settled_step [OF assms(1-3) t run]
  note calm = undisturbed_step [OF t run small facts(8)]
  have stable: "check_ok (s', threads[t := p]) q" if "check_ok (s, threads) q" for q
    using that counter(1) index quiet calm by (cases q) (auto simp: size)
  have here: "check_ok (s, threads) (threads ! t)"
    using assms(4) t by (simp add: checked_def)
  have settles: "settled (s, threads)"
    if "n_active_tasks s = 0" "chunk_size s \<le> validation_index s" "chunk_size s \<le> execution_index s"
    by (rule no_active_settled [OF assms(1,2) that])
  have waiting: "FinishExecution4 \<notin> set threads" if "n_active_tasks s = 0"
    using assms(1) that count_zero [of active threads FinishExecution4] by (auto simp: shape_def)
  have self: "check_ok (s', threads[t := p]) p"
    using step_check_cases [OF run]
  proof (elim disjE exE conjE)
    fix r dc v
    assume "threads ! t = CheckDone3 r dc v" "p = CheckDone4 r dc" "s' = s" "chunk_size s \<le> v"
      "chunk_size s \<le> execution_index s"
    then show ?thesis
      using here calm by simp
  next
    fix r dc
    assume *: "threads ! t = CheckDone4 r dc" "p = CheckDone5 r dc" "s' = s" "n_active_tasks s = 0"
    then have "dc < decrease_counter s \<or> settled (s, threads)"
      using here waiting settles by (auto simp: undisturbed_def)
    then show ?thesis
      using * here quiet by auto
  next
    fix r dc
    assume "threads ! t = CheckDone5 r dc" "p = CheckDone6 r" "s' = s" "dc = decrease_counter s"
    then show ?thesis
      using here quiet by simp
  qed (use here in \<open>simp_all add: undisturbed_def\<close>)
  have "settled (s', threads[t := p])" if "done_marker s'"
    using step_done [OF run that] here quiet assms(4) by (auto simp: checked_def)
  moreover have "check_ok (s', threads[t := p]) q" if "q \<in> set (threads[t := p])" for q
    using that self stable assms(4) set_update_subset_insert [of threads t p] by (auto simp: checked_def)
  ultimately show ?thesis
    using counter(2) by (simp add: checked_def)
qed

lemma shape_init: "shape n n_workers (Scheduler_new n, replicate n_workers Idle)"
  by (simp add: shape_def Scheduler_new_def count_def)

lemma owned_init: "owned (Scheduler_new n, replicate n_workers Idle)"
  by (simp add: owned_def pc_ok_def Scheduler_new_def)

lemma checked_init: "checked 0 (Scheduler_new n, replicate n_workers Idle)"
  by (simp add: checked_def Scheduler_new_def)

lemma reach_invariant:
  assumes "reach n n_workers k c" and "n + n_workers < 2 ^ 64"
  shows "shape n n_workers c \<and> owned c"
  using assms
proof (induction rule: reach.induct)
  case (more k c c')
  then show ?case
    by (auto elim!: step.cases intro: shape_step owned_step)
qed (simp add: shape_init owned_init)

lemma reach_checked:
  assumes "reach n n_workers k c" and "n + n_workers < 2 ^ 64" and "k < 2 ^ 64"
  shows "checked k c"
  using assms
proof (induction rule: reach.induct)
  case (more k c c')
  then have "shape n n_workers c" "owned c"
    using reach_invariant by blast+
  then show ?case
    using more by (auto elim!: step.cases intro: checked_step)
qed (simp add: checked_init)

section \<open>Uninterrupted runs\<close>

text \<open>A thread that runs alone: \<open>runs valid (s, p) (s', p')\<close> when it gets from \<open>p\<close> to \<open>p'\<close>.\<close>

definition solo_step :: "bool \<Rightarrow> Scheduler \<times> pc \<Rightarrow> Scheduler \<times> pc" where
  "solo_step valid x = thread_step valid (snd x) (fst x)"

definition runs :: "bool \<Rightarrow> Scheduler \<times> pc \<Rightarrow> Scheduler \<times> pc \<Rightarrow> bool" where
  "runs valid x y \<longleftrightarrow> (\<exists>k. (solo_step valid ^^ k) x = y)"

fun task_pc :: "Task \<Rightarrow> pc" where
  "task_pc (ExecutionTask i) = Running i"
| "task_pc (ValidationTask i) = Validating i"
| "task_pc NoTask = Idle"
| "task_pc Done = Stopped"

definition outcome :: "('a \<Rightarrow> pc) \<Rightarrow> (unit, 'a) result \<times> Scheduler \<Rightarrow> Scheduler \<times> pc" where
  "outcome f r = (snd r, case fst r of Ok a \<Rightarrow> f a | _ \<Rightarrow> Panicked)"

lemma runs_refl: "runs valid x x"
  unfolding runs_def by (rule exI [of _ 0]) simp

lemma runs_step:
  assumes "runs valid (thread_step valid p s) y"
  shows "runs valid (s, p) y"
proof -
  obtain k where "(solo_step valid ^^ k) (solo_step valid (s, p)) = y"
    using assms by (auto simp: runs_def solo_step_def)
  then show ?thesis
    unfolding runs_def by (intro exI [of _ "Suc k"]) (simp add: funpow_swap1)
qed

lemma runs_trans:
  assumes "runs valid x y" and "runs valid y z"
  shows "runs valid x z"
proof -
  obtain j k where "(solo_step valid ^^ j) x = y" "(solo_step valid ^^ k) y = z"
    using assms by (auto simp: runs_def)
  then show ?thesis
    unfolding runs_def by (intro exI [of _ "k + j"]) (simp add: funpow_add)
qed

lemmas sequential_defs =
  outcome_def action_defs lock_tx_status_def safe_decrement_n_active_tasks_def

lemma runs_check_done: "runs valid (s, CheckDone1 r) (outcome (\<lambda>_. return_from_check r) (check_done s))"
proof (cases "min (validation_index s) (execution_index s) \<ge> chunk_size s \<and> n_active_tasks s = 0")
  case True
  show ?thesis
    by (rule runs_step, simp, rule runs_step, simp, rule runs_step, simp add: True [simplified],
        rule runs_step, simp add: True, rule runs_step, simp, rule runs_step)
      (use True in \<open>simp add: check_done_def outcome_def runs_refl\<close>)
next
  case False
  show ?thesis
    by (rule runs_step, simp, rule runs_step, simp, rule runs_step,
        cases "min (validation_index s) (execution_index s) \<ge> chunk_size s", simp_all, rule runs_step)
      (use False in \<open>auto simp: check_done_def outcome_def runs_refl\<close>)
qed

end
