(* ===== verification/Scheduler_Properties.thy ===== *)
theory Scheduler_Properties
  imports Scheduler_Safety
begin

text \<open>
  What the scheduler promises: the atomic actions of \<open>thread_step\<close> run alone are the
  operations as written, and the properties of every interleaving.
\<close>

section \<open>The atomic actions, uninterrupted, are the operations\<close>

lemma outcome_Ok [simp]: "outcome f (Ok a, s) = (s, f a)"
  and outcome_Err [simp]: "outcome f (Err e, s) = (s, Panicked)"
  and outcome_Panic [simp]: "outcome f (Panic q, s) = (s, Panicked)"
  by (simp_all add: outcome_def)

text \<open>Runs compose as the operations do.\<close>

lemma runs_sbind:
  assumes "runs valid x (outcome g (m s))"
    and "\<And>a s'. m s = (Ok a, s') \<Longrightarrow> runs valid (s', g a) (outcome f (k a s'))"
  shows "runs valid x (outcome f (sbind m k s))"
proof (cases "m s")
  case (Pair r s')
  then show ?thesis
    using assms runs_trans by (cases r) (auto simp: sbind_apply)
qed

lemma runs_to: "thread_step valid p s = (s', p') \<Longrightarrow> runs valid (s', p') y \<Longrightarrow> runs valid (s, p) y"
  by (rule runs_step) simp

lemma runs_decrement:
  assumes "thread_step valid p s = decrement_then q s" and "f a = q"
  shows "runs valid (s, p) (outcome f (sbind safe_decrement_n_active_tasks (\<lambda>_. sret a) s))"
  by (rule runs_step)
    (use assms in \<open>simp add: decrement_then_def safe_decrement_n_active_tasks_def sbind_apply runs_refl Let_def\<close>)

lemma runs_validate4:
  "runs valid (s, Validate4 i) (outcome (\<lambda>v. case v of Some i \<Rightarrow> Validating i | None \<Rightarrow> Execute1)
     (sbind (lock_tx_status i) (\<lambda>status. if status = Executed then sret (Some i)
        else sbind safe_decrement_n_active_tasks (\<lambda>_. sret None)) s))"
proof (cases "i < length (tx_statuses s)")
  case True
  show ?thesis
  proof (rule runs_step, cases "tx_statuses s ! i = Executed")
    case *: True
    then show "runs valid (thread_step valid (Validate4 i) s) (outcome (\<lambda>v. case v of Some i \<Rightarrow> Validating i | None \<Rightarrow> Execute1)
     (sbind (lock_tx_status i) (\<lambda>status. if status = Executed then sret (Some i)
        else sbind safe_decrement_n_active_tasks (\<lambda>_. sret None)) s))"
      using True by (simp add: with_status_def lock_tx_status_def sbind_apply runs_refl)
  next
    case *: False
    then show "runs valid (thread_step valid (Validate4 i) s) (outcome (\<lambda>v. case v of Some i \<Rightarrow> Validating i | None \<Rightarrow> Execute1)
     (sbind (lock_tx_status i) (\<lambda>status. if status = Executed then sret (Some i)
        else sbind safe_decrement_n_active_tasks (\<lambda>_. sret None)) s))"
      using True runs_decrement [of valid Validate5 s Execute1 "\<lambda>v. case v of Some i \<Rightarrow> Validating i | None \<Rightarrow> Execute1" None]
      by (simp add: with_status_def lock_tx_status_def sbind_apply)
  qed
qed (rule runs_step, simp add: with_status_def lock_tx_status_def sbind_apply runs_refl)

lemma check_done_Ok: obtains s' where "check_done s = (Ok (), s')"
  by (cases "snd (check_done s) = s") (auto simp: check_done_def Let_def split: if_splits)

lemma runs_check_done_then:
  assumes "f a = return_from_check r"
  shows "runs valid (s, CheckDone1 r) (outcome f (sbind check_done (\<lambda>_. sret a) s))"
  by (rule runs_sbind [OF runs_check_done]) (simp add: assms runs_refl)

lemma runs_validate:
  "runs valid (s, Validate1) (outcome (\<lambda>v. case v of Some i \<Rightarrow> Validating i | None \<Rightarrow> Execute1) (next_version_to_validate s))"
proof (cases "validation_index s \<ge> chunk_size s")
  case True
  then show ?thesis
    by (intro runs_step) (simp add: next_version_to_validate_def runs_check_done_then return_from_check_def)
next
  case False
  then have small: "validation_index s < chunk_size s"
    by simp
  then show ?thesis
    by - (rule runs_step, simp, rule runs_step, simp add: increment_then_def, rule runs_step,
      simp add: next_version_to_validate_def runs_validate4 Let_def cong: if_cong)
qed

lemma runs_try_incarnate:
  assumes "p = Execute4 i \<and> p' = Execute5 \<and> q = Idle \<or> p = FinishValidation3 i \<and> p' = FinishValidation4 \<and> q = FinishValidation5"
  shows "runs valid (s, p) (outcome (\<lambda>b. if b then Running i else q) (try_incarnate i s))"
proof -
  have step: "thread_step valid p s = (if i < chunk_size s then
        with_status i (\<lambda>status. if status = ReadyToExecute then (set_status i Executing s, Running i)
                                else (s, p')) s
      else (s, p'))"
    using assms by auto
  have "thread_step valid p' s = decrement_then q s"
    using assms by auto
  then have dec: "runs valid (s, p') (outcome (\<lambda>b. if b then Running i else q)
      (sbind safe_decrement_n_active_tasks (\<lambda>_. sret False) s))"
    by (rule runs_decrement) simp
  show ?thesis
    by (rule runs_step, cases "i < chunk_size s"; cases "i < length (tx_statuses s)"; cases "tx_statuses s ! i = ReadyToExecute")
      (simp_all add: step with_status_def try_incarnate_def lock_tx_status_def sbind_apply runs_refl dec [unfolded sbind_apply])
qed

lemma runs_execute:
  "runs valid (s, Execute1) (outcome (\<lambda>v. case v of Some i \<Rightarrow> Running i | None \<Rightarrow> Idle) (next_version_to_execute s))"
proof (cases "execution_index s \<ge> chunk_size s")
  case True
  then show ?thesis
    by (intro runs_step) (simp add: next_version_to_execute_def runs_check_done_then return_from_check_def)
next
  case False
  define s2 where "s2 = s\<lparr>n_active_tasks := fetch_add (n_active_tasks s), execution_index := fetch_add (execution_index s)\<rparr>"
  have "runs valid (s2, Execute4 (execution_index s)) (outcome (\<lambda>v. case v of Some i \<Rightarrow> Running i | None \<Rightarrow> Idle)
      (sbind (try_incarnate (execution_index s)) (\<lambda>incarnated.
              sret (if incarnated then Some (execution_index s) else None)) s2))"
    by (rule runs_sbind [OF runs_try_incarnate [of _ _ Execute5 Idle]]) (simp_all add: runs_refl)
  then have "runs valid (s2, Execute4 (execution_index s))
      (outcome (\<lambda>v. case v of Some i \<Rightarrow> Running i | None \<Rightarrow> Idle) (next_version_to_execute s))"
    using False by (simp add: next_version_to_execute_def s2_def Let_def cong: if_cong)
  then show ?thesis
    by - (rule runs_step, simp add: False, rule runs_step, simp add: increment_then_def, rule runs_step,
      simp add: s2_def)
qed

lemma runs_next_task: "runs valid (s, Idle) (outcome task_pc (next_task s))"
proof (cases "done_marker s \<or> min (validation_index s) (execution_index s) \<ge> chunk_size s")
  case True
  then show ?thesis
  proof (cases "done_marker s")
    case *: False
    then show ?thesis
      using True by - (rule runs_step, simp, rule runs_step, simp, rule runs_step, simp add: next_task_def runs_refl)
  qed (rule runs_step, simp add: next_task_def runs_refl)
next
  case False
  then have not_done: "\<not> done_marker s"
    and not_passed: "\<not> min (validation_index s) (execution_index s) \<ge> chunk_size s"
    by blast+
  have exec: "runs valid (s', Execute1) (outcome task_pc (sbind next_version_to_execute (\<lambda>execute. case execute of
           Some tx_index \<Rightarrow> sret (ExecutionTask tx_index) | None \<Rightarrow> sret NoTask) s'))" for s'
    by (rule runs_sbind [OF runs_execute]) (simp add: runs_refl split: option.splits)
  let ?validates = "validation_index s < execution_index s"
  have start: "runs valid (s, if ?validates then Validate1 else Execute1)
     (outcome (\<lambda>v. case v of Some i \<Rightarrow> Validating i | None \<Rightarrow> Execute1)
        ((if ?validates then next_version_to_validate else sret None) s))"
    by (simp add: runs_validate runs_refl)
  have "runs valid (s, if ?validates then Validate1 else Execute1) (outcome task_pc
      (sbind (if ?validates then next_version_to_validate else sret None)
                (\<lambda>validate. case validate of
                   Some tx_index \<Rightarrow> sret (ValidationTask tx_index)
                 | None \<Rightarrow>
                     sbind next_version_to_execute (\<lambda>execute. case execute of
                       Some tx_index \<Rightarrow> sret (ExecutionTask tx_index)
                     | None \<Rightarrow> sret NoTask)) s))"
    by (rule runs_sbind, rule start) (simp add: runs_refl exec split: option.splits)
  then have "runs valid (s, if ?validates then Validate1 else Execute1) (outcome task_pc (next_task s))"
    unfolding next_task_def Let_def if_not_P [OF not_done] if_not_P [OF not_passed] .
  then show ?thesis
    by - (rule runs_step, simp add: not_done, rule runs_step, simp, rule runs_step, simp only: thread_step.simps if_not_P [OF not_passed])
qed

lemma runs_finish_execution: "runs valid (s, Running i) (outcome (\<lambda>_. Idle) (finish_execution i s))"
  unfolding finish_execution_def
proof (rule runs_sbind)
  show "runs valid (s, Running i) (outcome (\<lambda>_. FinishExecution2 i) (set_executed_status i s))"
    by (rule runs_step)
      (simp add: with_status_def set_executed_status_def lock_tx_status_def sbind_apply runs_refl)
next
  fix s'
  have "runs valid (s', FinishExecution2 i) (outcome (\<lambda>_. FinishExecution5)
      (if validation_index s' > i then decrease_validation_index i s' else (Ok (), s')))"
  proof (cases "validation_index s' > i")
    case True
    then show ?thesis
      by - (rule runs_step, simp, rule runs_step, simp, rule runs_step,
        simp add: decrease_validation_index_def runs_refl Let_def)
  qed (rule runs_step, simp add: runs_refl)
  moreover have "runs valid (s', FinishExecution5) (outcome (\<lambda>_. Idle) (safe_decrement_n_active_tasks s'))" for s'
    by (rule runs_step)
      (simp add: decrement_then_def safe_decrement_n_active_tasks_def runs_refl Let_def)
  ultimately show "runs valid (s', FinishExecution2 i) (outcome (\<lambda>_. Idle) (sbind
      (\<lambda>s. if validation_index s > i then decrease_validation_index i s else (Ok (), s))
      (\<lambda>_. safe_decrement_n_active_tasks) s'))"
    by (rule runs_sbind)
qed

lemma runs_finish_validation:
  "runs valid (s, if aborted then FinishValidation1 i else FinishValidation5) (outcome task_pc (finish_validation i aborted s))"
proof -
  have dec: "runs valid (s', FinishValidation5) (outcome task_pc (sbind safe_decrement_n_active_tasks (\<lambda>_. sret NoTask) s'))" for s'
    by (rule runs_decrement [where q = Idle]) simp_all
  have "runs valid (s', FinishValidation2 i) (outcome (\<lambda>b. if b then Running i else FinishValidation5)
      (if execution_index s' > i then try_incarnate i s' else (Ok False, s')))" for s'
    by (rule runs_step) (simp add: runs_refl runs_try_incarnate [of _ _ FinishValidation4])
  then have "runs valid (s', FinishValidation2 i) (outcome task_pc
      (sbind (\<lambda>s. if execution_index s > i then try_incarnate i s else (Ok False, s)) (\<lambda>incarnated.
            if incarnated then sret (ExecutionTask i)
            else sbind safe_decrement_n_active_tasks (\<lambda>_. sret NoTask)) s'))" for s'
    by (rule runs_sbind) (simp add: runs_refl dec)
  moreover have "runs valid (s, FinishValidation1 i) (outcome (\<lambda>_. FinishValidation2 i) (set_ready_status i s))"
    by (rule runs_step)
      (simp add: with_status_def set_ready_status_def lock_tx_status_def sbind_apply runs_refl)
  ultimately show ?thesis
    using dec unfolding finish_validation_def by (auto intro: runs_sbind)
qed

lemma runs_try_abort:
  "runs valid (s, TryAbort i) (outcome (\<lambda>aborted. if aborted then FinishValidation1 i else FinishValidation5) (try_validation_abort i s))"
  by (rule runs_step) (simp add: with_status_def try_validation_abort_def lock_tx_status_def sbind_apply runs_refl)


section \<open>Properties\<close>

text \<open>The atomic actions are those of the operations as written: a thread that is not
  interrupted gets from its call of \<open>next_task\<close>, \<open>finish_execution\<close>,
  \<open>try_validation_abort\<close> or \<open>finish_validation\<close> to the task the operation returns, in the
  state the operation leaves, and panics exactly where the operation panics.\<close>

theorem atomic_actions_implement_the_operations:
  "runs valid (s, Idle) (outcome task_pc (next_task s))
 \<and> runs valid (s, Running i) (outcome (\<lambda>_. Idle) (finish_execution i s))
 \<and> runs valid (s, TryAbort i)
     (outcome (\<lambda>aborted. if aborted then FinishValidation1 i else FinishValidation5) (try_validation_abort i s))
 \<and> runs valid (s, if aborted then FinishValidation1 i else FinishValidation5)
     (outcome task_pc (finish_validation i aborted s))"
  by (intro conjI runs_next_task runs_finish_execution runs_try_abort runs_finish_validation)

text \<open>C10: Whatever the interleaving of \<open>n_workers\<close> threads on a chunk of \<open>n\<close> transactions,
  no thread panics (no counter underflow, no unexpected status, no index out of bounds), and
  \<open>n_active_tasks\<close> is the number of threads that hold a task or are fetching one.\<close>

theorem scheduler_never_panics:
  assumes "reach n n_workers k (s, threads)" and "n + n_workers < 2 ^ 64"
  shows "Panicked \<notin> set threads \<and> n_active_tasks s = count active threads"
proof -
  have *: "shape n n_workers (s, threads)" "owned (s, threads)"
    using reach_invariant [OF assms] by auto
  then show ?thesis
    using invariant_thread(3) [OF * assms(2)] by (auto simp: shape_def in_set_conv_nth)
qed

text \<open>C28: Two threads never execute the same transaction at the same time, and a
  transaction that is being executed has the status \<open>Executing\<close>.\<close>

theorem execution_is_exclusive:
  assumes "reach n n_workers k (s, threads)" and "n + n_workers < 2 ^ 64"
    and "t < length threads" and "threads ! t = Running i"
  shows "i < n \<and> tx_statuses s ! i = Executing \<and>
    (\<forall>u. u < length threads \<and> threads ! u = Running i \<longrightarrow> u = t)"
proof -
  have inv: "shape n n_workers (s, threads)" "owned (s, threads)"
    using reach_invariant [OF assms(1,2)] by auto
  then have "pc_ok s (Running i)"
    using assms(3,4) by (fastforce simp: owned_def)
  moreover have "u = t" if "u < length threads" "threads ! u = Running i" for u
    using inv(2) that assms(3,4) unfolding owned_def by (metis owner.simps(2) snd_conv)
  ultimately show ?thesis
    using inv(1) by (auto simp: pc_ok_def shape_def)
qed

text \<open>C27: The done marker is only set on a settled chunk, and stays right: when it is set,
  every transaction is executed, both indices have passed the chunk, and no thread holds a
  task or will get one. (The decrease counter is a \<open>usize\<close>, hence the bound on the number of
  steps.)\<close>

theorem done_marker_means_settled:
  assumes "reach n n_workers k (s, threads)" and "n + n_workers < 2 ^ 64" and "k < 2 ^ 64"
    and "done_marker s"
  shows "n \<le> validation_index s \<and> n \<le> execution_index s
    \<and> (\<forall>i < n. tx_statuses s ! i = Executed)
    \<and> (\<forall>i. Running i \<notin> set threads \<and> Validating i \<notin> set threads \<and> TryAbort i \<notin> set threads)"
proof -
  have "settled (s, threads)" and "chunk_size s = n"
    using reach_checked [OF assms(1-3)] reach_invariant [OF assms(1,2)] assms(4)
    by (simp_all add: checked_def shape_def)
  then show ?thesis
    unfolding settled_def by fastforce
qed

text \<open>A transaction whose validation was aborted is always re-executed by the thread that
  aborted it: \<open>finish_validation\<close> never finds it unready or behind the execution index, so
  the second decrement after a failed \<open>try_incarnate\<close> never happens.\<close>

theorem aborted_transaction_is_reexecuted:
  assumes "reach n n_workers k (s, threads)" and "n + n_workers < 2 ^ 64"
    and "FinishValidation1 i \<in> set threads"
  shows "finish_validation i True s = (Ok (ExecutionTask i), set_status i Executing s)
    \<and> FinishValidation4 \<notin> set threads"
proof -
  have inv: "shape n n_workers (s, threads)" "owned (s, threads)"
    using reach_invariant [OF assms(1,2)] by auto
  then have "pc_ok s (FinishValidation1 i)" and "FinishValidation4 \<notin> set threads"
    using assms(3) invariant_thread(2) [OF inv assms(2)] by (auto simp: owned_def in_set_conv_nth)
  then show ?thesis
    using inv(1)
    by (simp add: pc_ok_def shape_def finish_validation_def set_ready_status_def try_incarnate_def
        lock_tx_status_def set_status_def action_defs)
qed

section \<open>A worker on its own never finishes\<close>

fun solo_ok :: "Scheduler \<Rightarrow> pc \<Rightarrow> bool" where
  "solo_ok s (NextTask2 v) = (v = validation_index s)"
| "solo_ok s Validate1 = (validation_index s < execution_index s \<and> validation_index s < chunk_size s)"
| "solo_ok s Validate2 = (validation_index s < execution_index s \<and> validation_index s < chunk_size s)"
| "solo_ok s Validate3 = (validation_index s < execution_index s \<and> validation_index s < chunk_size s)"
| "solo_ok s (Validate4 i) = (i < execution_index s)"
| "solo_ok s Execute1 = (execution_index s < chunk_size s)"
| "solo_ok s Execute2 = (execution_index s < chunk_size s)"
| "solo_ok s Execute3 = (execution_index s < chunk_size s)"
| "solo_ok s (Execute4 i) = (i < chunk_size s)"
| "solo_ok s Validate5 = False"
| "solo_ok s Execute5 = False"
| "solo_ok s (CheckDone1 r) = False"
| "solo_ok s (CheckDone2 r dc) = False"
| "solo_ok s (CheckDone3 r dc v) = False"
| "solo_ok s (CheckDone4 r dc) = False"
| "solo_ok s (CheckDone5 r dc) = False"
| "solo_ok s (CheckDone6 r) = False"
| "solo_ok s Stopped = False"
| "solo_ok s _ = True"

lemma solo_ok_step:
  assumes "thread_step valid p s = (s', p')" and "solo_ok s p" and "\<not> done_marker s" and "pc_ok s p"
    and "\<And>i. p = Validate4 i \<Longrightarrow> tx_statuses s ! i = Executed"
  shows "solo_ok s' p' \<and> \<not> done_marker s'"
  using assms by (cases p) (auto simp: sched_defs pc_ok_def split: if_splits)

lemma reach_alone:
  assumes "reach n 1 k c" and "n + 1 < 2 ^ 64"
  shows "solo_ok (fst c) (snd c ! 0) \<and> \<not> done_marker (fst c)"
  using assms
proof (induction rule: reach.induct)
  case (more k c c')
  obtain s threads where c: "c = (s, threads)"
    by (cases c)
  have inv: "shape n 1 (s, threads)" "owned (s, threads)"
    using reach_invariant [OF more.hyps(1)] more.prems by (auto simp: c)
  then have one: "length threads = 1" "chunk_size s = n"
    by (simp_all add: shape_def)
  note facts = invariant_thread [OF inv more.prems, of 0]
  obtain valid s' p where run: "thread_step valid (threads ! 0) s = (s', p)" "c' = (s', threads[0 := p])"
    using more.hyps(2) one unfolding c by (cases rule: step.cases) auto
  have "tx_statuses s ! i = Executed" if "threads ! 0 = Validate4 i" for i
    using that inv(2) more.IH more.prems facts(1) one
    by (force simp: owned_def c pc_ok_def)
  then have "solo_ok s' p \<and> \<not> done_marker s'"
    using solo_ok_step [OF run(1)] more.IH more.prems facts(1) one by (auto simp: c)
  then show ?case
    using run(2) one by simp
qed (simp add: Scheduler_new_def)

text \<open>C30: A single worker never finishes its chunk, whatever the validation results: it never
  calls \<open>check_done\<close>, because \<open>next_task\<close> answers \<open>NoTask\<close> as soon as both indices have
  passed the chunk; the done marker stays unset and the worker is never told \<open>Done\<close>.\<close>

theorem single_worker_is_never_done:
  assumes "reach n 1 k (s, threads)" and "n + 1 < 2 ^ 64"
  shows "\<not> done_marker s \<and> Stopped \<notin> set threads"
proof -
  have "length threads = 1"
    using reach_invariant [OF assms] by (simp add: shape_def)
  then show ?thesis
    using reach_alone [OF assms] by (auto simp: in_set_conv_nth)
qed

section \<open>Concrete schedules\<close>

text \<open>A schedule lists, step by step, the thread that moves and the result of its validation.\<close>

fun run_schedule :: "(nat \<times> bool) list \<Rightarrow> Config \<Rightarrow> Config" where
  "run_schedule [] c = c"
| "run_schedule ((t, valid) # rest) c =
     (case thread_step valid (snd c ! t) (fst c) of (s', p) \<Rightarrow> run_schedule rest (s', (snd c)[t := p]))"

lemma reach_run_schedule:
  assumes "reach n n_workers k c" and "\<forall>(t, valid) \<in> set sched. t < length (snd c)"
  shows "reach n n_workers (length sched + k) (run_schedule sched c)"
  using assms
proof (induction sched arbitrary: k c)
  case (Cons x sched)
  obtain t valid where x: "x = (t, valid)"
    by (cases x)
  obtain s' p where run: "thread_step valid (snd c ! t) (fst c) = (s', p)"
    by (cases "thread_step valid (snd c ! t) (fst c)")
  have "step c (s', (snd c)[t := p])"
    using step.thread [of t "snd c" valid "fst c" s' p] run Cons.prems(2) by (simp add: x)
  then have "reach n n_workers (Suc k) (s', (snd c)[t := p])"
    by (rule reach.more [OF Cons.prems(1)])
  then show ?case
    using Cons.IH [of "Suc k" "(s', (snd c)[t := p])"] Cons.prems(2) run by (auto simp: x)
qed simp

definition executed_once :: "(nat \<times> bool) list" where
  "executed_once = replicate 12 (0, True)"

definition done_schedule :: "(nat \<times> bool) list" where
  "done_schedule = executed_once @ replicate 3 (0, True) @ replicate 3 (1, True) @ replicate 6 (0, True) @ replicate 7 (1, True)"

definition abort_schedule :: "(nat \<times> bool) list" where
  "abort_schedule = executed_once @ replicate 7 (0, True) @ [(0, False), (0, True)]"

definition initial_config :: "nat \<Rightarrow> nat \<Rightarrow> Config" where
  "initial_config n n_workers = (Scheduler_new n, replicate n_workers Idle)"

lemma reach_schedule:
  "\<forall>(t, valid) \<in> set sched. t < n_workers \<Longrightarrow> reach n n_workers (length sched) (run_schedule sched (initial_config n n_workers))"
  using reach_run_schedule [OF reach.start, of sched n n_workers] by (auto simp: initial_config_def)

lemma replicate_numeral_Cons: "replicate (numeral k) x = x # replicate (pred_numeral k) x"
  by (simp add: numeral_eq_Suc)

lemmas schedule_defs =
  replicate_numeral_Cons done_schedule_def abort_schedule_def executed_once_def initial_config_def Scheduler_new_def fetch_add_def fetch_sub_def

theorem scheduler_never_panics_witness:
  "Panicked \<notin> set (snd (run_schedule done_schedule (initial_config 1 2)))"
proof -
  have "reach 1 2 31 (run_schedule done_schedule (initial_config 1 2))"
    using reach_schedule [of done_schedule 2 1] by (simp add: done_schedule_def executed_once_def)
  then show ?thesis
    using scheduler_never_panics [of 1 2 31 "fst (run_schedule done_schedule (initial_config 1 2))" "snd (run_schedule done_schedule (initial_config 1 2))"]
    by simp
qed

theorem execution_is_exclusive_witness:
  "snd (run_schedule (replicate 7 (0, True)) (initial_config 2 2)) ! 0 = Running 0
   \<and> tx_statuses (fst (run_schedule (replicate 7 (0, True)) (initial_config 2 2))) ! 0 = Executing"
proof -
  let ?c = "run_schedule (replicate 7 (0, True)) (initial_config 2 2)"
  have "reach 2 2 7 ?c"
    using reach_schedule [of "replicate 7 (0, True)" 2 2] by simp
  moreover have "snd ?c ! 0 = Running 0" and "0 < length (snd ?c)"
    by (simp_all add: schedule_defs sched_defs)
  ultimately show ?thesis
    using execution_is_exclusive [of 2 2 7 "fst ?c" "snd ?c" 0 0] by simp
qed

theorem done_marker_means_settled_witness:
  "done_marker (fst (run_schedule done_schedule (initial_config 1 2)))
   \<and> tx_statuses (fst (run_schedule done_schedule (initial_config 1 2))) ! 0 = Executed"
proof -
  let ?c = "run_schedule done_schedule (initial_config 1 2)"
  have "reach 1 2 31 ?c"
    using reach_schedule [of done_schedule 2 1] by (simp add: done_schedule_def executed_once_def)
  moreover have "done_marker (fst ?c)"
    by (simp add: schedule_defs sched_defs)
  ultimately show ?thesis
    using done_marker_means_settled [of 1 2 31 "fst ?c" "snd ?c"] by simp
qed

theorem aborted_transaction_is_reexecuted_witness:
  "fst (finish_validation 0 True (fst (run_schedule abort_schedule (initial_config 1 2)))) = Ok (ExecutionTask 0)"
proof -
  let ?c = "run_schedule abort_schedule (initial_config 1 2)"
  have "reach 1 2 21 ?c"
    using reach_schedule [of abort_schedule 2 1] by (simp add: abort_schedule_def executed_once_def)
  moreover have "FinishValidation1 0 \<in> set (snd ?c)"
    by (simp add: schedule_defs sched_defs)
  ultimately show ?thesis
    using aborted_transaction_is_reexecuted [of 1 2 21 "fst ?c" "snd ?c" 0] by simp
qed

theorem single_worker_is_never_done_witness:
  "\<not> done_marker (fst (run_schedule (replicate 40 (0, True)) (initial_config 1 1)))
   \<and> execution_index (fst (run_schedule (replicate 40 (0, True)) (initial_config 1 1))) = 1
   \<and> tx_statuses (fst (run_schedule (replicate 40 (0, True)) (initial_config 1 1))) = [Executed]"
proof -
  let ?c = "run_schedule (replicate 40 (0, True)) (initial_config 1 1)"
  have "reach 1 1 40 ?c"
    using reach_schedule [of "replicate 40 (0, True)" 1 1] by simp
  then have "\<not> done_marker (fst ?c)"
    using single_worker_is_never_done [of 1 40 "fst ?c" "snd ?c"] by simp
  moreover have "execution_index (fst ?c) = 1" and "tx_statuses (fst ?c) = [Executed]"
    by (simp_all add: schedule_defs sched_defs)
  ultimately show ?thesis
    by simp
qed

end
