(* ===== verification/Scheduler_Solo.thy ===== *)
theory Scheduler_Solo
  imports Scheduler
begin

text \<open>
  One worker on a chunk. The loop of \<open>run\<close> (\<open>concurrency/worker_logic.rs\<close>) is followed one
  iteration at a time on the operations of the scheduler: a task is handled, or the next one is asked
  for. The verdicts of the validations, whose body in the code is a \<open>todo!()\<close>, are given as a list; a
  failed validation aborts the transaction, as the interface of the scheduler provides.
\<close>

section \<open>The loop of a worker\<close>




section \<open>What it should do\<close>







section \<open>Lemmas\<close>




text \<open>The scheduler when the first \<open>i\<close> transactions are settled, and when the next one waits for its validation.\<close>

definition statuses_at :: "nat \<Rightarrow> nat \<Rightarrow> TransactionStatus \<Rightarrow> TransactionStatus list" where
  "statuses_at n i status = replicate i Executed @ status # replicate (n - Suc i) ReadyToExecute"




lemma statuses_at_simps [simp]:
  "i < n \<Longrightarrow> length (statuses_at n i status) = n" "statuses_at n i status ! i = status"
  "(statuses_at n i status)[i := status'] = statuses_at n i status'" "statuses_at n i status \<noteq> []"
  by (simp_all add: statuses_at_def nth_append list_update_append)













section \<open>Properties\<close>



end
