(* ===== verification/Versioned_State.thy ===== *)
theory Versioned_State
  imports Versioned_Storage Dict_State_Reader
begin

text \<open>
  The shared state of a chunk of concurrently executed transactions
  (\<open>concurrency/versioned_state_proxy.rs\<close>). A worker reads through a proxy pinned at its
  transaction index; the proxy is shown to satisfy the contract \<open>state_reader\<close>, its view at
  index \<open>i\<close> being the initial state overlaid with the writes of the transactions below \<open>i\<close>.
  The state is guarded by one mutex, so each operation here is one atomic step.
\<close>

section \<open>The versioned state\<close>

record 's VersionedState =
  vst_initial_state :: 's
  vst_storage :: "(StorageEntry, StarkFelt) VersionedStorage"
  vst_nonces :: "(ContractAddress, Nonce) VersionedStorage"
  vst_class_hashes :: "(ContractAddress, ClassHash) VersionedStorage"
  vst_compiled_class_hashes :: "(ClassHash, CompiledClassHash) VersionedStorage"
  vst_compiled_contract_classes :: "(ClassHash, ContractClass) VersionedStorage"

definition VersionedState_new :: "'s \<Rightarrow> 's VersionedState" where
  "VersionedState_new initial_state =
     \<lparr>vst_initial_state = initial_state,
      vst_storage = VersionedStorage_default,
      vst_nonces = VersionedStorage_default,
      vst_class_hashes = VersionedStorage_default,
      vst_compiled_class_hashes = VersionedStorage_default,
      vst_compiled_contract_classes = VersionedStorage_default\<rparr>"

definition VersionedState_get_writes :: "'s VersionedState \<Rightarrow> TxIndex \<Rightarrow> StateMaps" where
  "VersionedState_get_writes self from_index =
     \<lparr>sm_nonces = get_writes_from_index (vst_nonces self) from_index,
      sm_class_hashes = get_writes_from_index (vst_class_hashes self) from_index,
      sm_storage = get_writes_from_index (vst_storage self) from_index,
      sm_compiled_class_hashes = get_writes_from_index (vst_compiled_class_hashes self) from_index,
      sm_declared_contracts = []\<rparr>"

definition VersionedState_commit :: "'s VersionedState \<Rightarrow> TxIndex \<Rightarrow> 't CachedState \<Rightarrow> 't CachedState" where
  "VersionedState_commit self from_index parent_state =
     update_contract_class_cache
       (get_writes_from_index (vst_compiled_contract_classes self) from_index)
       (update_cache (VersionedState_get_writes self from_index) parent_state)"

fun validate_map :: "('k \<Rightarrow> 'v option) \<Rightarrow> ('k, 'v) HashMap \<Rightarrow> (StateError, bool) result" where
  "validate_map read [] = Ok True"
| "validate_map read ((key, expected_value) # reads) =
     (case read key of
        None \<Rightarrow> Panic ''Error: read value missing in the versioned storage''
      | Some v \<Rightarrow> if v \<noteq> expected_value then Ok False else validate_map read reads)"

definition and_then :: "(StateError, bool) result \<Rightarrow> (StateError, bool) result \<Rightarrow> (StateError, bool) result" where
  "and_then r r' = (case r of Ok True \<Rightarrow> r' | _ \<Rightarrow> r)"

definition validate_reads :: "'s VersionedState \<Rightarrow> TxIndex \<Rightarrow> StateMaps \<Rightarrow> (StateError, bool) result" where
  "validate_reads self tx_index reads =
     (if tx_index = 0 then Ok True
      else and_then (validate_map (vs_read (vst_storage self) tx_index) (sm_storage reads))
        (and_then (validate_map (vs_read (vst_nonces self) tx_index) (sm_nonces reads))
          (and_then (validate_map (vs_read (vst_class_hashes self) tx_index) (sm_class_hashes reads))
            (validate_map (vs_read (vst_compiled_class_hashes self) tx_index)
               (sm_compiled_class_hashes reads)))))"

definition apply_writes ::
    "TxIndex \<Rightarrow> StateMaps \<Rightarrow> ContractClassMapping \<Rightarrow> 's VersionedState \<Rightarrow> 's VersionedState" where
  "apply_writes tx_index maps class_hash_to_class self =
     \<lparr>vst_initial_state = vst_initial_state self,
      vst_storage = fold (\<lambda>(k, v). vs_write tx_index k v) (sm_storage maps) (vst_storage self),
      vst_nonces = fold (\<lambda>(k, v). vs_write tx_index k v) (sm_nonces maps) (vst_nonces self),
      vst_class_hashes = fold (\<lambda>(k, v). vs_write tx_index k v) (sm_class_hashes maps) (vst_class_hashes self),
      vst_compiled_class_hashes =
        fold (\<lambda>(k, v). vs_write tx_index k v) (sm_compiled_class_hashes maps) (vst_compiled_class_hashes self),
      vst_compiled_contract_classes =
        fold (\<lambda>(k, v). vs_write tx_index k v) class_hash_to_class (vst_compiled_contract_classes self)\<rparr>"

section \<open>The proxy pinned at a transaction index\<close>

definition proxy_get_storage_at ::
    "'s StateReader \<Rightarrow> TxIndex \<Rightarrow> ContractAddress \<Rightarrow> StorageKey \<Rightarrow> ('s VersionedState, StateError, StarkFelt) action" where
  "proxy_get_storage_at R tx_index contract_address key state =
     (case vs_read (vst_storage state) tx_index (contract_address, key) of
        Some v \<Rightarrow> (Ok v, state)
      | None \<Rightarrow>
          (case sr_get_storage_at R contract_address key (vst_initial_state state) of
             (r, s0) \<Rightarrow>
               (let state' = state\<lparr>vst_initial_state := s0\<rparr> in
                case r of
                  Ok initial_value \<Rightarrow>
                    (Ok initial_value, state'\<lparr>vst_storage :=
                       set_initial_value (contract_address, key) initial_value (vst_storage state')\<rparr>)
                | Err e \<Rightarrow> (Err e, state')
                | Panic p \<Rightarrow> (Panic p, state'))))"

definition proxy_get_nonce_at ::
    "'s StateReader \<Rightarrow> TxIndex \<Rightarrow> ContractAddress \<Rightarrow> ('s VersionedState, StateError, Nonce) action" where
  "proxy_get_nonce_at R tx_index contract_address state =
     (case vs_read (vst_nonces state) tx_index contract_address of
        Some v \<Rightarrow> (Ok v, state)
      | None \<Rightarrow>
          (case sr_get_nonce_at R contract_address (vst_initial_state state) of
             (r, s0) \<Rightarrow>
               (let state' = state\<lparr>vst_initial_state := s0\<rparr> in
                case r of
                  Ok initial_value \<Rightarrow>
                    (Ok initial_value, state'\<lparr>vst_nonces :=
                       set_initial_value contract_address initial_value (vst_nonces state')\<rparr>)
                | Err e \<Rightarrow> (Err e, state')
                | Panic p \<Rightarrow> (Panic p, state'))))"

definition proxy_get_class_hash_at ::
    "'s StateReader \<Rightarrow> TxIndex \<Rightarrow> ContractAddress \<Rightarrow> ('s VersionedState, StateError, ClassHash) action" where
  "proxy_get_class_hash_at R tx_index contract_address state =
     (case vs_read (vst_class_hashes state) tx_index contract_address of
        Some v \<Rightarrow> (Ok v, state)
      | None \<Rightarrow>
          (case sr_get_class_hash_at R contract_address (vst_initial_state state) of
             (r, s0) \<Rightarrow>
               (let state' = state\<lparr>vst_initial_state := s0\<rparr> in
                case r of
                  Ok initial_value \<Rightarrow>
                    (Ok initial_value, state'\<lparr>vst_class_hashes :=
                       set_initial_value contract_address initial_value (vst_class_hashes state')\<rparr>)
                | Err e \<Rightarrow> (Err e, state')
                | Panic p \<Rightarrow> (Panic p, state'))))"

definition proxy_get_compiled_class_hash ::
    "'s StateReader \<Rightarrow> TxIndex \<Rightarrow> ClassHash \<Rightarrow> ('s VersionedState, StateError, CompiledClassHash) action" where
  "proxy_get_compiled_class_hash R tx_index class_hash state =
     (case vs_read (vst_compiled_class_hashes state) tx_index class_hash of
        Some v \<Rightarrow> (Ok v, state)
      | None \<Rightarrow>
          (case sr_get_compiled_class_hash R class_hash (vst_initial_state state) of
             (r, s0) \<Rightarrow>
               (let state' = state\<lparr>vst_initial_state := s0\<rparr> in
                case r of
                  Ok initial_value \<Rightarrow>
                    (Ok initial_value, state'\<lparr>vst_compiled_class_hashes :=
                       set_initial_value class_hash initial_value (vst_compiled_class_hashes state')\<rparr>)
                | Err e \<Rightarrow> (Err e, state')
                | Panic p \<Rightarrow> (Panic p, state'))))"

definition proxy_get_compiled_contract_class ::
    "'s StateReader \<Rightarrow> TxIndex \<Rightarrow> ClassHash \<Rightarrow> ('s VersionedState, StateError, ContractClass) action" where
  "proxy_get_compiled_contract_class R tx_index class_hash state =
     (case vs_read (vst_compiled_contract_classes state) tx_index class_hash of
        Some v \<Rightarrow> (Ok v, state)
      | None \<Rightarrow>
          (case sr_get_compiled_contract_class R class_hash (vst_initial_state state) of
             (r, s0) \<Rightarrow>
               (let state' = state\<lparr>vst_initial_state := s0\<rparr> in
                case r of
                  Ok initial_value \<Rightarrow>
                    (Ok initial_value, state'\<lparr>vst_compiled_contract_classes :=
                       set_initial_value class_hash initial_value (vst_compiled_contract_classes state')\<rparr>)
                | Err e \<Rightarrow> (Err e, state')
                | Panic p \<Rightarrow> (Panic p, state'))))"

definition pin_version :: "'s StateReader \<Rightarrow> TxIndex \<Rightarrow> 's VersionedState StateReader" where
  "pin_version R tx_index =
     \<lparr>sr_get_storage_at = proxy_get_storage_at R tx_index,
      sr_get_nonce_at = proxy_get_nonce_at R tx_index,
      sr_get_class_hash_at = proxy_get_class_hash_at R tx_index,
      sr_get_compiled_contract_class = proxy_get_compiled_contract_class R tx_index,
      sr_get_compiled_class_hash = proxy_get_compiled_class_hash R tx_index\<rparr>"

section \<open>Specification\<close>

text \<open>What transaction \<open>i\<close> of the chunk is supposed to see.\<close>

definition version_view :: "('s \<Rightarrow> StateView) \<Rightarrow> 's VersionedState \<Rightarrow> TxIndex \<Rightarrow> StateView" where
  "version_view view s i =
     \<lparr>sv_storage = (\<lambda>a k. overlay (latest_write (vst_storage s) i (a, k)) (sv_storage (view (vst_initial_state s)) a k)),
      sv_nonce = (\<lambda>a. overlay (latest_write (vst_nonces s) i a) (sv_nonce (view (vst_initial_state s)) a)),
      sv_class_hash = (\<lambda>a. overlay (latest_write (vst_class_hashes s) i a) (sv_class_hash (view (vst_initial_state s)) a)),
      sv_class = (\<lambda>h. overlay (latest_write (vst_compiled_contract_classes s) i h) (sv_class (view (vst_initial_state s)) h)),
      sv_compiled_class_hash = (\<lambda>h. overlay (latest_write (vst_compiled_class_hashes s) i h)
        (sv_compiled_class_hash (view (vst_initial_state s)) h))\<rparr>"

definition initial_agrees :: "('k, 'v) VersionedStorage \<Rightarrow> ('k \<Rightarrow> (StateError, 'v) result) \<Rightarrow> bool" where
  "initial_agrees vs base \<longleftrightarrow> vs_wf vs \<and> (\<forall>k v. map_of (cached_initial_values vs) k = Some v \<longrightarrow> base k = Ok v)"

definition version_inv :: "('s \<Rightarrow> StateView) \<Rightarrow> ('s \<Rightarrow> bool) \<Rightarrow> 's VersionedState \<Rightarrow> bool" where
  "version_inv view ok s \<longleftrightarrow> ok (vst_initial_state s)
     \<and> initial_agrees (vst_storage s) (\<lambda>e. sv_storage (view (vst_initial_state s)) (fst e) (snd e))
     \<and> initial_agrees (vst_nonces s) (sv_nonce (view (vst_initial_state s)))
     \<and> initial_agrees (vst_class_hashes s) (sv_class_hash (view (vst_initial_state s)))
     \<and> initial_agrees (vst_compiled_class_hashes s) (sv_compiled_class_hash (view (vst_initial_state s)))
     \<and> initial_agrees (vst_compiled_contract_classes s) (sv_class (view (vst_initial_state s)))"

text \<open>Overlaying a view with the writes of one transaction.\<close>

definition overlay_writes :: "StateMaps \<Rightarrow> ContractClassMapping \<Rightarrow> StateView \<Rightarrow> StateView" where
  "overlay_writes w classes V =
     \<lparr>sv_storage = (\<lambda>a k. overlay (map_of (sm_storage w) (a, k)) (sv_storage V a k)),
      sv_nonce = (\<lambda>a. overlay (map_of (sm_nonces w) a) (sv_nonce V a)),
      sv_class_hash = (\<lambda>a. overlay (map_of (sm_class_hashes w) a) (sv_class_hash V a)),
      sv_class = (\<lambda>h. overlay (map_of classes h) (sv_class V h)),
      sv_compiled_class_hash = (\<lambda>h. overlay (map_of (sm_compiled_class_hashes w) h) (sv_compiled_class_hash V h))\<rparr>"

definition serial_view :: "(StateMaps \<times> ContractClassMapping) list \<Rightarrow> StateView \<Rightarrow> StateView" where
  "serial_view txs V = foldl (\<lambda>V (w, classes). overlay_writes w classes V) V txs"

definition apply_all :: "(TxIndex \<times> StateMaps \<times> ContractClassMapping) list \<Rightarrow> 's VersionedState \<Rightarrow> 's VersionedState" where
  "apply_all schedule s = foldl (\<lambda>s (i, w, classes). apply_writes i w classes s) s schedule"

definition writes_wf :: "StateMaps \<times> ContractClassMapping \<Rightarrow> bool" where
  "writes_wf wc \<longleftrightarrow> maps_wf (fst wc) \<and> hm_wf (snd wc)"

text \<open>What the storages record for one transaction.\<close>

definition wrote :: "'s VersionedState \<Rightarrow> TxIndex \<Rightarrow> StateMaps \<times> ContractClassMapping \<Rightarrow> bool" where
  "wrote s i wc \<longleftrightarrow>
     (\<forall>e. vs_at (vst_storage s) e i = map_of (sm_storage (fst wc)) e)
   \<and> (\<forall>a. vs_at (vst_nonces s) a i = map_of (sm_nonces (fst wc)) a)
   \<and> (\<forall>a. vs_at (vst_class_hashes s) a i = map_of (sm_class_hashes (fst wc)) a)
   \<and> (\<forall>h. vs_at (vst_compiled_class_hashes s) h i = map_of (sm_compiled_class_hashes (fst wc)) h)
   \<and> (\<forall>h. vs_at (vst_compiled_contract_classes s) h i = map_of (snd wc) h)"

definition untouched :: "'s VersionedState \<Rightarrow> TxIndex \<Rightarrow> bool" where
  "untouched s i \<longleftrightarrow>
     (\<forall>e. vs_at (vst_storage s) e i = None) \<and> (\<forall>a. vs_at (vst_nonces s) a i = None)
   \<and> (\<forall>a. vs_at (vst_class_hashes s) a i = None) \<and> (\<forall>h. vs_at (vst_compiled_class_hashes s) h i = None)
   \<and> (\<forall>h. vs_at (vst_compiled_contract_classes s) h i = None)"

definition same_writes :: "'s VersionedState \<Rightarrow> 's VersionedState \<Rightarrow> TxIndex \<Rightarrow> bool" where
  "same_writes s s' j \<longleftrightarrow>
     (\<forall>e. vs_at (vst_storage s) e j = vs_at (vst_storage s') e j)
   \<and> (\<forall>a. vs_at (vst_nonces s) a j = vs_at (vst_nonces s') a j)
   \<and> (\<forall>a. vs_at (vst_class_hashes s) a j = vs_at (vst_class_hashes s') a j)
   \<and> (\<forall>h. vs_at (vst_compiled_class_hashes s) h j = vs_at (vst_compiled_class_hashes s') h j)
   \<and> (\<forall>h. vs_at (vst_compiled_contract_classes s) h j = vs_at (vst_compiled_contract_classes s') h j)"

definition reads_present :: "'s VersionedState \<Rightarrow> TxIndex \<Rightarrow> StateMaps \<Rightarrow> bool" where
  "reads_present s i reads \<longleftrightarrow>
     dom (map_of (sm_storage reads)) \<subseteq> dom (vs_read (vst_storage s) i)
   \<and> dom (map_of (sm_nonces reads)) \<subseteq> dom (vs_read (vst_nonces s) i)
   \<and> dom (map_of (sm_class_hashes reads)) \<subseteq> dom (vs_read (vst_class_hashes s) i)
   \<and> dom (map_of (sm_compiled_class_hashes reads)) \<subseteq> dom (vs_read (vst_compiled_class_hashes s) i)"

text \<open>
  An interleaving of a chunk: workers read through proxies pinned at any version, any number of
  times, and transactions publish their writes; a re-executed transaction publishes again.
\<close>

datatype StateRead =
    ReadStorage ContractAddress StorageKey
  | ReadNonce ContractAddress
  | ReadClassHash ContractAddress
  | ReadClass ClassHash
  | ReadCompiledClassHash ClassHash

datatype ChunkStep = ProxyRead TxIndex StateRead | Publish TxIndex StateMaps ContractClassMapping

fun chunk_step :: "'s StateReader \<Rightarrow> ChunkStep \<Rightarrow> 's VersionedState \<Rightarrow> 's VersionedState" where
  "chunk_step R (ProxyRead i (ReadStorage a k)) s = snd (proxy_get_storage_at R i a k s)"
| "chunk_step R (ProxyRead i (ReadNonce a)) s = snd (proxy_get_nonce_at R i a s)"
| "chunk_step R (ProxyRead i (ReadClassHash a)) s = snd (proxy_get_class_hash_at R i a s)"
| "chunk_step R (ProxyRead i (ReadClass h)) s = snd (proxy_get_compiled_contract_class R i h s)"
| "chunk_step R (ProxyRead i (ReadCompiledClassHash h)) s = snd (proxy_get_compiled_class_hash R i h s)"
| "chunk_step R (Publish i w classes) s = apply_writes i w classes s"

definition run_chunk :: "'s StateReader \<Rightarrow> ChunkStep list \<Rightarrow> 's VersionedState \<Rightarrow> 's VersionedState" where
  "run_chunk R chunk s = fold (chunk_step R) chunk s"

text \<open>What each transaction published last.\<close>

fun publish :: "ChunkStep \<Rightarrow> (TxIndex \<Rightarrow> StateMaps \<times> ContractClassMapping) \<Rightarrow> TxIndex \<Rightarrow> StateMaps \<times> ContractClassMapping" where
  "publish (ProxyRead i q) P = P"
| "publish (Publish i w classes) P = P(i := (w, classes))"

definition published :: "ChunkStep list \<Rightarrow> TxIndex \<Rightarrow> StateMaps \<times> ContractClassMapping" where
  "published chunk = fold publish chunk (\<lambda>i. (StateMaps_default, []))"

definition covers :: "StateMaps \<times> ContractClassMapping \<Rightarrow> StateMaps \<times> ContractClassMapping \<Rightarrow> bool" where
  "covers wc old \<longleftrightarrow>
     dom (map_of (sm_storage (fst old))) \<subseteq> dom (map_of (sm_storage (fst wc)))
   \<and> dom (map_of (sm_nonces (fst old))) \<subseteq> dom (map_of (sm_nonces (fst wc)))
   \<and> dom (map_of (sm_class_hashes (fst old))) \<subseteq> dom (map_of (sm_class_hashes (fst wc)))
   \<and> dom (map_of (sm_compiled_class_hashes (fst old))) \<subseteq> dom (map_of (sm_compiled_class_hashes (fst wc)))
   \<and> dom (map_of (snd old)) \<subseteq> dom (map_of (snd wc))"

fun step_covers :: "(TxIndex \<Rightarrow> StateMaps \<times> ContractClassMapping) \<Rightarrow> ChunkStep \<Rightarrow> bool" where
  "step_covers P (ProxyRead i q) = True"
| "step_covers P (Publish i w classes) = (writes_wf (w, classes) \<and> covers (w, classes) (P i))"

fun chunk_covers :: "(TxIndex \<Rightarrow> StateMaps \<times> ContractClassMapping) \<Rightarrow> ChunkStep list \<Rightarrow> bool" where
  "chunk_covers P [] = True"
| "chunk_covers P (step # chunk) = (step_covers P step \<and> chunk_covers (publish step P) chunk)"

definition tx_example :: "TxIndex \<Rightarrow> StateMaps \<times> ContractClassMapping" where
  "tx_example i = (StateMaps_default\<lparr>sm_storage := [((7, 10), 8 + i)]\<rparr>, [])"

section \<open>Lemmas\<close>

lemma initial_agrees_read:
  assumes "initial_agrees vs base"
  shows "overlay (vs_read vs i k) (base k) = overlay (latest_write vs i k) (base k)"
  using assms
  by (cases "latest_write vs i k"; cases "map_of (cached_initial_values vs) k")
    (simp_all add: vs_read_latest initial_agrees_def)

lemma initial_agrees_set_initial:
  "initial_agrees vs base \<Longrightarrow> base k = Ok v \<Longrightarrow> initial_agrees (set_initial_value k v vs) base"
  by (simp add: initial_agrees_def) (simp add: set_initial_value_def)

lemma latest_write_set_initial [simp]: "latest_write (set_initial_value k v vs) = latest_write vs"
  by (simp add: latest_write_def set_initial_value_def fun_eq_iff)

text \<open>The common shape of a read through the proxy.\<close>

lemma proxy_read_cases:
  assumes "initial_agrees vs base"
  obtains v where "vs_read vs i k = Some v" and "overlay (latest_write vs i k) (base k) = Ok v"
    | "vs_read vs i k = None" and "overlay (latest_write vs i k) (base k) = base k"
proof (cases "vs_read vs i k")
  case None
  then show thesis
    using that(2) initial_agrees_read [OF assms, of i k] by simp
next
  case (Some v)
  then show thesis
    using that(1) initial_agrees_read [OF assms, of i k] by simp
qed

lemma pin_version_is_state_reader:
  assumes "state_reader R view ok"
  shows "state_reader (pin_version R i) (\<lambda>s. version_view view s i) (version_inv view ok)"
proof
  fix s a k
  assume inv: "version_inv view ok s"
  then have ok: "ok (vst_initial_state s)"
    by (simp add: version_inv_def)
  note laws = state_reader.storage_law [OF assms ok, of a k] state_reader.nonce_law [OF assms ok, of a]
    state_reader.class_hash_law [OF assms ok, of a] state_reader.class_law [OF assms ok, of a]
    state_reader.compiled_class_hash_law [OF assms ok, of a]
  note agrees = inv [unfolded version_inv_def]
  note defs = pin_version_def version_view_def version_inv_def initial_agrees_set_initial Let_def
  show "fst (sr_get_storage_at (pin_version R i) a k s) = sv_storage (version_view view s i) a k
    \<and> version_inv view ok (snd (sr_get_storage_at (pin_version R i) a k s))
    \<and> version_view view (snd (sr_get_storage_at (pin_version R i) a k s)) i = version_view view s i"
    using agrees laws(1)
    by (rule_tac proxy_read_cases [of "vst_storage s" "\<lambda>e. sv_storage (view (vst_initial_state s)) (fst e) (snd e)" i "(a, k)"])
      (auto simp: defs proxy_get_storage_at_def split: prod.splits result.splits)
  show "fst (sr_get_nonce_at (pin_version R i) a s) = sv_nonce (version_view view s i) a
    \<and> version_inv view ok (snd (sr_get_nonce_at (pin_version R i) a s))
    \<and> version_view view (snd (sr_get_nonce_at (pin_version R i) a s)) i = version_view view s i"
    using agrees laws(2)
    by (rule_tac proxy_read_cases [of "vst_nonces s" "sv_nonce (view (vst_initial_state s))" i a])
      (auto simp: defs proxy_get_nonce_at_def split: prod.splits result.splits)
  show "fst (sr_get_class_hash_at (pin_version R i) a s) = sv_class_hash (version_view view s i) a
    \<and> version_inv view ok (snd (sr_get_class_hash_at (pin_version R i) a s))
    \<and> version_view view (snd (sr_get_class_hash_at (pin_version R i) a s)) i = version_view view s i"
    using agrees laws(3)
    by (rule_tac proxy_read_cases [of "vst_class_hashes s" "sv_class_hash (view (vst_initial_state s))" i a])
      (auto simp: defs proxy_get_class_hash_at_def split: prod.splits result.splits)
  show "fst (sr_get_compiled_contract_class (pin_version R i) a s) = sv_class (version_view view s i) a
    \<and> version_inv view ok (snd (sr_get_compiled_contract_class (pin_version R i) a s))
    \<and> version_view view (snd (sr_get_compiled_contract_class (pin_version R i) a s)) i = version_view view s i"
    using agrees laws(4)
    by (rule_tac proxy_read_cases [of "vst_compiled_contract_classes s" "sv_class (view (vst_initial_state s))" i a])
      (auto simp: defs proxy_get_compiled_contract_class_def split: prod.splits result.splits)
  show "fst (sr_get_compiled_class_hash (pin_version R i) a s) = sv_compiled_class_hash (version_view view s i) a
    \<and> version_inv view ok (snd (sr_get_compiled_class_hash (pin_version R i) a s))
    \<and> version_view view (snd (sr_get_compiled_class_hash (pin_version R i) a s)) i = version_view view s i"
    using agrees laws(5)
    by (rule_tac proxy_read_cases [of "vst_compiled_class_hashes s" "sv_compiled_class_hash (view (vst_initial_state s))" i a])
      (auto simp: defs proxy_get_compiled_class_hash_def split: prod.splits result.splits)
qed

interpretation dict_proxy:
  state_reader "pin_version dict_reader i" "\<lambda>s. version_view dict_view s i" "version_inv dict_view dict_ok" for i
  by (rule pin_version_is_state_reader) (rule dict.state_reader_axioms)

subsection \<open>Versions and writes\<close>

lemma version_inv_new [simp]: "version_inv view ok (VersionedState_new s) \<longleftrightarrow> ok s"
  by (simp add: version_inv_def VersionedState_new_def initial_agrees_def) (simp add: VersionedStorage_default_def)

lemma version_view_0: "version_view view s 0 = view (vst_initial_state s)"
  by (simp add: version_view_def)

lemma version_view_Suc:
  assumes "version_inv view ok s" and "wrote s i wc"
  shows "version_view view s (Suc i) = overlay_writes (fst wc) (snd wc) (version_view view s i)"
proof -
  have wf: "vs_wf (vst_storage s)" "vs_wf (vst_nonces s)" "vs_wf (vst_class_hashes s)"
      "vs_wf (vst_compiled_class_hashes s)" "vs_wf (vst_compiled_contract_classes s)"
    using assms(1) by (simp_all add: version_inv_def initial_agrees_def)
  have split: "overlay (or_else x y) r = overlay x (overlay y r)" for x y and r :: "(StateError, 'v) result"
    by (cases x) simp_all
  show ?thesis
    using assms(2) by (simp add: version_view_def overlay_writes_def wrote_def latest_write_Suc wf split)
qed

lemma version_view_cong:
  assumes "version_inv view ok s" and "version_inv view ok s'"
    and "vst_initial_state s = vst_initial_state s'"
    and "\<And>j. j < i \<Longrightarrow> same_writes s s' j"
  shows "version_view view s i = version_view view s' i"
proof -
  have latest: "latest_write vs i k = latest_write vs' i k"
    if "vs_wf vs" "vs_wf vs'" "\<And>j. j < i \<Longrightarrow> vs_at vs k j = vs_at vs' k j"
    for vs vs' :: "('k, 'v) VersionedStorage" and k i
    using that(3) by (induction i) (simp_all add: latest_write_Suc that(1,2))
  show ?thesis
    using assms by (auto simp: version_view_def version_inv_def initial_agrees_def same_writes_def fun_eq_iff
        intro!: arg_cong2 [where f = overlay] latest)
qed

lemma apply_writes_wrote:
  assumes "version_inv view ok s" and "writes_wf (w, classes)"
  shows "version_inv view ok (apply_writes i w classes s)"
    and "vst_initial_state (apply_writes i w classes s) = vst_initial_state s"
    and "j \<noteq> i \<Longrightarrow> same_writes (apply_writes i w classes s) s j"
    and "untouched s i \<Longrightarrow> wrote (apply_writes i w classes s) i (w, classes)"
  using assms vs_write_all [of "vst_storage s" "sm_storage w" i] vs_write_all [of "vst_nonces s" "sm_nonces w" i]
    vs_write_all [of "vst_class_hashes s" "sm_class_hashes w" i]
    vs_write_all [of "vst_compiled_class_hashes s" "sm_compiled_class_hashes w" i]
    vs_write_all [of "vst_compiled_contract_classes s" classes i]
  by (simp_all add: version_inv_def initial_agrees_def apply_writes_def writes_wf_def maps_wf_def
      same_writes_def untouched_def wrote_def)

lemma wrote_same_writes: "same_writes s s' j \<Longrightarrow> wrote s j wc \<longleftrightarrow> wrote s' j wc"
  by (simp add: same_writes_def wrote_def)

lemma untouched_same_writes: "same_writes s s' j \<Longrightarrow> untouched s j \<longleftrightarrow> untouched s' j"
  by (simp add: same_writes_def untouched_def)

lemma untouched_new [simp]: "untouched (VersionedState_new s) i"
  by (simp add: untouched_def VersionedState_new_def VersionedStorage_default_def vs_at_eq)

text \<open>Transactions that finish in any order leave every version as if they had run serially.\<close>

lemma apply_all_wrote:
  assumes "version_inv view ok s" and "\<And>i. i \<in> set order \<Longrightarrow> writes_wf (txs i)" and "distinct order"
    and "\<And>i. i \<in> set order \<Longrightarrow> untouched s i"
  shows "version_inv view ok (apply_all (map (\<lambda>i. (i, txs i)) order) s)
    \<and> vst_initial_state (apply_all (map (\<lambda>i. (i, txs i)) order) s) = vst_initial_state s
    \<and> (\<forall>i \<in> set order. wrote (apply_all (map (\<lambda>i. (i, txs i)) order) s) i (txs i))
    \<and> (\<forall>i. i \<notin> set order \<longrightarrow> same_writes (apply_all (map (\<lambda>i. (i, txs i)) order) s) s i)"
  using assms
proof (induction order arbitrary: s)
  case Nil
  then show ?case
    by (simp add: apply_all_def same_writes_def)
next
  case (Cons i order)
  obtain w classes where tx: "txs i = (w, classes)"
    by fastforce
  let ?s = "apply_writes i w classes s"
  have wf: "writes_wf (w, classes)"
    using Cons.prems(2) [of i] by (simp add: tx)
  note step = apply_writes_wrote [OF Cons.prems(1) wf, where i = i]
  have rest: "untouched ?s j" if "j \<in> set order" for j
    using Cons.prems(3,4) that step(3) [of j] untouched_same_writes by (metis distinct.simps(2) list.set_intros(2))
  have run: "apply_all (map (\<lambda>i. (i, txs i)) (i # order)) s = apply_all (map (\<lambda>i. (i, txs i)) order) ?s"
    by (simp add: apply_all_def tx)
  have IH: "version_inv view ok (apply_all (map (\<lambda>i. (i, txs i)) order) ?s)
    \<and> vst_initial_state (apply_all (map (\<lambda>i. (i, txs i)) order) ?s) = vst_initial_state ?s
    \<and> (\<forall>i \<in> set order. wrote (apply_all (map (\<lambda>i. (i, txs i)) order) ?s) i (txs i))
    \<and> (\<forall>i. i \<notin> set order \<longrightarrow> same_writes (apply_all (map (\<lambda>i. (i, txs i)) order) ?s) ?s i)"
    using Cons.IH [of ?s] Cons.prems(2,3) step(1) rest by simp
  have "wrote (apply_all (map (\<lambda>i. (i, txs i)) order) ?s) i (txs i)"
    using IH Cons.prems(3) step(4) Cons.prems(4) wrote_same_writes tx by (metis distinct.simps(2) list.set_intros(1))
  moreover have "same_writes (apply_all (map (\<lambda>i. (i, txs i)) order) ?s) s j"
    if "j \<notin> set (i # order)" for j
    using IH that step(3) [of j] by (simp add: same_writes_def)
  ultimately show ?case
    using IH step(2) unfolding run by auto
qed

lemma serial_view_snoc: "serial_view (txs @ [wc]) V = overlay_writes (fst wc) (snd wc) (serial_view txs V)"
  by (simp add: serial_view_def case_prod_beta)

lemma version_view_serial:
  assumes "version_inv view ok s" and "\<And>i. i < n \<Longrightarrow> wrote s i (txs i)" and "j \<le> n"
  shows "version_view view s j = serial_view (map txs [0..<j]) (view (vst_initial_state s))"
  using assms(3)
proof (induction j)
  case 0
  then show ?case
    by (simp add: version_view_0 serial_view_def)
next
  case (Suc j)
  then show ?case
    using version_view_Suc [OF assms(1) assms(2)] by (simp add: serial_view_snoc)
qed

subsection \<open>Interleavings of reads and writes\<close>

definition chunk_inv ::
    "('s \<Rightarrow> StateView) \<Rightarrow> ('s \<Rightarrow> bool) \<Rightarrow> StateView \<Rightarrow> (TxIndex \<Rightarrow> StateMaps \<times> ContractClassMapping) \<Rightarrow> 's VersionedState \<Rightarrow> bool" where
  "chunk_inv view ok V P s \<longleftrightarrow> version_inv view ok s \<and> view (vst_initial_state s) = V \<and> (\<forall>i. wrote s i (P i))"

text \<open>A read through a proxy publishes nothing and leaves the initial state as it was.\<close>

lemma chunk_inv_read:
  assumes "state_reader R view ok" and "chunk_inv view ok V P s"
  shows "chunk_inv view ok V P (chunk_step R (ProxyRead i q) s)"
proof -
  have inv: "version_inv view ok s"
    using assms(2) by (simp add: chunk_inv_def)
  then have ok: "ok (vst_initial_state s)"
    by (simp add: version_inv_def)
  note pinned = pin_version_is_state_reader [OF assms(1), of i]
  note kept = state_reader.storage_law [OF pinned inv] state_reader.nonce_law [OF pinned inv]
    state_reader.class_hash_law [OF pinned inv] state_reader.class_law [OF pinned inv]
    state_reader.compiled_class_hash_law [OF pinned inv]
  have "version_inv view ok (chunk_step R (ProxyRead i q) s)"
    using kept by (cases q) (simp_all add: pin_version_def)
  moreover have "view (vst_initial_state (chunk_step R (ProxyRead i q) s)) = view (vst_initial_state s)
    \<and> (\<forall>j. wrote (chunk_step R (ProxyRead i q) s) j (P j) = wrote s j (P j))"
    using state_reader.storage_law [OF assms(1) ok] state_reader.nonce_law [OF assms(1) ok]
      state_reader.class_hash_law [OF assms(1) ok] state_reader.class_law [OF assms(1) ok]
      state_reader.compiled_class_hash_law [OF assms(1) ok]
    by (cases q)
      (auto simp: proxy_get_storage_at_def proxy_get_nonce_at_def proxy_get_class_hash_at_def
        proxy_get_compiled_contract_class_def proxy_get_compiled_class_hash_def wrote_def Let_def
        split: option.splits prod.splits result.splits; metis snd_conv)+
  ultimately show ?thesis
    using assms(2) by (simp add: chunk_inv_def)
qed

lemma or_else_covers: "dom m \<subseteq> dom w \<Longrightarrow> or_else (w k) (m k) = w k"
  by (cases "w k") auto

lemma chunk_inv_publish:
  assumes "chunk_inv view ok V P s" and "writes_wf (w, classes)" and "covers (w, classes) (P i)"
  shows "chunk_inv view ok V (P(i := (w, classes))) (apply_writes i w classes s)"
proof -
  have inv: "version_inv view ok s" and V: "view (vst_initial_state s) = V" and "wrote s i (P i)" and others: "\<And>j. wrote s j (P j)"
    using assms(1) by (simp_all add: chunk_inv_def)
  note step = apply_writes_wrote [OF inv assms(2), where i = i]
  have "wrote (apply_writes i w classes s) i (w, classes)"
    using \<open>wrote s i (P i)\<close> inv assms(2,3) vs_write_all [of "vst_storage s" "sm_storage w" i]
      vs_write_all [of "vst_nonces s" "sm_nonces w" i] vs_write_all [of "vst_class_hashes s" "sm_class_hashes w" i]
      vs_write_all [of "vst_compiled_class_hashes s" "sm_compiled_class_hashes w" i]
      vs_write_all [of "vst_compiled_contract_classes s" classes i]
    by (simp add: wrote_def apply_writes_def writes_wf_def maps_wf_def version_inv_def initial_agrees_def covers_def
        or_else_covers)
  moreover have "wrote (apply_writes i w classes s) j (P j)" if "j \<noteq> i" for j
    using wrote_same_writes [OF step(3) [OF that]] others by simp
  ultimately show ?thesis
    using step(1,2) V by (simp add: chunk_inv_def)
qed

lemma chunk_inv_run:
  assumes "state_reader R view ok" and "chunk_inv view ok V P s" and "chunk_covers P chunk"
  shows "chunk_inv view ok V (fold publish chunk P) (run_chunk R chunk s)"
  using assms(2,3)
proof (induction chunk arbitrary: P s)
  case (Cons step chunk)
  have "chunk_inv view ok V (publish step P) (chunk_step R step s)"
    using Cons.prems chunk_inv_read [OF assms(1)] chunk_inv_publish by (cases step) auto
  then show ?case
    using Cons.IH [of "publish step P" "chunk_step R step s"] Cons.prems(2) by (simp add: run_chunk_def)
qed (simp add: run_chunk_def)

lemma chunk_inv_new: "ok base \<Longrightarrow> chunk_inv view ok (view base) (\<lambda>i. (StateMaps_default, [])) (VersionedState_new base)"
  by (simp add: chunk_inv_def wrote_def StateMaps_default_def)
    (simp add: VersionedState_new_def VersionedStorage_default_def vs_at_eq)

subsection \<open>Committing a chunk\<close>

lemma extend_overlay:
  "cache_view (pcache\<lparr>writes := StateMaps_extend (writes pcache) w\<rparr>) (hm_extend pclasses classes) V =
    overlay_writes w classes (cache_view pcache pclasses V)"
proof -
  have merge: "overlay (or_else (case x of None \<Rightarrow> y | Some v \<Rightarrow> Some v) z) r = overlay x (overlay (or_else y z) r)"
    for x y z :: "'v option" and r :: "(StateError, 'v) result"
    by (cases x) simp_all
  have merge': "overlay (case x of None \<Rightarrow> y | Some v \<Rightarrow> Some v) r = overlay x (overlay y r)"
    for x y :: "'v option" and r :: "(StateError, 'v) result"
    by (cases x) simp_all
  show ?thesis
    by (simp add: cache_view_def overlay_writes_def StateMaps_extend_def map_add_def merge merge'
        StateCache_get_storage_at_def StateCache_get_nonce_at_def StateCache_get_class_hash_at_def
        StateCache_get_compiled_class_hash_def)
qed

lemma commit_chunk_view:
  "cached_view pview (VersionedState_commit s n parent) =
    overlay_writes (VersionedState_get_writes s n) (get_writes_from_index (vst_compiled_contract_classes s) n)
      (cached_view pview parent)"
  by (simp add: VersionedState_commit_def update_contract_class_cache_def update_cache_def cached_view_eq
      extend_overlay)

lemma version_view_writes:
  assumes "version_inv view ok s"
  shows "version_view view s (Suc n) =
    overlay_writes (VersionedState_get_writes s n) (get_writes_from_index (vst_compiled_contract_classes s) n)
      (view (vst_initial_state s))"
  using assms
  by (simp add: version_view_def overlay_writes_def VersionedState_get_writes_def version_inv_def
      initial_agrees_def map_of_get_writes_from_index)

subsection \<open>Validation of a read set\<close>

lemma validate_map_spec:
  assumes "hm_wf m" and "\<And>k. k \<in> dom (map_of m) \<Longrightarrow> rd k \<noteq> None"
  shows "validate_map rd m = Ok (\<forall>k v. map_of m k = Some v \<longrightarrow> rd k = Some v)"
  using assms
proof (induction m)
  case (Cons e m)
  obtain k v where e: "e = (k, v)"
    by fastforce
  have "hm_wf m" and none: "map_of m k = None"
    using Cons.prems(1) by (simp_all add: e hm_wf_def map_of_eq_None_iff)
  moreover obtain u where u: "rd k = Some u"
    using Cons.prems(2) [of k] by (auto simp: e dom_def)
  moreover have "\<And>j. j \<in> dom (map_of m) \<Longrightarrow> rd j \<noteq> None"
    using Cons.prems(2) by (auto simp: e dom_def)
  ultimately have "validate_map rd m = Ok (\<forall>k v. map_of m k = Some v \<longrightarrow> rd k = Some v)"
    using Cons.IH by blast
  then show ?case
    using none u by (auto simp: e) (metis option.distinct(1))
qed simp

lemma overlay_Ok_iff:
  assumes "initial_agrees vs base" and "vs_read vs i k \<noteq> None"
  shows "overlay (latest_write vs i k) (base k) = Ok v \<longleftrightarrow> vs_read vs i k = Some v"
  using initial_agrees_read [OF assms(1), of i k] assms(2) by auto

lemma validate_reads_spec:
  assumes "version_inv view ok s" and "maps_wf reads" and "reads_present s i reads" and "i \<noteq> 0"
  shows "validate_reads s i reads = Ok (reads_agree reads (version_view view s i))"
proof -
  note present = assms(3) [unfolded reads_present_def]
  note inv = assms(1) [unfolded version_inv_def]
  note wf = assms(2) [unfolded maps_wf_def]
  have ok: "overlay (latest_write vs i k) (base k) = Ok v \<longleftrightarrow> vs_read vs i k = Some v"
    if "initial_agrees vs base" "dom (map_of m) \<subseteq> dom (vs_read vs i)" "map_of m k = Some u"
    for vs :: "('k, 'v) VersionedStorage" and base k v u and m :: "('k, 'v) HashMap"
    using that by (intro overlay_Ok_iff) (auto simp: dom_def)
  have valid: "validate_map (vs_read vs i) m =
      Ok (\<forall>k v. map_of m k = Some v \<longrightarrow> overlay (latest_write vs i k) (base k) = Ok v)"
    if "initial_agrees vs base" "hm_wf m" "dom (map_of m) \<subseteq> dom (vs_read vs i)"
    for vs :: "('k, 'v) VersionedStorage" and base and m :: "('k, 'v) HashMap"
    using that validate_map_spec [of m "vs_read vs i"] ok [OF that(1,3)] by (auto simp: dom_def)
  show ?thesis
    using valid [of "vst_storage s" "\<lambda>e. sv_storage (view (vst_initial_state s)) (fst e) (snd e)" "sm_storage reads"]
      valid [of "vst_nonces s" "sv_nonce (view (vst_initial_state s))" "sm_nonces reads"]
      valid [of "vst_class_hashes s" "sv_class_hash (view (vst_initial_state s))" "sm_class_hashes reads"]
      valid [of "vst_compiled_class_hashes s" "sv_compiled_class_hash (view (vst_initial_state s))"
        "sm_compiled_class_hashes reads"] inv wf present assms(4)
    by (auto simp: validate_reads_def and_then_def reads_agree_def version_view_def split: bool.splits)
qed

section \<open>A concrete chunk\<close>

lemma tx_example_wf [simp]: "writes_wf (tx_example i)"
  by (simp add: tx_example_def writes_wf_def) (simp add: maps_wf_def StateMaps_default_def hm_wf_def)

lemma serial_example:
  "sv_storage (serial_view [tx_example 0, tx_example (Suc 0)] (dict_view dict_example)) 7 10 = Ok 9"
  by (simp add: serial_view_def overlay_writes_def tx_example_def StateMaps_default_def)

lemma version_example:
  "vs_read (vst_storage (apply_all (map (\<lambda>i. (i, tx_example i)) [1, 0]) (VersionedState_new dict_example))) 2 (7, 10) =
     Some 9"
  "sv_storage (version_view dict_view
     (apply_all (map (\<lambda>i. (i, tx_example i)) [1, 0]) (VersionedState_new dict_example)) 2) 7 10 = Ok 9"
  "sv_storage (version_view dict_view
     (apply_all (map (\<lambda>i. (i, tx_example i)) [1, 0]) (VersionedState_new dict_example)) (Suc (Suc 0))) 7 10 = Ok 9"
  by (simp_all add: apply_all_def apply_writes_def tx_example_def StateMaps_default_def VersionedState_new_def
      VersionedStorage_default_def vs_write_def vs_read_eq version_view_def latest_write_def range_below_def
      next_back_def hm_insert_def)

section \<open>Properties\<close>

definition chunk_example :: "ChunkStep list" where
  "chunk_example =
     [ProxyRead 1 (ReadStorage 7 10), Publish 0 (fst (tx_example 0)) [], ProxyRead 2 (ReadStorage 7 10),
      Publish 1 (fst (tx_example 1)) [], Publish 0 (fst (tx_example 5)) []]"

text \<open>C7: Concurrent execution has the effect of serial execution. Workers read through proxies
  pinned at any version and publish the writes of their transactions, in any interleaving, and a
  re-executed transaction publishes again, at least the cells it published before. At every point,
  every getter of the proxy of transaction \<open>j\<close> answers what the initial state answers after the
  writes last published by the transactions \<open>0, ..., j - 1\<close>, applied one after the other: neither
  earlier reads, which cache initial values, nor later transactions leak into it.\<close>

theorem versions_are_serial:
  assumes "state_reader R view ok" and "ok base" and "chunk_covers (\<lambda>i. (StateMaps_default, [])) chunk"
  shows "let s = run_chunk R chunk (VersionedState_new base);
             serial = serial_view (map (published chunk) [0..<j]) (view base)
    in fst (proxy_get_storage_at R j a k s) = sv_storage serial a k
     \<and> fst (proxy_get_nonce_at R j a s) = sv_nonce serial a
     \<and> fst (proxy_get_class_hash_at R j a s) = sv_class_hash serial a
     \<and> fst (proxy_get_compiled_contract_class R j h s) = sv_class serial h
     \<and> fst (proxy_get_compiled_class_hash R j h s) = sv_compiled_class_hash serial h"
proof -
  let ?s = "run_chunk R chunk (VersionedState_new base)"
  have "chunk_inv view ok (view base) (published chunk) ?s"
    using chunk_inv_run [OF assms(1) chunk_inv_new [of ok base view, OF assms(2)] assms(3)] by (simp add: published_def)
  then have inv: "version_inv view ok ?s"
    and serial: "version_view view ?s j = serial_view (map (published chunk) [0..<j]) (view base)"
    using version_view_serial [of view ok ?s j "published chunk" j] by (simp_all add: chunk_inv_def)
  note pinned = pin_version_is_state_reader [OF assms(1), of j]
  show ?thesis
    using state_reader.storage_law [OF pinned inv, of a k] state_reader.nonce_law [OF pinned inv, of a]
      state_reader.class_hash_law [OF pinned inv, of a] state_reader.class_law [OF pinned inv, of h]
      state_reader.compiled_class_hash_law [OF pinned inv, of h]
    by (simp add: pin_version_def serial Let_def)
qed

theorem versions_are_serial_witness:
  "fst (proxy_get_storage_at dict_reader 1 7 10 (run_chunk dict_reader chunk_example (VersionedState_new dict_example))) = Ok 13
   \<and> fst (proxy_get_storage_at dict_reader 2 7 10 (run_chunk dict_reader chunk_example (VersionedState_new dict_example))) = Ok 9"
proof -
  have "chunk_covers (\<lambda>i. (StateMaps_default, [])) chunk_example"
    using tx_example_wf [of 0] tx_example_wf [of 1] tx_example_wf [of 5]
    by (simp add: chunk_example_def tx_example_def covers_def StateMaps_default_def)
  from versions_are_serial [OF dict.state_reader_axioms TrueI this, where base = dict_example and j = 1 and a = 7 and k = 10]
    versions_are_serial [OF dict.state_reader_axioms TrueI this, where base = dict_example and j = 2 and a = 7 and k = 10]
  show ?thesis
    by (simp add: Let_def numeral_2_eq_2 serial_view_def published_def chunk_example_def overlay_writes_def tx_example_def
        StateMaps_default_def)
qed

text \<open>C24: Committing a chunk up to transaction \<open>n\<close> brings the parent state exactly to what a
  transaction \<open>n + 1\<close> of the chunk would see, provided the parent had the view of the
  chunk's initial state.\<close>

theorem chunk_commit_reaches_the_last_version:
  assumes "version_inv view ok s" and "cached_view pview parent = view (vst_initial_state s)"
  shows "cached_view pview (VersionedState_commit s n parent) = version_view view s (Suc n)"
  using assms by (simp add: commit_chunk_view version_view_writes)

theorem chunk_commit_reaches_the_last_version_witness:
  "sv_storage (cached_view dict_view (VersionedState_commit
      (apply_all (map (\<lambda>i. (i, tx_example i)) [1, 0]) (VersionedState_new dict_example)) 1 cached_example)) 7 10 = Ok 9"
proof -
  let ?s = "apply_all (map (\<lambda>i. (i, tx_example i)) [1, 0]) (VersionedState_new dict_example)"
  have s: "version_inv dict_view dict_ok ?s" "vst_initial_state ?s = dict_example"
    using apply_all_wrote [of dict_view dict_ok "VersionedState_new dict_example" "[1, 0]" tx_example]
    by (simp_all add: tx_example_wf) (simp add: VersionedState_new_def)
  have "cached_view dict_view cached_example = dict_view (vst_initial_state ?s)"
    unfolding s(2) by (simp add: cached_example_def)
  from chunk_commit_reaches_the_last_version [OF s(1) this, of 1] show ?thesis
    using version_example by simp
qed

text \<open>C25: Validation of a read set is exact. For a transaction that is not the first of its
  chunk, and reads whose cells the versioned state knows, \<open>validate_reads\<close> does not panic and
  answers whether every recorded value is the value its version of the state holds now.\<close>

theorem validate_reads_is_exact:
  assumes "version_inv view ok s" and "maps_wf reads" and "reads_present s i reads" and "i \<noteq> 0"
  shows "validate_reads s i reads = Ok (reads_agree reads (version_view view s i))"
  using assms by (rule validate_reads_spec)

theorem validate_reads_is_exact_witness:
  "validate_reads (apply_all (map (\<lambda>i. (i, tx_example i)) [1, 0]) (VersionedState_new dict_example)) 2
     (StateMaps_default\<lparr>sm_storage := [((7, 10), 8)]\<rparr>) = Ok False"
proof -
  let ?s = "apply_all (map (\<lambda>i. (i, tx_example i)) [1, 0]) (VersionedState_new dict_example)"
  let ?reads = "StateMaps_default\<lparr>sm_storage := [((7, 10), 8)]\<rparr>"
  have s: "version_inv dict_view dict_ok ?s"
    using apply_all_wrote [of dict_view dict_ok "VersionedState_new dict_example" "[1, 0]" tx_example]
    by (simp add: tx_example_wf)
  have "maps_wf ?reads"
    by (simp add: maps_wf_def StateMaps_default_def hm_wf_def)
  moreover have "reads_present ?s 2 ?reads"
    using version_example by (simp add: reads_present_def StateMaps_default_def dom_def)
  ultimately show ?thesis
    using validate_reads_is_exact [OF s, of ?reads 2] version_example
    by (simp add: reads_agree_def StateMaps_default_def)
qed

text \<open>C26: Writes of an earlier incarnation survive a re-execution. When a transaction is
  executed again and its new write set misses a cell that its previous execution wrote,
  \<open>apply_writes\<close> leaves the old value in place, and the next transaction still reads it.\<close>

theorem reexecution_keeps_stale_writes:
  assumes "version_inv view ok s" and "writes_wf (w, classes)" and "writes_wf (w', classes')"
    and "map_of (sm_storage w) e = Some v" and "map_of (sm_storage w') e = None"
  shows "vs_read (vst_storage (apply_writes i w' classes' (apply_writes i w classes s))) (Suc i) e = Some v"
proof -
  have inv: "version_inv view ok (apply_writes i w classes s)"
    by (rule apply_writes_wrote(1) [OF assms(1,2)])
  have wf: "vs_wf (vst_storage s)" "vs_wf (vst_storage (apply_writes i w classes s))"
    using assms(1) inv by (simp_all add: version_inv_def initial_agrees_def)
  have maps: "hm_wf (sm_storage w)" "hm_wf (sm_storage w')"
    using assms(2,3) by (simp_all add: writes_wf_def maps_wf_def)
  have "vs_at (vst_storage (apply_writes i w' classes' (apply_writes i w classes s))) e i = Some v"
    using vs_write_all [OF wf(1) maps(1), of i] vs_write_all [OF wf(2) maps(2), of i] assms(4,5)
    by (cases e) (simp add: apply_writes_def)
  moreover have "vs_wf (vst_storage (apply_writes i w' classes' (apply_writes i w classes s)))"
    using vs_write_all [OF wf(2) maps(2), of i] by (simp add: apply_writes_def)
  ultimately show ?thesis
    by (simp add: vs.read_Suc)
qed

theorem reexecution_keeps_stale_writes_witness:
  "vs_read (vst_storage (apply_writes 0 StateMaps_default []
      (apply_writes 0 (StateMaps_default\<lparr>sm_storage := [((7, 10), 8)]\<rparr>) [] (VersionedState_new dict_example))))
     1 (7, 10) = Some 8"
  using reexecution_keeps_stale_writes [of dict_view dict_ok "VersionedState_new dict_example"
      "StateMaps_default\<lparr>sm_storage := [((7, 10), 8)]\<rparr>" "[]" StateMaps_default "[]" "(7, 10)" 8 0]
  by (simp add: writes_wf_def) (simp add: maps_wf_def StateMaps_default_def hm_wf_def)

end
