(* ===== verification/Worker.thy ===== *)
theory Worker
  imports Account_Transactions Versioned_State Scheduler
begin

text \<open>
  A worker of the concurrent execution of a chunk (\<open>concurrency/worker_logic.rs\<close>). It executes the
  transaction of a task on the versioned state pinned at the index of the transaction, applies its
  writes when it succeeded, and stores the output. The validation of a task is a \<open>todo!()\<close> in the
  source and panics here.

  The shared objects are the fields of \<open>WorkerExecutor\<close>. An operation of a worker is modelled as
  uninterrupted; the interleavings of scheduler operations are those of the scheduler's own theory.
\<close>

record ExecutionTaskOutput =
  eto_reads :: StateMaps
  eto_writes :: StateMaps
  eto_visited_pcs :: VisitedPcs
  eto_result :: "(TransactionExecutionError, TransactionExecutionInfo) result"

record 's WorkerExecutor =
  we_scheduler :: Scheduler
  we_state :: "'s VersionedState"
  we_chunk :: "Transaction list"
  we_execution_outputs :: "ExecutionTaskOutput option list"
  we_block_context :: BlockContext

text \<open>The reader at the bottom of a stack of cached states; here, the shared versioned state.\<close>

primrec inner_base :: "'s StateImpl \<Rightarrow> 's"
  and base_reader :: "'s CachedState \<Rightarrow> 's"
where
  "inner_base (BaseReader s) = s"
| "inner_base (MutRefState c) = base_reader c"
| "base_reader (CachedState state cache classes pcs) = inner_base state"

definition execute_tx ::
    "'t ErrorTexts_scheme \<Rightarrow> 'a Externals_scheme \<Rightarrow> 'm VmApi \<Rightarrow> 's StateReader \<Rightarrow> TxIndex
      \<Rightarrow> ('s WorkerExecutor, unit, unit) action" where
  "execute_tx T E V R tx_index =
     (\<lambda>self.
        if tx_index \<ge> length (we_chunk self) then (Panic ''index out of bounds'', self)
        else
          (let tx = we_chunk self ! tx_index;
               tx_state = CachedState_new (BaseReader (we_state self));
               validate = True;
               charge_fee = True
           in case Transaction_execute_raw T E V (pin_version R tx_index) tx (we_block_context self) charge_fee validate
                     (create_transactional tx_state) of
                (execution_result, transactional_state) \<Rightarrow>
                  (let state = base_reader transactional_state;
                       tx_reads_writes = cs_cache transactional_state
                   in if is_panic execution_result then (Panic ''worker panicked'', self\<lparr>we_state := state\<rparr>)
                      else if tx_index \<ge> length (we_execution_outputs self)
                      then (Panic ''Cell must exist in array'', self\<lparr>we_state := state\<rparr>)
                      else
                        (Ok (), self\<lparr>
                           we_state := (if is_ok execution_result
                             then apply_writes tx_index (writes tx_reads_writes)
                                    (cs_class_hash_to_class transactional_state) state
                             else state),
                           we_execution_outputs := (we_execution_outputs self)[tx_index := Some
                             \<lparr>eto_reads = initial_reads tx_reads_writes,
                              eto_writes = (if is_ok execution_result then writes tx_reads_writes else StateMaps_default),
                              eto_visited_pcs = (if is_ok execution_result then cs_visited_pcs transactional_state else []),
                              eto_result = execution_result\<rparr>]\<rparr>))))"

definition on_scheduler :: "'b sched \<Rightarrow> ('s WorkerExecutor, unit, 'b) action" where
  "on_scheduler act =
     (\<lambda>self. case act (we_scheduler self) of (r, scheduler) \<Rightarrow> (r, self\<lparr>we_scheduler := scheduler\<rparr>))"

definition WorkerExecutor_execute ::
    "'t ErrorTexts_scheme \<Rightarrow> 'a Externals_scheme \<Rightarrow> 'm VmApi \<Rightarrow> 's StateReader \<Rightarrow> TxIndex
      \<Rightarrow> ('s WorkerExecutor, unit, unit) action" where
  "WorkerExecutor_execute T E V R tx_index =
     sbind (execute_tx T E V R tx_index) (\<lambda>_. on_scheduler (finish_execution tx_index))"

definition WorkerExecutor_validate :: "TxIndex \<Rightarrow> ('s WorkerExecutor, unit, Task) action" where
  "WorkerExecutor_validate tx_index = slift (Panic ''not yet implemented'')"

text \<open>The body of the loop of \<open>run\<close>: the task that follows one that is not \<open>Done\<close>.\<close>

definition WorkerExecutor_step ::
    "'t ErrorTexts_scheme \<Rightarrow> 'a Externals_scheme \<Rightarrow> 'm VmApi \<Rightarrow> 's StateReader \<Rightarrow> Task
      \<Rightarrow> ('s WorkerExecutor, unit, Task) action" where
  "WorkerExecutor_step T E V R task =
     (case task of
        ExecutionTask tx_index \<Rightarrow> sbind (WorkerExecutor_execute T E V R tx_index) (\<lambda>_. sret NoTask)
      | ValidationTask tx_index \<Rightarrow> WorkerExecutor_validate tx_index
      | NoTask \<Rightarrow> on_scheduler next_task
      | Done \<Rightarrow> sret Done)"

end
