(* ===== verification/Spec2Isabelle.thy ===== *)
theory Spec2Isabelle
  imports Block_Properties Execution_Properties Fee_Properties Native_Properties Scheduler_Properties Scheduler_Solo Worker
begin

text \<open>
  A verification development of the blockifier, the transaction-execution component of a
  Starknet sequencer (\<open>src/crates/blockifier/src\<close>; file names below are relative to it unless they begin
  with \<open>native_blockifier\<close>, the crate through which a Python sequencer drives it).

  \<^bold>\<open>The program.\<close> A sequencer hands transactions to a \<open>TransactionExecutor\<close>. Each transaction runs on a
  transactional view of the state of the block: it is checked (version, nonce, fee bounds), validated
  by its account contract, executed, and charged. Executing means calling entry points of contracts in
  the Cairo VM, whose system calls come back into this program: they read and write storage, emit
  events, and call other contracts. A receipt turns what was consumed into gas and a fee; a bouncer
  decides whether the transaction still fits into the block. A chunk of transactions may also be
  executed by several workers over a versioned state, coordinated by a scheduler. The sequencer sets up
  and finalizes blocks through a block executor, which reads the state from a Papyrus database behind a
  shared class cache and appends finished blocks to it.

  \<^bold>\<open>Conventions\<close> (\<open>Prelude\<close>). Machine integers are words of their width and wrap around, as in a release
  build; field elements, hashes and addresses are natural numbers. A fallible function returns a
  \<open>result\<close> with the constructors \<open>Ok\<close>, \<open>Err\<close> and \<open>Panic\<close>, so every error return and every \<open>panic!\<close>,
  \<open>expect\<close>, \<open>unwrap\<close>, \<open>todo!\<close> or failing index is a branch. A method on \<open>&mut self\<close> is an \<open>action\<close>, a
  function from the state to a result and the state afterwards; \<open>sbind\<close> is the operator \<open>?\<close>. Hash maps are
  association lists with distinct keys. \<open>keeps P m\<close> says that the action \<open>m\<close> preserves \<open>P\<close> whatever its
  outcome; the collection \<open>keeps_intros\<close> has a rule per construct, and most invariants are proved by
  applying it.

  \<^bold>\<open>Code that is not under src/.\<close> The record \<open>Externals\<close> (\<open>Starknet_Types\<close>) holds the third-party
  functions: hashes, the arithmetic of execution resources and of rationals, builtin names, address
  bounds; \<open>VmApi\<close> (\<open>Vm_Memory\<close>) those of the Cairo VM, whose run of a program is the tree of its hints;
  \<open>ErrorTexts\<close> (\<open>Error_Traces\<close>) the texts generated for innermost errors. \<open>PapyrusApi\<close>,
  \<open>StorageApi\<close> and \<open>SizedCache\<close> those of the Papyrus database and of the class cache. They are arguments of the
  definitions. Laws of them are hypotheses of the statements that need them, and hold of
  \<open>Reference_Externals\<close> and \<open>Reference_Vm\<close>. \<open>StateReader\<close> (\<open>Cached_State\<close>) is the trait of that name.

  \<^bold>\<open>State\<close> (\<open>state/\<close>, \<open>utils.rs\<close>, \<open>abi/\<close>).
  \<^item> \<open>Cached_State\<close>: \<open>StateCache\<close>, \<open>CachedState\<close>, \<open>MutRefState\<close> and their operations, with nesting as a
    mutual datatype; \<open>State_Changes\<close>: actual state changes, the state diff and the keys counted by the
    bouncer; \<open>Abi\<close>: selectors, storage addresses, Sierra integers.
  \<^item> \<open>State_View\<close>: the meaning of a state as five total functions, the contract of a reader (the locale
    \<open>state_reader\<close>) and the refinement of every operation to it, at any nesting depth.
    \<open>Dict_State_Reader\<close> interprets the locale on the dictionary reader of the crate, and on a cached
    state over any reader. Shown: reads return the view, writes within their contract update it,
    committing is running directly on the parent, aborting restores it; changes and diffs are exactly the
    difference of views (for compiled class hashes, which the code subtracts less strictly, of the writes
    and the values read).

  \<^bold>\<open>Constants, contexts, fees\<close> (\<open>versioned_constants.rs\<close>, \<open>context.rs\<close>, \<open>blockifier/block.rs\<close>, \<open>fee/\<close>,
  \<open>transaction/objects.rs\<close>).
  \<^item> \<open>Versioned_Constants\<close>, \<open>Context\<close>, \<open>Gas_Usage\<close>, \<open>Fee_Checks\<close>: one definition per function.
  \<^item> Shown: \<open>parse_gas_costs\<close> solves its equations and ends (\<open>Gas_Cost_Equations\<close>; any fuel above the depth of
    the definitions is enough); validated OS resources make no lookup panic; a fee is the exact cost,
    capped; VM usage is charged by the heaviest resource, with a panic exactly on a resource without cost;
    the fee recommended after execution is within what the sender committed to, and its report is free of
    errors exactly if the limit and the balance of the sender cover it (\<open>Fee_Properties\<close>).

  \<^bold>\<open>Execution\<close> (\<open>execution/\<close>).
  \<^item> \<open>Call_Info\<close>: call trees and their iterator; \<open>Contract_Class\<close>: classes, entry points, visited segments
    (\<open>Visited_Segments\<close> gives their meaning); \<open>Entry_Point\<close>: step budgets and the recursion guard.
  \<^item> \<open>Vm_Memory\<close>, \<open>Syscall_Base\<close>, \<open>Secp\<close>, \<open>Syscalls\<close>, \<open>Deprecated_Syscalls\<close>: memory helpers, and all system
    calls of both handlers with their requests, responses, gas and segments.
  \<^item> \<open>Entry_Point_Execution\<close>: both ways of running an entry point, and \<open>execute\<close>, with fuel for every level
    up to the maximal recursion depth. \<open>Call_Depth\<close> shows that more fuel changes nothing (so \<open>execute\<close> is
    the recursive method) and that an execution keeps every invariant of the state that reads and writes
    keep (the locale \<open>state_invariant\<close>).
  \<^item> \<open>Call_Invariants\<close>, \<open>Call_Trees\<close>, \<open>Execution_Properties\<close>: what holds of the call tree of a successful
    execution, proved once for both handlers (the locale \<open>handler\<close>) against the contract of the executor of
    inner calls (the locale \<open>executor\<close>): gas, numbering of events, and the restrictions of validate mode.
  \<^item> \<open>Round_Trips\<close>: 256-bit integers through VM memory, selectors and their names.
  \<^item> \<open>Error_Traces\<close>: the trace of a failed transaction and the formatting of its error. Formatting is
    recursive and need not end, hence fuel; with one nested call it returns whenever it returns at all.

  \<^bold>\<open>Transactions and blocks\<close> (\<open>transaction/\<close>, \<open>blockifier/\<close>, \<open>bouncer.rs\<close>).
  \<^item> \<open>Transactions\<close>, \<open>Account_Transactions\<close>: the four kinds of transaction and every stage of
    \<open>AccountTransaction\<close>; \<open>Transaction_Executor\<close>: \<open>TransactionExecutor\<close> and \<open>StatefulValidator\<close>;
    \<open>Bouncer\<close>: weights and capacities.
  \<^item> \<open>Transaction_Invariants\<close>: the locales \<open>declaring_invariant\<close>, \<open>stage_invariant\<close> and
    \<open>transaction_invariant\<close>, each extending the one before, reduce an invariant of a whole transaction,
    nested states included, to the operations of the state.
  \<^item> \<open>Transaction_Properties\<close>: a failed transaction leaves no trace, a revert keeps only validation, nonces
    move by one. \<open>Bouncer\<close>, \<open>Block_Properties\<close>: the block stays within its capacity, accounts for
    exactly the executed transactions, and counts every cell they actually changed once.

  \<^bold>\<open>Concurrency\<close> (\<open>concurrency/\<close>).
  \<^item> \<open>Versioned_Storage\<close> (the locale \<open>versioned_map\<close>) and \<open>Versioned_State\<close>: in any
    interleaving of reads and publications of writes, a read at a version is the serial execution of all
    lower versions; validation of reads; commit of a chunk.
  \<^item> \<open>Scheduler\<close> models each operation twice, as written and as atomic actions of a thread;
    \<open>Scheduler_Safety\<close> proves an inductive invariant over every interleaving of any number of workers, and
    \<open>Scheduler_Properties\<close> what follows from it. \<open>Scheduler_Solo\<close>: the tasks a worker on its own is handed,
    for any number of failed validations, in a number of iterations that is given exactly. \<open>Worker\<close>: the
    loop of a worker and its execution task.

  \<^bold>\<open>The native interface\<close> (\<open>native_blockifier/src\<close>, \<open>state/global_cache.rs\<close>).
  \<^item> \<open>Papyrus_Reader\<close>: the reader over the database with the shared class cache. It meets the contract of a
    reader (\<open>state_reader\<close>) for every database and every cache that obeys \<open>cache_laws\<close>, and is interpreted
    with a least recently used cache.
  \<^item> \<open>Native_Storage\<close>: \<open>PapyrusStorage\<close> and the conversions of state diffs; \<open>Native_Block_Executor\<close>:
    \<open>PyBlockExecutor\<close>, \<open>PyValidator\<close> and their configuration, between the extraction of arguments from Python
    objects and the serialization of results.
  \<^item> \<open>Native_Properties\<close>: the cache never changes an answer; \<open>append_block\<close> writes the state diff and header it
    should, with replaced separated from deployed classes, and commits at its end only; a block is set up
    exactly on valid input, with the context it was given.

  \<^bold>\<open>Examples.\<close> \<open>Example_Context\<close>, \<open>Execution_Example\<close> and \<open>Transaction_Example\<close> are concrete inputs on which the
  hypotheses of the properties are shown to hold.

  \<^bold>\<open>Not modelled.\<close> The conversion of Python objects to transactions and the Python state reader
  (\<open>native_blockifier/src/py_transaction.rs\<close> and the files of the transaction kinds, \<open>py_state_reader.rs\<close>):
  what an attribute of a Python object holds is decided by PyO3 and the Python side. Parsing of
  JSON (versioned constants, contract classes): \<open>serde\<close> and the
  Cairo compiler; the model starts from the parsed values. \<open>execute_chunk\<close> and the validation task of a
  worker are \<open>todo!()\<close> in the source and panic here. \<open>format_panic_data\<close> and the messages of log and error
  macros: text without effect. Test utilities and benchmarks.
\<close>

end
